(* ===== verification/Base.thy ===== *)
theory Base
  imports Complex_Main
begin

text \<open>
  Prelude of the development: the types every component shares (object ids, amounts,
  instants), exceptions as values, the state-and-exception procedures in which the
  services are written and the generic loop over documents. Collections and their locales are
  in \<open>Store\<close>.

  Conventions.
  \<^item> A MongoDB ObjectId is a natural number (the 96-bit value of its 12 bytes).
  \<^item> A JavaScript \<^verbatim>\<open>number\<close> holding an amount of money is an exact rational:
    rounding happens where the code calls \<^verbatim>\<open>Math.round\<close>, and nowhere else.
  \<^item> A \<^verbatim>\<open>Date\<close> is its time value, the number of milliseconds since the epoch.
  \<^item> An optional field that may be \<^verbatim>\<open>undefined\<close> or \<^verbatim>\<open>null\<close> is an option.
  \<^item> An exception carries the template of its message (accents dropped) and the values
    the template interpolates.
  \<^item> Writes made before an exception stay, as they do in the database: a procedure returns
    its final state in the error case too.
\<close>

named_theorems proc_simps
named_theorems col_simps

section \<open>Values\<close>

type_synonym oid = nat
type_synonym monto = rat
type_synonym fecha = int

datatype arg = AId oid | ANum monto | AStr string | ATxt string "arg list"

type_synonym texto = "string \<times> arg list"

datatype excepcion =
    BadRequestException string "arg list"
  | NotFoundException string "arg list"
  | UnauthorizedException string "arg list"
  | ForbiddenException string "arg list"
  | ConflictException string "arg list"
  | InternalServerErrorException string "arg list"
  | ErrorJS string "arg list"

text \<open>\<^verbatim>\<open>x || 0\<close> on an optional number.\<close>

definition o_cero :: "monto option \<Rightarrow> monto" where
  "o_cero x = (case x of None \<Rightarrow> 0 | Some v \<Rightarrow> v)"

lemma o_cero_simps [simp]: "o_cero None = 0" "o_cero (Some v) = v"
  by (simp_all add: o_cero_def)

text \<open>\<^verbatim>\<open>x || d\<close>: zero and \<^verbatim>\<open>undefined\<close> are falsy.\<close>

definition o_bien :: "monto option \<Rightarrow> monto \<Rightarrow> monto" where
  "o_bien x d = (case x of None \<Rightarrow> d | Some v \<Rightarrow> if v = 0 then d else v)"

text \<open>\<^verbatim>\<open>x ?? d\<close>: only \<^verbatim>\<open>undefined\<close> and \<^verbatim>\<open>null\<close> take the default.\<close>

definition coalesce :: "'a option \<Rightarrow> 'a \<Rightarrow> 'a" where
  "coalesce x d = (case x of None \<Rightarrow> d | Some v \<Rightarrow> v)"

lemma coalesce_simps [simp]: "coalesce None d = d" "coalesce (Some v) d = v"
  by (simp_all add: coalesce_def)

text \<open>\<^verbatim>\<open>s || t\<close> on strings: the empty string is falsy.\<close>

definition o_texto :: "string option \<Rightarrow> string \<Rightarrow> string" where
  "o_texto x d = (case x of None \<Rightarrow> d | Some v \<Rightarrow> if v = [] then d else v)"

text \<open>\<^verbatim>\<open>Math.round\<close> rounds halves towards plus infinity.\<close>

definition math_round :: "rat \<Rightarrow> int" where
  "math_round x = \<lfloor>x + 1 / 2\<rfloor>"

definition epsilon_js :: rat where
  "epsilon_js = 1 / 4503599627370496"

text \<open>\<^verbatim>\<open>Math.round((x + Number.EPSILON) * 100) / 100\<close>.\<close>

definition redondear2 :: "rat \<Rightarrow> rat" where
  "redondear2 x = rat_of_int (math_round ((x + epsilon_js) * 100)) / 100"

lemma math_round_int [simp]: "math_round (rat_of_int n) = n"
  unfolding math_round_def by (simp add: floor_eq_iff)

lemma math_round_near: "\<bar>rat_of_int (math_round x) - x\<bar> \<le> 1 / 2"
proof -
  have "rat_of_int \<lfloor>x + 1 / 2\<rfloor> \<le> x + 1 / 2" and "x + 1 / 2 < rat_of_int \<lfloor>x + 1 / 2\<rfloor> + 1"
    using floor_correct [of "x + 1 / 2"] by simp_all
  then show ?thesis unfolding math_round_def abs_le_iff by linarith
qed

lemma math_round_mono: "x \<le> y \<Longrightarrow> math_round x \<le> math_round y"
  unfolding math_round_def by (simp add: floor_mono)

section \<open>Procedures: state and exceptions\<close>

type_synonym ('s, 'a) proc = "'s \<Rightarrow> (excepcion + 'a) \<times> 's"

definition ret :: "'a \<Rightarrow> ('s, 'a) proc" where
  "ret x s = (Inr x, s)"

definition raise :: "excepcion \<Rightarrow> ('s, 'a) proc" where
  "raise e s = (Inl e, s)"

definition ebind :: "('s, 'a) proc \<Rightarrow> ('a \<Rightarrow> ('s, 'b) proc) \<Rightarrow> ('s, 'b) proc" where
  "ebind m k s = (case m s of (Inl e, s') \<Rightarrow> (Inl e, s') | (Inr x, s') \<Rightarrow> k x s')"

definition gets :: "('s \<Rightarrow> 'a) \<Rightarrow> ('s, 'a) proc" where
  "gets f s = (Inr (f s), s)"

definition modify :: "('s \<Rightarrow> 's) \<Rightarrow> ('s, unit) proc" where
  "modify f s = (Inr (), f s)"

definition try_catch :: "('s, 'a) proc \<Rightarrow> (excepcion \<Rightarrow> ('s, 'a) proc) \<Rightarrow> ('s, 'a) proc" where
  "try_catch m h s = (case m s of (Inl e, s') \<Rightarrow> h e s' | (Inr x, s') \<Rightarrow> (Inr x, s'))"

text \<open>
  A database session: the writes of \<open>m\<close> are applied when it succeeds
  (\<^verbatim>\<open>commitTransaction\<close>) and discarded when it throws (\<^verbatim>\<open>abortTransaction\<close>).
\<close>

definition transaccion :: "('s, 'a) proc \<Rightarrow> ('s, 'a) proc" where
  "transaccion m s = (case m s of (Inl e, s') \<Rightarrow> (Inl e, s) | (Inr x, s') \<Rightarrow> (Inr x, s'))"

definition lift_result :: "excepcion + 'a \<Rightarrow> ('s, 'a) proc" where
  "lift_result r s = (r, s)"

text \<open>\<^verbatim>\<open>for (const x of xs) await m(x)\<close>: the first exception ends the loop.\<close>

fun for_each :: "('a \<Rightarrow> ('s, 'b) proc) \<Rightarrow> 'a list \<Rightarrow> ('s, 'b list) proc" where
  "for_each m [] = ret []"
| "for_each m (x # xs) = ebind (m x) (\<lambda>y. ebind (for_each m xs) (\<lambda>ys. ret (y # ys)))"

text \<open>The same loop with local variables that the body updates.\<close>

fun fold_each :: "('a \<Rightarrow> 'l \<Rightarrow> ('s, 'l) proc) \<Rightarrow> 'a list \<Rightarrow> 'l \<Rightarrow> ('s, 'l) proc" where
  "fold_each m [] l = ret l"
| "fold_each m (x # xs) l = ebind (m x l) (fold_each m xs)"

lemma ret_run [proc_simps]: "ret x s = (Inr x, s)"
  by (simp add: ret_def)

lemma raise_run [proc_simps]: "raise e s = (Inl e, s)"
  by (simp add: raise_def)

lemma gets_run [proc_simps]: "gets f s = (Inr (f s), s)"
  by (simp add: gets_def)

lemma modify_run [proc_simps]: "modify f s = (Inr (), f s)"
  by (simp add: modify_def)

lemma lift_result_run [proc_simps]: "lift_result r s = (r, s)"
  by (simp add: lift_result_def)

lemma ebind_Inr [proc_simps]:
  "ebind m k s = (Inr y, s'') \<longleftrightarrow> (\<exists>x s'. m s = (Inr x, s') \<and> k x s' = (Inr y, s''))"
  by (auto simp: ebind_def split: prod.splits sum.splits)

lemma ebind_Inl [proc_simps]:
  "ebind m k s = (Inl e, s'') \<longleftrightarrow>
     m s = (Inl e, s'') \<or> (\<exists>x s'. m s = (Inr x, s') \<and> k x s' = (Inl e, s''))"
  by (auto simp: ebind_def split: prod.splits sum.splits)

lemma ebind_ret [simp]: "ebind (ret x) k = k x"
  by (rule ext) (simp add: ebind_def ret_def)

lemma ebind_gets [simp]: "ebind (gets f) k s = k (f s) s"
  by (simp add: ebind_def gets_def)

lemma ebind_modify [simp]: "ebind (modify f) k s = k () (f s)"
  by (simp add: ebind_def modify_def)

lemma ebind_raise [simp]: "ebind (raise e) k = raise e"
  by (rule ext) (simp add: ebind_def raise_def)

lemma ebind_step: "m s = (Inr x, s') \<Longrightarrow> ebind m k s = k x s'"
  by (simp add: ebind_def)

lemma transaccion_Inr [proc_simps]:
  "transaccion m s = (Inr x, s') \<longleftrightarrow> m s = (Inr x, s')"
  by (auto simp: transaccion_def split: prod.splits sum.splits)

lemma transaccion_Inl [proc_simps]:
  "transaccion m s = (Inl e, s') \<longleftrightarrow> (\<exists>s''. m s = (Inl e, s'')) \<and> s' = s"
  by (auto simp: transaccion_def split: prod.splits sum.splits)

text \<open>The parts of a run: whether it succeeds, its value and its final state.\<close>

definition exito :: "('s, 'a) proc \<Rightarrow> 's \<Rightarrow> bool" where
  "exito m s = (case fst (m s) of Inl _ \<Rightarrow> False | Inr _ \<Rightarrow> True)"

definition valor :: "('s, 'a) proc \<Rightarrow> 's \<Rightarrow> 'a" where
  "valor m s = projr (fst (m s))"

definition final :: "('s, 'a) proc \<Rightarrow> 's \<Rightarrow> 's" where
  "final m s = snd (m s)"

lemma exito_run: "exito m s \<Longrightarrow> m s = (Inr (valor m s), final m s)"
  by (cases "m s") (auto simp: exito_def valor_def final_def split: sum.splits)

text \<open>A predicate of the state that a procedure keeps, whatever it returns.\<close>

definition preserves :: "('s \<Rightarrow> bool) \<Rightarrow> ('s, 'a) proc \<Rightarrow> bool" where
  "preserves P m \<longleftrightarrow> (\<forall>s. P s \<longrightarrow> P (snd (m s)))"

lemma preservesD: "preserves P m \<Longrightarrow> P s \<Longrightarrow> m s = (r, s') \<Longrightarrow> P s'"
  unfolding preserves_def by (metis snd_conv)

lemma preserves_ret [intro]: "preserves P (ret x)"
  by (simp add: preserves_def ret_def)

lemma preserves_raise [intro]: "preserves P (raise e)"
  by (simp add: preserves_def raise_def)

lemma preserves_gets [intro]: "preserves P (gets f)"
  by (simp add: preserves_def gets_def)

lemma preserves_lift [intro]: "preserves P (lift_result r)"
  by (simp add: preserves_def lift_result_def)

lemma preserves_ebind [intro]:
  assumes "preserves P m" and "\<And>x. preserves P (k x)"
  shows "preserves P (ebind m k)"
  using assms unfolding preserves_def ebind_def
  by (force split: prod.splits sum.splits)

lemma preserves_try [intro]:
  assumes "preserves P m" and "\<And>e. preserves P (h e)"
  shows "preserves P (try_catch m h)"
  using assms unfolding preserves_def try_catch_def
  by (force split: prod.splits sum.splits)

lemma preserves_if [intro]:
  "preserves P m \<Longrightarrow> preserves P n \<Longrightarrow> preserves P (if b then m else n)"
  by simp

lemma preserves_for_each [intro]:
  "(\<And>x. x \<in> set xs \<Longrightarrow> preserves P (m x)) \<Longrightarrow> preserves P (for_each m xs)"
  by (induction xs) auto

lemma preserves_fold_each [intro]:
  "(\<And>x l. x \<in> set xs \<Longrightarrow> preserves P (m x l)) \<Longrightarrow> preserves P (fold_each m xs l)"
  by (induction xs arbitrary: l) auto

lemma for_each_length: "for_each m xs s = (Inr ys, s') \<Longrightarrow> length ys = length xs"
  by (induction xs arbitrary: s ys) (auto simp: proc_simps)

end
