(* ===== verification/Store.thy ===== *)
theory Store
  imports Base
begin

text \<open>
  Document collections. A collection is the list of its documents in insertion order, which
  is the order an unsorted query returns them in. The functions here are the update forms
  the services use: \<^verbatim>\<open>findById\<close>, \<^verbatim>\<open>save\<close>, \<^verbatim>\<open>updateOne\<close>, \<^verbatim>\<open>updateMany\<close>,
  \<^verbatim>\<open>deleteOne\<close>, \<^verbatim>\<open>deleteMany\<close>.

  Two interfaces are stated as locales. \<open>documentos\<close> is what a service relies on when it
  loads a document by id, changes it and saves it: lookup after save, and the frame.
  \<open>coleccion\<close> is a field of the database record holding such a list; every component's
  collection is an interpretation of it, and it provides \<open>documentos\<close>.
\<close>

section \<open>Operations on a list of documents\<close>

definition find_id :: "('d \<Rightarrow> oid) \<Rightarrow> oid \<Rightarrow> 'd list \<Rightarrow> 'd option" where
  "find_id k i ds = find (\<lambda>d. k d = i) ds"

definition save_doc :: "('d \<Rightarrow> oid) \<Rightarrow> 'd \<Rightarrow> 'd list \<Rightarrow> 'd list" where
  "save_doc k d ds = map (\<lambda>x. if k x = k d then d else x) ds"

definition update_many :: "('d \<Rightarrow> bool) \<Rightarrow> ('d \<Rightarrow> 'd) \<Rightarrow> 'd list \<Rightarrow> 'd list" where
  "update_many P f ds = map (\<lambda>x. if P x then f x else x) ds"

fun update_one :: "('d \<Rightarrow> bool) \<Rightarrow> ('d \<Rightarrow> 'd) \<Rightarrow> 'd list \<Rightarrow> 'd list" where
  "update_one P f [] = []"
| "update_one P f (d # ds) = (if P d then f d # ds else d # update_one P f ds)"

definition delete_many :: "('d \<Rightarrow> bool) \<Rightarrow> 'd list \<Rightarrow> 'd list" where
  "delete_many P ds = filter (\<lambda>d. \<not> P d) ds"

fun delete_one :: "('d \<Rightarrow> bool) \<Rightarrow> 'd list \<Rightarrow> 'd list" where
  "delete_one P [] = []"
| "delete_one P (d # ds) = (if P d then ds else d # delete_one P ds)"

lemma find_id_Nil [col_simps]: "find_id k i [] = None"
  by (simp add: find_id_def)

lemma find_id_Cons [col_simps]:
  "find_id k i (d # ds) = (if k d = i then Some d else find_id k i ds)"
  by (simp add: find_id_def)

lemma save_doc_Nil [col_simps]: "save_doc k d [] = []"
  by (simp add: save_doc_def)

lemma save_doc_Cons [col_simps]:
  "save_doc k d (x # ds) = (if k x = k d then d else x) # save_doc k d ds"
  by (simp add: save_doc_def)

lemma find_id_key: "find_id k i ds = Some d \<Longrightarrow> k d = i"
  by (induction ds) (auto simp: col_simps split: if_splits)

lemma find_id_in: "find_id k i ds = Some d \<Longrightarrow> d \<in> set ds"
  by (induction ds) (auto simp: col_simps split: if_splits)

lemma find_id_None_iff: "find_id k i ds = None \<longleftrightarrow> i \<notin> k ` set ds"
  by (induction ds) (auto simp: col_simps)

lemma find_id_save:
  "find_id k i (save_doc k d ds) =
     (if i = k d \<and> find_id k i ds \<noteq> None then Some d else find_id k i ds)"
  by (induction ds) (auto simp: col_simps)

lemma keys_save [simp]: "map k (save_doc k d ds) = map k ds"
  by (simp add: save_doc_def comp_def)

lemma set_save_doc: "set (save_doc k d ds) \<subseteq> insert d (set ds)"
  by (auto simp: save_doc_def)

lemma length_save [simp]: "length (save_doc k d ds) = length ds"
  by (simp add: save_doc_def)

lemma find_id_map: "(\<And>d. k (f d) = k d) \<Longrightarrow> find_id k i (map f ds) = map_option f (find_id k i ds)"
  by (induction ds) (simp_all add: col_simps)

lemma find_id_append:
  "find_id k i (xs @ ys) = (case find_id k i xs of None \<Rightarrow> find_id k i ys | Some d \<Rightarrow> Some d)"
  by (induction xs) (auto simp: col_simps)

lemma find_id_update_many:
  assumes "\<And>d. k (f d) = k d"
  shows "find_id k i (update_many P f ds) =
     map_option (\<lambda>d. if P d then f d else d) (find_id k i ds)"
  using assms by (induction ds) (auto simp: update_many_def col_simps)

lemma find_id_update_one:
  assumes "\<And>d. k (f d) = k d" and "distinct (map k ds)"
  shows "find_id k i (update_one (\<lambda>d. k d = j) f ds) =
     (if i = j then map_option f (find_id k i ds) else find_id k i ds)"
  using assms by (induction ds) (auto simp: col_simps find_id_None_iff split: option.split)

lemma keys_update_one: "(\<And>d. k (f d) = k d) \<Longrightarrow> map k (update_one P f ds) = map k ds"
  by (induction ds) auto

lemma find_id_Some_iff:
  assumes "distinct (map k ds)"
  shows "find_id k i ds = Some d \<longleftrightarrow> d \<in> set ds \<and> k d = i"
  using assms by (induction ds) (auto simp: col_simps)

section \<open>The interface of a document store\<close>

definition todos :: "(oid \<Rightarrow> 's \<Rightarrow> 'd option) \<Rightarrow> ('d \<Rightarrow> bool) \<Rightarrow> 's \<Rightarrow> bool" where
  "todos get P s \<longleftrightarrow> (\<forall>i d. get i s = Some d \<longrightarrow> P d)"

locale documentos =
  fixes clave :: "'d \<Rightarrow> oid"
    and get :: "oid \<Rightarrow> 's \<Rightarrow> 'd option"
    and put :: "'d \<Rightarrow> 's \<Rightarrow> 's"
  assumes get_clave: "get i s = Some d \<Longrightarrow> clave d = i"
    and get_put: "get i s = Some d0 \<Longrightarrow> clave d = i \<Longrightarrow> get i (put d s) = Some d"
    and get_put_other: "i \<noteq> clave d \<Longrightarrow> get i (put d s) = get i s"
    and get_put_absent: "get (clave d) s = None \<Longrightarrow> get (clave d) (put d s) = None"
begin

lemma get_put_iff:
  "get i (put d s) = (if i = clave d \<and> get i s \<noteq> None then Some d else get i s)"
  using get_put get_put_other get_put_absent by (cases "i = clave d") fastforce+

lemma todos_put: "todos get P s \<Longrightarrow> P d \<Longrightarrow> todos get P (put d s)"
  by (simp add: todos_def get_put_iff)

lemma todosD: "todos get P s \<Longrightarrow> get i s = Some d \<Longrightarrow> P d"
  by (simp add: todos_def)

lemma put_put: "clave d = clave e \<Longrightarrow> get i (put d (put e s)) = get i (put d s)"
  by (auto simp: get_put_iff)

lemma put_commute:
  "clave d \<noteq> clave e \<Longrightarrow> get i (put d (put e s)) = get i (put e (put d s))"
  by (auto simp: get_put_iff)

lemma put_domain: "get i (put d s) = None \<longleftrightarrow> get i s = None"
  by (auto simp: get_put_iff)

end

section \<open>A collection as a field of the database record\<close>

locale coleccion =
  fixes clave :: "'d \<Rightarrow> oid"
    and docs :: "'s \<Rightarrow> 'd list"
    and con_docs :: "('d list \<Rightarrow> 'd list) \<Rightarrow> 's \<Rightarrow> 's"
  assumes docs_con_docs: "docs (con_docs f s) = f (docs s)"
begin

lemma claves_save: "map clave (docs (con_docs (save_doc clave d) s)) = map clave (docs s)"
  by (simp add: docs_con_docs)

lemma todos_docs_save:
  "list_all P (docs s) \<Longrightarrow> P d \<Longrightarrow> list_all P (docs (con_docs (save_doc clave d) s))"
  using set_save_doc [of clave d "docs s"] by (auto simp: docs_con_docs list_all_iff)

lemma todos_docs_insert:
  "list_all P (docs s) \<Longrightarrow> P d \<Longrightarrow> list_all P (docs (con_docs (\<lambda>ds. ds @ [d]) s))"
  by (simp add: docs_con_docs)

lemma todos_docs_update_many:
  "list_all P (docs s) \<Longrightarrow> (\<And>d. P d \<Longrightarrow> P (f d)) \<Longrightarrow>
   list_all P (docs (con_docs (update_many Q f) s))"
  by (auto simp: docs_con_docs update_many_def list_all_iff)

lemma distinct_save:
  "distinct (map clave (docs s)) \<Longrightarrow> distinct (map clave (docs (con_docs (save_doc clave d) s)))"
  by (simp add: claves_save)

lemma distinct_insert:
  "distinct (map clave (docs s)) \<Longrightarrow> clave d \<notin> clave ` set (docs s) \<Longrightarrow>
   distinct (map clave (docs (con_docs (\<lambda>ds. ds @ [d]) s)))"
  by (simp add: docs_con_docs)

end

sublocale coleccion \<subseteq> documentos clave "\<lambda>i s. find_id clave i (docs s)"
  "\<lambda>d. con_docs (save_doc clave d)"
proof unfold_locales
  fix i s d d0
  show "find_id clave i (docs s) = Some d \<Longrightarrow> clave d = i"
    by (rule find_id_key)
  show "find_id clave i (docs s) = Some d0 \<Longrightarrow> clave d = i \<Longrightarrow>
      find_id clave i (docs (con_docs (save_doc clave d) s)) = Some d"
    by (simp add: docs_con_docs find_id_save)
  show "i \<noteq> clave d \<Longrightarrow>
      find_id clave i (docs (con_docs (save_doc clave d) s)) = find_id clave i (docs s)"
    by (simp add: docs_con_docs find_id_save)
  show "find_id clave (clave d) (docs s) = None \<Longrightarrow>
      find_id clave (clave d) (docs (con_docs (save_doc clave d) s)) = None"
    by (simp add: docs_con_docs find_id_save)
qed

section \<open>The database record\<close>

text \<open>
  Every component extends this record with its own collections. \<open>ahora\<close> is the clock that
  \<^verbatim>\<open>new Date()\<close> reads (one reading per request) and \<open>prox_id\<close> the next ObjectId the
  driver hands out.
\<close>

record mundo =
  ahora :: fecha
  prox_id :: oid

definition nuevo_id :: "('a mundo_scheme, oid) proc" where
  "nuevo_id s = (Inr (prox_id s), s\<lparr>prox_id := Suc (prox_id s)\<rparr>)"

lemma nuevo_id_run [proc_simps]:
  "nuevo_id s = (Inr (prox_id s), s\<lparr>prox_id := Suc (prox_id s)\<rparr>)"
  by (simp add: nuevo_id_def)

lemma ebind_nuevo_id [simp]:
  "ebind nuevo_id k s = k (prox_id s) (s\<lparr>prox_id := Suc (prox_id s)\<rparr>)"
  by (simp add: ebind_def nuevo_id_def)

text \<open>\<^verbatim>\<open>findById\<close> followed by the service's not-found exception.\<close>

definition obtener :: "('d \<Rightarrow> oid) \<Rightarrow> ('s \<Rightarrow> 'd list) \<Rightarrow> oid \<Rightarrow> excepcion \<Rightarrow> ('s, 'd) proc" where
  "obtener k docs i e s = (case find_id k i (docs s) of None \<Rightarrow> (Inl e, s) | Some d \<Rightarrow> (Inr d, s))"

lemma obtener_Inr [proc_simps]:
  "obtener k docs i e s = (Inr d, s') \<longleftrightarrow> find_id k i (docs s) = Some d \<and> s' = s"
  by (auto simp: obtener_def split: option.splits)

lemma obtener_Inl [proc_simps]:
  "obtener k docs i e s = (Inl e', s') \<longleftrightarrow> find_id k i (docs s) = None \<and> e' = e \<and> s' = s"
  by (auto simp: obtener_def split: option.splits)

lemma preserves_obtener [intro]: "preserves P (obtener k docs i e)"
  by (auto simp: preserves_def obtener_def split: option.splits)

text \<open>The cast of a text to an id; \<open>od\<close> says which ids the texts denote.\<close>

definition cast_id :: "(string \<Rightarrow> oid option) \<Rightarrow> string \<Rightarrow> ('s, oid) proc" where
  "cast_id od t = (case od t of None \<Rightarrow> raise (ErrorJS ''CastError'' [AStr t]) | Some i \<Rightarrow> ret i)"

lemma cast_id_run: "cast_id od t s = (case od t of None \<Rightarrow> (Inl (ErrorJS ''CastError'' [AStr t]), s) | Some i \<Rightarrow> (Inr i, s))"
  by (simp add: cast_id_def proc_simps split: option.split)

lemma find_en: "find P xs = Some x \<Longrightarrow> x \<in> set xs \<and> P x"
  by (metis find_Some_iff nth_mem)

lemma clave_unica: "distinct (map k ds) \<Longrightarrow> x \<in> set ds \<Longrightarrow> y \<in> set ds \<Longrightarrow> k x = k y \<Longrightarrow> x = y"
  by (metis distinct_map inj_onD)

section \<open>Pages of a query result\<close>

text \<open>\<^verbatim>\<open>.skip(page * size).limit(size)\<close>, and the number of pages \<^verbatim>\<open>Math.ceil(total / size)\<close>.\<close>

definition pagina :: "nat \<Rightarrow> nat \<Rightarrow> 'a list \<Rightarrow> 'a list" where
  "pagina page tam xs = take tam (drop (page * tam) xs)"

definition total_paginas :: "nat \<Rightarrow> nat \<Rightarrow> int" where
  "total_paginas tot tam = \<lceil>rat_of_nat tot / rat_of_nat tam\<rceil>"

lemma concat_paginas_take:
  "concat (map (\<lambda>p. pagina p n xs) [0..<k]) = take (k * n) xs"
proof (induction k)
  case 0
  then show ?case by simp
next
  case (Suc k)
  have "take (Suc k * n) xs = take (k * n) xs @ take n (drop (k * n) xs)"
    using take_add [of "k * n" n xs] by (simp add: add.commute)
  with Suc.IH show ?case by (simp add: pagina_def)
qed

lemma total_paginas_cubre:
  assumes "0 < n"
  shows "int tot \<le> total_paginas tot n * int n"
proof -
  have "rat_of_nat tot / rat_of_nat n \<le> rat_of_int (total_paginas tot n)"
    unfolding total_paginas_def by (rule le_of_int_ceiling)
  with assms have "rat_of_nat tot \<le> rat_of_int (total_paginas tot n) * rat_of_nat n"
    by (simp add: divide_le_eq)
  then have "rat_of_int (int tot) \<le> rat_of_int (total_paginas tot n * int n)"
    by simp
  then show ?thesis by (simp only: of_int_le_iff)
qed

lemma concat_paginas:
  assumes "0 < n"
  shows "concat (map (\<lambda>p. pagina p n xs) [0..<nat (total_paginas (length xs) n)]) = xs"
proof -
  have "int (length xs) \<le> total_paginas (length xs) n * int n"
    using assms by (rule total_paginas_cubre)
  then have "int (length xs) \<le> int (nat (total_paginas (length xs) n) * n)"
    by (smt (verit) assms int_nat_eq mult_less_0_iff of_nat_0_less_iff of_nat_mult zero_le_mult_iff)
  then have "length xs \<le> nat (total_paginas (length xs) n) * n"
    by (simp only: of_nat_le_iff)
  then show ?thesis by (simp add: concat_paginas_take)
qed

end
