(* ===== verification/SystemConfig.thy ===== *)
theory SystemConfig
  imports Store
begin

text \<open>
  \<^verbatim>\<open>src/modules/system-config/system-config.service.ts\<close>: the one document with the mail account
  that the scanners read. The cipher (AES-256-CBC with a fixed key and vector, texts in hexadecimal)
  is a library of the platform: \<open>encrypt\<close> and \<open>decrypt\<close> take it as the argument, a function that
  returns no text when it throws.
\<close>

record system_config =
  sy_id :: oid
  email_consulta :: string
  password_consulta :: string
  host_imap :: string
  port_imap :: nat
  secure :: bool
  check_period_days :: int
  fecha_ultima_consulta :: "fecha option"
  sy_activo :: bool

record bd_sys = mundo +
  sistema :: "system_config list"

definition con_sistema ::
  "(system_config list \<Rightarrow> system_config list) \<Rightarrow> 'a bd_sys_scheme \<Rightarrow> 'a bd_sys_scheme" where
  "con_sistema f s = s\<lparr>sistema := f (sistema s)\<rparr>"

interpretation sist: coleccion sy_id sistema con_sistema
  by unfold_locales (simp add: con_sistema_def)

definition encrypt :: "(string \<Rightarrow> string option) \<Rightarrow> string \<Rightarrow> ('s, string) proc" where
  "encrypt cif t =
     (case cif t of
        None \<Rightarrow> raise (InternalServerErrorException ''Error al encriptar la contrasena'' [])
      | Some c \<Rightarrow> ret c)"

definition decrypt :: "(string \<Rightarrow> string option) \<Rightarrow> string \<Rightarrow> ('s, string) proc" where
  "decrypt des t =
     (case des t of
        None \<Rightarrow> raise (InternalServerErrorException ''Error al desencriptar la contrasena'' [])
      | Some c \<Rightarrow> ret c)"

record create_config_dto =
  cc_email_consulta :: string
  cc_password_consulta :: string
  cc_host_imap :: string
  cc_port_imap :: nat
  cc_secure :: "bool option"
  cc_check_period_days :: "int option"

text \<open>The strings of the document are required, and an empty one counts as missing.\<close>

definition config_valida :: "system_config \<Rightarrow> bool" where
  "config_valida c \<longleftrightarrow> email_consulta c \<noteq> [] \<and> password_consulta c \<noteq> [] \<and> host_imap c \<noteq> []"

definition guardar_config :: "system_config \<Rightarrow> ('a bd_sys_scheme, system_config) proc" where
  "guardar_config c =
     (if config_valida c then ebind (modify (con_sistema (save_doc sy_id c))) (\<lambda>_. ret c)
      else raise (ErrorJS ''SystemConfig validation failed'' []))"

definition sy_create ::
  "(string \<Rightarrow> string option) \<Rightarrow> create_config_dto \<Rightarrow> ('a bd_sys_scheme, system_config) proc" where
  "sy_create cif dto =
     ebind (gets sistema) (\<lambda>cs.
     if cs \<noteq> []
     then raise (BadRequestException
       ''Ya existe una configuracion del sistema. Use el endpoint de actualizacion.'' [])
     else
       ebind (encrypt cif (cc_password_consulta dto)) (\<lambda>p.
       ebind nuevo_id (\<lambda>i.
       let c = \<lparr>sy_id = i, email_consulta = cc_email_consulta dto, password_consulta = p,
                host_imap = cc_host_imap dto, port_imap = cc_port_imap dto,
                secure = coalesce (cc_secure dto) True,
                check_period_days = coalesce (cc_check_period_days dto) 15,
                fecha_ultima_consulta = None, sy_activo = True\<rparr>
       in if config_valida c
          then ebind (modify (con_sistema (\<lambda>cs. cs @ [c]))) (\<lambda>_. ret c)
          else raise (ErrorJS ''SystemConfig validation failed'' []))))"

definition primera_config :: "excepcion \<Rightarrow> ('a bd_sys_scheme, system_config) proc" where
  "primera_config e =
     ebind (gets sistema) (\<lambda>cs. case cs of [] \<Rightarrow> raise e | c # _ \<Rightarrow> ret c)"

definition sin_config :: excepcion where
  "sin_config = NotFoundException ''No se encontro configuracion del sistema'' []"

definition sy_findOne :: "('a bd_sys_scheme, system_config) proc" where
  "sy_findOne = ebind (primera_config sin_config) (\<lambda>c. ret (c\<lparr>password_consulta := ''********''\<rparr>))"

definition findOneDecrypted :: "(string \<Rightarrow> string option) \<Rightarrow> ('a bd_sys_scheme, system_config) proc" where
  "findOneDecrypted des =
     ebind (primera_config sin_config) (\<lambda>c.
     ebind (decrypt des (password_consulta c)) (\<lambda>p. ret (c\<lparr>password_consulta := p\<rparr>)))"

record update_config_dto =
  uy_email_consulta :: "string option"
  uy_password_consulta :: "string option"
  uy_host_imap :: "string option"
  uy_port_imap :: "nat option"
  uy_secure :: "bool option"
  uy_check_period_days :: "int option"

definition asignar_config :: "update_config_dto \<Rightarrow> system_config \<Rightarrow> system_config" where
  "asignar_config u c =
     c\<lparr>email_consulta := coalesce (uy_email_consulta u) (email_consulta c),
       password_consulta := coalesce (uy_password_consulta u) (password_consulta c),
       host_imap := coalesce (uy_host_imap u) (host_imap c),
       port_imap := coalesce (uy_port_imap u) (port_imap c),
       secure := coalesce (uy_secure u) (secure c),
       check_period_days := coalesce (uy_check_period_days u) (check_period_days c)\<rparr>"

definition sy_update ::
  "(string \<Rightarrow> string option) \<Rightarrow> update_config_dto \<Rightarrow> ('a bd_sys_scheme, system_config) proc" where
  "sy_update cif u =
     ebind (primera_config (NotFoundException
       ''No se encontro configuracion del sistema. Creela primero.'' [])) (\<lambda>c.
     ebind (if o_texto (uy_password_consulta u) [] = [] then ret (uy_password_consulta u)
            else ebind (encrypt cif (o_texto (uy_password_consulta u) [])) (\<lambda>p. ret (Some p))) (\<lambda>p.
     guardar_config (asignar_config (u\<lparr>uy_password_consulta := p\<rparr>) c)))"

definition updateLastCheckDate :: "('a bd_sys_scheme, unit) proc" where
  "updateLastCheckDate =
     ebind (gets sistema) (\<lambda>cs.
     case cs of
       [] \<Rightarrow> ret ()
     | c # _ \<Rightarrow>
         ebind (gets ahora) (\<lambda>now.
         ebind (guardar_config (c\<lparr>fecha_ultima_consulta := Some now\<rparr>)) (\<lambda>_. ret ())))"

section \<open>The password\<close>

definition clave_guardada :: "(string \<Rightarrow> string option) \<Rightarrow> string \<Rightarrow> 'a bd_sys_scheme \<Rightarrow> bool" where
  "clave_guardada des p s \<longleftrightarrow>
     (\<exists>c. findOneDecrypted des s = (Inr c, s) \<and> password_consulta c = p) \<and>
     (\<exists>c. sy_findOne s = (Inr c, s) \<and> password_consulta c = ''********'') \<and> length (sistema s) = 1"

lemma primera_config_run: "sistema s = [c] \<Longrightarrow> primera_config e s = (Inr c, s)"
  by (simp add: primera_config_def ret_def)

lemma ebind_primera: "sistema s = [c] \<Longrightarrow> ebind (primera_config e) k s = k c s"
  by (simp add: ebind_step primera_config_run)

lemma valor_unico: "r = (Inr x, s) \<Longrightarrow> (\<exists>d. r = (Inr d, s) \<and> P d) \<longleftrightarrow> P x"
  by simp

lemma clave_guardada_iff:
  assumes "sistema s = [c]"
  shows "clave_guardada des p s \<longleftrightarrow> des (password_consulta c) = Some p"
proof -
  have f: "sy_findOne s = (Inr (c\<lparr>password_consulta := ''********''\<rparr>), s)"
    unfolding sy_findOne_def ebind_primera [OF assms] by (rule ret_run)
  show ?thesis
  proof (cases "des (password_consulta c)")
    case None
    then have "\<And>d. findOneDecrypted des s \<noteq> (Inr d, s)"
      unfolding findOneDecrypted_def ebind_primera [OF assms] decrypt_def by (simp add: raise_def)
    then show ?thesis using None unfolding clave_guardada_def by simp
  next
    case (Some q)
    then have g: "findOneDecrypted des s = (Inr (c\<lparr>password_consulta := q\<rparr>), s)"
      unfolding findOneDecrypted_def ebind_primera [OF assms] decrypt_def by (simp add: ret_def)
    show ?thesis
      using Some assms
      unfolding clave_guardada_def valor_unico [where P = "\<lambda>d. password_consulta d = p", OF g]
        valor_unico [where P = "\<lambda>d. password_consulta d = ''********''", OF f]
      by simp
  qed
qed

lemma guardar_config_Inr:
  "guardar_config d s = (Inr c, s') \<Longrightarrow>
     c = d \<and> config_valida d \<and> s' = con_sistema (save_doc sy_id d) s"
  by (auto simp: guardar_config_def ret_def raise_def split: if_splits)

lemma sy_update_Inr:
  assumes one: "sistema s = [c]" and run: "sy_update cif u s = (Inr c2, s2)"
  obtains q where "s2 = con_sistema (save_doc sy_id c2) s" "password_consulta c2 \<noteq> []"
    "c2 = asignar_config (u\<lparr>uy_password_consulta := q\<rparr>) c"
    "if o_texto (uy_password_consulta u) [] = [] then q = uy_password_consulta u
       else \<exists>x. cif (o_texto (uy_password_consulta u) []) = Some x \<and> q = Some x"
proof (cases "o_texto (uy_password_consulta u) [] = []")
  case True
  have "guardar_config (asignar_config (u\<lparr>uy_password_consulta := uy_password_consulta u\<rparr>) c) s = (Inr c2, s2)"
    using run unfolding sy_update_def ebind_primera [OF one] if_P [OF True] ebind_ret .
  from guardar_config_Inr [OF this] show thesis
    using True by (intro that [of "uy_password_consulta u"]) (auto simp: config_valida_def)
next
  case False
  then obtain x where x: "cif (o_texto (uy_password_consulta u) []) = Some x"
    and g: "guardar_config (asignar_config (u\<lparr>uy_password_consulta := Some x\<rparr>) c) s = (Inr c2, s2)"
    using run unfolding sy_update_def ebind_primera [OF one] if_not_P [OF False] encrypt_def
    by (cases "cif (o_texto (uy_password_consulta u) [])") (simp_all add: raise_def)
  from guardar_config_Inr [OF g] show thesis
    using False x by (intro that [of "Some x"]) (auto simp: config_valida_def)
qed

text \<open>the password given to the creation, or later to an update, is what the scanners get
  back, and the public reading hides it; an update without a password and the note of a scan keep
  it; there is never a second document.\<close>

theorem password_roundtrip:
  assumes cipher: "\<forall>t c. cif t = Some c \<longrightarrow> des c = Some t" and empty: "sistema s = []"
    and run: "sy_create cif dto s = (Inr c, s')"
  shows "clave_guardada des (cc_password_consulta dto) s' \<and>
    (\<forall>dto'. \<exists>e. sy_create cif dto' s' = (Inl e, s')) \<and>
    (\<forall>u c2 s2. sy_update cif u s' = (Inr c2, s2) \<longrightarrow>
       clave_guardada des (coalesce (uy_password_consulta u) (cc_password_consulta dto)) s2) \<and>
    (\<forall>s2. updateLastCheckDate s' = (Inr (), s2) \<longrightarrow>
       clave_guardada des (cc_password_consulta dto) s2)"
proof -
  from run empty have one: "sistema s' = [c]" and p: "cif (cc_password_consulta dto) = Some (password_consulta c)"
    by (auto simp: sy_create_def encrypt_def proc_simps Let_def con_sistema_def
        split: option.splits if_splits)
  have d: "des (password_consulta c) = Some (cc_password_consulta dto)" using cipher p by blast
  then have "clave_guardada des (cc_password_consulta dto) s'" using clave_guardada_iff [OF one] by blast
  moreover have "\<exists>e. sy_create cif dto' s' = (Inl e, s')" for dto'
    by (simp add: sy_create_def one raise_def)
  moreover have "clave_guardada des (coalesce (uy_password_consulta u) (cc_password_consulta dto)) s2"
    if "sy_update cif u s' = (Inr c2, s2)" for u c2 s2
  proof -
    from sy_update_Inr [OF one that] obtain q where
      s2: "s2 = con_sistema (save_doc sy_id c2) s'" and v: "password_consulta c2 \<noteq> []"
      and c2: "c2 = asignar_config (u\<lparr>uy_password_consulta := q\<rparr>) c"
      and q: "if o_texto (uy_password_consulta u) [] = [] then q = uy_password_consulta u
         else \<exists>x. cif (o_texto (uy_password_consulta u) []) = Some x \<and> q = Some x" .
    have id: "sy_id c2 = sy_id c" by (simp add: c2 asignar_config_def)
    have two: "sistema s2 = [c2]" by (simp add: s2 con_sistema_def one save_doc_def id)
    show ?thesis
    proof (cases "uy_password_consulta u")
      case None
      then have "q = None" using q by (simp add: o_texto_def)
      then have "password_consulta c2 = password_consulta c" by (simp add: c2 asignar_config_def)
      then show ?thesis using clave_guardada_iff [OF two] d None by simp
    next
      case (Some w)
      show ?thesis
      proof (cases "w = []")
        case True
        then have "q = Some []" using q Some by (simp add: o_texto_def)
        then show ?thesis using v by (simp add: c2 asignar_config_def)
      next
        case False
        then obtain x where "cif w = Some x" "q = Some x" using q Some by (auto simp: o_texto_def)
        then show ?thesis using clave_guardada_iff [OF two] cipher Some
          by (simp add: c2 asignar_config_def)
      qed
    qed
  qed
  moreover have "clave_guardada des (cc_password_consulta dto) s2" if "updateLastCheckDate s' = (Inr (), s2)" for s2
  proof -
    from that have "s2 = con_sistema (save_doc sy_id (c\<lparr>fecha_ultima_consulta := Some (ahora s')\<rparr>)) s'"
      by (auto simp: updateLastCheckDate_def one guardar_config_def proc_simps split: if_splits)
    then have "sistema s2 = [c\<lparr>fecha_ultima_consulta := Some (ahora s')\<rparr>]"
      by (simp add: con_sistema_def one save_doc_def)
    from clave_guardada_iff [OF this] d show ?thesis by simp
  qed
  ultimately show ?thesis by blast
qed

text \<open>A cipher that turns the text round and puts a letter before it.\<close>

lemma password_roundtrip_witness:
  "\<exists>c s'. sy_create (\<lambda>t. Some (CHR ''x'' # rev t))
      \<lparr>cc_email_consulta = ''a'', cc_password_consulta = ''pw'', cc_host_imap = ''h'', cc_port_imap = 993,
       cc_secure = None, cc_check_period_days = None\<rparr> \<lparr>ahora = 5, prox_id = 1, sistema = []\<rparr> = (Inr c, s') \<and>
     password_consulta c = ''xwp'' \<and> clave_guardada (\<lambda>t. Some (rev (tl t))) ''pw'' s'"
proof -
  let ?dto = "\<lparr>cc_email_consulta = ''a'', cc_password_consulta = ''pw'', cc_host_imap = ''h'', cc_port_imap = 993,
       cc_secure = None, cc_check_period_days = None\<rparr>"
  let ?s = "\<lparr>ahora = 5, prox_id = 1, sistema = []\<rparr>"
  let ?cif = "\<lambda>t. Some (CHR ''x'' # rev t)" and ?des = "\<lambda>t. Some (rev (tl t))"
  obtain c s' where run: "sy_create ?cif ?dto ?s = (Inr c, s')" and p: "password_consulta c = ''xwp''"
    by (simp add: sy_create_def encrypt_def ret_def config_valida_def Let_def)
  have "\<forall>t c. ?cif t = Some c \<longrightarrow> ?des c = Some t" and "sistema ?s = []" by auto
  from password_roundtrip [OF this run] have "clave_guardada ?des ''pw'' s'" by simp
  with run p show ?thesis by blast
qed

end
