(* ===== verification/Sequences.thy ===== *)
theory Sequences
  imports SystemConfig
begin

text \<open>
  \<^verbatim>\<open>src/modules/sequence\<close>: named counters. \<^verbatim>\<open>generateReceiptNumber\<close> is one atomic
  find-and-increment with upsert, so the counter starts at 1.
\<close>

record bd_sec = bd_sys +
  secuencias :: "(string \<times> int) list"

definition valor_secuencia :: "string \<Rightarrow> (string \<times> int) list \<Rightarrow> int option" where
  "valor_secuencia n qs = map_of qs n"

definition generateReceiptNumber :: "string \<Rightarrow> ('a bd_sec_scheme, int) proc" where
  "generateReceiptNumber name s =
     (case map_of (secuencias s) name of
        Some v \<Rightarrow>
          (Inr (v + 1),
           s\<lparr>secuencias := update_one (\<lambda>q. fst q = name) (\<lambda>q. (fst q, snd q + 1)) (secuencias s)\<rparr>)
      | None \<Rightarrow> (Inr 1, s\<lparr>secuencias := secuencias s @ [(name, 1)]\<rparr>))"

lemma map_of_incr:
  "map_of (update_one (\<lambda>q. fst q = n) (\<lambda>q. (fst q, snd q + 1)) qs) m =
     (if m = n then map_option (\<lambda>v. v + 1) (map_of qs m) else map_of qs m)"
  by (induction qs) auto

lemma generateReceiptNumber_value:
  assumes "generateReceiptNumber n s = (Inr v, s')"
  shows "v = coalesce (valor_secuencia n (secuencias s)) 0 + 1"
    and "valor_secuencia n (secuencias s') = Some v"
    and "m \<noteq> n \<Longrightarrow> valor_secuencia m (secuencias s') = valor_secuencia m (secuencias s)"
  using assms
  by (auto simp: generateReceiptNumber_def valor_secuencia_def map_of_incr map_add_def
      split: option.splits)

lemma generateReceiptNumber_total: "\<exists>v s'. generateReceiptNumber n s = (Inr v, s')"
  by (auto simp: generateReceiptNumber_def split: option.splits)

lemma generateReceiptNumber_frame:
  "generateReceiptNumber n s = (r, s') \<Longrightarrow> s' = s\<lparr>secuencias := secuencias s'\<rparr>"
  by (auto simp: generateReceiptNumber_def split: option.splits)

lemma numeros_desde:
  assumes "for_each (\<lambda>_. generateReceiptNumber n) us s = (Inr vs, s')"
  shows "vs = [coalesce (valor_secuencia n (secuencias s)) 0 + 1 ..
               coalesce (valor_secuencia n (secuencias s)) 0 + int (length us)]"
  using assms
proof (induction us arbitrary: s vs)
  case Nil
  then show ?case by (simp add: proc_simps)
next
  case (Cons u us)
  from Cons.prems obtain v s1 ws where
    g: "generateReceiptNumber n s = (Inr v, s1)" and
    f: "for_each (\<lambda>_. generateReceiptNumber n) us s1 = (Inr ws, s')" and "vs = v # ws"
    by (auto simp: proc_simps)
  with Cons.IH [OF f] generateReceiptNumber_value(1,2) [OF g]
  show ?case by (simp add: upto_rec1 add.assoc)
qed

end
