(* ===== verification/ChartOfAccounts.thy ===== *)
theory ChartOfAccounts
  imports Sequences
begin

text \<open>
  \<^verbatim>\<open>src/modules/chart-of-accounts\<close>: the chart of accounts and its service.
\<close>

datatype tipo_cuenta = ACTIVO | PASIVO | PATRIMONIO_NETO | INGRESO_CTA | EGRESO_CTA

record cuenta_contable =
  cc_id :: oid
  codigo :: string
  cc_nombre :: string
  tipo_cuenta :: tipo_cuenta
  cc_descripcion :: "string option"
  cuenta_padre_id :: "oid option"
  es_imputable :: bool
  tasa_iva_aplicable :: monto
  es_facturable :: bool

record bd_plan = bd_sec +
  plan_cuentas :: "cuenta_contable list"

definition con_plan ::
  "(cuenta_contable list \<Rightarrow> cuenta_contable list) \<Rightarrow> 'a bd_plan_scheme \<Rightarrow> 'a bd_plan_scheme" where
  "con_plan f s = s\<lparr>plan_cuentas := f (plan_cuentas s)\<rparr>"

interpretation plan: coleccion cc_id plan_cuentas con_plan
  by unfold_locales (simp add: con_plan_def)

definition cc_no_encontrada :: "oid \<Rightarrow> excepcion" where
  "cc_no_encontrada i = NotFoundException ''Cuenta contable con ID {} no encontrada.'' [AId i]"

definition cc_create :: "cuenta_contable \<Rightarrow> ('a bd_plan_scheme, cuenta_contable) proc" where
  "cc_create dto =
     ebind nuevo_id (\<lambda>i.
     ebind (modify (con_plan (\<lambda>ds. ds @ [dto\<lparr>cc_id := i\<rparr>]))) (\<lambda>_.
     ret (dto\<lparr>cc_id := i\<rparr>)))"

definition cc_findAllWithoutPagination :: "('a bd_plan_scheme, cuenta_contable list) proc" where
  "cc_findAllWithoutPagination = gets plan_cuentas"

definition cc_findOne :: "oid \<Rightarrow> ('a bd_plan_scheme, cuenta_contable) proc" where
  "cc_findOne i = obtener cc_id plan_cuentas i (cc_no_encontrada i)"

text \<open>The update document sets the fields it carries; \<open>f\<close> is that change, which keeps the id.\<close>

definition cc_update ::
  "oid \<Rightarrow> (cuenta_contable \<Rightarrow> cuenta_contable) \<Rightarrow> ('a bd_plan_scheme, cuenta_contable) proc" where
  "cc_update i f =
     ebind (obtener cc_id plan_cuentas i (cc_no_encontrada i)) (\<lambda>c.
     let c' = (f c)\<lparr>cc_id := i\<rparr> in
     ebind (modify (con_plan (save_doc cc_id c'))) (\<lambda>_. ret c'))"

definition cc_remove :: "oid \<Rightarrow> ('a bd_plan_scheme, bool) proc" where
  "cc_remove i =
     ebind (obtener cc_id plan_cuentas i (cc_no_encontrada i)) (\<lambda>_.
     ebind (modify (con_plan (delete_one (\<lambda>c. cc_id c = i)))) (\<lambda>_. ret True))"

definition cc_find :: "(cuenta_contable \<Rightarrow> bool) \<Rightarrow> ('a bd_plan_scheme, cuenta_contable list) proc" where
  "cc_find P = gets (\<lambda>s. filter P (plan_cuentas s))"

text \<open>The map built by \<^verbatim>\<open>reduce\<close>: a later account with the same code overwrites.\<close>

definition mapa_codigos :: "cuenta_contable list \<Rightarrow> string \<rightharpoonup> oid" where
  "mapa_codigos cs = foldl (\<lambda>m c. m(codigo c \<mapsto> cc_id c)) Map.empty cs"

definition getAccountIdsByCode :: "string list \<Rightarrow> ('a bd_plan_scheme, string \<rightharpoonup> oid) proc" where
  "getAccountIdsByCode codes =
     ebind (gets (\<lambda>s. filter (\<lambda>c. codigo c \<in> set codes) (plan_cuentas s))) (\<lambda>accounts.
     let m = mapa_codigos accounts;
         notFound = filter (\<lambda>code. m code = None) codes
     in if notFound \<noteq> []
        then raise (NotFoundException
               ''No se encontraron las siguientes cuentas contables requeridas: {}''
               (map AStr notFound))
        else ret m)"

section \<open>What the code map holds\<close>

lemma foldl_codigos:
  "foldl (\<lambda>m c. m(codigo c \<mapsto> cc_id c)) m0 cs k =
     (case map_of (rev (map (\<lambda>c. (codigo c, cc_id c)) cs)) k of None \<Rightarrow> m0 k | Some i \<Rightarrow> Some i)"
  by (induction cs arbitrary: m0) (auto simp: map_add_def split: option.split)

lemma mapa_codigos_map_of:
  "mapa_codigos cs k = map_of (rev (map (\<lambda>c. (codigo c, cc_id c)) cs)) k"
  by (simp add: mapa_codigos_def foldl_codigos split: option.split)

lemma mapa_codigos_Some:
  assumes "mapa_codigos cs k = Some i"
  shows "\<exists>c \<in> set cs. codigo c = k \<and> cc_id c = i"
proof -
  from assms have "map_of (rev (map (\<lambda>c. (codigo c, cc_id c)) cs)) k = Some i"
    by (simp add: mapa_codigos_map_of)
  then show ?thesis by (auto dest!: map_of_SomeD)
qed

lemma mapa_codigos_None_iff: "mapa_codigos cs k = None \<longleftrightarrow> k \<notin> codigo ` set cs"
  by (simp add: mapa_codigos_map_of map_of_eq_None_iff image_image)

lemma getAccountIdsByCode_Inr:
  assumes "getAccountIdsByCode codes s = (Inr m, s')"
  shows "s' = s"
    and "k \<in> set codes \<Longrightarrow> \<exists>c \<in> set (plan_cuentas s). codigo c = k \<and> m k = Some (cc_id c)"
    and "k \<notin> set codes \<Longrightarrow> m k = None"
proof -
  let ?cs = "filter (\<lambda>c. codigo c \<in> set codes) (plan_cuentas s)"
  from assms have m: "m = mapa_codigos ?cs" and "s' = s"
    and all: "\<forall>code \<in> set codes. mapa_codigos ?cs code \<noteq> None"
    by (auto simp: getAccountIdsByCode_def Let_def proc_simps filter_empty_conv split: if_splits)
  then show "s' = s" by simp
  show "\<exists>c \<in> set (plan_cuentas s). codigo c = k \<and> m k = Some (cc_id c)" if "k \<in> set codes"
  proof -
    from all that obtain i where i: "mapa_codigos ?cs k = Some i" by auto
    from mapa_codigos_Some [OF i] i m show ?thesis by auto
  qed
  show "m k = None" if "k \<notin> set codes"
    using that unfolding m mapa_codigos_None_iff by auto
qed

lemma getAccountIdsByCode_ok_iff:
  "(\<exists>m. getAccountIdsByCode codes s = (Inr m, s)) \<longleftrightarrow> set codes \<subseteq> codigo ` set (plan_cuentas s)"
  by (auto simp: getAccountIdsByCode_def Let_def proc_simps filter_empty_conv mapa_codigos_None_iff
      split: if_splits)

lemma getAccountIdsByCode_state: "snd (getAccountIdsByCode codes s) = s"
  by (simp add: getAccountIdsByCode_def Let_def ret_def raise_def)

lemma preserves_getAccountIdsByCode [intro]: "preserves P (getAccountIdsByCode codes)"
  by (simp add: preserves_def getAccountIdsByCode_state)

end
