(* ===== verification/Transactions.thy ===== *)
theory Transactions
  imports ChartOfAccounts
begin

text \<open>
  \<^verbatim>\<open>src/modules/transactions\<close>: the cash and bank transactions, and the part of their
  service that touches only them. \<^verbatim>\<open>liquidate\<close> and the balance queries, which call the
  accounting service, are with it.
\<close>

datatype tipo_movimiento = INGRESO | EGRESO

record transaccion_doc =
  tx_id :: oid
  referencia_asiento :: "oid option"
  tx_cuenta_financiera_id :: oid
  fecha_transaccion :: fecha
  tx_monto :: monto
  tx_tipo :: tipo_movimiento
  tx_descripcion :: "texto option"
  tx_receipt_id :: "oid option"
  conciliado :: bool
  fecha_conciliacion :: "fecha option"
  referencia_bancaria :: "string option"
  tx_usuario_creacion_id :: "oid option"
  tx_usuario_modificacion_id :: "oid option"

record bd_tx = bd_plan +
  transacciones :: "transaccion_doc list"

definition con_tx ::
  "(transaccion_doc list \<Rightarrow> transaccion_doc list) \<Rightarrow> 'a bd_tx_scheme \<Rightarrow> 'a bd_tx_scheme" where
  "con_tx f s = s\<lparr>transacciones := f (transacciones s)\<rparr>"

interpretation txs: coleccion tx_id transacciones con_tx
  by unfold_locales (simp add: con_tx_def)

record create_transaction_dto =
  ct_referencia_asiento :: "oid option"
  ct_monto :: monto
  ct_cuenta_financiera_id :: oid
  ct_fecha_transaccion :: "fecha option"
  ct_tipo :: tipo_movimiento
  ct_descripcion :: "texto option"
  ct_referencia_bancaria :: "string option"
  ct_receipt_id :: "oid option"

definition tx_create ::
  "create_transaction_dto \<Rightarrow> oid \<Rightarrow> ('a bd_tx_scheme, transaccion_doc) proc" where
  "tx_create dto userId =
     ebind nuevo_id (\<lambda>i.
     ebind (gets ahora) (\<lambda>hoy.
     let t = \<lparr>tx_id = i,
              referencia_asiento = ct_referencia_asiento dto,
              tx_cuenta_financiera_id = ct_cuenta_financiera_id dto,
              fecha_transaccion = coalesce (ct_fecha_transaccion dto) hoy,
              tx_monto = ct_monto dto,
              tx_tipo = ct_tipo dto,
              tx_descripcion = ct_descripcion dto,
              tx_receipt_id = ct_receipt_id dto,
              conciliado = False,
              fecha_conciliacion = None,
              referencia_bancaria = ct_referencia_bancaria dto,
              tx_usuario_creacion_id = Some userId,
              tx_usuario_modificacion_id = Some userId\<rparr>
     in ebind (modify (con_tx (\<lambda>ts. ts @ [t]))) (\<lambda>_. ret t)))"

text \<open>
  \<^verbatim>\<open>findUnreconciledTransactions\<close>: the filter of the query and its
  \<^verbatim>\<open>.limit(filters.limit || 50)\<close>.
\<close>

record filtro_no_conciliadas =
  fn_tipo :: tipo_movimiento
  fn_monto :: monto
  fn_desde :: fecha
  fn_hasta :: fecha
  fn_limit :: "nat option"

definition limite_o :: "nat option \<Rightarrow> nat \<Rightarrow> nat" where
  "limite_o l d = (case l of None \<Rightarrow> d | Some n \<Rightarrow> if n = 0 then d else n)"

definition no_conciliada :: "filtro_no_conciliadas \<Rightarrow> transaccion_doc \<Rightarrow> bool" where
  "no_conciliada f t \<longleftrightarrow>
     \<not> conciliado t \<and> tx_tipo t = fn_tipo f \<and> tx_monto t = fn_monto f \<and>
     fn_desde f \<le> fecha_transaccion t \<and> fecha_transaccion t \<le> fn_hasta f"

definition findUnreconciledTransactions ::
  "filtro_no_conciliadas \<Rightarrow> ('a bd_tx_scheme, transaccion_doc list) proc" where
  "findUnreconciledTransactions f =
     gets (\<lambda>s. take (limite_o (fn_limit f) 50) (filter (no_conciliada f) (transacciones s)))"

definition markAsReconciled :: "oid \<Rightarrow> ('a bd_tx_scheme, transaccion_doc) proc" where
  "markAsReconciled i =
     ebind (obtener tx_id transacciones i
              (NotFoundException ''Transaction with ID {} not found'' [AId i])) (\<lambda>t.
     ebind (gets ahora) (\<lambda>hoy.
     let t' = t\<lparr>conciliado := True, fecha_conciliacion := Some hoy\<rparr>
     in ebind (modify (con_tx (save_doc tx_id t'))) (\<lambda>_. ret t')))"

lemma markAsReconciled_Inr:
  assumes "markAsReconciled i s = (Inr t, s')"
  shows "conciliado t" and "tx_id t = i" and "find_id tx_id i (transacciones s') = Some t"
    and "j \<noteq> i \<Longrightarrow> find_id tx_id j (transacciones s') = find_id tx_id j (transacciones s)"
proof -
  from assms obtain t0 where t0: "find_id tx_id i (transacciones s) = Some t0"
    and t: "t = t0\<lparr>conciliado := True, fecha_conciliacion := Some (ahora s)\<rparr>"
    and s': "s' = con_tx (save_doc tx_id t) s"
    by (auto simp: markAsReconciled_def Let_def proc_simps)
  from find_id_key [OF t0] t show i: "tx_id t = i" by simp
  show "conciliado t" using t by simp
  show "find_id tx_id i (transacciones s') = Some t"
    unfolding s' by (rule txs.get_put [OF t0 i])
  show "find_id tx_id j (transacciones s') = find_id tx_id j (transacciones s)" if "j \<noteq> i"
    unfolding s' by (rule txs.get_put_other) (use that i in simp)
qed

lemma findUnreconciled_pendiente:
  "findUnreconciledTransactions f s = (Inr ts, s') \<Longrightarrow>
   s' = s \<and> length ts \<le> limite_o (fn_limit f) 50 \<and>
   (\<forall>t \<in> set ts. t \<in> set (transacciones s) \<and> no_conciliada f t)"
  by (auto simp: findUnreconciledTransactions_def proc_simps dest: in_set_takeD)

end
