(* ===== verification/FinancialAccounts.thy ===== *)
theory FinancialAccounts
  imports Transactions
begin

text \<open>
  \<^verbatim>\<open>src/modules/financial-accounts\<close>: bank accounts and cash boxes, the balance movement
  every payment goes through, and the movements report. The running balance is the field the
  code calls \<^verbatim>\<open>saldo_inicial\<close>.
\<close>

datatype tipo_cuenta_fin =
  BANCO_CTA_CTE | BANCO_CAJA_AHORRO | CAJA_EFECTIVO | VALORES_A_DEPOSITAR | CUENTAS_POR_COBRAR

record cuenta_fin =
  cf_id :: oid
  cf_nombre :: string
  cf_tipo :: tipo_cuenta_fin
  moneda :: string
  cf_descripcion :: "string option"
  saldo_inicial :: monto
  cf_activa :: bool
  cbu :: "string option"
  cf_alias :: "string option"
  bank_id :: "oid option"

record bd_fin = bd_tx +
  cuentas_fin :: "cuenta_fin list"

definition con_fin :: "(cuenta_fin list \<Rightarrow> cuenta_fin list) \<Rightarrow> 'a bd_fin_scheme \<Rightarrow> 'a bd_fin_scheme"
  where "con_fin f s = s\<lparr>cuentas_fin := f (cuentas_fin s)\<rparr>"

interpretation fin: coleccion cf_id cuentas_fin con_fin
  by unfold_locales (simp add: con_fin_def)

abbreviation cuenta_de :: "oid \<Rightarrow> 'a bd_fin_scheme \<Rightarrow> cuenta_fin option" where
  "cuenta_de i s \<equiv> find_id cf_id i (cuentas_fin s)"

definition saldo_de :: "oid \<Rightarrow> 'a bd_fin_scheme \<Rightarrow> monto option" where
  "saldo_de i s = map_option saldo_inicial (cuenta_de i s)"

section \<open>The service\<close>

definition cf_no_encontrada :: "oid \<Rightarrow> excepcion" where
  "cf_no_encontrada i = NotFoundException ''Cuenta financiera con ID {} no encontrada.'' [AId i]"

definition cf_create :: "cuenta_fin \<Rightarrow> ('a bd_fin_scheme, cuenta_fin) proc" where
  "cf_create dto =
     ebind nuevo_id (\<lambda>i.
     ebind (modify (con_fin (\<lambda>ds. ds @ [dto\<lparr>cf_id := i\<rparr>]))) (\<lambda>_. ret (dto\<lparr>cf_id := i\<rparr>)))"

definition cf_findAll :: "('a bd_fin_scheme, cuenta_fin list) proc" where
  "cf_findAll = gets cuentas_fin"

definition cf_findOne :: "oid \<Rightarrow> ('a bd_fin_scheme, cuenta_fin) proc" where
  "cf_findOne i = obtener cf_id cuentas_fin i (cf_no_encontrada i)"

definition cf_update ::
  "oid \<Rightarrow> (cuenta_fin \<Rightarrow> cuenta_fin) \<Rightarrow> ('a bd_fin_scheme, cuenta_fin) proc" where
  "cf_update i f =
     ebind (obtener cf_id cuentas_fin i (cf_no_encontrada i)) (\<lambda>c.
     let c' = (f c)\<lparr>cf_id := i\<rparr> in
     ebind (modify (con_fin (save_doc cf_id c'))) (\<lambda>_. ret c'))"

definition cf_remove :: "oid \<Rightarrow> ('a bd_fin_scheme, bool) proc" where
  "cf_remove i =
     ebind (obtener cf_id cuentas_fin i (cf_no_encontrada i)) (\<lambda>_.
     ebind (modify (con_fin (delete_one (\<lambda>c. cf_id c = i)))) (\<lambda>_. ret True))"

text \<open>The \<^verbatim>\<open>type\<close> argument of \<^verbatim>\<open>updateBalance\<close>; any other string takes the last branch.\<close>

datatype tipo_saldo = MovINGRESO | MovEGRESO | MovSET | MovOtro string

fun nuevo_saldo :: "tipo_saldo \<Rightarrow> monto \<Rightarrow> monto \<Rightarrow> monto" where
  "nuevo_saldo MovINGRESO m s = s + m"
| "nuevo_saldo MovEGRESO m s = s + - m"
| "nuevo_saldo MovSET m s = m"
| "nuevo_saldo (MovOtro t) m s = s"

definition updateBalance ::
  "oid \<Rightarrow> monto \<Rightarrow> tipo_saldo \<Rightarrow> ('a bd_fin_scheme, cuenta_fin) proc" where
  "updateBalance accountId amount type =
     (case type of
        MovOtro t \<Rightarrow> raise (BadRequestException ''Invalid movement type: {}'' [AStr t])
      | _ \<Rightarrow>
        ebind (obtener cf_id cuentas_fin accountId
                 (NotFoundException
                    ''Cuenta financiera con ID {} no encontrada para actualizar el saldo.''
                    [AId accountId])) (\<lambda>c.
        let c' = c\<lparr>saldo_inicial := nuevo_saldo type amount (saldo_inicial c)\<rparr> in
        ebind (modify (con_fin (save_doc cf_id c'))) (\<lambda>_. ret c')))"

section \<open>What a balance movement does\<close>

lemma updateBalance_Inr:
  assumes "updateBalance i m ty s = (Inr c, s')"
  shows "\<exists>c0. cuenta_de i s = Some c0 \<and> c = c0\<lparr>saldo_inicial := nuevo_saldo ty m (saldo_inicial c0)\<rparr> \<and>
     s' = con_fin (save_doc cf_id c) s"
  using assms
  by (auto simp: updateBalance_def Let_def proc_simps split: tipo_saldo.splits)

lemma updateBalance_saldo:
  assumes "updateBalance i m ty s = (Inr c, s')"
  shows "saldo_de j s' =
     (if j = i then map_option (nuevo_saldo ty m) (saldo_de i s) else saldo_de j s)"
proof -
  from updateBalance_Inr [OF assms] obtain c0 where c0: "cuenta_de i s = Some c0"
    and c: "c = c0\<lparr>saldo_inicial := nuevo_saldo ty m (saldo_inicial c0)\<rparr>"
    and s': "s' = con_fin (save_doc cf_id c) s" by blast
  from find_id_key [OF c0] c have i: "cf_id c = i" by simp
  show ?thesis
    by (simp add: saldo_de_def s' fin.get_put_iff i c0) (simp add: c)
qed

lemma updateBalance_frame:
  "updateBalance i m ty s = (r, s') \<Longrightarrow> s' = s\<lparr>cuentas_fin := cuentas_fin s'\<rparr>"
  by (auto simp: updateBalance_def Let_def obtener_def ebind_def raise_def modify_def ret_def con_fin_def
      split: tipo_saldo.splits option.splits)

lemma updateBalance_ok:
  "cuenta_de i s \<noteq> None \<Longrightarrow> (\<nexists>t. ty = MovOtro t) \<Longrightarrow> \<exists>c s'. updateBalance i m ty s = (Inr c, s')"
  by (cases ty) (auto simp: updateBalance_def Let_def obtener_def ebind_def modify_def ret_def)

lemma updateBalance_Inl:
  "updateBalance i m ty s = (Inl e, s') \<Longrightarrow> s' = s"
  by (auto simp: updateBalance_def Let_def proc_simps split: tipo_saldo.splits)

section \<open>The movements report\<close>

text \<open>
  \<^verbatim>\<open>setHours(23, 59, 59, 999)\<close> moves an instant to the end of its local day; \<open>tz\<close> is the
  offset of local time from UTC in milliseconds.
\<close>

definition dia_ms :: int where "dia_ms = 86400000"

definition fin_del_dia :: "int \<Rightarrow> fecha \<Rightarrow> fecha" where
  "fin_del_dia tz t = ((t + tz) div dia_ms) * dia_ms + (dia_ms - 1) - tz"

record movements_query =
  mq_cuenta :: "oid option"
  mq_desde :: "fecha option"
  mq_hasta :: "fecha option"
  mq_tipo :: "tipo_movimiento option"
  mq_conciliado :: "bool option"
  mq_page :: nat
  mq_pageSize :: nat

definition filtro_movimientos :: "int \<Rightarrow> movements_query \<Rightarrow> transaccion_doc \<Rightarrow> bool" where
  "filtro_movimientos tz q t \<longleftrightarrow>
     (case mq_cuenta q of None \<Rightarrow> True | Some c \<Rightarrow> tx_cuenta_financiera_id t = c) \<and>
     (case mq_tipo q of None \<Rightarrow> True | Some ty \<Rightarrow> tx_tipo t = ty) \<and>
     (case mq_conciliado q of None \<Rightarrow> True | Some b \<Rightarrow> conciliado t = b) \<and>
     (case mq_desde q of None \<Rightarrow> True | Some d \<Rightarrow> d \<le> fecha_transaccion t) \<and>
     (case mq_hasta q of None \<Rightarrow> True | Some h \<Rightarrow> fecha_transaccion t \<le> fin_del_dia tz h)"

record movements_result =
  mr_data :: "transaccion_doc list"
  mr_total :: nat
  mr_page :: nat
  mr_pageSize :: nat
  mr_totalPages :: int
  total_ingresos :: monto
  total_egresos :: monto
  flujo_neto :: monto
  cantidad_ingresos :: nat
  cantidad_egresos :: nat

text \<open>\<open>orden\<close> is the result of \<^verbatim>\<open>.sort(sort)\<close>, done by the database.\<close>

definition getMovements ::
  "int \<Rightarrow> (transaccion_doc list \<Rightarrow> transaccion_doc list) \<Rightarrow> movements_query \<Rightarrow>
   ('a bd_fin_scheme, movements_result) proc" where
  "getMovements tz orden q =
     ebind (gets (\<lambda>s. filter (filtro_movimientos tz q) (transacciones s))) (\<lambda>ms.
     let ing = filter (\<lambda>t. tx_tipo t = INGRESO) ms;
         egr = filter (\<lambda>t. tx_tipo t = EGRESO) ms;
         ti = (\<Sum>t\<leftarrow>ing. tx_monto t);
         te = (\<Sum>t\<leftarrow>egr. tx_monto t)
     in ret \<lparr>mr_data = pagina (mq_page q) (mq_pageSize q) (orden ms),
             mr_total = length ms,
             mr_page = mq_page q,
             mr_pageSize = mq_pageSize q,
             mr_totalPages = total_paginas (length ms) (mq_pageSize q),
             total_ingresos = ti,
             total_egresos = te,
             flujo_neto = ti - te,
             cantidad_ingresos = length ing,
             cantidad_egresos = length egr\<rparr>)"

definition monto_con_signo :: "transaccion_doc \<Rightarrow> monto" where
  "monto_con_signo t = (case tx_tipo t of INGRESO \<Rightarrow> tx_monto t | EGRESO \<Rightarrow> - tx_monto t)"

lemma flujo_neto_suma:
  "(\<Sum>t\<leftarrow>filter (\<lambda>t. tx_tipo t = INGRESO) ms. tx_monto t) -
   (\<Sum>t\<leftarrow>filter (\<lambda>t. tx_tipo t = EGRESO) ms. tx_monto t) = (\<Sum>t\<leftarrow>ms. monto_con_signo t)"
  by (induction ms) (auto simp: monto_con_signo_def split: tipo_movimiento.splits)

lemma egreso_iff: "ty = EGRESO \<longleftrightarrow> ty \<noteq> INGRESO"
  by (cases ty) simp_all

lemma cantidades_total:
  "length (filter (\<lambda>t. tx_tipo t = INGRESO) ms) + length (filter (\<lambda>t. tx_tipo t = EGRESO) ms) = length ms"
  by (simp only: egreso_iff sum_length_filter_compl)

lemma techo_dia:
  fixes x D :: int
  assumes "0 < D"
  shows "x \<le> x div D * D + (D - 1)" and "x div D * D + (D - 1) < x + D"
    and "(x div D * D + (D - 1)) div D = x div D"
proof -
  have e: "x = x div D * D + x mod D" by simp
  have b: "0 \<le> x mod D" "x mod D < D" using assms by simp_all
  show "x \<le> x div D * D + (D - 1)" and "x div D * D + (D - 1) < x + D"
    using e b by linarith+
  have "(x div D * D + (D - 1)) div D = x div D + (D - 1) div D"
    using assms by (simp add: add.commute)
  also have "(D - 1) div D = 0"
    using assms by (simp add: div_pos_pos_trivial)
  finally show "(x div D * D + (D - 1)) div D = x div D" by simp
qed

lemma fin_del_dia_mismo_dia:
  "t \<le> fin_del_dia tz t" "fin_del_dia tz t < t + dia_ms"
  "(fin_del_dia tz t + tz) div dia_ms = (t + tz) div dia_ms"
proof -
  have "0 < dia_ms" by (simp add: dia_ms_def)
  note d = techo_dia [OF this, of "t + tz"]
  show "t \<le> fin_del_dia tz t" and "fin_del_dia tz t < t + dia_ms"
    using d(1,2) unfolding fin_del_dia_def by linarith+
  have "fin_del_dia tz t + tz = (t + tz) div dia_ms * dia_ms + (dia_ms - 1)"
    by (simp add: fin_del_dia_def)
  then show "(fin_del_dia tz t + tz) div dia_ms = (t + tz) div dia_ms"
    using d(3) by simp
qed

end
