(* ===== verification/Imputation.thy ===== *)
theory Imputation
  imports Base
begin

text \<open>
  The loop \<^verbatim>\<open>for (const partida of asiento.partidas) ...\<close> that spreads an amount over
  the lines of an entry occurs three times in the accounting service (payment and
  condonation, settlement of credit lines, compensation of debit lines). Each body is a step
  that takes the local variables and a line and returns both updated. The locale
  \<open>imputacion\<close> states what the callers rely on about such a body, and derives the
  conservation and bound laws of the whole loop from it.
\<close>

section \<open>The loop\<close>

fun recorrer :: "('l \<Rightarrow> 'p \<Rightarrow> 'l \<times> 'p) \<Rightarrow> 'l \<Rightarrow> 'p list \<Rightarrow> 'l \<times> 'p list" where
  "recorrer paso l [] = (l, [])"
| "recorrer paso l (p # ps) =
     (case paso l p of (l', p') \<Rightarrow>
      case recorrer paso l' ps of (l'', ps') \<Rightarrow> (l'', p' # ps'))"

lemma length_recorrer [simp]: "length (snd (recorrer paso l ps)) = length ps"
  by (induction ps arbitrary: l) (auto split: prod.splits, metis snd_conv)

lemma recorrer_vacio: "snd (recorrer paso l ps) = [] \<longleftrightarrow> ps = []"
  by (metis length_0_conv length_recorrer)

text \<open>A property of lines that every step keeps is kept by the loop, line by line.\<close>

lemma recorrer_pointwise:
  assumes "\<And>l p. R p (snd (paso l p))"
  shows "list_all2 R ps (snd (recorrer paso l ps))"
proof (induction ps arbitrary: l)
  case Nil
  show ?case by simp
next
  case (Cons p ps)
  have "R p (snd (paso l p))" by (rule assms)
  with Cons.IH show ?case by (auto split: prod.splits) (metis snd_conv)
qed

text \<open>A projection of lines that no step changes is unchanged by the loop.\<close>

lemma recorrer_map:
  assumes "\<And>l p. f (snd (paso l p)) = f p"
  shows "map f (snd (recorrer paso l ps)) = map f ps"
proof (induction ps arbitrary: l)
  case Nil
  show ?case by simp
next
  case (Cons p ps)
  have "f (snd (paso l p)) = f p" by (rule assms)
  with Cons.IH show ?case by (auto split: prod.splits) (metis snd_conv)+
qed

section \<open>What the callers rely on\<close>

locale imputacion =
  fixes paso :: "'l \<Rightarrow> 'p \<Rightarrow> 'l \<times> 'p"
    and acum :: "'p \<Rightarrow> monto"
    and tope :: "'p \<Rightarrow> monto"
    and gastado :: "'l \<Rightarrow> monto"
    and sano :: "'l \<Rightarrow> bool"
  assumes conserva: "paso l p = (l', p') \<Longrightarrow> acum p' - acum p = gastado l' - gastado l"
    and sano_paso: "paso l p = (l', p') \<Longrightarrow> sano l \<Longrightarrow> sano l'"
    and crece: "paso l p = (l', p') \<Longrightarrow> sano l \<Longrightarrow> acum p \<le> acum p'"
    and acotado: "paso l p = (l', p') \<Longrightarrow> sano l \<Longrightarrow> acum p \<le> tope p \<Longrightarrow> acum p' \<le> tope p"
    and tope_fijo: "paso l p = (l', p') \<Longrightarrow> tope p' = tope p"
begin

lemma recorrer_conserva:
  "recorrer paso l ps = (l', ps') \<Longrightarrow>
   (\<Sum>p\<leftarrow>ps'. acum p) - (\<Sum>p\<leftarrow>ps. acum p) = gastado l' - gastado l"
proof (induction ps arbitrary: l l' ps')
  case Nil
  then show ?case by simp
next
  case (Cons p ps)
  obtain l1 p1 where p: "paso l p = (l1, p1)" by fastforce
  obtain l2 ps1 where r: "recorrer paso l1 ps = (l2, ps1)" by fastforce
  from Cons.prems p r have "l' = l2" "ps' = p1 # ps1" by auto
  with Cons.IH [OF r] conserva [OF p] show ?case by simp
qed

lemma recorrer_sano: "recorrer paso l ps = (l', ps') \<Longrightarrow> sano l \<Longrightarrow> sano l'"
  by (induction ps arbitrary: l l' ps') (auto split: prod.splits dest: sano_paso)

lemma recorrer_crece:
  "recorrer paso l ps = (l', ps') \<Longrightarrow> sano l \<Longrightarrow> list_all2 (\<lambda>p p'. acum p \<le> acum p') ps ps'"
  by (induction ps arbitrary: l l' ps') (auto split: prod.splits dest: sano_paso crece)

lemma recorrer_acotado:
  "recorrer paso l ps = (l', ps') \<Longrightarrow> sano l \<Longrightarrow> list_all (\<lambda>p. acum p \<le> tope p) ps \<Longrightarrow>
   list_all (\<lambda>p. acum p \<le> tope p) ps'"
proof (induction ps arbitrary: l l' ps')
  case Nil
  then show ?case by simp
next
  case (Cons p ps)
  obtain l1 p1 where p: "paso l p = (l1, p1)" by fastforce
  obtain l2 ps1 where r: "recorrer paso l1 ps = (l2, ps1)" by fastforce
  from Cons.prems(1) p r have "ps' = p1 # ps1" by auto
  with Cons.IH [OF r] sano_paso [OF p] acotado [OF p] tope_fijo [OF p] Cons.prems(2,3)
  show ?case by simp
qed

lemma recorrer_gasta: "recorrer paso l ps = (l', ps') \<Longrightarrow> sano l \<Longrightarrow> gastado l \<le> gastado l'"
proof (induction ps arbitrary: l l' ps')
  case Nil
  then show ?case by simp
next
  case (Cons p ps)
  obtain l1 p1 where p: "paso l p = (l1, p1)" by fastforce
  obtain l2 ps1 where r: "recorrer paso l1 ps = (l2, ps1)" by fastforce
  from Cons.prems(1) p r have "l' = l2" by auto
  with Cons.IH [OF r] sano_paso [OF p] crece [OF p] conserva [OF p] Cons.prems(2)
  show ?case by simp
qed

text \<open>With lines within their limits, the loop never spends more than the room left.\<close>

lemma recorrer_cabe:
  assumes "recorrer paso l ps = (l', ps')" and "sano l"
    and "list_all (\<lambda>p. acum p \<le> tope p) ps"
  shows "gastado l' - gastado l \<le> (\<Sum>p\<leftarrow>ps. tope p - acum p)"
  using assms
proof (induction ps arbitrary: l l' ps')
  case Nil
  then show ?case by simp
next
  case (Cons p ps)
  obtain l1 p1 where p: "paso l p = (l1, p1)" by fastforce
  obtain l2 ps1 where r: "recorrer paso l1 ps = (l2, ps1)" by fastforce
  from Cons.prems(1) p r have "l' = l2" by auto
  with Cons.IH [OF r] sano_paso [OF p] acotado [OF p] conserva [OF p] Cons.prems(2,3)
  show ?case by simp
qed

end

end
