(* ===== verification/AccountingEntry.thy ===== *)
theory AccountingEntry
  imports FinancialAccounts Imputation "HOL-Library.AList"
begin

text \<open>
  \<^verbatim>\<open>src/modules/accounting-entries/entities\<close> and the data transfer objects of the module:
  an accounting entry (\<^verbatim>\<open>asiento\<close>) with its lines (\<^verbatim>\<open>partidas\<close>), the collection, its
  creation with the defaults of the schema, and the well-formedness of an entry.

  \<^verbatim>\<open>debe\<close> is the debit of a line and \<^verbatim>\<open>haber\<close> its credit. \<^verbatim>\<open>monto_pagado_acumulado\<close>
  accumulates what has been collected of a debit, \<^verbatim>\<open>monto_liquidado\<close> what has been settled of
  a credit.
\<close>

section \<open>The entity\<close>

datatype estado =
    PENDIENTE
  | PENDIENTE_AJUSTE
  | PAGADO
  | PAGADO_PARCIAL
  | COBRADO
  | ANULADO
  | CONDONADO
  | PENDIENTE_APROBACION
  | LIQUIDADO
  | ANULADO_POR_RESCISION
  | PENDIENTE_FACTURAR
  | FACTURADO

fun estado_nombre :: "estado \<Rightarrow> string" where
  "estado_nombre PENDIENTE = ''PENDIENTE''"
| "estado_nombre PENDIENTE_AJUSTE = ''PENDIENTE_AJUSTE''"
| "estado_nombre PAGADO = ''PAGADO''"
| "estado_nombre PAGADO_PARCIAL = ''PAGADO_PARCIAL''"
| "estado_nombre COBRADO = ''COBRADO''"
| "estado_nombre ANULADO = ''ANULADO''"
| "estado_nombre CONDONADO = ''CONDONADO''"
| "estado_nombre PENDIENTE_APROBACION = ''PENDIENTE_APROBACION''"
| "estado_nombre LIQUIDADO = ''LIQUIDADO''"
| "estado_nombre ANULADO_POR_RESCISION = ''ANULADO_POR_RESCISION''"
| "estado_nombre PENDIENTE_FACTURAR = ''PENDIENTE_FACTURAR''"
| "estado_nombre FACTURADO = ''FACTURADO''"

record partida =
  cuenta_id :: oid
  p_descripcion :: texto
  debe :: monto
  haber :: monto
  p_agente_id :: "oid option"
  monto_pagado_acumulado :: "monto option"
  monto_liquidado :: "monto option"
  es_iva_incluido :: bool
  tasa_iva_aplicada :: "monto option"
  monto_base_imponible :: "monto option"
  monto_iva_calculado :: "monto option"

record cambio =
  c_fecha :: fecha
  c_usuario_id :: oid
  c_accion :: string
  estado_anterior :: "estado option"
  estado_nuevo :: "estado option"
  c_monto :: "monto option"
  c_observaciones :: "texto option"

datatype valor_meta = MStr texto | MNum monto | MBool bool

record asiento =
  a_id :: oid
  contrato_id :: "oid option"
  fecha_imputacion :: fecha
  fecha_vencimiento :: fecha
  descripcion :: texto
  tipo_asiento :: string
  metadata :: "(string \<times> valor_meta) list option"
  estado :: estado
  monto_original :: monto
  monto_actual :: monto
  partidas :: "partida list"
  es_ajustable :: bool
  regla_ajuste :: "string option"
  usuario_creacion_id :: "oid option"
  usuario_modificacion_id :: "oid option"
  fecha_pago :: "fecha option"
  metodo_pago :: "string option"
  recibo_id :: "oid option"
  fecha_anulacion :: "fecha option"
  motivo_anulacion :: "string option"
  tipo_motivo_anulacion :: "string option"
  fecha_condonacion :: "fecha option"
  monto_condonado :: "monto option"
  motivo_condonacion :: "string option"
  fecha_liquidacion :: "fecha option"
  metodo_liquidacion :: "string option"
  comprobante_liquidacion :: "string option"
  historial_cambios :: "cambio list"

record bd_asi = bd_fin +
  asientos :: "asiento list"

definition con_asientos ::
  "(asiento list \<Rightarrow> asiento list) \<Rightarrow> 'a bd_asi_scheme \<Rightarrow> 'a bd_asi_scheme" where
  "con_asientos f s = s\<lparr>asientos := f (asientos s)\<rparr>"

interpretation asi: coleccion a_id asientos con_asientos
  by unfold_locales (simp add: con_asientos_def)

abbreviation asiento_de :: "oid \<Rightarrow> 'a bd_asi_scheme \<Rightarrow> asiento option" where
  "asiento_de i s \<equiv> find_id a_id i (asientos s)"

definition asiento_no_encontrado :: excepcion where
  "asiento_no_encontrado = NotFoundException ''Asiento no encontrado'' []"

definition cargarAsiento :: "oid \<Rightarrow> ('a bd_asi_scheme, asiento) proc" where
  "cargarAsiento i = obtener a_id asientos i asiento_no_encontrado"

definition guardarAsiento :: "asiento \<Rightarrow> ('a bd_asi_scheme, asiento) proc" where
  "guardarAsiento a = ebind (modify (con_asientos (save_doc a_id a))) (\<lambda>_. ret a)"

section \<open>Creation\<close>

text \<open>\<^verbatim>\<open>Partial<AccountingEntry>\<close>: the fields the callers of \<^verbatim>\<open>create\<close> give.\<close>

record asiento_dto =
  d_contrato_id :: "oid option"
  d_fecha_imputacion :: "fecha option"
  d_fecha_vencimiento :: "fecha option"
  d_descripcion :: "texto option"
  d_tipo_asiento :: "string option"
  d_metadata :: "(string \<times> valor_meta) list option"
  d_estado :: "estado option"
  d_monto_original :: "monto option"
  d_monto_actual :: "monto option"
  d_partidas :: "partida list option"
  d_usuario_creacion_id :: "oid option"
  d_usuario_modificacion_id :: "oid option"
  d_historial :: "cambio list"

text \<open>
  \<^verbatim>\<open>new this.accountingEntryModel(dto)\<close> and the validation of \<^verbatim>\<open>save\<close>: the \<^verbatim>\<open>default\<close> and
  \<^verbatim>\<open>required\<close> clauses of the schema. A required string must be given and not be empty.
\<close>

definition partida_defaults :: "partida \<Rightarrow> partida" where
  "partida_defaults p =
     p\<lparr>monto_pagado_acumulado := Some (coalesce (monto_pagado_acumulado p) 0),
       monto_liquidado := Some (coalesce (monto_liquidado p) 0)\<rparr>"

definition dto_valido :: "asiento_dto \<Rightarrow> bool" where
  "dto_valido d \<longleftrightarrow>
     d_fecha_imputacion d \<noteq> None \<and> d_fecha_vencimiento d \<noteq> None \<and>
     (case d_descripcion d of None \<Rightarrow> False | Some t \<Rightarrow> fst t \<noteq> []) \<and>
     (case d_tipo_asiento d of None \<Rightarrow> False | Some t \<Rightarrow> t \<noteq> []) \<and>
     d_monto_original d \<noteq> None \<and> d_monto_actual d \<noteq> None \<and>
     (case d_partidas d of None \<Rightarrow> True | Some ps \<Rightarrow> list_all (\<lambda>p. fst (p_descripcion p) \<noteq> []) ps)"

definition asiento_de_dto :: "oid \<Rightarrow> asiento_dto \<Rightarrow> asiento" where
  "asiento_de_dto i d =
     \<lparr>a_id = i,
      contrato_id = d_contrato_id d,
      fecha_imputacion = coalesce (d_fecha_imputacion d) 0,
      fecha_vencimiento = coalesce (d_fecha_vencimiento d) 0,
      descripcion = coalesce (d_descripcion d) ([], []),
      tipo_asiento = coalesce (d_tipo_asiento d) [],
      metadata = d_metadata d,
      estado = coalesce (d_estado d) PENDIENTE,
      monto_original = coalesce (d_monto_original d) 0,
      monto_actual = coalesce (d_monto_actual d) 0,
      partidas = map partida_defaults (coalesce (d_partidas d) []),
      es_ajustable = False,
      regla_ajuste = None,
      usuario_creacion_id = d_usuario_creacion_id d,
      usuario_modificacion_id = d_usuario_modificacion_id d,
      fecha_pago = None, metodo_pago = None, recibo_id = None,
      fecha_anulacion = None, motivo_anulacion = None, tipo_motivo_anulacion = None,
      fecha_condonacion = None, monto_condonado = None, motivo_condonacion = None,
      fecha_liquidacion = None, metodo_liquidacion = None, comprobante_liquidacion = None,
      historial_cambios = d_historial d\<rparr>"

definition sin_partidas :: "asiento_dto \<Rightarrow> bool" where
  "sin_partidas d \<longleftrightarrow> (case d_partidas d of None \<Rightarrow> True | Some ps \<Rightarrow> ps = [])"

definition create :: "asiento_dto \<Rightarrow> ('a bd_asi_scheme, asiento) proc" where
  "create dto =
     (if sin_partidas dto
      then raise (BadRequestException ''No se puede crear un asiento contable sin partidas.'' [])
      else ebind nuevo_id (\<lambda>i.
      if dto_valido dto
      then ebind (modify (con_asientos (\<lambda>as. as @ [asiento_de_dto i dto]))) (\<lambda>_.
           ret (asiento_de_dto i dto))
      else raise (ErrorJS ''AccountingEntry validation failed'' [])))"

section \<open>Totals of an entry\<close>

abbreviation pagado :: "partida \<Rightarrow> monto" where
  "pagado p \<equiv> o_cero (monto_pagado_acumulado p)"

abbreviation liquidado :: "partida \<Rightarrow> monto" where
  "liquidado p \<equiv> o_cero (monto_liquidado p)"

definition totalDebe :: "partida list \<Rightarrow> monto" where
  "totalDebe ps = (\<Sum>p\<leftarrow>ps. debe p)"

definition totalHaber :: "partida list \<Rightarrow> monto" where
  "totalHaber ps = (\<Sum>p\<leftarrow>ps. haber p)"

definition montoPagadoDebe :: "partida list \<Rightarrow> monto" where
  "montoPagadoDebe ps = (\<Sum>p\<leftarrow>filter (\<lambda>p. debe p > 0) ps. pagado p)"

definition montoPagadoHaber :: "partida list \<Rightarrow> monto" where
  "montoPagadoHaber ps = (\<Sum>p\<leftarrow>filter (\<lambda>p. haber p > 0) ps. pagado p)"

definition montoLiquidadoHaber :: "partida list \<Rightarrow> monto" where
  "montoLiquidadoHaber ps = (\<Sum>p\<leftarrow>filter (\<lambda>p. haber p > 0) ps. liquidado p)"

definition montoPagadoTotal :: "partida list \<Rightarrow> monto" where
  "montoPagadoTotal ps = (\<Sum>p\<leftarrow>ps. pagado p)"

lemmas totales_defs =
  totalDebe_def totalHaber_def montoPagadoDebe_def montoPagadoHaber_def
  montoLiquidadoHaber_def montoPagadoTotal_def

section \<open>Well-formed entries\<close>

text \<open>
  A line is well-formed when its amounts are not negative, it is a debit or a credit but not
  both, and neither accumulator has passed the amount of the line.
\<close>

definition partida_ok :: "partida \<Rightarrow> bool" where
  "partida_ok p \<longleftrightarrow>
     0 \<le> debe p \<and> 0 \<le> haber p \<and> (debe p = 0 \<or> haber p = 0) \<and>
     0 \<le> pagado p \<and> pagado p \<le> debe p \<and>
     0 \<le> liquidado p \<and> liquidado p \<le> haber p"

definition asiento_ok :: "asiento \<Rightarrow> bool" where
  "asiento_ok a \<longleftrightarrow> partidas a \<noteq> [] \<and> list_all partida_ok (partidas a)"

text \<open>A double-entry record: debits equal credits.\<close>

definition balanceado :: "asiento \<Rightarrow> bool" where
  "balanceado a \<longleftrightarrow> totalDebe (partidas a) = totalHaber (partidas a)"

lemma partida_ok_pagado_cero: "partida_ok p \<Longrightarrow> \<not> 0 < debe p \<Longrightarrow> pagado p = 0"
  unfolding partida_ok_def by linarith

lemma partida_ok_liquidado_cero: "partida_ok p \<Longrightarrow> \<not> 0 < haber p \<Longrightarrow> liquidado p = 0"
  unfolding partida_ok_def by linarith

text \<open>On well-formed lines the guards of the sums do not matter.\<close>

lemma suma_filtro_cero:
  fixes f :: "'b \<Rightarrow> rat"
  assumes "\<And>x. x \<in> set xs \<Longrightarrow> \<not> P x \<Longrightarrow> f x = 0"
  shows "(\<Sum>x\<leftarrow>filter P xs. f x) = (\<Sum>x\<leftarrow>xs. f x)"
  using assms by (induction xs) auto

lemma montoPagadoDebe_ok:
  "list_all partida_ok ps \<Longrightarrow> montoPagadoDebe ps = montoPagadoTotal ps"
  unfolding montoPagadoDebe_def montoPagadoTotal_def
  by (rule suma_filtro_cero) (auto simp: list_all_iff partida_ok_pagado_cero)

lemma montoLiquidadoHaber_ok:
  "list_all partida_ok ps \<Longrightarrow> montoLiquidadoHaber ps = (\<Sum>p\<leftarrow>ps. liquidado p)"
  unfolding montoLiquidadoHaber_def
  by (rule suma_filtro_cero) (auto simp: list_all_iff partida_ok_liquidado_cero)

lemma suma_mono_list:
  fixes f g :: "'b \<Rightarrow> rat"
  shows "list_all (\<lambda>x. f x \<le> g x) xs \<Longrightarrow> (\<Sum>x\<leftarrow>xs. f x) \<le> (\<Sum>x\<leftarrow>xs. g x)"
  by (induction xs) (auto intro: add_mono)

lemma suma_list_all2:
  fixes f g :: "'b \<Rightarrow> rat"
  shows "list_all2 (\<lambda>x y. f x \<le> g y) xs ys \<Longrightarrow> (\<Sum>x\<leftarrow>xs. f x) \<le> (\<Sum>y\<leftarrow>ys. g y)"
  by (induction rule: list_all2_induct) (auto intro: add_mono)

lemma montoPagadoDebe_le:
  assumes "list_all partida_ok ps"
  shows "0 \<le> montoPagadoDebe ps" and "montoPagadoDebe ps \<le> totalDebe ps"
proof -
  have "list_all (\<lambda>p. pagado p \<le> debe p) ps" "list_all (\<lambda>p. (\<lambda>_. 0) p \<le> pagado p) ps"
    using assms by (auto simp: list_all_iff partida_ok_def)
  from this [THEN suma_mono_list] show "0 \<le> montoPagadoDebe ps" "montoPagadoDebe ps \<le> totalDebe ps"
    using assms by (simp_all add: montoPagadoDebe_ok montoPagadoTotal_def totalDebe_def)
qed

lemma create_Inr:
  assumes "create d s = (Inr a, s')"
  shows "a = asiento_de_dto (prox_id s) d" and "\<not> sin_partidas d" and "dto_valido d"
    and "s' = con_asientos (\<lambda>as. as @ [a]) (s\<lparr>prox_id := Suc (prox_id s)\<rparr>)"
  using assms by (auto simp: create_def proc_simps split: if_splits)

lemma create_ok:
  "\<not> sin_partidas d \<Longrightarrow> dto_valido d \<Longrightarrow> \<exists>a s'. create d s = (Inr a, s')"
  by (auto simp: create_def ebind_def nuevo_id_def modify_def ret_def)

lemma guardarAsiento_run [proc_simps]:
  "guardarAsiento a s = (Inr a, con_asientos (save_doc a_id a) s)"
  by (simp add: guardarAsiento_def ebind_def modify_def ret_def)

lemma cargarAsiento_Inr [proc_simps]:
  "cargarAsiento i s = (Inr a, s') \<longleftrightarrow> asiento_de i s = Some a \<and> s' = s"
  by (simp add: cargarAsiento_def proc_simps)

lemma cargarAsiento_Inl [proc_simps]:
  "cargarAsiento i s = (Inl e, s') \<longleftrightarrow>
     asiento_de i s = None \<and> e = asiento_no_encontrado \<and> s' = s"
  by (simp add: cargarAsiento_def proc_simps)

lemma guardar_asiento_de:
  assumes "asiento_de i s = Some a0" and "a_id a = i"
  shows "asiento_de j (con_asientos (save_doc a_id a) s) = (if j = i then Some a else asiento_de j s)"
  using assms by (simp add: asi.get_put_iff)

lemma con_asientos_frame [simp]:
  "cuentas_fin (con_asientos f s) = cuentas_fin s"
  "transacciones (con_asientos f s) = transacciones s"
  "plan_cuentas (con_asientos f s) = plan_cuentas s"
  "ahora (con_asientos f s) = ahora s"
  "prox_id (con_asientos f s) = prox_id s"
  "asientos (con_asientos f s) = f (asientos s)"
  by (simp_all add: con_asientos_def)

lemma con_fin_frame [simp]:
  "asientos (con_fin f s) = asientos s"
  "ahora (con_fin f s) = ahora s"
  "cuentas_fin (con_fin f s) = f (cuentas_fin s)"
  by (simp_all add: con_fin_def)

lemma updateBalance_asientos:
  assumes "updateBalance i m ty s = (r, s')"
  shows "asientos s' = asientos s" and "ahora s' = ahora s"
proof -
  have "s' = s \<or> (\<exists>c. s' = con_fin (save_doc cf_id c) s)"
  proof (cases r)
    case (Inl e)
    with assms show ?thesis by (auto dest: updateBalance_Inl)
  next
    case (Inr c)
    with assms show ?thesis by (auto dest: updateBalance_Inr)
  qed
  then show "asientos s' = asientos s" and "ahora s' = ahora s" by auto
qed

end
