(* ===== verification/EntryPayments.thy ===== *)
theory EntryPayments
  imports AccountingEntry
begin

text \<open>
  \<^verbatim>\<open>accounting-entries.service.ts\<close>, the actions on an entry: \<^verbatim>\<open>registerPayment\<close>,
  \<^verbatim>\<open>anularAsiento\<close>, \<^verbatim>\<open>condonarDeuda\<close> and \<^verbatim>\<open>liquidarAPropietario\<close>. Each is its pure
  effect on the entry and the handler that loads, checks, moves the balance of the financial
  account and saves, in the order of the code.
\<close>

section \<open>registerPayment\<close>

record register_payment_dto =
  rp_fecha_pago :: fecha
  rp_monto_pagado :: monto
  rp_metodo_pago :: "string option"
  rp_cuenta_financiera_id :: oid
  rp_observaciones :: "string option"
  rp_usuario_id :: oid

text \<open>The balance a payment is checked against.\<close>

definition saldoPendientePago :: "partida list \<Rightarrow> monto" where
  "saldoPendientePago ps =
     (if totalDebe ps > 0 \<and> montoPagadoDebe ps < totalDebe ps
      then totalDebe ps - montoPagadoDebe ps
      else if totalHaber ps > 0 \<and> montoPagadoHaber ps < totalHaber ps
      then totalHaber ps - montoPagadoHaber ps
      else 0)"

text \<open>The body of the imputation loop; the local variable is \<^verbatim>\<open>montoRestanteAPagar\<close>.\<close>

definition paso_pago :: "monto \<Rightarrow> partida \<Rightarrow> monto \<times> partida" where
  "paso_pago restante p =
     (if debe p > 0 \<and> restante > 0 then
        let deuda = debe p - pagado p in
        if deuda > 0 then
          let m = min restante deuda in
          (restante - m, p\<lparr>monto_pagado_acumulado := Some (pagado p + m)\<rparr>)
        else (restante, p)
      else (restante, p))"

definition haberTotalmenteLiquidado :: "partida list \<Rightarrow> bool" where
  "haberTotalmenteLiquidado ps \<longleftrightarrow>
     (let montoTotalHaber = (\<Sum>p\<leftarrow>filter (\<lambda>p. haber p > 0) ps. haber p)
      in montoTotalHaber = 0 \<or> montoLiquidadoHaber ps \<ge> montoTotalHaber)"

definition imputarPago :: "fecha \<Rightarrow> register_payment_dto \<Rightarrow> asiento \<Rightarrow> asiento" where
  "imputarPago hoy dto a =
     (let ps = snd (recorrer paso_pago (rp_monto_pagado dto) (partidas a));
          debeTotalmenteCobrado = (montoPagadoDebe ps \<ge> monto_actual a);
          haberLiq = haberTotalmenteLiquidado ps;
          a1 = a\<lparr>partidas := ps\<rparr>;
          (a2, accion) =
            (if debeTotalmenteCobrado \<and> haberLiq then
               (a1\<lparr>estado := PAGADO, fecha_pago := Some (rp_fecha_pago dto),
                   metodo_pago := rp_metodo_pago dto\<rparr>, ''PAGO_COMPLETO'')
             else if debeTotalmenteCobrado \<and> \<not> haberLiq then
               (a1\<lparr>estado := COBRADO, fecha_pago := Some (rp_fecha_pago dto),
                   metodo_pago := rp_metodo_pago dto\<rparr>, ''PAGO_COMPLETO'')
             else (a1\<lparr>estado := PAGADO_PARCIAL\<rparr>, ''PAGO_PARCIAL''))
      in a2\<lparr>historial_cambios := historial_cambios a2 @
             [\<lparr>c_fecha = hoy, c_usuario_id = rp_usuario_id dto, c_accion = accion,
               estado_anterior = Some (estado a), estado_nuevo = Some (estado a2),
               c_monto = Some (rp_monto_pagado dto),
               c_observaciones = map_option (\<lambda>o1. (o1, [])) (rp_observaciones dto)\<rparr>]\<rparr>)"

definition registerPayment ::
  "oid \<Rightarrow> register_payment_dto \<Rightarrow> ('a bd_asi_scheme, asiento) proc" where
  "registerPayment asientoId dto =
     ebind (cargarAsiento asientoId) (\<lambda>a.
     if estado a \<in> {ANULADO, CONDONADO}
     then raise (BadRequestException ''El asiento en estado {} no puede recibir pagos''
            [AStr (estado_nombre (estado a))])
     else if rp_monto_pagado dto > saldoPendientePago (partidas a)
     then raise (BadRequestException ''El monto pagado ({}) excede el saldo pendiente ({})''
            [ANum (rp_monto_pagado dto), ANum (saldoPendientePago (partidas a))])
     else
     ebind (if totalDebe (partidas a) > 0
            then ebind (updateBalance (rp_cuenta_financiera_id dto) (rp_monto_pagado dto) MovINGRESO)
                       (\<lambda>_. ret ())
            else ret ()) (\<lambda>_.
     ebind (gets ahora) (\<lambda>hoy.
     guardarAsiento (imputarPago hoy dto a))))"

section \<open>anularAsiento\<close>

record anular_dto =
  an_motivo :: string
  an_tipo_motivo :: string
  an_observaciones :: "string option"
  an_usuario_id :: oid

definition aplicarAnulacion :: "fecha \<Rightarrow> anular_dto \<Rightarrow> asiento \<Rightarrow> asiento" where
  "aplicarAnulacion hoy dto a =
     a\<lparr>estado := ANULADO, fecha_anulacion := Some hoy, motivo_anulacion := Some (an_motivo dto),
       tipo_motivo_anulacion := Some (an_tipo_motivo dto),
       historial_cambios := historial_cambios a @
         [\<lparr>c_fecha = hoy, c_usuario_id = an_usuario_id dto, c_accion = ''ANULACION'',
           estado_anterior = Some (estado a), estado_nuevo = Some ANULADO, c_monto = None,
           c_observaciones = Some (''Motivo: {}. {}'',
             [AStr (an_motivo dto), AStr (coalesce (an_observaciones dto) [])])\<rparr>]\<rparr>"

definition anularAsiento :: "oid \<Rightarrow> anular_dto \<Rightarrow> ('a bd_asi_scheme, asiento) proc" where
  "anularAsiento asientoId dto =
     ebind (cargarAsiento asientoId) (\<lambda>a.
     if estado a = PAGADO
     then raise (BadRequestException
            ''No se puede anular un asiento pagado. Debe revertir el pago primero.'' [])
     else if estado a = ANULADO
     then raise (BadRequestException ''El asiento ya esta anulado'' [])
     else
     ebind (gets ahora) (\<lambda>hoy. guardarAsiento (aplicarAnulacion hoy dto a)))"

text \<open>\<^verbatim>\<open>anular\<close>, the wrapper the contracts service uses.\<close>

definition anular :: "oid \<Rightarrow> string \<Rightarrow> oid \<Rightarrow> ('a bd_asi_scheme, asiento) proc" where
  "anular asientoId motivo userId =
     anularAsiento asientoId
       \<lparr>an_motivo = motivo, an_tipo_motivo = ''RESCISION_CONTRATO'', an_observaciones = None,
        an_usuario_id = userId\<rparr>"

section \<open>condonarDeuda\<close>

record condonar_dto =
  co_motivo :: string
  co_monto_condonado :: "monto option"
  co_observaciones :: "string option"
  co_usuario_id :: oid
  co_usuario_autorizador_id :: oid

definition saldoCondonable :: "asiento \<Rightarrow> monto" where
  "saldoCondonable a = monto_original a - montoPagadoTotal (partidas a)"

definition montoCondonar :: "condonar_dto \<Rightarrow> asiento \<Rightarrow> monto" where
  "montoCondonar dto a = o_bien (co_monto_condonado dto) (saldoCondonable a)"

definition aplicarCondonacion :: "fecha \<Rightarrow> condonar_dto \<Rightarrow> asiento \<Rightarrow> asiento" where
  "aplicarCondonacion hoy dto a =
     (let m = montoCondonar dto a;
          ps = snd (recorrer paso_pago m (partidas a));
          est = (if montoPagadoTotal ps \<ge> monto_original a then CONDONADO else PAGADO_PARCIAL)
      in a\<lparr>partidas := ps, estado := est, monto_condonado := Some m,
           fecha_condonacion := Some hoy, motivo_condonacion := Some (co_motivo dto),
           historial_cambios := historial_cambios a @
             [\<lparr>c_fecha = hoy, c_usuario_id = co_usuario_id dto, c_accion = ''CONDONACION'',
               estado_anterior = Some (estado a), estado_nuevo = Some est, c_monto = Some m,
               c_observaciones = Some (''Condonado: {}. Motivo: {}. Autorizado por: {}. {}'',
                 [ANum m, AStr (co_motivo dto), AId (co_usuario_autorizador_id dto),
                  AStr (coalesce (co_observaciones dto) [])])\<rparr>]\<rparr>)"

definition condonarDeuda :: "oid \<Rightarrow> condonar_dto \<Rightarrow> ('a bd_asi_scheme, asiento) proc" where
  "condonarDeuda asientoId dto =
     ebind (cargarAsiento asientoId) (\<lambda>a.
     if estado a \<in> {ANULADO, CONDONADO}
     then raise (BadRequestException ''El asiento en estado {} no puede ser condonado''
            [AStr (estado_nombre (estado a))])
     else if montoCondonar dto a > saldoCondonable a
     then raise (BadRequestException ''El monto a condonar ({}) excede el saldo pendiente ({})''
            [ANum (montoCondonar dto a), ANum (saldoCondonable a)])
     else
     ebind (gets ahora) (\<lambda>hoy. guardarAsiento (aplicarCondonacion hoy dto a)))"

section \<open>liquidarAPropietario\<close>

record liquidar_dto =
  li_fecha_liquidacion :: fecha
  li_metodo_liquidacion :: string
  li_cuenta_financiera_id :: oid
  li_agente_id :: oid
  li_monto_a_liquidar :: "monto option"
  li_comprobante :: "string option"
  li_observaciones :: "string option"
  li_usuario_id :: oid

text \<open>
  The loop over the credit lines of the agent. Its locals are \<^verbatim>\<open>montoRestanteALiquidar\<close>
  (\<open>None\<close> is \<^verbatim>\<open>Infinity\<close>), \<^verbatim>\<open>montoHaberTotal\<close>, and whether \<^verbatim>\<open>break\<close> was reached.
\<close>

type_synonym liq_local = "monto option \<times> monto \<times> bool"

definition min_infinito :: "monto \<Rightarrow> monto option \<Rightarrow> monto" where
  "min_infinito x r = (case r of None \<Rightarrow> x | Some y \<Rightarrow> min x y)"

definition agotado :: "monto option \<Rightarrow> bool" where
  "agotado r = (case r of None \<Rightarrow> False | Some y \<Rightarrow> y \<le> 0)"

definition paso_liquidar :: "oid \<Rightarrow> liq_local \<Rightarrow> partida \<Rightarrow> liq_local \<times> partida" where
  "paso_liquidar agente l p =
     (case l of (restante, total_haber, roto) \<Rightarrow>
      if roto \<or> \<not> (haber p > 0 \<and> p_agente_id p = Some agente) then (l, p)
      else
        let disponible = haber p - liquidado p in
        if disponible \<le> 0 then (l, p)
        else
          let m = min_infinito disponible restante;
              restante' = map_option (\<lambda>r. r - m) restante
          in ((restante', total_haber + m, agotado restante'),
              p\<lparr>monto_liquidado := Some (liquidado p + m)\<rparr>))"

text \<open>The loop over the debit lines of the agent; its local is \<^verbatim>\<open>montoDebeTotal\<close>.\<close>

definition paso_compensar :: "oid \<Rightarrow> monto \<Rightarrow> partida \<Rightarrow> monto \<times> partida" where
  "paso_compensar agente total_debe p =
     (if \<not> (debe p > 0 \<and> p_agente_id p = Some agente) then (total_debe, p)
      else
        let disponible = debe p - pagado p in
        if disponible \<le> 0 then (total_debe, p)
        else (total_debe + disponible,
              p\<lparr>monto_pagado_acumulado := Some (pagado p + disponible)\<rparr>))"

definition restante_inicial :: "monto option \<Rightarrow> monto option" where
  "restante_inicial m = (case m of None \<Rightarrow> None | Some x \<Rightarrow> if x = 0 then None else Some x)"

text \<open>Both loops: the credit total, the debit total and the updated lines.\<close>

definition compensar :: "liquidar_dto \<Rightarrow> partida list \<Rightarrow> monto \<times> monto \<times> partida list" where
  "compensar dto ps =
     (let ((_, montoHaberTotal, _), ps1) =
            recorrer (paso_liquidar (li_agente_id dto))
              (restante_inicial (li_monto_a_liquidar dto), 0, False) ps;
          (montoDebeTotal, ps2) = recorrer (paso_compensar (li_agente_id dto)) 0 ps1
      in (montoHaberTotal, montoDebeTotal, ps2))"

definition todasLiquidadas :: "partida list \<Rightarrow> bool" where
  "todasLiquidadas ps \<longleftrightarrow>
     list_all (\<lambda>p. \<bar>liquidado p - haber p\<bar> < 1) (filter (\<lambda>p. haber p > 0) ps)"

definition sin_partidas_del_agente :: "oid \<Rightarrow> partida list \<Rightarrow> bool" where
  "sin_partidas_del_agente agente ps \<longleftrightarrow>
     filter (\<lambda>p. haber p > 0 \<and> p_agente_id p = Some agente) ps = [] \<and>
     filter (\<lambda>p. debe p > 0 \<and> p_agente_id p = Some agente) ps = []"

definition aplicarLiquidacion :: "fecha \<Rightarrow> liquidar_dto \<Rightarrow> asiento \<Rightarrow> asiento" where
  "aplicarLiquidacion hoy dto a =
     (let (h, d, ps) = compensar dto (partidas a);
          a1 = a\<lparr>partidas := ps\<rparr>;
          a2 = (if todasLiquidadas ps
                then a1\<lparr>estado := (if estado a = COBRADO then PAGADO else LIQUIDADO),
                        fecha_liquidacion := Some (li_fecha_liquidacion dto)\<rparr>
                else a1)
      in a2\<lparr>metodo_liquidacion := Some (li_metodo_liquidacion dto),
            comprobante_liquidacion := li_comprobante dto,
            historial_cambios := historial_cambios a2 @
              [\<lparr>c_fecha = hoy, c_usuario_id = li_usuario_id dto, c_accion = ''LIQUIDACION'',
                estado_anterior = Some (estado a), estado_nuevo = Some (estado a2),
                c_monto = Some \<bar>h - d\<bar>,
                c_observaciones = Some
                  (''Liquidacion/Compensacion al agente {}. Metodo: {}. HABER: {}, DEBE: {}, NETO: {}. {}'',
                   [AId (li_agente_id dto), AStr (li_metodo_liquidacion dto), ANum h, ANum d,
                    ANum \<bar>h - d\<bar>, AStr (coalesce (li_observaciones dto) [])])\<rparr>]\<rparr>)"

definition montoNeto :: "liquidar_dto \<Rightarrow> asiento \<Rightarrow> monto" where
  "montoNeto dto a = (case compensar dto (partidas a) of (h, d, _) \<Rightarrow> h - d)"

definition liquidarAPropietario ::
  "oid \<Rightarrow> liquidar_dto \<Rightarrow> ('a bd_asi_scheme, asiento) proc" where
  "liquidarAPropietario asientoId dto =
     ebind (cargarAsiento asientoId) (\<lambda>a.
     if sin_partidas_del_agente (li_agente_id dto) (partidas a)
     then raise (BadRequestException ''No se encontraron partidas para el agente {} en el asiento {}''
            [AId (li_agente_id dto), ATxt (fst (descripcion a)) (snd (descripcion a))])
     else
     ebind (if \<bar>montoNeto dto a\<bar> > 0
            then ebind (updateBalance (li_cuenta_financiera_id dto) \<bar>montoNeto dto a\<bar> MovEGRESO)
                       (\<lambda>_. ret ())
            else ret ()) (\<lambda>_.
     ebind (gets ahora) (\<lambda>hoy. guardarAsiento (aplicarLiquidacion hoy dto a))))"

section \<open>The three loops are imputations\<close>

interpretation pago: imputacion paso_pago pagado debe "\<lambda>r. - r" "\<lambda>r. 0 \<le> r"
  by unfold_locales (auto simp: paso_pago_def Let_def split: if_splits)

interpretation liq: imputacion "paso_liquidar ag" liquidado haber "\<lambda>(r, t, b). t"
  "\<lambda>(r, t, b). b \<or> (case r of None \<Rightarrow> True | Some y \<Rightarrow> 0 < y)" for ag
  by unfold_locales
    (auto simp: paso_liquidar_def Let_def min_infinito_def agotado_def
      split: if_splits prod.splits option.splits)

interpretation comp: imputacion "paso_compensar ag" pagado debe "\<lambda>t. t" "\<lambda>_. True" for ag
  by unfold_locales (auto simp: paso_compensar_def Let_def split: if_splits)

text \<open>What the steps leave alone.\<close>

lemma paso_pago_frame [simp]:
  "debe (snd (paso_pago r p)) = debe p" "haber (snd (paso_pago r p)) = haber p"
  "monto_liquidado (snd (paso_pago r p)) = monto_liquidado p"
  "p_agente_id (snd (paso_pago r p)) = p_agente_id p"
  "cuenta_id (snd (paso_pago r p)) = cuenta_id p"
  by (auto simp: paso_pago_def Let_def)

lemma paso_liquidar_frame [simp]:
  "debe (snd (paso_liquidar ag l p)) = debe p" "haber (snd (paso_liquidar ag l p)) = haber p"
  "monto_pagado_acumulado (snd (paso_liquidar ag l p)) = monto_pagado_acumulado p"
  "p_agente_id (snd (paso_liquidar ag l p)) = p_agente_id p"
  "cuenta_id (snd (paso_liquidar ag l p)) = cuenta_id p"
  by (auto simp: paso_liquidar_def Let_def split: prod.splits)

lemma paso_compensar_frame [simp]:
  "debe (snd (paso_compensar ag t p)) = debe p" "haber (snd (paso_compensar ag t p)) = haber p"
  "monto_liquidado (snd (paso_compensar ag t p)) = monto_liquidado p"
  "p_agente_id (snd (paso_compensar ag t p)) = p_agente_id p"
  "cuenta_id (snd (paso_compensar ag t p)) = cuenta_id p"
  by (auto simp: paso_compensar_def Let_def)

text \<open>The fields of a line that identify it and fix its amounts.\<close>

definition fijos :: "partida \<Rightarrow> oid \<times> monto \<times> monto \<times> oid option" where
  "fijos p = (cuenta_id p, debe p, haber p, p_agente_id p)"

lemma recorrer_fijos [simp]:
  "map fijos (snd (recorrer paso_pago r ps)) = map fijos ps"
  "map fijos (snd (recorrer (paso_liquidar ag) l ps)) = map fijos ps"
  "map fijos (snd (recorrer (paso_compensar ag) t ps)) = map fijos ps"
  by (rule recorrer_map, simp add: fijos_def)+

lemma fijos_totales:
  assumes "map fijos ps = map fijos qs"
  shows "totalDebe ps = totalDebe qs" and "totalHaber ps = totalHaber qs" and "length ps = length qs"
proof -
  have d: "map debe xs = map (fst \<circ> snd) (map fijos xs)" for xs by (simp add: fijos_def)
  have h: "map haber xs = map (fst \<circ> snd \<circ> snd) (map fijos xs)" for xs by (simp add: fijos_def)
  show "totalDebe ps = totalDebe qs" "totalHaber ps = totalHaber qs"
    unfolding totales_defs d h assms by (rule refl)+
  show "length ps = length qs" using assms by (rule map_eq_imp_length_eq)
qed

section \<open>Well-formedness is kept\<close>

lemma paso_pago_ok: "0 \<le> r \<Longrightarrow> partida_ok p \<Longrightarrow> partida_ok (snd (paso_pago r p))"
  by (auto simp: paso_pago_def partida_ok_def Let_def)

lemma recorrer_pago_ok:
  "0 \<le> r \<Longrightarrow> list_all partida_ok ps \<Longrightarrow> list_all partida_ok (snd (recorrer paso_pago r ps))"
proof (induction ps arbitrary: r)
  case Nil
  then show ?case by simp
next
  case (Cons p ps)
  obtain r1 p1 where p: "paso_pago r p = (r1, p1)" by fastforce
  with Cons.prems have "0 \<le> r1" "partida_ok p1"
    using pago.sano_paso [OF p] paso_pago_ok [of r p] by auto
  with Cons p show ?case by (simp split: prod.splits) (metis snd_conv)
qed

definition liq_sano :: "liq_local \<Rightarrow> bool" where
  "liq_sano l = (case l of (r, t, b) \<Rightarrow> b \<or> (case r of None \<Rightarrow> True | Some y \<Rightarrow> 0 < y))"

lemma paso_liquidar_ok:
  "liq_sano l \<Longrightarrow> partida_ok p \<Longrightarrow> partida_ok (snd (paso_liquidar ag l p))"
  by (auto simp: paso_liquidar_def liq_sano_def partida_ok_def Let_def min_infinito_def
      split: prod.splits option.splits)

lemma recorrer_liquidar_ok:
  "liq_sano l \<Longrightarrow> list_all partida_ok ps \<Longrightarrow>
   list_all partida_ok (snd (recorrer (paso_liquidar ag) l ps))"
proof (induction ps arbitrary: l)
  case Nil
  then show ?case by simp
next
  case (Cons p ps)
  obtain l1 p1 where p: "paso_liquidar ag l p = (l1, p1)" by fastforce
  with Cons.prems have "liq_sano l1" "partida_ok p1"
    using liq.sano_paso [OF p] paso_liquidar_ok [of l p ag] by (auto simp: liq_sano_def)
  with Cons p show ?case by (simp split: prod.splits) (metis snd_conv)
qed

lemma paso_compensar_ok: "partida_ok p \<Longrightarrow> partida_ok (snd (paso_compensar ag t p))"
  by (auto simp: paso_compensar_def partida_ok_def Let_def)

lemma recorrer_compensar_ok:
  "list_all partida_ok ps \<Longrightarrow> list_all partida_ok (snd (recorrer (paso_compensar ag) t ps))"
proof (induction ps arbitrary: t)
  case Nil
  then show ?case by simp
next
  case (Cons p ps)
  then show ?case using paso_compensar_ok [of p ag t]
    by (simp split: prod.splits) (metis snd_conv)
qed

lemma liq_sano_inicial:
  "(\<And>x. m = Some x \<Longrightarrow> 0 \<le> x) \<Longrightarrow> liq_sano (restante_inicial m, 0, False)"
  by (auto simp: liq_sano_def restante_inicial_def order_less_le split: option.splits)

end
