(* ===== verification/EntryLaws.thy ===== *)
theory EntryLaws
  imports EntryPayments
begin

text \<open>
  What the actions on an entry do: exact amounts of the three loops, one characterisation
  of each handler's success and failure, and the laws of payment, condonation, settlement
  and cancellation derived from them.
\<close>

section \<open>Exact amounts of the loops\<close>

definition deuda :: "partida list \<Rightarrow> monto" where
  "deuda ps = (\<Sum>p\<leftarrow>ps. debe p - pagado p)"

lemma deuda_eq: "list_all partida_ok ps \<Longrightarrow> deuda ps = totalDebe ps - montoPagadoDebe ps"
  by (simp add: montoPagadoDebe_ok deuda_def totalDebe_def montoPagadoTotal_def sum_list_subtractf)

lemma suma_no_negativa:
  fixes f :: "'b \<Rightarrow> rat"
  shows "(\<And>x. x \<in> set xs \<Longrightarrow> 0 \<le> f x) \<Longrightarrow> 0 \<le> (\<Sum>x\<leftarrow>xs. f x)"
  by (induction xs) auto

lemma deuda_no_negativa: "list_all partida_ok ps \<Longrightarrow> 0 \<le> deuda ps"
  unfolding deuda_def by (rule suma_no_negativa) (auto simp: list_all_iff partida_ok_def)

lemma paso_pago_restante:
  "partida_ok p \<Longrightarrow> 0 \<le> r \<Longrightarrow> fst (paso_pago r p) = max 0 (r - (debe p - pagado p))"
  by (auto simp: paso_pago_def partida_ok_def Let_def max_def min_def)

lemma recorrer_pago_restante:
  "list_all partida_ok ps \<Longrightarrow> 0 \<le> r \<Longrightarrow> fst (recorrer paso_pago r ps) = max 0 (r - deuda ps)"
proof (induction ps arbitrary: r)
  case Nil
  then show ?case by (simp add: deuda_def)
next
  case (Cons p ps)
  obtain r1 p1 where p: "paso_pago r p = (r1, p1)" by fastforce
  with Cons.prems have r1: "r1 = max 0 (r - (debe p - pagado p))"
    using paso_pago_restante [of p r] by simp
  have "fst (recorrer paso_pago r (p # ps)) = fst (recorrer paso_pago r1 ps)"
    by (simp add: p split: prod.split)
  also have "\<dots> = max 0 (r1 - deuda ps)"
    using Cons r1 by simp
  also have "\<dots> = max 0 (r - deuda (p # ps))"
    using deuda_no_negativa [of ps] Cons.prems(1) by (auto simp: r1 deuda_def max_def)
  finally show ?case .
qed

text \<open>Conservation: what the loop takes from the amount is what it adds to the debit lines.\<close>

lemma recorrer_pago_total:
  assumes "list_all partida_ok ps" and "0 \<le> r"
  shows "montoPagadoDebe (snd (recorrer paso_pago r ps)) = montoPagadoDebe ps + min r (deuda ps)"
proof -
  obtain r' ps' where rec: "recorrer paso_pago r ps = (r', ps')" by fastforce
  have ok': "list_all partida_ok ps'"
    using recorrer_pago_ok [OF assms(2,1)] rec by simp
  have "montoPagadoTotal ps' - montoPagadoTotal ps = r - r'"
    using pago.recorrer_conserva [OF rec] by (simp add: montoPagadoTotal_def)
  moreover have "r' = max 0 (r - deuda ps)"
    using recorrer_pago_restante [OF assms] rec by simp
  moreover have "r - max 0 (r - deuda ps) = min r (deuda ps)"
    by (simp add: max_def min_def)
  ultimately have "montoPagadoTotal ps' = montoPagadoTotal ps + min r (deuda ps)"
    by linarith
  then show ?thesis
    using montoPagadoDebe_ok [OF ok'] montoPagadoDebe_ok [OF assms(1)] rec by simp
qed

text \<open>A loop with nothing to spend, or with every debit collected, changes no line.\<close>

lemma paso_pago_cerrado: "\<not> pagado p < debe p \<Longrightarrow> paso_pago r p = (r, p)"
  by (simp add: paso_pago_def Let_def)

lemma recorrer_pago_cerrado:
  "list_all (\<lambda>p. \<not> pagado p < debe p) ps \<Longrightarrow> recorrer paso_pago r ps = (r, ps)"
  by (induction ps) (auto simp: paso_pago_cerrado)

lemma paso_pago_cero: "paso_pago 0 p = (0, p)"
  by (simp add: paso_pago_def)

lemma recorrer_pago_cero: "recorrer paso_pago 0 ps = (0, ps)"
  by (induction ps) (simp_all add: paso_pago_cero)

text \<open>The credit an agent can still be settled.\<close>

definition disponible_haber :: "oid \<Rightarrow> partida list \<Rightarrow> monto" where
  "disponible_haber ag ps =
     (\<Sum>p\<leftarrow>filter (\<lambda>p. haber p > 0 \<and> p_agente_id p = Some ag) ps. haber p - liquidado p)"

definition pendiente_debe :: "oid \<Rightarrow> partida list \<Rightarrow> monto" where
  "pendiente_debe ag ps =
     (\<Sum>p\<leftarrow>filter (\<lambda>p. debe p > 0 \<and> p_agente_id p = Some ag) ps. debe p - pagado p)"

lemma disponible_haber_no_negativo: "list_all partida_ok ps \<Longrightarrow> 0 \<le> disponible_haber ag ps"
  unfolding disponible_haber_def by (rule suma_no_negativa) (auto simp: list_all_iff partida_ok_def)

definition total_liq :: "liq_local \<Rightarrow> monto" where
  "total_liq l = fst (snd l)"

definition limite_liq :: "liq_local \<Rightarrow> monto \<Rightarrow> monto" where
  "limite_liq l d = (case l of (r, t, b) \<Rightarrow> if b then 0 else min_infinito d r)"

lemma paso_liquidar_total:
  assumes "partida_ok p" and "liq_sano l"
  shows "total_liq (fst (paso_liquidar ag l p)) =
     total_liq l + limite_liq l (disponible_haber ag [p])"
  using assms
  by (auto simp: paso_liquidar_def total_liq_def limite_liq_def liq_sano_def min_infinito_def
      disponible_haber_def partida_ok_def Let_def min_def split: prod.splits option.splits)

lemma paso_liquidar_limite:
  assumes "partida_ok p" and "liq_sano l" and "0 \<le> d"
  shows "limite_liq (fst (paso_liquidar ag l p)) d =
     limite_liq l (disponible_haber ag [p] + d) - limite_liq l (disponible_haber ag [p])"
  using assms
  by (auto simp: paso_liquidar_def limite_liq_def liq_sano_def min_infinito_def agotado_def
      disponible_haber_def partida_ok_def Let_def min_def split: prod.splits option.splits)

lemma recorrer_liquidar_total:
  "list_all partida_ok ps \<Longrightarrow> liq_sano l \<Longrightarrow>
   total_liq (fst (recorrer (paso_liquidar ag) l ps)) = total_liq l + limite_liq l (disponible_haber ag ps)"
proof (induction ps arbitrary: l)
  case Nil
  then show ?case
    by (auto simp: disponible_haber_def limite_liq_def min_infinito_def liq_sano_def
        split: prod.split option.split)
next
  case (Cons p ps)
  obtain l1 p1 where p: "paso_liquidar ag l p = (l1, p1)" by fastforce
  from Cons.prems have ok: "partida_ok p" "list_all partida_ok ps" by auto
  have s1: "liq_sano l1"
    using liq.sano_paso [OF p] Cons.prems(2) by (auto simp: liq_sano_def)
  have sp: "disponible_haber ag (p # ps) = disponible_haber ag [p] + disponible_haber ag ps"
    by (simp add: disponible_haber_def)
  have "total_liq (fst (recorrer (paso_liquidar ag) l (p # ps))) =
        total_liq (fst (recorrer (paso_liquidar ag) l1 ps))"
    by (simp add: p split: prod.split)
  also have "\<dots> = total_liq l1 + limite_liq l1 (disponible_haber ag ps)"
    using Cons.IH [OF ok(2) s1] .
  finally show ?case
    using paso_liquidar_total [OF ok(1) Cons.prems(2), of ag]
      paso_liquidar_limite [OF ok(1) Cons.prems(2) disponible_haber_no_negativo [OF ok(2)], of ag ag]
    by (simp add: p sp)
qed

lemma recorrer_compensar_total:
  "list_all partida_ok ps \<Longrightarrow>
   fst (recorrer (paso_compensar ag) t ps) = t + pendiente_debe ag ps"
proof (induction ps arbitrary: t)
  case Nil
  then show ?case by (simp add: pendiente_debe_def)
next
  case (Cons p ps)
  obtain t1 p1 where p: "paso_compensar ag t p = (t1, p1)" by fastforce
  have t1: "t1 = t + pendiente_debe ag [p]"
    using Cons.prems p
    by (auto simp: paso_compensar_def pendiente_debe_def partida_ok_def Let_def split: if_splits)
  have "fst (recorrer (paso_compensar ag) t (p # ps)) = fst (recorrer (paso_compensar ag) t1 ps)"
    by (simp add: p split: prod.split)
  also have "\<dots> = t1 + pendiente_debe ag ps"
    using Cons by simp
  also have "pendiente_debe ag (p # ps) = pendiente_debe ag [p] + pendiente_debe ag ps"
    by (simp add: pendiente_debe_def)
  ultimately show ?case by (simp add: t1)
qed

lemma pendiente_debe_liquidar:
  "pendiente_debe ag (snd (recorrer (paso_liquidar ag) l ps)) = pendiente_debe ag ps"
proof -
  let ?f = "\<lambda>p. (debe p, monto_pagado_acumulado p, p_agente_id p)"
  let ?g = "\<lambda>(d, m, a). if d > 0 \<and> a = Some ag then d - o_cero m else (0::rat)"
  have g: "pendiente_debe ag qs = sum_list (map ?g (map ?f qs))" for qs
    by (induction qs) (simp_all add: pendiente_debe_def)
  have "map ?f (snd (recorrer (paso_liquidar ag) l ps)) = map ?f ps"
    by (rule recorrer_map) simp
  then show ?thesis unfolding g by simp
qed

text \<open>Both loops of a settlement: amounts and what is left of the lines.\<close>

definition limite :: "monto option \<Rightarrow> monto \<Rightarrow> monto" where
  "limite m d = min_infinito d (restante_inicial m)"

lemma compensar_exacto:
  assumes ok: "list_all partida_ok ps" and m: "\<And>x. li_monto_a_liquidar dto = Some x \<Longrightarrow> 0 \<le> x"
    and c: "compensar dto ps = (h, d, ps')"
  shows "h = limite (li_monto_a_liquidar dto) (disponible_haber (li_agente_id dto) ps)"
    and "d = pendiente_debe (li_agente_id dto) ps"
    and "list_all partida_ok ps'"
    and "map fijos ps' = map fijos ps"
    and "(\<Sum>p\<leftarrow>ps'. liquidado p) = (\<Sum>p\<leftarrow>ps. liquidado p) + h"
    and "montoPagadoTotal ps' = montoPagadoTotal ps + d"
proof -
  let ?ag = "li_agente_id dto"
  let ?l = "(restante_inicial (li_monto_a_liquidar dto), 0, False) :: liq_local"
  have sano: "liq_sano ?l" by (rule liq_sano_inicial) (rule m)
  obtain r b ps1 where r1: "recorrer (paso_liquidar ?ag) ?l ps = ((r, h, b), ps1)"
    and r2: "recorrer (paso_compensar ?ag) 0 ps1 = (d, ps')"
    using c by (auto simp: compensar_def Let_def split: prod.splits)
  have ok1: "list_all partida_ok ps1"
    using recorrer_liquidar_ok [OF sano ok, of ?ag] r1 by simp
  show "h = limite (li_monto_a_liquidar dto) (disponible_haber ?ag ps)"
    using recorrer_liquidar_total [OF ok sano, of ?ag] r1
    by (simp add: total_liq_def limite_liq_def limite_def)
  show "d = pendiente_debe ?ag ps"
    using recorrer_compensar_total [OF ok1, of ?ag 0] r2 pendiente_debe_liquidar [of ?ag ?l ps] r1 by simp
  show "list_all partida_ok ps'"
    using recorrer_compensar_ok [OF ok1, of ?ag 0] r2 by simp
  show "map fijos ps' = map fijos ps"
    using recorrer_fijos(2) [of ?ag ?l ps] recorrer_fijos(3) [of ?ag 0 ps1] r1 r2 by simp
  have "map monto_liquidado (snd (recorrer (paso_compensar ?ag) 0 ps1)) = map monto_liquidado ps1"
    by (rule recorrer_map) simp
  then have "map monto_liquidado ps' = map monto_liquidado ps1" using r2 by simp
  then have "map liquidado ps' = map liquidado ps1"
    by (metis (no_types, lifting) list.map_comp comp_apply map_eq_conv)
  then show "(\<Sum>p\<leftarrow>ps'. liquidado p) = (\<Sum>p\<leftarrow>ps. liquidado p) + h"
    using liq.recorrer_conserva [OF r1] by simp
  have "map monto_pagado_acumulado (snd (recorrer (paso_liquidar ?ag) ?l ps)) = map monto_pagado_acumulado ps"
    by (rule recorrer_map) simp
  then have "map monto_pagado_acumulado ps1 = map monto_pagado_acumulado ps" using r1 by simp
  then have "map pagado ps1 = map pagado ps"
    by (metis (no_types, lifting) list.map_comp comp_apply map_eq_conv)
  then show "montoPagadoTotal ps' = montoPagadoTotal ps + d"
    using comp.recorrer_conserva [OF r2] by (simp add: montoPagadoTotal_def)
qed

section \<open>The handlers\<close>

lemma imputarPago_simps [simp]:
  "a_id (imputarPago hoy dto a) = a_id a"
  "partidas (imputarPago hoy dto a) = snd (recorrer paso_pago (rp_monto_pagado dto) (partidas a))"
  "monto_original (imputarPago hoy dto a) = monto_original a"
  "monto_actual (imputarPago hoy dto a) = monto_actual a"
  "contrato_id (imputarPago hoy dto a) = contrato_id a"
  "tipo_asiento (imputarPago hoy dto a) = tipo_asiento a"
  by (simp_all add: imputarPago_def Let_def)

lemma aplicarAnulacion_simps [simp]:
  "a_id (aplicarAnulacion hoy dto a) = a_id a"
  "partidas (aplicarAnulacion hoy dto a) = partidas a"
  "estado (aplicarAnulacion hoy dto a) = ANULADO"
  "monto_original (aplicarAnulacion hoy dto a) = monto_original a"
  by (simp_all add: aplicarAnulacion_def)

lemma aplicarCondonacion_simps [simp]:
  "a_id (aplicarCondonacion hoy dto a) = a_id a"
  "partidas (aplicarCondonacion hoy dto a) = snd (recorrer paso_pago (montoCondonar dto a) (partidas a))"
  "monto_original (aplicarCondonacion hoy dto a) = monto_original a"
  by (simp_all add: aplicarCondonacion_def Let_def)

lemma aplicarLiquidacion_simps [simp]:
  "a_id (aplicarLiquidacion hoy dto a) = a_id a"
  "partidas (aplicarLiquidacion hoy dto a) = snd (snd (compensar dto (partidas a)))"
  "monto_original (aplicarLiquidacion hoy dto a) = monto_original a"
  by (simp_all add: aplicarLiquidacion_def Let_def split: prod.split)

definition saldo_movido :: "oid \<Rightarrow> monto \<Rightarrow> 'a bd_fin_scheme \<Rightarrow> 'a bd_fin_scheme \<Rightarrow> bool" where
  "saldo_movido c m s s' \<longleftrightarrow>
     (\<forall>j. saldo_de j s' = (if j = c then map_option (\<lambda>x. x + m) (saldo_de j s) else saldo_de j s))"

lemma saldo_movido_cero: "(\<And>j. saldo_de j s' = saldo_de j s) \<Longrightarrow> saldo_movido c 0 s s'"
  by (auto simp: saldo_movido_def option.map_ident_strong)

lemma saldo_con_asientos [simp]: "saldo_de j (con_asientos f s) = saldo_de j s"
  by (simp add: saldo_de_def)

lemma saldo_movido_con_asientos [simp]:
  "saldo_movido c m s (con_asientos f s') \<longleftrightarrow> saldo_movido c m s s'"
  by (simp add: saldo_movido_def)

lemma updateBalance_movido:
  "updateBalance c m MovINGRESO s = (Inr u, s') \<Longrightarrow> saldo_movido c m s s'"
  "updateBalance c m MovEGRESO s = (Inr u, s') \<Longrightarrow> saldo_movido c (- m) s s'"
  by (auto simp: saldo_movido_def updateBalance_saldo option.map_comp intro!: option.map_cong)

lemma registerPayment_Inr:
  assumes "registerPayment i dto s = (Inr a', s')"
  shows "\<exists>a. asiento_de i s = Some a \<and> estado a \<notin> {ANULADO, CONDONADO} \<and>
     rp_monto_pagado dto \<le> saldoPendientePago (partidas a) \<and>
     a' = imputarPago (ahora s) dto a \<and>
     (\<forall>j. asiento_de j s' = (if j = i then Some a' else asiento_de j s)) \<and>
     saldo_movido (rp_cuenta_financiera_id dto)
       (if totalDebe (partidas a) > 0 then rp_monto_pagado dto else 0) s s'"
proof -
  from assms obtain a s1 where a: "asiento_de i s = Some a" "estado a \<notin> {ANULADO, CONDONADO}"
    "rp_monto_pagado dto \<le> saldoPendientePago (partidas a)"
    and s1: "s1 = s \<and> \<not> totalDebe (partidas a) > 0 \<or>
        totalDebe (partidas a) > 0 \<and>
        (\<exists>u. updateBalance (rp_cuenta_financiera_id dto) (rp_monto_pagado dto) MovINGRESO s = (Inr u, s1))"
    and r: "a' = imputarPago (ahora s1) dto a" "s' = con_asientos (save_doc a_id a') s1"
    by (auto simp: registerPayment_def proc_simps split: if_splits)
  have as: "asientos s1 = asientos s" "ahora s1 = ahora s"
    using s1 updateBalance_asientos by blast+
  have "a_id a = i" using a(1) by (rule find_id_key)
  then have "asiento_de j s' = (if j = i then Some a' else asiento_de j s)" for j
    using guardar_asiento_de [of i s1 a a' j] a(1) r as by simp
  moreover have "saldo_movido (rp_cuenta_financiera_id dto)
      (if totalDebe (partidas a) > 0 then rp_monto_pagado dto else 0) s s'"
    using s1 r(2) updateBalance_movido(1) by (auto simp: saldo_movido_cero)
  ultimately show ?thesis using a r as by auto
qed

lemma registerPayment_ok:
  assumes "asiento_de i s = Some a" and "estado a \<notin> {ANULADO, CONDONADO}"
    and "rp_monto_pagado dto \<le> saldoPendientePago (partidas a)"
    and "totalDebe (partidas a) > 0 \<Longrightarrow> cuenta_de (rp_cuenta_financiera_id dto) s \<noteq> None"
  shows "\<exists>s'. registerPayment i dto s = (Inr (imputarPago (ahora s) dto a), s')"
proof (cases "totalDebe (partidas a) > 0")
  case True
  with assms(4) obtain u s1 where
    u: "updateBalance (rp_cuenta_financiera_id dto) (rp_monto_pagado dto) MovINGRESO s = (Inr u, s1)"
    using updateBalance_ok [of "rp_cuenta_financiera_id dto" s MovINGRESO "rp_monto_pagado dto"] by auto
  have "ahora s1 = ahora s" using updateBalance_asientos [OF u] by simp
  with True assms(1-3) u show ?thesis
    by (auto simp: registerPayment_def cargarAsiento_def obtener_def ebind_def proc_simps)
next
  case False
  with assms(1-3) show ?thesis
    by (auto simp: registerPayment_def cargarAsiento_def obtener_def ebind_def proc_simps)
qed

lemma registerPayment_Inl:
  assumes "registerPayment i dto s = (Inl e, s')"
  shows "s' = s"
  using assms
  by (auto simp: registerPayment_def proc_simps guardarAsiento_run dest: updateBalance_Inl split: if_splits)

lemma anularAsiento_Inr:
  assumes "anularAsiento i dto s = (Inr a', s')"
  shows "\<exists>a. asiento_de i s = Some a \<and> estado a \<notin> {PAGADO, ANULADO} \<and>
     a' = aplicarAnulacion (ahora s) dto a \<and> s' = con_asientos (save_doc a_id a') s \<and>
     (\<forall>j. asiento_de j s' = (if j = i then Some a' else asiento_de j s))"
proof -
  from assms obtain a where a: "asiento_de i s = Some a" "estado a \<notin> {PAGADO, ANULADO}"
    "a' = aplicarAnulacion (ahora s) dto a" "s' = con_asientos (save_doc a_id a') s"
    by (auto simp: anularAsiento_def proc_simps split: if_splits)
  have "a_id a = i" using a(1) by (rule find_id_key)
  then have "asiento_de j s' = (if j = i then Some a' else asiento_de j s)" for j
    using guardar_asiento_de [of i s a a' j] a by simp
  with a show ?thesis by blast
qed

lemma anularAsiento_Inl: "anularAsiento i dto s = (Inl e, s') \<Longrightarrow> s' = s"
  by (auto simp: anularAsiento_def proc_simps guardarAsiento_run split: if_splits)

lemma condonarDeuda_Inr:
  assumes "condonarDeuda i dto s = (Inr a', s')"
  shows "\<exists>a. asiento_de i s = Some a \<and> estado a \<notin> {ANULADO, CONDONADO} \<and>
     montoCondonar dto a \<le> saldoCondonable a \<and>
     a' = aplicarCondonacion (ahora s) dto a \<and> s' = con_asientos (save_doc a_id a') s \<and>
     (\<forall>j. asiento_de j s' = (if j = i then Some a' else asiento_de j s))"
proof -
  from assms obtain a where a: "asiento_de i s = Some a" "estado a \<notin> {ANULADO, CONDONADO}"
    "montoCondonar dto a \<le> saldoCondonable a"
    "a' = aplicarCondonacion (ahora s) dto a" "s' = con_asientos (save_doc a_id a') s"
    by (auto simp: condonarDeuda_def proc_simps split: if_splits)
  have "a_id a = i" using a(1) by (rule find_id_key)
  then have "asiento_de j s' = (if j = i then Some a' else asiento_de j s)" for j
    using guardar_asiento_de [of i s a a' j] a by simp
  with a show ?thesis by blast
qed

lemma condonarDeuda_Inl: "condonarDeuda i dto s = (Inl e, s') \<Longrightarrow> s' = s"
  by (auto simp: condonarDeuda_def proc_simps guardarAsiento_run split: if_splits)

lemma liquidarAPropietario_Inr:
  assumes "liquidarAPropietario i dto s = (Inr a', s')"
  shows "\<exists>a. asiento_de i s = Some a \<and> \<not> sin_partidas_del_agente (li_agente_id dto) (partidas a) \<and>
     a' = aplicarLiquidacion (ahora s) dto a \<and>
     (\<forall>j. asiento_de j s' = (if j = i then Some a' else asiento_de j s)) \<and>
     saldo_movido (li_cuenta_financiera_id dto) (- \<bar>montoNeto dto a\<bar>) s s'"
proof -
  from assms obtain a s1 where a: "asiento_de i s = Some a"
    "\<not> sin_partidas_del_agente (li_agente_id dto) (partidas a)"
    and s1: "s1 = s \<and> \<not> \<bar>montoNeto dto a\<bar> > 0 \<or>
        \<bar>montoNeto dto a\<bar> > 0 \<and>
        (\<exists>u. updateBalance (li_cuenta_financiera_id dto) \<bar>montoNeto dto a\<bar> MovEGRESO s = (Inr u, s1))"
    and r: "a' = aplicarLiquidacion (ahora s1) dto a" "s' = con_asientos (save_doc a_id a') s1"
    by (auto simp: liquidarAPropietario_def proc_simps split: if_splits)
  have as: "asientos s1 = asientos s" "ahora s1 = ahora s"
    using s1 updateBalance_asientos by blast+
  have "a_id a = i" using a(1) by (rule find_id_key)
  then have "asiento_de j s' = (if j = i then Some a' else asiento_de j s)" for j
    using guardar_asiento_de [of i s1 a a' j] a(1) r as by simp
  moreover have "saldo_movido (li_cuenta_financiera_id dto) (- \<bar>montoNeto dto a\<bar>) s s'"
    using s1 r(2) updateBalance_movido(2) by (auto simp: saldo_movido_cero)
  ultimately show ?thesis using a r as by auto
qed

lemma liquidarAPropietario_ok:
  assumes "asiento_de i s = Some a" and "\<not> sin_partidas_del_agente (li_agente_id dto) (partidas a)"
    and "cuenta_de (li_cuenta_financiera_id dto) s \<noteq> None"
  shows "\<exists>s'. liquidarAPropietario i dto s = (Inr (aplicarLiquidacion (ahora s) dto a), s')"
proof (cases "\<bar>montoNeto dto a\<bar> > 0")
  case True
  from assms(3) obtain u s1 where
    u: "updateBalance (li_cuenta_financiera_id dto) \<bar>montoNeto dto a\<bar> MovEGRESO s = (Inr u, s1)"
    using updateBalance_ok [of "li_cuenta_financiera_id dto" s MovEGRESO "\<bar>montoNeto dto a\<bar>"] by auto
  have "ahora s1 = ahora s" using updateBalance_asientos [OF u] by simp
  with True assms(1,2) u show ?thesis
    by (auto simp: liquidarAPropietario_def cargarAsiento_def obtener_def ebind_def proc_simps)
next
  case False
  with assms(1,2) show ?thesis
    by (auto simp: liquidarAPropietario_def cargarAsiento_def obtener_def ebind_def proc_simps)
qed

lemma liquidarAPropietario_Inl: "liquidarAPropietario i dto s = (Inl e, s') \<Longrightarrow> s' = s"
  by (auto simp: liquidarAPropietario_def proc_simps guardarAsiento_run dest: updateBalance_Inl
      split: if_splits)

end
