(* ===== verification/Dates.thy ===== *)
theory Dates
  imports FinancialAccounts
begin

text \<open>
  The calendar the services read from a \<^verbatim>\<open>Date\<close> (\<^verbatim>\<open>getFullYear\<close>, \<^verbatim>\<open>getMonth\<close>,
  \<^verbatim>\<open>getDate\<close>, \<^verbatim>\<open>setDate\<close>, \<^verbatim>\<open>setMonth\<close>), and \<^verbatim>\<open>src/modules/utils/constants/dates.ts\<close>.
  The Gregorian calendar is computed in eras of 400 years; \<open>tz\<close> is the offset of local time
  from UTC in milliseconds (a fixed offset: Argentina has no daylight saving time).
\<close>

section \<open>Days and civil dates\<close>

definition civil_de_dia :: "int \<Rightarrow> int \<times> int \<times> int" where
  "civil_de_dia d =
     (let z = d + 719468;
          era = z div 146097;
          doe = z mod 146097;
          yoe = (doe - doe div 1460 + doe div 36524 - doe div 146096) div 365;
          doy = doe - (365 * yoe + yoe div 4 - yoe div 100);
          mp = (5 * doy + 2) div 153;
          dia = doy - (153 * mp + 2) div 5 + 1;
          mes = (if mp < 10 then mp + 3 else mp - 9);
          anio = yoe + era * 400 + (if mes \<le> 2 then 1 else 0)
      in (anio, mes - 1, dia))"

text \<open>The day of a year, a month index (any integer, as \<^verbatim>\<open>setMonth\<close> accepts) and a day.\<close>

definition dia_de_civil :: "int \<Rightarrow> int \<Rightarrow> int \<Rightarrow> int" where
  "dia_de_civil anio mes dia =
     (let a = anio + mes div 12;
          m = mes mod 12 + 1;
          y = (if m \<le> 2 then a - 1 else a);
          era = y div 400;
          yoe = y mod 400;
          mp = (if 2 < m then m - 3 else m + 9);
          doy = (153 * mp + 2) div 5;
          doe = yoe * 365 + yoe div 4 - yoe div 100 + doy
      in era * 146097 + doe - 719468 + (dia - 1))"

definition dia_local :: "int \<Rightarrow> fecha \<Rightarrow> int" where
  "dia_local tz t = (t + tz) div dia_ms"

definition ms_del_dia :: "int \<Rightarrow> fecha \<Rightarrow> int" where
  "ms_del_dia tz t = (t + tz) mod dia_ms"

definition getFullYear :: "int \<Rightarrow> fecha \<Rightarrow> int" where
  "getFullYear tz t = fst (civil_de_dia (dia_local tz t))"

definition getMonth :: "int \<Rightarrow> fecha \<Rightarrow> int" where
  "getMonth tz t = fst (snd (civil_de_dia (dia_local tz t)))"

definition getDate :: "int \<Rightarrow> fecha \<Rightarrow> int" where
  "getDate tz t = snd (snd (civil_de_dia (dia_local tz t)))"

definition con_dia_local :: "int \<Rightarrow> fecha \<Rightarrow> int \<Rightarrow> fecha" where
  "con_dia_local tz t d = d * dia_ms + ms_del_dia tz t - tz"

definition setDate :: "int \<Rightarrow> fecha \<Rightarrow> int \<Rightarrow> fecha" where
  "setDate tz t dia =
     con_dia_local tz t (dia_de_civil (getFullYear tz t) (getMonth tz t) dia)"

definition setMonth :: "int \<Rightarrow> fecha \<Rightarrow> int \<Rightarrow> fecha" where
  "setMonth tz t mes =
     con_dia_local tz t (dia_de_civil (getFullYear tz t) mes (getDate tz t))"

lemma dia_local_con_dia:
  "dia_local tz (con_dia_local tz t d) = d" "ms_del_dia tz (con_dia_local tz t d) = ms_del_dia tz t"
  by (simp_all add: dia_local_def ms_del_dia_def con_dia_local_def dia_ms_def)

lemma con_dia_local_id: "con_dia_local tz t (dia_local tz t) = t"
  by (simp add: con_dia_local_def dia_local_def ms_del_dia_def)

text \<open>Moving a date by days: every day of the month is the day of the first plus the offset.\<close>

lemma dia_de_civil_dia: "dia_de_civil a m (d + k) = dia_de_civil a m d + k"
  by (simp add: dia_de_civil_def Let_def)

text \<open>Calendar arithmetic on concrete dates: the epoch, a leap day and a year end.\<close>

lemma civil_ejemplos:
  "civil_de_dia 0 = (1970, 0, 1)" "civil_de_dia 19782 = (2024, 1, 29)"
  "civil_de_dia 20453 = (2025, 11, 31)" "dia_de_civil 2024 1 29 = 19782"
  "dia_de_civil 2024 13 1 = dia_de_civil 2025 1 1"
  by code_simp+

section \<open>dates.ts\<close>

text \<open>
  There are two files of this name: \<^verbatim>\<open>src/modules/utils/constants/dates.ts\<close>, whose
  \<^verbatim>\<open>getMonthNameEs\<close> takes an index from 0, and \<^verbatim>\<open>src/utils/constants/dates.ts\<close>, whose
  \<^verbatim>\<open>getMonthNameEs\<close> takes a month number from 1 (\<open>getMonthNameEs1\<close> below).
\<close>

definition MESES_ES :: "string list" where
  "MESES_ES = [''enero'', ''febrero'', ''marzo'', ''abril'', ''mayo'', ''junio'', ''julio'',
     ''agosto'', ''septiembre'', ''octubre'', ''noviembre'', ''diciembre'']"

text \<open>Indexing an array out of its range gives \<^verbatim>\<open>undefined\<close>.\<close>

definition indice_js :: "'a list \<Rightarrow> int \<Rightarrow> 'a option" where
  "indice_js xs i = (if 0 \<le> i \<and> i < int (length xs) then Some (xs ! nat i) else None)"

definition getMonthNameEs :: "int \<Rightarrow> string option" where
  "getMonthNameEs monthIndex = indice_js MESES_ES monthIndex"

definition MESES_ES1 :: "string list" where
  "MESES_ES1 = [''Enero'', ''Febrero'', ''Marzo'', ''Abril'', ''Mayo'', ''Junio'', ''Julio'',
     ''Agosto'', ''Septiembre'', ''Octubre'', ''Noviembre'', ''Diciembre'']"

definition getMonthNameEs1 :: "int \<Rightarrow> string" where
  "getMonthNameEs1 monthNumber =
     (if monthNumber < 1 \<or> 12 < monthNumber then [] else MESES_ES1 ! nat (monthNumber - 1))"

text \<open>Decimal digits, and \<^verbatim>\<open>padStart(2, '0')\<close>.\<close>

definition digito :: "nat \<Rightarrow> char" where
  "digito n = char_of (48 + n)"

fun cifras :: "nat \<Rightarrow> string" where
  "cifras n = (if n < 10 then [digito n] else cifras (n div 10) @ [digito (n mod 10)])"

declare cifras.simps [simp del]

definition numero_texto :: "int \<Rightarrow> string" where
  "numero_texto i = (if i < 0 then CHR ''-'' # cifras (nat (- i)) else cifras (nat i))"

definition padStart :: "nat \<Rightarrow> char \<Rightarrow> string \<Rightarrow> string" where
  "padStart n c s = replicate (n - length s) c @ s"

definition formatDate :: "int \<Rightarrow> fecha \<Rightarrow> string" where
  "formatDate tz date =
     (let year = getFullYear tz date;
          month = padStart 2 (CHR ''0'') (numero_texto (getMonth tz date + 1));
          day = padStart 2 (CHR ''0'') (numero_texto (getDate tz date))
      in numero_texto year @ ''-'' @ month @ ''-'' @ day)"

lemma padStart_length: "length (padStart n c s) = max n (length s)"
  by (simp add: padStart_def)

lemma getMonthNameEs_defined: "getMonthNameEs i \<noteq> None \<longleftrightarrow> 0 \<le> i \<and> i < 12"
  by (simp add: getMonthNameEs_def indice_js_def MESES_ES_def)

end
