(* ===== verification/EntryQueries.thy ===== *)
theory EntryQueries
  imports EntryLaws Dates "HOL-Library.Product_Lexorder"
begin

text \<open>
  \<^verbatim>\<open>accounting-entries.service.ts\<close>, the rest of the service: the index adjustment, the
  filtered query with its totals, the account statement of an agent and the balance computed
  from it, the pending settlements, the bulk state changes, the queries by contract, and
  \<^verbatim>\<open>processReceipt\<close>.
\<close>

section \<open>Index adjustment\<close>

record indice_periodo =
  ip_periodo :: fecha
  ip_valor :: monto

definition mismo_mes :: "int \<Rightarrow> fecha \<Rightarrow> fecha \<Rightarrow> bool" where
  "mismo_mes tz t u \<longleftrightarrow> getMonth tz t = getMonth tz u \<and> getFullYear tz t = getFullYear tz u"

definition aplicarAjuste :: "fecha \<Rightarrow> oid \<Rightarrow> indice_periodo \<Rightarrow> asiento \<Rightarrow> asiento" where
  "aplicarAjuste hoy userId indice a =
     (let montoAjustado = monto_original a * ip_valor indice
      in a\<lparr>monto_actual := montoAjustado, estado := PENDIENTE,
           historial_cambios := historial_cambios a @
             [\<lparr>c_fecha = hoy, c_usuario_id = userId, c_accion = ''AJUSTE_INDICE'',
               estado_anterior = Some PENDIENTE_AJUSTE, estado_nuevo = Some PENDIENTE,
               c_monto = Some montoAjustado,
               c_observaciones = Some (''Ajuste aplicado con indice {} para {}'',
                 [ANum (ip_valor indice), ANum (rat_of_int (ip_periodo indice))])\<rparr>]\<rparr>)"

definition ajustarAsiento ::
  "int \<Rightarrow> indice_periodo list \<Rightarrow> oid \<Rightarrow> asiento \<Rightarrow> ('a bd_asi_scheme, asiento list) proc" where
  "ajustarAsiento tz indices userId a =
     (case find (\<lambda>i. mismo_mes tz (ip_periodo i) (fecha_vencimiento a)) indices of
        None \<Rightarrow> ret []
      | Some indice \<Rightarrow>
          ebind (gets ahora) (\<lambda>hoy.
          ebind (guardarAsiento (aplicarAjuste hoy userId indice a)) (\<lambda>a'. ret [a'])))"

definition actualizarAsientosPendientesAjuste ::
  "int \<Rightarrow> oid \<Rightarrow> indice_periodo list \<Rightarrow> oid \<Rightarrow> ('a bd_asi_scheme, asiento list) proc" where
  "actualizarAsientosPendientesAjuste tz contratoId indices userId =
     ebind (gets (\<lambda>s. filter (\<lambda>a. contrato_id a = Some contratoId \<and> estado a = PENDIENTE_AJUSTE)
              (asientos s))) (\<lambda>pendientes.
     ebind (for_each (ajustarAsiento tz indices userId) pendientes) (\<lambda>r. ret (concat r)))"

section \<open>The filtered query\<close>

record filtros_asiento =
  f_contrato_id :: "oid option"
  f_agente_id :: "oid option"
  f_tipo_asiento :: "string option"
  f_estado :: "estado option"
  f_fecha_desde :: "fecha option"
  f_fecha_hasta :: "fecha option"
  f_solo_pendientes :: bool
  f_page :: "nat option"
  f_limit :: "nat option"

definition en_rango :: "fecha option \<Rightarrow> fecha option \<Rightarrow> fecha \<Rightarrow> bool" where
  "en_rango desde hasta t \<longleftrightarrow>
     (case desde of None \<Rightarrow> True | Some d \<Rightarrow> d \<le> t) \<and>
     (case hasta of None \<Rightarrow> True | Some h \<Rightarrow> t \<le> h)"

definition query_asientos :: "filtros_asiento \<Rightarrow> asiento \<Rightarrow> bool" where
  "query_asientos f a \<longleftrightarrow>
     (case f_contrato_id f of None \<Rightarrow> True | Some c \<Rightarrow> contrato_id a = Some c) \<and>
     (case f_agente_id f of None \<Rightarrow> True
      | Some g \<Rightarrow> list_ex (\<lambda>p. p_agente_id p = Some g) (partidas a)) \<and>
     (case f_tipo_asiento f of None \<Rightarrow> True | Some t \<Rightarrow> tipo_asiento a = t) \<and>
     (if f_solo_pendientes f
      then estado a \<in> {PENDIENTE, PAGADO_PARCIAL, PENDIENTE_AJUSTE, COBRADO}
      else (case f_estado f of None \<Rightarrow> True | Some e \<Rightarrow> estado a = e)) \<and>
     en_rango (f_fecha_desde f) (f_fecha_hasta f) (fecha_imputacion a)"

definition saldoPendienteDebe :: "partida list \<Rightarrow> monto" where
  "saldoPendienteDebe ps = (\<Sum>p\<leftarrow>filter (\<lambda>p. debe p > 0) ps. debe p - pagado p)"

definition saldoPendienteHaber :: "partida list \<Rightarrow> monto" where
  "saldoPendienteHaber ps = (\<Sum>p\<leftarrow>filter (\<lambda>p. haber p > 0) ps. haber p - liquidado p)"

definition con_saldo :: "asiento \<Rightarrow> bool" where
  "con_saldo a \<longleftrightarrow> saldoPendienteDebe (partidas a) > 0 \<or> saldoPendienteHaber (partidas a) > 0"

record grupo_cuenta =
  gc_cuenta_id :: oid
  gc_cuenta_nombre :: "string option"
  gc_cuenta_codigo :: "string option"
  gc_totalDebe :: monto
  gc_totalHaber :: monto

text \<open>\<^verbatim>\<open>$unwind\<close>, \<^verbatim>\<open>$group\<close> by account, \<^verbatim>\<open>$lookup\<close> in the chart and \<^verbatim>\<open>$sort\<close>.\<close>

definition grupo_de :: "cuenta_contable list \<Rightarrow> partida list \<Rightarrow> oid \<Rightarrow> grupo_cuenta" where
  "grupo_de plan_c ps c =
     (let ls = filter (\<lambda>p. cuenta_id p = c) ps; info = find_id cc_id c plan_c
      in \<lparr>gc_cuenta_id = c, gc_cuenta_nombre = map_option cc_nombre info,
          gc_cuenta_codigo = map_option codigo info,
          gc_totalDebe = totalDebe ls, gc_totalHaber = totalHaber ls\<rparr>)"

definition breakdownByAccount :: "cuenta_contable list \<Rightarrow> asiento list \<Rightarrow> grupo_cuenta list" where
  "breakdownByAccount plan_c as =
     (let ps = concat (map partidas as)
      in sort_key (\<lambda>g. (- gc_totalDebe g, - gc_totalHaber g))
           (map (grupo_de plan_c ps) (remdups (map cuenta_id ps))))"

record resultado_filtros =
  rf_data :: "asiento list"
  rf_total :: nat
  rf_page :: nat
  rf_limit :: nat
  rf_totalPages :: int
  rf_grandTotalDebe :: monto
  rf_grandTotalHaber :: monto
  rf_breakdown :: "grupo_cuenta list"

text \<open>
  \<open>orden\<close> is the database's sort by the \<^verbatim>\<open>sort\<close> string of the request. The driver
  refuses a negative \<^verbatim>\<open>skip\<close>, which page 0 gives.
\<close>

definition findWithFilters ::
  "(asiento list \<Rightarrow> asiento list) \<Rightarrow> filtros_asiento \<Rightarrow> ('a bd_asi_scheme, resultado_filtros) proc" where
  "findWithFilters orden f =
     ebind (gets (\<lambda>s. (filter (query_asientos f) (asientos s), plan_cuentas s))) (\<lambda>(as, plan_c).
     let page = coalesce (f_page f) 1;
         limit = coalesce (f_limit f) 20;
         sel = (if f_solo_pendientes f then filter con_saldo as else as);
         b = breakdownByAccount plan_c as
     in if page = 0 then raise (ErrorJS ''Skip value must be non-negative'' [])
        else ret \<lparr>rf_data = pagina (page - 1) limit (orden sel),
             rf_total = length sel,
             rf_page = page,
             rf_limit = limit,
             rf_totalPages = total_paginas (length sel) limit,
             rf_grandTotalDebe = (\<Sum>g\<leftarrow>b. gc_totalDebe g),
             rf_grandTotalHaber = (\<Sum>g\<leftarrow>b. gc_totalHaber g),
             rf_breakdown = b\<rparr>)"

section \<open>Queries by contract, bulk state changes, deletion\<close>

definition findByContractAndDateRange ::
  "oid \<Rightarrow> fecha \<Rightarrow> fecha \<Rightarrow> estado option \<Rightarrow> ('a bd_asi_scheme, asiento list) proc" where
  "findByContractAndDateRange contratoId desde hasta est =
     gets (\<lambda>s. filter (\<lambda>a. contrato_id a = Some contratoId \<and>
         desde \<le> fecha_imputacion a \<and> fecha_imputacion a \<le> hasta \<and>
         (case est of None \<Rightarrow> True | Some e \<Rightarrow> estado a = e)) (asientos s))"

definition findByContractAndType ::
  "oid \<Rightarrow> string \<Rightarrow> ('a bd_asi_scheme, asiento list) proc" where
  "findByContractAndType contratoId tipo =
     gets (\<lambda>s. sort_key (\<lambda>a. - fecha_imputacion a)
        (filter (\<lambda>a. contrato_id a = Some contratoId \<and> tipo_asiento a = tipo) (asientos s)))"

definition asi_find :: "(asiento \<Rightarrow> bool) \<Rightarrow> ('a bd_asi_scheme, asiento list) proc" where
  "asi_find P = gets (\<lambda>s. filter P (asientos s))"

text \<open>\<^verbatim>\<open>limit || 50\<close>: zero is falsy.\<close>

definition o_bien_nat :: "nat option \<Rightarrow> nat \<Rightarrow> nat" where
  "o_bien_nat x d = (case x of None \<Rightarrow> d | Some n \<Rightarrow> if n = 0 then d else n)"

definition asi_findAll :: "nat option \<Rightarrow> nat option \<Rightarrow> ('a bd_asi_scheme, asiento list) proc" where
  "asi_findAll lmt offset =
     gets (\<lambda>s. take (o_bien_nat lmt 50) (drop (coalesce offset 0) (asientos s)))"

definition findEntriesDetailByAgent ::
  "oid \<Rightarrow> nat option \<Rightarrow> nat option \<Rightarrow> ('a bd_asi_scheme, asiento list) proc" where
  "findEntriesDetailByAgent ag lmt offset =
     gets (\<lambda>s. take (o_bien_nat lmt 50) (drop (coalesce offset 0)
        (filter (\<lambda>a. list_ex (\<lambda>p. p_agente_id p = Some ag) (partidas a)) (asientos s))))"

definition marcar :: "oid list \<Rightarrow> estado \<Rightarrow> ('a bd_asi_scheme, unit) proc" where
  "marcar ids e = modify (con_asientos (update_many (\<lambda>a. a_id a \<in> set ids) (\<lambda>a. a\<lparr>estado := e\<rparr>)))"

definition markAsInvoiced :: "oid list \<Rightarrow> ('a bd_asi_scheme, unit) proc" where
  "markAsInvoiced ids = marcar ids FACTURADO"

definition markAsPendingInvoice :: "oid list \<Rightarrow> ('a bd_asi_scheme, unit) proc" where
  "markAsPendingInvoice ids = marcar ids PENDIENTE_FACTURAR"

definition markAsLiquidated :: "oid list \<Rightarrow> ('a bd_asi_scheme, unit) proc" where
  "markAsLiquidated ids = marcar ids LIQUIDADO"

definition deleteManyByContractId :: "oid \<Rightarrow> ('a bd_asi_scheme, nat) proc" where
  "deleteManyByContractId c =
     ebind (gets (\<lambda>s. length (filter (\<lambda>a. contrato_id a = Some c) (asientos s)))) (\<lambda>n.
     ebind (modify (con_asientos (delete_many (\<lambda>a. contrato_id a = Some c)))) (\<lambda>_. ret n))"

record historial_asiento =
  h_asiento_id :: oid
  h_descripcion :: texto
  h_tipo :: string
  h_estado_actual :: estado
  h_historial :: "cambio list"

definition getHistorialCambios :: "oid \<Rightarrow> ('a bd_asi_scheme, historial_asiento) proc" where
  "getHistorialCambios i =
     ebind (cargarAsiento i) (\<lambda>a.
     ret \<lparr>h_asiento_id = a_id a, h_descripcion = descripcion a, h_tipo = tipo_asiento a,
          h_estado_actual = estado a, h_historial = historial_cambios a\<rparr>)"

section \<open>Accrued income\<close>

definition ingreso_devengado :: "asiento list \<Rightarrow> monto" where
  "ingreso_devengado as =
     fold (\<lambda>a t. fold (\<lambda>p t. if haber p > 0 then t + haber p else t) (partidas a) t) as 0"

definition getAccruedIncome ::
  "oid option \<Rightarrow> fecha option \<Rightarrow> fecha option \<Rightarrow> ('a bd_asi_scheme, monto) proc" where
  "getAccruedIncome contrato inicio final_p =
     (case (contrato, inicio, final_p) of
        (Some c, Some i, Some f) \<Rightarrow>
          ebind (findByContractAndDateRange c i f None) (\<lambda>as. ret (ingreso_devengado as))
      | _ \<Rightarrow> raise (BadRequestException
          ''Faltan parametros: contrato_id, fecha_inicio, fecha_fin son requeridos'' []))"

section \<open>The account statement of an agent\<close>

text \<open>
  A movement; \<open>None\<close> is a field the code does not set (\<^verbatim>\<open>undefined\<close>). The percentages
  the code adds for display (each a quotient of fields kept here) are left out.
\<close>

record movimiento =
  m_asiento_id :: oid
  m_fecha_imputacion :: fecha
  m_fecha_vencimiento :: fecha
  m_descripcion :: texto
  m_tipo_asiento :: string
  m_es_debe :: bool
  m_debe :: monto
  m_haber :: monto
  m_monto_original :: monto
  m_saldo_acumulado :: monto
  m_estado :: estado
  m_monto_pagado :: "monto option"
  m_saldo_pendiente :: "monto option"
  m_monto_total_liquidable :: "monto option"
  m_monto_ya_liquidado :: "monto option"
  m_monto_recaudado_disponible :: "monto option"
  m_monto_pendiente_cobro_agente :: "monto option"
  m_es_deposito :: "bool option"
  m_cerrado :: bool

text \<open>\<open>m_cerrado\<close> is the flag \<^verbatim>\<open>pagado\<close> of a debit movement and \<^verbatim>\<open>liquidado\<close> of a credit.\<close>

record acumulados =
  ac_saldo_debe :: monto
  ac_saldo_haber :: monto
  ac_total_debe :: monto
  ac_total_haber :: monto
  ac_total_pagado_debe :: monto
  ac_total_recaudado_haber :: monto

definition acumulados0 :: acumulados where
  "acumulados0 = \<lparr>ac_saldo_debe = 0, ac_saldo_haber = 0, ac_total_debe = 0, ac_total_haber = 0,
     ac_total_pagado_debe = 0, ac_total_recaudado_haber = 0\<rparr>"

definition tipo_devolucion :: string where
  "tipo_devolucion = ''Deposito en Garantia - Devolucion''"

definition montoCobradoInquilino :: "asiento \<Rightarrow> monto" where
  "montoCobradoInquilino a = montoPagadoDebe (partidas a)"

definition totalHaberPositivo :: "asiento \<Rightarrow> monto" where
  "totalHaberPositivo a = (\<Sum>p\<leftarrow>filter (\<lambda>p. haber p > 0) (partidas a). haber p)"

definition totalDebePositivo :: "asiento \<Rightarrow> monto" where
  "totalDebePositivo a = (\<Sum>p\<leftarrow>filter (\<lambda>p. debe p > 0) (partidas a). debe p)"

definition proporcion :: "asiento \<Rightarrow> partida \<Rightarrow> monto" where
  "proporcion a p = (if totalHaberPositivo a > 0 then haber p / totalHaberPositivo a else 0)"

definition mov_base :: "asiento \<Rightarrow> partida \<Rightarrow> movimiento" where
  "mov_base a p =
     \<lparr>m_asiento_id = a_id a, m_fecha_imputacion = fecha_imputacion a,
      m_fecha_vencimiento = fecha_vencimiento a, m_descripcion = p_descripcion p,
      m_tipo_asiento = tipo_asiento a, m_es_debe = True, m_debe = debe p, m_haber = 0,
      m_monto_original = debe p, m_saldo_acumulado = 0, m_estado = estado a,
      m_monto_pagado = None, m_saldo_pendiente = None, m_monto_total_liquidable = None,
      m_monto_ya_liquidado = None, m_monto_recaudado_disponible = None,
      m_monto_pendiente_cobro_agente = None, m_es_deposito = None, m_cerrado = False\<rparr>"

text \<open>The body of the inner loop: the running totals and the movement it pushes, if any.\<close>

definition mov_partida :: "asiento \<Rightarrow> partida \<Rightarrow> acumulados \<Rightarrow> acumulados \<times> movimiento list" where
  "mov_partida a p ac =
     (if debe p > 0 then
        let pag = pagado p;
            saldo = debe p - pag;
            ac' = ac\<lparr>ac_saldo_debe := ac_saldo_debe ac + saldo,
                     ac_total_debe := ac_total_debe ac + debe p,
                     ac_total_pagado_debe := ac_total_pagado_debe ac + pag\<rparr>
        in (ac', [(mov_base a p)\<lparr>m_monto_pagado := Some pag, m_saldo_pendiente := Some saldo,
                    m_saldo_acumulado := ac_saldo_debe ac', m_cerrado := (saldo \<le> 0)\<rparr>])
      else if haber p > 0 then
        let liqd = liquidado p;
            es_dep = (tipo_asiento a = tipo_devolucion);
            cobrado = montoCobradoInquilino a;
            disponible = (if es_dep then haber p - liqd else cobrado * proporcion a p - liqd);
            ac' = ac\<lparr>ac_saldo_haber := ac_saldo_haber ac + disponible,
                     ac_total_haber := ac_total_haber ac + haber p,
                     ac_total_recaudado_haber := ac_total_recaudado_haber ac + disponible\<rparr>;
            m0 = (mov_base a p)\<lparr>m_es_debe := False, m_debe := 0, m_haber := haber p,
                    m_monto_original := haber p, m_monto_ya_liquidado := Some liqd,
                    m_monto_recaudado_disponible := Some disponible,
                    m_saldo_acumulado := ac_saldo_haber ac', m_es_deposito := Some es_dep\<rparr>
        in (ac', [if es_dep then m0\<lparr>m_cerrado := (disponible \<le> 0)\<rparr>
                  else m0\<lparr>m_monto_total_liquidable := Some (haber p - liqd),
                          m_monto_pendiente_cobro_agente :=
                            Some ((totalDebePositivo a - cobrado) * proporcion a p),
                          m_cerrado := (haber p - liqd \<le> 0)\<rparr>])
      else (ac, []))"

fun mov_partidas ::
  "(asiento \<times> partida) list \<Rightarrow> acumulados \<Rightarrow> acumulados \<times> movimiento list" where
  "mov_partidas [] ac = (ac, [])"
| "mov_partidas ((a, p) # aps) ac =
     (case mov_partida a p ac of (ac', ms) \<Rightarrow>
      case mov_partidas aps ac' of (ac'', ms') \<Rightarrow> (ac'', ms @ ms'))"

definition partidas_del_agente :: "oid \<Rightarrow> asiento list \<Rightarrow> (asiento \<times> partida) list" where
  "partidas_del_agente ag as =
     concat (map (\<lambda>a. map (Pair a) (filter (\<lambda>p. p_agente_id p = Some ag) (partidas a))) as)"

record filtros_estado_cuenta =
  ec_fecha_desde :: "fecha option"
  ec_fecha_hasta :: "fecha option"
  ec_fecha_corte :: "fecha option"
  ec_incluir_anulados :: bool
  ec_solo_pendientes :: "bool option"

definition match_estado_cuenta :: "oid \<Rightarrow> filtros_estado_cuenta \<Rightarrow> asiento \<Rightarrow> bool" where
  "match_estado_cuenta ag f a \<longleftrightarrow>
     list_ex (\<lambda>p. p_agente_id p = Some ag) (partidas a) \<and>
     (ec_incluir_anulados f \<or> estado a \<notin> {ANULADO, CONDONADO}) \<and>
     (case ec_fecha_corte f of Some c \<Rightarrow> fecha_imputacion a \<le> c
      | None \<Rightarrow> en_rango (ec_fecha_desde f) (ec_fecha_hasta f) (fecha_imputacion a))"

text \<open>The filter of pending movements: \<^verbatim>\<open>undefined > 0\<close> is false.\<close>

definition mov_pendiente :: "movimiento \<Rightarrow> bool" where
  "mov_pendiente m \<longleftrightarrow>
     (case (if m_es_debe m then m_saldo_pendiente m else m_monto_total_liquidable m) of
        None \<Rightarrow> False | Some x \<Rightarrow> x > 0)"

record estado_cuenta =
  ec_agente_id :: oid
  ec_total_debe :: monto
  ec_total_haber :: monto
  ec_total_pagado_debe :: monto
  ec_total_recaudado_haber :: monto
  ec_saldo_pendiente_debe :: monto
  ec_saldo_disponible_haber :: monto
  ec_asientos_pendientes :: nat
  ec_asientos_pagados :: nat
  ec_pendientes_liquidacion :: nat
  ec_asientos_liquidados :: nat
  ec_total_movimientos :: nat
  ec_movimientos :: "movimiento list"

definition getEstadoCuentaByAgente ::
  "oid \<Rightarrow> filtros_estado_cuenta \<Rightarrow> ('a bd_asi_scheme, estado_cuenta) proc" where
  "getEstadoCuentaByAgente ag f =
     ebind (gets (\<lambda>s. sort_key fecha_imputacion (filter (match_estado_cuenta ag f) (asientos s)))) (\<lambda>as.
     let (ac, movs) = mov_partidas (partidas_del_agente ag as) acumulados0;
         mf = (if ec_solo_pendientes f = Some False then movs else filter mov_pendiente movs)
     in ret \<lparr>ec_agente_id = ag,
             ec_total_debe = ac_total_debe ac,
             ec_total_haber = ac_total_haber ac,
             ec_total_pagado_debe = ac_total_pagado_debe ac,
             ec_total_recaudado_haber = ac_total_recaudado_haber ac,
             ec_saldo_pendiente_debe = ac_total_debe ac - ac_total_pagado_debe ac,
             ec_saldo_disponible_haber = ac_total_recaudado_haber ac,
             ec_asientos_pendientes = length (filter (\<lambda>m. m_es_debe m \<and> \<not> m_cerrado m) mf),
             ec_asientos_pagados = length (filter (\<lambda>m. m_es_debe m \<and> m_cerrado m) mf),
             ec_pendientes_liquidacion = length (filter (\<lambda>m. \<not> m_es_debe m \<and> \<not> m_cerrado m) mf),
             ec_asientos_liquidados = length (filter (\<lambda>m. \<not> m_es_debe m \<and> m_cerrado m) mf),
             ec_total_movimientos = length mf,
             ec_movimientos = mf\<rparr>)"

definition calculateAgentBalanceWithCutoff ::
  "oid \<Rightarrow> fecha option \<Rightarrow> ('a bd_asi_scheme, monto) proc" where
  "calculateAgentBalanceWithCutoff ag corte =
     ebind (getEstadoCuentaByAgente ag
        \<lparr>ec_fecha_desde = None, ec_fecha_hasta = corte, ec_fecha_corte = None,
         ec_incluir_anulados = False, ec_solo_pendientes = None\<rparr>)
       (\<lambda>e. ret (ec_saldo_pendiente_debe e - ec_saldo_disponible_haber e))"

definition calculateAgentBalance :: "oid \<Rightarrow> ('a bd_asi_scheme, monto) proc" where
  "calculateAgentBalance ag = calculateAgentBalanceWithCutoff ag None"

section \<open>Pending settlements of an agent\<close>

record liquidacion_pendiente =
  lp_fecha_cobro :: fecha
  lp_descripcion :: texto
  lp_monto_original :: monto
  lp_monto_cobrado :: monto
  lp_proporcion :: monto
  lp_monto_liquidable :: monto
  lp_monto_ya_liquidado :: monto
  lp_monto_disponible :: monto
  lp_asiento_id :: oid
  lp_contrato_id :: "oid option"

definition pendientes_de_asiento :: "fecha \<Rightarrow> oid \<Rightarrow> asiento \<Rightarrow> liquidacion_pendiente list" where
  "pendientes_de_asiento hoy ag a =
     (let montoCobrado = montoPagadoDebe (partidas a)
      in if montoCobrado = 0 then []
         else concat (map (\<lambda>p.
           if haber p > 0 \<and> p_agente_id p = Some ag then
             let montoLiquidable = montoCobrado * proporcion a p;
                 montoDisponible = montoLiquidable - liquidado p
             in if montoDisponible > 0 then
               [\<lparr>lp_fecha_cobro = coalesce (fecha_pago a) hoy, lp_descripcion = p_descripcion p,
                 lp_monto_original = haber p, lp_monto_cobrado = montoCobrado,
                 lp_proporcion = proporcion a p, lp_monto_liquidable = montoLiquidable,
                 lp_monto_ya_liquidado = liquidado p, lp_monto_disponible = montoDisponible,
                 lp_asiento_id = a_id a, lp_contrato_id = contrato_id a\<rparr>]
             else []
           else []) (partidas a)))"

definition getAgentPendingLiquidation ::
  "oid \<Rightarrow> ('a bd_asi_scheme, liquidacion_pendiente list) proc" where
  "getAgentPendingLiquidation ag =
     ebind (gets (\<lambda>s. (ahora s,
        filter (\<lambda>a. estado a \<in> {PAGADO, PAGADO_PARCIAL} \<and>
          list_ex (\<lambda>p. p_agente_id p = Some ag) (partidas a) \<and>
          list_ex (\<lambda>p. haber p > 0) (partidas a)) (asientos s)))) (\<lambda>(hoy, as).
     ret (concat (map (pendientes_de_asiento hoy ag) as)))"

section \<open>processReceipt\<close>

datatype tipo_operacion = COBRO | PAGO

record linea_recibo =
  ln_asiento_id :: oid
  ln_tipo :: tipo_operacion
  ln_monto :: monto
  ln_agente_id :: "oid option"
  ln_concepto :: "string option"

record process_receipt_dto =
  pr_lineas :: "linea_recibo list"
  pr_cuenta_financiera_id :: oid
  pr_fecha :: fecha
  pr_metodo :: string
  pr_usuario_id :: oid
  pr_comprobante :: "string option"
  pr_observaciones :: "string option"

record resultado_linea =
  rl_asiento_id :: oid
  rl_tipo :: tipo_operacion
  rl_monto :: monto
  rl_resultado :: "excepcion + asiento"

record resultado_recibo =
  rr_total_lineas :: nat
  rr_total_ingreso :: monto
  rr_total_egreso :: monto
  rr_movimiento_neto :: monto
  rr_operaciones :: "resultado_linea list"
  rr_procesadas :: nat
  rr_errores :: nat

text \<open>\<^verbatim>\<open>linea.concepto || dto.observaciones\<close>.\<close>

definition observacion_linea :: "process_receipt_dto \<Rightarrow> linea_recibo \<Rightarrow> string option" where
  "observacion_linea dto l =
     (case ln_concepto l of None \<Rightarrow> pr_observaciones dto
      | Some c \<Rightarrow> if c = [] then pr_observaciones dto else Some c)"

definition operar_linea :: "process_receipt_dto \<Rightarrow> linea_recibo \<Rightarrow> ('a bd_asi_scheme, asiento) proc" where
  "operar_linea dto l =
     (case ln_tipo l of
        COBRO \<Rightarrow> registerPayment (ln_asiento_id l)
          \<lparr>rp_fecha_pago = pr_fecha dto, rp_monto_pagado = ln_monto l,
           rp_metodo_pago = Some (pr_metodo dto),
           rp_cuenta_financiera_id = pr_cuenta_financiera_id dto,
           rp_observaciones = observacion_linea dto l, rp_usuario_id = pr_usuario_id dto\<rparr>
      | PAGO \<Rightarrow>
          (case ln_agente_id l of
             None \<Rightarrow> raise (BadRequestException ''La linea de PAGO del asiento {} requiere agente_id''
               [AId (ln_asiento_id l)])
           | Some ag \<Rightarrow> liquidarAPropietario (ln_asiento_id l)
               \<lparr>li_fecha_liquidacion = pr_fecha dto, li_metodo_liquidacion = pr_metodo dto,
                li_cuenta_financiera_id = pr_cuenta_financiera_id dto, li_agente_id = ag,
                li_monto_a_liquidar = None, li_comprobante = pr_comprobante dto,
                li_observaciones = observacion_linea dto l, li_usuario_id = pr_usuario_id dto\<rparr>))"

text \<open>One line inside its \<^verbatim>\<open>try\<close>: an exception becomes a result of state \<^verbatim>\<open>ERROR\<close>.\<close>

definition procesar_linea ::
  "process_receipt_dto \<Rightarrow> linea_recibo \<Rightarrow> ('a bd_asi_scheme, resultado_linea) proc" where
  "procesar_linea dto l =
     try_catch (ebind (operar_linea dto l)
         (\<lambda>a. ret \<lparr>rl_asiento_id = ln_asiento_id l, rl_tipo = ln_tipo l, rl_monto = ln_monto l,
                  rl_resultado = Inr a\<rparr>))
       (\<lambda>e. ret \<lparr>rl_asiento_id = ln_asiento_id l, rl_tipo = ln_tipo l, rl_monto = ln_monto l,
                rl_resultado = Inl e\<rparr>)"

definition procesada :: "resultado_linea \<Rightarrow> bool" where
  "procesada r \<longleftrightarrow> (case rl_resultado r of Inl _ \<Rightarrow> False | Inr _ \<Rightarrow> True)"

definition processReceipt :: "process_receipt_dto \<Rightarrow> ('a bd_asi_scheme, resultado_recibo) proc" where
  "processReceipt dto =
     ebind (for_each (procesar_linea dto) (pr_lineas dto)) (\<lambda>rs.
     let ingreso = (\<Sum>r\<leftarrow>filter (\<lambda>r. procesada r \<and> rl_tipo r = COBRO) rs. rl_monto r);
         egreso = (\<Sum>r\<leftarrow>filter (\<lambda>r. procesada r \<and> rl_tipo r = PAGO) rs. rl_monto r)
     in ret \<lparr>rr_total_lineas = length (pr_lineas dto), rr_total_ingreso = ingreso,
             rr_total_egreso = egreso, rr_movimiento_neto = ingreso - egreso,
             rr_operaciones = rs, rr_procesadas = length (filter procesada rs),
             rr_errores = length (filter (\<lambda>r. \<not> procesada r) rs)\<rparr>)"

end
