(* ===== verification/EntryExamples.thy ===== *)
theory EntryExamples
  imports EntryLaws
begin

text \<open>
  A small concrete database on which the properties are instantiated: one rent entry of 1000
  (tenant 1 owes it, landlord 2 is due 900 and the agency, agent 3, is due 100), a deposit
  return entry, and a cash account with balance 50.
\<close>

definition partida0 :: partida where
  "partida0 = \<lparr>cuenta_id = 1, p_descripcion = (''Alquiler'', []), debe = 0, haber = 0,
     p_agente_id = None, monto_pagado_acumulado = Some 0, monto_liquidado = Some 0,
     es_iva_incluido = False, tasa_iva_aplicada = None, monto_base_imponible = None,
     monto_iva_calculado = None\<rparr>"

definition dto_alquiler :: asiento_dto where
  "dto_alquiler = \<lparr>d_contrato_id = Some 5, d_fecha_imputacion = Some 0,
     d_fecha_vencimiento = Some 0, d_descripcion = Some (''Alquiler 1'', []),
     d_tipo_asiento = Some ''Alquiler'', d_metadata = None, d_estado = None,
     d_monto_original = Some 1000, d_monto_actual = Some 1000,
     d_partidas = Some [partida0\<lparr>debe := 1000, p_agente_id := Some 1\<rparr>,
       partida0\<lparr>haber := 900, p_agente_id := Some 2\<rparr>, partida0\<lparr>haber := 100, p_agente_id := Some 3\<rparr>],
     d_usuario_creacion_id = None, d_usuario_modificacion_id = None, d_historial = []\<rparr>"

definition alquiler :: asiento where
  "alquiler = asiento_de_dto 10 dto_alquiler"

definition dto_deposito :: asiento_dto where
  "dto_deposito = dto_alquiler\<lparr>d_tipo_asiento := Some ''Deposito en Garantia - Devolucion'',
     d_monto_original := Some 500, d_monto_actual := Some 500,
     d_partidas := Some [partida0\<lparr>debe := 500\<rparr>, partida0\<lparr>haber := 500, p_agente_id := Some 1\<rparr>]\<rparr>"

definition deposito :: asiento where
  "deposito = asiento_de_dto 11 dto_deposito"

definition caja0 :: cuenta_fin where
  "caja0 = \<lparr>cf_id = 7, cf_nombre = ''Caja'', cf_tipo = CAJA_EFECTIVO, moneda = ''ARS'',
     cf_descripcion = None, saldo_inicial = 50, cf_activa = True, cbu = None, cf_alias = None,
     bank_id = None\<rparr>"

definition bd0 :: bd_asi where
  "bd0 = \<lparr>ahora = 100, prox_id = 100, sistema = [], secuencias = [], plan_cuentas = [], transacciones = [],
     cuentas_fin = [caja0], asientos = [alquiler, deposito]\<rparr>"

definition pago0 :: "monto \<Rightarrow> register_payment_dto" where
  "pago0 m = \<lparr>rp_fecha_pago = 90, rp_monto_pagado = m, rp_metodo_pago = None,
     rp_cuenta_financiera_id = 7, rp_observaciones = None, rp_usuario_id = 8\<rparr>"

definition liquidacion0 :: "oid \<Rightarrow> monto option \<Rightarrow> liquidar_dto" where
  "liquidacion0 ag m = \<lparr>li_fecha_liquidacion = 95, li_metodo_liquidacion = ''transferencia'',
     li_cuenta_financiera_id = 7, li_agente_id = ag, li_monto_a_liquidar = m,
     li_comprobante = None, li_observaciones = None, li_usuario_id = 8\<rparr>"

definition condonacion0 :: "monto option \<Rightarrow> condonar_dto" where
  "condonacion0 m = \<lparr>co_motivo = ''Acuerdo comercial'', co_monto_condonado = m,
     co_observaciones = None, co_usuario_id = 8, co_usuario_autorizador_id = 9\<rparr>"

definition anulacion0 :: anular_dto where
  "anulacion0 = \<lparr>an_motivo = ''error'', an_tipo_motivo = ''ERROR'', an_observaciones = None,
     an_usuario_id = 8\<rparr>"

text \<open>The states the examples start from: after a full payment, after a cancellation.\<close>

definition bd_cobrada :: bd_asi where
  "bd_cobrada = snd (registerPayment 10 (pago0 1000) bd0)"

definition bd_anulada :: bd_asi where
  "bd_anulada = snd (anularAsiento 10 anulacion0 bd0)"

text \<open>The rent adjusted by an index to 1200, as the adjustment routine leaves it.\<close>

definition bd_ajustada :: bd_asi where
  "bd_ajustada = bd0\<lparr>asientos := [alquiler\<lparr>monto_actual := 1200\<rparr>, deposito]\<rparr>"

end
