(* ===== verification/EntryProperties.thy ===== *)
theory EntryProperties
  imports EntryExamples
begin

text \<open>
  The properties of the four actions on an accounting entry, each with its instance on the
  example database.
\<close>

section \<open>Payments\<close>

text \<open>Two payments in a row impute what one payment of the sum imputes.\<close>

definition abonar :: "monto \<Rightarrow> partida \<Rightarrow> partida" where
  "abonar m p = (if 0 < m then p\<lparr>monto_pagado_acumulado := Some (pagado p + m)\<rparr> else p)"

lemma abonar_campos: "0 \<le> m \<Longrightarrow> debe (abonar m p) = debe p" "0 \<le> m \<Longrightarrow> pagado (abonar m p) = pagado p + m"
  by (simp_all add: abonar_def)

lemma abonar_abonar:
  assumes "0 \<le> m" and "0 \<le> n"
  shows "abonar n (abonar m p) = abonar (m + n) p"
proof (cases "m = 0 \<or> n = 0")
  case True
  then show ?thesis by (auto simp: abonar_def)
next
  case False
  with assms have "0 < m" "0 < n" "0 < m + n" by simp_all
  then show ?thesis by (simp add: abonar_def add.assoc)
qed

lemma paso_pago_abonar:
  assumes "partida_ok p" and "0 \<le> r"
  shows "paso_pago r p = (r - min r (debe p - pagado p), abonar (min r (debe p - pagado p)) p)"
proof (cases "debe p > 0 \<and> r > 0 \<and> debe p - pagado p > 0")
  case True
  then have "0 < min r (debe p - pagado p)" by simp
  with True show ?thesis by (simp add: paso_pago_def Let_def abonar_def)
next
  case False
  then have "min r (debe p - pagado p) = 0"
    using assms by (auto simp: partida_ok_def min_def)
  with False show ?thesis by (auto simp: paso_pago_def Let_def abonar_def)
qed

lemma paso_pago_suma:
  assumes p: "partida_ok p" and r: "0 \<le> r1" "0 \<le> r2"
    and p1: "paso_pago r1 p = (q1, p1)" and p2: "paso_pago r2 p1 = (q2, p2)"
  shows "paso_pago (r1 + r2) p = (q1 + q2, p2)"
proof -
  define d where "d = debe p - pagado p"
  have d: "0 \<le> d" using p by (simp add: partida_ok_def d_def)
  have ok1: "partida_ok p1" using paso_pago_ok [OF r(1) p] p1 by simp
  have m1: "0 \<le> min r1 d" and m2: "0 \<le> min r2 (d - min r1 d)" using r d by simp_all
  have q1: "q1 = r1 - min r1 d" and e1: "p1 = abonar (min r1 d) p"
    using p1 paso_pago_abonar [OF p r(1)] by (simp_all add: d_def)
  have d1: "debe p1 - pagado p1 = d - min r1 d"
    unfolding e1 abonar_campos [OF m1] by (simp add: d_def)
  have q2: "q2 = r2 - min r2 (d - min r1 d)" and e2: "p2 = abonar (min r2 (d - min r1 d)) p1"
    using p2 paso_pago_abonar [OF ok1 r(2)] by (simp_all add: d1)
  have sum: "min (r1 + r2) d = min r1 d + min r2 (d - min r1 d)" using r d by (simp add: min_def)
  have "paso_pago (r1 + r2) p = (r1 + r2 - min (r1 + r2) d, abonar (min (r1 + r2) d) p)"
    using paso_pago_abonar [OF p, of "r1 + r2"] r by (simp add: d_def)
  then show ?thesis
    unfolding q1 q2 e2 e1 abonar_abonar [OF m1 m2] sum by simp
qed

lemma recorrer_pago_suma:
  "list_all partida_ok ps \<Longrightarrow> 0 \<le> r1 \<Longrightarrow> 0 \<le> r2 \<Longrightarrow>
   snd (recorrer paso_pago (r1 + r2) ps) = snd (recorrer paso_pago r2 (snd (recorrer paso_pago r1 ps)))"
proof (induction ps arbitrary: r1 r2)
  case Nil
  then show ?case by simp
next
  case (Cons p ps)
  obtain q1 p1 where p1: "paso_pago r1 p = (q1, p1)" by fastforce
  obtain q2 p2 where p2: "paso_pago r2 p1 = (q2, p2)" by fastforce
  from Cons.prems have ok: "partida_ok p" "list_all partida_ok ps" by simp_all
  have q: "0 \<le> q1" "0 \<le> q2"
    using pago.sano_paso [OF p1] pago.sano_paso [OF p2] Cons.prems by simp_all
  have s: "paso_pago (r1 + r2) p = (q1 + q2, p2)"
    using ok(1) Cons.prems(2,3) p1 p2 by (rule paso_pago_suma)
  show ?case
    using Cons.IH [OF ok(2) q] by (simp add: p1 p2 s split_def)
qed

text \<open>C1: A payment on an entry whose debits are not fully collected is conserved: the amount
  collected on the debit lines and the balance of the receiving account both grow by exactly
  the amount paid, every other account and entry keeps its value, the line amounts do not
  change and the entry stays well-formed.\<close>

theorem registerPayment_conserves:
  assumes run: "registerPayment i dto s = (Inr a', s')"
    and a: "asiento_de i s = Some a" "asiento_ok a"
    and m: "0 \<le> rp_monto_pagado dto"
    and debe: "montoPagadoDebe (partidas a) < totalDebe (partidas a)"
  shows "montoPagadoDebe (partidas a') = montoPagadoDebe (partidas a) + rp_monto_pagado dto \<and>
     saldo_movido (rp_cuenta_financiera_id dto) (rp_monto_pagado dto) s s' \<and>
     (\<forall>j. asiento_de j s' = (if j = i then Some a' else asiento_de j s)) \<and>
     map fijos (partidas a') = map fijos (partidas a) \<and> asiento_ok a'"
proof -
  let ?m = "rp_monto_pagado dto"
  have ok: "list_all partida_ok (partidas a)" using a(2) by (simp add: asiento_ok_def)
  have pos: "totalDebe (partidas a) > 0"
    using debe montoPagadoDebe_le(1) [OF ok] by linarith
  from registerPayment_Inr [OF run]
  have le: "?m \<le> saldoPendientePago (partidas a)" and a': "a' = imputarPago (ahora s) dto a"
    and st: "\<forall>j. asiento_de j s' = (if j = i then Some a' else asiento_de j s)"
    and mov: "saldo_movido (rp_cuenta_financiera_id dto) ?m s s'"
    unfolding a(1) using pos by simp_all
  have "?m \<le> deuda (partidas a)"
    using le pos debe by (simp add: saldoPendientePago_def deuda_eq [OF ok])
  then have "montoPagadoDebe (partidas a') = montoPagadoDebe (partidas a) + ?m"
    using recorrer_pago_total [OF ok m] by (simp add: a')
  moreover have "asiento_ok a'"
    using a(2) recorrer_pago_ok [OF m ok] by (simp add: asiento_ok_def a' recorrer_vacio)
  ultimately show ?thesis using mov st by (simp add: a')
qed

theorem registerPayment_conserves_witness:
  "saldo_movido 7 400 bd0 (final (registerPayment 10 (pago0 400)) bd0)"
proof -
  have e: "exito (registerPayment 10 (pago0 400)) bd0" by code_simp
  have "asiento_de 10 bd0 = Some alquiler" "asiento_ok alquiler" "0 \<le> rp_monto_pagado (pago0 400)"
    "montoPagadoDebe (partidas alquiler) < totalDebe (partidas alquiler)" by code_simp+
  from registerPayment_conserves [OF exito_run [OF e] this] show ?thesis by (simp add: pago0_def)
qed

text \<open>What a payment does to an entry with debt, in the form the laws below use.\<close>

lemma registerPayment_de:
  assumes run: "registerPayment i dto s = (Inr a', s')" and a: "asiento_de i s = Some a"
  shows "estado a \<notin> {ANULADO, CONDONADO}"
    and "rp_monto_pagado dto \<le> saldoPendientePago (partidas a)"
    and "a' = imputarPago (ahora s) dto a"
    and "asiento_de j s' = (if j = i then Some a' else asiento_de j s)"
    and "saldo_movido (rp_cuenta_financiera_id dto)
       (if totalDebe (partidas a) > 0 then rp_monto_pagado dto else 0) s s'"
    and "totalDebe (partidas a) > 0 \<Longrightarrow> cuenta_de (rp_cuenta_financiera_id dto) s \<noteq> None"
proof -
  note r = registerPayment_Inr [OF run, unfolded a]
  show "estado a \<notin> {ANULADO, CONDONADO}" "rp_monto_pagado dto \<le> saldoPendientePago (partidas a)"
    "a' = imputarPago (ahora s) dto a"
    "asiento_de j s' = (if j = i then Some a' else asiento_de j s)"
    "saldo_movido (rp_cuenta_financiera_id dto)
       (if totalDebe (partidas a) > 0 then rp_monto_pagado dto else 0) s s'"
    using r by simp_all
  show "cuenta_de (rp_cuenta_financiera_id dto) s \<noteq> None" if "totalDebe (partidas a) > 0"
    using run a that by (auto simp: registerPayment_def proc_simps split: if_splits dest: updateBalance_Inr)
qed

lemma estado_imputarPago:
  "estado (imputarPago hoy dto a) =
     (let ps = snd (recorrer paso_pago (rp_monto_pagado dto) (partidas a)) in
      if montoPagadoDebe ps \<ge> monto_actual a
      then (if haberTotalmenteLiquidado ps then PAGADO else COBRADO) else PAGADO_PARCIAL)"
  by (simp add: imputarPago_def Let_def)

lemma historial_imputarPago:
  "\<exists>c. historial_cambios (imputarPago hoy dto a) = historial_cambios a @ [c] \<and>
     estado_anterior c = Some (estado a) \<and>
     estado_nuevo c = Some (estado (imputarPago hoy dto a)) \<and> c_monto c = Some (rp_monto_pagado dto)"
  by (simp add: imputarPago_def Let_def)

lemma saldo_movido_suma:
  "saldo_movido c m s s1 \<Longrightarrow> saldo_movido c n s1 s2 \<Longrightarrow> saldo_movido c (m + n) s s2"
  by (auto simp: saldo_movido_def option.map_comp comp_def add.assoc)

lemma saldo_movido_unico:
  "saldo_movido c m s s1 \<Longrightarrow> saldo_movido c m s s2 \<Longrightarrow> saldo_de j s1 = saldo_de j s2"
  by (simp add: saldo_movido_def)

lemma totalDebe_pago [simp]:
  "totalDebe (snd (recorrer paso_pago r ps)) = totalDebe ps"
  "totalHaber (snd (recorrer paso_pago r ps)) = totalHaber ps"
  by (rule fijos_totales, simp)+

text \<open>C6: Splitting a payment does not matter: when a debt is paid in two parts, one payment
  of the sum is accepted too, and it leaves the same lines, the same entry state and the same
  balances.\<close>

theorem registerPayment_split:
  assumes a: "asiento_de i s = Some a" "asiento_ok a"
    and m: "0 \<le> m1" "0 \<le> m2"
    and run1: "registerPayment i (dto\<lparr>rp_monto_pagado := m1\<rparr>) s = (Inr a1, s1)"
    and run2: "registerPayment i (dto\<lparr>rp_monto_pagado := m2\<rparr>) s1 = (Inr a2, s2)"
    and debe: "montoPagadoDebe (partidas a1) < totalDebe (partidas a1)"
  shows "\<exists>a3 s3. registerPayment i (dto\<lparr>rp_monto_pagado := m1 + m2\<rparr>) s = (Inr a3, s3) \<and>
     partidas a3 = partidas a2 \<and> estado a3 = estado a2 \<and> (\<forall>j. saldo_de j s3 = saldo_de j s2)"
proof -
  let ?ps = "partidas a" and ?c = "rp_cuenta_financiera_id dto"
  have ok: "list_all partida_ok ?ps" using a(2) by (simp add: asiento_ok_def)
  note r1 = registerPayment_de [OF run1 a(1)]
  have a1: "asiento_de i s1 = Some a1" using r1(4) [of i] by simp
  note r2 = registerPayment_de [OF run2 a1]
  have ps1: "partidas a1 = snd (recorrer paso_pago m1 ?ps)" using r1(3) by simp
  have ok1: "list_all partida_ok (partidas a1)" using recorrer_pago_ok [OF m(1) ok] by (simp add: ps1)
  have pos: "0 < totalDebe ?ps" using debe montoPagadoDebe_le(1) [OF ok1] by (simp add: ps1)
  have d1: "montoPagadoDebe (partidas a1) = montoPagadoDebe ?ps + min m1 (deuda ?ps)"
    using recorrer_pago_total [OF ok m(1)] by (simp add: ps1)
  have less: "m1 < deuda ?ps"
    using debe d1 by (simp add: deuda_eq [OF ok] ps1 min_def split: if_splits)
  then have deb: "montoPagadoDebe ?ps < totalDebe ?ps" using m deuda_eq [OF ok] by simp
  have m2: "m2 \<le> totalDebe ?ps - montoPagadoDebe (partidas a1)"
    using r2(2) debe pos by (simp add: saldoPendientePago_def ps1)
  have le: "m1 + m2 \<le> saldoPendientePago ?ps"
    using m2 d1 less pos deb deuda_eq [OF ok] by (simp add: saldoPendientePago_def min_def)
  obtain s3 where run3: "registerPayment i (dto\<lparr>rp_monto_pagado := m1 + m2\<rparr>) s =
      (Inr (imputarPago (ahora s) (dto\<lparr>rp_monto_pagado := m1 + m2\<rparr>) a), s3)"
    using registerPayment_ok [OF a(1), of "dto\<lparr>rp_monto_pagado := m1 + m2\<rparr>"] r1(1) r1(6) le by auto
  note r3 = registerPayment_de [OF run3 a(1)]
  have ps: "snd (recorrer paso_pago (m1 + m2) ?ps) = partidas a2"
    using recorrer_pago_suma [OF ok m] r2(3) by (simp add: ps1)
  have est: "estado (imputarPago (ahora s) (dto\<lparr>rp_monto_pagado := m1 + m2\<rparr>) a) = estado a2"
    using r2(3) r1(3) recorrer_pago_suma [OF ok m] by (simp add: estado_imputarPago)
  have "saldo_movido ?c (m1 + m2) s s2"
    using saldo_movido_suma r1(5) r2(5) pos by (simp add: ps1)
  moreover have "saldo_movido ?c (m1 + m2) s s3" using r3(5) pos by simp
  ultimately have "saldo_de j s3 = saldo_de j s2" for j by (metis saldo_movido_unico)
  with run3 ps est show ?thesis by simp
qed

theorem registerPayment_split_witness:
  "\<exists>a3 s3. registerPayment 10 (pago0 1000) bd0 = (Inr a3, s3) \<and> estado a3 = COBRADO"
proof -
  let ?s1 = "final (registerPayment 10 (pago0 300)) bd0"
  have e: "exito (registerPayment 10 (pago0 300)) bd0" "exito (registerPayment 10 (pago0 700)) ?s1"
    by code_simp+
  have a: "asiento_de 10 bd0 = Some alquiler" "asiento_ok alquiler" "(0::rat) \<le> 300" "(0::rat) \<le> 700"
    "montoPagadoDebe (partidas (valor (registerPayment 10 (pago0 300)) bd0)) <
     totalDebe (partidas (valor (registerPayment 10 (pago0 300)) bd0))" by code_simp+
  have p: "pago0 300\<lparr>rp_monto_pagado := m\<rparr> = pago0 m" for m by (simp add: pago0_def)
  have "estado (valor (registerPayment 10 (pago0 700)) ?s1) = COBRADO" by code_simp
  then show ?thesis
    using registerPayment_split [OF a(1-4), of "pago0 300", unfolded p, OF exito_run [OF e(1)] exito_run [OF e(2)] a(5)]
    by auto
qed

text \<open>A payment is accepted exactly when the entry exists, is neither cancelled nor
  condoned, the amount is within the pending balance and, when the entry has debits, the
  receiving account exists. A rejected payment leaves the database unchanged.\<close>

theorem registerPayment_accepts:
  "if exito (registerPayment i dto) s
   then (\<exists>a. asiento_de i s = Some a \<and> estado a \<notin> {ANULADO, CONDONADO} \<and>
          rp_monto_pagado dto \<le> saldoPendientePago (partidas a) \<and>
          (totalDebe (partidas a) \<le> 0 \<or> cuenta_de (rp_cuenta_financiera_id dto) s \<noteq> None))
   else final (registerPayment i dto) s = s \<and>
        (case asiento_de i s of None \<Rightarrow> True | Some a \<Rightarrow>
          estado a \<in> {ANULADO, CONDONADO} \<or> saldoPendientePago (partidas a) < rp_monto_pagado dto \<or>
          (totalDebe (partidas a) > 0 \<and> cuenta_de (rp_cuenta_financiera_id dto) s = None))"
proof (cases "fst (registerPayment i dto s)")
  case (Inl e)
  obtain s' where run: "registerPayment i dto s = (Inl e, s')" using Inl by (metis prod.collapse)
  have no: "\<not> (estado a \<notin> {ANULADO, CONDONADO} \<and> rp_monto_pagado dto \<le> saldoPendientePago (partidas a) \<and>
      (totalDebe (partidas a) > 0 \<longrightarrow> cuenta_de (rp_cuenta_financiera_id dto) s \<noteq> None))"
    if "asiento_de i s = Some a" for a
  proof
    assume "estado a \<notin> {ANULADO, CONDONADO} \<and> rp_monto_pagado dto \<le> saldoPendientePago (partidas a) \<and>
      (totalDebe (partidas a) > 0 \<longrightarrow> cuenta_de (rp_cuenta_financiera_id dto) s \<noteq> None)"
    then have "\<exists>s'. registerPayment i dto s = (Inr (imputarPago (ahora s) dto a), s')"
      by (intro registerPayment_ok [OF that]) simp_all
    with run show False by simp
  qed
  have "case asiento_de i s of None \<Rightarrow> True | Some a \<Rightarrow>
      estado a \<in> {ANULADO, CONDONADO} \<or> saldoPendientePago (partidas a) < rp_monto_pagado dto \<or>
      (totalDebe (partidas a) > 0 \<and> cuenta_de (rp_cuenta_financiera_id dto) s = None)"
  proof (cases "asiento_de i s")
    case None
    then show ?thesis by simp
  next
    case (Some a)
    show ?thesis unfolding Some option.case using no [OF Some] not_le by blast
  qed
  then show ?thesis
    using registerPayment_Inl [OF run] run by (simp add: exito_def final_def)
next
  case (Inr a')
  obtain s' where run: "registerPayment i dto s = (Inr a', s')" using Inr by (metis prod.collapse)
  obtain a where a: "asiento_de i s = Some a" using registerPayment_Inr [OF run] by blast
  note r = registerPayment_de [OF run a]
  have "totalDebe (partidas a) \<le> 0 \<or> cuenta_de (rp_cuenta_financiera_id dto) s \<noteq> None"
    using r(6) by (meson not_le)
  moreover have "exito (registerPayment i dto) s" using run by (simp add: exito_def)
  ultimately show ?thesis using a r(1,2) by auto
qed

theorem registerPayment_accepts_witness:
  "final (registerPayment 10 (pago0 5000)) bd0 = bd0"
proof -
  have "\<not> exito (registerPayment 10 (pago0 5000)) bd0" by code_simp
  with registerPayment_accepts [of 10 "pago0 5000" bd0] show ?thesis by simp
qed

text \<open>The state a payment leaves: with \<^verbatim>\<open>monto_actual\<close> equal to the debits, an entry
  leaves PAGADO_PARCIAL exactly with the payment that closes the debt, to PAGADO when every
  credit is settled and to COBRADO otherwise; the history grows by one record that says so.\<close>

theorem registerPayment_state:
  assumes run: "registerPayment i dto s = (Inr a', s')"
    and a: "asiento_de i s = Some a" "asiento_ok a" "monto_actual a = totalDebe (partidas a)"
    and m: "0 \<le> rp_monto_pagado dto"
    and debe: "montoPagadoDebe (partidas a) < totalDebe (partidas a)"
  shows "estado a' =
      (if rp_monto_pagado dto < deuda (partidas a) then PAGADO_PARCIAL
       else if totalHaber (partidas a) \<le> montoLiquidadoHaber (partidas a) then PAGADO else COBRADO) \<and>
     (\<exists>c. historial_cambios a' = historial_cambios a @ [c] \<and> estado_anterior c = Some (estado a) \<and>
          estado_nuevo c = Some (estado a') \<and> c_monto c = Some (rp_monto_pagado dto))"
proof -
  let ?ps = "partidas a" and ?m = "rp_monto_pagado dto"
  let ?qs = "snd (recorrer paso_pago ?m ?ps)"
  have ok: "list_all partida_ok ?ps" using a(2) by (simp add: asiento_ok_def)
  note r = registerPayment_de [OF run a(1)]
  have h: "(\<Sum>p\<leftarrow>filter (\<lambda>p. haber p > 0) qs. haber p) = totalHaber qs" if "list_all partida_ok qs" for qs
    unfolding totalHaber_def using that by (intro suma_filtro_cero) (auto simp: list_all_iff partida_ok_def)
  have okq: "list_all partida_ok ?qs" using recorrer_pago_ok [OF m ok] .
  have "map monto_liquidado ?qs = map monto_liquidado ?ps" by (rule recorrer_map) simp
  then have "map liquidado ?qs = map liquidado ?ps"
    by (metis (no_types, lifting) list.map_comp comp_apply map_eq_conv)
  then have liq: "montoLiquidadoHaber ?qs = montoLiquidadoHaber ?ps"
    by (simp add: montoLiquidadoHaber_ok [OF okq] montoLiquidadoHaber_ok [OF ok])
  have cero: "0 \<le> montoLiquidadoHaber ?ps"
    unfolding montoLiquidadoHaber_ok [OF ok]
    by (rule suma_no_negativa) (use ok in \<open>auto simp: list_all_iff partida_ok_def\<close>)
  have hl: "haberTotalmenteLiquidado ?qs \<longleftrightarrow> totalHaber ?ps \<le> montoLiquidadoHaber ?ps"
    using cero by (auto simp: haberTotalmenteLiquidado_def Let_def h [OF okq] liq)
  have "montoPagadoDebe ?qs = montoPagadoDebe ?ps + min ?m (deuda ?ps)"
    using recorrer_pago_total [OF ok m] .
  then have "montoPagadoDebe ?qs \<ge> monto_actual a \<longleftrightarrow> \<not> ?m < deuda ?ps"
    using a(3) deuda_eq [OF ok] by (auto simp: min_def)
  then show ?thesis
    using historial_imputarPago [of "ahora s" dto a] hl by (simp add: r(3) estado_imputarPago Let_def)
qed

theorem registerPayment_state_witness:
  "estado (valor (registerPayment 10 (pago0 400)) bd0) = PAGADO_PARCIAL"
proof -
  have e: "exito (registerPayment 10 (pago0 400)) bd0" by code_simp
  have h: "asiento_de 10 bd0 = Some alquiler" "asiento_ok alquiler"
    "monto_actual alquiler = totalDebe (partidas alquiler)" "0 \<le> rp_monto_pagado (pago0 400)"
    "montoPagadoDebe (partidas alquiler) < totalDebe (partidas alquiler)" by code_simp+
  have "rp_monto_pagado (pago0 400) < deuda (partidas alquiler)" by code_simp
  with registerPayment_state [OF exito_run [OF e] h] show ?thesis by simp
qed

lemma montoPagadoHaber_ok: "list_all partida_ok ps \<Longrightarrow> montoPagadoHaber ps = 0"
  by (induction ps) (auto simp: montoPagadoHaber_def partida_ok_def)

text \<open>C7: An entry whose debits are fully collected still accepts payments as long as it has
  credits: the check falls through to the credit lines, whose \<^verbatim>\<open>monto_pagado_acumulado\<close> is
  never set, so any amount up to the total of the credits is taken. The money enters the
  account and no line of the entry records it.\<close>

theorem registerPayment_collects_twice:
  assumes a: "asiento_de i s = Some a" "asiento_ok a" "estado a \<notin> {ANULADO, CONDONADO}"
    and cobrado: "montoPagadoDebe (partidas a) = totalDebe (partidas a)" "0 < totalDebe (partidas a)"
    and m: "0 \<le> rp_monto_pagado dto" "rp_monto_pagado dto \<le> totalHaber (partidas a)"
    and c: "cuenta_de (rp_cuenta_financiera_id dto) s \<noteq> None"
  shows "\<exists>a' s'. registerPayment i dto s = (Inr a', s') \<and> partidas a' = partidas a \<and>
     saldo_movido (rp_cuenta_financiera_id dto) (rp_monto_pagado dto) s s'"
proof -
  let ?ps = "partidas a"
  have ok: "list_all partida_ok ?ps" using a(2) by (simp add: asiento_ok_def)
  have ph: "montoPagadoHaber ?ps = 0" using ok by (rule montoPagadoHaber_ok)
  have "rp_monto_pagado dto \<le> saldoPendientePago ?ps"
    using cobrado m ph by (auto simp: saldoPendientePago_def)
  then obtain s' where run: "registerPayment i dto s = (Inr (imputarPago (ahora s) dto a), s')"
    using registerPayment_ok [OF a(1,3), of dto] c by blast
  have "deuda ?ps = 0" using cobrado deuda_eq [OF ok] by simp
  then have "list_all (\<lambda>p. debe p - pagado p = 0) ?ps"
    using ok unfolding deuda_def list_all_iff
    by (subst (asm) sum_list_nonneg_eq_0_iff) (auto simp: partida_ok_def)
  then have "list_all (\<lambda>p. \<not> pagado p < debe p) ?ps" by (simp add: list_all_iff)
  from recorrer_pago_cerrado [OF this]
  have "partidas (imputarPago (ahora s) dto a) = ?ps" by simp
  then show ?thesis
    using run registerPayment_de(5) [OF run a(1)] cobrado(2) by auto
qed

theorem registerPayment_collects_twice_witness:
  "\<exists>a' s'. registerPayment 10 (pago0 1000) bd_cobrada = (Inr a', s') \<and>
     saldo_movido 7 1000 bd_cobrada s'"
proof -
  let ?a = "valor (registerPayment 10 (pago0 1000)) bd0"
  have h: "asiento_de 10 bd_cobrada = Some ?a" "asiento_ok ?a" "estado ?a \<notin> {ANULADO, CONDONADO}"
    "montoPagadoDebe (partidas ?a) = totalDebe (partidas ?a)" "0 < totalDebe (partidas ?a)"
    "0 \<le> rp_monto_pagado (pago0 1000)" "rp_monto_pagado (pago0 1000) \<le> totalHaber (partidas ?a)"
    by code_simp+
  have "saldo_de 7 bd_cobrada = Some 1050" by code_simp
  then have "cuenta_de (rp_cuenta_financiera_id (pago0 1000)) bd_cobrada \<noteq> None"
    by (auto simp: pago0_def saldo_de_def)
  from registerPayment_collects_twice [OF h this] show ?thesis by (auto simp: pago0_def)
qed

text \<open>An entry whose \<^verbatim>\<open>monto_actual\<close> was raised above its debit lines, as the index
  adjustment does, is never closed by a payment: whatever is paid, it stays PAGADO_PARCIAL.\<close>

theorem registerPayment_adjusted_stays_partial:
  assumes run: "registerPayment i dto s = (Inr a', s')"
    and a: "asiento_de i s = Some a" "asiento_ok a" "totalDebe (partidas a) < monto_actual a"
    and m: "0 \<le> rp_monto_pagado dto"
  shows "estado a' = PAGADO_PARCIAL"
proof -
  have ok: "list_all partida_ok (partidas a)" using a(2) by (simp add: asiento_ok_def)
  have "montoPagadoDebe (snd (recorrer paso_pago (rp_monto_pagado dto) (partidas a))) \<le> totalDebe (partidas a)"
    using montoPagadoDebe_le(2) [OF recorrer_pago_ok [OF m ok]] by simp
  with a(3) show ?thesis
    by (simp add: registerPayment_de(3) [OF run a(1)] estado_imputarPago Let_def)
qed

theorem registerPayment_adjusted_stays_partial_witness:
  "estado (valor (registerPayment 10 (pago0 1000)) bd_ajustada) = PAGADO_PARCIAL"
proof -
  have e: "exito (registerPayment 10 (pago0 1000)) bd_ajustada" by code_simp
  have h: "asiento_de 10 bd_ajustada = Some (alquiler\<lparr>monto_actual := 1200\<rparr>)"
    "asiento_ok (alquiler\<lparr>monto_actual := 1200\<rparr>)"
    "totalDebe (partidas (alquiler\<lparr>monto_actual := 1200\<rparr>)) < monto_actual (alquiler\<lparr>monto_actual := 1200\<rparr>)"
    "0 \<le> rp_monto_pagado (pago0 1000)" by code_simp+
  show ?thesis by (rule registerPayment_adjusted_stays_partial [OF exito_run [OF e] h])
qed

section \<open>Condonation and cancellation\<close>

text \<open>A condonation writes off debt without money: the debit lines absorb the condoned
  amount as far as they have debt, no account moves, no other entry changes, and the entry
  is CONDONADO exactly when what was collected and condoned reaches its original amount.\<close>

theorem condonarDeuda_effect:
  assumes run: "condonarDeuda i dto s = (Inr a', s')"
    and a: "asiento_de i s = Some a" "asiento_ok a" and m: "0 \<le> montoCondonar dto a"
  shows "montoPagadoDebe (partidas a') =
       montoPagadoDebe (partidas a) + min (montoCondonar dto a) (deuda (partidas a)) \<and>
     montoCondonar dto a \<le> saldoCondonable a \<and>
     (\<forall>j. saldo_de j s' = saldo_de j s) \<and>
     (\<forall>j. asiento_de j s' = (if j = i then Some a' else asiento_de j s)) \<and>
     asiento_ok a' \<and> map fijos (partidas a') = map fijos (partidas a) \<and>
     estado a' = (if monto_original a \<le> montoPagadoDebe (partidas a') then CONDONADO else PAGADO_PARCIAL)"
proof -
  let ?m = "montoCondonar dto a"
  have ok: "list_all partida_ok (partidas a)" using a(2) by (simp add: asiento_ok_def)
  from condonarDeuda_Inr [OF run] a(1)
  have a': "a' = aplicarCondonacion (ahora s) dto a" and le: "?m \<le> saldoCondonable a"
    and s': "s' = con_asientos (save_doc a_id a') s"
    and st: "\<forall>j. asiento_de j s' = (if j = i then Some a' else asiento_de j s)"
    by (metis option.inject)+
  have okq: "list_all partida_ok (partidas a')" using recorrer_pago_ok [OF m ok] by (simp add: a')
  have "asiento_ok a'" using okq a(2) by (simp add: asiento_ok_def a' recorrer_vacio)
  moreover have "estado a' = (if monto_original a \<le> montoPagadoDebe (partidas a') then CONDONADO else PAGADO_PARCIAL)"
    unfolding montoPagadoDebe_ok [OF okq] by (simp add: a' aplicarCondonacion_def Let_def)
  moreover have "saldo_de j s' = saldo_de j s" for j by (simp add: s')
  moreover have "montoPagadoDebe (partidas a') = montoPagadoDebe (partidas a) + min ?m (deuda (partidas a))"
    using recorrer_pago_total [OF ok m] by (simp add: a')
  moreover have "map fijos (partidas a') = map fijos (partidas a)" by (simp add: a')
  ultimately show ?thesis using le st by blast
qed

theorem condonarDeuda_effect_witness:
  "estado (valor (condonarDeuda 10 (condonacion0 None)) bd0) = CONDONADO"
proof -
  let ?a = "valor (condonarDeuda 10 (condonacion0 None)) bd0"
  have e: "exito (condonarDeuda 10 (condonacion0 None)) bd0" by code_simp
  have h: "asiento_de 10 bd0 = Some alquiler" "asiento_ok alquiler"
    "0 \<le> montoCondonar (condonacion0 None) alquiler" by code_simp+
  have "monto_original alquiler \<le> montoPagadoDebe (partidas ?a)" by code_simp
  with condonarDeuda_effect [OF exito_run [OF e] h] show ?thesis by simp
qed

text \<open>A cancellation is refused on a PAGADO or ANULADO entry and then changes nothing;
  otherwise it sets the state and the reason, keeps the lines, the original amount and every
  balance, and appends one record with the state it replaced. A cancelled entry takes no
  payment, no condonation and no second cancellation.\<close>

theorem anularAsiento_effect:
  assumes a: "asiento_de i s = Some a"
  shows "if estado a \<in> {PAGADO, ANULADO}
     then \<not> exito (anularAsiento i dto) s \<and> final (anularAsiento i dto) s = s
     else (\<exists>a' s'. anularAsiento i dto s = (Inr a', s') \<and> estado a' = ANULADO \<and>
        partidas a' = partidas a \<and> monto_original a' = monto_original a \<and>
        motivo_anulacion a' = Some (an_motivo dto) \<and>
        (\<exists>c. historial_cambios a' = historial_cambios a @ [c] \<and> estado_anterior c = Some (estado a)) \<and>
        (\<forall>j. saldo_de j s' = saldo_de j s) \<and>
        (\<forall>j. asiento_de j s' = (if j = i then Some a' else asiento_de j s)) \<and>
        \<not> exito (registerPayment i pd) s' \<and> \<not> exito (condonarDeuda i cd) s' \<and>
        \<not> exito (anularAsiento i ad) s')"
proof (cases "estado a \<in> {PAGADO, ANULADO}")
  case True
  then show ?thesis
    using a by (auto simp: anularAsiento_def cargarAsiento_def obtener_def ebind_def exito_def
        final_def raise_def)
next
  case False
  let ?a = "aplicarAnulacion (ahora s) dto a" and ?s = "con_asientos (save_doc a_id (aplicarAnulacion (ahora s) dto a)) s"
  have run: "anularAsiento i dto s = (Inr ?a, ?s)"
    using a False by (simp add: anularAsiento_def ebind_step [OF cargarAsiento_Inr [THEN iffD2]] guardarAsiento_run)
  have st: "\<forall>j. asiento_de j ?s = (if j = i then Some ?a else asiento_de j s)"
    using anularAsiento_Inr [OF run] a by simp
  then have "asiento_de i ?s = Some ?a" by simp
  then have "\<not> exito (registerPayment i pd) ?s" "\<not> exito (condonarDeuda i cd) ?s" "\<not> exito (anularAsiento i ad) ?s"
    by (simp_all add: exito_def registerPayment_def condonarDeuda_def anularAsiento_def
        ebind_step [OF cargarAsiento_Inr [THEN iffD2]] raise_def)
  then show ?thesis
    using False run st
    by (auto simp: aplicarAnulacion_def intro!: exI [of _ "aplicarAnulacion (ahora s) dto a"])
qed

theorem anularAsiento_effect_witness:
  "estado (valor (anularAsiento 10 anulacion0) bd0) = ANULADO"
proof -
  have a: "asiento_de 10 bd0 = Some alquiler" by code_simp
  have "estado alquiler \<notin> {PAGADO, ANULADO}" by code_simp
  then have "\<exists>a' s'. anularAsiento 10 anulacion0 bd0 = (Inr a', s') \<and> estado a' = ANULADO"
    using anularAsiento_effect [OF a, of anulacion0 "pago0 1" "condonacion0 None" anulacion0]
    by (simp only: if_False) blast
  then show ?thesis by (auto simp: valor_def)
qed

section \<open>Settlement\<close>

text \<open>What a settlement does to the lines of other agents, and to what is left.\<close>

lemma recorrer_otros:
  "list_all2 (\<lambda>p q. p_agente_id p \<noteq> Some ag \<longrightarrow> q = p) ps (snd (recorrer (paso_liquidar ag) l ps))"
  "list_all2 (\<lambda>p q. p_agente_id p \<noteq> Some ag \<longrightarrow> q = p) ps (snd (recorrer (paso_compensar ag) t ps))"
  by (rule recorrer_pointwise, auto simp: paso_liquidar_def paso_compensar_def Let_def split: prod.split)+

lemma recorrer_agentes:
  "list_all2 (\<lambda>p q. p_agente_id q = p_agente_id p) ps (snd (recorrer (paso_liquidar ag) l ps))"
  by (rule recorrer_pointwise) simp

lemma compensar_lineas: "snd (snd (compensar dto ps)) =
    snd (recorrer (paso_compensar (li_agente_id dto)) 0
      (snd (recorrer (paso_liquidar (li_agente_id dto))
        (restante_inicial (li_monto_a_liquidar dto), 0, False) ps)))"
  by (simp add: compensar_def Let_def split: prod.split)

lemma compensar_otros:
  "list_all2 (\<lambda>p q. p_agente_id p \<noteq> Some (li_agente_id dto) \<longrightarrow> q = p) ps (snd (snd (compensar dto ps)))"
proof -
  let ?ag = "li_agente_id dto"
  let ?ps1 = "snd (recorrer (paso_liquidar ?ag) (restante_inicial (li_monto_a_liquidar dto), 0, False) ps)"
  have "list_all2 (\<lambda>p q. p_agente_id p \<noteq> Some ?ag \<longrightarrow> q = p) ps (snd (recorrer (paso_compensar ?ag) 0 ?ps1))"
    by (rule list_all2_trans [OF _ recorrer_otros(1) recorrer_otros(2)]) auto
  then show ?thesis by (simp add: compensar_lineas)
qed

lemma disponible_haber_Cons:
  "disponible_haber ag (p # ps) = disponible_haber ag [p] + disponible_haber ag ps"
  by (simp add: disponible_haber_def)

lemma paso_liquidar_disponible:
  "paso_liquidar ag l p = (l', p') \<Longrightarrow>
   disponible_haber ag [p'] = disponible_haber ag [p] - (total_liq l' - total_liq l)"
  by (auto simp: paso_liquidar_def disponible_haber_def total_liq_def Let_def split: prod.splits if_splits)

lemma recorrer_liquidar_disponible:
  "recorrer (paso_liquidar ag) l ps = (l', ps') \<Longrightarrow>
   disponible_haber ag ps' = disponible_haber ag ps - (total_liq l' - total_liq l)"
proof (induction ps arbitrary: l l' ps')
  case Nil
  then show ?case by (simp add: disponible_haber_def)
next
  case (Cons p ps)
  obtain l1 p1 where p: "paso_liquidar ag l p = (l1, p1)" by fastforce
  obtain l2 ps1 where r: "recorrer (paso_liquidar ag) l1 ps = (l2, ps1)" by fastforce
  from Cons.prems p r have e: "l' = l2" "ps' = p1 # ps1" by auto
  show ?case
    using Cons.IH [OF r] paso_liquidar_disponible [OF p]
    by (simp add: e disponible_haber_Cons [of ag p1 ps1] disponible_haber_Cons [of ag p ps])
qed

lemma disponible_haber_compensar:
  "disponible_haber ag (snd (recorrer (paso_compensar ag') t ps)) = disponible_haber ag ps"
proof -
  let ?f = "\<lambda>p. (haber p, monto_liquidado p, p_agente_id p)"
  let ?g = "\<lambda>(h, m, a). if h > 0 \<and> a = Some ag then h - o_cero m else (0::rat)"
  have g: "disponible_haber ag qs = sum_list (map ?g (map ?f qs))" for qs
    by (induction qs) (simp_all add: disponible_haber_def)
  have "map ?f (snd (recorrer (paso_compensar ag') t ps)) = map ?f ps"
    by (rule recorrer_map) simp
  then show ?thesis unfolding g by simp
qed

lemma paso_compensar_pendiente: "pendiente_debe ag [snd (paso_compensar ag t p)] \<le> 0"
  by (auto simp: paso_compensar_def pendiente_debe_def Let_def)

lemma recorrer_compensar_pendiente:
  assumes "list_all partida_ok ps"
  shows "pendiente_debe ag (snd (recorrer (paso_compensar ag) t ps)) = 0"
proof (rule antisym)
  show "pendiente_debe ag (snd (recorrer (paso_compensar ag) t ps)) \<le> 0"
  proof (induction ps arbitrary: t)
    case Nil
    then show ?case by (simp add: pendiente_debe_def)
  next
    case (Cons p ps)
    have c: "pendiente_debe ag (q # qs) = pendiente_debe ag [q] + pendiente_debe ag qs" for q qs
      by (simp add: pendiente_debe_def)
    let ?p = "snd (paso_compensar ag t p)"
      and ?ps = "snd (recorrer (paso_compensar ag) (fst (paso_compensar ag t p)) ps)"
    have "snd (recorrer (paso_compensar ag) t (p # ps)) = ?p # ?ps" by (simp add: split_def)
    then show ?case
      using Cons [of "fst (paso_compensar ag t p)"] paso_compensar_pendiente [of ag t p]
      by (simp only: c [of ?p ?ps] add_nonpos_nonpos)
  qed
  show "0 \<le> pendiente_debe ag (snd (recorrer (paso_compensar ag) t ps))"
    unfolding pendiente_debe_def
    by (rule suma_no_negativa)
      (use recorrer_compensar_ok [OF assms, of ag t] in \<open>auto simp: list_all_iff partida_ok_def\<close>)
qed

lemma liquidar_de:
  assumes run: "liquidarAPropietario i dto s = (Inr a', s')" and a: "asiento_de i s = Some a"
  shows "a' = aplicarLiquidacion (ahora s) dto a"
    and "asiento_de j s' = (if j = i then Some a' else asiento_de j s)"
    and "saldo_movido (li_cuenta_financiera_id dto) (- \<bar>montoNeto dto a\<bar>) s s'"
proof -
  note r = liquidarAPropietario_Inr [OF run, unfolded a]
  show "a' = aplicarLiquidacion (ahora s) dto a"
    "asiento_de j s' = (if j = i then Some a' else asiento_de j s)"
    "saldo_movido (li_cuenta_financiera_id dto) (- \<bar>montoNeto dto a\<bar>) s s'"
    using r by simp_all
qed

text \<open>C2: A settlement pays an agent exactly what is available to that agent: the credit
  lines of the agent take the requested amount, at most what is left of them, the debit lines
  of the agent are collected in full, and the account loses the absolute value of the
  difference. Lines of other agents, other entries and other accounts are untouched.\<close>

theorem liquidarAPropietario_conserves:
  assumes run: "liquidarAPropietario i dto s = (Inr a', s')"
    and a: "asiento_de i s = Some a" "asiento_ok a"
    and m: "\<And>x. li_monto_a_liquidar dto = Some x \<Longrightarrow> 0 \<le> x"
  shows "let ag = li_agente_id dto;
             h = limite (li_monto_a_liquidar dto) (disponible_haber ag (partidas a));
             d = pendiente_debe ag (partidas a)
         in montoLiquidadoHaber (partidas a') = montoLiquidadoHaber (partidas a) + h \<and>
            montoPagadoDebe (partidas a') = montoPagadoDebe (partidas a) + d \<and>
            saldo_movido (li_cuenta_financiera_id dto) (- \<bar>h - d\<bar>) s s' \<and>
            list_all2 (\<lambda>p q. p_agente_id p \<noteq> Some ag \<longrightarrow> q = p) (partidas a) (partidas a') \<and>
            (\<forall>j. asiento_de j s' = (if j = i then Some a' else asiento_de j s)) \<and>
            map fijos (partidas a') = map fijos (partidas a) \<and> asiento_ok a'"
proof -
  have ok: "list_all partida_ok (partidas a)" using a(2) by (simp add: asiento_ok_def)
  obtain h d ps' where c: "compensar dto (partidas a) = (h, d, ps')" by (metis prod_cases3)
  note e = compensar_exacto [OF ok m c, simplified]
  note r = liquidar_de [OF run a(1)]
  have ps': "partidas a' = ps'" using r(1) c by simp
  have "ps' \<noteq> []" using e(4) a(2) by (auto simp: asiento_ok_def)
  then have "asiento_ok a'" using e(3) by (simp add: asiento_ok_def ps')
  moreover have "montoLiquidadoHaber ps' = montoLiquidadoHaber (partidas a) + h"
    using e(5) by (simp add: montoLiquidadoHaber_ok [OF e(3)] montoLiquidadoHaber_ok [OF ok])
  moreover have "montoPagadoDebe ps' = montoPagadoDebe (partidas a) + d"
    using e(6) by (simp add: montoPagadoDebe_ok [OF e(3)] montoPagadoDebe_ok [OF ok])
  moreover have "saldo_movido (li_cuenta_financiera_id dto) (- \<bar>h - d\<bar>) s s'"
    using r(3) by (simp add: montoNeto_def c)
  moreover have "list_all2 (\<lambda>p q. p_agente_id p \<noteq> Some (li_agente_id dto) \<longrightarrow> q = p) (partidas a) ps'"
    using compensar_otros [of dto "partidas a"] c by simp
  ultimately show ?thesis
    unfolding Let_def ps' e(1,2) [symmetric] using e(4) r(2) by blast
qed

theorem liquidarAPropietario_conserves_witness:
  "saldo_movido 7 (- 900) bd_cobrada (final (liquidarAPropietario 10 (liquidacion0 2 None)) bd_cobrada)"
proof -
  let ?a = "valor (registerPayment 10 (pago0 1000)) bd0"
  have e: "exito (liquidarAPropietario 10 (liquidacion0 2 None)) bd_cobrada" by code_simp
  have h: "asiento_de 10 bd_cobrada = Some ?a" "asiento_ok ?a" by code_simp+
  have m: "\<And>x. li_monto_a_liquidar (liquidacion0 2 None) = Some x \<Longrightarrow> 0 \<le> x"
    by (simp add: liquidacion0_def)
  have "limite (li_monto_a_liquidar (liquidacion0 2 None)) (disponible_haber 2 (partidas ?a)) = 900"
    "pendiente_debe 2 (partidas ?a) = 0" "li_agente_id (liquidacion0 2 None) = 2"
    "li_cuenta_financiera_id (liquidacion0 2 None) = 7" by code_simp+
  with liquidarAPropietario_conserves [OF exito_run [OF e] h m] show ?thesis
    by (simp add: Let_def)
qed

text \<open>A full settlement leaves nothing to settle: repeating it for the same agent moves
  no money, and the lines stay as they are.\<close>

theorem liquidarAPropietario_twice:
  assumes run1: "liquidarAPropietario i dto s = (Inr a1, s1)"
    and run2: "liquidarAPropietario i dto s1 = (Inr a2, s2)"
    and a: "asiento_de i s = Some a" "asiento_ok a" and m: "li_monto_a_liquidar dto = None"
  shows "saldo_movido (li_cuenta_financiera_id dto) 0 s1 s2 \<and>
     montoLiquidadoHaber (partidas a2) = montoLiquidadoHaber (partidas a1) \<and>
     montoPagadoDebe (partidas a2) = montoPagadoDebe (partidas a1)"
proof -
  let ?ag = "li_agente_id dto" and ?l = "(None, 0, False) :: liq_local"
  have ok: "list_all partida_ok (partidas a)" using a(2) by (simp add: asiento_ok_def)
  have m0: "\<And>x. li_monto_a_liquidar dto = Some x \<Longrightarrow> 0 \<le> x" using m by simp
  note r = liquidar_de [OF run1 a(1)]
  have a1: "asiento_de i s1 = Some a1" using r(2) [of i] by simp
  have sano: "liq_sano ?l" by (simp add: liq_sano_def)
  obtain l' ps1 where p1: "recorrer (paso_liquidar ?ag) ?l (partidas a) = (l', ps1)" by fastforce
  have ok1: "list_all partida_ok ps1" using recorrer_liquidar_ok [OF sano ok, of ?ag] p1 by simp
  have ps: "partidas a1 = snd (recorrer (paso_compensar ?ag) 0 ps1)"
    using r(1) p1 m by (simp add: compensar_lineas restante_inicial_def)
  have "total_liq l' = disponible_haber ?ag (partidas a)"
    using recorrer_liquidar_total [OF ok sano, of ?ag] p1
    by (simp add: total_liq_def limite_liq_def min_infinito_def)
  then have "disponible_haber ?ag ps1 = 0"
    using recorrer_liquidar_disponible [OF p1] by (simp add: total_liq_def)
  then have h: "disponible_haber ?ag (partidas a1) = 0" by (simp add: ps disponible_haber_compensar)
  have d: "pendiente_debe ?ag (partidas a1) = 0"
    unfolding ps by (rule recorrer_compensar_pendiente [OF ok1])
  have ok2: "asiento_ok a1"
    using recorrer_compensar_ok [OF ok1, of ?ag 0] recorrer_vacio p1 a(2)
    by (metis asiento_ok_def ps snd_conv)
  obtain h' d' ps' where c: "compensar dto (partidas a1) = (h', d', ps')" by (metis prod_cases3)
  have ok1': "list_all partida_ok (partidas a1)" using ok2 by (simp add: asiento_ok_def)
  note e = compensar_exacto [OF ok1' m0 c, simplified]
  have z: "h' = 0" "d' = 0" using e(1,2) h d m by (simp_all add: limite_def restante_inicial_def min_infinito_def)
  note r2 = liquidar_de [OF run2 a1]
  have "partidas a2 = ps'" using r2(1) c by simp
  moreover have "saldo_movido (li_cuenta_financiera_id dto) 0 s1 s2"
    using r2(3) z by (simp add: montoNeto_def c)
  ultimately show ?thesis
    using e(3,5,6) z by (simp add: montoLiquidadoHaber_ok montoPagadoDebe_ok ok1')
qed

theorem liquidarAPropietario_twice_witness:
  "let s1 = final (liquidarAPropietario 10 (liquidacion0 2 None)) bd_cobrada
   in saldo_movido 7 0 s1 (final (liquidarAPropietario 10 (liquidacion0 2 None)) s1)"
proof -
  let ?s1 = "final (liquidarAPropietario 10 (liquidacion0 2 None)) bd_cobrada"
  let ?a = "valor (registerPayment 10 (pago0 1000)) bd0"
  have e: "exito (liquidarAPropietario 10 (liquidacion0 2 None)) bd_cobrada"
    "exito (liquidarAPropietario 10 (liquidacion0 2 None)) ?s1" by code_simp+
  have h: "asiento_de 10 bd_cobrada = Some ?a" "asiento_ok ?a"
    "li_monto_a_liquidar (liquidacion0 2 None) = None" by code_simp+
  have c: "li_cuenta_financiera_id (liquidacion0 2 None) = 7" by code_simp
  from liquidarAPropietario_twice [OF exito_run [OF e(1)] exito_run [OF e(2)] h]
  show ?thesis by (simp add: Let_def c)
qed

text \<open>A settlement does not look at the state of the entry: a cancelled entry whose
  lines are still open is settled like any other, and the account pays the agent's credit.\<close>

theorem liquidarAPropietario_on_cancelled:
  assumes a: "asiento_de i s = Some a" "asiento_ok a" "estado a = ANULADO"
    and d: "0 < disponible_haber (li_agente_id dto) (partidas a)"
      "pendiente_debe (li_agente_id dto) (partidas a) = 0"
    and dto: "li_monto_a_liquidar dto = None" "cuenta_de (li_cuenta_financiera_id dto) s \<noteq> None"
  shows "\<exists>a' s'. liquidarAPropietario i dto s = (Inr a', s') \<and>
     estado a' \<in> {ANULADO, LIQUIDADO} \<and>
     saldo_movido (li_cuenta_financiera_id dto)
       (- disponible_haber (li_agente_id dto) (partidas a)) s s'"
proof -
  let ?ag = "li_agente_id dto"
  have ok: "list_all partida_ok (partidas a)" using a(2) by (simp add: asiento_ok_def)
  have "\<not> sin_partidas_del_agente ?ag (partidas a)"
    using d(1) by (auto simp: sin_partidas_del_agente_def disponible_haber_def)
  then obtain s' where run: "liquidarAPropietario i dto s = (Inr (aplicarLiquidacion (ahora s) dto a), s')"
    using liquidarAPropietario_ok [OF a(1) _ dto(2)] by blast
  obtain h d' ps' where c: "compensar dto (partidas a) = (h, d', ps')" by (metis prod_cases3)
  have m0: "\<And>x. li_monto_a_liquidar dto = Some x \<Longrightarrow> 0 \<le> x" using dto(1) by simp
  note e = compensar_exacto(1,2) [OF ok m0 c, simplified]
  have hd: "h = disponible_haber ?ag (partidas a)" "d' = 0"
    using e d dto(1) by (simp_all add: limite_def restante_inicial_def min_infinito_def)
  have "saldo_movido (li_cuenta_financiera_id dto) (- h) s s'"
    using liquidar_de(3) [OF run a(1)] d(1) by (simp add: montoNeto_def c hd)
  moreover have "estado (aplicarLiquidacion (ahora s) dto a) \<in> {ANULADO, LIQUIDADO}"
    using a(3) by (simp add: aplicarLiquidacion_def Let_def split: prod.split)
  ultimately show ?thesis using run hd by blast
qed

theorem liquidarAPropietario_on_cancelled_witness:
  "\<exists>a' s'. liquidarAPropietario 10 (liquidacion0 2 None) bd_anulada = (Inr a', s') \<and>
     saldo_movido 7 (- 900) bd_anulada s'"
proof -
  let ?a = "valor (anularAsiento 10 anulacion0) bd0" and ?d = "liquidacion0 2 None"
  have h: "asiento_de 10 bd_anulada = Some ?a" "asiento_ok ?a" "estado ?a = ANULADO"
    "0 < disponible_haber (li_agente_id ?d) (partidas ?a)"
    "pendiente_debe (li_agente_id ?d) (partidas ?a) = 0" "li_monto_a_liquidar ?d = None" by code_simp+
  have "saldo_de 7 bd_anulada = Some 50" by code_simp
  then have "cuenta_de (li_cuenta_financiera_id ?d) bd_anulada \<noteq> None"
    by (auto simp: liquidacion0_def saldo_de_def)
  moreover have "disponible_haber (li_agente_id ?d) (partidas ?a) = 900" "li_cuenta_financiera_id ?d = 7"
    by code_simp+
  ultimately show ?thesis
    using liquidarAPropietario_on_cancelled [OF h] by auto
qed

lemma recorrer_roto: "recorrer (paso_liquidar ag) (r, t, True) ps = ((r, t, True), ps)"
  by (induction ps) (simp_all add: paso_liquidar_def)

lemma recorrer_liquidar_negativo:
  assumes "0 < disponible_haber ag ps" and "m < 0" and "list_all partida_ok ps"
  shows "\<exists>ps'. recorrer (paso_liquidar ag) (Some m, 0, False) ps = ((Some 0, m, True), ps') \<and>
     pendiente_debe ag ps' = pendiente_debe ag ps"
proof -
  have "\<exists>ps'. recorrer (paso_liquidar ag) (Some m, 0, False) ps = ((Some 0, m, True), ps')"
    using assms(1,3)
  proof (induction ps)
    case Nil
    then show ?case by (simp add: disponible_haber_def)
  next
    case (Cons p ps)
    show ?case
    proof (cases "0 < haber p \<and> p_agente_id p = Some ag \<and> 0 < haber p - liquidado p")
      case True
      then have "paso_liquidar ag (Some m, 0, False) p =
          ((Some 0, m, True), p\<lparr>monto_liquidado := Some (liquidado p + m)\<rparr>)"
        using assms(2) by (simp add: paso_liquidar_def min_infinito_def agotado_def Let_def min_def)
      then show ?thesis by (simp add: recorrer_roto)
    next
      case False
      then have s: "paso_liquidar ag (Some m, 0, False) p = ((Some m, 0, False), p)"
        by (auto simp: paso_liquidar_def Let_def)
      have "disponible_haber ag [p] \<le> 0" using False by (auto simp: disponible_haber_def)
      then have "0 < disponible_haber ag ps"
        using Cons.prems(1) disponible_haber_Cons [of ag p ps] by linarith
      then obtain ps' where "recorrer (paso_liquidar ag) (Some m, 0, False) ps = ((Some 0, m, True), ps')"
        using Cons.IH Cons.prems(2) by auto
      with s show ?thesis by simp
    qed
  qed
  then show ?thesis using pendiente_debe_liquidar [of ag "(Some m, 0, False)" ps] by auto
qed

text \<open>The amount of a settlement has no lower bound: a negative one is accepted, lowers
  what is recorded as settled on the agent's first open credit line, and still takes the
  absolute value out of the account.\<close>

theorem liquidarAPropietario_negative:
  assumes a: "asiento_de i s = Some a" "asiento_ok a"
    and d: "0 < disponible_haber (li_agente_id dto) (partidas a)"
      "list_all (\<lambda>p. p_agente_id p = Some (li_agente_id dto) \<longrightarrow> debe p = 0) (partidas a)"
    and m: "li_monto_a_liquidar dto = Some m" "m < 0"
    and c: "cuenta_de (li_cuenta_financiera_id dto) s \<noteq> None"
  shows "\<exists>a' s'. liquidarAPropietario i dto s = (Inr a', s') \<and>
     (\<Sum>p\<leftarrow>partidas a'. liquidado p) = (\<Sum>p\<leftarrow>partidas a. liquidado p) + m \<and>
     saldo_movido (li_cuenta_financiera_id dto) m s s'"
proof -
  let ?ag = "li_agente_id dto" and ?l = "(Some m, 0, False) :: liq_local"
  have ok: "list_all partida_ok (partidas a)" using a(2) by (simp add: asiento_ok_def)
  have "\<not> sin_partidas_del_agente ?ag (partidas a)"
    using d(1) by (auto simp: sin_partidas_del_agente_def disponible_haber_def)
  then obtain s' where run: "liquidarAPropietario i dto s = (Inr (aplicarLiquidacion (ahora s) dto a), s')"
    using liquidarAPropietario_ok [OF a(1) _ c] by blast
  obtain ps1 where r: "recorrer (paso_liquidar ?ag) ?l (partidas a) = ((Some 0, m, True), ps1)"
    using recorrer_liquidar_negativo [OF d(1) m(2) ok] by blast
  have "map (\<lambda>p. (p_agente_id p, debe p)) (snd (recorrer (paso_liquidar ?ag) ?l (partidas a))) =
      map (\<lambda>p. (p_agente_id p, debe p)) (partidas a)" by (rule recorrer_map) simp
  then have mp: "map (\<lambda>p. (p_agente_id p, debe p)) ps1 = map (\<lambda>p. (p_agente_id p, debe p)) (partidas a)"
    by (simp add: r)
  have "\<forall>x \<in> set (map (\<lambda>p. (p_agente_id p, debe p)) ps1). fst x = Some ?ag \<longrightarrow> snd x = 0"
    unfolding mp using d(2) by (auto simp: list_all_iff)
  then have "\<forall>p \<in> set ps1. p_agente_id p = Some ?ag \<longrightarrow> debe p = 0" by auto
  then have r2: "recorrer (paso_compensar ?ag) 0 ps1 = (0, ps1)"
    by (induction ps1) (auto simp: paso_compensar_def)
  have comp: "compensar dto (partidas a) = (m, 0, ps1)"
    using m by (simp add: compensar_def Let_def restante_inicial_def r r2)
  have "(\<Sum>p\<leftarrow>ps1. liquidado p) - (\<Sum>p\<leftarrow>partidas a. liquidado p) = m"
    using liq.recorrer_conserva [OF r] by simp
  moreover have "saldo_movido (li_cuenta_financiera_id dto) m s s'"
    using liquidar_de(3) [OF run a(1)] m(2) by (simp add: montoNeto_def comp)
  ultimately show ?thesis using run comp
    by (auto intro!: exI [of _ "aplicarLiquidacion (ahora s) dto a"])
qed

theorem liquidarAPropietario_negative_witness:
  "\<exists>a' s'. liquidarAPropietario 10 (liquidacion0 2 (Some (- 100))) bd_cobrada = (Inr a', s') \<and>
     saldo_movido 7 (- 100) bd_cobrada s'"
proof -
  let ?a = "valor (registerPayment 10 (pago0 1000)) bd0" and ?d = "liquidacion0 2 (Some (- 100))"
  have h: "asiento_de 10 bd_cobrada = Some ?a" "asiento_ok ?a"
    "0 < disponible_haber (li_agente_id ?d) (partidas ?a)"
    "list_all (\<lambda>p. p_agente_id p = Some (li_agente_id ?d) \<longrightarrow> debe p = 0) (partidas ?a)"
    "li_monto_a_liquidar ?d = Some (- 100)" "- 100 < (0::rat)" by code_simp+
  have "saldo_de 7 bd_cobrada = Some 1050" by code_simp
  then have "cuenta_de (li_cuenta_financiera_id ?d) bd_cobrada \<noteq> None"
    by (auto simp: liquidacion0_def saldo_de_def)
  moreover have "li_cuenta_financiera_id ?d = 7" by code_simp
  ultimately show ?thesis
    using liquidarAPropietario_negative [OF h] by auto
qed

end
