(* ===== verification/Sums.thy ===== *)
theory Sums
  imports Complex_Main "HOL-Library.Multiset"
begin

text \<open>
  Sums of amounts over lists, shared by the queries and the reports: sums over groups, over a
  sorted list and over the parts of a filter.
\<close>

lemma suma_update_filter:
  fixes f :: "'b \<Rightarrow> rat"
  shows "(\<Sum>c\<leftarrow>cs. (\<Sum>x\<leftarrow>filter (\<lambda>x. g x = c) (y # xs). f x)) =
    (\<Sum>c\<leftarrow>cs. (\<Sum>x\<leftarrow>filter (\<lambda>x. g x = c) xs. f x)) + (\<Sum>c\<leftarrow>cs. if g y = c then f y else 0)"
  by (induction cs) (simp_all add: algebra_simps)

lemma suma_indicadora:
  "distinct cs \<Longrightarrow> (\<Sum>c\<leftarrow>cs. if k = c then (v::rat) else 0) = (if k \<in> set cs then v else 0)"
  by (induction cs) auto

text \<open>Grouping by a key and adding the groups up gives the whole sum.\<close>

lemma suma_por_grupos:
  fixes f :: "'b \<Rightarrow> rat"
  assumes "distinct cs" and "g ` set xs \<subseteq> set cs"
  shows "(\<Sum>c\<leftarrow>cs. (\<Sum>x\<leftarrow>filter (\<lambda>x. g x = c) xs. f x)) = (\<Sum>x\<leftarrow>xs. f x)"
  using assms(2)
proof (induction xs)
  case Nil
  show ?case by (simp add: sum_list_0)
next
  case (Cons y xs)
  then show ?case
    unfolding suma_update_filter using assms(1) by (simp add: suma_indicadora)
qed

lemma suma_sort_key:
  fixes f :: "'b \<Rightarrow> rat" and k :: "'b \<Rightarrow> 'c::linorder"
  shows "(\<Sum>x\<leftarrow>sort_key k xs. f x) = (\<Sum>x\<leftarrow>xs. f x)"
  by (metis mset_map mset_sort sum_mset_sum_list)

lemma distinct_map_sort_key: "distinct (map f (sort_key k xs)) \<longleftrightarrow> distinct (map f xs)"
  by (intro mset_eq_imp_distinct_iff) simp

lemma suma_filtro_partes:
  fixes f :: "'b \<Rightarrow> rat"
  shows "(\<Sum>x\<leftarrow>filter P xs. f x) + (\<Sum>x\<leftarrow>filter (\<lambda>x. \<not> P x) xs. f x) = (\<Sum>x\<leftarrow>xs. f x)"
  by (induction xs) (simp_all add: algebra_simps)

lemma suma_concat:
  fixes f :: "'b \<Rightarrow> rat"
  shows "(\<Sum>x\<leftarrow>concat xss. f x) = (\<Sum>xs\<leftarrow>xss. \<Sum>x\<leftarrow>xs. f x)"
  by (induction xss) simp_all

lemma suma_resta:
  fixes f :: "'b \<Rightarrow> rat"
  shows "(\<Sum>x\<leftarrow>xs. f x - g x) = (\<Sum>x\<leftarrow>xs. f x) - (\<Sum>x\<leftarrow>xs. g x)"
  by (induction xs) simp_all

lemma suma_menos:
  fixes f :: "'b \<Rightarrow> rat"
  shows "(\<Sum>x\<leftarrow>xs. - f x) = - (\<Sum>x\<leftarrow>xs. f x)"
  by (induction xs) simp_all

end
