(* ===== verification/QueryProperties.thy ===== *)
theory QueryProperties
  imports EntryQueries EntryProperties Sums
begin

text \<open>
  The properties of the queries and bulk operations of the accounting service.
\<close>

section \<open>Totals by account\<close>

lemma breakdown_totales:
  "(\<Sum>g\<leftarrow>breakdownByAccount pl as. gc_totalDebe g) = (\<Sum>a\<leftarrow>as. totalDebe (partidas a))"
  "(\<Sum>g\<leftarrow>breakdownByAccount pl as. gc_totalHaber g) = (\<Sum>a\<leftarrow>as. totalHaber (partidas a))"
proof -
  let ?ps = "concat (map partidas as)"
  have c: "(\<Sum>p\<leftarrow>?ps. f p) = (\<Sum>a\<leftarrow>as. (\<Sum>p\<leftarrow>partidas a. f p))" for f :: "partida \<Rightarrow> rat"
    by (induction as) simp_all
  have g: "(\<Sum>c\<leftarrow>remdups (map cuenta_id ?ps). (\<Sum>p\<leftarrow>filter (\<lambda>p. cuenta_id p = c) ?ps. f p)) =
      (\<Sum>p\<leftarrow>?ps. f p)" for f :: "partida \<Rightarrow> rat"
    by (rule suma_por_grupos) simp_all
  show "(\<Sum>g\<leftarrow>breakdownByAccount pl as. gc_totalDebe g) = (\<Sum>a\<leftarrow>as. totalDebe (partidas a))"
    "(\<Sum>g\<leftarrow>breakdownByAccount pl as. gc_totalHaber g) = (\<Sum>a\<leftarrow>as. totalHaber (partidas a))"
    using g [of debe] g [of haber] c [of debe] c [of haber]
    by (simp_all add: breakdownByAccount_def Let_def suma_sort_key comp_def grupo_de_def totales_defs)
qed

text \<open>The filtered query: the grand totals are the debits and credits of every entry the
  filter matches, so the breakdown by account partitions them; the page is a slice of the
  matching entries and the pages together are all of them.\<close>

theorem findWithFilters_totals:
  assumes run: "findWithFilters orden f s = (Inr r, s')"
    and sel: "sel = filter (query_asientos f) (asientos s)"
  shows "s' = s \<and>
     rf_grandTotalDebe r = (\<Sum>a\<leftarrow>sel. totalDebe (partidas a)) \<and>
     rf_grandTotalHaber r = (\<Sum>a\<leftarrow>sel. totalHaber (partidas a)) \<and>
     rf_total r = length (if f_solo_pendientes f then filter con_saldo sel else sel) \<and>
     rf_data r = take (rf_limit r) (drop ((rf_page r - 1) * rf_limit r)
        (orden (if f_solo_pendientes f then filter con_saldo sel else sel)))"
  using run
  by (auto simp: findWithFilters_def Let_def proc_simps sel breakdown_totales pagina_def split: if_splits)

definition filtros0 :: filtros_asiento where
  "filtros0 = \<lparr>f_contrato_id = Some 5, f_agente_id = None, f_tipo_asiento = None, f_estado = None,
     f_fecha_desde = None, f_fecha_hasta = None, f_solo_pendientes = True, f_page = None,
     f_limit = None\<rparr>"

theorem findWithFilters_totals_witness:
  "rf_grandTotalDebe (valor (findWithFilters (\<lambda>x. x) filtros0) bd0) = 1500"
proof -
  have e: "exito (findWithFilters (\<lambda>x. x) filtros0) bd0" by code_simp
  have "(\<Sum>a\<leftarrow>filter (query_asientos filtros0) (asientos bd0). totalDebe (partidas a)) = 1500" by code_simp
  with findWithFilters_totals [OF exito_run [OF e] refl] show ?thesis by simp
qed

section \<open>The account statement\<close>

definition debe_mov :: "asiento \<times> partida \<Rightarrow> monto" where
  "debe_mov = (\<lambda>(a, p). if debe p > 0 then debe p - pagado p else 0)"

definition haber_mov :: "asiento \<times> partida \<Rightarrow> monto" where
  "haber_mov = (\<lambda>(a, p). if debe p > 0 \<or> \<not> haber p > 0 then 0
      else if tipo_asiento a = tipo_devolucion then haber p - liquidado p
      else montoCobradoInquilino a * proporcion a p - liquidado p)"

lemma mov_partida_acumula:
  "mov_partida a p ac = (ac', ms) \<Longrightarrow>
   ac_total_debe ac' - ac_total_pagado_debe ac' = ac_total_debe ac - ac_total_pagado_debe ac + debe_mov (a, p)"
  "mov_partida a p ac = (ac', ms) \<Longrightarrow>
   ac_total_recaudado_haber ac' = ac_total_recaudado_haber ac + haber_mov (a, p)"
  by (auto simp: mov_partida_def debe_mov_def haber_mov_def Let_def split: if_splits)

lemma mov_partidas_acumula:
  "mov_partidas aps ac = (ac', ms) \<Longrightarrow>
   ac_total_debe ac' - ac_total_pagado_debe ac' =
     ac_total_debe ac - ac_total_pagado_debe ac + (\<Sum>x\<leftarrow>aps. debe_mov x) \<and>
   ac_total_recaudado_haber ac' = ac_total_recaudado_haber ac + (\<Sum>x\<leftarrow>aps. haber_mov x)"
proof (induction aps arbitrary: ac ac' ms)
  case Nil
  then show ?case by simp
next
  case (Cons ap aps)
  obtain a p where ap: "ap = (a, p)" by fastforce
  obtain ac1 ms1 where s: "mov_partida a p ac = (ac1, ms1)" by fastforce
  obtain ac2 ms2 where r: "mov_partidas aps ac1 = (ac2, ms2)" by fastforce
  from Cons.prems r s ap have "ac' = ac2" by simp
  with Cons.IH [OF r] mov_partida_acumula [OF s] show ?case by (simp add: ap)
qed

lemma pendiente_debe_suma:
  "(\<Sum>x\<leftarrow>partidas_del_agente ag as. debe_mov x) = (\<Sum>a\<leftarrow>as. pendiente_debe ag (partidas a))"
proof -
  have "(\<Sum>x\<leftarrow>map (Pair a) (filter (\<lambda>p. p_agente_id p = Some ag) ps). debe_mov x) = pendiente_debe ag ps"
    for a :: asiento and ps
    by (induction ps) (auto simp: pendiente_debe_def debe_mov_def)
  then show ?thesis by (induction as) (simp_all add: partidas_del_agente_def)
qed

lemma suma_sort_filter:
  fixes f :: "'b \<Rightarrow> rat" and k :: "'b \<Rightarrow> 'c::linorder"
  shows "(\<Sum>x\<leftarrow>sort_key k (filter P xs). f x) = (\<Sum>x\<leftarrow>filter P xs. f x)"
  by (rule suma_sort_key)

text \<open>C8: The debt of the account statement is exactly what the settlement would collect:
  \<^verbatim>\<open>saldo_pendiente_debe\<close> is the sum, over the entries in range, of the open debit lines of
  the agent; the statement changes nothing.\<close>

theorem getEstadoCuentaByAgente_debt:
  assumes run: "getEstadoCuentaByAgente ag f s = (Inr e, s')"
  shows "s' = s \<and> ec_saldo_pendiente_debe e =
     (\<Sum>a\<leftarrow>filter (match_estado_cuenta ag f) (asientos s). pendiente_debe ag (partidas a))"
proof -
  let ?as = "sort_key fecha_imputacion (filter (match_estado_cuenta ag f) (asientos s))"
  obtain ac ms where m: "mov_partidas (partidas_del_agente ag ?as) acumulados0 = (ac, ms)" by fastforce
  from run m have "s' = s" and "ec_saldo_pendiente_debe e = ac_total_debe ac - ac_total_pagado_debe ac"
    by (auto simp: getEstadoCuentaByAgente_def Let_def proc_simps)
  then show ?thesis
    using mov_partidas_acumula [OF m]
    by (simp add: pendiente_debe_suma suma_sort_filter acumulados0_def)
qed

definition filtros_ec0 :: filtros_estado_cuenta where
  "filtros_ec0 = \<lparr>ec_fecha_desde = None, ec_fecha_hasta = None, ec_fecha_corte = None,
     ec_incluir_anulados = False, ec_solo_pendientes = None\<rparr>"

theorem getEstadoCuentaByAgente_debt_witness:
  "ec_saldo_pendiente_debe (valor (getEstadoCuentaByAgente 1 filtros_ec0) bd0) = 1000"
proof -
  have e: "exito (getEstadoCuentaByAgente 1 filtros_ec0) bd0" by code_simp
  have "(\<Sum>a\<leftarrow>filter (match_estado_cuenta 1 filtros_ec0) (asientos bd0). pendiente_debe 1 (partidas a)) = 1000"
    by code_simp
  with getEstadoCuentaByAgente_debt [OF exito_run [OF e]] show ?thesis by simp
qed

lemma mov_partida_deposito:
  "mov_partida a p ac = (ac', ms) \<Longrightarrow> m \<in> set ms \<Longrightarrow> m_es_deposito m = Some True \<Longrightarrow> \<not> mov_pendiente m"
  by (auto simp: mov_partida_def mov_base_def mov_pendiente_def Let_def split: if_splits)

lemma mov_partidas_deposito:
  "mov_partidas aps ac = (ac', ms) \<Longrightarrow> m \<in> set ms \<Longrightarrow> m_es_deposito m = Some True \<Longrightarrow> \<not> mov_pendiente m"
proof (induction aps arbitrary: ac ac' ms)
  case Nil
  then show ?case by simp
next
  case (Cons ap aps)
  obtain a p where ap: "ap = (a, p)" by fastforce
  obtain ac1 ms1 where s: "mov_partida a p ac = (ac1, ms1)" by fastforce
  obtain ac2 ms2 where r: "mov_partidas aps ac1 = (ac2, ms2)" by fastforce
  from Cons.prems(1) s r ap have "ms = ms1 @ ms2" by simp
  with Cons.prems(2,3) Cons.IH [OF r] mov_partida_deposito [OF s] show ?case by auto
qed

text \<open>The statement hides deposits to return: the movement of a deposit sets no
  \<^verbatim>\<open>monto_total_liquidable\<close>, so the filter of pending movements, on by default, drops every
  one of them, although its amount is in \<^verbatim>\<open>saldo_disponible_haber\<close>.\<close>

theorem getEstadoCuentaByAgente_hides_deposits:
  assumes run: "getEstadoCuentaByAgente ag f s = (Inr e, s')" and f: "ec_solo_pendientes f \<noteq> Some False"
  shows "(\<forall>m \<in> set (ec_movimientos e). m_es_deposito m \<noteq> Some True) \<and>
     ec_saldo_disponible_haber e =
       (\<Sum>x\<leftarrow>partidas_del_agente ag (sort_key fecha_imputacion (filter (match_estado_cuenta ag f) (asientos s))).
          haber_mov x)"
proof -
  let ?as = "sort_key fecha_imputacion (filter (match_estado_cuenta ag f) (asientos s))"
  obtain ac ms where m: "mov_partidas (partidas_del_agente ag ?as) acumulados0 = (ac, ms)" by fastforce
  from run m f have "ec_movimientos e = filter mov_pendiente ms"
    "ec_saldo_disponible_haber e = ac_total_recaudado_haber ac"
    by (auto simp: getEstadoCuentaByAgente_def Let_def proc_simps)
  then show ?thesis
    using mov_partidas_deposito [OF m] mov_partidas_acumula [OF m] by (auto simp: acumulados0_def)
qed

definition bd_deposito :: bd_asi where
  "bd_deposito = bd0\<lparr>asientos := [deposito]\<rparr>"

theorem getEstadoCuentaByAgente_hides_deposits_witness:
  "ec_saldo_disponible_haber (valor (getEstadoCuentaByAgente 1 filtros_ec0) bd_deposito) = 500 \<and>
   ec_movimientos (valor (getEstadoCuentaByAgente 1 filtros_ec0) bd_deposito) = []"
proof -
  let ?e = "valor (getEstadoCuentaByAgente 1 filtros_ec0) bd_deposito"
  have e: "exito (getEstadoCuentaByAgente 1 filtros_ec0) bd_deposito" by code_simp
  have f: "ec_solo_pendientes filtros_ec0 \<noteq> Some False" by code_simp
  have n: "ec_movimientos ?e = []" by code_simp
  have "(\<Sum>x\<leftarrow>partidas_del_agente 1 (sort_key fecha_imputacion (filter (match_estado_cuenta 1 filtros_ec0) (asientos bd_deposito))).
          haber_mov x) = 500" by code_simp
  with getEstadoCuentaByAgente_hides_deposits [OF exito_run [OF e] f] n show ?thesis by simp
qed

section \<open>Pending settlements\<close>

lemma suma_positiva:
  fixes f :: "'b \<Rightarrow> rat"
  shows "p \<in> set ps \<Longrightarrow> 0 < f p \<Longrightarrow> 0 < (\<Sum>x\<leftarrow>filter (\<lambda>x. 0 < f x) ps. f x)"
proof (induction ps)
  case Nil
  then show ?case by simp
next
  case (Cons q ps)
  have "0 \<le> (\<Sum>x\<leftarrow>filter (\<lambda>x. 0 < f x) ps. f x)" by (rule suma_no_negativa) auto
  with Cons show ?case by auto
qed

lemma suma_proporciones:
  assumes "0 < totalHaberPositivo a"
  shows "(\<Sum>p\<leftarrow>filter (\<lambda>p. haber p > 0) (partidas a). c * proporcion a p) = c"
proof -
  have "(\<Sum>p\<leftarrow>ps. c * (haber p / t)) = c * (\<Sum>p\<leftarrow>ps. haber p) / t" for t and ps :: "partida list"
    by (induction ps) (simp_all add: algebra_simps add_divide_distrib)
  then show ?thesis
    using assms by (simp add: proporcion_def totalHaberPositivo_def)
qed

lemma pendientes_de_asiento_campos:
  assumes "x \<in> set (pendientes_de_asiento hoy ag a)"
  shows "lp_asiento_id x = a_id a \<and>
     (\<exists>p \<in> set (partidas a). 0 < haber p \<and> p_agente_id p = Some ag \<and>
       lp_monto_disponible x = montoPagadoDebe (partidas a) * proporcion a p - liquidado p \<and>
       0 < lp_monto_disponible x)"
  using assms by (auto simp: pendientes_de_asiento_def Let_def split: if_splits)

lemma registerPayment_ids:
  "registerPayment i dto s = (Inr a', s') \<Longrightarrow> map a_id (asientos s') = map a_id (asientos s)"
  by (auto simp: registerPayment_def proc_simps updateBalance_asientos split: if_splits)

text \<open>C9: What is collected is divided among the credit lines without remainder: the
  liquidable amounts of all credit lines add up to the amount collected. When no more than the
  credits was collected, nothing offered for settlement exceeds what is left of its line.\<close>

theorem getAgentPendingLiquidation_bounded:
  assumes run: "getAgentPendingLiquidation ag s = (Inr xs, s')"
    and ok: "list_all (\<lambda>a. asiento_ok a \<and> totalDebe (partidas a) \<le> totalHaberPositivo a) (asientos s)"
  shows "s' = s \<and> (\<forall>x \<in> set xs. \<exists>a \<in> set (asientos s). \<exists>p \<in> set (partidas a).
       lp_asiento_id x = a_id a \<and> p_agente_id p = Some ag \<and>
       0 < lp_monto_disponible x \<and> lp_monto_disponible x \<le> haber p - liquidado p \<and>
       (\<Sum>q\<leftarrow>filter (\<lambda>q. haber q > 0) (partidas a). montoPagadoDebe (partidas a) * proporcion a q) =
         montoPagadoDebe (partidas a))"
proof (intro conjI ballI)
  show "s' = s" using run by (auto simp: getAgentPendingLiquidation_def proc_simps)
  fix x
  assume "x \<in> set xs"
  then obtain a where a: "a \<in> set (asientos s)" "x \<in> set (pendientes_de_asiento (ahora s) ag a)"
    using run by (auto simp: getAgentPendingLiquidation_def proc_simps)
  from pendientes_de_asiento_campos [OF a(2)] obtain p where p: "p \<in> set (partidas a)"
    "lp_asiento_id x = a_id a" "0 < haber p" "p_agente_id p = Some ag" "0 < lp_monto_disponible x"
    "lp_monto_disponible x = montoPagadoDebe (partidas a) * proporcion a p - liquidado p" by blast
  have oka: "list_all partida_ok (partidas a)" "totalDebe (partidas a) \<le> totalHaberPositivo a"
    using ok a(1) by (auto simp: list_all_iff asiento_ok_def)
  have c: "0 \<le> montoPagadoDebe (partidas a)" "montoPagadoDebe (partidas a) \<le> totalHaberPositivo a"
    using montoPagadoDebe_le [OF oka(1)] oka(2) by linarith+
  have t: "0 < totalHaberPositivo a"
    using suma_positiva [of p "partidas a" haber] p(1,3) by (simp add: totalHaberPositivo_def)
  have "montoPagadoDebe (partidas a) * proporcion a p = haber p * (montoPagadoDebe (partidas a) / totalHaberPositivo a)"
    using t by (simp add: proporcion_def)
  also have "\<dots> \<le> haber p * 1"
    using c t p(3) by (intro mult_left_mono) simp_all
  finally have "lp_monto_disponible x \<le> haber p - liquidado p" by (simp add: p(6))
  with p a(1) suma_proporciones [OF t]
  show "\<exists>a \<in> set (asientos s). \<exists>p \<in> set (partidas a).
       lp_asiento_id x = a_id a \<and> p_agente_id p = Some ag \<and>
       0 < lp_monto_disponible x \<and> lp_monto_disponible x \<le> haber p - liquidado p \<and>
       (\<Sum>q\<leftarrow>filter (\<lambda>q. haber q > 0) (partidas a). montoPagadoDebe (partidas a) * proporcion a q) =
         montoPagadoDebe (partidas a)"
    by (intro bexI [of _ a] bexI [of _ p]) simp_all
qed

theorem getAgentPendingLiquidation_bounded_witness:
  "0 < lp_monto_disponible
     (hd (valor (getAgentPendingLiquidation 2) (final (registerPayment 10 (pago0 400)) bd0)))"
proof -
  let ?s = "final (registerPayment 10 (pago0 400)) bd0"
  have e: "exito (getAgentPendingLiquidation 2) ?s" by code_simp
  have ok: "list_all (\<lambda>a. asiento_ok a \<and> totalDebe (partidas a) \<le> totalHaberPositivo a) (asientos ?s)"
    by code_simp
  have "valor (getAgentPendingLiquidation 2) ?s \<noteq> []" by code_simp
  then show ?thesis
    using getAgentPendingLiquidation_bounded [OF exito_run [OF e] ok] hd_in_set by blast
qed

text \<open>The entries that most need settling are not offered: a payment that closes the
  debt of an entry with open credits leaves it COBRADO, and the pending settlements look only
  at PAGADO and PAGADO_PARCIAL entries, so none of its credits is listed for any agent.\<close>

theorem getAgentPendingLiquidation_skips_collected:
  assumes run: "registerPayment i dto s = (Inr a', s')" and cobrado: "estado a' = COBRADO"
    and ids: "distinct (map a_id (asientos s))"
    and q: "getAgentPendingLiquidation ag s' = (Inr xs, s'')"
  shows "\<forall>x \<in> set xs. lp_asiento_id x \<noteq> i"
proof
  fix x
  assume "x \<in> set xs"
  then obtain a where a: "a \<in> set (asientos s')" "estado a \<in> {PAGADO, PAGADO_PARCIAL}"
    and x: "x \<in> set (pendientes_de_asiento (ahora s') ag a)"
    using q by (auto simp: getAgentPendingLiquidation_def proc_simps)
  have xi: "lp_asiento_id x = a_id a" using pendientes_de_asiento_campos [OF x] by simp
  obtain a0 where a0: "asiento_de i s = Some a0" using registerPayment_Inr [OF run] by blast
  have i': "asiento_de i s' = Some a'" using registerPayment_de(4) [OF run a0, of i] by simp
  have "map a_id (asientos s') = map a_id (asientos s)"
    using run by (rule registerPayment_ids)
  then have "distinct (map a_id (asientos s'))" using ids by simp
  then have "asiento_de (a_id a) s' = Some a" using a(1) by (simp add: find_id_Some_iff)
  then show "lp_asiento_id x \<noteq> i" using i' a(2) cobrado xi by auto
qed

theorem getAgentPendingLiquidation_skips_collected_witness:
  "10 \<notin> set (map lp_asiento_id (valor (getAgentPendingLiquidation 2) bd_cobrada))"
proof -
  have e: "exito (registerPayment 10 (pago0 1000)) bd0" "exito (getAgentPendingLiquidation 2) (final (registerPayment 10 (pago0 1000)) bd0)"
    by code_simp+
  have "estado (valor (registerPayment 10 (pago0 1000)) bd0) = COBRADO" "distinct (map a_id (asientos bd0))"
    by code_simp+
  from getAgentPendingLiquidation_skips_collected [OF exito_run [OF e(1)] this exito_run [OF e(2)]]
  show ?thesis by (auto simp: bd_cobrada_def final_def)
qed

section \<open>processReceipt\<close>

lemma procesar_linea_Inr: "\<exists>r s'. procesar_linea dto l s = (Inr r, s') \<and> rl_tipo r = ln_tipo l \<and>
    rl_monto r = ln_monto l \<and> rl_asiento_id r = ln_asiento_id l"
  by (cases "fst (operar_linea dto l s)"; cases "operar_linea dto l s")
     (auto simp: procesar_linea_def try_catch_def ebind_def ret_def)

lemma procesar_linea_error:
  "procesar_linea dto l s = (Inr r, s') \<Longrightarrow> \<not> procesada r \<Longrightarrow> s' = s"
  by (auto simp: procesar_linea_def try_catch_def procesada_def ebind_def ret_def raise_def operar_linea_def
      split: prod.splits sum.splits tipo_operacion.splits option.splits if_splits
      dest: registerPayment_Inl liquidarAPropietario_Inl)

lemma procesar_lineas:
  "\<exists>rs s'. for_each (procesar_linea dto) ls s = (Inr rs, s') \<and>
     list_all2 (\<lambda>r l. rl_tipo r = ln_tipo l \<and> rl_monto r = ln_monto l \<and> rl_asiento_id r = ln_asiento_id l) rs ls"
proof (induction ls arbitrary: s)
  case Nil
  then show ?case by (simp add: ret_def)
next
  case (Cons l ls)
  obtain r s1 where r: "procesar_linea dto l s = (Inr r, s1)"
    "rl_tipo r = ln_tipo l" "rl_monto r = ln_monto l" "rl_asiento_id r = ln_asiento_id l"
    using procesar_linea_Inr by blast
  obtain rs s2 where rs: "for_each (procesar_linea dto) ls s1 = (Inr rs, s2)"
    "list_all2 (\<lambda>r l. rl_tipo r = ln_tipo l \<and> rl_monto r = ln_monto l \<and> rl_asiento_id r = ln_asiento_id l) rs ls"
    using Cons.IH by blast
  have "for_each (procesar_linea dto) (l # ls) s = (Inr (r # rs), s2)"
    by (simp add: ebind_def r(1) rs(1) ret_def)
  with r rs show ?case by auto
qed

lemma procesar_lineas_error:
  "for_each (procesar_linea dto) ls s = (Inr rs, s') \<Longrightarrow> filter procesada rs = [] \<Longrightarrow> s' = s"
proof (induction ls arbitrary: s rs)
  case Nil
  then show ?case by (simp add: ret_def)
next
  case (Cons l ls)
  from Cons.prems(1) obtain r s1 rs1 where r: "procesar_linea dto l s = (Inr r, s1)"
    and rs1: "for_each (procesar_linea dto) ls s1 = (Inr rs1, s')" and rs: "rs = r # rs1"
    by (auto simp: proc_simps)
  from Cons.prems(2) rs have "\<not> procesada r" "filter procesada rs1 = []" by (auto split: if_splits)
  with procesar_linea_error [OF r] Cons.IH [OF rs1] show ?case by simp
qed

text \<open>\<^verbatim>\<open>processReceipt\<close> never fails: every line gives one operation result in order, the
  failed and processed lines add up to all of them, and a receipt whose lines all fail leaves
  the database as it was.\<close>

theorem processReceipt_total:
  "\<exists>r s'. processReceipt dto s = (Inr r, s') \<and>
     map rl_asiento_id (rr_operaciones r) = map ln_asiento_id (pr_lineas dto) \<and>
     map rl_monto (rr_operaciones r) = map ln_monto (pr_lineas dto) \<and>
     rr_procesadas r + rr_errores r = rr_total_lineas r \<and>
     (rr_procesadas r = 0 \<longrightarrow> s' = s \<and> rr_movimiento_neto r = 0)"
proof -
  obtain rs s' where rs: "for_each (procesar_linea dto) (pr_lineas dto) s = (Inr rs, s')"
    and l: "list_all2 (\<lambda>r l. rl_tipo r = ln_tipo l \<and> rl_monto r = ln_monto l \<and> rl_asiento_id r = ln_asiento_id l)
        rs (pr_lineas dto)"
    using procesar_lineas by blast
  have maps: "map rl_asiento_id rs = map ln_asiento_id (pr_lineas dto)"
    "map rl_monto rs = map ln_monto (pr_lineas dto)"
    using l by (induction rule: list_all2_induct) simp_all
  have len: "length rs = length (pr_lineas dto)" using l by (rule list_all2_lengthD)
  have nada: "s' = s" if "filter procesada rs = []"
    using procesar_lineas_error [OF rs that] .
  have run: "processReceipt dto s = (Inr \<lparr>rr_total_lineas = length (pr_lineas dto),
      rr_total_ingreso = (\<Sum>r\<leftarrow>filter (\<lambda>r. procesada r \<and> rl_tipo r = COBRO) rs. rl_monto r),
      rr_total_egreso = (\<Sum>r\<leftarrow>filter (\<lambda>r. procesada r \<and> rl_tipo r = PAGO) rs. rl_monto r),
      rr_movimiento_neto = (\<Sum>r\<leftarrow>filter (\<lambda>r. procesada r \<and> rl_tipo r = COBRO) rs. rl_monto r) -
        (\<Sum>r\<leftarrow>filter (\<lambda>r. procesada r \<and> rl_tipo r = PAGO) rs. rl_monto r),
      rr_operaciones = rs, rr_procesadas = length (filter procesada rs),
      rr_errores = length (filter (\<lambda>r. \<not> procesada r) rs)\<rparr>, s')"
    by (simp add: processReceipt_def ebind_def rs Let_def ret_def)
  have vacio: "filter (\<lambda>r. procesada r \<and> Q r) rs = []" if "filter procesada rs = []" for Q
    using that by (auto simp: filter_empty_conv)
  show ?thesis
    unfolding run using maps len nada vacio sum_length_filter_compl [of procesada rs] by auto
qed

text \<open>The example receipt: pay one peso of the rent to the landlord.\<close>

definition recibo0 :: process_receipt_dto where
  "recibo0 = \<lparr>pr_lineas = [\<lparr>ln_asiento_id = 10, ln_tipo = PAGO, ln_monto = 1, ln_agente_id = Some 2,
       ln_concepto = None\<rparr>],
     pr_cuenta_financiera_id = 7, pr_fecha = 90, pr_metodo = ''efectivo'', pr_usuario_id = 8,
     pr_comprobante = None, pr_observaciones = None\<rparr>"

theorem processReceipt_total_witness:
  "\<exists>r s'. processReceipt recibo0 bd0 = (Inr r, s') \<and> map rl_asiento_id (rr_operaciones r) = [10]"
  using processReceipt_total [of recibo0 bd0] by (auto simp: recibo0_def)

text \<open>The amount of a PAGO line is reported but not used: the receipt settles everything
  available to the agent, whatever the line says, so the \<^verbatim>\<open>total_egreso\<close> it reports and the
  money that leaves the account are different numbers.\<close>

theorem processReceipt_pays_in_full:
  assumes l: "pr_lineas dto = [l]" "ln_tipo l = PAGO" "ln_agente_id l = Some ag"
    and a: "asiento_de (ln_asiento_id l) s = Some a" "asiento_ok a"
    and d: "0 < disponible_haber ag (partidas a)" "pendiente_debe ag (partidas a) = 0"
    and c: "cuenta_de (pr_cuenta_financiera_id dto) s \<noteq> None"
  shows "\<exists>r s'. processReceipt dto s = (Inr r, s') \<and> rr_total_egreso r = ln_monto l \<and>
     saldo_movido (pr_cuenta_financiera_id dto) (- disponible_haber ag (partidas a)) s s'"
proof -
  define ld where "ld = \<lparr>li_fecha_liquidacion = pr_fecha dto, li_metodo_liquidacion = pr_metodo dto,
      li_cuenta_financiera_id = pr_cuenta_financiera_id dto, li_agente_id = ag,
      li_monto_a_liquidar = None, li_comprobante = pr_comprobante dto,
      li_observaciones = observacion_linea dto l, li_usuario_id = pr_usuario_id dto\<rparr>"
  have ld: "li_agente_id ld = ag" "li_cuenta_financiera_id ld = pr_cuenta_financiera_id dto"
    "li_monto_a_liquidar ld = None" by (simp_all add: ld_def)
  have ok: "list_all partida_ok (partidas a)" using a(2) by (simp add: asiento_ok_def)
  have "\<not> sin_partidas_del_agente ag (partidas a)"
    using d(1) by (auto simp: sin_partidas_del_agente_def disponible_haber_def)
  then obtain s' where run: "liquidarAPropietario (ln_asiento_id l) ld s = (Inr (aplicarLiquidacion (ahora s) ld a), s')"
    using liquidarAPropietario_ok [OF a(1), of ld] c ld by auto
  obtain h d' ps' where comp: "compensar ld (partidas a) = (h, d', ps')" by (metis prod_cases3)
  have "h = disponible_haber ag (partidas a)" "d' = 0"
    using compensar_exacto(1,2) [OF ok _ comp] d ld
    by (simp_all add: limite_def restante_inicial_def min_infinito_def)
  then have mov: "saldo_movido (pr_cuenta_financiera_id dto) (- disponible_haber ag (partidas a)) s s'"
    using liquidar_de(3) [OF run a(1)] d(1) ld by (simp add: montoNeto_def comp)
  have op: "operar_linea dto l s = (Inr (aplicarLiquidacion (ahora s) ld a), s')"
    using run l by (simp add: operar_linea_def ld_def)
  have "procesar_linea dto l s = (Inr \<lparr>rl_asiento_id = ln_asiento_id l, rl_tipo = ln_tipo l,
      rl_monto = ln_monto l, rl_resultado = Inr (aplicarLiquidacion (ahora s) ld a)\<rparr>, s')"
    by (simp add: procesar_linea_def try_catch_def ebind_def op ret_def)
  then show ?thesis
    using l mov by (simp add: processReceipt_def ebind_def ret_def Let_def procesada_def)
qed

theorem processReceipt_pays_in_full_witness:
  "\<exists>r s'. processReceipt recibo0 bd_cobrada = (Inr r, s') \<and> rr_total_egreso r = 1 \<and>
     saldo_movido 7 (- 900) bd_cobrada s'"
proof -
  let ?a = "valor (registerPayment 10 (pago0 1000)) bd0"
  have l: "pr_lineas recibo0 = [hd (pr_lineas recibo0)]" "ln_tipo (hd (pr_lineas recibo0)) = PAGO"
    "ln_agente_id (hd (pr_lineas recibo0)) = Some 2" by code_simp+
  have h: "asiento_de (ln_asiento_id (hd (pr_lineas recibo0))) bd_cobrada = Some ?a" "asiento_ok ?a"
    "0 < disponible_haber 2 (partidas ?a)" "pendiente_debe 2 (partidas ?a) = 0" by code_simp+
  have "saldo_de 7 bd_cobrada = Some 1050" by code_simp
  then have c: "cuenta_de (pr_cuenta_financiera_id recibo0) bd_cobrada \<noteq> None"
    by (auto simp: recibo0_def saldo_de_def)
  have "disponible_haber 2 (partidas ?a) = 900" "pr_cuenta_financiera_id recibo0 = 7"
    "ln_monto (hd (pr_lineas recibo0)) = 1" by code_simp+
  with processReceipt_pays_in_full [OF l h c] show ?thesis by simp
qed

end
