(* ===== verification/Lifecycle.thy ===== *)
theory Lifecycle
  imports QueryProperties "HOL-Library.Sublist"
begin

text \<open>
  The accounting service as a state machine: a step is one request, whatever it returns. The
  well-formedness of the collection is an invariant of every sequence of requests, entries
  only evolve in the permitted ways, and each request implements a step of an abstract ledger
  of receivables, payables and cash.
\<close>

section \<open>The index adjustment\<close>

lemma aplicarAjuste_simps [simp]:
  "a_id (aplicarAjuste hoy u i a) = a_id a"
  "partidas (aplicarAjuste hoy u i a) = partidas a"
  "monto_original (aplicarAjuste hoy u i a) = monto_original a"
  "estado (aplicarAjuste hoy u i a) = PENDIENTE"
  "monto_actual (aplicarAjuste hoy u i a) = monto_original a * ip_valor i"
  by (simp_all add: aplicarAjuste_def Let_def)

definition ajustado ::
  "int \<Rightarrow> indice_periodo list \<Rightarrow> oid \<Rightarrow> fecha \<Rightarrow> asiento \<Rightarrow> asiento" where
  "ajustado tz is u hoy a =
     (case find (\<lambda>i. mismo_mes tz (ip_periodo i) (fecha_vencimiento a)) is of
        None \<Rightarrow> a | Some i \<Rightarrow> aplicarAjuste hoy u i a)"

lemma ajustado_id [simp]: "a_id (ajustado tz is u hoy a) = a_id a"
  by (simp add: ajustado_def split: option.split)

lemma ajustarAsiento_run:
  "\<exists>r s'. ajustarAsiento tz is u a s = (Inr r, s') \<and>
     asientos s' = (if find (\<lambda>i. mismo_mes tz (ip_periodo i) (fecha_vencimiento a)) is = None then asientos s
        else save_doc a_id (ajustado tz is u (ahora s) a) (asientos s)) \<and>
     ahora s' = ahora s \<and> prox_id s' = prox_id s \<and> cuentas_fin s' = cuentas_fin s"
  by (cases "find (\<lambda>i. mismo_mes tz (ip_periodo i) (fecha_vencimiento a)) is")
     (simp_all add: ajustarAsiento_def ajustado_def ret_def ebind_def gets_def guardarAsiento_run)

text \<open>Saving the adjusted documents one by one is one pass over the collection.\<close>

lemma ajustar_lista:
  assumes "distinct (map a_id (asientos s))" and "set as \<subseteq> set (asientos s)" and "distinct (map a_id as)"
  shows "\<exists>r s'. for_each (ajustarAsiento tz is u) as s = (Inr r, s') \<and>
     asientos s' = map (\<lambda>a. if a_id a \<in> a_id ` set as then ajustado tz is u (ahora s) a else a) (asientos s) \<and>
     ahora s' = ahora s \<and> prox_id s' = prox_id s \<and> cuentas_fin s' = cuentas_fin s"
  using assms
proof (induction as arbitrary: s)
  case Nil
  then show ?case by (simp add: ret_def)
next
  case (Cons a as)
  let ?f = "ajustado tz is u (ahora s)"
  from Cons.prems have a: "a \<in> set (asientos s)" and d: "a_id a \<notin> a_id ` set as" by auto
  obtain r s1 where r: "ajustarAsiento tz is u a s = (Inr r, s1)" "ahora s1 = ahora s"
    "prox_id s1 = prox_id s" "cuentas_fin s1 = cuentas_fin s"
    and s1: "asientos s1 = (if find (\<lambda>i. mismo_mes tz (ip_periodo i) (fecha_vencimiento a)) is = None then asientos s
        else save_doc a_id (?f a) (asientos s))"
    using ajustarAsiento_run by blast
  have uniq: "x = a" if "x \<in> set (asientos s)" "a_id x = a_id a" for x
    using Cons.prems(1) a that by (metis find_id_Some_iff option.inject)
  have s1': "asientos s1 = map (\<lambda>x. if a_id x = a_id a then ?f x else x) (asientos s)"
  proof -
    let ?i = "find (\<lambda>i. mismo_mes tz (ip_periodo i) (fecha_vencimiento a)) is"
    have "asientos s1 = map (\<lambda>x. if a_id x = a_id a then ?f a else x) (asientos s)"
    proof (cases "?i = None")
      case True
      then have "?f a = a" by (simp add: ajustado_def)
      then show ?thesis using True by (auto simp: s1 intro!: map_idI [symmetric] dest: uniq)
    next
      case False
      then show ?thesis unfolding s1 if_not_P [OF False] by (simp add: save_doc_def)
    qed
    also have "\<dots> = map (\<lambda>x. if a_id x = a_id a then ?f x else x) (asientos s)"
      using uniq by (auto intro: map_cong)
    finally show ?thesis .
  qed
  have "set as \<subseteq> set (asientos s1)"
    using Cons.prems(2) d by (auto simp: s1' image_iff)
  moreover have "distinct (map a_id (asientos s1))"
    using Cons.prems(1) by (simp add: s1' comp_def if_distrib [of a_id] cong: if_cong)
  moreover have "distinct (map a_id as)" using Cons.prems(3) by simp
  ultimately obtain rs s2 where rs: "for_each (ajustarAsiento tz is u) as s1 = (Inr rs, s2)"
    "asientos s2 = map (\<lambda>x. if a_id x \<in> a_id ` set as then ajustado tz is u (ahora s1) x else x) (asientos s1)"
    "ahora s2 = ahora s1" "prox_id s2 = prox_id s1" "cuentas_fin s2 = cuentas_fin s1"
    using Cons.IH by blast
  have "asientos s2 = map (\<lambda>x. if a_id x \<in> a_id ` set (a # as) then ?f x else x) (asientos s)"
    using d by (auto simp: rs(2) s1' r(2) image_iff)
  then show ?case
    using rs r by (simp add: ebind_def ret_def)
qed

definition por_ajustar :: "oid \<Rightarrow> asiento \<Rightarrow> bool" where
  "por_ajustar c a \<longleftrightarrow> contrato_id a = Some c \<and> estado a = PENDIENTE_AJUSTE"

lemma por_ajustar_filtro:
  "filter (\<lambda>a. contrato_id a = Some c \<and> estado a = PENDIENTE_AJUSTE) as = filter (por_ajustar c) as"
  by (rule filter_cong) (simp_all add: por_ajustar_def)

lemma ajuste_run:
  assumes "distinct (map a_id (asientos s))"
  shows "\<exists>r s'. actualizarAsientosPendientesAjuste tz c is u s = (Inr r, s') \<and>
     asientos s' = map (\<lambda>a. if por_ajustar c a then ajustado tz is u (ahora s) a else a) (asientos s) \<and>
     ahora s' = ahora s \<and> prox_id s' = prox_id s \<and> cuentas_fin s' = cuentas_fin s"
proof -
  let ?as = "filter (por_ajustar c) (asientos s)"
  have "distinct (map a_id ?as)" using assms by (simp add: distinct_map_filter)
  then obtain r s' where r: "for_each (ajustarAsiento tz is u) ?as s = (Inr r, s')"
    "asientos s' = map (\<lambda>a. if a_id a \<in> a_id ` set ?as then ajustado tz is u (ahora s) a else a) (asientos s)"
    "ahora s' = ahora s" "prox_id s' = prox_id s" "cuentas_fin s' = cuentas_fin s"
    using ajustar_lista [OF assms, of ?as tz "is" u] by auto
  have "a_id a \<in> a_id ` set ?as \<longleftrightarrow> por_ajustar c a" if "a \<in> set (asientos s)" for a
  proof -
    have "b = a" if "b \<in> set (asientos s)" "a_id b = a_id a" for b
      using assms that \<open>a \<in> set (asientos s)\<close> by (metis find_id_Some_iff option.inject)
    then show ?thesis using that by auto
  qed
  then have "asientos s' = map (\<lambda>a. if por_ajustar c a then ajustado tz is u (ahora s) a else a) (asientos s)"
    unfolding r(2) by simp
  then show ?thesis
    using r by (simp add: actualizarAsientosPendientesAjuste_def por_ajustar_filtro ebind_def ret_def gets_def)
qed

text \<open>The index adjustment: every entry of the contract waiting for adjustment whose due
  month has an index becomes PENDIENTE with \<^verbatim>\<open>monto_actual\<close> the original amount times the
  index, its lines untouched; every other entry, and every balance, keeps its value.\<close>

theorem actualizarAsientosPendientesAjuste_effect:
  assumes ids: "distinct (map a_id (asientos s))"
  shows "\<exists>r s'. actualizarAsientosPendientesAjuste tz c is u s = (Inr r, s') \<and>
     (\<forall>j. saldo_de j s' = saldo_de j s) \<and>
     (\<forall>j. case asiento_de j s of None \<Rightarrow> asiento_de j s' = None
      | Some a \<Rightarrow> (case find (\<lambda>i. mismo_mes tz (ip_periodo i) (fecha_vencimiento a)) is of
          Some i \<Rightarrow> if contrato_id a = Some c \<and> estado a = PENDIENTE_AJUSTE
            then \<exists>a'. asiento_de j s' = Some a' \<and> estado a' = PENDIENTE \<and>
              monto_actual a' = monto_original a * ip_valor i \<and> partidas a' = partidas a
            else asiento_de j s' = Some a
        | None \<Rightarrow> asiento_de j s' = Some a))"
proof -
  obtain r s' where r: "actualizarAsientosPendientesAjuste tz c is u s = (Inr r, s')"
    "asientos s' = map (\<lambda>a. if por_ajustar c a then ajustado tz is u (ahora s) a else a) (asientos s)"
    "cuentas_fin s' = cuentas_fin s"
    using ajuste_run [OF ids] by blast
  have "asiento_de j s' = map_option (\<lambda>a. if por_ajustar c a then ajustado tz is u (ahora s) a else a) (asiento_de j s)" for j
    unfolding r(2) by (rule find_id_map) simp
  moreover have "saldo_de j s' = saldo_de j s" for j by (simp add: saldo_de_def r(3))
  ultimately show ?thesis
    using r(1) by (auto simp: por_ajustar_def ajustado_def split: option.split)
qed

definition bd_por_ajustar :: bd_asi where
  "bd_por_ajustar = bd0\<lparr>asientos := [alquiler\<lparr>estado := PENDIENTE_AJUSTE\<rparr>, deposito]\<rparr>"

theorem actualizarAsientosPendientesAjuste_effect_witness:
  "map_option monto_actual (asiento_de 10
     (final (actualizarAsientosPendientesAjuste 0 5 [\<lparr>ip_periodo = 86400000, ip_valor = 3 / 2\<rparr>] 8) bd_por_ajustar))
   = Some 1500"
proof -
  let ?is = "[\<lparr>ip_periodo = 86400000, ip_valor = 3 / 2\<rparr>]"
  have d: "distinct (map a_id (asientos bd_por_ajustar))" by code_simp
  have a: "asiento_de 10 bd_por_ajustar = Some (alquiler\<lparr>estado := PENDIENTE_AJUSTE\<rparr>)"
    "find (\<lambda>i. mismo_mes 0 (ip_periodo i) (fecha_vencimiento (alquiler\<lparr>estado := PENDIENTE_AJUSTE\<rparr>))) ?is = Some (hd ?is)"
    "contrato_id (alquiler\<lparr>estado := PENDIENTE_AJUSTE\<rparr>) = Some 5"
    "monto_original (alquiler\<lparr>estado := PENDIENTE_AJUSTE\<rparr>) = 1000" by code_simp+
  obtain r s' where r: "actualizarAsientosPendientesAjuste 0 5 ?is 8 bd_por_ajustar = (Inr r, s')"
    and t: "\<forall>j. case asiento_de j bd_por_ajustar of None \<Rightarrow> asiento_de j s' = None
      | Some a \<Rightarrow> (case find (\<lambda>i. mismo_mes 0 (ip_periodo i) (fecha_vencimiento a)) ?is of
          Some i \<Rightarrow> if contrato_id a = Some 5 \<and> estado a = PENDIENTE_AJUSTE
            then \<exists>a'. asiento_de j s' = Some a' \<and> estado a' = PENDIENTE \<and>
              monto_actual a' = monto_original a * ip_valor i \<and> partidas a' = partidas a
            else asiento_de j s' = Some a
        | None \<Rightarrow> asiento_de j s' = Some a)"
    using actualizarAsientosPendientesAjuste_effect [OF d, of 0 5 ?is 8] by blast
  have "\<exists>a'. asiento_de 10 s' = Some a' \<and> monto_actual a' = 1500"
    using t [rule_format, of 10] unfolding a(1) option.case a(2) using a(3,4) by auto
  then show ?thesis by (auto simp: final_def r)
qed

section \<open>The service as a state machine\<close>

text \<open>
  One request, whatever it returned, an exception included. Two kinds of requests are
  constrained: the entries handed to \<^verbatim>\<open>create\<close> have well-formed lines (the entry factory
  builds them so), and a settlement has no negative amount (no validator of the code checks
  it).
\<close>

inductive paso_servicio :: "'a bd_asi_scheme \<Rightarrow> 'a bd_asi_scheme \<Rightarrow> bool" where
  crear: "create d s = (r1, s') \<Longrightarrow>
     list_all partida_ok (map partida_defaults (coalesce (d_partidas d) [])) \<Longrightarrow> paso_servicio s s'"
| pagar: "registerPayment i pd s = (r2, s') \<Longrightarrow> paso_servicio s s'"
| anular: "anularAsiento i ad s = (r2, s') \<Longrightarrow> paso_servicio s s'"
| condonar: "condonarDeuda i cd s = (r2, s') \<Longrightarrow> paso_servicio s s'"
| liquidar: "liquidarAPropietario i ld s = (r2, s') \<Longrightarrow>
     (case li_monto_a_liquidar ld of None \<Rightarrow> True | Some x \<Rightarrow> 0 \<le> x) \<Longrightarrow> paso_servicio s s'"
| ajustar: "actualizarAsientosPendientesAjuste tz c is u s = (r3, s') \<Longrightarrow> paso_servicio s s'"
| marcado: "marcar ids e s = (r4, s') \<Longrightarrow> paso_servicio s s'"
| borrar: "deleteManyByContractId c s = (r5, s') \<Longrightarrow> paso_servicio s s'"
| saldo: "updateBalance cu m ty s = (r6, s') \<Longrightarrow> paso_servicio s s'"

inductive_cases paso_servicioE: "paso_servicio s s'"

definition bd_ok :: "'a bd_asi_scheme \<Rightarrow> bool" where
  "bd_ok s \<longleftrightarrow> list_all asiento_ok (asientos s) \<and> distinct (map a_id (asientos s)) \<and>
     list_all (\<lambda>a. a_id a < prox_id s) (asientos s)"

text \<open>How one entry may evolve: its line amounts and original amount are fixed, its
  accumulators do not decrease, its history is only appended to.\<close>

definition evoluciona :: "asiento \<Rightarrow> asiento \<Rightarrow> bool" where
  "evoluciona a a' \<longleftrightarrow> a_id a' = a_id a \<and> map fijos (partidas a') = map fijos (partidas a) \<and>
     monto_original a' = monto_original a \<and>
     prefix (historial_cambios a) (historial_cambios a') \<and>
     list_all2 (\<lambda>p q. pagado p \<le> pagado q \<and> liquidado p \<le> liquidado q) (partidas a) (partidas a')"

definition evolucion :: "'a bd_asi_scheme \<Rightarrow> 'a bd_asi_scheme \<Rightarrow> bool" where
  "evolucion s s' \<longleftrightarrow> prox_id s \<le> prox_id s' \<and>
     (\<forall>i a'. asiento_de i s' = Some a' \<longrightarrow>
        prox_id s \<le> i \<or> (\<exists>a. asiento_de i s = Some a \<and> evoluciona a a'))"

lemma evoluciona_refl [simp]: "evoluciona a a"
  by (simp add: evoluciona_def list_all2_refl)

lemma list_all2_le_trans:
  fixes f g :: "'b \<Rightarrow> rat"
  shows "list_all2 (\<lambda>p q. f p \<le> f q \<and> g p \<le> g q) xs ys \<Longrightarrow>
    list_all2 (\<lambda>p q. f p \<le> f q \<and> g p \<le> g q) ys zs \<Longrightarrow>
    list_all2 (\<lambda>p q. f p \<le> f q \<and> g p \<le> g q) xs zs"
  by (erule list_all2_trans [rotated], assumption) auto

lemma evoluciona_trans: "evoluciona a b \<Longrightarrow> evoluciona b c \<Longrightarrow> evoluciona a c"
  unfolding evoluciona_def
  by (elim conjE) (intro conjI; (rule list_all2_le_trans | rule prefix_order.trans | simp); assumption?)

lemma evolucion_refl [simp]: "evolucion s s"
  by (simp add: evolucion_def)

lemma evolucion_trans: "evolucion s t \<Longrightarrow> evolucion t u \<Longrightarrow> evolucion s u"
  unfolding evolucion_def by (meson evoluciona_trans order_trans)

section \<open>The pure effects evolve an entry and keep it well-formed\<close>

lemma recorrer_pago_negativo: "r \<le> 0 \<Longrightarrow> recorrer paso_pago r ps = (r, ps)"
  by (induction ps) (simp_all add: paso_pago_def)

lemma recorrer_pago_ok':
  "list_all partida_ok ps \<Longrightarrow> list_all partida_ok (snd (recorrer paso_pago r ps))"
  using recorrer_pago_ok [of r ps] recorrer_pago_negativo [of r ps] by (cases "0 \<le> r") auto

lemma recorrer_pago_crece:
  "list_all2 (\<lambda>p q. pagado p \<le> pagado q \<and> liquidado p \<le> liquidado q) ps (snd (recorrer paso_pago r ps))"
  by (rule recorrer_pointwise) (auto simp: paso_pago_def Let_def)

lemma recorrer_compensar_crece:
  "list_all2 (\<lambda>p q. pagado p \<le> pagado q \<and> liquidado p \<le> liquidado q) ps (snd (recorrer (paso_compensar ag) t ps))"
  by (rule recorrer_pointwise) (auto simp: paso_compensar_def Let_def)

lemma paso_liquidar_crece:
  "liq_sano l \<Longrightarrow> pagado p \<le> pagado (snd (paso_liquidar ag l p)) \<and> liquidado p \<le> liquidado (snd (paso_liquidar ag l p))"
  by (auto simp: paso_liquidar_def liq_sano_def Let_def min_infinito_def split: prod.splits option.splits)

lemma recorrer_liquidar_crece:
  "liq_sano l \<Longrightarrow>
   list_all2 (\<lambda>p q. pagado p \<le> pagado q \<and> liquidado p \<le> liquidado q) ps (snd (recorrer (paso_liquidar ag) l ps))"
proof (induction ps arbitrary: l)
  case Nil
  then show ?case by simp
next
  case (Cons p ps)
  obtain l1 p1 where p: "paso_liquidar ag l p = (l1, p1)" by fastforce
  have "liq_sano l1" using liq.sano_paso [OF p] Cons.prems by (simp add: liq_sano_def)
  then show ?case
    using Cons.IH paso_liquidar_crece [OF Cons.prems, of p ag] by (simp add: p split_def)
qed

lemma compensar_crece:
  assumes m: "case li_monto_a_liquidar dto of None \<Rightarrow> True | Some x \<Rightarrow> 0 \<le> x"
  shows "list_all2 (\<lambda>p q. pagado p \<le> pagado q \<and> liquidado p \<le> liquidado q) ps (snd (snd (compensar dto ps)))"
proof -
  have "liq_sano (restante_inicial (li_monto_a_liquidar dto), 0, False)"
    by (rule liq_sano_inicial) (use m in auto)
  from list_all2_le_trans [OF recorrer_liquidar_crece [OF this] recorrer_compensar_crece]
  show ?thesis by (simp add: compensar_lineas)
qed

lemma compensar_ok:
  assumes m: "case li_monto_a_liquidar dto of None \<Rightarrow> True | Some x \<Rightarrow> 0 \<le> x"
    and ok: "list_all partida_ok ps"
  shows "list_all partida_ok (snd (snd (compensar dto ps)))" and "map fijos (snd (snd (compensar dto ps))) = map fijos ps"
proof -
  have "liq_sano (restante_inicial (li_monto_a_liquidar dto), 0, False)"
    by (rule liq_sano_inicial) (use m in auto)
  then show "list_all partida_ok (snd (snd (compensar dto ps)))"
    unfolding compensar_lineas by (intro recorrer_compensar_ok recorrer_liquidar_ok ok)
  show "map fijos (snd (snd (compensar dto ps))) = map fijos ps" by (simp add: compensar_lineas)
qed

lemma asiento_ok_partidas:
  "asiento_ok a \<Longrightarrow> list_all partida_ok (partidas a') \<Longrightarrow> map fijos (partidas a') = map fijos (partidas a) \<Longrightarrow> asiento_ok a'"
  by (auto simp: asiento_ok_def)

lemma efectos_evolucionan:
  "evoluciona a (imputarPago hoy pd a)" "evoluciona a (aplicarAnulacion hoy ad a)"
  "evoluciona a (aplicarCondonacion hoy cd a)" "evoluciona a (aplicarAjuste hoy u i a)"
  "evoluciona a (a\<lparr>estado := e\<rparr>)"
  "(case li_monto_a_liquidar ld of None \<Rightarrow> True | Some x \<Rightarrow> 0 \<le> x) \<Longrightarrow> evoluciona a (aplicarLiquidacion hoy ld a)"
proof -
  show "evoluciona a (imputarPago hoy pd a)" "evoluciona a (aplicarCondonacion hoy cd a)"
    using recorrer_pago_crece
    by (simp_all add: evoluciona_def) (simp_all add: imputarPago_def aplicarCondonacion_def Let_def)
  show "evoluciona a (aplicarAnulacion hoy ad a)" "evoluciona a (aplicarAjuste hoy u i a)"
    "evoluciona a (a\<lparr>estado := e\<rparr>)"
    by (simp_all add: evoluciona_def list_all2_refl)
       (simp_all add: aplicarAnulacion_def aplicarAjuste_def Let_def)
  assume m: "case li_monto_a_liquidar ld of None \<Rightarrow> True | Some x \<Rightarrow> 0 \<le> x"
  show "evoluciona a (aplicarLiquidacion hoy ld a)"
    using compensar_crece [OF m, of "partidas a"]
    by (simp add: evoluciona_def compensar_lineas) (simp add: aplicarLiquidacion_def Let_def split: prod.split)
qed

lemma efectos_ok:
  "asiento_ok a \<Longrightarrow> asiento_ok (imputarPago hoy pd a)"
  "asiento_ok a \<Longrightarrow> asiento_ok (aplicarAnulacion hoy ad a)"
  "asiento_ok a \<Longrightarrow> asiento_ok (aplicarCondonacion hoy cd a)"
  "asiento_ok a \<Longrightarrow> asiento_ok (aplicarAjuste hoy u i a)"
  "(case li_monto_a_liquidar ld of None \<Rightarrow> True | Some x \<Rightarrow> 0 \<le> x) \<Longrightarrow>
     asiento_ok a \<Longrightarrow> asiento_ok (aplicarLiquidacion hoy ld a)"
  by (rule asiento_ok_partidas, assumption, simp add: recorrer_pago_ok' compensar_ok asiento_ok_def,
      simp add: compensar_ok asiento_ok_def)+

section \<open>The handlers as updates of one document\<close>

definition modifica ::
  "oid \<Rightarrow> (asiento \<Rightarrow> asiento) \<Rightarrow> 'a bd_asi_scheme \<Rightarrow> 'a bd_asi_scheme \<Rightarrow> bool" where
  "modifica i f s s' \<longleftrightarrow> (\<exists>a. asiento_de i s = Some a \<and> asientos s' = save_doc a_id (f a) (asientos s)) \<and>
     prox_id s' = prox_id s"

lemma updateBalance_prox: "updateBalance i m ty s = (r, s') \<Longrightarrow> prox_id s' = prox_id s"
  by (subst updateBalance_frame) simp_all

lemma registerPayment_modifica:
  "registerPayment i pd s = (r, s') \<Longrightarrow> s' = s \<or> modifica i (imputarPago (ahora s) pd) s s'"
  by (cases r)
     (auto simp: registerPayment_def proc_simps guardarAsiento_run modifica_def updateBalance_asientos
        updateBalance_prox split: if_splits dest: updateBalance_Inl)

lemma anularAsiento_modifica:
  "anularAsiento i ad s = (r, s') \<Longrightarrow> s' = s \<or> modifica i (aplicarAnulacion (ahora s) ad) s s'"
  by (cases r) (auto simp: modifica_def dest: anularAsiento_Inl anularAsiento_Inr)

lemma condonarDeuda_modifica:
  "condonarDeuda i cd s = (r, s') \<Longrightarrow> s' = s \<or> modifica i (aplicarCondonacion (ahora s) cd) s s'"
  by (cases r) (auto simp: modifica_def dest: condonarDeuda_Inl condonarDeuda_Inr)

lemma liquidarAPropietario_modifica:
  "liquidarAPropietario i ld s = (r, s') \<Longrightarrow> s' = s \<or> modifica i (aplicarLiquidacion (ahora s) ld) s s'"
  by (cases r)
     (auto simp: liquidarAPropietario_def proc_simps guardarAsiento_run modifica_def updateBalance_asientos
        updateBalance_prox split: if_splits dest: updateBalance_Inl)

lemma modifica_ok:
  assumes m: "modifica i f s s'" and ok: "bd_ok s"
    and f: "\<And>a. asiento_ok a \<Longrightarrow> asiento_ok (f a)" "\<And>a. evoluciona a (f a)"
  shows "bd_ok s' \<and> evolucion s s'"
proof -
  obtain a where a: "asiento_de i s = Some a" and s': "asientos s' = save_doc a_id (f a) (asientos s)"
    and p: "prox_id s' = prox_id s" using m by (auto simp: modifica_def)
  have ia: "a_id a = i" and ina: "a \<in> set (asientos s)"
    using find_id_key [OF a] find_id_in [OF a] by simp_all
  have fa: "a_id (f a) = i" using f(2) [of a] ia by (simp add: evoluciona_def)
  have oka: "asiento_ok (f a)" "i < prox_id s" using ok ina f(1) ia by (auto simp: bd_ok_def list_all_iff)
  have "bd_ok s'"
    using ok oka fa set_save_doc [of a_id "f a" "asientos s"]
    by (auto simp: bd_ok_def s' p list_all_iff)
  moreover have "evolucion s s'"
    using f(2) a fa by (auto simp: evolucion_def s' p find_id_save split: if_splits)
  ultimately show ?thesis by simp
qed

section \<open>Every request keeps the collection well-formed\<close>

lemma crear_ok:
  assumes run: "create d s = (r, s')" and ok: "bd_ok s"
    and ps: "list_all partida_ok (map partida_defaults (coalesce (d_partidas d) []))"
  shows "bd_ok s' \<and> evolucion s s'"
proof (cases r)
  case (Inl e)
  then have "asientos s' = asientos s" "prox_id s \<le> prox_id s'"
    using run by (auto simp: create_def proc_simps split: if_splits)
  then show ?thesis using ok by (auto simp: bd_ok_def evolucion_def list_all_iff)
next
  case (Inr a)
  note c = create_Inr [OF run [unfolded Inr]]
  have as: "asientos s' = asientos s @ [a]" and p: "prox_id s' = Suc (prox_id s)" and ia: "a_id a = prox_id s"
    using c by (simp_all add: asiento_de_dto_def)
  have "asiento_ok a"
    using c(1,2) ps by (auto simp: asiento_ok_def asiento_de_dto_def sin_partidas_def split: option.splits)
  moreover have "prox_id s \<notin> a_id ` set (asientos s)"
    using ok by (auto simp: bd_ok_def list_all_iff)
  ultimately have "bd_ok s'"
    using ok ia by (auto simp: bd_ok_def as p list_all_iff less_Suc_eq)
  moreover have "evolucion s s'"
    using ia by (auto simp: evolucion_def as p find_id_append col_simps split: option.splits if_splits)
  ultimately show ?thesis by simp
qed

lemma mapa_ok:
  assumes as: "asientos s' = map f (asientos s)" and p: "prox_id s' = prox_id s" and ok: "bd_ok s"
    and f: "\<And>a. asiento_ok a \<Longrightarrow> asiento_ok (f a)" "\<And>a. evoluciona a (f a)"
  shows "bd_ok s' \<and> evolucion s s'"
proof -
  have k: "a_id (f a) = a_id a" for a using f(2) [of a] by (simp add: evoluciona_def)
  have "bd_ok s'" using ok f(1) by (auto simp: bd_ok_def as p list_all_iff comp_def k)
  moreover have "evolucion s s'" using f(2) by (auto simp: evolucion_def as p find_id_map [of a_id, OF k])
  ultimately show ?thesis by simp
qed

lemma ajustado_ok:
  "asiento_ok a \<Longrightarrow> asiento_ok (if P a then ajustado tz is u hoy a else a)"
  "evoluciona a (if P a then ajustado tz is u hoy a else a)"
  by (auto simp: ajustado_def efectos_ok efectos_evolucionan split: option.split)

lemma borrar_ok:
  assumes as: "asientos s' = filter P (asientos s)" and p: "prox_id s' = prox_id s" and ok: "bd_ok s"
  shows "bd_ok s' \<and> evolucion s s'"
proof -
  have "distinct (map a_id (asientos s))" using ok by (simp add: bd_ok_def)
  moreover from this have "distinct (map a_id (asientos s'))" by (simp add: as distinct_map_filter)
  ultimately have sub: "asiento_de i s' = Some a \<Longrightarrow> asiento_de i s = Some a" for i a
    by (simp add: find_id_Some_iff) (simp add: as)
  have "bd_ok s'" using ok \<open>distinct (map a_id (asientos s'))\<close> by (auto simp: bd_ok_def p as list_all_iff)
  moreover have "evolucion s s'" using sub p evoluciona_refl by (auto simp: evolucion_def)
  ultimately show ?thesis by simp
qed

lemma paso_servicio_ok: "paso_servicio s s' \<Longrightarrow> bd_ok s \<Longrightarrow> bd_ok s' \<and> evolucion s s'"
proof (induction rule: paso_servicio.induct)
  case (crear d s r1 s')
  then show ?case by (simp add: crear_ok)
next
  case (pagar i pd s r2 s')
  then show ?case
    using registerPayment_modifica [OF pagar(1)] modifica_ok efectos_ok(1) efectos_evolucionan(1)
    by (metis evolucion_refl)
next
  case (anular i ad s r2 s')
  then show ?case
    using anularAsiento_modifica [OF anular(1)] modifica_ok efectos_ok(2) efectos_evolucionan(2)
    by (metis evolucion_refl)
next
  case (condonar i cd s r2 s')
  then show ?case
    using condonarDeuda_modifica [OF condonar(1)] modifica_ok efectos_ok(3) efectos_evolucionan(3)
    by (metis evolucion_refl)
next
  case (liquidar i ld s r2 s')
  then show ?case
    using liquidarAPropietario_modifica [OF liquidar(1)]
      modifica_ok [OF _ liquidar(3) efectos_ok(5) [OF liquidar(2)] efectos_evolucionan(6) [OF liquidar(2)]]
    by auto
next
  case (ajustar tz c "is" u s r3 s')
  have "distinct (map a_id (asientos s))" using ajustar(2) by (simp add: bd_ok_def)
  from ajuste_run [OF this, of tz c "is" u] ajustar(1)
  have "asientos s' = map (\<lambda>a. if por_ajustar c a then ajustado tz is u (ahora s) a else a) (asientos s)"
    "prox_id s' = prox_id s" by auto
  then show ?case using ajustar(2) by (rule mapa_ok) (erule ajustado_ok, rule ajustado_ok)
next
  case (marcado ids e s r4 s')
  then have "asientos s' = map (\<lambda>a. if a_id a \<in> set ids then a\<lparr>estado := e\<rparr> else a) (asientos s)"
    "prox_id s' = prox_id s" by (auto simp: marcar_def modify_def update_many_def)
  then show ?case using marcado(2)
    by (rule mapa_ok) (auto simp: asiento_ok_def efectos_evolucionan)
next
  case (borrar c s r5 s')
  then have "asientos s' = filter (\<lambda>a. \<not> contrato_id a = Some c) (asientos s)" "prox_id s' = prox_id s"
    by (auto simp: deleteManyByContractId_def delete_many_def ret_def)
  then show ?case using borrar(2) by (rule borrar_ok)
next
  case (saldo cu m ty s r6 s')
  then have "asientos s' = asientos s" "prox_id s' = prox_id s"
    using updateBalance_asientos updateBalance_prox by blast+
  then show ?case using saldo(2) by (auto simp: bd_ok_def evolucion_def)
qed

lemma ejecucion_ok: "paso_servicio\<^sup>*\<^sup>* s s' \<Longrightarrow> bd_ok s \<Longrightarrow> bd_ok s' \<and> evolucion s s'"
proof (induction rule: rtranclp_induct)
  case base
  then show ?case by simp
next
  case (step t u)
  then show ?case using paso_servicio_ok [of t u] evolucion_trans [of s t u] by blast
qed

text \<open>A receipt is a run of requests.\<close>

lemma procesar_linea_pasos: "procesar_linea dto l s = (Inr r, s') \<Longrightarrow> paso_servicio\<^sup>*\<^sup>* s s'"
proof -
  assume run: "procesar_linea dto l s = (Inr r, s')"
  obtain o1 where o1: "operar_linea dto l s = (o1, s')"
    using run by (cases "operar_linea dto l s"; cases "fst (operar_linea dto l s)")
      (auto simp: procesar_linea_def try_catch_def ebind_def ret_def)
  show ?thesis
  proof (cases "ln_tipo l")
    case COBRO
    then show ?thesis using o1 by (auto simp: operar_linea_def intro!: r_into_rtranclp intro: pagar)
  next
    case PAGO
    then show ?thesis
      using o1 by (cases "ln_agente_id l")
        (auto simp: operar_linea_def raise_def intro!: r_into_rtranclp intro: liquidar)
  qed
qed

lemma processReceipt_pasos:
  assumes "processReceipt dto s = (Inr r, s')"
  shows "paso_servicio\<^sup>*\<^sup>* s s'"
proof -
  have "for_each (procesar_linea dto) ls s = (Inr rs, s') \<Longrightarrow> paso_servicio\<^sup>*\<^sup>* s s'" for ls s rs s'
    by (induction ls arbitrary: s rs)
      (auto simp: proc_simps dest: procesar_linea_pasos intro: rtranclp_trans)
  then show ?thesis using assms by (auto simp: processReceipt_def Let_def proc_simps)
qed

section \<open>Invariants of every run\<close>





section \<open>The abstract ledger\<close>

text \<open>What the service keeps, seen from outside: for every entry what is still to be collected
  and to be paid, and for every account its cash.\<close>

record libro =
  l_cobrar :: "oid \<Rightarrow> monto option"
  l_pagar :: "oid \<Rightarrow> monto option"
  l_caja :: "oid \<Rightarrow> monto option"

definition por_pagar :: "partida list \<Rightarrow> monto" where
  "por_pagar ps = (\<Sum>p\<leftarrow>ps. haber p - liquidado p)"

definition abs_libro :: "'a bd_asi_scheme \<Rightarrow> libro" where
  "abs_libro s = \<lparr>l_cobrar = (\<lambda>i. map_option (\<lambda>a. deuda (partidas a)) (asiento_de i s)),
     l_pagar = (\<lambda>i. map_option (\<lambda>a. por_pagar (partidas a)) (asiento_de i s)),
     l_caja = (\<lambda>c. saldo_de c s)\<rparr>"

definition sumar :: "oid \<Rightarrow> monto \<Rightarrow> (oid \<Rightarrow> monto option) \<Rightarrow> oid \<Rightarrow> monto option" where
  "sumar i m f = f(i := map_option (\<lambda>x. x + m) (f i))"

definition l_cobro :: "oid \<Rightarrow> oid \<Rightarrow> monto \<Rightarrow> libro \<Rightarrow> libro" where
  "l_cobro i c m L = L\<lparr>l_cobrar := sumar i (- m) (l_cobrar L), l_caja := sumar c m (l_caja L)\<rparr>"

definition l_quita :: "oid \<Rightarrow> monto \<Rightarrow> libro \<Rightarrow> libro" where
  "l_quita i m L = L\<lparr>l_cobrar := sumar i (- m) (l_cobrar L)\<rparr>"

definition l_liquidacion :: "oid \<Rightarrow> oid \<Rightarrow> monto \<Rightarrow> monto \<Rightarrow> libro \<Rightarrow> libro" where
  "l_liquidacion i c x y L = L\<lparr>l_pagar := sumar i (- x) (l_pagar L),
     l_cobrar := sumar i (- y) (l_cobrar L), l_caja := sumar c (- \<bar>x - y\<bar>) (l_caja L)\<rparr>"

lemma por_pagar_eq: "por_pagar ps = totalHaber ps - (\<Sum>p\<leftarrow>ps. liquidado p)"
  by (simp add: por_pagar_def totalHaber_def sum_list_subtractf)

lemma saldo_movido_sumar: "saldo_movido c m s s' \<Longrightarrow> (\<lambda>j. saldo_de j s') = sumar c m (\<lambda>j. saldo_de j s)"
  by (auto simp: saldo_movido_def sumar_def fun_eq_iff)

lemma abs_libro_cambio:
  assumes "\<forall>j. asiento_de j s' = (if j = i then Some a' else asiento_de j s)"
    and "asiento_de i s = Some a"
    and "deuda (partidas a') = deuda (partidas a) - y" and "por_pagar (partidas a') = por_pagar (partidas a) - x"
    and "(\<lambda>j. saldo_de j s') = g"
  shows "abs_libro s' = \<lparr>l_cobrar = sumar i (- y) (l_cobrar (abs_libro s)),
     l_pagar = sumar i (- x) (l_pagar (abs_libro s)), l_caja = g\<rparr>"
  using assms by (auto simp: abs_libro_def sumar_def fun_eq_iff)

lemma sumar_cero [simp]: "sumar i 0 f = f"
  by (simp add: sumar_def option.map_ident)

lemma bd_ok_asiento: "bd_ok s \<Longrightarrow> asiento_de i s = Some a \<Longrightarrow> asiento_ok a"
  using find_id_in by (fastforce simp: bd_ok_def list_all_iff)



end
