(* ===== verification/EntryBuilder.thy ===== *)
theory EntryBuilder
  imports Lifecycle
begin

text \<open>
  \<^verbatim>\<open>builders/accounting-entry.builder.ts\<close> and \<^verbatim>\<open>factories/accounting-entry.factory.ts\<close>.

  The amount of a builder line may be \<^verbatim>\<open>undefined\<close> (the deposit of a contract is optional),
  and a sum with an undefined term is \<^verbatim>\<open>NaN\<close>: both are \<open>None\<close>, and every comparison with
  \<open>None\<close> is false, as it is with \<^verbatim>\<open>NaN\<close>. Dates pass through ISO strings and back
  unchanged. \<^verbatim>\<open>luxon\<close> is a third-party library: its operations are the fields of a record the
  definitions take as an argument.
\<close>

section \<open>The builder\<close>

record linea_builder =
  lb_cuenta_id :: oid
  lb_descripcion :: texto
  lb_debe :: "monto option"
  lb_haber :: "monto option"
  lb_agente_id :: "oid option"

record builder =
  b_tipo :: "string option"
  b_descripcion :: "texto option"
  b_imputacion :: "fecha option"
  b_vencimiento :: "fecha option"
  b_partidas :: "linea_builder list"
  b_metadata :: "(string \<times> valor_meta) list"

definition b_reset :: builder where
  "b_reset = \<lparr>b_tipo = None, b_descripcion = None, b_imputacion = None, b_vencimiento = None,
     b_partidas = [], b_metadata = []\<rparr>"

definition addMetadata :: "string \<Rightarrow> valor_meta \<Rightarrow> builder \<Rightarrow> builder" where
  "addMetadata key v b = b\<lparr>b_metadata := AList.update key v (b_metadata b)\<rparr>"

definition setType :: "string \<Rightarrow> builder \<Rightarrow> builder" where
  "setType t b = b\<lparr>b_tipo := Some t\<rparr>"

definition setDescription :: "texto \<Rightarrow> builder \<Rightarrow> builder" where
  "setDescription d b = b\<lparr>b_descripcion := Some d\<rparr>"

definition setDates :: "fecha \<Rightarrow> fecha \<Rightarrow> builder \<Rightarrow> builder" where
  "setDates fecha_imp vencimiento b =
     b\<lparr>b_imputacion := Some fecha_imp, b_vencimiento := Some vencimiento\<rparr>"

definition setState :: "string \<Rightarrow> builder \<Rightarrow> builder" where
  "setState e b = addMetadata ''estado'' (MStr (e, [])) b"

definition setAdjustable :: "bool \<Rightarrow> builder \<Rightarrow> builder" where
  "setAdjustable v b = addMetadata ''es_ajustable'' (MBool v) b"

definition negativo :: "monto option \<Rightarrow> bool" where
  "negativo m = (case m of None \<Rightarrow> False | Some x \<Rightarrow> x < 0)"

text \<open>\<^verbatim>\<open>description || this.dto.descripcion || ''\<close>.\<close>

definition descripcion_linea :: "texto option \<Rightarrow> builder \<Rightarrow> texto" where
  "descripcion_linea d b =
     (case d of
        Some t \<Rightarrow> if fst t \<noteq> [] then t else coalesce (b_descripcion b) ([], [])
      | None \<Rightarrow> coalesce (b_descripcion b) ([], []))"

definition addDebit ::
  "oid \<Rightarrow> monto option \<Rightarrow> oid option \<Rightarrow> texto option \<Rightarrow> builder \<Rightarrow> excepcion + builder" where
  "addDebit accountId amount agentId description b =
     (if negativo amount
      then Inl (ErrorJS ''El monto del debito no puede ser negativo'' [])
      else Inr (b\<lparr>b_partidas := b_partidas b @
        [\<lparr>lb_cuenta_id = accountId, lb_descripcion = descripcion_linea description b,
          lb_debe = amount, lb_haber = Some 0, lb_agente_id = agentId\<rparr>]\<rparr>))"

definition addCredit ::
  "oid \<Rightarrow> monto option \<Rightarrow> oid option \<Rightarrow> texto option \<Rightarrow> builder \<Rightarrow> excepcion + builder" where
  "addCredit accountId amount agentId description b =
     (if negativo amount
      then Inl (ErrorJS ''El monto del credito no puede ser negativo'' [])
      else Inr (b\<lparr>b_partidas := b_partidas b @
        [\<lparr>lb_cuenta_id = accountId, lb_descripcion = descripcion_linea description b,
          lb_debe = Some 0, lb_haber = amount, lb_agente_id = agentId\<rparr>]\<rparr>))"

definition conditionally :: "bool \<Rightarrow> (builder \<Rightarrow> builder) \<Rightarrow> builder \<Rightarrow> builder" where
  "conditionally c f b = (if c then f b else b)"

fun suma_js :: "monto option list \<Rightarrow> monto option" where
  "suma_js [] = Some 0"
| "suma_js (x # xs) =
     (case (x, suma_js xs) of (Some a, Some b) \<Rightarrow> Some (a + b) | _ \<Rightarrow> None)"

text \<open>A pushed line as a document line; an undefined amount takes the default 0 of the schema.\<close>

definition partida_de_linea :: "linea_builder \<Rightarrow> partida" where
  "partida_de_linea l =
     \<lparr>cuenta_id = lb_cuenta_id l, p_descripcion = lb_descripcion l,
      debe = coalesce (lb_debe l) 0, haber = coalesce (lb_haber l) 0,
      p_agente_id = lb_agente_id l, monto_pagado_acumulado = None, monto_liquidado = None,
      es_iva_incluido = False, tasa_iva_aplicada = Some 0, monto_base_imponible = Some 0,
      monto_iva_calculado = Some 0\<rparr>"

definition texto_vacio :: "texto option \<Rightarrow> bool" where
  "texto_vacio t = (case t of None \<Rightarrow> True | Some x \<Rightarrow> fst x = [])"

definition desbalanceado :: "monto option \<Rightarrow> monto option \<Rightarrow> bool" where
  "desbalanceado d c = (case (d, c) of (Some x, Some y) \<Rightarrow> \<bar>x - y\<bar> > 1 / 100 | _ \<Rightarrow> False)"

definition build :: "builder \<Rightarrow> excepcion + asiento_dto" where
  "build b =
     (let totalDebit = suma_js (map lb_debe (b_partidas b));
          totalCredit = suma_js (map lb_haber (b_partidas b))
      in if b_partidas b = []
         then Inl (ErrorJS ''El asiento debe tener al menos una partida'' [])
         else if desbalanceado totalDebit totalCredit
         then Inl (ErrorJS ''El asiento no esta balanceado. Debe: {}, Haber: {}, Diferencia: {}''
                [ANum (o_cero totalDebit), ANum (o_cero totalCredit),
                 ANum \<bar>o_cero totalDebit - o_cero totalCredit\<bar>])
         else if b_tipo b = None \<or> b_tipo b = Some []
         then Inl (ErrorJS ''El tipo de asiento es requerido'' [])
         else if texto_vacio (b_descripcion b)
         then Inl (ErrorJS ''La descripcion del asiento es requerida'' [])
         else if b_imputacion b = None
         then Inl (ErrorJS ''La fecha de imputacion es requerida'' [])
         else if b_vencimiento b = None
         then Inl (ErrorJS ''La fecha de vencimiento es requerida'' [])
         else Inr
           \<lparr>d_contrato_id = None, d_fecha_imputacion = b_imputacion b,
            d_fecha_vencimiento = b_vencimiento b, d_descripcion = b_descripcion b,
            d_tipo_asiento = b_tipo b,
            d_metadata = (if b_metadata b = [] then None else Some (b_metadata b)),
            d_estado = None, d_monto_original = totalDebit, d_monto_actual = totalDebit,
            d_partidas = Some (map partida_de_linea (b_partidas b)),
            d_usuario_creacion_id = None, d_usuario_modificacion_id = None, d_historial = []\<rparr>)"

section \<open>The factory\<close>

record luxon =
  lx_plus :: "fecha \<Rightarrow> int \<Rightarrow> int \<Rightarrow> fecha"
  lx_meses :: "fecha \<Rightarrow> fecha \<Rightarrow> rat"
  lx_dias :: "fecha \<Rightarrow> fecha \<Rightarrow> rat"
  lx_mm_yyyy :: "fecha \<Rightarrow> string"

record bd_fab = bd_asi +
  accountsCache :: "(string \<times> oid) list"

text \<open>\<open>lx_plus t m d\<close> is \<^verbatim>\<open>t.plus({ months: m, days: d })\<close>, \<open>lx_meses a b\<close> is
  \<^verbatim>\<open>a.diff(b, 'months').months\<close>, \<open>lx_dias\<close> the same in days.\<close>

definition getAccountByCode :: "string \<Rightarrow> ('a bd_fab_scheme, oid) proc" where
  "getAccountByCode code =
     ebind (gets (\<lambda>s. map_of (accountsCache s) code)) (\<lambda>c.
     case c of
       Some i \<Rightarrow> ret i
     | None \<Rightarrow>
         ebind (getAccountIdsByCode [code]) (\<lambda>m.
         case m code of
           None \<Rightarrow> raise (ErrorJS ''No se encontro la cuenta contable con codigo: {}'' [AStr code])
         | Some i \<Rightarrow>
             ebind (modify (\<lambda>s. s\<lparr>accountsCache := AList.update code i (accountsCache s)\<rparr>)) (\<lambda>_.
             ret i)))"

definition clearCache :: "('a bd_fab_scheme, unit) proc" where
  "clearCache = modify (\<lambda>s. s\<lparr>accountsCache := []\<rparr>)"

record rent_params =
  re_propertyAddress :: string
  re_period :: fecha
  re_periodNumber :: nat
  re_totalPeriods :: int
  re_amount :: monto
  re_commissionRate :: rat
  re_tenantId :: oid
  re_tenantName :: string
  re_landlordId :: oid
  re_landlordName :: string
  re_inmobiliariaId :: "oid option"
  re_state :: string
  re_isAdjustable :: bool

definition periodo_texto :: "string \<Rightarrow> luxon \<Rightarrow> rent_params \<Rightarrow> texto" where
  "periodo_texto prefijo lx p =
     (prefijo @ '' {} - Periodo {} de {} - {}'',
      [AStr (lx_mm_yyyy lx (re_period p)), ANum (of_nat (re_periodNumber p)),
       ANum (of_int (re_totalPeriods p)), AStr (re_propertyAddress p)])"

definition createMonthlyRentEntry :: "luxon \<Rightarrow> rent_params \<Rightarrow> ('a bd_fab_scheme, asiento_dto) proc" where
  "createMonthlyRentEntry lx p =
     (let commission = re_amount p * re_commissionRate p;
          netToLandlord = re_amount p - commission;
          periodStr = lx_mm_yyyy lx (re_period p);
          vencimiento = lx_plus lx (re_period p) 0 10;
          b0 = setAdjustable (re_isAdjustable p) (setState (re_state p)
                 (setDates (re_period p) vencimiento
                 (setDescription (periodo_texto ''Alquiler'' lx p)
                 (setType ''Alquiler'' b_reset))))
      in
      ebind (getAccountByCode ''CXC_ALQ'') (\<lambda>cxc.
      ebind (lift_result (addDebit cxc (Some (re_amount p)) (Some (re_tenantId p))
               (Some (periodo_texto ''Alquiler'' lx p)) b0)) (\<lambda>b1.
      ebind (getAccountByCode ''CXP_LOC'') (\<lambda>cxp.
      ebind (lift_result (addCredit cxp (Some netToLandlord) (Some (re_landlordId p))
               (Some (periodo_texto ''Credito por alquiler'' lx p)) b1)) (\<lambda>b2.
      ebind (getAccountByCode ''ING_HNR'') (\<lambda>ing.
      ebind (lift_result (addCredit ing (Some commission) (re_inmobiliariaId p)
               (Some (periodo_texto ''Honorarios por alquiler'' lx p)) b2)) (\<lambda>b3.
      lift_result (build
        (addMetadata ''periodoTotal'' (MNum (of_int (re_totalPeriods p)))
        (addMetadata ''periodoNumero'' (MNum (of_nat (re_periodNumber p)))
        (addMetadata ''periodo'' (MStr (periodStr, []))
        (addMetadata ''locatarioName'' (MStr (re_tenantName p, []))
        (addMetadata ''locadorName'' (MStr (re_landlordName p, []))
        (addMetadata ''propertyAddress'' (MStr (re_propertyAddress p, [])) b3))))))))))))))"

datatype tipo_deposito = DEP_COBRO | DEP_DEVOLUCION

record deposit_params =
  de_propertyAddress :: string
  de_amount :: "monto option"
  de_date :: fecha
  de_tenantId :: "oid option"
  de_landlordId :: "oid option"
  de_entryType :: tipo_deposito

definition createDepositEntry :: "deposit_params \<Rightarrow> ('a bd_fab_scheme, asiento_dto) proc" where
  "createDepositEntry p =
     (let addr = [AStr (de_propertyAddress p)] in
      case de_entryType p of
        DEP_COBRO \<Rightarrow>
          (let b0 = setState ''PENDIENTE'' (setDates (de_date p) (de_date p)
                  (setDescription (''Cobro de deposito en garantia al locatario - {}'', addr)
                  (setType ''Deposito en Garantia - Cobro'' b_reset)))
           in
           ebind (getAccountByCode ''CXC_ALQ'') (\<lambda>cxc.
           ebind (lift_result (addDebit cxc (de_amount p) (de_tenantId p)
                (Some (''Deposito en garantia a cobrar al locatario - {}'', addr)) b0)) (\<lambda>b1.
           ebind (getAccountByCode ''ACT_FID'') (\<lambda>fid.
           ebind (lift_result (addCredit fid (de_amount p) None
                (Some (''Ingreso de deposito en garantia a caja/banco fiduciaria - {}'', addr)) b1)) (\<lambda>b2.
           lift_result (build (addMetadata ''propertyAddress'' (MStr (de_propertyAddress p, [])) b2)))))))
      | DEP_DEVOLUCION \<Rightarrow>
          (let b0 = setState ''PENDIENTE'' (setDates (de_date p) (de_date p)
                  (setDescription (''Devolucion de deposito en garantia al locador - {}'', addr)
                  (setType tipo_devolucion b_reset)))
           in
           ebind (getAccountByCode ''ACT_FID'') (\<lambda>fid.
           ebind (lift_result (addDebit fid (de_amount p) None
                (Some (''Egreso de deposito en garantia desde caja/banco - {}'', addr)) b0)) (\<lambda>b1.
           ebind (getAccountByCode ''PAS_DEP'') (\<lambda>pas.
           ebind (lift_result (addCredit pas (de_amount p) (de_landlordId p)
                (Some (''Deposito en garantia a devolver al locador - {}'', addr)) b1)) (\<lambda>b2.
           lift_result (build (addMetadata ''propertyAddress'' (MStr (de_propertyAddress p, [])) b2))))))))"

datatype tipo_agente = LOCADOR_H | LOCATARIO_H

record honorarios_params =
  ho_propertyAddress :: string
  ho_totalContractAmount :: monto
  ho_percentage :: rat
  ho_installments :: nat
  ho_installmentNumber :: nat
  ho_startDate :: fecha
  ho_agentId :: oid
  ho_agentName :: string
  ho_agentType :: tipo_agente
  ho_inmobiliariaId :: "oid option"

text \<open>The agent type in the texts: \<^verbatim>\<open>agentType.toLowerCase()\<close>.\<close>

definition agente_minusculas :: "tipo_agente \<Rightarrow> string" where
  "agente_minusculas t = (case t of LOCADOR_H \<Rightarrow> ''locador'' | LOCATARIO_H \<Rightarrow> ''locatario'')"

definition createHonorariosEntry ::
  "luxon \<Rightarrow> honorarios_params \<Rightarrow> ('a bd_fab_scheme, asiento_dto) proc" where
  "createHonorariosEntry lx p =
     (let totalHonorarios = ho_totalContractAmount p * (ho_percentage p / 100);
          amountPerInstallment = totalHonorarios / of_nat (ho_installments p);
          vencimiento = lx_plus lx (ho_startDate p) (int (ho_installmentNumber p) - 1) 10;
          fecha_imp = lx_plus lx (ho_startDate p) (int (ho_installmentNumber p) - 1) 0;
          n = ANum (of_nat (ho_installmentNumber p));
          k = ANum (of_nat (ho_installments p));
          ag = AStr (agente_minusculas (ho_agentType p));
          addr = AStr (ho_propertyAddress p);
          esLocador = (ho_agentType p = LOCADOR_H);
          b0 = setState ''PENDIENTE'' (setDates fecha_imp vencimiento
                 (setDescription (''Honorarios {} - Cuota {}/{} - {}'', [ag, n, k, addr])
                 (setType (if esLocador then ''Honorarios Locador'' else ''Honorarios Locatario'') b_reset)))
      in
      ebind (getAccountByCode (if esLocador then ''CXP_LOC'' else ''CXC_ALQ'')) (\<lambda>cuentaDebit.
      ebind (lift_result (addDebit cuentaDebit (Some amountPerInstallment) (Some (ho_agentId p))
               (Some (''{} honorarios {} - Cuota {} - {}'',
                 [AStr (if esLocador then ''Descuento'' else ''Cargo''), ag, n, addr])) b0)) (\<lambda>b1.
      ebind (getAccountByCode ''ING_HNR_INIC'') (\<lambda>ing.
      ebind (lift_result (addCredit ing (Some amountPerInstallment) (ho_inmobiliariaId p)
               (Some (''Ingreso honorarios {} - Cuota {} - {}'', [ag, n, addr])) b1)) (\<lambda>b2.
      lift_result (build
        (addMetadata ''cuota'' (MStr (''{}/{}'', [n, k]))
        (addMetadata (agente_minusculas (ho_agentType p) @ ''Name'') (MStr (ho_agentName p, []))
        (addMetadata ''propertyAddress'' (MStr (ho_propertyAddress p, [])) b2)))))))))"

section \<open>What the builder guarantees\<close>

text \<open>Every line is a debit or a credit, not both, and not negative.\<close>

definition linea_ok :: "linea_builder \<Rightarrow> bool" where
  "linea_ok l \<longleftrightarrow> \<not> negativo (lb_debe l) \<and> \<not> negativo (lb_haber l) \<and>
     (lb_debe l = Some 0 \<or> lb_haber l = Some 0)"

definition builder_ok :: "builder \<Rightarrow> bool" where
  "builder_ok b \<longleftrightarrow> list_all linea_ok (b_partidas b)"

lemma builder_ok_set [simp]:
  "builder_ok b_reset" "builder_ok (setType t b) = builder_ok b"
  "builder_ok (setDescription d b) = builder_ok b" "builder_ok (setDates x y b) = builder_ok b"
  "builder_ok (setState e b) = builder_ok b" "builder_ok (setAdjustable v b) = builder_ok b"
  "builder_ok (addMetadata k w b) = builder_ok b"
  by (simp_all add: builder_ok_def b_reset_def setType_def setDescription_def setDates_def
      setState_def setAdjustable_def addMetadata_def)

lemma addDebit_ok: "addDebit c m ag d b = Inr b' \<Longrightarrow> builder_ok b \<Longrightarrow> builder_ok b'"
  by (auto simp: addDebit_def builder_ok_def linea_ok_def negativo_def split: if_splits)

lemma addCredit_ok: "addCredit c m ag d b = Inr b' \<Longrightarrow> builder_ok b \<Longrightarrow> builder_ok b'"
  by (auto simp: addCredit_def builder_ok_def linea_ok_def negativo_def split: if_splits)

lemma linea_partida_ok: "linea_ok l \<Longrightarrow> partida_ok (partida_defaults (partida_de_linea l))"
  by (auto simp: linea_ok_def partida_ok_def partida_defaults_def partida_de_linea_def negativo_def
      split: option.splits)

definition dto_ok :: "asiento_dto \<Rightarrow> bool" where
  "dto_ok d \<longleftrightarrow> \<not> sin_partidas d \<and> d_estado d = None \<and>
     list_all partida_ok (map partida_defaults (coalesce (d_partidas d) [])) \<and>
     (case d_monto_original d of None \<Rightarrow> True | Some m \<Rightarrow>
        m = totalDebe (coalesce (d_partidas d) []) \<and>
        (\<bar>m - totalHaber (coalesce (d_partidas d) [])\<bar> \<le> 1 / 100 \<or>
         (\<exists>b. d_partidas d = Some (map partida_de_linea b) \<and> suma_js (map lb_haber b) = None)))"

lemma suma_js_Some:
  "suma_js xs = Some t \<Longrightarrow> t = (\<Sum>x\<leftarrow>xs. coalesce x 0)"
  by (induction xs arbitrary: t) (auto split: option.splits prod.splits)

lemma build_ok: "build b = Inr d \<Longrightarrow> builder_ok b \<Longrightarrow> dto_ok d"
proof -
  assume b: "build b = Inr d" and ok: "builder_ok b"
  let ?ls = "b_partidas b"
  from b have ls: "?ls \<noteq> []" and d: "d_partidas d = Some (map partida_de_linea ?ls)" "d_estado d = None"
    "d_monto_original d = suma_js (map lb_debe ?ls)"
    and bal: "\<not> desbalanceado (suma_js (map lb_debe ?ls)) (suma_js (map lb_haber ?ls))"
    by (auto simp: build_def Let_def split: if_splits)
  have p: "list_all partida_ok (map partida_defaults (map partida_de_linea ?ls))"
    using ok by (auto simp: builder_ok_def list_all_iff linea_partida_ok)
  have t: "totalDebe (map partida_de_linea ?ls) = (\<Sum>x\<leftarrow>map lb_debe ?ls. coalesce x 0)"
    "totalHaber (map partida_de_linea ?ls) = (\<Sum>x\<leftarrow>map lb_haber ?ls. coalesce x 0)"
    by (simp_all add: totales_defs partida_de_linea_def comp_def)
  show "dto_ok d"
    using p ls bal t suma_js_Some [of "map lb_debe ?ls"] suma_js_Some [of "map lb_haber ?ls"]
    by (auto simp: dto_ok_def d sin_partidas_def desbalanceado_def not_less split: option.splits)
qed

text \<open>What \<^verbatim>\<open>getAccountByCode\<close> does to the state: it fills the cache and nothing else.\<close>

definition solo_cache :: "'a bd_fab_scheme \<Rightarrow> 'a bd_fab_scheme \<Rightarrow> bool" where
  "solo_cache s s' \<longleftrightarrow> (\<exists>c. s' = s\<lparr>accountsCache := c\<rparr>)"

lemma solo_cache_refl [simp]: "solo_cache s s"
  unfolding solo_cache_def by (rule exI [of _ "accountsCache s"]) simp

lemma solo_cache_trans: "solo_cache s t \<Longrightarrow> solo_cache t u \<Longrightarrow> solo_cache s u"
  by (auto simp: solo_cache_def)

lemma solo_cache_campos:
  "solo_cache s s' \<Longrightarrow> asientos s' = asientos s" "solo_cache s s' \<Longrightarrow> prox_id s' = prox_id s"
  "solo_cache s s' \<Longrightarrow> cuentas_fin s' = cuentas_fin s" "solo_cache s s' \<Longrightarrow> ahora s' = ahora s"
  "solo_cache s s' \<Longrightarrow> plan_cuentas s' = plan_cuentas s"
  by (auto simp: solo_cache_def)

definition cachea :: "('a bd_fab_scheme, 'b) proc \<Rightarrow> bool" where
  "cachea m \<longleftrightarrow> (\<forall>s. solo_cache s (snd (m s)))"

lemma cachea_ebind: "cachea m \<Longrightarrow> (\<And>x. cachea (k x)) \<Longrightarrow> cachea (ebind m k)"
  unfolding cachea_def ebind_def by (auto split: prod.splits sum.splits) (metis snd_conv solo_cache_trans)+

lemma cachea_lift [simp]: "cachea (lift_result r)"
  by (simp add: cachea_def lift_result_def)

lemma cachea_getAccountByCode [simp]: "cachea (getAccountByCode code)"
proof -
  have "cachea (gets f)" for f :: "'a bd_fab_scheme \<Rightarrow> 'b"
    by (simp add: cachea_def gets_def)
  moreover have "cachea (ret x)" "cachea (raise e)" for x :: 'b and e
    by (simp_all add: cachea_def ret_def raise_def)
  moreover have "cachea (getAccountIdsByCode cs)" for cs
    by (simp add: cachea_def getAccountIdsByCode_state)
  moreover have "cachea (modify (\<lambda>s. s\<lparr>accountsCache := f (accountsCache s)\<rparr>))" for f
    by (auto simp: cachea_def modify_def solo_cache_def)
  ultimately show ?thesis
    unfolding getAccountByCode_def by (intro cachea_ebind) (auto split: option.split intro!: cachea_ebind)
qed

lemmas cachea_intros = cachea_ebind cachea_lift cachea_getAccountByCode

lemma cachea_rent [simp]: "cachea (createMonthlyRentEntry lx rp)"
  unfolding createMonthlyRentEntry_def Let_def by (intro cachea_intros)

lemma cachea_deposit [simp]: "cachea (createDepositEntry dp)"
  by (cases "de_entryType dp") (simp_all add: createDepositEntry_def cachea_intros Let_def)

lemma cachea_honorarios [simp]: "cachea (createHonorariosEntry lx hp)"
  unfolding createHonorariosEntry_def Let_def by (intro cachea_intros)

lemma fabrica_ok:
  "createMonthlyRentEntry lx rp s = (Inr d, s') \<Longrightarrow> dto_ok d"
  "createDepositEntry dp s = (Inr d, s') \<Longrightarrow> dto_ok d"
  "createHonorariosEntry lx hp s = (Inr d, s') \<Longrightarrow> dto_ok d"
  by (auto simp: createMonthlyRentEntry_def createDepositEntry_def createHonorariosEntry_def Let_def proc_simps
      split: tipo_deposito.splits intro!: build_ok dest!: addDebit_ok addCredit_ok)

end
