(* ===== verification/Parties.thy ===== *)
theory Parties
  imports EntryBuilder
begin

text \<open>
  The collections a contract refers to: \<^verbatim>\<open>src/modules/agents\<close> (people and companies),
  \<^verbatim>\<open>src/modules/properties\<close> and \<^verbatim>\<open>src/modules/contract-settings\<close>. The records hold the
  fields the services of this development read or write.
\<close>

section \<open>Agents\<close>

text \<open>A bank account of an agent is its \<^verbatim>\<open>cbu_numero\<close>.\<close>

datatype agente_rol =
    CLIENTE | LOCADOR | LOCATARIO | FIADOR | PROVEEDOR | PROVEEDOR_SERVICIO_PUBLICO
  | INMOBILIARIA | COMPRADOR | VENDEDOR

record agente =
  ag_id :: oid
  ag_rol :: "agente_rol list"
  nomenclador_fiscal :: "string option"
  identificador_fiscal :: string
  cuit_validado :: bool
  cuit_validado_en :: "fecha option"
  nombre_razon_social :: string
  nombres :: "string option"
  apellidos :: "string option"
  cuentas_bancarias :: "string list"
  dominios_notificacion :: "string list"
  servicio_id_regex :: "string option"
  ag_status :: string
  ag_usuario_creacion_id :: "oid option"
  ag_usuario_modificacion_id :: "oid option"

record bd_ag = bd_fab +
  agentes :: "agente list"

definition con_agentes :: "(agente list \<Rightarrow> agente list) \<Rightarrow> 'a bd_ag_scheme \<Rightarrow> 'a bd_ag_scheme" where
  "con_agentes f s = s\<lparr>agentes := f (agentes s)\<rparr>"

interpretation agtes: coleccion ag_id agentes con_agentes
  by unfold_locales (simp add: con_agentes_def)

definition ag_no_encontrado :: "oid \<Rightarrow> excepcion" where
  "ag_no_encontrado i = NotFoundException ''Agent with ID {} not found.'' [AId i]"

text \<open>\<^verbatim>\<open>identificador_fiscal\<close> has a unique index.\<close>

definition ag_create :: "agente \<Rightarrow> oid \<Rightarrow> ('a bd_ag_scheme, agente) proc" where
  "ag_create dto userId =
     ebind nuevo_id (\<lambda>i.
     ebind (gets agentes) (\<lambda>as.
     let a = dto\<lparr>ag_id := i, ag_usuario_creacion_id := Some userId,
                 ag_usuario_modificacion_id := Some userId\<rparr>
     in if identificador_fiscal a \<in> identificador_fiscal ` set as
        then raise (ErrorJS ''E11000 duplicate key error'' [])
        else ebind (modify (con_agentes (\<lambda>as. as @ [a]))) (\<lambda>_. ret a)))"

definition ag_findOne :: "oid \<Rightarrow> ('a bd_ag_scheme, agente) proc" where
  "ag_findOne i = obtener ag_id agentes i (ag_no_encontrado i)"

definition findOneByRole :: "agente_rol \<Rightarrow> ('a bd_ag_scheme, agente option) proc" where
  "findOneByRole role = gets (\<lambda>s. find (\<lambda>a. role \<in> set (ag_rol a)) (agentes s))"

definition ag_update ::
  "oid \<Rightarrow> (agente \<Rightarrow> agente) \<Rightarrow> oid \<Rightarrow> ('a bd_ag_scheme, agente) proc" where
  "ag_update i f userId =
     ebind (obtener ag_id agentes i (ag_no_encontrado i)) (\<lambda>a.
     let a' = (f a)\<lparr>ag_id := i, ag_usuario_modificacion_id := Some userId\<rparr> in
     ebind (modify (con_agentes (save_doc ag_id a'))) (\<lambda>_. ret a'))"

definition ag_remove :: "oid \<Rightarrow> ('a bd_ag_scheme, unit) proc" where
  "ag_remove i =
     ebind (ag_findOne i) (\<lambda>a.
     modify (con_agentes (save_doc ag_id (a\<lparr>ag_status := ''INACTIVO''\<rparr>))))"

definition getAgentBalance :: "oid \<Rightarrow> ('a bd_ag_scheme, monto) proc" where
  "getAgentBalance i = ebind (ag_findOne i) (\<lambda>_. calculateAgentBalance i)"

section \<open>Properties\<close>

record direccion_prop =
  calle :: string
  numero :: string
  piso_dpto :: string
  localidad_id :: oid

record servicio_impuesto =
  proveedor_id :: oid
  identificador_servicio :: string
  porcentaje_aplicacion :: "rat option"

record propiedad =
  pp_id :: oid
  propietarios_ids :: "oid list"
  identificador_interno :: string
  direccion :: "direccion_prop option"
  servicios_impuestos :: "servicio_impuesto list"
  pp_status :: string
  contrato_vigente_id :: "oid option"
  pp_usuario_creacion_id :: "oid option"
  pp_usuario_modificacion_id :: "oid option"

record bd_pp = bd_ag +
  propiedades :: "propiedad list"

definition con_propiedades ::
  "(propiedad list \<Rightarrow> propiedad list) \<Rightarrow> 'a bd_pp_scheme \<Rightarrow> 'a bd_pp_scheme" where
  "con_propiedades f s = s\<lparr>propiedades := f (propiedades s)\<rparr>"

interpretation props: coleccion pp_id propiedades con_propiedades
  by unfold_locales (simp add: con_propiedades_def)

definition pp_create :: "propiedad \<Rightarrow> oid \<Rightarrow> ('a bd_pp_scheme, propiedad) proc" where
  "pp_create dto userId =
     ebind (for_each ag_findOne (propietarios_ids dto)) (\<lambda>_.
     ebind nuevo_id (\<lambda>i.
     ebind (gets propiedades) (\<lambda>ps.
     let p = dto\<lparr>pp_id := i, pp_status := ''DISPONIBLE'', pp_usuario_creacion_id := Some userId,
                 pp_usuario_modificacion_id := Some userId\<rparr>
     in if identificador_interno p \<in> identificador_interno ` set ps
        then raise (ErrorJS ''E11000 duplicate key error'' [])
        else ebind (modify (con_propiedades (\<lambda>ps. ps @ [p]))) (\<lambda>_. ret p))))"

definition pp_findOne :: "oid \<Rightarrow> ('a bd_pp_scheme, propiedad) proc" where
  "pp_findOne i =
     obtener pp_id propiedades i (NotFoundException ''Property with ID {} not found.'' [AId i])"

definition findByMedidor :: "string \<Rightarrow> ('a bd_pp_scheme, propiedad list) proc" where
  "findByMedidor ident =
     gets (\<lambda>s. filter (\<lambda>p. ident \<in> identificador_servicio ` set (servicios_impuestos p)) (propiedades s))"

record update_property_dto =
  up_status :: "string option"
  up_contrato_vigente_id :: "oid option"
  up_resto :: "propiedad \<Rightarrow> propiedad"

text \<open>\<open>None\<close> is a field the request does not give; \<open>up_resto\<close> sets its other fields.\<close>

definition pp_update :: "oid \<Rightarrow> update_property_dto \<Rightarrow> oid \<Rightarrow> ('a bd_pp_scheme, propiedad) proc" where
  "pp_update i dto userId =
     ebind (obtener pp_id propiedades i (NotFoundException ''Propiedad con ID {} no encontrada.'' [AId i])) (\<lambda>p.
     if contrato_vigente_id p \<noteq> None \<and> up_status dto = Some ''DISPONIBLE''
     then raise (BadRequestException
            ''El estado de la propiedad debe ser liberado por la finalizacion del contrato.'' [])
     else
       let p' = (up_resto dto p)\<lparr>pp_id := i, pp_status := coalesce (up_status dto) (pp_status p),
                  contrato_vigente_id := (case up_contrato_vigente_id dto of
                     None \<Rightarrow> contrato_vigente_id p | Some c \<Rightarrow> Some c),
                  pp_usuario_modificacion_id := Some userId\<rparr>
       in ebind (modify (con_propiedades (save_doc pp_id p'))) (\<lambda>_. ret p'))"

definition pp_remove :: "oid \<Rightarrow> ('a bd_pp_scheme, unit) proc" where
  "pp_remove i =
     ebind (pp_findOne i) (\<lambda>p.
     modify (con_propiedades (save_doc pp_id (p\<lparr>pp_status := ''INACTIVO''\<rparr>))))"

section \<open>Contract settings\<close>

record config_tipo =
  tipo_contrato_cfg :: string
  duracion_meses_default :: nat
  indice_tipo_default :: string
  ajuste_periodicidad_meses_default :: nat
  permite_renovacion_automatica :: bool
  ct_honorarios_locador :: "rat option"
  ct_honorarios_locatario :: "rat option"
  ct_descripcion :: string

record contract_settings =
  cs_id :: oid
  interes_mora_diaria_default :: rat
  dias_mora_default :: nat
  iva_calculo_base_default :: string
  comision_administracion_default :: rat
  honorarios_locador_porcentaje_default :: rat
  honorarios_locador_cuotas_default :: nat
  honorarios_locatario_porcentaje_default :: rat
  honorarios_locatario_cuotas_default :: nat
  tipos_contrato :: "config_tipo list"
  deposito_cuotas_default :: nat
  deposito_tipo_ajuste_default :: string
  deposito_meses_alquiler :: nat
  ajuste_es_fijo_default :: bool
  ajuste_porcentaje_default :: rat
  dias_aviso_vencimiento :: nat
  dias_aviso_ajuste :: nat
  enviar_recordatorio_pago :: bool
  rescision_dias_preaviso_minimo :: nat
  rescision_dias_sin_penalidad :: nat
  rescision_porcentaje_penalidad :: rat
  cs_usuario_modificacion_id :: "oid option"
  activo :: bool

record bd_cfg = bd_pp +
  configuraciones :: "contract_settings list"

definition con_config ::
  "(contract_settings list \<Rightarrow> contract_settings list) \<Rightarrow> 'a bd_cfg_scheme \<Rightarrow> 'a bd_cfg_scheme" where
  "con_config f s = s\<lparr>configuraciones := f (configuraciones s)\<rparr>"

interpretation cfgs: coleccion cs_id configuraciones con_config
  by unfold_locales (simp add: con_config_def)

definition getSettings :: "('a bd_cfg_scheme, contract_settings) proc" where
  "getSettings =
     ebind (gets (\<lambda>s. find activo (configuraciones s))) (\<lambda>c.
     case c of
       None \<Rightarrow> raise (NotFoundException
         ''Contract settings not initialized. Please run: npm run seed:contract-settings'' [])
     | Some c \<Rightarrow> ret c)"

definition tipo_cfg ::
  "string \<Rightarrow> nat \<Rightarrow> string \<Rightarrow> nat \<Rightarrow> bool \<Rightarrow> rat option \<Rightarrow> rat option \<Rightarrow> string \<Rightarrow> config_tipo" where
  "tipo_cfg t d i a r hl ht de =
     \<lparr>tipo_contrato_cfg = t, duracion_meses_default = d, indice_tipo_default = i,
      ajuste_periodicidad_meses_default = a, permite_renovacion_automatica = r,
      ct_honorarios_locador = hl, ct_honorarios_locatario = ht, ct_descripcion = de\<rparr>"

definition tipos_default :: "config_tipo list" where
  "tipos_default =
     [tipo_cfg ''VIVIENDA_UNICA'' 36 ''ICL'' 12 True (Some 2) (Some 2)
        ''Contrato de vivienda unica - Ley 27.551'',
      tipo_cfg ''VIVIENDA'' 24 ''ICL'' 12 False (Some 2) (Some 2) ''Contrato de vivienda estandar'',
      tipo_cfg ''COMERCIAL'' 36 ''IPC'' 6 True None (Some 5) ''Contrato comercial'',
      tipo_cfg ''TEMPORARIO'' 6 ''FIJO'' 6 False None None ''Contrato temporario'',
      tipo_cfg ''OTROS'' 12 ''FIJO'' 12 False None None ''Otros tipos de contrato'']"

definition settings_default :: "oid \<Rightarrow> contract_settings" where
  "settings_default i =
     \<lparr>cs_id = i, interes_mora_diaria_default = 1 / 20, dias_mora_default = 10,
      iva_calculo_base_default = ''MAS_IVA'', comision_administracion_default = 7,
      honorarios_locador_porcentaje_default = 2, honorarios_locador_cuotas_default = 1,
      honorarios_locatario_porcentaje_default = 5, honorarios_locatario_cuotas_default = 2,
      tipos_contrato = tipos_default, deposito_cuotas_default = 1,
      deposito_tipo_ajuste_default = ''AL_ULTIMO_ALQUILER'', deposito_meses_alquiler = 1,
      ajuste_es_fijo_default = False, ajuste_porcentaje_default = 0,
      dias_aviso_vencimiento = 60, dias_aviso_ajuste = 30, enviar_recordatorio_pago = True,
      rescision_dias_preaviso_minimo = 30, rescision_dias_sin_penalidad = 90,
      rescision_porcentaje_penalidad = 10, cs_usuario_modificacion_id = None, activo = True\<rparr>"

text \<open>\<^verbatim>\<open>findOneAndUpdate\<close> with \<^verbatim>\<open>$setOnInsert\<close> and \<^verbatim>\<open>upsert\<close>.\<close>

definition initializeDefaults :: "('a bd_cfg_scheme, contract_settings) proc" where
  "initializeDefaults =
     ebind (gets (\<lambda>s. find activo (configuraciones s))) (\<lambda>c.
     case c of
       Some c \<Rightarrow> ret c
     | None \<Rightarrow>
         ebind nuevo_id (\<lambda>i.
         ebind (modify (con_config (\<lambda>cs. cs @ [settings_default i]))) (\<lambda>_. ret (settings_default i))))"

record settings_tipo =
  st_settings :: contract_settings
  st_tipo :: config_tipo
  st_locador_porcentaje :: rat
  st_locatario_porcentaje :: rat

definition getSettingsByTipoContrato :: "string \<Rightarrow> ('a bd_cfg_scheme, settings_tipo) proc" where
  "getSettingsByTipoContrato tipo =
     ebind getSettings (\<lambda>settings.
     case find (\<lambda>t. tipo_contrato_cfg t = tipo) (tipos_contrato settings) of
       None \<Rightarrow> raise (NotFoundException
         ''No se encontro configuracion para el tipo de contrato: {}'' [AStr tipo])
     | Some cfg \<Rightarrow>
         let hl0 = coalesce (ct_honorarios_locador cfg) (honorarios_locador_porcentaje_default settings);
             ht0 = coalesce (ct_honorarios_locatario cfg) (honorarios_locatario_porcentaje_default settings);
             vivienda = tipo_contrato_cfg cfg \<in> {''VIVIENDA_UNICA'', ''VIVIENDA''};
             hl = (if vivienda \<and> ct_honorarios_locador cfg = None then 2 else hl0);
             ht = (if vivienda \<and> ct_honorarios_locatario cfg = None then 2
                   else if \<not> vivienda \<and> tipo_contrato_cfg cfg = ''COMERCIAL'' \<and>
                     ct_honorarios_locatario cfg = None then 5
                   else ht0)
         in ret \<lparr>st_settings = settings,
                 st_tipo = cfg\<lparr>ct_honorarios_locador := Some hl, ct_honorarios_locatario := Some ht\<rparr>,
                 st_locador_porcentaje = hl, st_locatario_porcentaje = ht\<rparr>)"

definition updateSettings ::
  "(contract_settings \<Rightarrow> contract_settings) \<Rightarrow> oid \<Rightarrow> ('a bd_cfg_scheme, contract_settings) proc" where
  "updateSettings f userId =
     ebind getSettings (\<lambda>settings.
     let c' = (f settings)\<lparr>cs_id := cs_id settings, cs_usuario_modificacion_id := Some userId\<rparr> in
     ebind (modify (con_config (save_doc cs_id c'))) (\<lambda>_. ret c'))"

definition resetToDefaults :: "oid \<Rightarrow> ('a bd_cfg_scheme, contract_settings) proc" where
  "resetToDefaults userId =
     updateSettings (\<lambda>c. (settings_default (cs_id c))\<lparr>tipos_contrato := tipos_contrato c,
        activo := activo c\<rparr>) userId"

lemma find_agregado: "find P xs = None \<Longrightarrow> P x \<Longrightarrow> find P (xs @ [x]) = Some x"
  by (induction xs) (auto split: if_splits)

lemma initializeDefaults_then_getSettings:
  assumes "initializeDefaults s = (r, s')"
  shows "\<exists>c. r = Inr c \<and> getSettings s' = (Inr c, s')"
proof (cases "find activo (configuraciones s)")
  case (Some c)
  then show ?thesis using assms by (auto simp: initializeDefaults_def getSettings_def ret_def)
next
  case None
  have "activo (settings_default i)" for i by (simp add: settings_default_def)
  note f = find_agregado [OF None this]
  show ?thesis
    using assms None f by (auto simp: initializeDefaults_def getSettings_def ret_def con_config_def)
qed

end
