(* ===== verification/Contracts.thy ===== *)
theory Contracts
  imports Parties
begin

text \<open>
  \<^verbatim>\<open>src/modules/contracts/contracts.service.ts\<close>: the contract, its creation, its update with
  the guards of activation, the accounting entries that activation generates, the deletion with
  its entries, and the deposits to return. \<open>tz\<close> is the offset of local time and \<open>lx\<close> the
  \<^verbatim>\<open>luxon\<close> operations.
\<close>

section \<open>The entity\<close>

record parte =
  pt_agente_id :: oid
  pt_rol :: agente_rol

record terminos =
  monto_base_vigente :: monto
  indice_tipo :: string
  interes_mora_diaria :: "rat option"
  iva_calculo_base :: "string option"
  comision_administracion_porcentaje :: "rat option"
  honorarios_locador_porcentaje :: "rat option"
  honorarios_locador_cuotas :: "nat option"
  honorarios_locatario_porcentaje :: "rat option"
  honorarios_locatario_cuotas :: "nat option"
  ajuste_periodicidad_meses :: "int option"

datatype estado_contrato = C_VIGENTE | C_FINALIZADO | C_RESCINDIDO | C_PENDIENTE

record contrato =
  ct_id :: oid
  firmas_completas :: bool
  documentacion_completa :: bool
  visita_realizada :: bool
  inventario_actualizado :: bool
  fotos_inventario :: "string list"
  inventory_version_id :: "oid option"
  propiedad_id :: oid
  partes :: "parte list"
  fecha_inicio :: fecha
  fecha_final :: fecha
  duracion_meses :: int
  tipo_contrato :: string
  ct_status :: estado_contrato
  terminos_financieros :: terminos
  deposito_monto :: "monto option"
  deposito_tipo_ajuste :: "string option"
  ajuste_programado :: "fecha option"
  ct_usuario_creacion_id :: "oid option"
  ct_usuario_modificacion_id :: "oid option"

text \<open>The service keeps two caches of its own.\<close>

record bd_ct = bd_cfg +
  contratos :: "contrato list"
  accountIdsCache :: "(string \<rightharpoonup> oid) option"
  inmobiliariaAgentIdCache :: "oid option"

definition con_contratos ::
  "(contrato list \<Rightarrow> contrato list) \<Rightarrow> 'a bd_ct_scheme \<Rightarrow> 'a bd_ct_scheme" where
  "con_contratos f s = s\<lparr>contratos := f (contratos s)\<rparr>"

interpretation cts: coleccion ct_id contratos con_contratos
  by unfold_locales (simp add: con_contratos_def)

abbreviation contrato_de :: "oid \<Rightarrow> 'a bd_ct_scheme \<Rightarrow> contrato option" where
  "contrato_de i s \<equiv> find_id ct_id i (contratos s)"

definition REQUIRED_ACCOUNTS :: "string list" where
  "REQUIRED_ACCOUNTS = [''CXC_ALQ'', ''CXP_LOC'', ''ING_HNR'', ''ING_HNR_INIC'', ''PAS_DEP'', ''ACT_FID'']"

definition loadAccountIds :: "('a bd_ct_scheme, unit) proc" where
  "loadAccountIds =
     ebind (gets accountIdsCache) (\<lambda>c.
     case c of
       Some _ \<Rightarrow> ret ()
     | None \<Rightarrow> ebind (getAccountIdsByCode REQUIRED_ACCOUNTS) (\<lambda>m.
         modify (\<lambda>s. s\<lparr>accountIdsCache := Some m\<rparr>)))"

text \<open>The address is a template of three holes, or of fewer when a part is empty.\<close>

definition unir_espacio :: "string list \<Rightarrow> string" where
  "unir_espacio xs = concat (case xs of [] \<Rightarrow> [] | y # ys \<Rightarrow> y # map (\<lambda>z. '' '' @ z) ys)"

definition getPropertyAddress :: "propiedad option \<Rightarrow> string" where
  "getPropertyAddress p =
     (case p of
        None \<Rightarrow> ''Propiedad Desconocida''
      | Some q \<Rightarrow>
          (case direccion q of
             None \<Rightarrow> ''Propiedad Desconocida''
           | Some d \<Rightarrow>
               let partes_d = filter (\<lambda>x. x \<noteq> []) [calle d, numero d, piso_dpto d]
               in if partes_d = [] then ''Propiedad Desconocida'' else unir_espacio partes_d))"

definition getInmobiliariaAgentId :: "('a bd_ct_scheme, oid option) proc" where
  "getInmobiliariaAgentId =
     ebind (gets inmobiliariaAgentIdCache) (\<lambda>c.
     case c of
       Some i \<Rightarrow> ret (Some i)
     | None \<Rightarrow>
         ebind (findOneByRole INMOBILIARIA) (\<lambda>agent.
         case agent of
           None \<Rightarrow> ret None
         | Some a \<Rightarrow>
             ebind (modify (\<lambda>s. s\<lparr>inmobiliariaAgentIdCache := Some (ag_id a)\<rparr>)) (\<lambda>_.
             ret (Some (ag_id a)))))"

section \<open>Creation\<close>

record create_contract_dto =
  cc_contrato :: contrato
  cc_duracion_meses :: "int option"
  cc_tipo_contrato :: "string option"
  cc_status :: "estado_contrato option"

text \<open>
  The fields the request may leave out are options; the rest of the request is in
  \<open>cc_contrato\<close>, whose own values of those fields are not read.
\<close>

definition tipos_contrato_enum :: "string list" where
  "tipos_contrato_enum = [''VIVIENDA_UNICA'', ''VIVIENDA'', ''COMERCIAL'', ''TEMPORARIO'', ''OTROS'']"

definition mayuscula :: "char \<Rightarrow> char" where
  "mayuscula c = (let n = (of_char c :: nat) in if 97 \<le> n \<and> n \<le> 122 then char_of (n - 32) else c)"

definition toUpperCase :: "string \<Rightarrow> string" where
  "toUpperCase s = map mayuscula s"

definition duracion_calculada :: "int \<Rightarrow> fecha \<Rightarrow> fecha \<Rightarrow> int" where
  "duracion_calculada tz start end_f =
     (let d = (getFullYear tz end_f - getFullYear tz start) * 12 + (getMonth tz end_f - getMonth tz start)
      in if getDate tz end_f \<ge> getDate tz start then d + 1 else d)"

definition ct_create ::
  "int \<Rightarrow> create_contract_dto \<Rightarrow> oid \<Rightarrow> ('a bd_ct_scheme, contrato) proc" where
  "ct_create tz dto userId =
     ebind loadAccountIds (\<lambda>_.
     ebind getSettings (\<lambda>settings.
     let c0 = cc_contrato dto;
         t0 = terminos_financieros c0;
         tipo = toUpperCase (o_texto (cc_tipo_contrato dto) ''VIVIENDA'');
         dur = (case cc_duracion_meses dto of
                  Some d \<Rightarrow> if d = 0 then duracion_calculada tz (fecha_inicio c0) (fecha_final c0) else d
                | None \<Rightarrow> duracion_calculada tz (fecha_inicio c0) (fecha_final c0));
         t = t0\<lparr>interes_mora_diaria :=
                   Some (coalesce (interes_mora_diaria t0) (interes_mora_diaria_default settings)),
                comision_administracion_porcentaje :=
                   Some (coalesce (comision_administracion_porcentaje t0)
                          (comision_administracion_default settings))\<rparr>
     in
     ebind nuevo_id (\<lambda>i.
     let c = c0\<lparr>ct_id := i, tipo_contrato := tipo, duracion_meses := dur,
                ct_status := coalesce (cc_status dto) C_PENDIENTE, terminos_financieros := t,
                deposito_tipo_ajuste := Some (o_texto (deposito_tipo_ajuste c0)
                  (deposito_tipo_ajuste_default settings)),
                ct_usuario_creacion_id := Some userId, ct_usuario_modificacion_id := Some userId\<rparr>
     in
     if tipo \<notin> set tipos_contrato_enum
     then raise (ErrorJS ''Contract validation failed'' [])
     else
     ebind (modify (con_contratos (\<lambda>cs. cs @ [c]))) (\<lambda>_.
     ebind (pp_update (propiedad_id c)
              \<lparr>up_status = Some ''ALQUILADO'', up_contrato_vigente_id = Some i, up_resto = (\<lambda>p. p)\<rparr> userId) (\<lambda>_.
     ret c)))))"

definition ct_findOne :: "oid \<Rightarrow> ('a bd_ct_scheme, contrato) proc" where
  "ct_findOne i = obtener ct_id contratos i (NotFoundException ''Contrato con ID {} no encontrado'' [AId i])"

section \<open>The entries that activation generates\<close>

definition agente_con_rol :: "agente_rol \<Rightarrow> contrato \<Rightarrow> oid option" where
  "agente_con_rol r c = map_option pt_agente_id (find (\<lambda>p. pt_rol p = r) (partes c))"

definition crear_de_contrato :: "contrato \<Rightarrow> oid \<Rightarrow> asiento_dto \<Rightarrow> ('a bd_ct_scheme, asiento) proc" where
  "crear_de_contrato c userId d =
     create (d\<lparr>d_contrato_id := Some (ct_id c), d_usuario_creacion_id := Some userId,
               d_usuario_modificacion_id := Some userId\<rparr>)"

definition propiedad_de_contrato :: "contrato \<Rightarrow> 'a bd_ct_scheme \<Rightarrow> propiedad option" where
  "propiedad_de_contrato c s = find_id pp_id (propiedad_id c) (propiedades s)"

definition generateDepositEntry :: "contrato \<Rightarrow> oid \<Rightarrow> ('a bd_ct_scheme, unit) proc" where
  "generateDepositEntry c userId =
     (case (agente_con_rol LOCADOR c, agente_con_rol LOCATARIO c) of
        (Some locador, Some locatario) \<Rightarrow>
          ebind (gets (propiedad_de_contrato c)) (\<lambda>prop.
          ebind (createDepositEntry
             \<lparr>de_propertyAddress = getPropertyAddress prop, de_amount = deposito_monto c,
              de_date = fecha_inicio c, de_tenantId = Some locatario, de_landlordId = Some locador,
              de_entryType = DEP_COBRO\<rparr>) (\<lambda>cobroDto.
          ebind (crear_de_contrato c userId cobroDto) (\<lambda>_.
          ebind (createDepositEntry
             \<lparr>de_propertyAddress = getPropertyAddress prop, de_amount = deposito_monto c,
              de_date = fecha_final c, de_tenantId = Some locatario, de_landlordId = Some locador,
              de_entryType = DEP_DEVOLUCION\<rparr>) (\<lambda>devolucionDto.
          ebind (crear_de_contrato c userId devolucionDto) (\<lambda>_. ret ())))))
      | _ \<Rightarrow> ret ())"

text \<open>\<^verbatim>\<open>agent?.nombres || 'Locador Desconocido'\<close>.\<close>

definition nombre_agente :: "agente \<Rightarrow> string \<Rightarrow> string" where
  "nombre_agente a d = o_texto (nombres a) d"

definition mesesContrato :: "luxon \<Rightarrow> contrato \<Rightarrow> int" where
  "mesesContrato lx c = math_round (lx_meses lx (fecha_final c) (fecha_inicio c))"

definition cuotas_honorarios ::
  "luxon \<Rightarrow> contrato \<Rightarrow> oid \<Rightarrow> string \<Rightarrow> rat \<Rightarrow> nat \<Rightarrow> oid \<Rightarrow> string \<Rightarrow> tipo_agente \<Rightarrow> oid option \<Rightarrow>
   ('a bd_ct_scheme, unit) proc" where
  "cuotas_honorarios lx c userId addr porcentaje cuotas agente nombre_ag tipo inmo =
     (if porcentaje > 0 then
        ebind (for_each (\<lambda>i.
          ebind (createHonorariosEntry lx
             \<lparr>ho_propertyAddress = addr,
              ho_totalContractAmount =
                of_int (mesesContrato lx c) * monto_base_vigente (terminos_financieros c),
              ho_percentage = porcentaje, ho_installments = cuotas, ho_installmentNumber = i + 1,
              ho_startDate = fecha_inicio c, ho_agentId = agente, ho_agentName = nombre_ag,
              ho_agentType = tipo, ho_inmobiliariaId = inmo\<rparr>)
            (crear_de_contrato c userId)) [0..<cuotas]) (\<lambda>_. ret ())
      else ret ())"

definition generateHonorariosEntries :: "luxon \<Rightarrow> contrato \<Rightarrow> oid \<Rightarrow> ('a bd_ct_scheme, unit) proc" where
  "generateHonorariosEntries lx c userId =
     (case (agente_con_rol LOCADOR c, agente_con_rol LOCATARIO c) of
        (Some locador, Some locatario) \<Rightarrow>
          ebind (gets (propiedad_de_contrato c)) (\<lambda>prop.
          ebind (ag_findOne locador) (\<lambda>la.
          ebind (ag_findOne locatario) (\<lambda>ta.
          ebind getInmobiliariaAgentId (\<lambda>inmo.
          let t = terminos_financieros c; addr = getPropertyAddress prop in
          ebind (cuotas_honorarios lx c userId addr
                   (coalesce (honorarios_locador_porcentaje t) 0)
                   (coalesce (honorarios_locador_cuotas t) 1) locador
                   (nombre_agente la ''Locador Desconocido'') LOCADOR_H inmo) (\<lambda>_.
          cuotas_honorarios lx c userId addr
                   (coalesce (honorarios_locatario_porcentaje t) 0)
                   (coalesce (honorarios_locatario_cuotas t) 1) locatario
                   (nombre_agente ta ''Locatario Desconocido'') LOCATARIO_H inmo)))))
      | _ \<Rightarrow> ret ())"

definition mesesAjuste :: "int option \<Rightarrow> int \<Rightarrow> int" where
  "mesesAjuste periodicidad meses =
     (case periodicidad of
        None \<Rightarrow> 12
      | Some m \<Rightarrow> if m \<le> 0 \<or> m > meses then 12 else m)"

definition esMesAjuste :: "int \<Rightarrow> nat \<Rightarrow> bool" where
  "esMesAjuste ajuste mes \<longleftrightarrow> ajuste > 0 \<and> mes > 0 \<and> int mes mod ajuste = 0"

definition estado_mes :: "contrato \<Rightarrow> int \<Rightarrow> nat \<Rightarrow> string" where
  "estado_mes c ajuste mes =
     (if esMesAjuste ajuste mes \<and> indice_tipo (terminos_financieros c) \<noteq> ''FIJO''
      then ''PENDIENTE_AJUSTE'' else ''PENDIENTE'')"

definition generateInitialAccountingEntries ::
  "luxon \<Rightarrow> contrato \<Rightarrow> oid \<Rightarrow> ('a bd_ct_scheme, unit) proc" where
  "generateInitialAccountingEntries lx c userId =
     ebind getSettings (\<lambda>settings.
     let t = terminos_financieros c;
         comision = coalesce (comision_administracion_porcentaje t)
                      (comision_administracion_default settings) / 100
     in
     ebind (gets (propiedad_de_contrato c)) (\<lambda>prop.
     case (agente_con_rol LOCADOR c, agente_con_rol LOCATARIO c) of
       (Some locador, Some locatario) \<Rightarrow>
         ebind (ag_findOne locador) (\<lambda>la.
         ebind (ag_findOne locatario) (\<lambda>ta.
         ebind getInmobiliariaAgentId (\<lambda>inmo.
         let meses = mesesContrato lx c;
             ajuste = mesesAjuste (ajuste_periodicidad_meses t) meses
         in
         ebind (for_each (\<lambda>mes.
           ebind (createMonthlyRentEntry lx
             \<lparr>re_propertyAddress = getPropertyAddress prop,
              re_period = lx_plus lx (fecha_inicio c) (int mes) 0,
              re_periodNumber = mes + 1, re_totalPeriods = meses,
              re_amount = monto_base_vigente t, re_commissionRate = comision,
              re_tenantId = locatario, re_tenantName = nombre_agente ta ''Locatario Desconocido'',
              re_landlordId = locador, re_landlordName = nombre_agente la ''Locador Desconocido'',
              re_inmobiliariaId = inmo, re_state = estado_mes c ajuste mes,
              re_isAdjustable = (estado_mes c ajuste mes = ''PENDIENTE_AJUSTE'')\<rparr>)
             (crear_de_contrato c userId)) [0..<nat meses]) (\<lambda>_. ret ()))))
     | _ \<Rightarrow> raise (BadRequestException
              ''Se requiere un locador y un locatario en las partes del contrato'' [])))"

section \<open>Update and activation\<close>

record update_contract_dto =
  uc_status :: "estado_contrato option"
  uc_firmas_completas :: "bool option"
  uc_documentacion_completa :: "bool option"
  uc_visita_realizada :: "bool option"
  uc_inventario_actualizado :: "bool option"
  uc_fotos_inventario :: "string list option"
  uc_inventory_version_id :: "oid option"
  uc_resto :: "contrato \<Rightarrow> contrato"

text \<open>\<open>uc_resto\<close> sets the fields of the request that the guards do not read.\<close>

definition aplicar_update :: "update_contract_dto \<Rightarrow> oid \<Rightarrow> contrato \<Rightarrow> contrato" where
  "aplicar_update dto userId c =
     (uc_resto dto c)\<lparr>ct_id := ct_id c,
       ct_status := coalesce (uc_status dto) (ct_status c),
       firmas_completas := coalesce (uc_firmas_completas dto) (firmas_completas c),
       documentacion_completa := coalesce (uc_documentacion_completa dto) (documentacion_completa c),
       visita_realizada := coalesce (uc_visita_realizada dto) (visita_realizada c),
       inventario_actualizado := coalesce (uc_inventario_actualizado dto) (inventario_actualizado c),
       fotos_inventario := coalesce (uc_fotos_inventario dto) (fotos_inventario c),
       inventory_version_id := (case uc_inventory_version_id dto of
          None \<Rightarrow> inventory_version_id c | Some v \<Rightarrow> Some v),
       ct_usuario_modificacion_id := Some userId\<rparr>"

definition guarda_activacion :: "update_contract_dto \<Rightarrow> contrato \<Rightarrow> string option" where
  "guarda_activacion dto c =
     (if \<not> coalesce (uc_firmas_completas dto) (firmas_completas c)
      then Some ''No se puede activar el contrato: faltan firmas de las partes.''
      else if \<not> coalesce (uc_documentacion_completa dto) (documentacion_completa c)
      then Some ''No se puede activar el contrato: falta documentacion obligatoria.''
      else if \<not> coalesce (uc_visita_realizada dto) (visita_realizada c)
      then Some ''No se puede activar el contrato: falta registrar la visita a la vivienda.''
      else if \<not> coalesce (uc_inventario_actualizado dto) (inventario_actualizado c)
      then Some ''No se puede activar el contrato: el inventario debe estar actualizado y confirmado.''
      else if coalesce (uc_fotos_inventario dto) (fotos_inventario c) = []
      then Some ''No se puede activar el contrato: deben adjuntarse fotos del inventario.''
      else if uc_inventory_version_id dto = None \<and> inventory_version_id c = None
      then Some ''No se puede activar el contrato: debe seleccionar una version de inventario.''
      else None)"

definition contrato_no_existe :: "oid \<Rightarrow> excepcion" where
  "contrato_no_existe i = NotFoundException ''Contract with ID {} not found.'' [AId i]"

text \<open>The first block of the method: the guards, and whether entries must be generated.\<close>

definition revisar_activacion ::
  "oid \<Rightarrow> update_contract_dto \<Rightarrow> ('a bd_ct_scheme, bool) proc" where
  "revisar_activacion i dto =
     (if uc_status dto = Some C_VIGENTE then
        ebind (obtener ct_id contratos i (contrato_no_existe i)) (\<lambda>c.
        case guarda_activacion dto c of
          Some msg \<Rightarrow> raise (BadRequestException msg [])
        | None \<Rightarrow> ret (ct_status c = C_PENDIENTE))
      else ret False)"

definition ct_update ::
  "luxon \<Rightarrow> oid \<Rightarrow> update_contract_dto \<Rightarrow> oid \<Rightarrow> ('a bd_ct_scheme, contrato) proc" where
  "ct_update lx i dto userId =
     ebind (revisar_activacion i dto) (\<lambda>generarAsientos.
     ebind (obtener ct_id contratos i (contrato_no_existe i)) (\<lambda>c.
     let c' = aplicar_update dto userId c in
     ebind (modify (con_contratos (save_doc ct_id c'))) (\<lambda>_.
     if generarAsientos then
       ebind loadAccountIds (\<lambda>_.
       ebind (generateInitialAccountingEntries lx c' userId) (\<lambda>_.
       ebind (generateDepositEntry c' userId) (\<lambda>_.
       ebind (generateHonorariosEntries lx c' userId) (\<lambda>_. ret c'))))
     else ret c')))"

section \<open>Deletion\<close>

definition deleteWithEntries :: "oid \<Rightarrow> ('a bd_ct_scheme, bool \<times> nat) proc" where
  "deleteWithEntries i =
     ebind (deleteManyByContractId i) (\<lambda>n.
     ebind (gets (\<lambda>s. contrato_de i s \<noteq> None)) (\<lambda>habia.
     ebind (modify (con_contratos (delete_one (\<lambda>c. ct_id c = i)))) (\<lambda>_. ret (habia, n))))"

definition ct_getAccruedIncome :: "oid \<Rightarrow> fecha \<Rightarrow> fecha \<Rightarrow> ('a bd_ct_scheme, monto) proc" where
  "ct_getAccruedIncome c desde hasta =
     ebind (findByContractAndDateRange c desde hasta None) (\<lambda>as. ret (ingreso_devengado as))"

section \<open>Deposits to return\<close>

text \<open>Every field of the request may be left out; \<^verbatim>\<open>solo_proximos_a_vencer\<close> is then true.\<close>

record filtros_deposito =
  fd_fecha_desde :: "fecha option"
  fd_fecha_hasta :: "fecha option"
  fd_solo_proximos_a_vencer :: "bool option"

datatype estado_liquidacion = LIQ_PENDIENTE | LIQ_PARCIAL | LIQ_TOTAL

record deposito_pendiente =
  dp_contrato_id :: oid
  dp_fecha_inicio :: fecha
  dp_fecha_final :: fecha
  dias_hasta_finalizacion :: int
  dp_locador :: "oid \<times> string option"
  dp_locatario :: "oid \<times> string option"
  dp_direccion :: texto
  dp_monto_original :: monto
  dp_monto_a_devolver :: monto
  dp_tipo_ajuste :: "string option"
  dp_ultimo_monto_alquiler :: "monto option"
  dp_asiento_id :: oid
  dp_estado_liquidacion :: estado_liquidacion
  dp_monto_liquidado :: monto
  dp_saldo_pendiente :: monto

definition contrato_con_deposito :: "int \<Rightarrow> fecha \<Rightarrow> filtros_deposito \<Rightarrow> contrato \<Rightarrow> bool" where
  "contrato_con_deposito tz hoy f c \<longleftrightarrow>
     ct_status c \<in> {C_VIGENTE, C_FINALIZADO} \<and>
     (case deposito_monto c of None \<Rightarrow> False | Some m \<Rightarrow> m > 0) \<and>
     (if coalesce (fd_solo_proximos_a_vencer f) True
      then hoy \<le> fecha_final c \<and> fecha_final c \<le> setDate tz hoy (getDate tz hoy + 30)
      else en_rango (fd_fecha_desde f) (fd_fecha_hasta f) (fecha_final c))"

definition direccion_deposito :: "propiedad option \<Rightarrow> excepcion + texto" where
  "direccion_deposito p =
     (case p of
        None \<Rightarrow> Inr (''Propiedad Desconocida'', [])
      | Some q \<Rightarrow>
          (case direccion q of
             None \<Rightarrow> Inl (ErrorJS ''Cannot read properties of undefined'' [])
           | Some d \<Rightarrow> Inr (''{} {}, {}'', [AStr (calle d), AStr (numero d), AId (localidad_id d)])))"

text \<open>The amount to return, and the last rent when the deposit follows it.\<close>

definition monto_a_devolver ::
  "contrato \<Rightarrow> monto \<Rightarrow> ('a bd_ct_scheme, monto \<times> monto option) proc" where
  "monto_a_devolver c montoOriginal =
     (if deposito_tipo_ajuste c = Some ''AL_ULTIMO_ALQUILER'' then
        ebind (findByContractAndType (ct_id c) ''Alquiler'') (\<lambda>alquileres.
        case sort_key (\<lambda>a. - fecha_imputacion a) alquileres of
          [] \<Rightarrow> ret (montoOriginal, None)
        | u # _ \<Rightarrow> ret (monto_actual u, Some (monto_actual u)))
      else ret (montoOriginal, None))"

definition estado_liq :: "monto \<Rightarrow> monto \<Rightarrow> estado_liquidacion" where
  "estado_liq liq dev = (if liq \<ge> dev then LIQ_TOTAL else if liq > 0 then LIQ_PARCIAL else LIQ_PENDIENTE)"

definition fila_deposito ::
  "luxon \<Rightarrow> contrato \<Rightarrow> ('a bd_ct_scheme, deposito_pendiente list) proc" where
  "fila_deposito lx c =
     ebind (findByContractAndType (ct_id c) ''Deposito en Garantia'') (\<lambda>deps.
     case deps of [] \<Rightarrow> ret []
     | dep # _ \<Rightarrow>
       (case find (\<lambda>p. haber p > 0 \<and> p_agente_id p \<noteq> None) (partidas dep) of
          None \<Rightarrow> ret []
        | Some ph \<Rightarrow>
            let montoOriginal = haber ph; montoLiquidado = o_cero (monto_liquidado ph) in
            ebind (monto_a_devolver c montoOriginal) (\<lambda>(dev, ultimo).
            case (agente_con_rol LOCADOR c, agente_con_rol LOCATARIO c) of
              (Some locador, Some locatario) \<Rightarrow>
                ebind (ag_findOne locador) (\<lambda>la.
                ebind (ag_findOne locatario) (\<lambda>ta.
                ebind (gets ahora) (\<lambda>hoy.
                ebind (gets (propiedad_de_contrato c)) (\<lambda>prop.
                ebind (lift_result (direccion_deposito prop)) (\<lambda>dir.
                ret [\<lparr>dp_contrato_id = ct_id c, dp_fecha_inicio = fecha_inicio c,
                  dp_fecha_final = fecha_final c,
                  dias_hasta_finalizacion = \<lceil>lx_dias lx (fecha_final c) hoy\<rceil>,
                  dp_locador = (locador, nombres la), dp_locatario = (locatario, nombres ta),
                  dp_direccion = dir, dp_monto_original = montoOriginal,
                  dp_monto_a_devolver = dev, dp_tipo_ajuste = deposito_tipo_ajuste c,
                  dp_ultimo_monto_alquiler = ultimo, dp_asiento_id = a_id dep,
                  dp_estado_liquidacion = estado_liq montoLiquidado dev,
                  dp_monto_liquidado = montoLiquidado,
                  dp_saldo_pendiente = montoOriginal - montoLiquidado\<rparr>])))))
            | _ \<Rightarrow> ret [])))"

definition getDepositosPendientes ::
  "int \<Rightarrow> luxon \<Rightarrow> filtros_deposito \<Rightarrow> ('a bd_ct_scheme, deposito_pendiente list) proc" where
  "getDepositosPendientes tz lx f =
     ebind (gets (\<lambda>s. filter (contrato_con_deposito tz (ahora s) f) (contratos s))) (\<lambda>cs.
     ebind (for_each (fila_deposito lx) cs) (\<lambda>filas.
     ret (sort_key dias_hasta_finalizacion (concat filas))))"

end
