(* ===== verification/ContractLaws.thy ===== *)
theory ContractLaws
  imports Contracts
begin

text \<open>
  Lemmas on the contract service: what the generation of entries adds to the collection and what
  it leaves alone.
\<close>

section \<open>The type of a generated entry\<close>

definition tipos_generados :: "string list" where
  "tipos_generados = [''Alquiler'', ''Deposito en Garantia - Cobro'', ''Deposito en Garantia - Devolucion'',
     ''Honorarios Locador'', ''Honorarios Locatario'']"

lemma tipo_builder [simp]:
  "b_tipo (setDescription d b) = b_tipo b" "b_tipo (setDates x y b) = b_tipo b"
  "b_tipo (setState e b) = b_tipo b" "b_tipo (setAdjustable v b) = b_tipo b"
  "b_tipo (addMetadata k w b) = b_tipo b" "b_tipo (setType t b) = Some t"
  by (simp_all add: setType_def setDescription_def setDates_def setState_def setAdjustable_def
      addMetadata_def)

lemma tipo_linea:
  "addDebit c m ag d b = Inr b' \<Longrightarrow> b_tipo b' = b_tipo b"
  "addCredit c m ag d b = Inr b' \<Longrightarrow> b_tipo b' = b_tipo b"
  by (auto simp: addDebit_def addCredit_def split: if_splits)

lemma tipo_build: "build b = Inr d \<Longrightarrow> d_tipo_asiento d = b_tipo b"
  by (auto simp: build_def Let_def split: if_splits)

lemma fabrica_tipo:
  "createMonthlyRentEntry lx rp s = (Inr d, s') \<Longrightarrow> d_tipo_asiento d \<in> Some ` set tipos_generados"
  "createDepositEntry dp s = (Inr d, s') \<Longrightarrow> d_tipo_asiento d \<in> Some ` set tipos_generados"
  "createHonorariosEntry lx hp s = (Inr d, s') \<Longrightarrow> d_tipo_asiento d \<in> Some ` set tipos_generados"
  by (auto simp: createMonthlyRentEntry_def createDepositEntry_def createHonorariosEntry_def Let_def
      proc_simps tipos_generados_def tipo_devolucion_def split: tipo_deposito.splits if_splits
      dest!: tipo_linea tipo_build)

section \<open>Procedures that add entries of a contract\<close>

definition del_contrato :: "oid \<Rightarrow> asiento \<Rightarrow> bool" where
  "del_contrato i a \<longleftrightarrow> contrato_id a = Some i \<and> estado a = PENDIENTE \<and> asiento_ok a \<and>
     tipo_asiento a \<in> set tipos_generados"

definition agrega :: "oid \<Rightarrow> nat \<Rightarrow> 'a bd_ct_scheme \<Rightarrow> 'a bd_ct_scheme \<Rightarrow> bool" where
  "agrega i n s s' \<longleftrightarrow>
     (\<exists>nuevos. asientos s' = asientos s @ nuevos \<and> length nuevos = n \<and>
        list_all (del_contrato i) nuevos) \<and>
     (bd_ok s \<longrightarrow> bd_ok s') \<and>
     contratos s' = contratos s \<and> propiedades s' = propiedades s \<and> agentes s' = agentes s \<and>
     configuraciones s' = configuraciones s \<and> cuentas_fin s' = cuentas_fin s \<and> ahora s' = ahora s"

text \<open>\<open>genera i n m\<close>: a run of \<open>m\<close> adds entries of the contract and, when it succeeds, \<open>n\<close> of them.\<close>

definition genera :: "oid \<Rightarrow> nat \<Rightarrow> ('a bd_ct_scheme, 'b) proc \<Rightarrow> bool" where
  "genera i n m \<longleftrightarrow> (\<forall>s r s'. m s = (r, s') \<longrightarrow> (\<exists>k. agrega i k s s' \<and> ((\<exists>x. r = Inr x) \<longrightarrow> k = n)))"

lemma agrega_refl [simp]: "agrega i 0 s s"
  by (simp add: agrega_def)

lemma agrega_trans: "agrega i n s t \<Longrightarrow> agrega i m t u \<Longrightarrow> agrega i (n + m) s u"
  unfolding agrega_def by (elim conjE exE) (auto intro: exI [of _ "_ @ _"])

lemma generaD: "genera i n m \<Longrightarrow> m s = (Inr x, s') \<Longrightarrow> agrega i n s s'"
  unfolding genera_def by blast

lemma genera_ebind:
  assumes "genera i n m" and "\<And>x. genera i p (k x)"
  shows "genera i (n + p) (ebind m k)"
  unfolding genera_def
proof (intro allI impI)
  fix s r s'
  assume run: "ebind m k s = (r, s')"
  obtain q t where m: "m s = (q, t)" by (cases "m s")
  show "\<exists>j. agrega i j s s' \<and> ((\<exists>x. r = Inr x) \<longrightarrow> j = n + p)"
  proof (cases q)
    case (Inl e)
    then have "r = Inl e" "m s = (Inl e, s')" using run m by (auto simp: ebind_def)
    then show ?thesis using assms(1) unfolding genera_def by fastforce
  next
    case (Inr x)
    then have "agrega i n s t" and k: "k x t = (r, s')"
      using assms(1) run m by (auto simp: genera_def ebind_def)
    then show ?thesis using assms(2) [of x] by (auto simp: genera_def) (metis agrega_trans)
  qed
qed

lemma genera_ebind0: "genera i 0 m \<Longrightarrow> (\<And>x. genera i p (k x)) \<Longrightarrow> genera i p (ebind m k)"
  using genera_ebind [of i 0 m p k] by simp

lemma genera_quieto:
  "(\<And>s. snd (m s) = s) \<Longrightarrow> genera i 0 m"
  unfolding genera_def by (metis agrega_refl snd_conv)

lemma genera_raise [simp]: "genera i n (raise e)"
  unfolding genera_def raise_def by (metis Inl_Inr_False Pair_inject agrega_refl)

lemma genera_puro [simp]:
  "genera i 0 (ret x)" "genera i 0 (gets f)" "genera i 0 (lift_result q)"
  by (simp_all add: genera_quieto ret_def gets_def lift_result_def)

lemma genera_obtener [simp]: "genera i 0 (obtener k docs j e)"
  by (simp add: genera_quieto obtener_def split: option.split)

lemma genera_for_each:
  "(\<And>x. genera i n (m x)) \<Longrightarrow> genera i (n * length xs) (for_each m xs)"
proof (induction xs)
  case Nil
  then show ?case by simp
next
  case (Cons x xs)
  have "genera i (n + (n * length xs + 0)) (ebind (m x) (\<lambda>y. ebind (for_each m xs) (\<lambda>ys. ret (y # ys))))"
    by (intro genera_ebind Cons) simp
  then show ?case by (simp add: algebra_simps)
qed

lemma genera_cache_local [simp]:
  "genera i 0 (modify (\<lambda>s. s\<lparr>accountIdsCache := c\<rparr>))"
  "genera i 0 (modify (\<lambda>s. s\<lparr>inmobiliariaAgentIdCache := a\<rparr>))"
  by (auto simp: genera_def modify_def agrega_def bd_ok_def)

lemma genera_getAccountIdsByCode [simp]: "genera i 0 (getAccountIdsByCode cs)"
  unfolding genera_def by (metis agrega_refl getAccountIdsByCode_state snd_conv)

lemma genera_servicios [simp]:
  "genera i 0 getSettings" "genera i 0 (ag_findOne j)" "genera i 0 (findOneByRole r)"
  "genera i 0 loadAccountIds" "genera i 0 getInmobiliariaAgentId"
  unfolding getSettings_def ag_findOne_def findOneByRole_def loadAccountIds_def getInmobiliariaAgentId_def
  by (auto intro!: genera_ebind0 split: option.split)

lemma agrega_cache: "solo_cache s s' \<Longrightarrow> agrega i 0 s s'"
  by (auto simp: solo_cache_def agrega_def bd_ok_def)

lemma genera_crear:
  fixes F :: "('a bd_ct_scheme, asiento_dto) proc"
  assumes "cachea F" and ok: "\<And>s d s'. F s = (Inr d, s') \<Longrightarrow> dto_ok d"
    and tipo: "\<And>s d s'. F s = (Inr d, s') \<Longrightarrow> d_tipo_asiento d \<in> Some ` set tipos_generados"
  shows "genera (ct_id c) 1 (ebind F (crear_de_contrato c u))"
  unfolding genera_def
proof (intro allI impI)
  fix s r s'
  assume run: "ebind F (crear_de_contrato c u) s = (r, s')"
  obtain q t where F: "F s = (q, t)" by (cases "F s")
  have t: "agrega (ct_id c) 0 s t" using assms(1) F by (metis agrega_cache cachea_def snd_conv)
  show "\<exists>k. agrega (ct_id c) k s s' \<and> ((\<exists>x. r = Inr x) \<longrightarrow> k = 1)"
  proof (cases q)
    case (Inl e)
    then show ?thesis using run F t by (auto simp: ebind_def)
  next
    case (Inr d)
    define d' where "d' = d\<lparr>d_contrato_id := Some (ct_id c), d_usuario_creacion_id := Some u,
               d_usuario_modificacion_id := Some u\<rparr>"
    have cr: "create d' t = (r, s')"
      using run F Inr by (simp add: ebind_def crear_de_contrato_def d'_def)
    have d: "list_all partida_ok (map partida_defaults (coalesce (d_partidas d') []))"
      "d_estado d' = None" "d_tipo_asiento d' \<in> Some ` set tipos_generados" "d_contrato_id d' = Some (ct_id c)"
      using ok [OF F [unfolded Inr]] tipo [OF F [unfolded Inr]] by (auto simp: dto_ok_def d'_def)
    have bd: "bd_ok t \<Longrightarrow> bd_ok s'" using crear_ok [OF cr _ d(1)] by blast
    show ?thesis
    proof (cases r)
      case (Inl e)
      then have "agrega (ct_id c) 0 t s'"
        using cr bd by (auto simp: create_def proc_simps agrega_def split: if_splits)
      then show ?thesis using agrega_trans [OF t] Inl by fastforce
    next
      case (Inr a)
      note cI = create_Inr [OF cr [unfolded Inr]]
      have "asiento_ok a"
        using cI(1,2) d by (auto simp: asiento_ok_def asiento_de_dto_def sin_partidas_def split: option.splits)
      then have "del_contrato (ct_id c) a"
        using cI(1) d by (auto simp: del_contrato_def asiento_de_dto_def)
      then have "agrega (ct_id c) 1 t s'"
        using bd by (simp add: agrega_def cI(4) con_asientos_def)
      then show ?thesis using agrega_trans [OF t] Inr by fastforce
    qed
  qed
qed

lemma genera_fabrica [simp]:
  "genera (ct_id c) 1 (ebind (createMonthlyRentEntry lx rp) (crear_de_contrato c u))"
  "genera (ct_id c) 1 (ebind (createDepositEntry dp) (crear_de_contrato c u))"
  "genera (ct_id c) 1 (ebind (createHonorariosEntry lx hp) (crear_de_contrato c u))"
  by (rule genera_crear; simp?; blast intro: fabrica_ok fabrica_tipo)+

section \<open>The three generators\<close>

lemma crear_ret: "ebind F (\<lambda>d. ebind (crear_de_contrato c u d) k) = ebind (ebind F (crear_de_contrato c u)) k"
  by (rule ext) (auto simp: ebind_def split: prod.split sum.split)

lemma genera_bucle:
  "genera (ct_id c) n (ebind (for_each (\<lambda>i. ebind (createMonthlyRentEntry lx (rp i)) (crear_de_contrato c u)) [0..<n]) (\<lambda>_. ret ()))"
  "genera (ct_id c) n (ebind (for_each (\<lambda>i. ebind (createHonorariosEntry lx (hp i)) (crear_de_contrato c u)) [0..<n]) (\<lambda>_. ret ()))"
  using genera_ebind [OF genera_for_each [OF genera_fabrica(1)] genera_puro(1), of c "[0..<n]"]
    genera_ebind [OF genera_for_each [OF genera_fabrica(3)] genera_puro(1), of c "[0..<n]"] by simp_all

lemma genera_par:
  "genera (ct_id c) 2 (ebind (ebind (createDepositEntry p) (crear_de_contrato c u)) (\<lambda>_.
      ebind (ebind (createDepositEntry q) (crear_de_contrato c u)) (\<lambda>_. ret ())))"
  using genera_ebind [OF genera_fabrica(2) genera_ebind [OF genera_fabrica(2) genera_puro(1)]]
  by (simp add: numeral_2_eq_2)

lemma genera_meses:
  "genera (ct_id c) (nat (mesesContrato lx c)) (generateInitialAccountingEntries lx c u)"
  unfolding generateInitialAccountingEntries_def Let_def
  by (auto intro!: genera_ebind0 [OF genera_servicios(1)] genera_ebind0 [OF genera_servicios(2)]
      genera_ebind0 [OF genera_servicios(5)] genera_ebind0 [OF genera_puro(2)] genera_bucle
      simp del: ebind_gets split: option.split)

definition hay_partes :: "contrato \<Rightarrow> bool" where
  "hay_partes c \<longleftrightarrow> agente_con_rol LOCADOR c \<noteq> None \<and> agente_con_rol LOCATARIO c \<noteq> None"

lemma genera_deposito:
  "genera (ct_id c) (if hay_partes c then 2 else 0) (generateDepositEntry c u)"
  unfolding generateDepositEntry_def crear_ret hay_partes_def
  by (cases "agente_con_rol LOCADOR c"; cases "agente_con_rol LOCATARIO c")
    (simp_all add: genera_ebind0 [OF genera_puro(2)] genera_par)

definition cuotas_de :: "rat option \<Rightarrow> nat option \<Rightarrow> nat" where
  "cuotas_de porcentaje cuotas = (if coalesce porcentaje 0 > 0 then coalesce cuotas 1 else 0)"

lemma genera_cuotas:
  "genera (ct_id c) (if 0 < p then n else 0) (cuotas_honorarios lx c u addr p n ag nom tipo inmo)"
  unfolding cuotas_honorarios_def by (cases "0 < p") (simp_all add: genera_bucle del: One_nat_def)

definition honorarios_de :: "contrato \<Rightarrow> nat" where
  "honorarios_de c = (let t = terminos_financieros c in
     cuotas_de (honorarios_locador_porcentaje t) (honorarios_locador_cuotas t) +
     cuotas_de (honorarios_locatario_porcentaje t) (honorarios_locatario_cuotas t))"

lemma genera_honorarios:
  "genera (ct_id c) (if hay_partes c then honorarios_de c else 0) (generateHonorariosEntries lx c u)"
proof (cases "hay_partes c")
  case True
  then obtain l t where p: "agente_con_rol LOCADOR c = Some l" "agente_con_rol LOCATARIO c = Some t"
    by (auto simp: hay_partes_def)
  show ?thesis
    unfolding generateHonorariosEntries_def Let_def honorarios_de_def cuotas_de_def p prod.case option.case
      if_P [OF True]
    by (intro genera_ebind0 [OF genera_puro(2)] genera_ebind0 [OF genera_servicios(2)]
        genera_ebind0 [OF genera_servicios(5)] genera_ebind genera_cuotas)
next
  case False
  then show ?thesis
    by (cases "agente_con_rol LOCADOR c"; cases "agente_con_rol LOCATARIO c")
      (simp_all add: hay_partes_def generateHonorariosEntries_def)
qed

lemma inicial_partes: "generateInitialAccountingEntries lx c u s = (Inr x, s') \<Longrightarrow> hay_partes c"
  by (auto simp: generateInitialAccountingEntries_def hay_partes_def proc_simps Let_def split: option.splits)

definition generar_asientos :: "luxon \<Rightarrow> contrato \<Rightarrow> oid \<Rightarrow> ('a bd_ct_scheme, unit) proc" where
  "generar_asientos lx c u =
     ebind loadAccountIds (\<lambda>_. ebind (generateInitialAccountingEntries lx c u) (\<lambda>_.
     ebind (generateDepositEntry c u) (\<lambda>_. generateHonorariosEntries lx c u)))"

lemma genera_todos:
  "genera (ct_id c) (nat (mesesContrato lx c) +
     ((if hay_partes c then 2 else 0) + (if hay_partes c then honorarios_de c else 0)))
     (generar_asientos lx c u)"
  unfolding generar_asientos_def
  by (intro genera_ebind0 genera_servicios genera_ebind genera_meses genera_deposito genera_honorarios)

lemma generar_asientos_Inr:
  assumes "generar_asientos lx c u s = (Inr x, s')"
  shows "agrega (ct_id c) (nat (mesesContrato lx c) + 2 + honorarios_de c) s s'"
proof -
  have "hay_partes c" using assms by (auto simp: generar_asientos_def proc_simps dest: inicial_partes)
  then show ?thesis using generaD [OF genera_todos assms] by (simp add: add.assoc)
qed

lemma generar_asientos_cualquiera:
  assumes "generar_asientos lx c u s = (r, s')"
  shows "\<exists>k. agrega (ct_id c) k s s'"
  using genera_todos assms unfolding genera_def by blast

section \<open>The update of a contract\<close>

abbreviation guardar_contrato :: "contrato \<Rightarrow> 'a bd_ct_scheme \<Rightarrow> 'a bd_ct_scheme" where
  "guardar_contrato c \<equiv> con_contratos (save_doc ct_id c)"

lemma con_contratos_frame [simp]:
  "contratos (con_contratos f s) = f (contratos s)" "asientos (con_contratos f s) = asientos s"
  "propiedades (con_contratos f s) = propiedades s" "cuentas_fin (con_contratos f s) = cuentas_fin s"
  "ahora (con_contratos f s) = ahora s" "prox_id (con_contratos f s) = prox_id s"
  by (simp_all add: con_contratos_def)

lemma aplicar_update_id [simp]: "ct_id (aplicar_update dto u c) = ct_id c"
  by (simp add: aplicar_update_def)

text \<open>The request of activation, from the point where its guards hold.\<close>

lemma ct_update_activa:
  assumes "uc_status dto = Some C_VIGENTE" and "contrato_de i s = Some c0"
    and "guarda_activacion dto c0 = None"
  shows "ct_update lx i dto u s =
     (let c = aplicar_update dto u c0; t = guardar_contrato c s in
      if ct_status c0 = C_PENDIENTE
      then (case generar_asientos lx c u t of (Inl e, s') \<Rightarrow> (Inl e, s') | (Inr _, s') \<Rightarrow> (Inr c, s'))
      else (Inr c, t))"
  using assms
  by (auto simp: ct_update_def revisar_activacion_def obtener_def ebind_def modify_def ret_def
      generar_asientos_def Let_def split: prod.splits sum.splits)

lemma ct_update_rechaza:
  assumes "uc_status dto = Some C_VIGENTE" and "contrato_de i s = Some c0"
    and "guarda_activacion dto c0 = Some msg"
  shows "ct_update lx i dto u s = (Inl (BadRequestException msg []), s)"
  using assms by (simp add: ct_update_def revisar_activacion_def obtener_def ebind_def raise_def)

lemma contrato_guardado:
  "contrato_de i s = Some c0 \<Longrightarrow> ct_id c = i \<Longrightarrow> contrato_de i (guardar_contrato c s) = Some c"
  by (auto simp: find_id_save dest: find_id_key)

lemma coalesce_dos [simp]: "coalesce x (coalesce x d) = coalesce x d"
  by (cases x) simp_all

lemma guarda_estable:
  "guarda_activacion dto (aplicar_update dto u c) = guarda_activacion dto c"
  by (cases "uc_inventory_version_id dto") (simp_all add: guarda_activacion_def aplicar_update_def)

end
