(* ===== verification/ContractExamples.thy ===== *)
theory ContractExamples
  imports ContractLaws EntryExamples
begin

text \<open>
  A small database with a contract waiting to be activated: three periods of thirty days from 2024-01-01, rent
  1000, indexed every two months, deposit 500, fees of the landlord (2%, one instalment) and
  of the tenant (5%, two instalments). The \<^verbatim>\<open>luxon\<close> of the examples counts months of thirty days.
\<close>

definition luxon0 :: luxon where
  "luxon0 = \<lparr>lx_plus = (\<lambda>t m d. t + (m * 30 + d) * dia_ms),
     lx_meses = (\<lambda>a b. of_int (a - b) / of_int (30 * dia_ms)),
     lx_dias = (\<lambda>a b. of_int (a - b) / of_int dia_ms),
     lx_mm_yyyy = (\<lambda>t. ''MM-YYYY'')\<rparr>"

definition cuenta0 :: "oid \<Rightarrow> string \<Rightarrow> cuenta_contable" where
  "cuenta0 i c = \<lparr>cc_id = i, codigo = c, cc_nombre = c, tipo_cuenta = ACTIVO, cc_descripcion = None,
     cuenta_padre_id = None, es_imputable = True, tasa_iva_aplicable = 0, es_facturable = False\<rparr>"

definition agente0 :: "oid \<Rightarrow> agente_rol \<Rightarrow> string \<Rightarrow> agente" where
  "agente0 i r n = \<lparr>ag_id = i, ag_rol = [r], nomenclador_fiscal = None, identificador_fiscal = n, cuit_validado = False,
     cuit_validado_en = None, nombre_razon_social = n, nombres = Some n, apellidos = None,
     cuentas_bancarias = [], dominios_notificacion = [], servicio_id_regex = None, ag_status = ''ACTIVO'', ag_usuario_creacion_id = None, ag_usuario_modificacion_id = None\<rparr>"

definition propiedad0 :: propiedad where
  "propiedad0 = \<lparr>pp_id = 30, propietarios_ids = [2], identificador_interno = ''P1'',
     direccion = Some \<lparr>calle = ''Belgrano'', numero = ''10'', piso_dpto = [], localidad_id = 1\<rparr>,
     servicios_impuestos = [], pp_status = ''DISPONIBLE'', contrato_vigente_id = None,
     pp_usuario_creacion_id = None, pp_usuario_modificacion_id = None\<rparr>"

definition terminos0 :: terminos where
  "terminos0 = \<lparr>monto_base_vigente = 1000, indice_tipo = ''ICL'', interes_mora_diaria = None,
     iva_calculo_base = None, comision_administracion_porcentaje = Some 7,
     honorarios_locador_porcentaje = Some 2, honorarios_locador_cuotas = Some 1,
     honorarios_locatario_porcentaje = Some 5, honorarios_locatario_cuotas = Some 2,
     ajuste_periodicidad_meses = Some 2\<rparr>"

definition contrato0 :: contrato where
  "contrato0 = \<lparr>ct_id = 20, firmas_completas = True, documentacion_completa = True,
     visita_realizada = True, inventario_actualizado = True, fotos_inventario = [''f1''],
     inventory_version_id = Some 9, propiedad_id = 30,
     partes = [\<lparr>pt_agente_id = 2, pt_rol = LOCADOR\<rparr>, \<lparr>pt_agente_id = 1, pt_rol = LOCATARIO\<rparr>],
     fecha_inicio = 19723 * dia_ms, fecha_final = 19813 * dia_ms, duracion_meses = 3,
     tipo_contrato = ''VIVIENDA'', ct_status = C_PENDIENTE, terminos_financieros = terminos0,
     deposito_monto = Some 500, deposito_tipo_ajuste = Some ''AL_ORIGEN'', ajuste_programado = None,
     ct_usuario_creacion_id = None, ct_usuario_modificacion_id = None\<rparr>"

definition bd_ct0 :: "contrato list \<Rightarrow> bd_ct" where
  "bd_ct0 cs = \<lparr>ahora = 19800 * dia_ms, prox_id = 100, sistema = [], secuencias = [],
     plan_cuentas = map (\<lambda>(i, c). cuenta0 i c) (zip [41, 42, 43, 44, 45, 46] REQUIRED_ACCOUNTS),
     transacciones = [], cuentas_fin = [caja0], asientos = [], accountsCache = [],
     agentes = [agente0 1 LOCATARIO ''Ana'', agente0 2 LOCADOR ''Luis'', agente0 3 INMOBILIARIA ''Inmo''],
     propiedades = [propiedad0], configuraciones = [settings_default 50], contratos = cs,
     accountIdsCache = None, inmobiliariaAgentIdCache = None\<rparr>"

definition activar0 :: update_contract_dto where
  "activar0 = \<lparr>uc_status = Some C_VIGENTE, uc_firmas_completas = None,
     uc_documentacion_completa = None, uc_visita_realizada = None,
     uc_inventario_actualizado = None, uc_fotos_inventario = None, uc_inventory_version_id = None,
     uc_resto = (\<lambda>c. c)\<rparr>"

section \<open>Evaluation\<close>

text \<open>Code equations on an explicit builder, so that a call on a bound builder is not unfolded.\<close>

lemma builder_code [code]:
  "addMetadata k v \<lparr>b_tipo = t, b_descripcion = d, b_imputacion = i, b_vencimiento = f,
     b_partidas = ps, b_metadata = m\<rparr> = \<lparr>b_tipo = t, b_descripcion = d, b_imputacion = i,
     b_vencimiento = f, b_partidas = ps, b_metadata = AList.update k v m\<rparr>"
  by (simp add: addMetadata_def)

lemma build_code [code]:
  "build \<lparr>b_tipo = t, b_descripcion = d, b_imputacion = i, b_vencimiento = f,
     b_partidas = ps, b_metadata = m\<rparr> =
     (let totalDebit = suma_js (map lb_debe ps);
          totalCredit = suma_js (map lb_haber ps)
      in if ps = []
         then Inl (ErrorJS ''El asiento debe tener al menos una partida'' [])
         else if desbalanceado totalDebit totalCredit
         then Inl (ErrorJS ''El asiento no esta balanceado. Debe: {}, Haber: {}, Diferencia: {}''
                [ANum (o_cero totalDebit), ANum (o_cero totalCredit),
                 ANum \<bar>o_cero totalDebit - o_cero totalCredit\<bar>])
         else if t = None \<or> t = Some []
         then Inl (ErrorJS ''El tipo de asiento es requerido'' [])
         else if texto_vacio d
         then Inl (ErrorJS ''La descripcion del asiento es requerida'' [])
         else if i = None
         then Inl (ErrorJS ''La fecha de imputacion es requerida'' [])
         else if f = None
         then Inl (ErrorJS ''La fecha de vencimiento es requerida'' [])
         else Inr
           \<lparr>d_contrato_id = None, d_fecha_imputacion = i,
            d_fecha_vencimiento = f, d_descripcion = d,
            d_tipo_asiento = t,
            d_metadata = (if m = [] then None else Some m),
            d_estado = None, d_monto_original = totalDebit, d_monto_actual = totalDebit,
            d_partidas = Some (map partida_de_linea ps),
            d_usuario_creacion_id = None, d_usuario_modificacion_id = None, d_historial = []\<rparr>)"
  by (simp add: build_def Let_def)

lemma linea_code [code]:
  "addDebit accountId amount agentId description \<lparr>b_tipo = t, b_descripcion = d, b_imputacion = i,
     b_vencimiento = f, b_partidas = ps, b_metadata = m\<rparr> =
     (if negativo amount
      then Inl (ErrorJS ''El monto del debito no puede ser negativo'' [])
      else Inr \<lparr>b_tipo = t, b_descripcion = d, b_imputacion = i, b_vencimiento = f, b_partidas = ps @
        [\<lparr>lb_cuenta_id = accountId, lb_descripcion = (case description of
        Some t \<Rightarrow> if fst t \<noteq> [] then t else coalesce d ([], [])
      | None \<Rightarrow> coalesce d ([], [])), lb_debe = amount, lb_haber = Some 0, lb_agente_id = agentId\<rparr>],
        b_metadata = m\<rparr>)"
  "addCredit accountId amount agentId description \<lparr>b_tipo = t, b_descripcion = d, b_imputacion = i,
     b_vencimiento = f, b_partidas = ps, b_metadata = m\<rparr> =
     (if negativo amount
      then Inl (ErrorJS ''El monto del credito no puede ser negativo'' [])
      else Inr \<lparr>b_tipo = t, b_descripcion = d, b_imputacion = i, b_vencimiento = f, b_partidas = ps @
        [\<lparr>lb_cuenta_id = accountId, lb_descripcion = (case description of
        Some t \<Rightarrow> if fst t \<noteq> [] then t else coalesce d ([], [])
      | None \<Rightarrow> coalesce d ([], [])), lb_debe = Some 0, lb_haber = amount, lb_agente_id = agentId\<rparr>],
        b_metadata = m\<rparr>)"
  by (simp_all add: addDebit_def addCredit_def descripcion_linea_def split: option.split)
lemma luxon0_ejemplo:
  "mesesContrato luxon0 contrato0 = 3"
  by code_simp

lemma activa0: "exito (ct_update luxon0 20 activar0 8) (bd_ct0 [contrato0])"
  by code_simp

lemma activa0_asientos:
  "map (\<lambda>a. (monto_original a, map (\<lambda>p. (debe p, haber p)) (partidas a)))
     (asientos (final (ct_update luxon0 20 activar0 8) (bd_ct0 [contrato0]))) =
   [(1000, [(1000, 0), (0, 930), (0, 70)]), (1000, [(1000, 0), (0, 930), (0, 70)]),
    (1000, [(1000, 0), (0, 930), (0, 70)]), (500, [(500, 0), (0, 500)]), (500, [(500, 0), (0, 500)]),
    (60, [(60, 0), (0, 60)]), (75, [(75, 0), (0, 75)]), (75, [(75, 0), (0, 75)])]"
  by code_simp

end
