(* ===== verification/ContractProperties.thy ===== *)
theory ContractProperties
  imports ContractExamples
begin

text \<open>
  The properties of \<^verbatim>\<open>contracts.service.ts\<close> and of the entries it generates, with their
  instances on the example contract.
\<close>

section \<open>The monthly rent\<close>

text \<open>The monthly rent entry of the factory: the tenant owes the whole rent on the
  account CXC_ALQ, the landlord is due the rent less the commission on CXP_LOC, the agency the
  commission on ING_HNR; the amounts are those three, none negative, debits equal credits, and
  the entry carries no state of its own: the state it was asked for is only in the metadata.\<close>

theorem createMonthlyRentEntry_split:
  assumes run: "createMonthlyRentEntry lx p s = (Inr d, s')"
  shows "\<exists>q1 q2 q3. d_partidas d = Some [q1, q2, q3] \<and>
     debe q1 = re_amount p \<and> haber q1 = 0 \<and> p_agente_id q1 = Some (re_tenantId p) \<and>
     debe q2 = 0 \<and> haber q2 = re_amount p * (1 - re_commissionRate p) \<and>
       p_agente_id q2 = Some (re_landlordId p) \<and>
     debe q3 = 0 \<and> haber q3 = re_amount p * re_commissionRate p \<and>
       p_agente_id q3 = re_inmobiliariaId p \<and>
     0 \<le> haber q2 \<and> 0 \<le> haber q3 \<and> debe q1 = haber q2 + haber q3 \<and>
     d_monto_original d = Some (re_amount p) \<and> d_estado d = None \<and>
     map_of (coalesce (d_metadata d) []) ''estado'' = Some (MStr (re_state p, []))"
  using run
  by (auto simp: createMonthlyRentEntry_def Let_def proc_simps addDebit_def addCredit_def build_def
      negativo_def setState_def setAdjustable_def addMetadata_def setDates_def setDescription_def
      setType_def b_reset_def partida_de_linea_def algebra_simps update_conv' split: if_splits)

theorem createMonthlyRentEntry_split_witness:
  "\<exists>(d :: asiento_dto) q1 q2 q3. d_partidas d = Some [q1, q2, q3] \<and> debe q1 = 1000 \<and> haber q2 = 930 \<and>
     haber q3 = 70 \<and> d_estado d = None \<and>
     map_of (coalesce (d_metadata d) []) ''estado'' = Some (MStr (''PENDIENTE_AJUSTE'', []))"
proof -
  let ?p = "\<lparr>re_propertyAddress = ''Belgrano 10'', re_period = 0, re_periodNumber = 3,
    re_totalPeriods = 3, re_amount = 1000, re_commissionRate = 7 / 100, re_tenantId = 1,
    re_tenantName = ''Ana'', re_landlordId = 2, re_landlordName = ''Luis'', re_inmobiliariaId = Some 3,
    re_state = ''PENDIENTE_AJUSTE'', re_isAdjustable = True\<rparr>"
  have e: "exito (createMonthlyRentEntry luxon0 ?p) (bd_ct0 [])" by code_simp
  let ?d = "valor (createMonthlyRentEntry luxon0 ?p) (bd_ct0 [])"
  obtain q1 q2 q3 where "d_partidas ?d = Some [q1, q2, q3]" "debe q1 = 1000" "haber q2 = 930"
    "haber q3 = 70" "d_estado ?d = None"
    "map_of (coalesce (d_metadata ?d) []) ''estado'' = Some (MStr (''PENDIENTE_AJUSTE'', []))"
    using createMonthlyRentEntry_split [OF exito_run [OF e]] by auto
  then show ?thesis by blast
qed

section \<open>Activation\<close>



text \<open>Every contract that a request moves to VIGENTE has the six requirements met: signatures,
  documentation, visit, inventory, at least one photo and an inventory version.\<close>

theorem ct_update_guards:
  assumes run: "ct_update lx i dto u s = (Inr c, s')" and v: "uc_status dto = Some C_VIGENTE"
  shows "contrato_de i s' = Some c \<and> firmas_completas c \<and> documentacion_completa c \<and>
     visita_realizada c \<and> inventario_actualizado c \<and> fotos_inventario c \<noteq> [] \<and>
     inventory_version_id c \<noteq> None"
proof -
  obtain c0 where c0: "contrato_de i s = Some c0"
    using run v by (auto simp: ct_update_def revisar_activacion_def proc_simps)
  have g: "guarda_activacion dto c0 = None"
    using run ct_update_rechaza [OF v c0] by (cases "guarda_activacion dto c0") auto
  have c: "c = aplicar_update dto u c0" and
    r: "s' = guardar_contrato c s \<or> (\<exists>x. generar_asientos lx c u (guardar_contrato c s) = (x, s'))"
    using run unfolding ct_update_activa [OF v c0 g] Let_def
    by (auto split: prod.splits sum.splits if_splits)
  have "contratos s' = contratos (guardar_contrato c s)"
    using r by (auto dest: generar_asientos_cualquiera simp: agrega_def)
  moreover have "contrato_de i (guardar_contrato c s) = Some c"
    using contrato_guardado [OF c0] c c0 by (auto dest: find_id_key)
  ultimately have "contrato_de i s' = Some c" by simp
  moreover have "guarda_activacion dto c = None" using guarda_estable g c by simp
  moreover have "coalesce (uc_firmas_completas dto) (firmas_completas c) = firmas_completas c"
    "coalesce (uc_documentacion_completa dto) (documentacion_completa c) = documentacion_completa c"
    "coalesce (uc_visita_realizada dto) (visita_realizada c) = visita_realizada c"
    "coalesce (uc_inventario_actualizado dto) (inventario_actualizado c) = inventario_actualizado c"
    "coalesce (uc_fotos_inventario dto) (fotos_inventario c) = fotos_inventario c"
    "inventory_version_id c = None \<Longrightarrow> uc_inventory_version_id dto = None"
    by (auto simp: c aplicar_update_def split: option.splits)
  ultimately show ?thesis
    by (cases "inventory_version_id c") (auto simp: guarda_activacion_def split: if_splits)
qed

theorem ct_update_guards_witness:
  "\<exists>c s'. ct_update luxon0 20 activar0 8 (bd_ct0 [contrato0]) = (Inr c, s') \<and>
     firmas_completas c \<and> fotos_inventario c \<noteq> []"
proof -
  note r = exito_run [OF activa0]
  have "uc_status activar0 = Some C_VIGENTE" by (simp add: activar0_def)
  then show ?thesis using ct_update_guards [OF r] r by blast
qed

text \<open>C11: The activation is not atomic: when the generation of the entries fails, whatever the
  cause, the contract stays VIGENTE, and sending the same request again succeeds and generates
  nothing: the missing entries are never created.\<close>

theorem activation_failure_is_final:
  assumes run: "ct_update lx i dto u s = (Inl e, s')" and v: "uc_status dto = Some C_VIGENTE"
    and c0: "contrato_de i s = Some c0" and g: "guarda_activacion dto c0 = None"
  shows "\<exists>c c' s''. contrato_de i s' = Some c \<and> ct_status c = C_VIGENTE \<and>
     ct_update lx i dto u s' = (Inr c', s'') \<and> asientos s'' = asientos s'"
proof -
  define c where "c = aplicar_update dto u c0"
  have gen: "generar_asientos lx c u (guardar_contrato c s) = (Inl e, s')"
    using run unfolding ct_update_activa [OF v c0 g] Let_def
    by (auto simp: c_def split: prod.splits sum.splits if_splits)
  have "contrato_de i (guardar_contrato c s) = Some c"
    using contrato_guardado [OF c0] c0 by (auto simp: c_def dest: find_id_key)
  then have c: "contrato_de i s' = Some c"
    using generar_asientos_cualquiera [OF gen] by (auto simp: agrega_def)
  have vig: "ct_status c = C_VIGENTE" by (simp add: c_def aplicar_update_def v)
  have "guarda_activacion dto c = None" using g guarda_estable by (simp add: c_def)
  then have "ct_update lx i dto u s' =
      (Inr (aplicar_update dto u c), guardar_contrato (aplicar_update dto u c) s')"
    using ct_update_activa [OF v c, of lx u] by (simp add: vig Let_def)
  then show ?thesis using c vig by auto
qed

text \<open>The request of the example on a contract without deposit: three rents are created, the
  deposit entry is rejected.\<close>

definition contrato_sin_deposito :: contrato where
  "contrato_sin_deposito = contrato0\<lparr>deposito_monto := None\<rparr>"

theorem activation_failure_is_final_witness:
  "\<exists>e s' c. ct_update luxon0 20 activar0 8 (bd_ct0 [contrato_sin_deposito]) = (Inl e, s') \<and>
     map tipo_asiento (asientos s') = [''Alquiler'', ''Alquiler'', ''Alquiler''] \<and>
     contrato_de 20 s' = Some c \<and> ct_status c = C_VIGENTE"
proof -
  let ?m = "ct_update luxon0 20 activar0 8" and ?s = "bd_ct0 [contrato_sin_deposito]"
  have "\<not> exito ?m ?s" "map tipo_asiento (asientos (final ?m ?s)) = [''Alquiler'', ''Alquiler'', ''Alquiler'']"
    by code_simp+
  then obtain e where r: "?m ?s = (Inl e, final ?m ?s)"
    and t: "map tipo_asiento (asientos (final ?m ?s)) = [''Alquiler'', ''Alquiler'', ''Alquiler'']"
    by (cases "?m ?s") (auto simp: exito_def final_def split: sum.splits)
  have h: "contrato_de 20 ?s = Some contrato_sin_deposito" "uc_status activar0 = Some C_VIGENTE"
    "guarda_activacion activar0 contrato_sin_deposito = None"
    by (simp_all add: bd_ct0_def contrato_sin_deposito_def contrato0_def activar0_def col_simps
        guarda_activacion_def)
  obtain c where "contrato_de 20 (final ?m ?s) = Some c" "ct_status c = C_VIGENTE"
    using activation_failure_is_final [OF r h(2,1,3)] by blast
  with r t show ?thesis by (intro exI conjI)
qed

section \<open>What the generated entries cannot do\<close>

lemma activacion_agrega:
  assumes run: "ct_update lx i dto u s = (Inr c, s')" and v: "uc_status dto = Some C_VIGENTE"
    and c0: "contrato_de i s = Some c0" and p: "ct_status c0 = C_PENDIENTE"
  shows "\<exists>nuevos. asientos s' = asientos s @ nuevos \<and> list_all (del_contrato i) nuevos"
proof -
  have g: "guarda_activacion dto c0 = None"
    using run ct_update_rechaza [OF v c0] by (cases "guarda_activacion dto c0") auto
  obtain x where gen: "generar_asientos lx c u (guardar_contrato c s) = (Inr x, s')"
    and c: "c = aplicar_update dto u c0"
    using run unfolding ct_update_activa [OF v c0 g] Let_def
    by (auto simp: p split: prod.splits sum.splits)
  have "ct_id c = i" using c0 c by (auto dest: find_id_key)
  then show ?thesis using generar_asientos_Inr [OF gen] by (auto simp: agrega_def)
qed

text \<open>The index adjustment finds nothing in a contract that was activated: the months the
  activation marks as PENDIENTE_AJUSTE are stored as PENDIENTE (the mark is only in the metadata
  of the entry), so the request returns no entry and changes nothing, whatever the indices.\<close>

theorem activation_never_adjusted:
  assumes run: "ct_update lx i dto u s = (Inr c, s')" and v: "uc_status dto = Some C_VIGENTE"
    and c0: "contrato_de i s = Some c0" and p: "ct_status c0 = C_PENDIENTE"
    and nuevo: "list_all (\<lambda>a. contrato_id a \<noteq> Some i) (asientos s)"
  shows "actualizarAsientosPendientesAjuste tz i indices u' s' = (Inr [], s')"
proof -
  have "filter (\<lambda>a. contrato_id a = Some i \<and> estado a = PENDIENTE_AJUSTE) (asientos s') = []"
    using activacion_agrega [OF run v c0 p] nuevo
    by (auto simp: filter_empty_conv list_all_iff del_contrato_def)
  then show ?thesis
    by (simp add: actualizarAsientosPendientesAjuste_def ret_def)
qed

theorem activation_never_adjusted_witness:
  "estado_mes contrato0 (mesesAjuste (Some 2) (mesesContrato luxon0 contrato0)) 2 = ''PENDIENTE_AJUSTE'' \<and>
   fst (actualizarAsientosPendientesAjuste 0 20 [\<lparr>ip_periodo = 19783 * dia_ms, ip_valor = 2\<rparr>] 8
     (final (ct_update luxon0 20 activar0 8) (bd_ct0 [contrato0]))) = Inr []"
proof -
  have h: "uc_status activar0 = Some C_VIGENTE" "contrato_de 20 (bd_ct0 [contrato0]) = Some contrato0"
    "ct_status contrato0 = C_PENDIENTE" "list_all (\<lambda>a. contrato_id a \<noteq> Some 20) (asientos (bd_ct0 [contrato0]))"
    by (simp_all add: bd_ct0_def contrato0_def activar0_def col_simps)
  have "estado_mes contrato0 (mesesAjuste (Some 2) (mesesContrato luxon0 contrato0)) 2 = ''PENDIENTE_AJUSTE''"
    by code_simp
  then show ?thesis
    using activation_never_adjusted [OF exito_run [OF activa0] h, of 0] by simp
qed

lemma concat_map_nil: "concat (map (\<lambda>_. []) xs) = []"
  by (induction xs) simp_all

lemma tipo_del_contrato: "del_contrato i a \<Longrightarrow> tipo_asiento a \<noteq> ''Deposito en Garantia''"
  by (auto simp: del_contrato_def tipos_generados_def)

text \<open>The list of deposits to return stays empty after an activation: it looks for entries of
  type 'Deposito en Garantia', and the activation creates the types 'Deposito en Garantia -
  Cobro' and '- Devolucion', so no deposit is ever listed, whatever the filters.\<close>

theorem depositos_pendientes_empty:
  assumes run: "ct_update lx i dto u s = (Inr c, s')" and v: "uc_status dto = Some C_VIGENTE"
    and c0: "contrato_de i s = Some c0" and p: "ct_status c0 = C_PENDIENTE"
    and sin: "list_all (\<lambda>a. tipo_asiento a \<noteq> ''Deposito en Garantia'') (asientos s)"
  shows "getDepositosPendientes tz lx' f s' = (Inr [], s')"
proof -
  have ninguno: "list_all (\<lambda>a. tipo_asiento a \<noteq> ''Deposito en Garantia'') (asientos s')"
    using activacion_agrega [OF run v c0 p] sin
    by (auto simp: list_all_iff dest!: tipo_del_contrato)
  then have "filter (\<lambda>a. contrato_id a = Some j \<and> tipo_asiento a = ''Deposito en Garantia'') (asientos s') = []" for j
    by (auto simp: filter_empty_conv list_all_iff)
  then have fila: "fila_deposito lx' k s' = (Inr [], s')" for k
    by (simp add: fila_deposito_def findByContractAndType_def ret_def)
  have "for_each (fila_deposito lx') cs s' = (Inr (map (\<lambda>_. []) cs), s')" for cs
    by (induction cs) (simp_all add: ebind_def fila ret_def)
  then show ?thesis
    by (simp add: getDepositosPendientes_def ebind_def ret_def gets_def concat_map_nil)
qed

definition filtros0 :: filtros_deposito where
  "filtros0 = \<lparr>fd_fecha_desde = None, fd_fecha_hasta = None, fd_solo_proximos_a_vencer = Some True\<rparr>"

theorem depositos_pendientes_empty_witness:
  "contrato_con_deposito 0 (ahora (bd_ct0 [contrato0])) filtros0 (contrato0\<lparr>ct_status := C_VIGENTE\<rparr>) \<and>
   fst (getDepositosPendientes 0 luxon0 filtros0
     (final (ct_update luxon0 20 activar0 8) (bd_ct0 [contrato0]))) = Inr []"
proof -
  have h: "uc_status activar0 = Some C_VIGENTE" "contrato_de 20 (bd_ct0 [contrato0]) = Some contrato0"
    "ct_status contrato0 = C_PENDIENTE"
    "list_all (\<lambda>a. tipo_asiento a \<noteq> ''Deposito en Garantia'') (asientos (bd_ct0 [contrato0]))"
    by (simp_all add: bd_ct0_def contrato0_def activar0_def col_simps)
  have "contrato_con_deposito 0 (ahora (bd_ct0 [contrato0])) filtros0 (contrato0\<lparr>ct_status := C_VIGENTE\<rparr>)"
    by code_simp
  then show ?thesis
    using depositos_pendientes_empty [OF exito_run [OF activa0] h, of 0] by simp
qed

section \<open>Creation and deletion\<close>

lemma con_propiedades_frame [simp]:
  "contratos (con_propiedades f s) = contratos s" "asientos (con_propiedades f s) = asientos s"
  by (simp_all add: con_propiedades_def)

lemma propiedades_con [simp]: "propiedades (con_propiedades f s) = f (propiedades s)"
  by (simp add: con_propiedades_def)

lemma loadAccountIds_quieto:
  "loadAccountIds s = (r, s') \<Longrightarrow> contratos s' = contratos s \<and> asientos s' = asientos s \<and> prox_id s' = prox_id s"
proof -
  assume r: "loadAccountIds s = (r, s')"
  have "s' = s \<or> (\<exists>m. s' = s\<lparr>accountIdsCache := m\<rparr>)"
    using r getAccountIdsByCode_state [of REQUIRED_ACCOUNTS s]
    by (auto simp: loadAccountIds_def ebind_def gets_def modify_def ret_def split: option.splits prod.splits sum.splits)
  then show ?thesis by auto
qed

lemma pp_update_Inr:
  assumes "pp_update i d u s = (Inr p', s')"
  shows "s' = con_propiedades (save_doc pp_id p') s" "find_id pp_id i (propiedades s') = Some p'"
    "pp_status p' = coalesce (up_status d) (pp_status p')"
    "up_contrato_vigente_id d = Some k \<Longrightarrow> contrato_vigente_id p' = Some k"
  using assms
  by (auto simp: pp_update_def proc_simps Let_def find_id_save coalesce_def dest: find_id_key
      split: if_splits option.splits)

text \<open>A contract created as VIGENTE skips the activation: it is stored with that status
  whatever its requirements, its property points at it as ALQUILADO, no entry is created, and no
  later update of the contract creates one.\<close>

theorem create_vigente_bypasses:
  assumes run: "ct_create tz dto u s = (Inr c, s')" and v: "cc_status dto = Some C_VIGENTE"
    and fresh: "contrato_de (prox_id s) s = None"
  shows "contrato_de (ct_id c) s' = Some c \<and> ct_status c = C_VIGENTE \<and> asientos s' = asientos s \<and>
     (\<exists>p. find_id pp_id (propiedad_id c) (propiedades s') = Some p \<and> pp_status p = ''ALQUILADO'' \<and>
        contrato_vigente_id p = Some (ct_id c)) \<and>
     asientos (snd (ct_update lx (ct_id c) dto' u' s')) = asientos s"
proof -
  obtain s1 where l: "loadAccountIds s = (Inr (), s1)"
    using run by (auto simp: ct_create_def proc_simps)
  have s1: "contratos s1 = contratos s" "asientos s1 = asientos s" "prox_id s1 = prox_id s"
    using loadAccountIds_quieto [OF l] by auto
  have c0: "ct_status c = C_VIGENTE" "ct_id c = prox_id s"
    and pp: "\<exists>p. pp_update (propiedad_id c) \<lparr>up_status = Some ''ALQUILADO'',
          up_contrato_vigente_id = Some (ct_id c), up_resto = (\<lambda>p. p)\<rparr> u
        (con_contratos (\<lambda>cs. cs @ [c]) (s1\<lparr>prox_id := Suc (prox_id s1)\<rparr>)) = (Inr p, s')"
    using run l s1 v by (auto simp: ct_create_def proc_simps Let_def getSettings_def split: if_splits option.splits)
  then obtain p where p: "pp_update (propiedad_id c) \<lparr>up_status = Some ''ALQUILADO'',
          up_contrato_vigente_id = Some (ct_id c), up_resto = (\<lambda>p. p)\<rparr> u
        (con_contratos (\<lambda>cs. cs @ [c]) (s1\<lparr>prox_id := Suc (prox_id s1)\<rparr>)) = (Inr p, s')"
    by blast
  note q = pp_update_Inr [OF p]
  have cs: "contratos s' = contratos s @ [c]" and as: "asientos s' = asientos s"
    by (simp_all add: q(1) s1)
  have c: "contrato_de (ct_id c) s' = Some c" "ct_status c = C_VIGENTE" "asientos s' = asientos s"
    "\<exists>p. find_id pp_id (propiedad_id c) (propiedades s') = Some p \<and> pp_status p = ''ALQUILADO'' \<and>
        contrato_vigente_id p = Some (ct_id c)"
    using c0 cs as fresh q by (auto simp: find_id_append col_simps)
  have "asientos (snd (ct_update lx (ct_id c) dto' u' s')) = asientos s'"
    using c(1,2) by (auto simp: ct_update_def revisar_activacion_def obtener_def ebind_def modify_def
        ret_def raise_def Let_def split: option.split)
  then show ?thesis using c by simp
qed

definition alta0 :: create_contract_dto where
  "alta0 = \<lparr>cc_contrato = contrato0\<lparr>firmas_completas := False, fotos_inventario := []\<rparr>,
     cc_duracion_meses = None, cc_tipo_contrato = Some ''comercial'', cc_status = Some C_VIGENTE\<rparr>"

lemma alta0_exito: "exito (ct_create 0 alta0 8) (bd_ct0 [])"
  by code_simp

theorem create_vigente_bypasses_witness:
  "\<exists>c s'. ct_create 0 alta0 8 (bd_ct0 []) = (Inr c, s') \<and> ct_status c = C_VIGENTE \<and>
     \<not> firmas_completas c \<and> duracion_meses c = 3 \<and> tipo_contrato c = ''COMERCIAL'' \<and>
     asientos (snd (ct_update luxon0 (ct_id c) activar0 8 s')) = []"
proof -
  let ?c = "valor (ct_create 0 alta0 8) (bd_ct0 [])"
  have h: "cc_status alta0 = Some C_VIGENTE" "contrato_de (prox_id (bd_ct0 [])) (bd_ct0 []) = None"
    "asientos (bd_ct0 []) = []"
    by (simp_all add: alta0_def bd_ct0_def col_simps)
  have "\<not> firmas_completas ?c \<and> duracion_meses ?c = 3 \<and> tipo_contrato ?c = ''COMERCIAL''"
    by code_simp
  then show ?thesis
    using create_vigente_bypasses [OF exito_run [OF alta0_exito] h(1,2), of luxon0 activar0 8]
      exito_run [OF alta0_exito] h(3) by (intro exI conjI) auto
qed

text \<open>Deleting a contract with its entries removes the contract and exactly the entries of
  the contract, but leaves every property as it was: the property that pointed at the contract
  still does, and the request to make it DISPONIBLE is rejected.\<close>

theorem deleteWithEntries_dangling:
  assumes run: "deleteWithEntries i s = (r, s')" and ids: "distinct (map ct_id (contratos s))"
    and p: "find_id pp_id j (propiedades s) = Some p" and vig: "contrato_vigente_id p = Some i"
  shows "r = Inr (contrato_de i s \<noteq> None, length (filter (\<lambda>a. contrato_id a = Some i) (asientos s))) \<and>
     contrato_de i s' = None \<and> asientos s' = filter (\<lambda>a. contrato_id a \<noteq> Some i) (asientos s) \<and>
     find_id pp_id j (propiedades s') = Some p \<and>
     pp_update j \<lparr>up_status = Some ''DISPONIBLE'', up_contrato_vigente_id = None, up_resto = (\<lambda>p. p)\<rparr> u s' =
       (Inl (BadRequestException ''El estado de la propiedad debe ser liberado por la finalizacion del contrato.'' []), s')"
proof -
  have d: "find_id ct_id i (delete_one (\<lambda>c. ct_id c = i) cs) = None"
    if "distinct (map ct_id cs)" for cs :: "contrato list"
    using that by (induction cs) (auto simp: col_simps find_id_None_iff)
  have s': "s' = con_contratos (delete_one (\<lambda>c. ct_id c = i))
      (con_asientos (delete_many (\<lambda>a. contrato_id a = Some i)) s)"
    and r: "r = Inr (contrato_de i s \<noteq> None, length (filter (\<lambda>a. contrato_id a = Some i) (asientos s)))"
    using run by (auto simp: deleteWithEntries_def deleteManyByContractId_def ebind_def gets_def
        modify_def ret_def con_asientos_def)
  have fr: "contratos s' = delete_one (\<lambda>c. ct_id c = i) (contratos s)" "propiedades s' = propiedades s"
    "asientos s' = filter (\<lambda>a. contrato_id a \<noteq> Some i) (asientos s)"
    by (simp_all add: s' con_contratos_def con_asientos_def delete_many_def)
  then show ?thesis
    using r d [OF ids] p vig by (simp add: pp_update_def obtener_def ebind_def raise_def)
qed

definition bd_alquilada :: bd_ct where
  "bd_alquilada = (bd_ct0 [contrato0])\<lparr>propiedades := [propiedad0\<lparr>contrato_vigente_id := Some 20\<rparr>]\<rparr>"

theorem deleteWithEntries_dangling_witness:
  "fst (deleteWithEntries 20 bd_alquilada) = Inr (True, 0) \<and>
     contrato_de 20 (snd (deleteWithEntries 20 bd_alquilada)) = None \<and>
     fst (pp_update 30 \<lparr>up_status = Some ''DISPONIBLE'', up_contrato_vigente_id = None, up_resto = (\<lambda>p. p)\<rparr> 8
         (snd (deleteWithEntries 20 bd_alquilada))) =
       Inl (BadRequestException ''El estado de la propiedad debe ser liberado por la finalizacion del contrato.'' [])"
proof -
  have h: "distinct (map ct_id (contratos bd_alquilada))"
    "find_id pp_id 30 (propiedades bd_alquilada) = Some (propiedad0\<lparr>contrato_vigente_id := Some 20\<rparr>)"
    "contrato_vigente_id (propiedad0\<lparr>contrato_vigente_id := Some 20\<rparr>) = Some 20"
    and c: "contrato_de 20 bd_alquilada \<noteq> None" "asientos bd_alquilada = []"
    by (simp_all add: bd_alquilada_def bd_ct0_def propiedad0_def contrato0_def col_simps)
  have run: "deleteWithEntries 20 bd_alquilada =
      (fst (deleteWithEntries 20 bd_alquilada), snd (deleteWithEntries 20 bd_alquilada))"
    by simp
  show ?thesis using deleteWithEntries_dangling [OF run h, of 8] c by simp
qed

end
