(* ===== verification/IndexValue.thy ===== *)
theory IndexValue
  imports Dates
begin

text \<open>
  \<^verbatim>\<open>src/modules/external-apis/index-value\<close>: the collection of index values (IPC, ICL, Casa
  Propia), its queries and the update from the external series. What the HTTP client returns is
  a parameter; so are the \<^verbatim>\<open>luxon\<close> operations of the date loop.
\<close>

section \<open>The collection\<close>

record valor_indice =
  iv_formula :: string
  iv_value :: "rat option"
  iv_date :: "fecha option"
  iv_year :: "int option"
  iv_month :: "string option"
  iv_day :: int

text \<open>
  A document before validation: \<open>None\<close> is \<^verbatim>\<open>undefined\<close>, \<^verbatim>\<open>null\<close>, \<^verbatim>\<open>NaN\<close> or an
  invalid date. The schema requires every field, and a required string is not empty.
\<close>

definition indice_valido :: "valor_indice \<Rightarrow> bool" where
  "indice_valido d \<longleftrightarrow> iv_formula d \<noteq> [] \<and> iv_value d \<noteq> None \<and> iv_date d \<noteq> None \<and>
     iv_year d \<noteq> None \<and> (case iv_month d of None \<Rightarrow> False | Some m \<Rightarrow> m \<noteq> [])"

record bd_idx = mundo +
  indices :: "valor_indice list"

definition saveIndexValue :: "valor_indice \<Rightarrow> ('a bd_idx_scheme, valor_indice) proc" where
  "saveIndexValue d =
     (if indice_valido d then ebind (modify (\<lambda>s. s\<lparr>indices := indices s @ [d]\<rparr>)) (\<lambda>_. ret d)
      else raise (ErrorJS ''IndexValue validation failed'' []))"

text \<open>\<^verbatim>\<open>insertMany\<close> is ordered: when one document is invalid none is written.\<close>

definition insertMany :: "valor_indice list \<Rightarrow> ('a bd_idx_scheme, nat) proc" where
  "insertMany ds =
     (if list_all indice_valido ds
      then ebind (modify (\<lambda>s. s\<lparr>indices := indices s @ ds\<rparr>)) (\<lambda>_. ret (length ds))
      else raise (ErrorJS ''IndexValue validation failed'' []))"

section \<open>Queries\<close>

text \<open>\<^verbatim>\<open>find(P).sort({ date: -1 })\<close>, with the dates of stored documents.\<close>

definition fecha_indice :: "valor_indice \<Rightarrow> fecha" where
  "fecha_indice d = coalesce (iv_date d) 0"

definition mas_recientes :: "(valor_indice \<Rightarrow> bool) \<Rightarrow> 'a bd_idx_scheme \<Rightarrow> valor_indice list" where
  "mas_recientes P s = sort_key (\<lambda>d. - fecha_indice d) (filter P (indices s))"

definition primero :: "'a list \<Rightarrow> 'a option" where
  "primero xs = (case xs of [] \<Rightarrow> None | x # _ \<Rightarrow> Some x)"

definition getLatestIndexValue :: "string \<Rightarrow> ('a bd_idx_scheme, valor_indice option) proc" where
  "getLatestIndexValue formula = gets (\<lambda>s. primero (mas_recientes (\<lambda>d. iv_formula d = formula) s))"

definition getIndexHistory :: "string \<Rightarrow> nat option \<Rightarrow> ('a bd_idx_scheme, valor_indice list) proc" where
  "getIndexHistory formula limit =
     gets (\<lambda>s. let ds = mas_recientes (\<lambda>d. iv_formula d = formula) s; n = coalesce limit 10
        in if n = 0 then ds else take n ds)"

definition ultimo_hasta :: "string \<Rightarrow> fecha \<Rightarrow> 'a bd_idx_scheme \<Rightarrow> valor_indice option" where
  "ultimo_hasta formula t s = primero (mas_recientes (\<lambda>d. iv_formula d = formula \<and> fecha_indice d \<le> t) s)"

definition valor_de :: "valor_indice \<Rightarrow> rat" where
  "valor_de d = coalesce (iv_value d) 0"

definition getLatestICLValueBeforeDate :: "fecha \<Rightarrow> ('a bd_idx_scheme, rat option) proc" where
  "getLatestICLValueBeforeDate date = gets (\<lambda>s. map_option valor_de (ultimo_hasta ''ICL'' date s))"

definition getICLValueByDate :: "fecha \<Rightarrow> ('a bd_idx_scheme, rat) proc" where
  "getICLValueByDate date =
     (let startOfDay = dia_local 0 date * dia_ms; endOfDay = startOfDay + dia_ms - 1 in
      ebind (gets (\<lambda>s. find (\<lambda>d. iv_formula d = ''ICL'' \<and> startOfDay \<le> fecha_indice d \<and>
                       fecha_indice d \<le> endOfDay) (indices s))) (\<lambda>v.
      case v of
        None \<Rightarrow> raise (ErrorJS ''No ICL value found for the exact date: {}'' [ANum (of_int date)])
      | Some d \<Rightarrow> ret (valor_de d)))"

definition getLatestICLDate :: "('a bd_idx_scheme, fecha option) proc" where
  "getLatestICLDate =
     gets (\<lambda>s. map_option fecha_indice (primero (mas_recientes (\<lambda>d. iv_formula d = ''ICL'') s)))"

definition mes_anterior :: "int \<Rightarrow> fecha \<Rightarrow> fecha" where
  "mes_anterior tz date = setMonth tz date (getMonth tz date - 1)"

definition getIPCValueByDate :: "int \<Rightarrow> fecha \<Rightarrow> ('a bd_idx_scheme, rat) proc" where
  "getIPCValueByDate tz date =
     ebind (gets (ultimo_hasta ''IPC'' (mes_anterior tz date))) (\<lambda>v.
     case v of
       None \<Rightarrow> raise (ErrorJS ''No IPC value found for the date: {}'' [ANum (of_int (mes_anterior tz date))])
     | Some d \<Rightarrow> ret (valor_de d))"

definition getLatestIPCValueBeforeDate :: "int \<Rightarrow> fecha \<Rightarrow> ('a bd_idx_scheme, rat) proc" where
  "getLatestIPCValueBeforeDate tz date =
     ebind (gets (ultimo_hasta ''IPC'' (mes_anterior tz date))) (\<lambda>v.
     case v of
       None \<Rightarrow> raise (ErrorJS ''No IPC value found before the date: {}'' [ANum (of_int (mes_anterior tz date))])
     | Some d \<Rightarrow> ret (valor_de d))"

definition getLatestIPCDate :: "('a bd_idx_scheme, fecha) proc" where
  "getLatestIPCDate =
     ebind (gets (\<lambda>s. primero (mas_recientes (\<lambda>d. iv_formula d = ''IPC'') s))) (\<lambda>v.
     case v of
       None \<Rightarrow> raise (ErrorJS ''No IPC value found'' [])
     | Some d \<Rightarrow> ret (fecha_indice d))"

definition getCasaPropiaValueByDate :: "fecha \<Rightarrow> ('a bd_idx_scheme, rat option) proc" where
  "getCasaPropiaValueByDate date = gets (\<lambda>s. map_option valor_de (ultimo_hasta ''CASAPROPIA'' date s))"

definition getLatestCasaPropiaDate :: "('a bd_idx_scheme, fecha option) proc" where
  "getLatestCasaPropiaDate =
     gets (\<lambda>s. map_option fecha_indice (primero (mas_recientes (\<lambda>d. iv_formula d = ''CASAPROPIA'') s)))"

section \<open>Saving a batch\<close>

text \<open>
  The scrapper's \<^verbatim>\<open>saveNewDocuments\<close>: the query of the dates throws on an invalid date, and
  every exception is caught and counts as nothing saved.
\<close>

definition nuevos_documentos :: "string \<Rightarrow> valor_indice list \<Rightarrow> 'a bd_idx_scheme \<Rightarrow> valor_indice list" where
  "nuevos_documentos formula ds s =
     filter (\<lambda>d. \<not> list_ex (\<lambda>r. iv_formula r = formula \<and> iv_date r = iv_date d) (indices s)) ds"

definition guardar_lote :: "valor_indice list \<Rightarrow> string \<Rightarrow> ('a bd_idx_scheme, nat) proc" where
  "guardar_lote documents formula =
     (if list_ex (\<lambda>d. iv_date d = None) documents then raise (ErrorJS ''Cast to date failed'' [])
      else ebind (gets (nuevos_documentos formula documents)) (\<lambda>nuevos.
      if nuevos \<noteq> [] then insertMany nuevos else ret 0))"

definition saveNewDocuments :: "valor_indice list \<Rightarrow> string \<Rightarrow> ('a bd_idx_scheme, nat) proc" where
  "saveNewDocuments documents formula = try_catch (guardar_lote documents formula) (\<lambda>_. ret 0)"

text \<open>The method of the same name of \<^verbatim>\<open>IndexValueService\<close> lets the exception out.\<close>

definition iv_saveNewDocuments :: "valor_indice list \<Rightarrow> string \<Rightarrow> ('a bd_idx_scheme, unit) proc" where
  "iv_saveNewDocuments documents formula = ebind (guardar_lote documents formula) (\<lambda>_. ret ())"

section \<open>Reading the series\<close>

text \<open>\<^verbatim>\<open>parseInt\<close> and \<^verbatim>\<open>parseFloat\<close> on the decimal numbers the sources publish.\<close>

definition es_digito :: "char \<Rightarrow> bool" where
  "es_digito c \<longleftrightarrow> 48 \<le> (of_char c :: nat) \<and> (of_char c :: nat) \<le> 57"

definition valor_cifras :: "string \<Rightarrow> nat" where
  "valor_cifras ds = foldl (\<lambda>n c. 10 * n + (of_char c - 48)) 0 ds"

definition parseInt :: "string \<Rightarrow> int option" where
  "parseInt s = (let ds = takeWhile es_digito (dropWhile (\<lambda>c. c = CHR '' '') s)
     in if ds = [] then None else Some (int (valor_cifras ds)))"

definition parseFloat :: "string \<Rightarrow> rat option" where
  "parseFloat s =
     (let t = dropWhile (\<lambda>c. c = CHR '' '') s;
          ent = takeWhile es_digito t;
          r = dropWhile es_digito t;
          frac = (case r of [] \<Rightarrow> [] | c # cs \<Rightarrow> if c = CHR ''.'' then takeWhile es_digito cs else [])
      in if ent = [] \<and> frac = [] then None
         else Some (of_nat (valor_cifras ent) + of_nat (valor_cifras frac) / 10 ^ length frac))"

fun split_js :: "char \<Rightarrow> string \<Rightarrow> string list" where
  "split_js c [] = [[]]"
| "split_js c (x # xs) =
     (if x = c then [] # split_js c xs
      else (case split_js c xs of [] \<Rightarrow> [[x]] | p # ps \<Rightarrow> (x # p) # ps))"

definition trim :: "string \<Rightarrow> string" where
  "trim s = rev (dropWhile (\<lambda>c. c = CHR '' '') (rev (dropWhile (\<lambda>c. c = CHR '' '') s)))"

definition minuscula :: "char \<Rightarrow> char" where
  "minuscula c = (let n = (of_char c :: nat) in if 65 \<le> n \<and> n \<le> 90 then char_of (n + 32) else c)"

definition toLowerCase :: "string \<Rightarrow> string" where
  "toLowerCase s = map minuscula s"

text \<open>\<^verbatim>\<open>replace(',', '.')\<close>: the first comma.\<close>

fun coma_punto :: "string \<Rightarrow> string" where
  "coma_punto [] = []"
| "coma_punto (c # cs) = (if c = CHR '','' then CHR ''.'' # cs else c # coma_punto cs)"

text \<open>\<^verbatim>\<open>new Date(y, m, d)\<close>: local midnight, the years 0 to 99 counted from 1900.\<close>

definition fecha_local :: "int \<Rightarrow> int \<Rightarrow> int \<Rightarrow> int \<Rightarrow> fecha" where
  "fecha_local tz y m d =
     dia_de_civil (if 0 \<le> y \<and> y \<le> 99 then 1900 + y else y) m d * dia_ms - tz"

definition combinar :: "('a \<Rightarrow> 'b \<Rightarrow> 'c) \<Rightarrow> 'a option \<Rightarrow> 'b option \<Rightarrow> 'c option" where
  "combinar f x y = (case (x, y) of (Some a, Some b) \<Rightarrow> Some (f a b) | _ \<Rightarrow> None)"

definition documento_ipc :: "int \<Rightarrow> string \<times> rat option \<Rightarrow> valor_indice" where
  "documento_ipc tz datum =
     (let ps = split_js (CHR ''-'') (fst datum);
          year = parseInt (ps ! 0);
          mes = (if 1 < length ps then parseInt (ps ! 1) else None)
      in \<lparr>iv_formula = ''IPC'', iv_value = snd datum,
          iv_date = combinar (\<lambda>y m. fecha_local tz y (m - 1) 1) year mes, iv_year = year,
          iv_month = map_option (\<lambda>m. getMonthNameEs1 (m - 1)) mes, iv_day = 1\<rparr>)"

text \<open>What a request of the series returned: a timeout, another error, a body of
  another shape, or the data.\<close>

datatype 'd respuesta = Agotado | Fallo | Inesperada | Datos 'd

definition error_inesperado :: excepcion where
  "error_inesperado = InternalServerErrorException ''An unexpected error occurred. Please check the logs.'' []"

definition updateIPC :: "int \<Rightarrow> (string \<times> rat option) list respuesta \<Rightarrow> ('a bd_idx_scheme, nat) proc" where
  "updateIPC tz response =
     (case response of
        Agotado \<Rightarrow> ret 0
      | Fallo \<Rightarrow> raise error_inesperado
      | Inesperada \<Rightarrow> raise error_inesperado
      | Datos seriesData \<Rightarrow> saveNewDocuments (map (documento_ipc tz) seriesData) ''IPC'')"

text \<open>A row of the table is the list of the texts of its cells.\<close>

definition indexOf :: "'a \<Rightarrow> 'a list \<Rightarrow> int" where
  "indexOf x xs = (if x \<in> set xs then int (length (takeWhile (\<lambda>y. y \<noteq> x) xs)) else -1)"

definition celda :: "string list \<Rightarrow> nat \<Rightarrow> string" where
  "celda tds i = (if i < length tds then trim (tds ! i) else [])"

definition documento_casa_propia ::
  "(int \<Rightarrow> int \<Rightarrow> int \<Rightarrow> fecha option) \<Rightarrow> string list \<Rightarrow> valor_indice option" where
  "documento_casa_propia fromObject tds =
     (if tds = [] then None
      else
        let ps = split_js (CHR '' '') (celda tds 0);
            mes = toLowerCase (ps ! 0);
            year = (if 1 < length ps then parseInt (ps ! 1) else None);
            coeficiente = coma_punto (celda tds 1);
            monthIndex = indexOf mes MESES_ES1
        in if monthIndex = -1 then None
           else Some \<lparr>iv_formula = ''CASAPROPIA'', iv_value = parseFloat coeficiente,
             iv_date = Option.bind year (\<lambda>y. fromObject y (monthIndex + 1) 1), iv_year = year,
             iv_month = Some mes, iv_day = 1\<rparr>)"

definition updateCasaPropia ::
  "(int \<Rightarrow> int \<Rightarrow> int \<Rightarrow> fecha option) \<Rightarrow> string list list respuesta \<Rightarrow> ('a bd_idx_scheme, nat) proc" where
  "updateCasaPropia fromObject response =
     (case response of
        Datos filas \<Rightarrow> saveNewDocuments (List.map_filter (documento_casa_propia fromObject) filas) ''CASAPROPIA''
      | _ \<Rightarrow> raise error_inesperado)"

section \<open>The ICL loop\<close>

text \<open>
  The \<^verbatim>\<open>luxon\<close> operations: \<^verbatim>\<open>fromISO\<close>, the year and month of a date, and the sums of a
  month, a year and a day.
\<close>

record luxon_icl =
  li_fromISO :: "string \<Rightarrow> fecha option"
  li_year :: "fecha \<Rightarrow> int"
  li_month :: "fecha \<Rightarrow> int"
  li_mas_mes :: "fecha \<Rightarrow> fecha"
  li_mas_anio :: "fecha \<Rightarrow> fecha"
  li_mas_dia :: "fecha \<Rightarrow> fecha"

definition documento_icl :: "luxon_icl \<Rightarrow> string \<times> rat option \<Rightarrow> valor_indice" where
  "documento_icl lx datum =
     (let dateObj = li_fromISO lx (fst datum)
      in \<lparr>iv_formula = ''ICL'', iv_value = snd datum, iv_date = dateObj,
          iv_year = map_option (li_year lx) dateObj,
          iv_month = map_option (\<lambda>t. getMonthNameEs1 (li_month lx t - 1)) dateObj, iv_day = 1\<rparr>)"

text \<open>One request per window of at most a year; \<open>red desde hasta\<close> is the answer to it.\<close>

definition fin_ventana :: "luxon_icl \<Rightarrow> fecha \<Rightarrow> fecha \<Rightarrow> fecha" where
  "fin_ventana lx fin start = (if li_mas_anio lx start < fin then li_mas_anio lx start else fin)"

partial_function (option) icl_bucle ::
  "luxon_icl \<Rightarrow> (fecha \<Rightarrow> fecha \<Rightarrow> (string \<times> rat option) list respuesta) \<Rightarrow> fecha \<Rightarrow> fecha \<Rightarrow> nat \<Rightarrow>
   'a bd_idx_scheme \<Rightarrow> ((excepcion + nat) \<times> 'a bd_idx_scheme) option" where
  [code]: "icl_bucle lx red fin start totalSaved s =
     (if start < fin then
        (case red start (fin_ventana lx fin start) of
           Datos ds \<Rightarrow>
             (case saveNewDocuments (map (documento_icl lx) ds) ''ICL'' s of
                (Inl e, s') \<Rightarrow> Some (Inl e, s')
              | (Inr n, s') \<Rightarrow>
                  icl_bucle lx red fin (li_mas_dia lx (fin_ventana lx fin start)) (totalSaved + n) s')
         | Inesperada \<Rightarrow> Some (Inr totalSaved, s)
         | Agotado \<Rightarrow> Some (Inl error_inesperado, s)
         | Fallo \<Rightarrow> Some (Inl error_inesperado, s))
      else Some (Inr totalSaved, s))"

definition updateICL ::
  "luxon_icl \<Rightarrow> (fecha \<Rightarrow> fecha \<Rightarrow> (string \<times> rat option) list respuesta) \<Rightarrow> 'a bd_idx_scheme \<Rightarrow>
   ((excepcion + nat) \<times> 'a bd_idx_scheme) option" where
  "updateICL lx red s =
     (let start = (case primero (mas_recientes (\<lambda>d. iv_formula d = ''ICL'') s) of
                     Some r \<Rightarrow> fecha_indice r
                   | None \<Rightarrow> coalesce (li_fromISO lx ''2020-07-01'') 0);
          fin = li_mas_mes lx (ahora s)
      in icl_bucle lx red fin start 0 s)"

section \<open>The daily update\<close>

text \<open>
  \<^verbatim>\<open>triggerUpdate\<close>: the three updates one after the other; the failure of one is recorded and
  does not stop the next.
\<close>

record resumen_indice =
  newRecords :: nat
  ri_status :: string
  ri_error :: "excepcion option"

definition resumen :: "excepcion + nat \<Rightarrow> resumen_indice" where
  "resumen r = (case r of
      Inr n \<Rightarrow> \<lparr>newRecords = n, ri_status = ''success'', ri_error = None\<rparr>
    | Inl e \<Rightarrow> \<lparr>newRecords = 0, ri_status = ''failed'', ri_error = Some e\<rparr>)"

definition triggerUpdate ::
  "int \<Rightarrow> luxon_icl \<Rightarrow> (int \<Rightarrow> int \<Rightarrow> int \<Rightarrow> fecha option) \<Rightarrow> (string \<times> rat option) list respuesta \<Rightarrow>
   string list list respuesta \<Rightarrow> (fecha \<Rightarrow> fecha \<Rightarrow> (string \<times> rat option) list respuesta) \<Rightarrow>
   'a bd_idx_scheme \<Rightarrow> (resumen_indice list \<times> 'a bd_idx_scheme) option" where
  "triggerUpdate tz lx fromObject ipc casa icl s =
     (case updateIPC tz ipc s of (r1, s1) \<Rightarrow>
      case updateCasaPropia fromObject casa s1 of (r2, s2) \<Rightarrow>
      case updateICL lx icl s2 of
        None \<Rightarrow> None
      | Some (r3, s3) \<Rightarrow> Some ([resumen r1, resumen r2, resumen r3], s3))"

end
