(* ===== verification/IndexProperties.thy ===== *)
theory IndexProperties
  imports IndexValue
begin

text \<open>
  The properties of the index values: what a batch stores, what the three updates can store, and
  that the ICL loop ends.
\<close>

section \<open>What a batch stores\<close>

lemma guardar_lote_run:
  "saveNewDocuments ds f s =
     (if list_ex (\<lambda>d. iv_date d = None) ds \<or> \<not> list_all indice_valido (nuevos_documentos f ds s)
      then (Inr 0, s)
      else (Inr (length (nuevos_documentos f ds s)),
            s\<lparr>indices := indices s @ nuevos_documentos f ds s\<rparr>))"
  by (auto simp: saveNewDocuments_def guardar_lote_def try_catch_def insertMany_def ebind_def gets_def
      modify_def ret_def raise_def)

text \<open>C12: Saving a batch of one index always returns: either nothing is saved and nothing changes, or
  the documents whose dates were not stored are appended, all of them valid; and saving the same
  batch again saves nothing.\<close>

theorem saveNewDocuments_once:
  assumes f: "list_all (\<lambda>d. iv_formula d = f) ds"
  shows "\<exists>n s'. saveNewDocuments ds f s = (Inr n, s') \<and>
     (n = 0 \<and> s' = s \<or>
      indices s' = indices s @ nuevos_documentos f ds s \<and> n = length (nuevos_documentos f ds s) \<and>
      list_all indice_valido (nuevos_documentos f ds s)) \<and>
     saveNewDocuments ds f s' = (Inr 0, s')"
proof (cases "list_ex (\<lambda>d. iv_date d = None) ds \<or> \<not> list_all indice_valido (nuevos_documentos f ds s)")
  case True
  then show ?thesis by (simp add: guardar_lote_run)
next
  case False
  define t where "t = s\<lparr>indices := indices s @ nuevos_documentos f ds s\<rparr>"
  have "nuevos_documentos f ds t = []"
    using f by (auto simp: nuevos_documentos_def t_def filter_empty_conv list_ex_iff list_all_iff)
  then have "saveNewDocuments ds f t = (Inr 0, t)" by (simp add: guardar_lote_run)
  then show ?thesis using False by (simp add: guardar_lote_run t_def)
qed

definition bd_idx0 :: bd_idx where
  "bd_idx0 = \<lparr>ahora = 19800 * dia_ms, prox_id = 1, indices = []\<rparr>"

definition indice0 :: "string \<Rightarrow> fecha \<Rightarrow> valor_indice" where
  "indice0 f t = \<lparr>iv_formula = f, iv_value = Some 1, iv_date = Some t, iv_year = Some 2024,
     iv_month = Some ''Marzo'', iv_day = 1\<rparr>"

theorem saveNewDocuments_once_witness:
  "\<exists>s'. saveNewDocuments [indice0 ''ICL'' 5, indice0 ''ICL'' 6] ''ICL''
       (bd_idx0\<lparr>indices := [indice0 ''ICL'' 6]\<rparr>) = (Inr 1, s') \<and> length (indices s') = 2 \<and>
     saveNewDocuments [indice0 ''ICL'' 5, indice0 ''ICL'' 6] ''ICL'' s' = (Inr 0, s')"
proof -
  let ?ds = "[indice0 ''ICL'' 5, indice0 ''ICL'' 6]" and ?s = "bd_idx0\<lparr>indices := [indice0 ''ICL'' 6]\<rparr>"
  have h: "list_all (\<lambda>d. iv_formula d = ''ICL'') ?ds" by (simp add: indice0_def)
  have n: "nuevos_documentos ''ICL'' ?ds ?s = [indice0 ''ICL'' 5]"
    by (simp add: nuevos_documentos_def indice0_def bd_idx0_def)
  have "saveNewDocuments ?ds ''ICL'' ?s = (Inr 1, ?s\<lparr>indices := indices ?s @ [indice0 ''ICL'' 5]\<rparr>)"
    unfolding guardar_lote_run n by (simp add: indice0_def indice_valido_def)
  then show ?thesis using saveNewDocuments_once [OF h, of ?s] by (auto simp: bd_idx0_def)
qed

section \<open>The month labels\<close>

lemma getMonthNameEs1_no_vacio: "getMonthNameEs1 k \<noteq> [] \<Longrightarrow> 1 \<le> k \<and> k \<le> 12"
  by (auto simp: getMonthNameEs1_def split: if_splits)

lemma MESES_ES1_distinct: "distinct MESES_ES1"
  by (simp add: MESES_ES1_def)

lemma getMonthNameEs1_inyectiva:
  assumes "1 \<le> j" "j \<le> 12" "1 \<le> k" "k \<le> 12" "getMonthNameEs1 j = getMonthNameEs1 k"
  shows "j = k"
proof -
  have "nat (j - 1) = nat (k - 1)"
    using assms nth_eq_iff_index_eq [OF MESES_ES1_distinct, of "nat (j - 1)" "nat (k - 1)"]
    by (simp add: getMonthNameEs1_def MESES_ES1_def split: if_splits)
  then show ?thesis using assms by linarith
qed

definition mes_ipc :: "string \<times> rat option \<Rightarrow> int option" where
  "mes_ipc datum = (let ps = split_js (CHR ''-'') (fst datum) in if 1 < length ps then parseInt (ps ! 1) else None)"

lemma documento_ipc_mes: "iv_month (documento_ipc tz d) = map_option (\<lambda>m. getMonthNameEs1 (m - 1)) (mes_ipc d)"
  by (simp add: documento_ipc_def mes_ipc_def Let_def)

text \<open>The IPC update: whatever the series, every value it adds has a month number of at least
  2 (never January) and carries the name of the month before; a series with a January that is not stored
  yet adds nothing at all.\<close>

theorem updateIPC_months:
  "\<exists>n s'. updateIPC tz (Datos serie) s = (Inr n, s') \<and>
     (n = 0 \<and> s' = s \<or>
      (\<exists>nuevos. indices s' = indices s @ map (documento_ipc tz) nuevos \<and> n = length nuevos \<and>
         list_all (\<lambda>d. \<exists>m. mes_ipc d = Some m \<and> 2 \<le> m \<and>
            iv_month (documento_ipc tz d) = Some (getMonthNameEs1 (m - 1)) \<and>
            getMonthNameEs1 (m - 1) \<noteq> getMonthNameEs1 m) nuevos \<and>
         list_all (\<lambda>d. mes_ipc d = Some 1 \<longrightarrow>
            list_ex (\<lambda>r. iv_formula r = ''IPC'' \<and> iv_date r = iv_date (documento_ipc tz d)) (indices s)) serie))"
proof -
  let ?ds = "map (documento_ipc tz) serie"
  let ?nuevo = "\<lambda>d. \<not> list_ex (\<lambda>r. iv_formula r = ''IPC'' \<and> iv_date r = iv_date (documento_ipc tz d)) (indices s)"
  have n: "nuevos_documentos ''IPC'' ?ds s = map (documento_ipc tz) (filter ?nuevo serie)"
    by (simp add: nuevos_documentos_def filter_map comp_def)
  have v: "\<exists>m. mes_ipc d = Some m \<and> 2 \<le> m \<and>
      iv_month (documento_ipc tz d) = Some (getMonthNameEs1 (m - 1)) \<and> getMonthNameEs1 (m - 1) \<noteq> getMonthNameEs1 m"
    if ok: "indice_valido (documento_ipc tz d)" for d
  proof -
    obtain m where m: "mes_ipc d = Some m" "getMonthNameEs1 (m - 1) \<noteq> []"
      using ok by (cases "mes_ipc d") (auto simp: indice_valido_def documento_ipc_mes)
    have k: "1 \<le> m - 1" "m - 1 \<le> 12" using getMonthNameEs1_no_vacio [OF m(2)] by auto
    have "getMonthNameEs1 (m - 1) \<noteq> getMonthNameEs1 m"
    proof
      assume e: "getMonthNameEs1 (m - 1) = getMonthNameEs1 m"
      then have "1 \<le> m \<and> m \<le> 12" using m(2) getMonthNameEs1_no_vacio [of m] by simp
      then show False using getMonthNameEs1_inyectiva [OF k _ _ e] by auto
    qed
    then show ?thesis using m k by (simp add: documento_ipc_mes)
  qed
  show ?thesis
  proof (cases "list_ex (\<lambda>d. iv_date d = None) ?ds \<or> \<not> list_all indice_valido (nuevos_documentos ''IPC'' ?ds s)")
    case True
    then show ?thesis by (simp add: updateIPC_def guardar_lote_run)
  next
    case False
    then have val: "indice_valido (documento_ipc tz d)" if "d \<in> set serie" "?nuevo d" for d
      using that unfolding n by (cases d) (auto simp: list_all_iff)
    have "list_all (\<lambda>d. \<exists>m. mes_ipc d = Some m \<and> 2 \<le> m \<and>
            iv_month (documento_ipc tz d) = Some (getMonthNameEs1 (m - 1)) \<and>
            getMonthNameEs1 (m - 1) \<noteq> getMonthNameEs1 m) (filter ?nuevo serie)"
      unfolding list_all_iff by (auto intro!: v val simp del: split_paired_All)
    moreover have "list_all (\<lambda>d. mes_ipc d = Some 1 \<longrightarrow> \<not> ?nuevo d) serie"
      using val v unfolding list_all_iff by fastforce
    moreover have "updateIPC tz (Datos serie) s = (Inr (length (filter ?nuevo serie)),
        s\<lparr>indices := indices s @ map (documento_ipc tz) (filter ?nuevo serie)\<rparr>)"
      using False unfolding n by (simp add: updateIPC_def guardar_lote_run n)
    ultimately show ?thesis by (intro exI conjI disjI2) (assumption | simp)+
  qed
qed

theorem updateIPC_months_witness:
  "updateIPC 0 (Datos [(''2024-01-01'', Some 1), (''2024-02-01'', Some 2)]) bd_idx0 = (Inr 0, bd_idx0)"
proof -
  let ?serie = "[(''2024-01-01'', Some 1), (''2024-02-01'', Some 2)]"
  obtain n s' where r: "updateIPC 0 (Datos ?serie) bd_idx0 = (Inr n, s')" and
    d: "n = 0 \<and> s' = bd_idx0 \<or> list_all (\<lambda>d. mes_ipc d = Some 1 \<longrightarrow>
        list_ex (\<lambda>r. iv_formula r = ''IPC'' \<and> iv_date r = iv_date (documento_ipc 0 d)) (indices bd_idx0)) ?serie"
    using updateIPC_months [of 0 ?serie bd_idx0] by auto
  have "mes_ipc (''2024-01-01'', Some 1) = Some 1" by code_simp
  then have "n = 0 \<and> s' = bd_idx0" using d by (auto simp: bd_idx0_def)
  then show ?thesis using r by simp
qed

section \<open>Casa Propia\<close>

lemma minuscula_no_mayuscula: "65 \<le> (of_char c :: nat) \<Longrightarrow> (of_char c :: nat) \<le> 90 \<Longrightarrow> minuscula d \<noteq> c"
  by (auto simp: minuscula_def Let_def of_char_of)

lemma mes_minuscula_ausente: "toLowerCase m \<notin> set MESES_ES1"
  by (cases m) (auto simp: toLowerCase_def MESES_ES1_def minuscula_no_mayuscula)

text \<open>The Casa Propia update never stores a value: the month of the table in lower case is
  looked up among capitalised names, so every row is skipped, whatever the page says.\<close>

theorem updateCasaPropia_nothing:
  "updateCasaPropia fromObject (Datos filas) s = (Inr 0, s)"
proof -
  have "documento_casa_propia fromObject tds = None" for tds
    using mes_minuscula_ausente by (simp add: documento_casa_propia_def Let_def indexOf_def)
  then have "List.map_filter (documento_casa_propia fromObject) filas = []"
    by (simp add: List.map_filter_def)
  then show ?thesis
    by (simp add: updateCasaPropia_def guardar_lote_run nuevos_documentos_def)
qed

section \<open>The ICL loop\<close>

lemma icl_bucle_termina:
  assumes "\<And>t. t < li_mas_dia lx t" and "\<And>t. t \<le> li_mas_anio lx t"
  shows "icl_bucle lx red fin start n s \<noteq> None"
proof (induction "nat (fin - start)" arbitrary: start n s rule: less_induct)
  case less
  let ?sig = "li_mas_dia lx (fin_ventana lx fin start)"
  show ?case
  proof (cases "start < fin")
    case True
    then have "start < ?sig"
      using assms(1) [of "fin_ventana lx fin start"] assms(2) [of start] by (auto simp: fin_ventana_def split: if_splits)
    then have "nat (fin - ?sig) < nat (fin - start)" using True by simp
    from less [OF this] show ?thesis
      by (subst icl_bucle.simps) (auto split: respuesta.split prod.split sum.split)
  next
    case False
    then show ?thesis by (subst icl_bucle.simps) simp
  qed
qed

text \<open>The ICL update ends, whatever the API answers: with a calendar in which the next day is
  later and the next year not earlier, the loop over the windows returns a result.\<close>

theorem updateICL_terminates:
  assumes "\<forall>t. t < li_mas_dia lx t" and "\<forall>t. t \<le> li_mas_anio lx t"
  shows "\<exists>r s'. updateICL lx red s = Some (r, s')"
proof -
  have "updateICL lx red s \<noteq> None"
    using assms by (auto simp: updateICL_def Let_def icl_bucle_termina)
  then show ?thesis by auto
qed

definition luxon_icl0 :: luxon_icl where
  "luxon_icl0 = \<lparr>li_fromISO = (\<lambda>s. Some 0), li_year = getFullYear 0, li_month = (\<lambda>t. getMonth 0 t + 1),
     li_mas_mes = (\<lambda>t. t + 30 * dia_ms), li_mas_anio = (\<lambda>t. t + 365 * dia_ms),
     li_mas_dia = (\<lambda>t. t + dia_ms)\<rparr>"

theorem updateICL_terminates_witness:
  "\<exists>r s'. updateICL luxon_icl0 (\<lambda>desde hasta. Datos []) bd_idx0 = Some (r, s')"
proof -
  have "\<forall>t. t < li_mas_dia luxon_icl0 t" "\<forall>t. t \<le> li_mas_anio luxon_icl0 t"
    by (simp_all add: luxon_icl0_def dia_ms_def)
  then show ?thesis by (rule updateICL_terminates)
qed

section \<open>The month before\<close>

text \<open>
  \<^verbatim>\<open>setMonth(getMonth() - 1)\<close> on the last days of a month: March 31st less a month is
  March 2nd of a leap year, so the lookup of the previous month still finds the value of March.
\<close>

lemma mes_anterior_salta:
  "mes_anterior 0 (fecha_local 0 2024 2 31) = fecha_local 0 2024 2 2"
  "getIPCValueByDate 0 (fecha_local 0 2024 2 31) (bd_idx0\<lparr>indices :=
     [(indice0 ''IPC'' (fecha_local 0 2024 1 1))\<lparr>iv_value := Some 10\<rparr>,
      (indice0 ''IPC'' (fecha_local 0 2024 2 1))\<lparr>iv_value := Some 20\<rparr>]\<rparr>) =
   (Inr 20, bd_idx0\<lparr>indices :=
     [(indice0 ''IPC'' (fecha_local 0 2024 1 1))\<lparr>iv_value := Some 10\<rparr>,
      (indice0 ''IPC'' (fecha_local 0 2024 2 1))\<lparr>iv_value := Some 20\<rparr>]\<rparr>)"
  by code_simp+

end
