(* ===== verification/Receipts.thy ===== *)
theory Receipts
  imports Contracts
begin

text \<open>
  \<^verbatim>\<open>src/modules/receipts/receipts.service.ts\<close> (creation and lookup of receipts), the invoicing of
  \<^verbatim>\<open>src/modules/fiscal\<close>, and the operations of \<^verbatim>\<open>transactions.service.ts\<close> that call the
  accounting service. The PDF, email and WhatsApp deliveries are not modelled.
\<close>

section \<open>The collections\<close>

record recibo =
  rc_id :: oid
  numero_recibo :: int
  rc_fecha_emision :: fecha
  rc_monto_total :: monto
  rc_metodo_pago :: string
  rc_comprobante_externo :: "string option"
  rc_cuenta_financiera_id :: oid
  rc_agente_id :: oid
  asientos_afectados :: "(oid \<times> monto \<times> tipo_operacion) list"
  asientos_afectados_ids :: "oid list"
  usuario_emisor_id :: oid
  rc_observaciones :: "string option"
  rc_contrato_id :: "oid option"
  rc_tipo_flujo_neto :: tipo_movimiento
  saldo_a_favor_entry_id :: "oid option"

record documento_fiscal =
  fd_id :: oid
  agente_cliente_id :: oid
  tipo_comprobante :: string
  numero_comprobante :: int
  punto_venta :: int
  fd_fecha_emision :: fecha
  monto_total_fiscal :: monto
  CAE :: texto
  estado_AFIP :: string
  asientos_asociados_ids :: "oid list"

record bd_rec = bd_ct +
  recibos :: "recibo list"
  documentos_fiscales :: "documento_fiscal list"

definition con_recibos :: "(recibo list \<Rightarrow> recibo list) \<Rightarrow> 'a bd_rec_scheme \<Rightarrow> 'a bd_rec_scheme" where
  "con_recibos f s = s\<lparr>recibos := f (recibos s)\<rparr>"

interpretation recs: coleccion rc_id recibos con_recibos
  by unfold_locales (simp add: con_recibos_def)

section \<open>The request\<close>

record imputacion_dto =
  im_asiento_id :: oid
  im_monto :: monto
  im_tipo_operacion :: "tipo_operacion option"
  im_agente_id :: "oid option"

record create_receipt_dto =
  cr_monto_total_imputado :: monto
  cr_monto_recibido_fisico :: monto
  cr_metodo_pago :: string
  cr_comprobante_externo :: "string option"
  cr_cuenta_afectada_id :: oid
  cr_agente_id :: oid
  cr_asientos_a_imputar :: "imputacion_dto list"
  cr_observaciones :: "string option"
  cr_contrato_id :: "oid option"
  cr_emitir_factura :: bool

text \<open>The local variables of the loop.\<close>

record acumulado =
  montoCobrosTotal :: monto
  montoPagosTotal :: monto
  montoTotalImputado :: monto
  afectados :: "(oid \<times> monto \<times> tipo_operacion) list"
  facturables :: "oid list"

definition acumulado0 :: acumulado where
  "acumulado0 = \<lparr>montoCobrosTotal = 0, montoPagosTotal = 0, montoTotalImputado = 0,
     afectados = [], facturables = []\<rparr>"

section \<open>One line of the receipt\<close>

definition partidas_facturables :: "asiento \<Rightarrow> partida list" where
  "partidas_facturables a = filter (\<lambda>p. \<not> es_iva_incluido p \<and> debe p > 0) (partidas a)"

definition es_asiento_facturable :: "asiento \<Rightarrow> 'a bd_plan_scheme \<Rightarrow> bool" where
  "es_asiento_facturable a s \<longleftrightarrow>
     (let ps = partidas_facturables a in ps \<noteq> [] \<and>
      filter (\<lambda>c. cc_id c \<in> set (map cuenta_id ps) \<and> es_facturable c) (plan_cuentas s) \<noteq> [])"

text \<open>The operation when the request does not say it: a pending debit is collected, a pending
  credit is paid.\<close>

definition inferir_operacion :: "asiento \<Rightarrow> excepcion + tipo_operacion" where
  "inferir_operacion a =
     (let debePendiente = totalDebe (partidas a) - montoPagadoDebe (partidas a);
          haberPendiente = totalHaber (partidas a) - montoLiquidadoHaber (partidas a)
      in if debePendiente > 0 then Inr COBRO
         else if haberPendiente > 0 then Inr PAGO
         else Inl (BadRequestException ''El asiento {} no tiene saldo pendiente para procesar'' [AId (a_id a)]))"

definition operacion_de :: "imputacion_dto \<Rightarrow> asiento \<Rightarrow> excepcion + tipo_operacion" where
  "operacion_de im a = (case im_tipo_operacion im of Some t \<Rightarrow> Inr t | None \<Rightarrow> inferir_operacion a)"

definition pago_recibo ::
  "create_receipt_dto \<Rightarrow> oid \<Rightarrow> imputacion_dto \<Rightarrow> fecha \<Rightarrow> register_payment_dto" where
  "pago_recibo dto userId im hoy =
     \<lparr>rp_fecha_pago = hoy, rp_monto_pagado = im_monto im, rp_metodo_pago = Some (cr_metodo_pago dto),
      rp_cuenta_financiera_id = cr_cuenta_afectada_id dto, rp_observaciones = cr_observaciones dto,
      rp_usuario_id = userId\<rparr>"

definition liquidacion_recibo ::
  "create_receipt_dto \<Rightarrow> oid \<Rightarrow> int \<Rightarrow> imputacion_dto \<Rightarrow> fecha \<Rightarrow> liquidar_dto" where
  "liquidacion_recibo dto userId nro im hoy =
     \<lparr>li_fecha_liquidacion = hoy, li_metodo_liquidacion = cr_metodo_pago dto,
      li_cuenta_financiera_id = cr_cuenta_afectada_id dto,
      li_agente_id = coalesce (im_agente_id im) (cr_agente_id dto),
      li_monto_a_liquidar = Some (im_monto im), li_comprobante = Some (numero_texto nro),
      li_observaciones = cr_observaciones dto, li_usuario_id = userId\<rparr>"

definition ejecutar_operacion ::
  "create_receipt_dto \<Rightarrow> oid \<Rightarrow> int \<Rightarrow> imputacion_dto \<Rightarrow> tipo_operacion \<Rightarrow> ('a bd_asi_scheme, asiento) proc" where
  "ejecutar_operacion dto userId nro im t =
     ebind (gets ahora) (\<lambda>hoy.
     case t of
       COBRO \<Rightarrow> registerPayment (im_asiento_id im) (pago_recibo dto userId im hoy)
     | PAGO \<Rightarrow> liquidarAPropietario (im_asiento_id im) (liquidacion_recibo dto userId nro im hoy))"

definition acumular :: "imputacion_dto \<Rightarrow> tipo_operacion \<Rightarrow> bool \<Rightarrow> acumulado \<Rightarrow> acumulado" where
  "acumular im t facturable l =
     l\<lparr>montoCobrosTotal := montoCobrosTotal l + (if t = COBRO then im_monto im else 0),
       montoPagosTotal := montoPagosTotal l + (if t = PAGO then im_monto im else 0),
       montoTotalImputado := montoTotalImputado l + im_monto im,
       afectados := afectados l @ [(im_asiento_id im, im_monto im, t)],
       facturables := facturables l @ (if facturable then [im_asiento_id im] else [])\<rparr>"

text \<open>\<open>as\<close> are the entries read before the loop.\<close>

definition paso_recibo ::
  "create_receipt_dto \<Rightarrow> oid \<Rightarrow> int \<Rightarrow> asiento list \<Rightarrow> imputacion_dto \<Rightarrow> acumulado \<Rightarrow>
   ('a bd_asi_scheme, acumulado) proc" where
  "paso_recibo dto userId nro as im l =
     (case find_id a_id (im_asiento_id im) as of
        None \<Rightarrow> ret l
      | Some a \<Rightarrow>
          ebind (gets (es_asiento_facturable a)) (\<lambda>facturable.
          ebind (lift_result (operacion_de im a)) (\<lambda>t.
          ebind (ejecutar_operacion dto userId nro im t) (\<lambda>_.
          ret (acumular im t facturable l)))))"

section \<open>The credit in favour\<close>

text \<open>The entry for the money received beyond the imputed total; it has no due date.\<close>

definition saldo_a_favor_dto :: "create_receipt_dto \<Rightarrow> oid \<Rightarrow> int \<Rightarrow> oid \<Rightarrow> monto \<Rightarrow> fecha \<Rightarrow> asiento_dto" where
  "saldo_a_favor_dto dto userId nro cuenta saldo hoy =
     \<lparr>d_contrato_id = cr_contrato_id dto, d_fecha_imputacion = Some hoy, d_fecha_vencimiento = None,
      d_descripcion = Some (''Saldo a favor generado por recibo #{}'', [ANum (of_int nro)]),
      d_tipo_asiento = Some ''SALDO_A_FAVOR'', d_metadata = None, d_estado = Some PENDIENTE,
      d_monto_original = Some saldo, d_monto_actual = Some saldo,
      d_partidas = Some [\<lparr>cuenta_id = cuenta, p_descripcion = (''Saldo a favor'', []), debe = 0,
        haber = saldo, p_agente_id = Some (cr_agente_id dto), monto_pagado_acumulado = None,
        monto_liquidado = None, es_iva_incluido = False, tasa_iva_aplicada = Some 0,
        monto_base_imponible = Some 0, monto_iva_calculado = Some 0\<rparr>],
      d_usuario_creacion_id = None, d_usuario_modificacion_id = None,
      d_historial = [\<lparr>c_fecha = hoy, c_usuario_id = userId, c_accion = ''CREACION'',
        estado_anterior = None, estado_nuevo = Some PENDIENTE, c_monto = Some saldo,
        c_observaciones = Some (''Asiento de saldo a favor creado'', [])\<rparr>]\<rparr>"

definition crear_saldo_a_favor ::
  "create_receipt_dto \<Rightarrow> oid \<Rightarrow> int \<Rightarrow> ('a bd_asi_scheme, oid option) proc" where
  "crear_saldo_a_favor dto userId nro =
     (if cr_monto_recibido_fisico dto > cr_monto_total_imputado dto then
        ebind (cc_find (\<lambda>c. codigo c = ''CXP_LOC'')) (\<lambda>cuentas.
        case cuentas of
          [] \<Rightarrow> raise (BadRequestException ''No se encontro la cuenta contable para Saldo a Favor.'' [])
        | c # _ \<Rightarrow>
            ebind (gets ahora) (\<lambda>hoy.
            ebind (create (saldo_a_favor_dto dto userId nro (cc_id c)
                     (cr_monto_recibido_fisico dto - cr_monto_total_imputado dto) hoy)) (\<lambda>a.
            ret (Some (a_id a)))))
      else ret None)"

section \<open>The receipt\<close>

definition flujo_recibo :: "acumulado \<Rightarrow> tipo_movimiento" where
  "flujo_recibo l = (if montoCobrosTotal l - montoPagosTotal l \<ge> 0 then INGRESO else EGRESO)"

definition monto_neto :: "acumulado \<Rightarrow> monto" where
  "monto_neto l = \<bar>montoCobrosTotal l - montoPagosTotal l\<bar>"

definition guardar_recibo ::
  "create_receipt_dto \<Rightarrow> oid \<Rightarrow> int \<Rightarrow> acumulado \<Rightarrow> oid option \<Rightarrow> ('a bd_rec_scheme, recibo) proc" where
  "guardar_recibo dto userId nro l favor =
     ebind nuevo_id (\<lambda>i.
     ebind (gets ahora) (\<lambda>hoy.
     ebind (gets recibos) (\<lambda>rs.
     let r = \<lparr>rc_id = i, numero_recibo = nro, rc_fecha_emision = hoy, rc_monto_total = monto_neto l,
              rc_metodo_pago = cr_metodo_pago dto, rc_comprobante_externo = cr_comprobante_externo dto,
              rc_cuenta_financiera_id = cr_cuenta_afectada_id dto, rc_agente_id = cr_agente_id dto,
              asientos_afectados = afectados l, asientos_afectados_ids = map fst (afectados l),
              usuario_emisor_id = userId, rc_observaciones = cr_observaciones dto,
              rc_contrato_id = cr_contrato_id dto, rc_tipo_flujo_neto = flujo_recibo l,
              saldo_a_favor_entry_id = favor\<rparr>
     in if nro \<in> numero_recibo ` set rs
        then raise (ErrorJS ''E11000 duplicate key error'' [])
        else ebind (modify (con_recibos (\<lambda>rs. rs @ [r]))) (\<lambda>_. ret r))))"

definition descripcion_transaccion ::
  "create_receipt_dto \<Rightarrow> int \<Rightarrow> acumulado \<Rightarrow> ('a bd_ag_scheme, texto) proc" where
  "descripcion_transaccion dto nro l =
     (if flujo_recibo l = EGRESO then
        ebind (ag_findOne (cr_agente_id dto)) (\<lambda>agent.
        case cuentas_bancarias agent of
          [] \<Rightarrow> raise (BadRequestException ''Agente no tiene cuentas bancarias registradas para un egreso.'' [])
        | b # _ \<Rightarrow> ret (''Liquidacion a agente #{} segun recibo #{}. CBU: {}'',
            [AId (cr_agente_id dto), ANum (of_int nro), AStr b]))
      else ret (''Cobro segun recibo #{}'', [ANum (of_int nro)]))"

text \<open>The steps after the loop: the credit in favour, the receipt, the transaction, the invoice mark.\<close>

definition emitir_recibo ::
  "create_receipt_dto \<Rightarrow> oid \<Rightarrow> int \<Rightarrow> acumulado \<Rightarrow> ('a bd_rec_scheme, recibo) proc" where
  "emitir_recibo dto userId nro l =
     ebind (crear_saldo_a_favor dto userId nro) (\<lambda>favor.
     ebind (guardar_recibo dto userId nro l favor) (\<lambda>r.
     ebind (descripcion_transaccion dto nro l) (\<lambda>desc.
     if afectados l = [] then raise (ErrorJS ''Cannot read properties of undefined'' [])
     else
     ebind (tx_create \<lparr>ct_referencia_asiento = Some (fst (hd (afectados l))), ct_monto = monto_neto l,
              ct_cuenta_financiera_id = cr_cuenta_afectada_id dto, ct_fecha_transaccion = None,
              ct_tipo = flujo_recibo l, ct_descripcion = Some desc,
              ct_referencia_bancaria = cr_comprobante_externo dto, ct_receipt_id = Some (rc_id r)\<rparr> userId) (\<lambda>_.
     ebind (if cr_emitir_factura dto \<and> facturables l \<noteq> []
            then markAsPendingInvoice (facturables l) else ret ()) (\<lambda>_.
     ret r)))))"

definition asientos_de_recibo :: "create_receipt_dto \<Rightarrow> 'a bd_asi_scheme \<Rightarrow> asiento list" where
  "asientos_de_recibo dto s =
     filter (\<lambda>a. a_id a \<in> set (map im_asiento_id (cr_asientos_a_imputar dto))) (asientos s)"

definition cuerpo_recibo :: "create_receipt_dto \<Rightarrow> oid \<Rightarrow> ('a bd_rec_scheme, recibo) proc" where
  "cuerpo_recibo dto userId =
     ebind (generateReceiptNumber ''receipt'') (\<lambda>nro.
     ebind (gets (asientos_de_recibo dto)) (\<lambda>as.
     if length as \<noteq> length (cr_asientos_a_imputar dto)
     then raise (NotFoundException ''Uno o mas asientos contables no encontrados.'' [])
     else
     ebind (fold_each (paso_recibo dto userId nro as) (cr_asientos_a_imputar dto) acumulado0) (\<lambda>l.
     if montoTotalImputado l \<noteq> cr_monto_total_imputado dto
     then raise (BadRequestException
       ''El monto total imputado calculado no coincide con el monto_total_imputado enviado.'' [])
     else emitir_recibo dto userId nro l)))"

text \<open>
  The session covers the writes that receive it: the receipt, the transaction and the mark of the
  invoice, which is the last step. The counter, the payments, the settlements and the credit
  entry are written outside it and survive an abort.
\<close>

definition sesion_recibo :: "('a bd_rec_scheme, 'b) proc \<Rightarrow> ('a bd_rec_scheme, 'b) proc" where
  "sesion_recibo m s =
     (case m s of
        (Inl e, s') \<Rightarrow> (Inl e, s'\<lparr>recibos := recibos s, transacciones := transacciones s\<rparr>)
      | (Inr x, s') \<Rightarrow> (Inr x, s'))"

definition createReceipt :: "create_receipt_dto \<Rightarrow> oid \<Rightarrow> ('a bd_rec_scheme, recibo) proc" where
  "createReceipt dto userId = sesion_recibo (cuerpo_recibo dto userId)"

definition rc_findOne :: "oid \<Rightarrow> ('a bd_rec_scheme, recibo) proc" where
  "rc_findOne i = obtener rc_id recibos i (NotFoundException ''Recibo con ID {} no encontrado.'' [AId i])"

record filtros_recibo =
  fr_tipo :: "tipo_movimiento option"
  fr_desde :: "fecha option"
  fr_hasta :: "fecha option"
  fr_ascendente :: bool
  fr_page :: nat
  fr_pageSize :: nat

text \<open>\<^verbatim>\<open>findByAgent\<close>: the matching receipts, how many they are, and the page.\<close>

definition rc_coincide :: "int \<Rightarrow> oid \<Rightarrow> filtros_recibo \<Rightarrow> recibo \<Rightarrow> bool" where
  "rc_coincide tz ag f r \<longleftrightarrow> rc_agente_id r = ag \<and>
     (case fr_tipo f of None \<Rightarrow> True | Some t \<Rightarrow> rc_tipo_flujo_neto r = t) \<and>
     en_rango (fr_desde f) (map_option (fin_del_dia tz) (fr_hasta f)) (rc_fecha_emision r)"

definition rc_findByAgent ::
  "int \<Rightarrow> oid \<Rightarrow> filtros_recibo \<Rightarrow> ('a bd_rec_scheme, nat \<times> int \<times> recibo list) proc" where
  "rc_findByAgent tz ag f =
     gets (\<lambda>s. let rs = sort_key (\<lambda>r. if fr_ascendente f then rc_fecha_emision r else - rc_fecha_emision r)
                          (filter (rc_coincide tz ag f) (recibos s))
        in (length rs, total_paginas (fr_pageSize f) (length rs), pagina (fr_page f) (fr_pageSize f) rs))"

section \<open>Transactions that settle, and their receipt\<close>

definition liquidate ::
  "oid \<Rightarrow> oid \<Rightarrow> oid list \<Rightarrow> monto \<Rightarrow> fecha \<Rightarrow> oid \<Rightarrow> ('a bd_rec_scheme, transaccion_doc) proc" where
  "liquidate locador cuenta ids monto_tot fecha_p userId =
     ebind (tx_create \<lparr>ct_referencia_asiento = None, ct_monto = monto_tot,
              ct_cuenta_financiera_id = cuenta, ct_fecha_transaccion = Some fecha_p,
              ct_tipo = EGRESO, ct_descripcion = Some (''Liquidacion a locador {}'', [AId locador]),
              ct_referencia_bancaria = None, ct_receipt_id = None\<rparr> userId) (\<lambda>t.
     ebind (markAsLiquidated ids) (\<lambda>_. ret t))"

definition getReceipt :: "oid \<Rightarrow> ('a bd_rec_scheme, recibo) proc" where
  "getReceipt i =
     ebind (obtener tx_id transacciones i (NotFoundException ''Transaction with ID {} not found.'' [AId i])) (\<lambda>t.
     case tx_receipt_id t of
       None \<Rightarrow> raise (NotFoundException ''Transaction with ID {} is not associated with a receipt.'' [AId i])
     | Some r \<Rightarrow> rc_findOne r)"

section \<open>Invoices\<close>

text \<open>\<^verbatim>\<open>afip.service.ts\<close> is a mock: the next number is always 12345 and the CAE is a time stamp.\<close>

definition getProximoNroComprobante :: "int \<Rightarrow> string \<Rightarrow> int" where
  "getProximoNroComprobante pv tipo = 12345"

definition submitInvoice :: "int \<Rightarrow> fecha \<Rightarrow> string \<times> texto \<times> int" where
  "submitInvoice CbteDesde hoy = (''APROBADO'', (''mock_cae_{}'', [ANum (of_int hoy)]), CbteDesde)"

definition base_imponible_total :: "asiento list \<Rightarrow> monto" where
  "base_imponible_total as = (\<Sum>a\<leftarrow>as. \<Sum>p\<leftarrow>partidas a. o_cero (monto_base_imponible p))"

definition iva_total :: "asiento list \<Rightarrow> monto" where
  "iva_total as = (\<Sum>a\<leftarrow>as. \<Sum>p\<leftarrow>partidas a. o_cero (monto_iva_calculado p))"

definition cliente_de_asiento :: "asiento list \<Rightarrow> excepcion + oid" where
  "cliente_de_asiento as =
     (case as of
        [] \<Rightarrow> Inl (ErrorJS ''Cannot read properties of undefined'' [])
      | a # _ \<Rightarrow> (case partidas a of
            [] \<Rightarrow> Inl (ErrorJS ''Cannot read properties of undefined'' [])
          | p # _ \<Rightarrow> (case p_agente_id p of
              None \<Rightarrow> Inl (ErrorJS ''Cannot read properties of undefined'' [])
            | Some i \<Rightarrow> Inr i)))"

definition issueInvoice :: "oid list \<Rightarrow> oid \<Rightarrow> ('a bd_rec_scheme, documento_fiscal) proc" where
  "issueInvoice ids userId =
     ebind (asi_find (\<lambda>a. a_id a \<in> set ids)) (\<lambda>entries.
     if length entries \<noteq> length ids
     then raise (NotFoundException ''One or more accounting entries not found.'' [])
     else
     ebind (lift_result (cliente_de_asiento entries)) (\<lambda>clientId.
     ebind (ag_findOne clientId) (\<lambda>client.
     let tipo = (if nomenclador_fiscal client = Some ''RI'' then ''01'' else ''06'') in
     ebind (gets ahora) (\<lambda>hoy.
     case submitInvoice (getProximoNroComprobante 1 tipo) hoy of (estado_a, cae, numero_a) \<Rightarrow>
     ebind nuevo_id (\<lambda>i.
     ebind (gets documentos_fiscales) (\<lambda>fs.
     let f = \<lparr>fd_id = i, agente_cliente_id = clientId, tipo_comprobante = tipo,
              numero_comprobante = numero_a, punto_venta = 1, fd_fecha_emision = hoy,
              monto_total_fiscal = base_imponible_total entries + iva_total entries,
              CAE = cae, estado_AFIP = estado_a, asientos_asociados_ids = ids\<rparr>
     in if cae \<in> CAE ` set fs then raise (ErrorJS ''E11000 duplicate key error'' [])
        else
        ebind (modify (\<lambda>s. s\<lparr>documentos_fiscales := documentos_fiscales s @ [f]\<rparr>)) (\<lambda>_.
        ebind (markAsInvoiced ids) (\<lambda>_. ret f))))))))"

end
