(* ===== verification/ReceiptProperties.thy ===== *)
theory ReceiptProperties
  imports Receipts ContractExamples
begin

text \<open>
  The properties of the receipts: a receipt of collections reconciles the cash account with its
  receipt and its transaction; what a failed receipt leaves behind.
\<close>

section \<open>What the payments of a receipt touch\<close>

text \<open>Entries and balances, and nothing else.\<close>

definition solo_asientos :: "'a bd_asi_scheme \<Rightarrow> 'a bd_asi_scheme \<Rightarrow> bool" where
  "solo_asientos s s' \<longleftrightarrow> (\<exists>c as. s' = s\<lparr>cuentas_fin := c, asientos := as\<rparr>)"

lemma solo_asientos_refl [simp]: "solo_asientos s s"
  unfolding solo_asientos_def by (intro exI [of _ "cuentas_fin s"] exI [of _ "asientos s"]) simp

lemma solo_asientos_trans: "solo_asientos s t \<Longrightarrow> solo_asientos t u \<Longrightarrow> solo_asientos s u"
  unfolding solo_asientos_def by (elim exE) (intro exI, simp)

lemma solo_asientos_con [simp]: "solo_asientos s (con_asientos f s)"
  unfolding solo_asientos_def con_asientos_def by (intro exI [of _ "cuentas_fin s"] exI) simp

lemma solo_asientos_campos:
  "solo_asientos s s' \<Longrightarrow> ahora s' = ahora s" "solo_asientos s s' \<Longrightarrow> transacciones s' = transacciones s"
  "solo_asientos s s' \<Longrightarrow> plan_cuentas s' = plan_cuentas s"
  by (auto simp: solo_asientos_def)

lemma solo_asientos_recibos: "solo_asientos s s' \<Longrightarrow> recibos s' = recibos s"
  by (auto simp: solo_asientos_def)

lemma solo_asientos_saldo: "updateBalance i m ty s = (r, s') \<Longrightarrow> solo_asientos s s'"
proof -
  assume "updateBalance i m ty s = (r, s')"
  then obtain c where "s' = s\<lparr>cuentas_fin := c\<rparr>" using updateBalance_frame by blast
  then show ?thesis unfolding solo_asientos_def
    by (intro exI [of _ c] exI [of _ "asientos s"]) simp
qed

lemma cargarAsiento_estado: "snd (cargarAsiento i s) = s"
  by (simp add: cargarAsiento_def obtener_def split: option.split)

text \<open>A handler of the accounting service: load, check, move a balance, save.\<close>

definition toca :: "('a bd_asi_scheme, 'b) proc \<Rightarrow> bool" where
  "toca m \<longleftrightarrow> (\<forall>s. solo_asientos s (snd (m s)))"

lemma toca_ebind: "toca m \<Longrightarrow> (\<And>x. toca (k x)) \<Longrightarrow> toca (ebind m k)"
  unfolding toca_def ebind_def by (auto split: prod.splits sum.splits) (metis snd_conv solo_asientos_trans)+

lemma toca_puro [simp]:
  "toca (ret x)" "toca (raise e)" "toca (gets f)" "toca (lift_result q)" "toca (cargarAsiento i)"
  by (simp_all add: toca_def ret_def raise_def gets_def lift_result_def cargarAsiento_estado)

lemma toca_guardar [simp]: "toca (guardarAsiento a)"
  by (simp add: toca_def guardarAsiento_run)

lemma toca_updateBalance [simp]: "toca (updateBalance i m ty)"
  unfolding toca_def by (metis prod.collapse solo_asientos_saldo)

lemma toca_registerPayment [simp]: "toca (registerPayment i d)"
  unfolding registerPayment_def by (intro toca_ebind) (auto intro!: toca_ebind simp del: ebind_gets)

lemma toca_liquidar [simp]: "toca (liquidarAPropietario i d)"
  unfolding liquidarAPropietario_def by (intro toca_ebind) (auto intro!: toca_ebind simp del: ebind_gets)

lemma toca_paso [simp]: "toca (paso_recibo dto u nro as im l)"
  unfolding paso_recibo_def ejecutar_operacion_def
  by (auto intro!: toca_ebind simp del: ebind_gets split: option.split tipo_operacion.split)

lemma toca_fold: "(\<And>x l. toca (m x l)) \<Longrightarrow> toca (fold_each m xs l)"
  by (induction xs arbitrary: l) (auto intro: toca_ebind)

lemma tocaD: "toca m \<Longrightarrow> m s = (r, s') \<Longrightarrow> solo_asientos s s'"
  unfolding toca_def by (metis snd_conv)

lemma toca_fold_paso:
  "fold_each (paso_recibo dto u nro as) ims l s = (r, s') \<Longrightarrow> solo_asientos s s'"
  by (erule tocaD [rotated]) (rule toca_fold, rule toca_paso)

section \<open>A receipt of collections\<close>

lemma find_id_filter: "find_id k i (filter (\<lambda>d. k d \<in> I) ds) = (if i \<in> I then find_id k i ds else None)"
  by (induction ds) (auto simp: col_simps)

definition es_cobro :: "'a bd_asi_scheme \<Rightarrow> imputacion_dto \<Rightarrow> bool" where
  "es_cobro s im \<longleftrightarrow> im_tipo_operacion im = Some COBRO \<and> 0 < im_monto im \<and>
     (case asiento_de (im_asiento_id im) s of None \<Rightarrow> False | Some a \<Rightarrow> 0 < totalDebe (partidas a))"

definition monto_imputado :: "imputacion_dto list \<Rightarrow> monto" where
  "monto_imputado ims = (\<Sum>im\<leftarrow>ims. im_monto im)"

lemma totalDebe_imputar [simp]: "totalDebe (partidas (imputarPago hoy d a)) = totalDebe (partidas a)"
  by (rule fijos_totales) simp

lemma es_cobro_pago:
  assumes "registerPayment i d s = (Inr a', s')"
  shows "es_cobro s' im = es_cobro s im"
  proof -
  obtain a where a: "asiento_de i s = Some a" and a': "a' = imputarPago (ahora s) d a"
    and j: "\<And>j. asiento_de j s' = (if j = i then Some a' else asiento_de j s)"
    using registerPayment_Inr [OF assms] by blast
  show ?thesis by (cases "im_asiento_id im = i") (simp_all add: es_cobro_def j a a')
qed

lemma saldo_movido_trans: "saldo_movido c m s t \<Longrightarrow> saldo_movido c n t u \<Longrightarrow> saldo_movido c (m + n) s u"
  by (auto simp: saldo_movido_def option.map_comp comp_def add.assoc)

lemma paso_cobro:
  assumes run: "paso_recibo dto u nro as im l s = (Inr l', s')" and im: "es_cobro s im"
    and as: "find_id a_id (im_asiento_id im) as \<noteq> None"
  shows "\<exists>f. l' = acumular im COBRO f l" and "saldo_movido (cr_cuenta_afectada_id dto) (im_monto im) s s'"
    and "es_cobro s' jm = es_cobro s jm"
proof -
  obtain a' t where pay: "registerPayment (im_asiento_id im) (pago_recibo dto u im (ahora s)) s = (Inr a', s')"
    and l': "l' = acumular im COBRO t l"
    using run im as by (auto simp: paso_recibo_def proc_simps operacion_de_def ejecutar_operacion_def es_cobro_def
        split: option.splits)
  show "\<exists>f. l' = acumular im COBRO f l" using l' by blast
  show "saldo_movido (cr_cuenta_afectada_id dto) (im_monto im) s s'"
    using registerPayment_Inr [OF pay] im by (auto simp: es_cobro_def pago_recibo_def split: option.splits)
  show "es_cobro s' jm = es_cobro s jm" by (rule es_cobro_pago [OF pay])
qed

lemma bucle_cobros:
  assumes "fold_each (paso_recibo dto u nro as) ims l s = (Inr l', s')"
    and "list_all (es_cobro s) ims" and "list_all (\<lambda>im. find_id a_id (im_asiento_id im) as \<noteq> None) ims"
  shows "saldo_movido (cr_cuenta_afectada_id dto) (monto_imputado ims) s s' \<and>
    montoCobrosTotal l' = montoCobrosTotal l + monto_imputado ims \<and> montoPagosTotal l' = montoPagosTotal l \<and>
    montoTotalImputado l' = montoTotalImputado l + monto_imputado ims \<and>
    afectados l' = afectados l @ map (\<lambda>im. (im_asiento_id im, im_monto im, COBRO)) ims"
  using assms
proof (induction ims arbitrary: l s)
  case Nil
  then show ?case by (simp add: proc_simps monto_imputado_def saldo_movido_cero)
next
  case (Cons im ims)
  then obtain l1 s1 where p: "paso_recibo dto u nro as im l s = (Inr l1, s1)"
    and f: "fold_each (paso_recibo dto u nro as) ims l1 s1 = (Inr l', s')"
    by (auto simp: proc_simps)
  have c: "es_cobro s im" "find_id a_id (im_asiento_id im) as \<noteq> None" using Cons.prems by auto
  note q = paso_cobro [OF p c]
  have "list_all (es_cobro s1) ims" using Cons.prems(2) q(3) by (simp add: list_all_iff)
  from Cons.IH [OF f this] Cons.prems(3) q(1) saldo_movido_trans [OF q(2)]
  show ?case by (auto simp: acumular_def monto_imputado_def add.assoc)
qed

section \<open>The steps after the loop\<close>

lemma crear_saldo_a_favor_Inr:
  "crear_saldo_a_favor dto u nro s = (Inr x, s') \<Longrightarrow>
     cr_monto_recibido_fisico dto \<le> cr_monto_total_imputado dto \<and> x = None \<and> s' = s"
  by (auto simp: crear_saldo_a_favor_def proc_simps create_def dto_valido_def saldo_a_favor_dto_def
      neq_Nil_conv split: if_splits list.splits)

lemma crear_saldo_a_favor_Inl:
  assumes "cr_monto_recibido_fisico dto > cr_monto_total_imputado dto"
  shows "\<exists>e p. crear_saldo_a_favor dto u nro s = (Inl e, s\<lparr>prox_id := p\<rparr>)"
proof (cases "filter (\<lambda>c. codigo c = ''CXP_LOC'') (plan_cuentas s)")
  case Nil
  then show ?thesis using assms
    by (auto simp: crear_saldo_a_favor_def cc_find_def raise_def intro: exI [of _ "prox_id s"])
next
  case (Cons c cs)
  then show ?thesis using assms
    by (auto simp: crear_saldo_a_favor_def cc_find_def raise_def create_def sin_partidas_def
        saldo_a_favor_dto_def dto_valido_def ebind_def gets_def nuevo_id_def)
qed

lemma guardar_recibo_Inr:
  assumes "guardar_recibo dto u nro l favor s = (Inr r, s')"
  shows "rc_monto_total r = monto_neto l" "rc_tipo_flujo_neto r = flujo_recibo l" "numero_recibo r = nro"
    "asientos_afectados r = afectados l" "rc_id r = prox_id s" "nro \<notin> numero_recibo ` set (recibos s)"
    "s' = con_recibos (\<lambda>rs. rs @ [r]) (s\<lparr>prox_id := Suc (prox_id s)\<rparr>)"
  using assms by (auto simp: guardar_recibo_def proc_simps Let_def split: if_splits)

lemma descripcion_transaccion_estado: "descripcion_transaccion dto nro l s = (r, s') \<Longrightarrow> s' = s"
  by (cases r) (auto simp: descripcion_transaccion_def ag_findOne_def proc_simps neq_Nil_conv
      split: if_splits list.splits)

lemma tx_create_Inr:
  assumes "tx_create d u s = (Inr t, s')"
  shows "tx_monto t = ct_monto d" "tx_tipo t = ct_tipo d" "tx_receipt_id t = ct_receipt_id d"
    "tx_cuenta_financiera_id t = ct_cuenta_financiera_id d"
    "s' = con_tx (\<lambda>ts. ts @ [t]) (s\<lparr>prox_id := Suc (prox_id s)\<rparr>)"
  using assms by (auto simp: tx_create_def proc_simps Let_def)

lemma tx_create_no_falla: "fst (tx_create d u s) \<noteq> Inl e"
  by (simp add: tx_create_def Let_def ret_def)

lemma marca_factura_run:
  "(if b then markAsPendingInvoice is else ret ()) s = (r, s') \<Longrightarrow>
     \<exists>f. s' = con_asientos f s"
  by (cases b) (auto simp: markAsPendingInvoice_def marcar_def proc_simps con_asientos_def
      intro: exI [of _ "\<lambda>x. x"])

lemma emitir_recibo_Inr:
  assumes "emitir_recibo dto u nro l s = (Inr r, s')"
  shows "\<exists>t f. cr_monto_recibido_fisico dto \<le> cr_monto_total_imputado dto \<and>
     rc_monto_total r = monto_neto l \<and> rc_tipo_flujo_neto r = flujo_recibo l \<and> numero_recibo r = nro \<and>
     asientos_afectados r = afectados l \<and> recibos s' = recibos s @ [r] \<and>
     transacciones s' = transacciones s @ [t] \<and> asientos s' = f (asientos s) \<and> cuentas_fin s' = cuentas_fin s \<and>
     tx_monto t = monto_neto l \<and> tx_tipo t = flujo_recibo l \<and> tx_receipt_id t = Some (rc_id r) \<and>
     tx_cuenta_financiera_id t = cr_cuenta_afectada_id dto"
proof -
  let ?marca = "if cr_emitir_factura dto \<and> facturables l \<noteq> []
            then markAsPendingInvoice (facturables l) else ret ()"
  from assms [unfolded emitir_recibo_def] obtain favor s1 r' s2 desc s2' where
    f: "crear_saldo_a_favor dto u nro s = (Inr favor, s1)"
    and g': "guardar_recibo dto u nro l favor s1 = (Inr r', s2)"
    and d: "descripcion_transaccion dto nro l s2 = (Inr desc, s2')"
    and resto: "(if afectados l = [] then raise (ErrorJS ''Cannot read properties of undefined'' [])
     else ebind (tx_create \<lparr>ct_referencia_asiento = Some (fst (hd (afectados l))), ct_monto = monto_neto l,
              ct_cuenta_financiera_id = cr_cuenta_afectada_id dto, ct_fecha_transaccion = None,
              ct_tipo = flujo_recibo l, ct_descripcion = Some desc,
              ct_referencia_bancaria = cr_comprobante_externo dto, ct_receipt_id = Some (rc_id r')\<rparr> u)
        (\<lambda>_. ebind ?marca (\<lambda>_. ret r'))) s2' = (Inr r, s')"
    unfolding ebind_Inr by blast
  have s2': "s2' = s2" by (rule descripcion_transaccion_estado [OF d])
  have "afectados l \<noteq> []" using resto by (auto simp: raise_run)
  from resto [unfolded if_not_P [OF this] s2' ebind_Inr ret_run [of r'] prod.inject sum.inject] obtain t s3 x where
    t: "tx_create \<lparr>ct_referencia_asiento = Some (fst (hd (afectados l))), ct_monto = monto_neto l,
              ct_cuenta_financiera_id = cr_cuenta_afectada_id dto, ct_fecha_transaccion = None,
              ct_tipo = flujo_recibo l, ct_descripcion = Some desc,
              ct_referencia_bancaria = cr_comprobante_externo dto, ct_receipt_id = Some (rc_id r)\<rparr> u s2 = (Inr t, s3)"
    and m: "?marca s3 = (Inr x, s')" and r': "r' = r"
    by blast
  note g = g' [unfolded r']
  note t' = tx_create_Inr [OF t, simplified]
  note g' = guardar_recibo_Inr [OF g]
  have "asientos s3 = asientos s" "cuentas_fin s3 = cuentas_fin s" "recibos s3 = recibos s @ [r]"
    "transacciones s3 = transacciones s @ [t]"
    using t'(5) g'(7) crear_saldo_a_favor_Inr [OF f] by (simp_all add: con_tx_def con_recibos_def)
  moreover obtain h where "asientos s' = h (asientos s3)" "cuentas_fin s' = cuentas_fin s3"
    "recibos s' = recibos s3" "transacciones s' = transacciones s3"
    using marca_factura_run [OF m] by (auto simp: con_asientos_def)
  ultimately show ?thesis
    using crear_saldo_a_favor_Inr [OF f] g' t' by (intro exI [of _ t] exI [of _ h]) simp
qed

lemma emitir_recibo_sin_factura:
  assumes "emitir_recibo dto u nro l s = (Inr r, s')" and "\<not> cr_emitir_factura dto"
  shows "cuentas_fin s' = cuentas_fin s" "asientos s' = asientos s"
  using assms by (auto simp: emitir_recibo_def proc_simps con_tx_def con_recibos_def split: if_split_asm
      dest!: descripcion_transaccion_estado tx_create_Inr(5) guardar_recibo_Inr(7) crear_saldo_a_favor_Inr)

section \<open>The counter\<close>

lemma generateReceiptNumber_asientos:
  "generateReceiptNumber n s = (r, s') \<Longrightarrow> asientos s' = asientos s \<and> cuentas_fin s' = cuentas_fin s \<and>
    transacciones s' = transacciones s \<and> ahora s' = ahora s"
  by (drule generateReceiptNumber_frame, erule ssubst) simp

lemma generateReceiptNumber_recibos: "generateReceiptNumber n s = (r, s') \<Longrightarrow> recibos s' = recibos s"
  by (drule generateReceiptNumber_frame, erule ssubst) simp

lemma en_asientos_de_recibo:
  "asiento_de i s \<noteq> None \<Longrightarrow> i \<in> im_asiento_id ` set (cr_asientos_a_imputar dto) \<Longrightarrow>
   find_id a_id i (asientos_de_recibo dto s) = asiento_de i s"
  by (simp add: asientos_de_recibo_def find_id_filter)

text \<open>C13: A receipt whose lines are all collections of entries with debits reconciles: its amount
  is the sum of the lines, it carries the next number, one income transaction of that amount on
  the same account points at it, and the account receives exactly that amount, no other account
  moving; and a receipt never succeeds when it receives more than it imputes.\<close>

theorem createReceipt_reconciles:
  assumes run: "createReceipt dto u s = (Inr r, s')"
    and cobros: "list_all (es_cobro s) (cr_asientos_a_imputar dto)"
  shows "rc_monto_total r = cr_monto_total_imputado dto \<and>
     cr_monto_recibido_fisico dto \<le> cr_monto_total_imputado dto \<and>
     rc_monto_total r = monto_imputado (cr_asientos_a_imputar dto) \<and> rc_tipo_flujo_neto r = INGRESO \<and>
     numero_recibo r = coalesce (valor_secuencia ''receipt'' (secuencias s)) 0 + 1 \<and>
     recibos s' = recibos s @ [r] \<and>
     (\<exists>t. transacciones s' = transacciones s @ [t] \<and> tx_monto t = rc_monto_total r \<and>
        tx_tipo t = INGRESO \<and> tx_receipt_id t = Some (rc_id r) \<and>
        tx_cuenta_financiera_id t = cr_cuenta_afectada_id dto) \<and>
     saldo_movido (cr_cuenta_afectada_id dto) (rc_monto_total r) s s'"
proof -
  let ?ims = "cr_asientos_a_imputar dto"
  from run have "cuerpo_recibo dto u s = (Inr r, s')"
    by (auto simp: createReceipt_def sesion_recibo_def split: prod.splits sum.splits)
  then obtain nro s1 l s2 where n: "generateReceiptNumber ''receipt'' s = (Inr nro, s1)"
    and f: "fold_each (paso_recibo dto u nro (asientos_de_recibo dto s1)) ?ims acumulado0 s1 = (Inr l, s2)"
    and tot: "montoTotalImputado l = cr_monto_total_imputado dto"
    and e: "emitir_recibo dto u nro l s2 = (Inr r, s')"
    by (auto simp: cuerpo_recibo_def proc_simps split: if_splits)
  have s1: "es_cobro s1 = es_cobro s" "saldo_movido c m s1 t = saldo_movido c m s t"
    "recibos s1 = recibos s" "transacciones s1 = transacciones s" for c m and t :: "'a bd_rec_scheme"
    using generateReceiptNumber_asientos [OF n] generateReceiptNumber_recibos [OF n]
    by (auto simp: es_cobro_def saldo_movido_def saldo_de_def fun_eq_iff)
  have "list_all (\<lambda>im. find_id a_id (im_asiento_id im) (asientos_de_recibo dto s1) \<noteq> None) ?ims"
    using cobros unfolding s1(1) [symmetric] list_all_iff
    by (auto simp: es_cobro_def en_asientos_de_recibo split: option.splits)
  note b = bucle_cobros [OF f _ this, unfolded s1(1), OF cobros]
  have fr: "solo_asientos s1 s2" by (rule toca_fold_paso [OF f])
  have "0 \<le> monto_imputado ?ims"
    using cobros unfolding monto_imputado_def by (intro sum_list_nonneg) (auto simp: list_all_iff es_cobro_def)
  then have m: "monto_neto l = monto_imputado ?ims" "flujo_recibo l = INGRESO"
    "montoTotalImputado l = monto_imputado ?ims"
    using b by (simp_all add: monto_neto_def flujo_recibo_def acumulado0_def)
  have "saldo_movido (cr_cuenta_afectada_id dto) (monto_imputado ?ims) s s'"
    using b emitir_recibo_Inr [OF e] s1(2) by (auto simp: saldo_movido_def saldo_de_def)
  then show ?thesis
    using emitir_recibo_Inr [OF e] m tot generateReceiptNumber_value(1) [OF n]
      solo_asientos_recibos [OF fr] solo_asientos_campos(2) [OF fr] s1(3,4) by auto
qed

section \<open>A concrete request\<close>

text \<open>The rent entry of 1000 collected in two lines, on the database of the entries.\<close>

definition cobro_linea :: "monto \<Rightarrow> imputacion_dto" where
  "cobro_linea m = \<lparr>im_asiento_id = 10, im_monto = m, im_tipo_operacion = Some COBRO, im_agente_id = None\<rparr>"

definition recibo0 :: "monto \<Rightarrow> create_receipt_dto" where
  "recibo0 m = \<lparr>cr_monto_total_imputado = 400, cr_monto_recibido_fisico = m, cr_metodo_pago = ''efectivo'',
     cr_comprobante_externo = None, cr_cuenta_afectada_id = 7, cr_agente_id = 1,
     cr_asientos_a_imputar = [cobro_linea 400], cr_observaciones = None,
     cr_contrato_id = Some 5, cr_emitir_factura = False\<rparr>"

definition bd_rec0 :: bd_rec where
  "bd_rec0 = bd_ct.extend (bd_ct0 []\<lparr>asientos := [alquiler, deposito]\<rparr>) (bd_rec.fields [] [])"

lemma createReceipt_ejemplo: "createReceipt (recibo0 400) 8 bd_rec0 =
    (Inr (valor (createReceipt (recibo0 400) 8) bd_rec0), final (createReceipt (recibo0 400) 8) bd_rec0)"
  by (rule exito_run) code_simp

theorem createReceipt_reconciles_witness:
  "saldo_movido 7 400 bd_rec0 (final (createReceipt (recibo0 400) 8) bd_rec0)"
proof -
  have c: "list_all (es_cobro bd_rec0) (cr_asientos_a_imputar (recibo0 400))" by code_simp
  have r: "cr_monto_total_imputado (recibo0 400) = 400" "cr_cuenta_afectada_id (recibo0 400) = 7"
    by (simp_all add: recibo0_def)
  from createReceipt_reconciles [OF createReceipt_ejemplo c] show ?thesis unfolding r by metis
qed

section \<open>What a failed receipt leaves\<close>

lemma operacion_recibido:
  "pago_recibo (dto\<lparr>cr_monto_recibido_fisico := n\<rparr>) = pago_recibo dto"
  "liquidacion_recibo (dto\<lparr>cr_monto_recibido_fisico := n\<rparr>) = liquidacion_recibo dto"
  by (intro ext, simp add: pago_recibo_def liquidacion_recibo_def)+

lemma ejecutar_operacion_recibido:
  "ejecutar_operacion (dto\<lparr>cr_monto_recibido_fisico := n\<rparr>) = ejecutar_operacion dto"
  unfolding ejecutar_operacion_def operacion_recibido by (rule refl)

lemma paso_recibo_recibido: "paso_recibo (dto\<lparr>cr_monto_recibido_fisico := n\<rparr>) = paso_recibo dto"
  unfolding paso_recibo_def ejecutar_operacion_recibido by (rule refl)

lemma asientos_de_recibo_recibido:
  "asientos_de_recibo (dto\<lparr>cr_monto_recibido_fisico := n\<rparr>) = asientos_de_recibo dto"
  by (intro ext) (simp add: asientos_de_recibo_def)

lemma emitir_recibo_recibido:
  assumes "cr_monto_total_imputado dto < n"
  shows "\<exists>e p. emitir_recibo (dto\<lparr>cr_monto_recibido_fisico := n\<rparr>) u nro l s = (Inl e, s\<lparr>prox_id := p\<rparr>)"
proof -
  obtain e p where "crear_saldo_a_favor (dto\<lparr>cr_monto_recibido_fisico := n\<rparr>) u nro s = (Inl e, s\<lparr>prox_id := p\<rparr>)"
    using crear_saldo_a_favor_Inl [of "dto\<lparr>cr_monto_recibido_fisico := n\<rparr>" u nro s] assms by auto
  then show ?thesis unfolding emitir_recibo_def by (auto simp: ebind_Inl)
qed

text \<open>A receipt that receives more than it imputes always fails, since the entry of the credit in
  favour has no due date; and the abort does not undo it: receipts and transactions are as before,
  while the balances and the entries are as after the same receipt without the excess.\<close>

theorem createReceipt_overpaid:
  assumes run: "createReceipt dto u s = (Inr r, s1)" and f: "\<not> cr_emitir_factura dto"
    and n: "cr_monto_total_imputado dto < n"
  shows "\<exists>e s2. createReceipt (dto\<lparr>cr_monto_recibido_fisico := n\<rparr>) u s = (Inl e, s2) \<and>
     recibos s2 = recibos s \<and> transacciones s2 = transacciones s \<and>
     cuentas_fin s2 = cuentas_fin s1 \<and> asientos s2 = asientos s1"
proof -
  let ?d = "dto\<lparr>cr_monto_recibido_fisico := n\<rparr>"
  from run have "cuerpo_recibo dto u s = (Inr r, s1)"
    by (auto simp: createReceipt_def sesion_recibo_def split: prod.splits sum.splits)
  then obtain nro t1 l t2 where g: "generateReceiptNumber ''receipt'' s = (Inr nro, t1)"
    and len: "length (asientos_de_recibo dto t1) = length (cr_asientos_a_imputar dto)"
    and b: "fold_each (paso_recibo dto u nro (asientos_de_recibo dto t1)) (cr_asientos_a_imputar dto) acumulado0 t1
      = (Inr l, t2)"
    and tot: "montoTotalImputado l = cr_monto_total_imputado dto"
    and e: "emitir_recibo dto u nro l t2 = (Inr r, s1)"
    by (auto simp: cuerpo_recibo_def proc_simps split: if_splits)
  obtain e2 p where x: "emitir_recibo ?d u nro l t2 = (Inl e2, t2\<lparr>prox_id := p\<rparr>)"
    using emitir_recibo_recibido [OF n] by blast
  have "cuerpo_recibo ?d u s = (Inl e2, t2\<lparr>prox_id := p\<rparr>)"
    using g len b tot x
    by (simp add: cuerpo_recibo_def ebind_def gets_def paso_recibo_recibido asientos_de_recibo_recibido)
  then have "createReceipt ?d u s = (Inl e2, t2\<lparr>prox_id := p, recibos := recibos s, transacciones := transacciones s\<rparr>)"
    by (simp add: createReceipt_def sesion_recibo_def)
  moreover have "cuentas_fin t2 = cuentas_fin s1" "asientos t2 = asientos s1"
    using emitir_recibo_sin_factura [OF e f] by simp_all
  ultimately show ?thesis by auto
qed

theorem createReceipt_overpaid_witness:
  "\<not> exito (createReceipt (recibo0 450) 8) bd_rec0 \<and>
   saldo_de 7 (final (createReceipt (recibo0 450) 8) bd_rec0) = Some 450"
proof -
  have h: "\<not> cr_emitir_factura (recibo0 400)" "cr_monto_total_imputado (recibo0 400) < 450" by (simp_all add: recibo0_def)
  have d: "recibo0 400\<lparr>cr_monto_recibido_fisico := 450\<rparr> = recibo0 450" by (simp add: recibo0_def)
  have "saldo_de 7 (final (createReceipt (recibo0 400) 8) bd_rec0) = Some 450" by code_simp
  with createReceipt_overpaid [OF createReceipt_ejemplo h, unfolded d] show ?thesis
    by (auto simp: exito_def final_def saldo_de_def)
qed

end
