(* ===== verification/Cuit.thy ===== *)
theory Cuit
  imports Dates
begin

text \<open>
  \<^verbatim>\<open>src/modules/cuit/cuit.service.ts\<close>: validation of a tax id (CUIT) and the tax ids a document
  number can have. The scraping of an external web page is not modelled. A character is a code
  unit below 256.
\<close>

section \<open>Characters\<close>

text \<open>The classes \<^verbatim>\<open>\d\<close> and \<^verbatim>\<open>\s\<close> of a regular expression.\<close>

definition es_digito :: "char \<Rightarrow> bool" where
  "es_digito c = (let n = of_char c :: nat in 48 \<le> n \<and> n \<le> 57)"

definition es_espacio :: "char \<Rightarrow> bool" where
  "es_espacio c = ((of_char c :: nat) \<in> {9, 10, 11, 12, 13, 32, 160})"

definition valor_digito :: "char \<Rightarrow> int" where
  "valor_digito c = int (of_char c) - 48"

text \<open>\<^verbatim>\<open>parseInt\<close> on a string of digits.\<close>

definition parseInt :: "string \<Rightarrow> int" where
  "parseInt s = foldl (\<lambda>n c. 10 * n + valor_digito c) 0 s"

section \<open>The check digit\<close>

definition multiplicadores :: "int list" where
  "multiplicadores = [5, 4, 3, 2, 7, 6, 5, 4, 3, 2]"

definition suma_cuit :: "string \<Rightarrow> int" where
  "suma_cuit s = (\<Sum>(c, m)\<leftarrow>zip s multiplicadores. valor_digito c * m)"

definition digito_de_resto :: "int \<Rightarrow> int" where
  "digito_de_resto resto = (if resto = 0 then 0 else if resto = 1 then 9 else 11 - resto)"

definition calcularDigitoVerificador :: "string \<Rightarrow> int" where
  "calcularDigitoVerificador s = digito_de_resto (suma_cuit s mod 11)"

section \<open>Validation\<close>

record validacion =
  valido :: bool
  mensaje :: texto
  cuitFormateado :: "string option"

definition tiposValidos :: "int list" where
  "tiposValidos = [20, 23, 24, 27, 30, 33, 34]"

definition invalido :: "texto \<Rightarrow> validacion" where
  "invalido m = \<lparr>valido = False, mensaje = m, cuitFormateado = None\<rparr>"

definition limpiar_cuit :: "string \<Rightarrow> string" where
  "limpiar_cuit s = filter (\<lambda>c. \<not> (c = CHR ''-'' \<or> es_espacio c)) s"

definition validarCuit :: "string \<Rightarrow> validacion" where
  "validarCuit s =
     (let cuitLimpio = limpiar_cuit s in
      if length cuitLimpio \<noteq> 11 then invalido (''El CUIT debe tener 11 digitos'', [])
      else if \<not> list_all es_digito cuitLimpio then invalido (''El CUIT solo debe contener numeros'', [])
      else
      let tipo = parseInt (take 2 cuitLimpio);
          documento = take 8 (drop 2 cuitLimpio);
          digitoVerificador = valor_digito (cuitLimpio ! 10)
      in if tipo \<notin> set tiposValidos
         then invalido (''Tipo de CUIT invalido: {}. Debe ser uno de: 20, 23, 24, 27, 30, 33, 34'',
                [ANum (of_int tipo)])
         else
         let digitoCalculado = digito_de_resto (suma_cuit cuitLimpio mod 11) in
         if digitoCalculado \<noteq> digitoVerificador
         then invalido (''Digito verificador incorrecto. Esperado: {}, Recibido: {}'',
                [ANum (of_int digitoCalculado), ANum (of_int digitoVerificador)])
         else \<lparr>valido = True, mensaje = (''CUIT valido'', []),
                cuitFormateado = Some (take 2 cuitLimpio @ ''-'' @ documento @ ''-'' @
                  numero_texto digitoVerificador)\<rparr>)"

section \<open>Generation\<close>

record cuit_generado =
  cuit :: string
  cg_tipo :: string
  cg_descripcion :: string

definition prefijos :: "(int \<times> string \<times> string) list" where
  "prefijos =
     [(20, ''Masculino'', ''Persona Fisica - Masculino''),
      (27, ''Femenino'', ''Persona Fisica - Femenino''),
      (23, ''Masculino'', ''Persona Fisica - Masculino (alternativo)''),
      (24, ''Femenino'', ''Persona Fisica - Femenino (alternativo)''),
      (30, ''Juridica'', ''Persona Juridica''),
      (33, ''Juridica'', ''Persona Juridica (alternativo)''),
      (34, ''Juridica'', ''Persona Juridica (otro)'')]"

definition cuit_de :: "int \<Rightarrow> string \<Rightarrow> string" where
  "cuit_de cod doc = numero_texto cod @ ''-'' @ doc @ ''-'' @
     numero_texto (calcularDigitoVerificador (numero_texto cod @ doc))"

definition limpiar_documento :: "string \<Rightarrow> string" where
  "limpiar_documento s = filter (\<lambda>c. \<not> (c = CHR ''.'' \<or> es_espacio c)) s"

definition generarCuitsDesdeDocumento :: "string \<Rightarrow> excepcion + string \<times> cuit_generado list" where
  "generarCuitsDesdeDocumento documento =
     (let limpio = limpiar_documento documento in
      if \<not> (list_all es_digito limpio \<and> (length limpio = 7 \<or> length limpio = 8))
      then Inl (BadRequestException ''El documento debe tener 7 u 8 digitos numericos'' [])
      else
      let doc = padStart 8 (CHR ''0'') limpio in
      Inr (doc, map (\<lambda>(cod, tipo, desc).
             \<lparr>cuit = cuit_de cod doc, cg_tipo = tipo, cg_descripcion = desc\<rparr>) prefijos))"

section \<open>Digits\<close>

lemma digito_simps:
  assumes "n < 10"
  shows "es_digito (digito n)" and "valor_digito (digito n) = int n" and "digito n \<noteq> CHR ''-''"
    and "\<not> es_espacio (digito n)"
proof -
  have h: "(of_char (digito n) :: nat) = 48 + n" using assms by (simp add: digito_def)
  then show "es_digito (digito n)" "valor_digito (digito n) = int n" "\<not> es_espacio (digito n)"
    using assms by (auto simp: es_digito_def valor_digito_def es_espacio_def)
  show "digito n \<noteq> CHR ''-''"
  proof
    assume "digito n = CHR ''-''"
    with h have "48 + n = (of_char (CHR ''-'') :: nat)" by metis
    then show False by simp
  qed
qed

lemma digito_de_char:
  assumes "es_digito c"
  obtains n where "n < 10" "c = digito n"
proof -
  have "char_of (of_char c :: nat) = c" by simp
  moreover have "48 + (of_char c - 48) = (of_char c :: nat)" "of_char c - 48 < (10 :: nat)"
    using assms by (auto simp: es_digito_def Let_def)
  ultimately show thesis using that [of "of_char c - 48"] by (simp add: digito_def)
qed

lemma es_digito_limpio: "es_digito c \<Longrightarrow> c \<noteq> CHR ''-'' \<and> \<not> es_espacio c"
  by (metis digito_de_char digito_simps(3,4))

lemma limpiar_digitos [simp]: "list_all es_digito s \<Longrightarrow> limpiar_cuit s = s"
  by (simp add: limpiar_cuit_def list_all_iff es_digito_limpio)

lemma limpiar_append [simp]: "limpiar_cuit (s @ t) = limpiar_cuit s @ limpiar_cuit t"
  by (simp add: limpiar_cuit_def)

lemma limpiar_guion [simp]: "limpiar_cuit (CHR ''-'' # s) = limpiar_cuit s"
  by (simp add: limpiar_cuit_def)

lemma limpiar_limpiar [simp]: "limpiar_cuit (limpiar_cuit s) = limpiar_cuit s"
  by (simp add: limpiar_cuit_def)

lemma numero_texto_digito: "0 \<le> d \<Longrightarrow> d < 10 \<Longrightarrow> numero_texto d = [digito (nat d)]"
  by (simp add: numero_texto_def cifras.simps)

lemma digito_de_resto_rango: "0 \<le> digito_de_resto (x mod 11) \<and> digito_de_resto (x mod 11) < 10"
  using pos_mod_bound [of 11 x] pos_mod_sign [of 11 x] unfolding digito_de_resto_def by simp linarith

lemma suma_cuit_take: "length s = 10 \<Longrightarrow> suma_cuit (s @ t) = suma_cuit s"
  by (simp add: suma_cuit_def zip_append1 multiplicadores_def)

text \<open>The tax id of a prefix and a document of eight digits, cleaned.\<close>

lemma prefijo_texto:
  assumes "cod \<in> set tiposValidos"
  shows "length (numero_texto cod) = 2" "list_all es_digito (numero_texto cod)"
    "parseInt (numero_texto cod) = cod"
proof -
  have "list_all (\<lambda>c. length (numero_texto c) = 2 \<and> list_all es_digito (numero_texto c) \<and>
     parseInt (numero_texto c) = c) tiposValidos" by code_simp
  with assms show "length (numero_texto cod) = 2" "list_all es_digito (numero_texto cod)"
    "parseInt (numero_texto cod) = cod" by (simp_all add: list_all_iff)
qed

lemma tipos_prefijos: "set (map fst prefijos) = set tiposValidos"
  by code_simp

section \<open>Generated and accepted\<close>

lemma cuit_de_partes:
  assumes "cod \<in> set tiposValidos" "length doc = 8" "list_all es_digito doc"
  defines "dv \<equiv> calcularDigitoVerificador (numero_texto cod @ doc)"
  shows "limpiar_cuit (cuit_de cod doc) = numero_texto cod @ doc @ [digito (nat dv)]"
    and "cuit_de cod doc = numero_texto cod @ ''-'' @ doc @ ''-'' @ [digito (nat dv)]"
    and "0 \<le> dv" and "dv < 10"
proof -
  show d: "0 \<le> dv" "dv < 10" using digito_de_resto_rango by (simp_all add: dv_def calcularDigitoVerificador_def)
  show c: "cuit_de cod doc = numero_texto cod @ ''-'' @ doc @ ''-'' @ [digito (nat dv)]"
    using numero_texto_digito [OF d] by (simp add: cuit_de_def dv_def)
  have "es_digito (digito (nat dv))" using d by (intro digito_simps(1)) simp
  then show "limpiar_cuit (cuit_de cod doc) = numero_texto cod @ doc @ [digito (nat dv)]"
    using assms(3) prefijo_texto(2) [OF assms(1)] by (simp add: c)
qed

lemma validar_generado:
  assumes c: "cod \<in> set tiposValidos" and doc: "length doc = 8" "list_all es_digito doc"
    and s: "limpiar_cuit s = limpiar_cuit (cuit_de cod doc)"
  shows "cuitFormateado (validarCuit s) = Some (cuit_de cod doc)"
proof -
  note p = prefijo_texto [OF c] and q = cuit_de_partes [OF c doc]
  have d: "es_digito (digito (nat (calcularDigitoVerificador (numero_texto cod @ doc))))"
    "valor_digito (digito (nat (calcularDigitoVerificador (numero_texto cod @ doc)))) =
      calcularDigitoVerificador (numero_texto cod @ doc)"
    using q(3,4) digito_simps(1,2) [of "nat (calcularDigitoVerificador (numero_texto cod @ doc))"] by simp_all
  have n: "(numero_texto cod @ doc @ [x]) ! 10 = x" for x
    using p(1) doc(1) by (simp add: nth_append)
  have u: "suma_cuit (numero_texto cod @ doc @ [x]) = suma_cuit (numero_texto cod @ doc)" for x
    using suma_cuit_take [of "numero_texto cod @ doc" "[x]"] p(1) doc(1) by simp
  show ?thesis
    using c doc p q(3,4) d numero_texto_digito [OF q(3,4)]
    by (simp add: validarCuit_def Let_def s q(1) n u cuit_de_def calcularDigitoVerificador_def)
qed

lemma dos_digitos:
  assumes "list_all es_digito [a, b]"
  shows "numero_texto (parseInt [a, b]) = [a, b] \<or> parseInt [a, b] < 10"
proof -
  from assms obtain i j where "i < 10" "a = digito i" "j < 10" "b = digito j"
    by (auto elim!: digito_de_char)
  moreover have "nat (10 * int i + int j) = 10 * i + j" by simp
  ultimately show ?thesis
    by (auto simp: parseInt_def digito_simps numero_texto_def cifras.simps [of "10 * i + j"] cifras.simps [of i]
        nat_add_distrib)
qed

lemma generado_validar:
  assumes v: "cuitFormateado (validarCuit s) = Some t"
  shows "\<exists>cod \<in> set tiposValidos. t = cuit_de cod (take 8 (drop 3 t)) \<and> limpiar_cuit s = limpiar_cuit t"
proof -
  let ?l = "limpiar_cuit s"
  have l: "length ?l = 11" "list_all es_digito ?l" "parseInt (take 2 ?l) \<in> set tiposValidos"
    and dv: "digito_de_resto (suma_cuit ?l mod 11) = valor_digito (?l ! 10)"
    and t: "t = take 2 ?l @ ''-'' @ take 8 (drop 2 ?l) @ ''-'' @ numero_texto (valor_digito (?l ! 10))"
    using v by (auto simp: validarCuit_def invalido_def Let_def split: if_splits)
  let ?c = "parseInt (take 2 ?l)"
  obtain a b r where ab: "?l = a # b # r" using l(1) by (auto simp: numeral_eq_Suc length_Suc_conv)
  have c: "numero_texto ?c = take 2 ?l"
    using dos_digitos [of a b] l(2,3) by (auto simp: ab tiposValidos_def)
  have e: "take 2 ?l @ take 8 (drop 2 ?l) @ [?l ! 10] = ?l"
    using l(1) by (auto simp: numeral_eq_Suc length_Suc_conv)
  have "calcularDigitoVerificador (numero_texto ?c @ take 8 (drop 2 ?l)) = valor_digito (?l ! 10)"
    unfolding c calcularDigitoVerificador_def
    using suma_cuit_take [of "take 2 ?l @ take 8 (drop 2 ?l)" "[?l ! 10]"] l(1) dv e by simp
  moreover have "take 8 (drop 3 t) = take 8 (drop 2 ?l)" using l(1) by (simp add: t)
  ultimately have tc: "t = cuit_de ?c (take 8 (drop 3 t))" by (simp add: cuit_de_def c t)
  have "es_digito (?l ! 10)" using l(1,2) by (simp add: list_all_length)
  then obtain k where k: "k < 10" "?l ! 10 = digito k" by (rule digito_de_char)
  have "list_all es_digito (take 2 ?l)" "list_all es_digito (take 8 (drop 2 ?l))"
    using l(2) by (auto simp: list_all_iff dest: in_set_takeD in_set_dropD)
  then have "limpiar_cuit t = take 2 ?l @ take 8 (drop 2 ?l) @ [?l ! 10]"
    using k by (simp add: t numero_texto_digito digito_simps)
  then have "limpiar_cuit t = ?l" by (simp only: e)
  with l(3) tc show ?thesis by metis
qed

text \<open>C14: The two services agree: the strings the validation formats as a CUIT of a document are exactly
  the ones the generator lists for it, whatever dashes and spaces the input has; there are seven,
  all different.\<close>

theorem cuit_roundtrip:
  assumes g: "generarCuitsDesdeDocumento d = Inr (doc, cs)"
  shows "length doc = 8 \<and> length cs = 7 \<and> distinct (map cuit cs) \<and>
     (cuitFormateado (validarCuit s) = Some t \<and> take 8 (drop 3 t) = doc \<longleftrightarrow>
      t \<in> set (map cuit cs) \<and> limpiar_cuit s = limpiar_cuit t)"
proof -
  let ?l = "limpiar_documento d"
  from g have l: "list_all es_digito ?l" "length ?l = 7 \<or> length ?l = 8"
    and doc: "doc = padStart 8 (CHR ''0'') ?l" and cs: "map cuit cs = map (\<lambda>c. cuit_de c doc) (map fst prefijos)"
    and n: "length cs = length prefijos"
    by (auto simp: generarCuitsDesdeDocumento_def Let_def split: if_splits)
  have "es_digito (CHR ''0'')" by (simp add: es_digito_def)
  then have d: "length doc = 8" "list_all es_digito doc"
    using l by (auto simp: doc padStart_def list_all_iff)
  have f: "t \<in> set (map cuit cs) \<longleftrightarrow> (\<exists>c \<in> set tiposValidos. t = cuit_de c doc)"
    unfolding cs set_map tipos_prefijos [symmetric] by auto
  have dd: "take 8 (drop 3 (cuit_de c doc)) = doc" if "c \<in> set tiposValidos" for c
    using prefijo_texto(1) [OF that] d(1) by (simp add: cuit_de_def)
  have "inj_on (\<lambda>c. cuit_de c doc) (set tiposValidos)"
    by (rule inj_onI) (metis prefijo_texto(1,3) cuit_de_def append_eq_append_conv)
  moreover have "distinct (map fst prefijos)" by code_simp
  ultimately have "distinct (map cuit cs)" unfolding cs
    by (subst distinct_map) (simp only: tipos_prefijos simp_thms)
  then show ?thesis
    using d(1) n f dd generado_validar [of s t] validar_generado [OF _ d, of _ s] by (auto simp: prefijos_def)
qed

theorem cuit_roundtrip_witness:
  "cuitFormateado (validarCuit ''20 12345678-6'') = Some ''20-12345678-6''"
proof -
  have l: "limpiar_documento ''12.345.678'' = ''12345678''" by (simp add: limpiar_documento_def es_espacio_def)
  have d: "list_all es_digito ''12345678''" by (simp add: es_digito_def)
  have g: "generarCuitsDesdeDocumento ''12.345.678'' = Inr (''12345678'',
      map (\<lambda>(cod, tipo, desc). \<lparr>cuit = cuit_de cod ''12345678'', cg_tipo = tipo, cg_descripcion = desc\<rparr>) prefijos)"
    unfolding generarCuitsDesdeDocumento_def l using d by (simp add: padStart_def Let_def)
  have "cuit_de 20 ''12345678'' = ''20-12345678-6''" by code_simp
  moreover have "limpiar_cuit ''20 12345678-6'' = limpiar_cuit ''20-12345678-6''"
    by (simp add: limpiar_cuit_def es_espacio_def)
  ultimately show ?thesis
    using cuit_roundtrip [OF g, of "''20 12345678-6''" "''20-12345678-6''"] by (simp add: prefijos_def)
qed

section \<open>Mistyped digits\<close>

lemma suma_cuit_update:
  assumes "length s = 10" "i < 10"
  shows "suma_cuit (s[i := c]) = suma_cuit s + (valor_digito c - valor_digito (s ! i)) * multiplicadores ! i"
proof -
  have m: "length multiplicadores = 10" by (simp add: multiplicadores_def)
  have "(\<Sum>(c, m)\<leftarrow>zip (s[i := c]) ms. valor_digito c * m) =
      (\<Sum>(c, m)\<leftarrow>zip s ms. valor_digito c * m) + (valor_digito c - valor_digito (s ! i)) * ms ! i"
    if "i < length s" "length s \<le> length ms" for ms and s and i
    using that by (induction s ms arbitrary: i rule: list_induct2') (auto simp: algebra_simps split: nat.split)
  with assms m show ?thesis by (simp add: suma_cuit_def)
qed

lemma once_no_divide:
  assumes "- 9 \<le> x" "x \<le> 9" "x \<noteq> 0" "m \<in> set multiplicadores"
  shows "\<not> (11 :: int) dvd x * m"
proof -
  have "list_all (\<lambda>x. x = 0 \<or> list_all (\<lambda>m. \<not> 11 dvd x * m) multiplicadores) [-9..9]" by code_simp
  then have "\<forall>x \<in> {-9..9}. x = 0 \<or> (\<forall>m \<in> set multiplicadores. \<not> 11 dvd x * m)"
    unfolding list_all_iff set_upto .
  then show ?thesis using assms by auto
qed

lemma digito_de_resto_inj:
  assumes "x \<in> {0..10}" "y \<in> {0..10}" "x \<noteq> y"
  shows "digito_de_resto x = digito_de_resto y \<longleftrightarrow> {x, y} = {1, 2}"
  using assms unfolding digito_de_resto_def by (auto simp: doubleton_eq_iff split: if_splits)

lemma valor_digito_rango: "es_digito c \<Longrightarrow> 0 \<le> valor_digito c \<and> valor_digito c \<le> 9"
  by (auto simp: es_digito_def valor_digito_def Let_def)

lemma valor_digito_inj: "es_digito c \<Longrightarrow> es_digito d \<Longrightarrow> valor_digito c = valor_digito d \<longleftrightarrow> c = d"
  by (auto simp: digito_simps elim!: digito_de_char)

text \<open>The check digit detects one mistyped digit, except when the remainder goes from 1 to 2 or
  from 2 to 1: both give the digit 9.\<close>

theorem digito_verificador_detects:
  assumes s: "length s = 10" "list_all es_digito s" and c: "es_digito c" "i < 10" "c \<noteq> s ! i"
  shows "calcularDigitoVerificador (s[i := c]) = calcularDigitoVerificador s \<longleftrightarrow>
     {suma_cuit s mod 11, suma_cuit (s[i := c]) mod 11} = {1, 2}"
proof -
  let ?x = "valor_digito c - valor_digito (s ! i)" and ?m = "multiplicadores ! i"
  have si: "es_digito (s ! i)" using s c(2) by (simp add: list_all_length)
  have "?x \<noteq> 0" using valor_digito_inj [OF c(1) si] c(3) by simp
  moreover have "- 9 \<le> ?x" "?x \<le> 9" using valor_digito_rango [OF c(1)] valor_digito_rango [OF si] by linarith+
  moreover have "?m \<in> set multiplicadores" using c(2) by (intro nth_mem) (simp add: multiplicadores_def)
  ultimately have "\<not> 11 dvd suma_cuit (s[i := c]) - suma_cuit s"
    using once_no_divide suma_cuit_update [OF s(1) c(2), of c] by simp
  then have "suma_cuit (s[i := c]) mod 11 \<noteq> suma_cuit s mod 11" by (simp add: mod_eq_dvd_iff)
  moreover have "x mod 11 \<in> {0..10}" for x :: int
    using pos_mod_bound [of 11 x] pos_mod_sign [of 11 x] by simp
  ultimately show ?thesis unfolding calcularDigitoVerificador_def
    using digito_de_resto_inj [of "suma_cuit (s[i := c]) mod 11" "suma_cuit s mod 11"]
    by (simp only: insert_commute simp_thms)
qed

end
