(* ===== verification/Otp.thy ===== *)
theory Otp
  imports Cuit
begin

text \<open>
  \<^verbatim>\<open>src/modules/otp/otp.service.ts\<close>: one-time codes that link a WhatsApp number (a JID) to a
  client. \<open>Math.random()\<close> is a number \<open>r\<close> of the interval from 0 to 1, and whether the e-mail service
  accepts the message is a parameter of \<open>validateIdentity\<close>. The documents of the clients are those
  of the agents collection, with the fields of the current and of the old schema.
\<close>

section \<open>State\<close>

record cliente_doc =
  cl_id :: oid
  documento_numero :: "string option"
  cl_identificador_fiscal :: "string option"
  identityCard :: "string option"
  taxId :: "string option"
  cl_razon_social :: "string option"
  fullName :: "string option"
  cl_name :: "string option"
  lastName :: "string option"
  email_principal :: "string option"
  cl_email :: "string option"

record otp_doc =
  otp_id :: oid
  whatsappJid :: string
  dni :: string
  otp :: string
  expiresAt :: fecha
  verified :: bool
  verifiedAt :: "fecha option"
  clientId :: oid
  clientName :: string
  attempts :: int

record bd_otp = mundo +
  clientes :: "cliente_doc list"
  otps :: "otp_doc list"

definition con_otps :: "(otp_doc list \<Rightarrow> otp_doc list) \<Rightarrow> 'a bd_otp_scheme \<Rightarrow> 'a bd_otp_scheme" where
  "con_otps f s = s\<lparr>otps := f (otps s)\<rparr>"

interpretation otpc: coleccion otp_id otps con_otps
  by unfold_locales (simp add: con_otps_def)

definition OTP_EXPIRATION_MINUTES :: int where "OTP_EXPIRATION_MINUTES = 15"

definition MAX_ATTEMPTS :: int where "MAX_ATTEMPTS = 3"

section \<open>Helpers\<close>

definition generateOtp :: "rat \<Rightarrow> string" where
  "generateOtp r = numero_texto \<lfloor>100000 + r * 900000\<rfloor>"

definition normalizeDni :: "string \<Rightarrow> string" where
  "normalizeDni d = (let cleaned = filter es_digito d in
     if length cleaned = 7 then CHR ''0'' # cleaned else cleaned)"

text \<open>\<^verbatim>\<open>const [user, domain] = email.split('@')\<close>: without an at sign the domain is \<^verbatim>\<open>undefined\<close>.\<close>

definition partes_email :: "string \<Rightarrow> string \<times> string" where
  "partes_email e =
     (takeWhile (\<lambda>c. c \<noteq> CHR ''@'') e,
      case dropWhile (\<lambda>c. c \<noteq> CHR ''@'') e of [] \<Rightarrow> ''undefined'' | _ # r \<Rightarrow> takeWhile (\<lambda>c. c \<noteq> CHR ''@'') r)"

definition maskEmail :: "string \<Rightarrow> string" where
  "maskEmail email = (case partes_email email of (user, domain) \<Rightarrow>
     if length user \<le> 2 then user @ ''***@'' @ domain
     else take 1 user @ ''***'' @ drop (length user - 1) user @ ''@'' @ domain)"

definition trim :: "string \<Rightarrow> string" where
  "trim s = rev (dropWhile es_espacio (rev (dropWhile es_espacio s)))"

definition searchVariants :: "string \<Rightarrow> string list" where
  "searchVariants d = d # (if length d = 8 \<and> hd d = CHR ''0'' then [tl d] else [])"

definition en_variantes :: "string option \<Rightarrow> string list \<Rightarrow> bool" where
  "en_variantes x vs = (case x of None \<Rightarrow> False | Some v \<Rightarrow> v \<in> set vs)"

definition cliente_con_dni :: "string \<Rightarrow> cliente_doc \<Rightarrow> bool" where
  "cliente_con_dni d c \<longleftrightarrow> (let vs = searchVariants d in
     en_variantes (documento_numero c) vs \<or> en_variantes (cl_identificador_fiscal c) vs \<or>
     en_variantes (identityCard c) vs \<or> en_variantes (taxId c) vs)"

definition nombre_cliente :: "cliente_doc \<Rightarrow> string" where
  "nombre_cliente c = o_texto (cl_razon_social c) (o_texto (fullName c)
     (trim (o_texto (cl_name c) [] @ '' '' @ o_texto (lastName c) [])))"

text \<open>\<^verbatim>\<open>agent.email_principal || agentData.email\<close>; the empty string counts as no e-mail.\<close>

definition email_cliente :: "cliente_doc \<Rightarrow> string" where
  "email_cliente c = o_texto (email_principal c) (o_texto (cl_email c) [])"

section \<open>validateIdentity\<close>

record identidad =
  id_clientId :: oid
  id_clientName :: string
  id_maskedEmail :: string
  id_expiresAt :: fecha

definition activo_de :: "string \<Rightarrow> otp_doc \<Rightarrow> bool" where
  "activo_de jid w \<longleftrightarrow> whatsappJid w = jid \<and> \<not> verified w"

definition invalidar_otps :: "string \<Rightarrow> fecha \<Rightarrow> otp_doc list \<Rightarrow> otp_doc list" where
  "invalidar_otps jid hoy =
     update_many (activo_de jid) (\<lambda>w. w\<lparr>verified := True, verifiedAt := Some hoy\<rparr>)"

definition nuevo_otp :: "string \<Rightarrow> string \<Rightarrow> rat \<Rightarrow> cliente_doc \<Rightarrow> fecha \<Rightarrow> oid \<Rightarrow> otp_doc" where
  "nuevo_otp jid d r c hoy i =
     \<lparr>otp_id = i, whatsappJid = jid, dni = d, otp = generateOtp r,
      expiresAt = hoy + OTP_EXPIRATION_MINUTES * 60000, verified = False, verifiedAt = None,
      clientId = cl_id c, clientName = nombre_cliente c, attempts = 0\<rparr>"

definition validateIdentity ::
  "rat \<Rightarrow> bool \<Rightarrow> string \<Rightarrow> string \<Rightarrow> ('a bd_otp_scheme, identidad) proc" where
  "validateIdentity r email_ok d jid =
     (let normalizedDni = normalizeDni d in
     ebind (gets clientes) (\<lambda>cs.
     case find (cliente_con_dni normalizedDni) cs of
       None \<Rightarrow> raise (NotFoundException ''No encontramos un cliente registrado con ese DNI/CUIT.'' [])
     | Some c \<Rightarrow>
         if email_cliente c = []
         then raise (BadRequestException ''Tu cuenta no tiene un email registrado.'' [])
         else
         ebind (gets ahora) (\<lambda>hoy.
         ebind (modify (con_otps (invalidar_otps jid hoy))) (\<lambda>_.
         ebind nuevo_id (\<lambda>i.
         let w = nuevo_otp jid normalizedDni r c hoy i in
         ebind (modify (con_otps (\<lambda>os. os @ [w]))) (\<lambda>_.
         if \<not> email_ok
         then raise (BadRequestException ''Hubo un error al enviar el codigo a tu email.'' [])
         else ret \<lparr>id_clientId = cl_id c, id_clientName = nombre_cliente c,
                   id_maskedEmail = maskEmail (email_cliente c), id_expiresAt = expiresAt w\<rparr>))))))"

section \<open>verifyOtp\<close>

text \<open>
  The handler reads the active code, and then checks and writes it. Between the two the event loop
  can run other requests, so the parts are definitions of their own.
\<close>

definition vigente_de :: "string \<Rightarrow> fecha \<Rightarrow> otp_doc \<Rightarrow> bool" where
  "vigente_de jid hoy w \<longleftrightarrow> activo_de jid w \<and> expiresAt w > hoy"

definition leer_otp :: "string \<Rightarrow> ('a bd_otp_scheme, otp_doc) proc" where
  "leer_otp jid =
     ebind (gets ahora) (\<lambda>hoy.
     ebind (gets otps) (\<lambda>os.
     case find (vigente_de jid hoy) os of
       None \<Rightarrow> raise (NotFoundException ''No hay un codigo de verificacion activo.'' [])
     | Some w \<Rightarrow> ret w))"

text \<open>\<^verbatim>\<open>save()\<close> writes the modified paths of the loaded document.\<close>

definition guardar_intentos :: "oid \<Rightarrow> int \<Rightarrow> ('a bd_otp_scheme, unit) proc" where
  "guardar_intentos i n = modify (con_otps (update_one (\<lambda>w. otp_id w = i) (\<lambda>w. w\<lparr>attempts := n\<rparr>)))"

definition guardar_verificado :: "oid \<Rightarrow> fecha \<Rightarrow> ('a bd_otp_scheme, unit) proc" where
  "guardar_verificado i hoy =
     modify (con_otps (update_one (\<lambda>w. otp_id w = i) (\<lambda>w. w\<lparr>verified := True, verifiedAt := Some hoy\<rparr>)))"

definition comprobar_otp :: "string \<Rightarrow> otp_doc \<Rightarrow> ('a bd_otp_scheme, oid \<times> string) proc" where
  "comprobar_otp cod w =
     (if attempts w \<ge> MAX_ATTEMPTS
      then raise (BadRequestException ''Has excedido el numero maximo de intentos.'' [])
      else
      ebind (guardar_intentos (otp_id w) (attempts w + 1)) (\<lambda>_.
      if otp w \<noteq> cod
      then raise (UnauthorizedException ''Codigo incorrecto. Te quedan {} intentos.''
             [ANum (of_int (MAX_ATTEMPTS - (attempts w + 1)))])
      else
      ebind (gets ahora) (\<lambda>hoy.
      ebind (guardar_verificado (otp_id w) hoy) (\<lambda>_.
      ret (clientId w, clientName w)))))"

definition verifyOtp :: "string \<Rightarrow> string \<Rightarrow> ('a bd_otp_scheme, oid \<times> string) proc" where
  "verifyOtp jid cod = ebind (leer_otp jid) (comprobar_otp cod)"

end
