(* ===== verification/OtpProperties.thy ===== *)
theory OtpProperties
  imports Otp
begin

text \<open>
  The one-time codes as a transition system in which the reading and the checking of a code are
  separate steps, the invariant its runs keep, and what the limit of attempts is worth.
\<close>

section \<open>Six digits\<close>

lemma cifras_digitos: "list_all es_digito (cifras n)"
  by (induction n rule: cifras.induct) (subst cifras.simps, simp add: digito_simps)

lemma cifras_length: "10 ^ k \<le> n \<Longrightarrow> n < 10 ^ Suc k \<Longrightarrow> length (cifras n) = Suc k"
proof (induction k arbitrary: n)
  case 0
  then show ?case by (simp add: cifras.simps)
next
  case (Suc k)
  have "(1 :: nat) \<le> 10 ^ k" by simp
  then have n: "\<not> n < 10" using Suc.prems(1) unfolding power_Suc by linarith
  have "10 ^ k \<le> n div 10" "n div 10 < 10 ^ Suc k"
    using Suc.prems div_le_mono [of "10 ^ Suc k" n 10] by (simp_all add: less_mult_imp_div_less mult.commute)
  from Suc.IH [OF this] n show ?case by (subst cifras.simps) simp
qed

definition cifras6 :: "string \<Rightarrow> bool" where
  "cifras6 s \<longleftrightarrow> length s = 6 \<and> list_all es_digito s"

lemma generateOtp_cifras6:
  assumes "0 \<le> r" "r < 1"
  shows "cifras6 (generateOtp r)"
proof -
  obtain n where n: "n = \<lfloor>100000 + r * 900000\<rfloor>" by blast
  have "100000 \<le> n" "n < 1000000" using assms by (simp_all add: n le_floor_iff floor_less_iff)
  then have "10 ^ 5 \<le> nat n" "nat n < 10 ^ Suc 5" "\<not> n < 0" by simp_all
  then show ?thesis
    using cifras_length [of 5 "nat n"]
    by (simp add: cifras6_def generateOtp_def numero_texto_def cifras_digitos n [symmetric])
qed

section \<open>Runs\<close>

text \<open>
  The state of a run is the database and the codes that requests have read and not yet checked.
  \<open>vencer\<close> is the TTL index of the collection: it removes some of the expired documents.
\<close>

inductive otp_paso :: "bd_otp \<times> otp_doc list \<Rightarrow> bd_otp \<times> otp_doc list \<Rightarrow> bool" where
  pedir: "0 \<le> r \<Longrightarrow> r < 1 \<Longrightarrow> validateIdentity r email_ok d jid s = (res, s') \<Longrightarrow> otp_paso (s, ls) (s', ls)"
| leer: "leer_otp jid s = (Inr w, s') \<Longrightarrow> otp_paso (s, ls) (s', w # ls)"
| comprobar: "w \<in> set ls \<Longrightarrow> comprobar_otp cod w s = (res, s') \<Longrightarrow> otp_paso (s, ls) (s', remove1 w ls)"
| vencer: "otp_paso (s, ls) (con_otps (filter (\<lambda>w. ahora s < expiresAt w \<or> conserva w)) s, ls)"
| reloj: "ahora s \<le> t \<Longrightarrow> otp_paso (s, ls) (s\<lparr>ahora := t\<rparr>, ls)"

inductive_cases otp_pasoE: "otp_paso (s, ls) (s', ls')"

definition otp_ok :: "fecha \<Rightarrow> otp_doc \<Rightarrow> bool" where
  "otp_ok hoy w \<longleftrightarrow> cifras6 (otp w) \<and> list_all es_digito (dni w) \<and>
     0 \<le> attempts w \<and> attempts w \<le> MAX_ATTEMPTS \<and> (verified w \<longleftrightarrow> verifiedAt w \<noteq> None) \<and>
     expiresAt w \<le> hoy + OTP_EXPIRATION_MINUTES * 60000"

text \<open>What a document keeps while it lives: a document read before still agrees with the stored one.\<close>

definition mismo_otp :: "otp_doc \<Rightarrow> otp_doc \<Rightarrow> bool" where
  "mismo_otp w v \<longleftrightarrow> whatsappJid w = whatsappJid v \<and> dni w = dni v \<and> otp w = otp v \<and>
     expiresAt w = expiresAt v \<and> clientId w = clientId v \<and> clientName w = clientName v"

definition otp_inv :: "bd_otp \<times> otp_doc list \<Rightarrow> bool" where
  "otp_inv c \<longleftrightarrow> (case c of (s, ls) \<Rightarrow>
     list_all (otp_ok (ahora s)) (otps s) \<and> list_all (otp_ok (ahora s)) ls \<and>
     distinct (map otp_id (otps s)) \<and> (\<forall>w \<in> set (otps s) \<union> set ls. otp_id w < prox_id s) \<and>
     (\<forall>jid. length (filter (activo_de jid) (otps s)) \<le> 1) \<and>
     (\<forall>w \<in> set ls. \<forall>v \<in> set (otps s). otp_id v = otp_id w \<longrightarrow> mismo_otp w v))"

lemma otp_ok_despues: "otp_ok t w \<Longrightarrow> t \<le> t' \<Longrightarrow> otp_ok t' w"
  by (auto simp: otp_ok_def)

lemma update_one_map:
  "distinct (map k ds) \<Longrightarrow> update_one (\<lambda>d. k d = i) f ds = map (\<lambda>d. if k d = i then f d else d) ds"
proof (induction ds)
  case (Cons d ds)
  have "k d = i \<Longrightarrow> map (\<lambda>x. if k x = i then f x else x) ds = ds"
    using Cons.prems by (intro map_idI) (force simp: image_iff)
  with Cons show ?case by auto
qed simp

lemma filter_map_le:
  "(\<And>x. P (f x) \<Longrightarrow> P x) \<Longrightarrow> length (filter P (map f xs)) \<le> length (filter P xs)"
  by (induction xs) (auto simp: le_SucI)

lemma filter_filter_le: "length (filter P (filter Q xs)) \<le> length (filter P xs)"
  by (induction xs) auto

text \<open>A map over the stored codes that changes only attempts and verification.\<close>

lemma otp_inv_map:
  assumes inv: "otp_inv (s, ls)" and s': "s' = con_otps (map f) s" and ls: "set ls' \<subseteq> set ls"
    and f: "\<And>w. otp_id (f w) = otp_id w" "\<And>w. mismo_otp w (f w)" "\<And>w. verified w \<Longrightarrow> verified (f w)"
    and ok: "\<And>w. w \<in> set (otps s) \<Longrightarrow> otp_ok (ahora s) w \<Longrightarrow> otp_ok (ahora s) (f w)"
  shows "otp_inv (s', ls')"
proof -
  have a: "activo_de jid (f w) \<Longrightarrow> activo_de jid w" for jid w
    using f(2,3) by (auto simp: activo_de_def mismo_otp_def)
  have "length (filter (activo_de jid) (map f (otps s))) \<le> 1" for jid
    using inv filter_map_le [of "activo_de jid" f, OF a, of "otps s"] order_trans
    by (fastforce simp: otp_inv_def)
  moreover have "mismo_otp u v \<Longrightarrow> mismo_otp u (f v)" for u v
    using f(2) [of v] by (simp add: mismo_otp_def)
  ultimately show ?thesis
    using inv ls ok f(1) unfolding otp_inv_def s' con_otps_def
    by (auto simp: list_all_iff comp_def subset_iff)
qed

lemma mismo_refl [simp]: "mismo_otp w w"
  by (simp add: mismo_otp_def)

lemma otp_inv_leer:
  assumes inv: "otp_inv (s, ls)" and w: "w \<in> set (otps s)"
  shows "otp_inv (s, w # ls)"
proof -
  have "mismo_otp w v" if "v \<in> set (otps s)" "otp_id v = otp_id w" for v
    using inv w that by (auto simp: otp_inv_def distinct_map dest: inj_onD)
  with inv w show ?thesis by (auto simp: otp_inv_def list_all_iff)
qed

lemma leer_otp_Inr:
  "leer_otp jid s = (Inr w, s') \<Longrightarrow> s' = s \<and> find (vigente_de jid (ahora s)) (otps s) = Some w"
  by (auto simp: leer_otp_def proc_simps split: option.splits)

lemma otp_inv_nuevo:
  assumes inv: "otp_inv (s, ls)" and w: "otp_ok (ahora s) w" "otp_id w = prox_id s"
    and libre: "filter (activo_de (whatsappJid w)) (otps s) = []"
  shows "otp_inv (s\<lparr>otps := otps s @ [w], prox_id := Suc (prox_id s)\<rparr>, ls)"
proof -
  have "length (filter (activo_de j) (otps s @ [w])) \<le> 1" for j
    using inv libre by (cases "j = whatsappJid w") (auto simp: otp_inv_def activo_de_def)
  moreover have "\<forall>v \<in> set (otps s) \<union> set ls. otp_id v < prox_id s" using inv by (simp add: otp_inv_def)
  ultimately show ?thesis
    using inv w unfolding otp_inv_def by (auto simp: less_SucI)
qed

lemma otp_inv_pedir:
  assumes inv: "otp_inv (s, ls)" and r: "0 \<le> r" "r < 1"
    and run: "validateIdentity r email_ok d jid s = (res, s')"
  shows "otp_inv (s', ls)"
proof (cases "\<exists>c. find (cliente_con_dni (normalizeDni d)) (clientes s) = Some c \<and> email_cliente c \<noteq> []")
  case False
  then have "s' = s" using run by (auto simp: validateIdentity_def Let_def raise_def split: option.splits)
  with inv show ?thesis by simp
next
  case True
  then obtain c where c: "find (cliente_con_dni (normalizeDni d)) (clientes s) = Some c" "email_cliente c \<noteq> []" by blast
  let ?f = "\<lambda>w. if activo_de jid w then w\<lparr>verified := True, verifiedAt := Some (ahora s)\<rparr> else w"
  let ?s1 = "con_otps (map ?f) s"
  let ?w = "nuevo_otp jid (normalizeDni d) r c (ahora s) (prox_id s)"
  have s': "s' = ?s1\<lparr>otps := otps ?s1 @ [?w], prox_id := Suc (prox_id s)\<rparr>"
    using run c by (auto simp: validateIdentity_def Let_def raise_def ret_def con_otps_def invalidar_otps_def
        update_many_def split: if_splits)
  have 1: "otp_inv (?s1, ls)"
    by (rule otp_inv_map [OF inv refl subset_refl]) (auto simp: mismo_otp_def otp_ok_def activo_de_def split: if_splits)
  have w: "otp_ok (ahora s) ?w"
    using generateOtp_cifras6 [OF r] by (simp add: otp_ok_def nuevo_otp_def MAX_ATTEMPTS_def normalizeDni_def Let_def
        list_all_iff es_digito_def)
  have j: "whatsappJid ?w = jid" by (simp add: nuevo_otp_def)
  have "\<not> activo_de jid (?f w)" for w by (simp add: activo_de_def)
  then have "filter (activo_de (whatsappJid ?w)) (otps ?s1) = []"
    unfolding j otpc.docs_con_docs filter_empty_conv set_map by blast
  from otp_inv_nuevo [OF 1 _ _ this] w show ?thesis
    unfolding s' by (simp add: con_otps_def nuevo_otp_def)
qed

definition en_doc :: "oid \<Rightarrow> (otp_doc \<Rightarrow> otp_doc) \<Rightarrow> otp_doc \<Rightarrow> otp_doc" where
  "en_doc i f d = (if otp_id d = i then f d else d)"

lemma en_doc_simps [simp]:
  "otp_id (en_doc i (attempts_update g) d) = otp_id d" "otp_id (en_doc i (\<lambda>d. d\<lparr>verified := b, verifiedAt := t\<rparr>) d) = otp_id d"
  by (simp_all add: en_doc_def)

lemma con_update_one:
  "distinct (map otp_id (otps s)) \<Longrightarrow>
   con_otps (update_one (\<lambda>d. otp_id d = i) f) s = con_otps (map (en_doc i f)) s"
  by (simp add: con_otps_def update_one_map en_doc_def [abs_def])

text \<open>What the check of a code does to the state.\<close>

abbreviation intento :: "otp_doc \<Rightarrow> 'a bd_otp_scheme \<Rightarrow> 'a bd_otp_scheme" where
  "intento w s \<equiv> con_otps (map (en_doc (otp_id w) (\<lambda>d. d\<lparr>attempts := attempts w + 1\<rparr>))) s"

lemma comprobar_otp_run:
  assumes "distinct (map otp_id (otps s))"
  shows "comprobar_otp cod w s =
    (if attempts w \<ge> MAX_ATTEMPTS
     then (Inl (BadRequestException ''Has excedido el numero maximo de intentos.'' []), s)
     else if otp w \<noteq> cod
     then (Inl (UnauthorizedException ''Codigo incorrecto. Te quedan {} intentos.''
             [ANum (of_int (MAX_ATTEMPTS - (attempts w + 1)))]), intento w s)
     else (Inr (clientId w, clientName w),
       con_otps (map (en_doc (otp_id w) (\<lambda>d. d\<lparr>verified := True, verifiedAt := Some (ahora s)\<rparr>))) (intento w s)))"
proof -
  have "distinct (map otp_id (otps (intento w s)))"
    using assms by (simp add: otpc.docs_con_docs comp_def)
  then show ?thesis using assms
    by (simp add: comprobar_otp_def guardar_intentos_def guardar_verificado_def raise_def ret_def con_update_one)
       (simp add: con_otps_def)
qed

lemma otp_inv_comprobar:
  assumes inv: "otp_inv (s, ls)" and w: "w \<in> set ls" and run: "comprobar_otp cod w s = (res, s')"
  shows "otp_inv (s', remove1 w ls)"
proof -
  have d: "distinct (map otp_id (otps s))" and ok: "otp_ok (ahora s) w"
    using inv w by (auto simp: otp_inv_def list_all_iff)
  have ls: "set (remove1 w ls) \<subseteq> set ls" by (rule set_remove1_subset)
  have 1: "otp_inv (intento w s, remove1 w ls)" if "attempts w < MAX_ATTEMPTS" using that ok
    by (intro otp_inv_map [OF inv refl ls]) (auto simp: en_doc_def mismo_otp_def otp_ok_def)
  have 2: "otp_inv (con_otps (map (en_doc (otp_id w) (\<lambda>d. d\<lparr>verified := True, verifiedAt := Some (ahora s)\<rparr>)))
      (intento w s), remove1 w ls)" if "attempts w < MAX_ATTEMPTS"
    by (rule otp_inv_map [OF 1 [OF that] refl subset_refl]) (auto simp: en_doc_def mismo_otp_def otp_ok_def con_otps_def)
  have 0: "otp_inv (s, remove1 w ls)"
    using inv ls by (auto simp: otp_inv_def list_all_iff subset_iff)
  show ?thesis
    using run [unfolded comprobar_otp_run [OF d]] 0 1 2 by (auto split: if_split_asm)
qed

lemma otp_inv_paso: "otp_paso c c' \<Longrightarrow> otp_inv c \<Longrightarrow> otp_inv c'"
proof (induction rule: otp_paso.induct)
  case (leer jid s w s' ls)
  then show ?case using leer_otp_Inr [OF leer(1)] by (auto intro: otp_inv_leer simp: find_Some_iff)
next
  case (vencer s ls conserva)
  let ?Q = "\<lambda>w. ahora s < expiresAt w \<or> conserva w"
  have "length (filter (activo_de jid) (filter ?Q (otps s))) \<le> 1" for jid
    using vencer order_trans [OF filter_filter_le [of "activo_de jid" ?Q "otps s"]] by (simp add: otp_inv_def)
  with vencer show ?case
    by (auto simp: otp_inv_def con_otps_def list_all_iff distinct_map_filter simp del: filter_filter)
next
  case (reloj s t ls)
  then show ?case by (auto simp: otp_inv_def list_all_iff intro: otp_ok_despues)
qed (auto intro: otp_inv_pedir otp_inv_comprobar)


definition codigo0 :: otp_doc where
  "codigo0 = \<lparr>otp_id = 10, whatsappJid = ''j'', dni = ''05982015'', otp = ''550000'', expiresAt = 901000,
     verified = False, verifiedAt = None, clientId = 1, clientName = ''Ana'', attempts = 0\<rparr>"

definition bd_otp1 :: bd_otp where
  "bd_otp1 = \<lparr>ahora = 1000, prox_id = 11, clientes = [], otps = [codigo0]\<rparr>"

lemma otp_inv_ejemplo: "otp_inv (bd_otp1, [codigo0])"
  by (simp add: otp_inv_def bd_otp1_def codigo0_def otp_ok_def cifras6_def es_digito_def MAX_ATTEMPTS_def
      OTP_EXPIRATION_MINUTES_def)


section \<open>Single use\<close>

lemma mem_filter: "x \<in> set xs \<Longrightarrow> P x \<Longrightarrow> x \<in> set (filter P xs)"
  by simp

lemma find_vigente_activo:
  assumes "length (filter (activo_de jid) ws) \<le> 1" "w \<in> set ws" "activo_de jid w"
  shows "\<forall>v \<in> set ws. activo_de jid v \<longrightarrow> v = w"
proof -
  have "w \<in> set (filter (activo_de jid) ws)" using assms by simp
  with assms(1) have "filter (activo_de jid) ws = [w]"
    by (cases "filter (activo_de jid) ws") auto
  then show ?thesis by (metis (mono_tags, lifting) mem_filter empty_iff list.set(1) set_ConsD)
qed

lemma verifyOtp_activo:
  "find (vigente_de jid (ahora s)) (otps s) = Some w \<Longrightarrow> verifyOtp jid cod s = comprobar_otp cod w s"
  by (simp add: verifyOtp_def leer_otp_def ebind_def gets_def ret_def)

text \<open>C16: A verification succeeds only with the active code of that number, not expired and with attempts
  left, and it links the client the code was made for; after it the number has no code at all,
  so that every further verification fails until a new code is asked for.\<close>

theorem verifyOtp_single_use:
  assumes inv: "otp_inv (s, ls)" and run: "verifyOtp jid cod s = (Inr (c, n), s')"
  shows "(\<exists>w \<in> set (otps s). activo_de jid w \<and> otp w = cod \<and> ahora s < expiresAt w \<and>
       attempts w < MAX_ATTEMPTS \<and> clientId w = c \<and> clientName w = n) \<and>
     filter (activo_de jid) (otps s') = [] \<and>
     fst (verifyOtp jid cod' s') = Inl (NotFoundException ''No hay un codigo de verificacion activo.'' [])"
proof -
  have d: "distinct (map otp_id (otps s))" and u: "length (filter (activo_de jid) (otps s)) \<le> 1"
    using inv by (auto simp: otp_inv_def)
  from run obtain w where w: "find (vigente_de jid (ahora s)) (otps s) = Some w"
    and k: "comprobar_otp cod w s = (Inr (c, n), s')"
    unfolding verifyOtp_def ebind_Inr using leer_otp_Inr by blast
  then have v: "w \<in> set (otps s)" "activo_de jid w" "ahora s < expiresAt w"
    by (auto simp: find_Some_iff vigente_de_def)
  have e: "attempts w < MAX_ATTEMPTS" "otp w = cod" "c = clientId w" "n = clientName w"
    "s' = con_otps (map (en_doc (otp_id w) (\<lambda>d. d\<lparr>verified := True, verifiedAt := Some (ahora s)\<rparr>))) (intento w s)"
    using k by (auto simp: comprobar_otp_run [OF d] split: if_split_asm)
  have "\<not> activo_de jid v" if "v \<in> set (otps s')" for v
    using that find_vigente_activo [OF u v(1,2)]
    by (auto simp: e(5) con_otps_def en_doc_def activo_de_def split: if_splits)
  then have f: "filter (activo_de jid) (otps s') = []" by (simp add: filter_empty_conv)
  then have "find (vigente_de jid (ahora s')) (otps s') = None"
    by (auto simp: find_None_iff filter_empty_conv vigente_de_def)
  then have "fst (verifyOtp jid cod' s') = Inl (NotFoundException ''No hay un codigo de verificacion activo.'' [])"
    by (simp add: verifyOtp_def leer_otp_def ebind_def gets_def raise_def)
  with f v e(1-4) show ?thesis by auto
qed

theorem verifyOtp_single_use_witness:
  "filter (activo_de ''j'') (otps (final (verifyOtp ''j'' ''550000'') bd_otp1)) = []"
proof -
  have "find (vigente_de ''j'' (ahora bd_otp1)) (otps bd_otp1) = Some codigo0"
    by (simp add: bd_otp1_def codigo0_def vigente_de_def activo_de_def)
  note v = verifyOtp_activo [OF this, of "''550000''"]
  have d: "distinct (map otp_id (otps bd_otp1))" by (simp add: bd_otp1_def)
  have "verifyOtp ''j'' ''550000'' bd_otp1 = (Inr (1, ''Ana''), final (verifyOtp ''j'' ''550000'') bd_otp1)"
    unfolding v final_def comprobar_otp_run [OF d] by (simp add: codigo0_def MAX_ATTEMPTS_def)
  from verifyOtp_single_use [OF otp_inv_ejemplo this] show ?thesis by blast
qed

section \<open>The limit of attempts\<close>

text \<open>Requests one after another, and requests that all read the code before any of them writes.\<close>

definition verificar_en_serie :: "string \<Rightarrow> string list \<Rightarrow> 'a bd_otp_scheme \<Rightarrow> 'a bd_otp_scheme" where
  "verificar_en_serie jid cods s = foldl (\<lambda>s c. snd (verifyOtp jid c s)) s cods"

definition verificar_en_paralelo :: "otp_doc \<Rightarrow> string list \<Rightarrow> 'a bd_otp_scheme \<Rightarrow> 'a bd_otp_scheme" where
  "verificar_en_paralelo w cods s = foldl (\<lambda>s c. snd (comprobar_otp c w s)) s cods"

lemma find_en_doc:
  assumes "distinct (map otp_id ds)" "find P ds = Some w" "\<And>d. P (f d) = P d"
  shows "find P (map (en_doc (otp_id w) f) ds) = Some (f w)"
  using assms(1,2)
proof (induction ds)
  case (Cons d ds)
  have "otp_id d \<noteq> otp_id w" if "\<not> P d"
    using Cons.prems that by (auto simp: find_Some_iff image_iff split: if_splits)
  with Cons assms(3) show ?case by (auto simp: en_doc_def split: if_splits)
qed simp

lemma verifyOtp_incorrecto:
  assumes d: "distinct (map otp_id (otps s))" and w: "find (vigente_de jid (ahora s)) (otps s) = Some w"
    and c: "c \<noteq> otp w"
  shows "find (vigente_de jid (ahora s)) (otps (snd (verifyOtp jid c s))) =
      Some (w\<lparr>attempts := (if attempts w < MAX_ATTEMPTS then attempts w + 1 else attempts w)\<rparr>)"
    and "distinct (map otp_id (otps (snd (verifyOtp jid c s))))" and "ahora (snd (verifyOtp jid c s)) = ahora s"
  using find_en_doc [OF d w, of "\<lambda>d. d\<lparr>attempts := attempts w + 1\<rparr>"] d c w
  by (auto simp: verifyOtp_activo [OF w] comprobar_otp_run [OF d] con_otps_def comp_def vigente_de_def activo_de_def)

lemma verificar_en_serie_agota:
  assumes "distinct (map otp_id (otps s))" "find (vigente_de jid (ahora s)) (otps s) = Some w"
    and "list_all (\<lambda>c. c \<noteq> otp w) cods" "attempts w \<le> MAX_ATTEMPTS"
    and "MAX_ATTEMPTS \<le> attempts w + int (length cods)"
  shows "fst (verifyOtp jid cod (verificar_en_serie jid cods s)) =
     Inl (BadRequestException ''Has excedido el numero maximo de intentos.'' [])"
  using assms
proof (induction cods arbitrary: s w)
  case Nil
  then show ?case
    by (simp add: verificar_en_serie_def verifyOtp_activo [OF Nil(2)] comprobar_otp_run)
next
  case (Cons c cods)
  have "c \<noteq> otp w" using Cons.prems(3) by simp
  note v = verifyOtp_incorrecto [OF Cons.prems(1,2) this]
  show ?case unfolding verificar_en_serie_def foldl_Cons
    by (rule Cons.IH [unfolded verificar_en_serie_def, OF v(2), unfolded v(3), OF v(1)]) (use Cons.prems in auto)
qed

lemma verificar_en_paralelo_ids:
  "distinct (map otp_id (otps s)) \<Longrightarrow> list_all (\<lambda>c. c \<noteq> otp w) cods \<Longrightarrow>
   distinct (map otp_id (otps (verificar_en_paralelo w cods s)))"
proof (induction cods arbitrary: s)
  case (Cons c cods)
  then show ?case
    by (simp add: verificar_en_paralelo_def comprobar_otp_run con_otps_def comp_def)
qed (simp add: verificar_en_paralelo_def)

text \<open>The limit of three attempts holds for requests that come one after another: after three wrong codes
  the right one is refused. It does not hold for requests that have all read the code before
  the first of them saves its attempt: after any number of wrong codes the right one is accepted.\<close>

theorem otp_attempt_limit:
  assumes "distinct (map otp_id (otps s))" and w: "leer_otp jid s = (Inr w, s)" and a: "attempts w = 0"
    and c: "list_all (\<lambda>c. c \<noteq> otp w) cods" "3 \<le> length cods"
  shows "fst (verifyOtp jid (otp w) (verificar_en_serie jid cods s)) =
       Inl (BadRequestException ''Has excedido el numero maximo de intentos.'' []) \<and>
     fst (comprobar_otp (otp w) w (verificar_en_paralelo w cods s)) = Inr (clientId w, clientName w)"
  using verificar_en_serie_agota [OF assms(1) _ c(1)] verificar_en_paralelo_ids [OF assms(1) c(1)] a c(2)
    leer_otp_Inr [OF w] by (simp add: MAX_ATTEMPTS_def comprobar_otp_run)

theorem otp_attempt_limit_witness:
  "fst (comprobar_otp ''550000'' codigo0 (verificar_en_paralelo codigo0 (replicate 1000 ''111111'') bd_otp1)) =
     Inr (1, ''Ana'')"
proof -
  have "distinct (map otp_id (otps bd_otp1))" "leer_otp ''j'' bd_otp1 = (Inr codigo0, bd_otp1)"
    by (simp_all add: bd_otp1_def leer_otp_def codigo0_def vigente_de_def activo_de_def ret_def ebind_def gets_def)
  moreover have "list_all (\<lambda>c. c \<noteq> otp codigo0) (replicate 1000 ''111111'')"
    by (simp add: list_all_iff codigo0_def)
  ultimately show ?thesis
    using otp_attempt_limit [of bd_otp1 "''j''" codigo0 "replicate 1000 ''111111''"] by (simp add: codigo0_def)
qed

end
