(* ===== verification/CashBox.thy ===== *)
theory CashBox
  imports EntryPayments
begin

text \<open>
  \<^verbatim>\<open>src/modules/cash-box/cash-box.service.ts\<close>: the openings and closures of a cash box, which is a
  financial account of type CAJA_EFECTIVO. The last movement of a box is the first of its
  movements sorted by descending time stamp (in a tie, the one stored first). An amount is given or
  \<^verbatim>\<open>undefined\<close>; a JSON \<^verbatim>\<open>null\<close>, which the checks would let through, is not modelled.
\<close>

datatype tipo_mov_caja =
  OPENING | PARTIAL_CLOSURE | FINAL_CLOSURE | CASH_DEPOSIT | CASH_WITHDRAWAL | ADJUSTMENT

record mov_caja =
  mc_id :: oid
  financial_account_id :: oid
  mc_type :: tipo_mov_caja
  timestamp :: fecha
  mc_user_id :: oid
  declared_amount :: "monto option"
  physical_count :: "monto option"
  expected_balance_at_closure :: "monto option"
  discrepancy :: "monto option"
  adjustment_entry_id :: "oid option"
  mc_notes :: "string option"

record bd_caja = bd_asi +
  movimientos_caja :: "mov_caja list"

definition con_caja :: "(mov_caja list \<Rightarrow> mov_caja list) \<Rightarrow> 'a bd_caja_scheme \<Rightarrow> 'a bd_caja_scheme" where
  "con_caja f s = s\<lparr>movimientos_caja := f (movimientos_caja s)\<rparr>"

interpretation cajas: coleccion mc_id movimientos_caja con_caja
  by unfold_locales (simp add: con_caja_def)

record create_caja_dto =
  cm_financial_account_id :: oid
  cm_type :: tipo_mov_caja
  cm_declared_amount :: "monto option"
  cm_physical_count :: "monto option"
  cm_notes :: "string option"

section \<open>Checks\<close>

text \<open>\<^verbatim>\<open>findOne\<close> and the check of the type of the account, shared by the handlers.\<close>

definition caja_de :: "oid \<Rightarrow> ('a bd_fin_scheme, cuenta_fin) proc" where
  "caja_de i =
     ebind (cf_findOne i) (\<lambda>c.
     if cf_tipo c \<noteq> CAJA_EFECTIVO
     then raise (BadRequestException ''Financial account with ID {} is not a cash box (CAJA_EFECTIVO).'' [AId i])
     else ret c)"

definition exigir_tipo :: "tipo_mov_caja \<Rightarrow> tipo_mov_caja \<Rightarrow> string \<Rightarrow> ('s, unit) proc" where
  "exigir_tipo t t' nombre =
     (if t \<noteq> t' then raise (BadRequestException ''This method is only for creating a {} movement.'' [AStr nombre])
      else ret ())"

text \<open>The amount of a movement: required and not negative.\<close>

definition exigir_monto :: "monto option \<Rightarrow> string \<Rightarrow> ('s, monto) proc" where
  "exigir_monto x m =
     (case x of None \<Rightarrow> raise (BadRequestException m [])
      | Some v \<Rightarrow> if v < 0 then raise (BadRequestException m []) else ret v)"

definition ultimo_movimiento :: "oid \<Rightarrow> mov_caja list \<Rightarrow> mov_caja option" where
  "ultimo_movimiento i ms =
     (case sort_key (\<lambda>m. - timestamp m) (filter (\<lambda>m. financial_account_id m = i) ms) of
        [] \<Rightarrow> None | m # _ \<Rightarrow> Some m)"

definition caja_ocupada :: "oid \<Rightarrow> 'a bd_caja_scheme \<Rightarrow> bool" where
  "caja_ocupada i s =
     (case ultimo_movimiento i (movimientos_caja s) of None \<Rightarrow> False | Some m \<Rightarrow> mc_type m \<noteq> FINAL_CLOSURE)"

section \<open>Handlers\<close>

definition getExpectedBalance :: "oid \<Rightarrow> ('a bd_fin_scheme, monto) proc" where
  "getExpectedBalance i = ebind (caja_de i) (\<lambda>c. ret (saldo_inicial c))"

definition guardar_caja :: "mov_caja \<Rightarrow> ('a bd_caja_scheme, mov_caja) proc" where
  "guardar_caja m =
     ebind nuevo_id (\<lambda>i.
     ebind (gets ahora) (\<lambda>hoy.
     let m' = m\<lparr>mc_id := i, timestamp := hoy\<rparr> in
     ebind (modify (con_caja (\<lambda>ms. ms @ [m']))) (\<lambda>_. ret m')))"

definition mov_de_dto :: "create_caja_dto \<Rightarrow> oid \<Rightarrow> mov_caja" where
  "mov_de_dto dto user = \<lparr>mc_id = 0, financial_account_id = cm_financial_account_id dto, mc_type = cm_type dto,
     timestamp = 0, mc_user_id = user, declared_amount = None, physical_count = None,
     expected_balance_at_closure = None, discrepancy = None, adjustment_entry_id = None,
     mc_notes = cm_notes dto\<rparr>"

definition createOpening :: "create_caja_dto \<Rightarrow> oid \<Rightarrow> ('a bd_caja_scheme, mov_caja) proc" where
  "createOpening dto user =
     ebind (exigir_tipo (cm_type dto) OPENING ''OPENING'') (\<lambda>_.
     ebind (exigir_monto (cm_declared_amount dto)
       ''Declared amount is required and must be non-negative for an opening movement.'') (\<lambda>monto_d.
     ebind (caja_de (cm_financial_account_id dto)) (\<lambda>_.
     ebind (gets (caja_ocupada (cm_financial_account_id dto))) (\<lambda>ocupada.
     if ocupada
     then raise (BadRequestException
       ''Cash box for financial account ID {} is already open or not properly closed.''
       [AId (cm_financial_account_id dto)])
     else
     ebind (updateBalance (cm_financial_account_id dto) monto_d MovSET) (\<lambda>_.
     guardar_caja ((mov_de_dto dto user)\<lparr>declared_amount := Some monto_d\<rparr>))))))"

definition cierre :: "create_caja_dto \<Rightarrow> oid \<Rightarrow> monto \<Rightarrow> monto \<Rightarrow> oid option \<Rightarrow> mov_caja" where
  "cierre dto user conteo esperado ajuste = (mov_de_dto dto user)\<lparr>physical_count := Some conteo,
     expected_balance_at_closure := Some esperado, discrepancy := Some (conteo - esperado),
     adjustment_entry_id := ajuste\<rparr>"

definition createPartialClosure :: "create_caja_dto \<Rightarrow> oid \<Rightarrow> ('a bd_caja_scheme, mov_caja) proc" where
  "createPartialClosure dto user =
     ebind (exigir_tipo (cm_type dto) PARTIAL_CLOSURE ''PARTIAL_CLOSURE'') (\<lambda>_.
     ebind (exigir_monto (cm_physical_count dto)
       ''Physical count is required and must be non-negative for a partial closure movement.'') (\<lambda>conteo.
     ebind (caja_de (cm_financial_account_id dto)) (\<lambda>c.
     guardar_caja (cierre dto user conteo (saldo_inicial c) None))))"

text \<open>The chart account of the discrepancies, a constant id in the code.\<close>

definition chartOfAccountsIdForDiscrepancy :: oid where
  "chartOfAccountsIdForDiscrepancy = 0x60c72b2f9b1d8e001c8a4f1d"

definition partida_ajuste :: "oid \<Rightarrow> texto \<Rightarrow> monto \<Rightarrow> monto \<Rightarrow> partida" where
  "partida_ajuste cuenta desc d h =
     \<lparr>cuenta_id = cuenta, p_descripcion = desc, debe = d, haber = h, p_agente_id = None,
      monto_pagado_acumulado = None, monto_liquidado = None, es_iva_incluido = False,
      tasa_iva_aplicada = Some 0, monto_base_imponible = Some 0, monto_iva_calculado = Some 0\<rparr>"

text \<open>The line of the box is debited when cash is missing and credited when there is too much.\<close>

definition ajuste_dto :: "cuenta_fin \<Rightarrow> monto \<Rightarrow> oid \<Rightarrow> fecha \<Rightarrow> asiento_dto" where
  "ajuste_dto c dif user hoy =
     (let desc = (if dif > 0 then ''Sobrante de Caja'' else ''Faltante de Caja'');
          m = \<bar>dif\<bar>;
          debitAmount = (if dif < 0 then m else 0);
          creditAmount = (if dif > 0 then m else 0)
      in \<lparr>d_contrato_id = None, d_fecha_imputacion = Some hoy, d_fecha_vencimiento = Some hoy,
          d_descripcion = Some (''{} - {}'', [AStr desc, AStr (cf_nombre c)]),
          d_tipo_asiento = Some ''AJUSTE_CAJA'', d_metadata = None, d_estado = Some PAGADO,
          d_monto_original = Some m, d_monto_actual = Some m,
          d_partidas = Some
            [partida_ajuste (cf_id c) (desc, []) debitAmount creditAmount,
             partida_ajuste chartOfAccountsIdForDiscrepancy (desc, []) creditAmount debitAmount],
          d_usuario_creacion_id = Some user, d_usuario_modificacion_id = None, d_historial = []\<rparr>)"

definition asiento_de_ajuste :: "cuenta_fin \<Rightarrow> monto \<Rightarrow> oid \<Rightarrow> ('a bd_asi_scheme, oid option) proc" where
  "asiento_de_ajuste c dif user =
     (if dif \<noteq> 0
      then ebind (gets ahora) (\<lambda>hoy.
           ebind (create (ajuste_dto c dif user hoy)) (\<lambda>a. ret (Some (a_id a))))
      else ret None)"

definition createFinalClosure :: "create_caja_dto \<Rightarrow> oid \<Rightarrow> ('a bd_caja_scheme, mov_caja) proc" where
  "createFinalClosure dto user =
     ebind (exigir_tipo (cm_type dto) FINAL_CLOSURE ''FINAL_CLOSURE'') (\<lambda>_.
     ebind (exigir_monto (cm_physical_count dto)
       ''Physical count is required and must be non-negative for a final closure movement.'') (\<lambda>conteo.
     ebind (caja_de (cm_financial_account_id dto)) (\<lambda>c.
     ebind (asiento_de_ajuste c (conteo - saldo_inicial c) user) (\<lambda>ajuste.
     ebind (updateBalance (cm_financial_account_id dto) conteo MovSET) (\<lambda>_.
     guardar_caja (cierre dto user conteo (saldo_inicial c) ajuste))))))"

end
