(* ===== verification/CashBoxProperties.thy ===== *)
theory CashBoxProperties
  imports CashBox EntryExamples
begin

text \<open>
  The cash box: what a final closure writes, and the alternation of openings and closures along
  any run.
\<close>

section \<open>The handlers, successful\<close>

lemma caja_de_Inr [proc_simps]:
  "caja_de i s = (Inr c, s') \<longleftrightarrow> cuenta_de i s = Some c \<and> cf_tipo c = CAJA_EFECTIVO \<and> s' = s"
  by (auto simp: caja_de_def cf_findOne_def proc_simps)

lemma caja_de_Inl [proc_simps]: "caja_de i s = (Inl e, s') \<Longrightarrow> s' = s"
  by (auto simp: caja_de_def cf_findOne_def proc_simps split: if_splits)

lemma exigir_Inr [proc_simps]:
  "exigir_tipo t t' n s = (Inr x, s') \<longleftrightarrow> t = t' \<and> s' = s"
  "exigir_monto q m s = (Inr v, s') \<longleftrightarrow> q = Some v \<and> 0 \<le> v \<and> s' = s"
  by (auto simp: exigir_tipo_def exigir_monto_def proc_simps split: option.splits if_splits)

lemma exigir_Inl:
  "exigir_tipo t t' n s = (Inl e, s') \<Longrightarrow> s' = s" "exigir_monto q m s = (Inl e, s') \<Longrightarrow> s' = s"
  by (auto simp: exigir_tipo_def exigir_monto_def proc_simps split: option.splits if_splits)

lemma guardar_caja_run [proc_simps]:
  "guardar_caja m s =
     (Inr (m\<lparr>mc_id := prox_id s, timestamp := ahora s\<rparr>),
      con_caja (\<lambda>ms. ms @ [m\<lparr>mc_id := prox_id s, timestamp := ahora s\<rparr>]) (s\<lparr>prox_id := Suc (prox_id s)\<rparr>))"
  by (simp add: guardar_caja_def Let_def ret_def)

text \<open>The entry of a difference is balanced, and moves the line of the box against the difference.\<close>

lemma asiento_de_ajuste_Inr:
  assumes "asiento_de_ajuste c dif u s = (Inr x, s')"
  shows "if dif = 0 then x = None \<and> s' = s
     else \<exists>a. x = Some (a_id a) \<and> s' = con_asientos (\<lambda>as. as @ [a]) (s\<lparr>prox_id := Suc (prox_id s)\<rparr>) \<and>
       totalDebe (partidas a) = totalHaber (partidas a) \<and> monto_actual a = \<bar>dif\<bar> \<and>
       cuenta_id (hd (partidas a)) = cf_id c \<and>
       debe (hd (partidas a)) - haber (hd (partidas a)) = - dif"
proof (cases "dif = 0")
  case True
  with assms show ?thesis by (simp add: asiento_de_ajuste_def ret_def)
next
  case False
  with assms obtain a where a: "create (ajuste_dto c dif u (ahora s)) s = (Inr a, s')" and x: "x = Some (a_id a)"
    by (auto simp: asiento_de_ajuste_def proc_simps)
  have p: "partidas a = map partida_defaults (coalesce (d_partidas (ajuste_dto c dif u (ahora s))) [])"
    "monto_actual a = \<bar>dif\<bar>"
    unfolding create_Inr(1) [OF a] by (simp_all add: asiento_de_dto_def ajuste_dto_def Let_def)
  have "totalDebe (partidas a) = totalHaber (partidas a)" "cuenta_id (hd (partidas a)) = cf_id c"
    "debe (hd (partidas a)) - haber (hd (partidas a)) = - dif"
    unfolding p(1) using False
    by (auto simp: ajuste_dto_def Let_def partida_ajuste_def partida_defaults_def totalDebe_def totalHaber_def)
  with create_Inr(4) [OF a] x False p(2) show ?thesis by auto
qed

lemma saldo_de_campos [simp]:
  "saldo_de i (con_asientos f s) = saldo_de i s"
  "saldo_de i (con_caja g t) = saldo_de i t" "saldo_de i (t\<lparr>prox_id := n\<rparr>) = saldo_de i t"
  by (simp_all add: saldo_de_def con_asientos_def con_caja_def)

text \<open>A final closure sets the balance of the box to the count and of no other account, records
  the difference with the expected balance, and writes one entry for it exactly when there is a
  difference. The entry is balanced and has the size of the difference, but it debits the box
  when cash is missing and credits it when there is too much, the opposite of its comment.\<close>

theorem createFinalClosure_effect:
  assumes run: "createFinalClosure dto u s = (Inr m, s')"
  shows "\<exists>c n. cuenta_de (cm_financial_account_id dto) s = Some c \<and> cf_tipo c = CAJA_EFECTIVO \<and>
     cm_physical_count dto = Some n \<and> 0 \<le> n \<and>
     (\<forall>j. saldo_de j s' = (if j = cm_financial_account_id dto then Some n else saldo_de j s)) \<and>
     movimientos_caja s' = movimientos_caja s @ [m] \<and> mc_type m = FINAL_CLOSURE \<and>
     expected_balance_at_closure m = Some (saldo_inicial c) \<and> discrepancy m = Some (n - saldo_inicial c) \<and>
     (if n = saldo_inicial c then asientos s' = asientos s \<and> adjustment_entry_id m = None
      else \<exists>a. asientos s' = asientos s @ [a] \<and> adjustment_entry_id m = Some (a_id a) \<and>
        totalDebe (partidas a) = totalHaber (partidas a) \<and> monto_actual a = \<bar>n - saldo_inicial c\<bar> \<and>
        cuenta_id (hd (partidas a)) = cf_id c \<and>
        debe (hd (partidas a)) - haber (hd (partidas a)) = saldo_inicial c - n)"
proof -
  let ?i = "cm_financial_account_id dto"
  from run obtain c n x s1 c2 s2 where t: "cm_type dto = FINAL_CLOSURE"
    and n: "cm_physical_count dto = Some n" "0 \<le> n"
    and c: "cuenta_de ?i s = Some c" "cf_tipo c = CAJA_EFECTIVO"
    and a: "asiento_de_ajuste c (n - saldo_inicial c) u s = (Inr x, s1)"
    and b: "updateBalance ?i n MovSET s1 = (Inr c2, s2)"
    and g: "guardar_caja (cierre dto u n (saldo_inicial c) x) s2 = (Inr m, s')"
    by (auto simp: createFinalClosure_def proc_simps simp del: guardar_caja_run)
  note a' = asiento_de_ajuste_Inr [OF a]
  have s1: "saldo_de j s1 = saldo_de j s" "movimientos_caja s1 = movimientos_caja s" for j
    using a' by (auto simp: con_asientos_def saldo_de_def split: if_splits)
  have s2: "asientos s2 = asientos s1" "movimientos_caja s2 = movimientos_caja s1"
    by (subst updateBalance_frame [OF b], simp)+
  have "saldo_de ?i s1 = Some (saldo_inicial c)" using s1(1) c(1) by (simp add: saldo_de_def)
  then have "saldo_de j s' = (if j = ?i then Some n else saldo_de j s)" for j
    using updateBalance_saldo [OF b, of j] s1(1) g by (auto simp: guardar_caja_run saldo_de_def con_caja_def)
  moreover have "movimientos_caja s' = movimientos_caja s @ [m]" "asientos s' = asientos s1"
    using g s1(2) s2 by (auto simp: guardar_caja_run con_caja_def)
  moreover have "mc_type m = FINAL_CLOSURE" "expected_balance_at_closure m = Some (saldo_inicial c)"
    "discrepancy m = Some (n - saldo_inicial c)" "adjustment_entry_id m = x"
    using g t by (auto simp: guardar_caja_run cierre_def mov_de_dto_def)
  ultimately show ?thesis using a' c n by (auto simp: con_asientos_def split: if_splits)
qed

definition bd_caja0 :: bd_caja where
  "bd_caja0 = bd_asi.extend bd0 (bd_caja.fields [])"

definition cierre0 :: "monto \<Rightarrow> create_caja_dto" where
  "cierre0 n = \<lparr>cm_financial_account_id = 7, cm_type = FINAL_CLOSURE, cm_declared_amount = None,
     cm_physical_count = Some n, cm_notes = None\<rparr>"

theorem createFinalClosure_effect_witness:
  "saldo_de 7 (final (createFinalClosure (cierre0 30) 8) bd_caja0) = Some 30"
proof -
  have "\<not> sin_partidas (ajuste_dto caja0 d u h)" "dto_valido (ajuste_dto caja0 d u h)" for d u h
    by (simp_all add: ajuste_dto_def sin_partidas_def dto_valido_def partida_ajuste_def Let_def)
  then have e: "exito (createFinalClosure (cierre0 30) 8) bd_caja0"
    by (simp add: exito_def createFinalClosure_def cierre0_def ebind_def exigir_tipo_def exigir_monto_def
        caja_de_def cf_findOne_def obtener_def bd_caja0_def bd_asi.defs bd_caja.defs bd0_def col_simps
        caja0_def asiento_de_ajuste_def create_def ret_def gets_def nuevo_id_def modify_def con_asientos_def
        updateBalance_def Let_def guardar_caja_run)
  from createFinalClosure_effect [OF exito_run [OF e]] show ?thesis by (auto simp: cierre0_def)
qed

section \<open>Openings and closures\<close>

lemma sort_key_ultimo:
  fixes f :: "'a \<Rightarrow> int"
  assumes "sorted_wrt (<) (map f xs)" "xs \<noteq> []"
  shows "hd (sort_key (\<lambda>x. - f x) xs) = last xs"
proof -
  let ?ys = "sort_key (\<lambda>x. - f x) xs"
  have ne: "?ys \<noteq> []" using assms(2) by (metis length_0_conv length_sort)
  then obtain y ys where ys: "?ys = y # ys" by (cases ?ys) auto
  have "sorted (map (\<lambda>x. - f x) ?ys)" by simp
  then have "- f y \<le> - f x" if "x \<in> set ?ys" for x using that by (auto simp: ys)
  then have m: "f x \<le> f y" if "x \<in> set xs" for x using that by force
  have y: "y \<in> set xs" using ys by (metis list.set_intros(1) set_sort)
  obtain zs where zs: "xs = zs @ [last xs]" using assms(2) by (metis append_butlast_last_id)
  have "f x < f (last xs)" if "x \<in> set zs" for x
    using assms(1) that by (subst (asm) zs) (auto simp: sorted_wrt_append)
  with m [OF last_in_set [OF assms(2)]] y have "y = last xs" by (subst (asm) zs) force
  then show ?thesis by (simp add: ys)
qed

definition turnos :: "oid \<Rightarrow> 'a bd_caja_scheme \<Rightarrow> tipo_mov_caja list" where
  "turnos i s = map mc_type (filter (\<lambda>m. financial_account_id m = i) (movimientos_caja s))"

fun turnos_ok :: "tipo_mov_caja list \<Rightarrow> bool" where
  "turnos_ok (t # u # ts) = ((u = OPENING \<longrightarrow> t = FINAL_CLOSURE) \<and> turnos_ok (u # ts))"
| "turnos_ok ts = True"

lemma turnos_ok_snoc:
  "turnos_ok (ts @ [t]) \<longleftrightarrow> turnos_ok ts \<and> (t = OPENING \<longrightarrow> ts = [] \<or> last ts = FINAL_CLOSURE)"
  by (induction ts rule: turnos_ok.induct) auto

definition en_orden :: "'a bd_caja_scheme \<Rightarrow> bool" where
  "en_orden s \<longleftrightarrow> sorted_wrt (<) (map timestamp (movimientos_caja s)) \<and>
     list_all (\<lambda>m. timestamp m < ahora s) (movimientos_caja s)"

lemma ocupada_turnos:
  assumes "sorted_wrt (<) (map timestamp (movimientos_caja s))"
  shows "caja_ocupada i s \<longleftrightarrow> turnos i s \<noteq> [] \<and> last (turnos i s) \<noteq> FINAL_CLOSURE"
proof (cases "filter (\<lambda>m. financial_account_id m = i) (movimientos_caja s) = []")
  case False
  let ?ms = "filter (\<lambda>m. financial_account_id m = i) (movimientos_caja s)"
  have "sorted_wrt (<) (map timestamp ?ms)" using assms by (simp add: sorted_wrt_map sorted_wrt_filter)
  note h = sort_key_ultimo [OF this False]
  from False obtain m ms where "sort_key (\<lambda>m. - timestamp m) ?ms = m # ms"
    by (metis length_0_conv length_sort list.exhaust)
  with h show ?thesis using False by (simp add: caja_ocupada_def ultimo_movimiento_def turnos_def last_map)
qed (simp add: caja_ocupada_def ultimo_movimiento_def turnos_def)

text \<open>A request and then the clock; \<open>otra\<close> is any request of the other services.\<close>

inductive caja_paso :: "bd_caja \<Rightarrow> bd_caja \<Rightarrow> bool" where
  abrir: "createOpening dto u s = (r, s') \<Longrightarrow> ahora s < t \<Longrightarrow> caja_paso s (s'\<lparr>ahora := t\<rparr>)"
| parcial: "createPartialClosure dto u s = (r, s') \<Longrightarrow> ahora s < t \<Longrightarrow> caja_paso s (s'\<lparr>ahora := t\<rparr>)"
| cerrar: "createFinalClosure dto u s = (r, s') \<Longrightarrow> ahora s < t \<Longrightarrow> caja_paso s (s'\<lparr>ahora := t\<rparr>)"
| otra: "movimientos_caja s' = movimientos_caja s \<Longrightarrow> ahora s \<le> ahora s' \<Longrightarrow> caja_paso s s'"

inductive_simps otra_paso_simps: "caja_paso s s"

definition caja_inv :: "'a bd_caja_scheme \<Rightarrow> bool" where
  "caja_inv s \<longleftrightarrow> en_orden s \<and> (\<forall>i. turnos_ok (turnos i s))"

text \<open>What a handler does to the movements: nothing, or one movement with the time of the request.\<close>

definition un_movimiento :: "(mov_caja \<Rightarrow> bool) \<Rightarrow> 'a bd_caja_scheme \<Rightarrow> 'a bd_caja_scheme \<Rightarrow> bool" where
  "un_movimiento P s s' \<longleftrightarrow> movimientos_caja s' = movimientos_caja s \<or>
     (\<exists>m. P m \<and> timestamp m = ahora s \<and> movimientos_caja s' = movimientos_caja s @ [m])"

lemma caja_inv_movimiento:
  assumes inv: "caja_inv s" and t: "ahora s < t"
    and m: "un_movimiento (\<lambda>m. mc_type m = OPENING \<longrightarrow> \<not> caja_ocupada (financial_account_id m) s) s s'"
  shows "caja_inv (s'\<lparr>ahora := t\<rparr>)"
  using m unfolding un_movimiento_def
proof (elim disjE exE conjE)
  assume "movimientos_caja s' = movimientos_caja s"
  with inv t show ?thesis by (auto simp: caja_inv_def en_orden_def turnos_def list_all_iff)
next
  fix m
  assume e: "movimientos_caja s' = movimientos_caja s @ [m]" and ts: "timestamp m = ahora s"
    and o: "mc_type m = OPENING \<longrightarrow> \<not> caja_ocupada (financial_account_id m) s"
  have "turnos_ok (turnos i (s'\<lparr>ahora := t\<rparr>))" for i
    using inv o ocupada_turnos [of s "financial_account_id m"]
    by (auto simp: caja_inv_def en_orden_def turnos_def e turnos_ok_snoc)
  moreover have "en_orden (s'\<lparr>ahora := t\<rparr>)"
    using inv t ts by (auto simp: caja_inv_def en_orden_def e sorted_wrt_append list_all_iff)
  ultimately show ?thesis by (simp add: caja_inv_def)
qed

text \<open>The procedures before the last step of a handler touch no movement and no clock.\<close>

definition sin_caja :: "('a bd_caja_scheme, 'b) proc \<Rightarrow> bool" where
  "sin_caja m \<longleftrightarrow> (\<forall>s. movimientos_caja (snd (m s)) = movimientos_caja s \<and> ahora (snd (m s)) = ahora s)"

lemma sin_caja_simps [simp]:
  "sin_caja (exigir_tipo t t' n)" "sin_caja (exigir_monto q txt)" "sin_caja (caja_de i)" "sin_caja (gets f)"
  "sin_caja (raise e)" "sin_caja (ret x)" "sin_caja (create d)"
  by (auto simp: sin_caja_def exigir_tipo_def exigir_monto_def caja_de_def cf_findOne_def obtener_def raise_def ret_def
      gets_def ebind_def create_def nuevo_id_def modify_def con_asientos_def split: option.split prod.split)

lemma sin_caja_updateBalance [simp]: "sin_caja (updateBalance i m ty)"
  unfolding sin_caja_def
proof
  fix s :: "'a bd_caja_scheme"
  obtain r s' where "updateBalance i m ty s = (r, s')" by (cases "updateBalance i m ty s")
  note u = this
  have "movimientos_caja s' = movimientos_caja s" "ahora s' = ahora s"
    by (subst updateBalance_frame [OF u], simp)+
  with u show "movimientos_caja (snd (updateBalance i m ty s)) = movimientos_caja s \<and>
      ahora (snd (updateBalance i m ty s)) = ahora s" by simp
qed

lemma sin_caja_ebind:
  assumes "sin_caja m" "\<And>x. sin_caja (k x)"
  shows "sin_caja (ebind m k)"
  unfolding sin_caja_def
proof
  fix s
  obtain r s1 where "m s = (r, s1)" by (cases "m s")
  with assms(1) [unfolded sin_caja_def, rule_format, of s] assms(2) [unfolded sin_caja_def, rule_format, of _ s1]
  show "movimientos_caja (snd (ebind m k s)) = movimientos_caja s \<and> ahora (snd (ebind m k s)) = ahora s"
    by (cases r) (auto simp: ebind_def)
qed

lemma sin_caja_ajuste [simp]: "sin_caja (asiento_de_ajuste c d u)"
  by (auto simp: asiento_de_ajuste_def simp del: ebind_gets intro!: sin_caja_ebind)

definition escribe :: "(mov_caja \<Rightarrow> bool) \<Rightarrow> ('a bd_caja_scheme, 'b) proc \<Rightarrow> bool" where
  "escribe P m \<longleftrightarrow> (\<forall>s. un_movimiento P s (snd (m s)))"

lemma escribe_ebind:
  assumes "sin_caja m" "\<And>x. escribe P (k x)"
  shows "escribe P (ebind m k)"
  unfolding escribe_def
proof
  fix s
  obtain r s1 where "m s = (r, s1)" by (cases "m s")
  with assms(1) [unfolded sin_caja_def, rule_format, of s] assms(2) [unfolded escribe_def, rule_format, of s1]
  show "un_movimiento P s (snd (ebind m k s))"
    by (cases r) (auto simp: ebind_def un_movimiento_def)
qed

lemma escribe_guardar: "(\<And>i t. P (m\<lparr>mc_id := i, timestamp := t\<rparr>)) \<Longrightarrow> escribe P (guardar_caja m)"
  by (simp add: escribe_def guardar_caja_run un_movimiento_def con_caja_def)

lemma escribe_raise: "escribe P (raise e)"
  by (simp add: escribe_def un_movimiento_def raise_def)

lemma escribe_tipo:
  "(\<And>x. cm_type dto = t \<Longrightarrow> escribe P (k x)) \<Longrightarrow> escribe P (ebind (exigir_tipo (cm_type dto) t n) k)"
  by (cases "cm_type dto = t") (simp_all add: exigir_tipo_def escribe_raise)

lemma cierres_escriben:
  "escribe (\<lambda>m. mc_type m \<noteq> OPENING) (createPartialClosure dto u)"
  "escribe (\<lambda>m. mc_type m \<noteq> OPENING) (createFinalClosure dto u)"
  unfolding createPartialClosure_def createFinalClosure_def
  by (rule escribe_tipo, intro escribe_ebind escribe_guardar; simp add: cierre_def mov_de_dto_def)+

lemma createOpening_ocupada:
  "caja_ocupada (cm_financial_account_id dto) s \<Longrightarrow> \<exists>e. createOpening dto u s = (Inl e, s)"
  by (auto simp: createOpening_def ebind_def exigir_tipo_def exigir_monto_def caja_de_def cf_findOne_def
      obtener_def raise_def ret_def gets_def split: option.splits)

lemma apertura_escribe:
  "un_movimiento (\<lambda>m. \<not> caja_ocupada (financial_account_id m) s) s (snd (createOpening dto u s))"
proof (cases "caja_ocupada (cm_financial_account_id dto) s")
  case True
  then have "\<exists>e. createOpening dto u s = (Inl e, s)" by (rule createOpening_ocupada)
  then show ?thesis by (auto simp: un_movimiento_def)
next
  case False
  let ?P = "\<lambda>m. financial_account_id m = cm_financial_account_id dto"
  have "escribe ?P (createOpening dto u)"
    unfolding createOpening_def
    by (intro escribe_ebind) (simp_all add: escribe_raise escribe_ebind escribe_guardar mov_de_dto_def)
  with False show ?thesis by (auto simp: escribe_def un_movimiento_def)
qed

lemma caja_inv_paso: "caja_paso s s' \<Longrightarrow> caja_inv s \<Longrightarrow> caja_inv s'"
proof (induction rule: caja_paso.induct)
  case (abrir dto u s r s' t)
  then show ?case using apertura_escribe [of s dto u]
    by (intro caja_inv_movimiento [OF abrir(3,2)]) (auto simp: un_movimiento_def)
next
  case (parcial dto u s r s' t)
  then show ?case using cierres_escriben(1) [of dto u, unfolded escribe_def, rule_format, of s]
    by (intro caja_inv_movimiento [OF parcial(3,2)]) (auto simp: un_movimiento_def)
next
  case (cerrar dto u s r s' t)
  then show ?case using cierres_escriben(2) [of dto u, unfolded escribe_def, rule_format, of s]
    by (intro caja_inv_movimiento [OF cerrar(3,2)]) (auto simp: un_movimiento_def)
next
  case (otra s' s)
  then show ?case by (auto simp: caja_inv_def en_orden_def turnos_def list_all_iff)
qed

lemma createPartialClosure_ocupa:
  assumes run: "createPartialClosure dto u s = (Inr m, s1)" and o: "en_orden s"
  shows "caja_ocupada (cm_financial_account_id dto) s1"
proof -
  have m: "movimientos_caja s1 = movimientos_caja s @ [m]" "timestamp m = ahora s" "mc_type m = PARTIAL_CLOSURE"
    "financial_account_id m = cm_financial_account_id dto"
    using run by (auto simp: createPartialClosure_def proc_simps con_caja_def cierre_def mov_de_dto_def)
  then have "sorted_wrt (<) (map timestamp (movimientos_caja s1))"
    using o by (auto simp: en_orden_def sorted_wrt_append list_all_iff)
  from ocupada_turnos [OF this] m show ?thesis by (simp add: turnos_def)
qed

text \<open>C17: Along any run of requests, served one at a time while the clock advances, every opening of a box is
  its first movement or follows a final closure. The closures are not guarded in the same way: a
  partial closure of a closed box is accepted, and from then on no opening is, until another
  final closure.\<close>

theorem cash_box_turns:
  assumes run: "caja_paso\<^sup>*\<^sup>* s s'" and inv: "caja_inv s"
  shows "turnos_ok (turnos i s') \<and>
     (\<forall>dto u m s1 dto' u'. createPartialClosure dto u s' = (Inr m, s1) \<and>
        cm_financial_account_id dto' = cm_financial_account_id dto \<longrightarrow> \<not> exito (createOpening dto' u') s1)"
proof -
  have i: "caja_inv s'" using run inv by (induction) (auto intro: caja_inv_paso)
  have "\<not> exito (createOpening dto' u') s1" if "createPartialClosure dto u s' = (Inr m, s1)"
    "cm_financial_account_id dto' = cm_financial_account_id dto" for dto u m s1 dto' u'
    using createOpening_ocupada [of dto' s1 u'] createPartialClosure_ocupa [OF that(1)] i that(2)
    by (auto simp: caja_inv_def exito_def)
  with i show ?thesis by (auto simp: caja_inv_def)
qed

definition apertura0 :: create_caja_dto where
  "apertura0 = \<lparr>cm_financial_account_id = 7, cm_type = OPENING, cm_declared_amount = Some 20,
     cm_physical_count = None, cm_notes = None\<rparr>"

theorem cash_box_turns_witness:
  "turnos 7 (final (createOpening apertura0 8) bd_caja0) = [OPENING] \<and>
   turnos_ok (turnos 7 (final (createOpening apertura0 8) bd_caja0\<lparr>ahora := 101\<rparr>))"
proof -
  have e: "exito (createOpening apertura0 8) bd_caja0 \<and>
      turnos 7 (final (createOpening apertura0 8) bd_caja0) = [OPENING] \<and> ahora bd_caja0 = 100 \<and>
      movimientos_caja bd_caja0 = []" by code_simp
  then have "caja_inv bd_caja0" by (simp add: caja_inv_def en_orden_def turnos_def)
  moreover have "caja_paso bd_caja0 (final (createOpening apertura0 8) bd_caja0\<lparr>ahora := 101\<rparr>)"
    by (rule abrir [of apertura0 8 _ "fst (createOpening apertura0 8 bd_caja0)"]) (use e in \<open>simp_all add: final_def\<close>)
  ultimately show ?thesis using cash_box_turns e r_into_rtranclp [of caja_paso] by metis
qed

end
