(* ===== verification/Banking.thy ===== *)
theory Banking
  imports Dates
begin

text \<open>
  \<^verbatim>\<open>src/modules/banking-sync\<close>: the movements read from the bank (\<^verbatim>\<open>banking-sync.service.ts\<close>) and
  their conciliation with the transactions of the system (\<^verbatim>\<open>conciliation.service.ts\<close>). \<open>coincide\<close>
  is the regular expression match of the database, case insensitive, and \<open>orden\<close> its sort.
\<close>

section \<open>State\<close>

record mov_banco =
  mb_id :: oid
  identificador_unico :: string
  tipo_operacion :: tipo_movimiento
  mb_monto :: monto
  fecha_operacion :: fecha
  cuenta_origen_cbu :: "string option"
  cuenta_destino_cbu :: "string option"
  mb_identificador_fiscal :: "string option"
  nombre_tercero :: "string option"
  concepto_transaccion :: "string option"
  email_id :: string
  conciliado_sistema :: bool
  transaccion_id :: "oid option"
  mb_observaciones :: "string option"
  email_asunto :: "string option"
  email_fecha :: "fecha option"

datatype candidate_status = PENDING | CONFIRMED | REJECTED

record candidato =
  ca_id :: oid
  bank_movement_id :: oid
  ca_transaction_id :: oid
  ca_status :: candidate_status
  score :: int
  match_reasons :: "string list"
  ca_notes :: "string option"

record bd_banco = bd_tx +
  movs_banco :: "mov_banco list"
  candidatos :: "candidato list"

definition con_movs :: "(mov_banco list \<Rightarrow> mov_banco list) \<Rightarrow> 'a bd_banco_scheme \<Rightarrow> 'a bd_banco_scheme" where
  "con_movs f s = s\<lparr>movs_banco := f (movs_banco s)\<rparr>"

definition con_cands :: "(candidato list \<Rightarrow> candidato list) \<Rightarrow> 'a bd_banco_scheme \<Rightarrow> 'a bd_banco_scheme" where
  "con_cands f s = s\<lparr>candidatos := f (candidatos s)\<rparr>"

interpretation movsb: coleccion mb_id movs_banco con_movs
  by unfold_locales (simp add: con_movs_def)

interpretation cands: coleccion ca_id candidatos con_cands
  by unfold_locales (simp add: con_cands_def)

section \<open>Bank movements\<close>

text \<open>\<open>mb_id\<close>, \<open>conciliado_sistema\<close> and \<open>transaccion_id\<close> of the request are not given by the scan.\<close>

definition mov_valido :: "mov_banco \<Rightarrow> bool" where
  "mov_valido m \<longleftrightarrow> identificador_unico m \<noteq> [] \<and> email_id m \<noteq> []"

definition bs_create :: "mov_banco \<Rightarrow> ('a bd_banco_scheme, mov_banco option) proc" where
  "bs_create dto =
     ebind (gets movs_banco) (\<lambda>ms.
     if identificador_unico dto \<in> identificador_unico ` set ms then ret None
     else
     ebind nuevo_id (\<lambda>i.
     if \<not> mov_valido dto
     then raise (BadRequestException ''Error al guardar movimiento bancario: BankMovement validation failed'' [])
     else
     let m = dto\<lparr>mb_id := i, transaccion_id := None\<rparr> in
     ebind (modify (con_movs (\<lambda>ms. ms @ [m]))) (\<lambda>_. ret (Some m))))"

record filtros_banco =
  fb_tipo :: "tipo_movimiento option"
  fb_conciliado :: "bool option"
  fb_desde :: "fecha option"
  fb_hasta :: "fecha option"
  fb_fiscal :: "string option"
  fb_unico :: "string option"
  fb_nombre :: "string option"
  fb_page :: nat
  fb_pageSize :: nat

definition coincide_con :: "(string \<Rightarrow> string \<Rightarrow> bool) \<Rightarrow> string option \<Rightarrow> string option \<Rightarrow> bool" where
  "coincide_con coincide patron x =
     (case patron of None \<Rightarrow> True
      | Some p \<Rightarrow> p = [] \<or> (case x of None \<Rightarrow> False | Some v \<Rightarrow> coincide p v))"

definition filtro_banco :: "(string \<Rightarrow> string \<Rightarrow> bool) \<Rightarrow> filtros_banco \<Rightarrow> mov_banco \<Rightarrow> bool" where
  "filtro_banco coincide f m \<longleftrightarrow>
     (case fb_tipo f of None \<Rightarrow> True | Some t \<Rightarrow> tipo_operacion m = t) \<and>
     (case fb_conciliado f of None \<Rightarrow> True | Some b \<Rightarrow> conciliado_sistema m = b) \<and>
     (case fb_desde f of None \<Rightarrow> True | Some d \<Rightarrow> d \<le> fecha_operacion m) \<and>
     (case fb_hasta f of None \<Rightarrow> True | Some h \<Rightarrow> fecha_operacion m \<le> h) \<and>
     coincide_con coincide (fb_fiscal f) (mb_identificador_fiscal m) \<and>
     coincide_con coincide (fb_unico f) (Some (identificador_unico m)) \<and>
     coincide_con coincide (fb_nombre f) (nombre_tercero m)"

text \<open>\<^verbatim>\<open>findAll\<close>: the page, how many match, and the number of pages.\<close>

definition bs_findAll ::
  "(string \<Rightarrow> string \<Rightarrow> bool) \<Rightarrow> (mov_banco list \<Rightarrow> mov_banco list) \<Rightarrow> filtros_banco \<Rightarrow>
   ('a bd_banco_scheme, mov_banco list \<times> nat \<times> int) proc" where
  "bs_findAll coincide orden f =
     gets (\<lambda>s. let ms = filter (filtro_banco coincide f) (movs_banco s)
        in (pagina (fb_page f) (fb_pageSize f) (orden ms), length ms, total_paginas (length ms) (fb_pageSize f)))"

definition bs_findOne :: "oid \<Rightarrow> ('a bd_banco_scheme, mov_banco) proc" where
  "bs_findOne i = obtener mb_id movs_banco i
     (NotFoundException ''Movimiento bancario con ID {} no encontrado'' [AId i])"

definition findByIdentificador :: "string \<Rightarrow> ('a bd_banco_scheme, mov_banco) proc" where
  "findByIdentificador u =
     ebind (gets movs_banco) (\<lambda>ms.
     case find (\<lambda>m. identificador_unico m = u) ms of
       None \<Rightarrow> raise (NotFoundException ''Movimiento con identificador {} no encontrado'' [AStr u])
     | Some m \<Rightarrow> ret m)"

definition markAsConciliado :: "oid \<Rightarrow> oid \<Rightarrow> ('a bd_banco_scheme, mov_banco) proc" where
  "markAsConciliado i t =
     ebind (bs_findOne i) (\<lambda>m.
     let m' = m\<lparr>conciliado_sistema := True, transaccion_id := Some t\<rparr> in
     ebind (modify (con_movs (save_doc mb_id m'))) (\<lambda>_. ret m'))"

record stats_banco =
  st_total :: nat
  st_conciliados :: nat
  st_pendientes :: nat
  porcentaje_conciliacion :: rat
  por_tipo :: "(tipo_movimiento \<times> nat \<times> monto) list"

definition grupo_tipo :: "mov_banco list \<Rightarrow> tipo_movimiento \<Rightarrow> (tipo_movimiento \<times> nat \<times> monto) list" where
  "grupo_tipo ms t = (let g = filter (\<lambda>m. tipo_operacion m = t) ms in
     if g = [] then [] else [(t, length g, \<Sum>m\<leftarrow>g. mb_monto m)])"

text \<open>\<^verbatim>\<open>getStats\<close>; the percentage is the one before \<^verbatim>\<open>toFixed(2)\<close>, and the groups are in a fixed order.\<close>

definition getStats :: "('a bd_banco_scheme, stats_banco) proc" where
  "getStats = gets (\<lambda>s.
     let ms = movs_banco s; tot = length ms; con = length (filter conciliado_sistema ms)
     in \<lparr>st_total = tot, st_conciliados = con, st_pendientes = length (filter (\<lambda>m. \<not> conciliado_sistema m) ms),
         porcentaje_conciliacion = (if tot > 0 then of_nat con / of_nat tot * 100 else 0),
         por_tipo = grupo_tipo ms INGRESO @ grupo_tipo ms EGRESO\<rparr>)"

section \<open>Candidates\<close>

record matching_context =
  fechaToleranceDays :: int
  maxCandidatesPerMovement :: nat

definition computeScore :: "bool \<Rightarrow> bool \<Rightarrow> bool \<Rightarrow> int" where
  "computeScore m f c = (if m then 50 else 0) + (if f then 30 else 0) + (if c then 20 else 0)"

definition filtro_de_mov :: "int \<Rightarrow> mov_banco \<Rightarrow> matching_context \<Rightarrow> filtro_no_conciliadas" where
  "filtro_de_mov tz m ctx =
     (let f = fecha_operacion m in
     \<lparr>fn_tipo = (if tipo_operacion m = INGRESO then INGRESO else EGRESO), fn_monto = mb_monto m,
      fn_desde = setDate tz f (getDate tz f - fechaToleranceDays ctx),
      fn_hasta = setDate tz f (getDate tz f + fechaToleranceDays ctx), fn_limit = Some 50\<rparr>)"

definition crear_candidato :: "oid \<Rightarrow> oid \<Rightarrow> ('a bd_banco_scheme, unit) proc" where
  "crear_candidato m t =
     ebind nuevo_id (\<lambda>i.
     modify (con_cands (\<lambda>cs. cs @ [\<lparr>ca_id = i, bank_movement_id = m, ca_transaction_id = t, ca_status = PENDING,
       score = computeScore True True False, match_reasons = [''MONTO'', ''FECHA''], ca_notes = None\<rparr>])))"

definition existe_candidato :: "oid \<Rightarrow> oid \<Rightarrow> candidato list \<Rightarrow> bool" where
  "existe_candidato m t cs = list_ex (\<lambda>c. bank_movement_id c = m \<and> ca_transaction_id c = t) cs"

text \<open>The body of the loop over the transactions; \<open>created\<close> is its counter, and the loop does nothing
  more once it reaches the maximum.\<close>

definition paso_candidato :: "nat \<Rightarrow> oid \<Rightarrow> transaccion_doc \<Rightarrow> nat \<Rightarrow> ('a bd_banco_scheme, nat) proc" where
  "paso_candidato maxc m tx created =
     (if created \<ge> maxc then ret created
      else
      ebind (gets candidatos) (\<lambda>cs.
      if existe_candidato m (tx_id tx) cs then ret created
      else ebind (crear_candidato m (tx_id tx)) (\<lambda>_. ret (created + 1))))"

definition generateForMovement :: "int \<Rightarrow> matching_context \<Rightarrow> mov_banco \<Rightarrow> ('a bd_banco_scheme, nat) proc" where
  "generateForMovement tz ctx m =
     ebind (findUnreconciledTransactions (filtro_de_mov tz m ctx)) (\<lambda>txs.
     fold_each (paso_candidato (maxCandidatesPerMovement ctx) (mb_id m)) txs 0)"

record generate_dto =
  gc_bankMovementId :: "oid option"
  gc_fechaToleranceDays :: "int option"
  gc_maxCandidates :: "nat option"

record generate_result =
  processedMovements :: nat
  totalCandidates :: nat
  perMovement :: "(oid \<times> nat) list"

definition generateCandidates :: "int \<Rightarrow> generate_dto \<Rightarrow> ('a bd_banco_scheme, generate_result) proc" where
  "generateCandidates tz dto =
     (let ctx = \<lparr>fechaToleranceDays = coalesce (gc_fechaToleranceDays dto) 1,
                 maxCandidatesPerMovement = coalesce (gc_maxCandidates dto) 5\<rparr> in
     ebind (gets movs_banco) (\<lambda>ms.
     let movements = take 200 (filter (\<lambda>m. \<not> conciliado_sistema m \<and>
           (case gc_bankMovementId dto of None \<Rightarrow> True | Some i \<Rightarrow> mb_id m = i)) ms) in
     ebind (for_each (\<lambda>m. ebind (generateForMovement tz ctx m) (\<lambda>n. ret (mb_id m, n))) movements) (\<lambda>ns.
     ret \<lparr>processedMovements = length movements, totalCandidates = (\<Sum>(i, n)\<leftarrow>ns. n), perMovement = ns\<rparr>)))"

definition listCandidates ::
  "(candidato list \<Rightarrow> candidato list) \<Rightarrow> candidate_status option \<Rightarrow> oid option \<Rightarrow> ('a bd_banco_scheme, candidato list) proc" where
  "listCandidates orden st m =
     gets (\<lambda>s. take 500 (orden (filter (\<lambda>c. (case st of None \<Rightarrow> True | Some x \<Rightarrow> ca_status c = x) \<and>
       (case m of None \<Rightarrow> True | Some i \<Rightarrow> bank_movement_id c = i)) (candidatos s))))"

section \<open>Decision\<close>

definition confirmConciliation :: "candidato \<Rightarrow> ('a bd_banco_scheme, unit) proc" where
  "confirmConciliation c =
     ebind (modify (con_movs (update_one (\<lambda>m. mb_id m = bank_movement_id c)
       (\<lambda>m. m\<lparr>conciliado_sistema := True, transaccion_id := Some (ca_transaction_id c)\<rparr>)))) (\<lambda>_.
     ebind (markAsReconciled (ca_transaction_id c)) (\<lambda>_.
     modify (con_cands (update_many (\<lambda>d. bank_movement_id d = bank_movement_id c \<and> ca_id d \<noteq> ca_id c \<and> ca_status d = PENDING)
       (\<lambda>d. d\<lparr>ca_status := REJECTED, ca_notes := Some ''Confirmado otro candidato''\<rparr>)))))"

definition updateCandidateStatus ::
  "oid \<Rightarrow> candidate_status \<Rightarrow> string option \<Rightarrow> ('a bd_banco_scheme, candidato) proc" where
  "updateCandidateStatus i st notas =
     ebind (obtener ca_id candidatos i (NotFoundException ''Candidato no encontrado'' [])) (\<lambda>c.
     if st = PENDING then raise (BadRequestException ''No se puede volver a PENDING'' [])
     else
     let c' = c\<lparr>ca_status := st, ca_notes := (case notas of None \<Rightarrow> ca_notes c | Some n \<Rightarrow> if n = [] then ca_notes c else Some n)\<rparr> in
     ebind (modify (con_cands (save_doc ca_id c'))) (\<lambda>_.
     ebind (if st = CONFIRMED then confirmConciliation c' else ret ()) (\<lambda>_.
     ret c')))"

end
