(* ===== verification/BankingProperties.thy ===== *)
theory BankingProperties
  imports Banking
begin

text \<open>
  The conciliation along any run: candidates join movements and transactions that match; and what a
  confirmation does not check.
\<close>

section \<open>The invariant\<close>

definition casa :: "'a bd_banco_scheme \<Rightarrow> candidato \<Rightarrow> bool" where
  "casa s c \<longleftrightarrow> (\<exists>m \<in> set (movs_banco s). \<exists>t \<in> set (transacciones s).
     mb_id m = bank_movement_id c \<and> tx_id t = ca_transaction_id c \<and>
     tipo_operacion m = tx_tipo t \<and> mb_monto m = tx_monto t \<and>
     (ca_status c = CONFIRMED \<longrightarrow> conciliado_sistema m \<and> conciliado t))"

definition par :: "candidato \<Rightarrow> oid \<times> oid" where
  "par c = (bank_movement_id c, ca_transaction_id c)"

definition ids_ok :: "('d \<Rightarrow> oid) \<Rightarrow> oid \<Rightarrow> 'd list \<Rightarrow> bool" where
  "ids_ok k n ds \<longleftrightarrow> distinct (map k ds) \<and> (\<forall>d \<in> set ds. k d < n)"

definition conc_inv :: "'a bd_banco_scheme \<Rightarrow> bool" where
  "conc_inv s \<longleftrightarrow> ids_ok mb_id (prox_id s) (movs_banco s) \<and> ids_ok tx_id (prox_id s) (transacciones s) \<and>
     ids_ok ca_id (prox_id s) (candidatos s) \<and> distinct (map par (candidatos s)) \<and>
     list_all (casa s) (candidatos s) \<and> list_all (\<lambda>c. score c = 80) (candidatos s)"

inductive conc_paso :: "bd_banco \<Rightarrow> bd_banco \<Rightarrow> bool" where
  movimiento: "bs_create dto s = (r, s') \<Longrightarrow> conc_paso s s'"
| transaccion: "tx_create d u s = (r', s') \<Longrightarrow> conc_paso s s'"
| generar: "generateCandidates tz g s = (r'', s') \<Longrightarrow> conc_paso s s'"
| decidir: "updateCandidateStatus i st n s = (r3, s') \<Longrightarrow> conc_paso s s'"
| reloj: "conc_paso s (s\<lparr>ahora := t\<rparr>)"

lemma ids_ok_snoc: "ids_ok k n ds \<Longrightarrow> k d = n \<Longrightarrow> ids_ok k (Suc n) (ds @ [d])"
  by (auto simp: ids_ok_def)

lemma ids_ok_mono: "ids_ok k n ds \<Longrightarrow> n \<le> n' \<Longrightarrow> ids_ok k n' ds"
  by (auto simp: ids_ok_def)

lemma ids_ok_map: "(\<And>d. k (f d) = k d) \<Longrightarrow> ids_ok k n (map f ds) = ids_ok k n ds"
  by (simp add: ids_ok_def comp_def)

lemma save_doc_map:
  assumes "distinct (map k ds)" "find_id k i ds = Some d" "k (f d) = i"
  shows "save_doc k (f d) ds = map (\<lambda>x. if k x = i then f x else x) ds"
proof -
  have "d \<in> set ds" "k d = i" using find_id_in [OF assms(2)] find_id_key [OF assms(2)] by auto
  then have "x = d" if "x \<in> set ds" "k x = i" for x
    using assms(1) that by (auto simp: distinct_map dest: inj_onD)
  with assms(3) show ?thesis by (auto simp: save_doc_def)
qed

lemma update_one_ids:
  "distinct (map k ds) \<Longrightarrow> update_one (\<lambda>d. k d = i) f ds = map (\<lambda>d. if k d = i then f d else d) ds"
proof (induction ds)
  case (Cons d ds)
  have "k d = i \<Longrightarrow> map (\<lambda>x. if k x = i then f x else x) ds = ds"
    using Cons.prems by (intro map_idI) (force simp: image_iff)
  with Cons show ?case by auto
qed simp

section \<open>Adding documents\<close>

text \<open>Movements and transactions only grow, and keep what a candidate compares.\<close>

definition crece :: "'a bd_banco_scheme \<Rightarrow> 'a bd_banco_scheme \<Rightarrow> bool" where
  "crece s s' \<longleftrightarrow>
     (\<forall>m \<in> set (movs_banco s). \<exists>m' \<in> set (movs_banco s'). mb_id m' = mb_id m \<and>
        tipo_operacion m' = tipo_operacion m \<and> mb_monto m' = mb_monto m \<and>
        (conciliado_sistema m \<longrightarrow> conciliado_sistema m')) \<and>
     (\<forall>t \<in> set (transacciones s). \<exists>t' \<in> set (transacciones s'). tx_id t' = tx_id t \<and>
        tx_tipo t' = tx_tipo t \<and> tx_monto t' = tx_monto t \<and> (conciliado t \<longrightarrow> conciliado t'))"

lemma crece_casa:
  assumes "crece s s'" "casa s c"
  shows "casa s' c"
proof -
  from assms(2) obtain m t where m: "m \<in> set (movs_banco s)" "mb_id m = bank_movement_id c"
    and t: "t \<in> set (transacciones s)" "tx_id t = ca_transaction_id c"
    and e: "tipo_operacion m = tx_tipo t" "mb_monto m = tx_monto t"
      "ca_status c = CONFIRMED \<longrightarrow> conciliado_sistema m \<and> conciliado t"
    unfolding casa_def by blast
  from assms(1) m(1) obtain m' where "m' \<in> set (movs_banco s')" "mb_id m' = mb_id m"
    "tipo_operacion m' = tipo_operacion m" "mb_monto m' = mb_monto m" "conciliado_sistema m \<longrightarrow> conciliado_sistema m'"
    unfolding crece_def by blast
  moreover from assms(1) t(1) obtain t' where "t' \<in> set (transacciones s')" "tx_id t' = tx_id t"
    "tx_tipo t' = tx_tipo t" "tx_monto t' = tx_monto t" "conciliado t \<longrightarrow> conciliado t'"
    unfolding crece_def by blast
  ultimately show ?thesis using m(2) t(2) e unfolding casa_def by (intro bexI [of _ m'] bexI [of _ t']) auto
qed

lemma crece_map:
  assumes "movs_banco s' = map f (movs_banco s)" "transacciones s' = map g (transacciones s)"
    and "\<And>m. mb_id (f m) = mb_id m" "\<And>m. tipo_operacion (f m) = tipo_operacion m" "\<And>m. mb_monto (f m) = mb_monto m"
    and "\<And>m. conciliado_sistema m \<Longrightarrow> conciliado_sistema (f m)"
    and "\<And>t. tx_id (g t) = tx_id t" "\<And>t. tx_tipo (g t) = tx_tipo t" "\<And>t. tx_monto (g t) = tx_monto t"
    and "\<And>t. conciliado t \<Longrightarrow> conciliado (g t)"
  shows "crece s s'"
  unfolding crece_def assms(1,2) set_map bex_simps using assms(3-) by blast

lemma crece_todos: "crece s s' \<Longrightarrow> list_all (casa s) cs \<Longrightarrow> list_all (casa s') cs"
  by (auto simp: list_all_iff intro: crece_casa)

lemma casa_igual: "movs_banco s' = movs_banco s \<Longrightarrow> transacciones s' = transacciones s \<Longrightarrow> casa s' c = casa s c"
  by (simp add: casa_def)

lemma conc_invI:
  assumes "ids_ok mb_id (prox_id s) (movs_banco s)" "ids_ok tx_id (prox_id s) (transacciones s)"
    "ids_ok ca_id (prox_id s) (candidatos s)" "distinct (map par (candidatos s))"
    "list_all (casa s) (candidatos s)" "list_all (\<lambda>c. score c = 80) (candidatos s)"
  shows "conc_inv s"
  using assms by (simp add: conc_inv_def)

lemma conc_invD:
  assumes "conc_inv s"
  shows "ids_ok mb_id (prox_id s) (movs_banco s)" "ids_ok tx_id (prox_id s) (transacciones s)"
    "ids_ok ca_id (prox_id s) (candidatos s)" "distinct (map par (candidatos s))"
    "list_all (casa s) (candidatos s)" "list_all (\<lambda>c. score c = 80) (candidatos s)"
  using assms by (simp_all add: conc_inv_def)

text \<open>The steps that leave the candidates alone.\<close>

lemma conc_inv_crece:
  assumes inv: "conc_inv s" and c: "crece s s'" "candidatos s' = candidatos s" "prox_id s \<le> prox_id s'"
    and i: "ids_ok mb_id (prox_id s') (movs_banco s')" "ids_ok tx_id (prox_id s') (transacciones s')"
  shows "conc_inv s'"
  by (rule conc_invI) (use conc_invD [OF inv] c i crece_todos [OF c(1)] in \<open>auto intro: ids_ok_mono\<close>)

lemma conc_inv_movimiento:
  assumes inv: "conc_inv s" and run: "bs_create dto s = (r, s')"
  shows "conc_inv s'"
proof -
  let ?m = "dto\<lparr>mb_id := prox_id s, transaccion_id := None\<rparr>"
  consider "s' = s" | "s' = s\<lparr>prox_id := Suc (prox_id s)\<rparr>"
    | "s' = con_movs (\<lambda>ms. ms @ [?m]) (s\<lparr>prox_id := Suc (prox_id s)\<rparr>)"
    using run by (auto simp: bs_create_def ret_def raise_def Let_def split: if_splits)
  then show ?thesis
  proof cases
    case 1
    with inv show ?thesis by simp
  next
    case 2
    show ?thesis
      by (rule conc_inv_crece [OF inv])
         (use conc_invD(1,2) [OF inv] in \<open>auto simp: 2 crece_def intro: ids_ok_mono\<close>)
  next
    case 3
    show ?thesis
      by (rule conc_inv_crece [OF inv])
         (use conc_invD(1,2) [OF inv] in \<open>auto simp: 3 con_movs_def crece_def ids_ok_snoc intro: ids_ok_mono\<close>)
  qed
qed

lemma conc_inv_transaccion:
  assumes inv: "conc_inv s" and run: "tx_create d u s = (r, s')"
  shows "conc_inv s'"
proof -
  obtain t where s': "s' = con_tx (\<lambda>ts. ts @ [t]) (s\<lparr>prox_id := Suc (prox_id s)\<rparr>)" and t: "tx_id t = prox_id s"
    using run by (auto simp: tx_create_def ret_def Let_def)
  show ?thesis
    by (rule conc_inv_crece [OF inv])
       (use conc_invD(1,2) [OF inv] t in \<open>auto simp: s' con_tx_def crece_def ids_ok_snoc intro: ids_ok_mono\<close>)
qed

section \<open>Generation\<close>

lemma conc_inv_crear:
  assumes inv: "conc_inv s" and m: "m \<in> set (movs_banco s)" and t: "t \<in> set (transacciones s)"
    and e: "tipo_operacion m = tx_tipo t" "mb_monto m = tx_monto t"
    and n: "\<not> existe_candidato (mb_id m) (tx_id t) (candidatos s)"
    and run: "crear_candidato (mb_id m) (tx_id t) s = (r, s')"
  shows "conc_inv s' \<and> movs_banco s' = movs_banco s \<and> transacciones s' = transacciones s"
proof -
  define c where "c = \<lparr>ca_id = prox_id s, bank_movement_id = mb_id m, ca_transaction_id = tx_id t, ca_status = PENDING,
       score = computeScore True True False, match_reasons = [''MONTO'', ''FECHA''], ca_notes = None\<rparr>"
  have s': "s' = con_cands (\<lambda>cs. cs @ [c]) (s\<lparr>prox_id := Suc (prox_id s)\<rparr>)"
    using run by (simp add: crear_candidato_def modify_def c_def)
  have f: "movs_banco s' = movs_banco s" "transacciones s' = transacciones s" "candidatos s' = candidatos s @ [c]"
    "prox_id s' = Suc (prox_id s)" by (simp_all add: s' con_cands_def)
  have c: "casa s c" "score c = 80" "ca_id c = prox_id s"
    using m t e by (auto simp: casa_def c_def computeScore_def)
  have p: "par c \<notin> par ` set (candidatos s)"
    using n by (auto simp: existe_candidato_def list_ex_iff par_def c_def)
  have "conc_inv s'"
    by (rule conc_invI)
       (use conc_invD [OF inv] c p in \<open>auto simp: f ids_ok_snoc casa_igual [OF f(1,2)] list_all_iff intro: ids_ok_mono\<close>)
  with f show ?thesis by simp
qed

lemma conc_inv_paso:
  assumes inv: "conc_inv s" and m: "m \<in> set (movs_banco s)" and t: "t \<in> set (transacciones s)"
    and e: "tipo_operacion m = tx_tipo t" "mb_monto m = tx_monto t"
    and run: "paso_candidato k (mb_id m) t n s = (r, s')"
  shows "conc_inv s' \<and> movs_banco s' = movs_banco s \<and> transacciones s' = transacciones s"
proof (cases "k \<le> n \<or> existe_candidato (mb_id m) (tx_id t) (candidatos s)")
  case True
  with run inv show ?thesis by (auto simp: paso_candidato_def ret_def gets_def ebind_def split: if_split_asm)
next
  case False
  moreover obtain r1 s1 where c: "crear_candidato (mb_id m) (tx_id t) s = (r1, s1)" by fastforce
  ultimately have "s' = s1" using run by (auto simp: paso_candidato_def ebind_def gets_def ret_def split: sum.splits)
  with conc_inv_crear [OF inv m t e _ c] False show ?thesis by simp
qed

lemma conc_inv_fold:
  assumes "conc_inv s" "m \<in> set (movs_banco s)"
    and "\<forall>t \<in> set ts. t \<in> set (transacciones s) \<and> tipo_operacion m = tx_tipo t \<and> mb_monto m = tx_monto t"
    and "fold_each (paso_candidato k (mb_id m)) ts n s = (r, s')"
  shows "conc_inv s' \<and> movs_banco s' = movs_banco s \<and> transacciones s' = transacciones s"
  using assms
proof (induction ts arbitrary: n s)
  case (Cons t ts)
  obtain r1 s1 where p: "paso_candidato k (mb_id m) t n s = (r1, s1)" by fastforce
  have 1: "conc_inv s1 \<and> movs_banco s1 = movs_banco s \<and> transacciones s1 = transacciones s"
    using conc_inv_paso [OF Cons.prems(1,2) _ _ _ p] Cons.prems(3) by simp
  show ?case
  proof (cases r1)
    case (Inl x)
    with Cons.prems(4) p 1 show ?thesis by (simp add: ebind_def)
  next
    case (Inr n')
    with Cons.prems(4) p have "fold_each (paso_candidato k (mb_id m)) ts n' s1 = (r, s')" by (simp add: ebind_def)
    from Cons.IH [OF _ _ _ this] 1 Cons.prems(2,3) show ?thesis by simp
  qed
qed (simp add: ret_def)

lemma conc_inv_generateForMovement:
  assumes inv: "conc_inv s" and m: "m \<in> set (movs_banco s)" and run: "generateForMovement tz ctx m s = (r, s')"
  shows "conc_inv s' \<and> movs_banco s' = movs_banco s \<and> transacciones s' = transacciones s"
proof -
  let ?q = "filtro_de_mov tz m ctx"
  let ?ts = "take (limite_o (fn_limit ?q) 50) (filter (no_conciliada ?q) (transacciones s))"
  have "\<forall>t \<in> set ?ts. t \<in> set (transacciones s) \<and> tipo_operacion m = tx_tipo t \<and> mb_monto m = tx_monto t"
    by (auto dest!: in_set_takeD simp: no_conciliada_def filtro_de_mov_def Let_def split: if_splits)
      (metis tipo_movimiento.exhaust)
  moreover from run have "fold_each (paso_candidato (maxCandidatesPerMovement ctx) (mb_id m)) ?ts 0 s = (r, s')"
    by (simp add: generateForMovement_def findUnreconciledTransactions_def)
  ultimately show ?thesis using conc_inv_fold [OF inv m] by blast
qed

lemma ebind_ret_estado: "ebind m (\<lambda>x. ret (g x)) s = (r, s') \<Longrightarrow> s' = snd (m s)"
  by (auto simp: ebind_def ret_def split: prod.splits sum.splits)

lemma conc_inv_bucle:
  assumes "conc_inv s" "set ms \<subseteq> set (movs_banco s)"
    and "for_each (\<lambda>m. ebind (generateForMovement tz ctx m) (\<lambda>n. ret (f m n))) ms s = (r, s')"
  shows "conc_inv s'"
  using assms
proof (induction ms arbitrary: s r)
  case (Cons m ms)
  obtain r1 s1 where g: "generateForMovement tz ctx m s = (r1, s1)" by fastforce
  have 1: "conc_inv s1" "movs_banco s1 = movs_banco s"
    using conc_inv_generateForMovement [OF Cons.prems(1) _ g] Cons.prems(2) by simp_all
  show ?case
  proof (cases r1)
    case (Inl x)
    with Cons.prems(3) g 1 show ?thesis by (simp add: ebind_def)
  next
    case (Inr n)
    let ?B = "\<lambda>m. ebind (generateForMovement tz ctx m) (\<lambda>n. ret (f m n))"
    have "?B m s = (Inr (f m n), s1)" using Inr g by (simp add: ebind_def ret_def)
    from Cons.prems(3) [unfolded for_each.simps ebind_step [of "?B m", OF this]]
    have "s' = snd (for_each ?B ms s1)" by (rule ebind_ret_estado)
    moreover obtain r2 s2 where "for_each ?B ms s1 = (r2, s2)" by fastforce
    ultimately show ?thesis using Cons.IH [of s1 r2] 1 Cons.prems(2) by simp
  qed
qed (simp add: ret_def)

lemma conc_inv_generar:
  assumes inv: "conc_inv s" and run: "generateCandidates tz g s = (r, s')"
  shows "conc_inv s'"
proof -
  let ?ctx = "\<lparr>fechaToleranceDays = coalesce (gc_fechaToleranceDays g) 1,
                 maxCandidatesPerMovement = coalesce (gc_maxCandidates g) 5\<rparr>"
  let ?ms = "take 200 (filter (\<lambda>m. \<not> conciliado_sistema m \<and>
           (case gc_bankMovementId g of None \<Rightarrow> True | Some i \<Rightarrow> mb_id m = i)) (movs_banco s))"
  obtain r1 s1 where f: "for_each (\<lambda>m. ebind (generateForMovement tz ?ctx m) (\<lambda>n. ret (mb_id m, n))) ?ms s = (r1, s1)"
    by fastforce
  have "s' = snd (for_each (\<lambda>m. ebind (generateForMovement tz ?ctx m) (\<lambda>n. ret (mb_id m, n))) ?ms s)"
    using run unfolding generateCandidates_def Let_def ebind_gets by (rule ebind_ret_estado)
  then have "s1 = s'" using f by simp
  moreover have "set ?ms \<subseteq> set (movs_banco s)" by (auto dest: in_set_takeD)
  ultimately show ?thesis using conc_inv_bucle [OF inv _ f] by simp
qed

section \<open>Decision\<close>

definition conciliar_mov :: "candidato \<Rightarrow> mov_banco \<Rightarrow> mov_banco" where
  "conciliar_mov c m = (if mb_id m = bank_movement_id c
     then m\<lparr>conciliado_sistema := True, transaccion_id := Some (ca_transaction_id c)\<rparr> else m)"

definition conciliar_tx :: "candidato \<Rightarrow> fecha \<Rightarrow> transaccion_doc \<Rightarrow> transaccion_doc" where
  "conciliar_tx c hoy t = (if tx_id t = ca_transaction_id c
     then t\<lparr>conciliado := True, fecha_conciliacion := Some hoy\<rparr> else t)"

text \<open>The candidates after the decision \<open>st\<close> on \<open>c\<close>.\<close>

definition decidir_cand :: "candidato \<Rightarrow> candidate_status \<Rightarrow> string option \<Rightarrow> candidato \<Rightarrow> candidato" where
  "decidir_cand c st nt d = (if ca_id d = ca_id c then d\<lparr>ca_status := st, ca_notes := nt\<rparr>
     else if st = CONFIRMED \<and> bank_movement_id d = bank_movement_id c \<and> ca_status d = PENDING
     then d\<lparr>ca_status := REJECTED, ca_notes := Some ''Confirmado otro candidato''\<rparr> else d)"

lemma decidir_campos [simp]:
  "ca_id (decidir_cand c st nt d) = ca_id d" "par (decidir_cand c st nt d) = par d"
  "score (decidir_cand c st nt d) = score d" "bank_movement_id (decidir_cand c st nt d) = bank_movement_id d"
  "ca_transaction_id (decidir_cand c st nt d) = ca_transaction_id d"
  by (simp_all add: decidir_cand_def par_def)

lemma conciliar_campos [simp]:
  "mb_id (conciliar_mov c m) = mb_id m" "tipo_operacion (conciliar_mov c m) = tipo_operacion m"
  "mb_monto (conciliar_mov c m) = mb_monto m" "tx_id (conciliar_tx c h t) = tx_id t"
  "tx_tipo (conciliar_tx c h t) = tx_tipo t" "tx_monto (conciliar_tx c h t) = tx_monto t"
  by (simp_all add: conciliar_mov_def conciliar_tx_def)

lemma updateCandidateStatus_run:
  assumes inv: "conc_inv s" and c: "find_id ca_id i (candidatos s) = Some c" and st: "st \<noteq> PENDING"
  obtains nt s' where "updateCandidateStatus i st n s = (Inr (c\<lparr>ca_status := st, ca_notes := nt\<rparr>), s')"
    and "candidatos s' = map (decidir_cand c st nt) (candidatos s)"
    and "movs_banco s' = (if st = CONFIRMED then map (conciliar_mov c) (movs_banco s) else movs_banco s)"
    and "transacciones s' = (if st = CONFIRMED then map (conciliar_tx c (ahora s)) (transacciones s) else transacciones s)"
    and "prox_id s' = prox_id s" and "ahora s' = ahora s"
proof -
  define nt where "nt = (case n of None \<Rightarrow> ca_notes c | Some n \<Rightarrow> if n = [] then ca_notes c else Some n)"
  let ?c = "c\<lparr>ca_status := st, ca_notes := nt\<rparr>"
  note i = find_id_key [OF c] and d = conc_invD(1-3) [OF inv, unfolded ids_ok_def]
  have sv: "save_doc ca_id ?c (candidatos s) =
      map (\<lambda>x. if ca_id x = i then x\<lparr>ca_status := st, ca_notes := nt\<rparr> else x) (candidatos s)"
    by (rule save_doc_map [OF _ c]) (use d i in auto)
  have cs: "casa s c" using conc_invD(5) [OF inv] find_id_in [OF c] by (simp add: list_all_iff)
  then obtain t where t: "find_id tx_id (ca_transaction_id c) (transacciones s) = Some t"
    using d(2) by (auto simp: casa_def find_id_Some_iff)
  have tx: "save_doc tx_id (t\<lparr>conciliado := True, fecha_conciliacion := Some (ahora s)\<rparr>) (transacciones s) =
      map (conciliar_tx c (ahora s)) (transacciones s)"
    unfolding conciliar_tx_def [abs_def]
    by (rule save_doc_map [OF _ t]) (use d find_id_key [OF t] in auto)
  have mv: "update_one (\<lambda>m. mb_id m = bank_movement_id c)
       (\<lambda>m. m\<lparr>conciliado_sistema := True, transaccion_id := Some (ca_transaction_id c)\<rparr>) (movs_banco s) =
      map (conciliar_mov c) (movs_banco s)"
    unfolding conciliar_mov_def [abs_def] using d by (intro update_one_ids) simp
  let ?s1 = "con_cands (save_doc ca_id ?c) s"
  show thesis
  proof (cases "st = CONFIRMED")
    case True
    let ?s2 = "con_movs (map (conciliar_mov c)) (con_tx (map (conciliar_tx c (ahora s))) ?s1)"
    let ?s' = "con_cands (update_many (\<lambda>d. bank_movement_id d = bank_movement_id c \<and> ca_id d \<noteq> ca_id c \<and> ca_status d = PENDING)
       (\<lambda>d. d\<lparr>ca_status := REJECTED, ca_notes := Some ''Confirmado otro candidato''\<rparr>)) ?s2"
    have "confirmConciliation ?c ?s1 = (Inr (), ?s')"
      by (simp add: confirmConciliation_def markAsReconciled_def ebind_def modify_def obtener_def gets_def ret_def t
          Let_def con_cands_def con_movs_def con_tx_def mv tx)
    then have "updateCandidateStatus i st n s = (Inr ?c, ?s')"
      using True by (simp add: updateCandidateStatus_def ebind_def obtener_def c modify_def ret_def Let_def nt_def)
    then show thesis
      by (rule that) (simp_all add: True con_cands_def con_movs_def con_tx_def sv [unfolded True] update_many_def i decidir_cand_def comp_def)
  next
    case False
    with st have "updateCandidateStatus i st n s = (Inr ?c, ?s1)"
      by (simp add: updateCandidateStatus_def ebind_def obtener_def c modify_def ret_def Let_def nt_def)
    then show thesis
      by (rule that) (simp_all add: False con_cands_def sv i decidir_cand_def)
  qed
qed

lemma casa_estado:
  "casa s e \<Longrightarrow> ca_status d = CONFIRMED \<longrightarrow> ca_status e = CONFIRMED \<Longrightarrow>
   bank_movement_id d = bank_movement_id e \<Longrightarrow> ca_transaction_id d = ca_transaction_id e \<Longrightarrow> casa s d"
  by (auto simp: casa_def)

lemma conc_inv_decidir:
  assumes inv: "conc_inv s" and run: "updateCandidateStatus i st n s = (r, s')"
  shows "conc_inv s'"
proof (cases "st = PENDING \<or> find_id ca_id i (candidatos s) = None")
  case True
  then have "s' = s" using run by (auto simp: updateCandidateStatus_def ebind_def obtener_def raise_def split: option.splits)
  with inv show ?thesis by simp
next
  case False
  then obtain c where c: "find_id ca_id i (candidatos s) = Some c" and st: "st \<noteq> PENDING" by auto
  obtain nt where f: "candidatos s' = map (decidir_cand c st nt) (candidatos s)"
    "movs_banco s' = (if st = CONFIRMED then map (conciliar_mov c) (movs_banco s) else movs_banco s)"
    "transacciones s' = (if st = CONFIRMED then map (conciliar_tx c (ahora s)) (transacciones s) else transacciones s)"
    "prox_id s' = prox_id s"
    using run by (rule_tac updateCandidateStatus_run [OF inv c st, of n]) auto
  note k = find_id_in [OF c] and d = conc_invD [OF inv]
  have "crece s s'" if "st = CONFIRMED"
    by (rule crece_map [of s' "conciliar_mov c" s "conciliar_tx c (ahora s)"])
       (use that in \<open>simp_all add: f(2,3) conciliar_mov_def conciliar_tx_def\<close>)
  then have g: "crece s s'" by (cases "st = CONFIRMED") (auto simp: crece_def f(2,3))
  have "casa s' (decidir_cand c st nt e)" if e: "e \<in> set (candidatos s)" for e
  proof -
    have u: "e = c" if "ca_id e = ca_id c" using d(3) e k that by (auto simp: ids_ok_def distinct_map dest: inj_onD)
    have "casa s e" using d(5) e by (simp add: list_all_iff)
    with g have "casa s' e" by (rule crece_casa)
    show ?thesis
    proof (cases "e = c \<and> st = CONFIRMED")
      case True
      from \<open>casa s e\<close> obtain m t where "m \<in> set (movs_banco s)" "t \<in> set (transacciones s)"
        "mb_id m = bank_movement_id c" "tx_id t = ca_transaction_id c"
        "tipo_operacion m = tx_tipo t" "mb_monto m = tx_monto t" using True unfolding casa_def by blast
      with True show ?thesis unfolding casa_def f(2,3)
        by (intro bexI [of _ "conciliar_mov c m"] bexI [of _ "conciliar_tx c (ahora s) t"])
           (simp_all add: conciliar_mov_def conciliar_tx_def)
    next
      case False
      with u have "ca_status (decidir_cand c st nt e) = CONFIRMED \<longrightarrow> ca_status e = CONFIRMED"
        by (auto simp: decidir_cand_def)
      with \<open>casa s' e\<close> show ?thesis by (rule casa_estado) simp_all
    qed
  qed
  then have 5: "list_all (casa s') (candidatos s')" by (simp add: f(1) list_all_iff)
  have "ids_ok mb_id (prox_id s') (movs_banco s')" "ids_ok tx_id (prox_id s') (transacciones s')"
    "ids_ok ca_id (prox_id s') (candidatos s')"
    using d(1-3) by (cases "st = CONFIRMED"; simp add: f ids_ok_map)+
  moreover have "distinct (map par (candidatos s'))" using d(4) by (simp add: f(1) comp_def)
  moreover have "list_all (\<lambda>c. score c = 80) (candidatos s')" using d(6) by (simp add: f(1) list_all_iff)
  ultimately show ?thesis using 5 by (intro conc_invI)
qed

section \<open>Runs\<close>

lemma conc_inv_un_paso: "conc_paso s s' \<Longrightarrow> conc_inv s \<Longrightarrow> conc_inv s'"
proof (induction rule: conc_paso.induct)
  case (reloj s t)
  have "casa (s\<lparr>ahora := t\<rparr>) = casa s" by (rule ext) (simp add: casa_def)
  with reloj show ?case by (simp add: conc_inv_def)
qed (auto intro: conc_inv_movimiento conc_inv_transaccion conc_inv_generar conc_inv_decidir)

text \<open>C18: Along any run of requests on the bank movements, the candidates and the transactions, a candidate
  joins a movement and a transaction that exist, of the same kind and exactly the same amount; no
  pair has two candidates; every score is 80; and both sides of a confirmed candidate are marked
  as reconciled.\<close>

theorem conciliation_invariant:
  assumes run: "conc_paso\<^sup>*\<^sup>* s s'" and inv: "conc_inv s"
  shows "distinct (map par (candidatos s')) \<and>
     (\<forall>c \<in> set (candidatos s'). score c = 80 \<and> (\<exists>m \<in> set (movs_banco s'). \<exists>t \<in> set (transacciones s').
        mb_id m = bank_movement_id c \<and> tx_id t = ca_transaction_id c \<and>
        tipo_operacion m = tx_tipo t \<and> mb_monto m = tx_monto t \<and>
        (ca_status c = CONFIRMED \<longrightarrow> conciliado_sistema m \<and> conciliado t)))"
proof -
  have "conc_inv s'" using run inv by induction (auto intro: conc_inv_un_paso)
  then show ?thesis by (simp add: conc_inv_def list_all_iff casa_def)
qed

definition mov0 :: "oid \<Rightarrow> string \<Rightarrow> mov_banco" where
  "mov0 i u = \<lparr>mb_id = i, identificador_unico = u, tipo_operacion = INGRESO, mb_monto = 500, fecha_operacion = 0,
     cuenta_origen_cbu = None, cuenta_destino_cbu = None, mb_identificador_fiscal = None, nombre_tercero = None,
     concepto_transaccion = None, email_id = ''m'', conciliado_sistema = False, transaccion_id = None,
     mb_observaciones = None, email_asunto = None, email_fecha = None\<rparr>"

definition tx0 :: transaccion_doc where
  "tx0 = \<lparr>tx_id = 3, referencia_asiento = None, tx_cuenta_financiera_id = 7, fecha_transaccion = 0, tx_monto = 500,
     tx_tipo = INGRESO, tx_descripcion = None, tx_receipt_id = None, conciliado = False, fecha_conciliacion = None,
     referencia_bancaria = None, tx_usuario_creacion_id = None, tx_usuario_modificacion_id = None\<rparr>"

definition cand0 :: "oid \<Rightarrow> oid \<Rightarrow> candidato" where
  "cand0 i m = \<lparr>ca_id = i, bank_movement_id = m, ca_transaction_id = 3, ca_status = PENDING, score = 80,
     match_reasons = [''MONTO'', ''FECHA''], ca_notes = None\<rparr>"

text \<open>Two movements of the same amount on the same day, and one transaction.\<close>

definition bd_banco0 :: bd_banco where
  "bd_banco0 = \<lparr>ahora = 9, prox_id = 20, sistema = [], secuencias = [], plan_cuentas = [], transacciones = [tx0],
     movs_banco = [mov0 1 ''A1'', mov0 2 ''A2''], candidatos = [cand0 10 1, cand0 11 2]\<rparr>"

lemma conc_inv_ejemplo: "conc_inv bd_banco0"
  by (simp add: conc_inv_def bd_banco0_def mov0_def tx0_def cand0_def ids_ok_def par_def casa_def)

theorem conciliation_invariant_witness:
  "distinct (map par (candidatos (final (updateCandidateStatus 10 CONFIRMED None) bd_banco0)))"
proof -
  have "conc_paso bd_banco0 (final (updateCandidateStatus 10 CONFIRMED None) bd_banco0)"
    by (rule decidir [of 10 CONFIRMED None _ "fst (updateCandidateStatus 10 CONFIRMED None bd_banco0)"])
       (simp add: final_def)
  from conciliation_invariant [OF r_into_rtranclp [of conc_paso, OF this] conc_inv_ejemplo] show ?thesis by blast
qed

text \<open>C19: A confirmation does not look at the state of the movement, of the transaction or of the
  candidates of other movements: two candidates of different movements for one transaction can
  both be confirmed, and then two bank movements are reconciled with the same transaction.\<close>

theorem conciliation_double:
  assumes inv: "conc_inv s"
    and c1: "find_id ca_id i (candidatos s) = Some c1" and c2: "find_id ca_id j (candidatos s) = Some c2"
    and t: "ca_transaction_id c1 = ca_transaction_id c2" and m: "bank_movement_id c1 \<noteq> bank_movement_id c2"
  shows "\<exists>d1 s1 d2 s2. updateCandidateStatus i CONFIRMED None s = (Inr d1, s1) \<and>
     updateCandidateStatus j CONFIRMED None s1 = (Inr d2, s2) \<and>
     (\<exists>m1 \<in> set (movs_banco s2). \<exists>m2 \<in> set (movs_banco s2). m1 \<noteq> m2 \<and>
        conciliado_sistema m1 \<and> conciliado_sistema m2 \<and>
        transaccion_id m1 = Some (ca_transaction_id c1) \<and> transaccion_id m2 = Some (ca_transaction_id c1))"
proof -
  obtain nt s1 where r1: "updateCandidateStatus i CONFIRMED None s = (Inr (c1\<lparr>ca_status := CONFIRMED, ca_notes := nt\<rparr>), s1)"
    and f1: "candidatos s1 = map (decidir_cand c1 CONFIRMED nt) (candidatos s)"
      "movs_banco s1 = map (conciliar_mov c1) (movs_banco s)"
    by (rule updateCandidateStatus_run [OF inv c1, of CONFIRMED None]) auto
  note inv1 = conc_inv_decidir [OF inv r1]
  have "find_id ca_id j (candidatos s1) = Some (decidir_cand c1 CONFIRMED nt c2)"
    unfolding f1 using c2 by (simp add: find_id_map)
  from updateCandidateStatus_run [OF inv1 this, of CONFIRMED None] obtain d2 s2
    where r2: "updateCandidateStatus j CONFIRMED None s1 = (Inr d2, s2)"
      and f2: "movs_banco s2 = map (conciliar_mov (decidir_cand c1 CONFIRMED nt c2)) (movs_banco s1)"
    by (metis candidate_status.distinct(1))
  have "casa s c1" "casa s c2"
    using conc_invD(5) [OF inv] find_id_in [OF c1] find_id_in [OF c2] by (auto simp: list_all_iff)
  then obtain m1 m2 where m12: "m1 \<in> set (movs_banco s)" "mb_id m1 = bank_movement_id c1"
    "m2 \<in> set (movs_banco s)" "mb_id m2 = bank_movement_id c2"
    by (auto simp: casa_def)
  let ?f = "\<lambda>x. conciliar_mov (decidir_cand c1 CONFIRMED nt c2) (conciliar_mov c1 x)"
  have "?f m1 \<in> set (movs_banco s2)" "?f m2 \<in> set (movs_banco s2)" using m12 by (auto simp: f1 f2)
  moreover have "?f m1 \<noteq> ?f m2" using m m12 by (metis conciliar_campos(1))
  ultimately show ?thesis using r1 r2 m12 m t
    by (intro exI conjI bexI [of _ "?f m1"] bexI [of _ "?f m2"]) (auto simp: conciliar_mov_def)
qed

theorem conciliation_double_witness:
  "exito (updateCandidateStatus 11 CONFIRMED None) (final (updateCandidateStatus 10 CONFIRMED None) bd_banco0)"
proof -
  have "find_id ca_id 10 (candidatos bd_banco0) = Some (cand0 10 1)" "find_id ca_id 11 (candidatos bd_banco0) = Some (cand0 11 2)"
    by (simp_all add: bd_banco0_def cand0_def col_simps)
  from conciliation_double [OF conc_inv_ejemplo this] show ?thesis
    by (auto simp: cand0_def exito_def final_def)
qed

end
