(* ===== verification/ContractPreview.thy ===== *)
theory ContractPreview
  imports Contracts
begin

text \<open>
  \<^verbatim>\<open>calculateInitialPayments\<close> of \<^verbatim>\<open>contracts.service.ts\<close>: the entries a contract would get, computed
  from a request and not stored. The dates of the request are the instants \<^verbatim>\<open>luxon\<close> reads in them.
  The loop over the periods advances month by month and may not end, so the result is an option:
  \<open>None\<close> is a request that never answers.
\<close>

section \<open>Request and answer\<close>

record calculate_dto =
  ci_propiedad_id :: oid
  ci_partes :: "parte list"
  ci_fecha_inicio :: fecha
  ci_fecha_final :: fecha
  ci_ajuste_programado :: fecha
  ci_terminos :: terminos
  ci_deposito_monto :: "monto option"

record partida_preview =
  cuenta_codigo :: string
  cuenta_nombre :: string
  pv_descripcion :: texto
  pv_debe :: monto
  pv_haber :: monto
  pv_agente_id :: "oid option"

record asiento_preview =
  pv_tipo_asiento :: string
  pv_fecha_vencimiento :: fecha
  pv_asiento_descripcion :: texto
  pv_partidas :: "partida_preview list"
  total_debe :: monto
  total_haber :: monto
  imputaciones :: "(agente_rol \<times> oid) list"

text \<open>A quotient by a number of instalments: \<open>None\<close> is \<^verbatim>\<open>Infinity\<close> or \<^verbatim>\<open>NaN\<close>.\<close>

definition entre_cuotas :: "monto \<Rightarrow> nat \<Rightarrow> monto option" where
  "entre_cuotas x n = (if n = 0 then None else Some (x / of_nat n))"

record honorario_unico =
  hu_porcentaje :: rat
  hu_cuotas :: nat
  hu_monto_total :: monto
  hu_monto_por_cuota :: "monto option"

record honorarios_inmo =
  mensual_porcentaje :: rat
  monto_mensual :: monto
  meses_proyectados :: nat
  mensual_total :: monto
  hon_locador :: honorario_unico
  hon_locatario :: honorario_unico
  notas_iva :: string

text \<open>The key of a group of the initial payments: an agent or the text INMOBILIARIA.\<close>

datatype clave_pago = PagoAgente oid | PagoInmobiliaria

record movimiento_inicial =
  mi_tipo :: string
  mi_cuenta :: string
  mi_debe :: monto
  mi_haber :: monto
  mi_descripcion :: texto

type_synonym grupo_pago = "(clave_pago \<times> string) \<times> movimiento_inicial list"

record resumen_preview =
  total_asientos :: nat
  total_meses_alquiler :: nat
  monto_total_alquileres :: monto
  monto_deposito :: monto
  monto_total_honorarios_locador :: monto
  monto_total_honorarios_locatario :: monto
  monto_total_honorarios_inmobiliaria :: monto

record preview =
  asientos_alquiler :: "asiento_preview list"
  asiento_deposito :: "asiento_preview option"
  asientos_honorarios_locador :: "asiento_preview list"
  asientos_honorarios_locatario :: "asiento_preview list"
  pv_iva_calculo_base :: string
  honorarios_inmobiliaria :: honorarios_inmo
  pv_resumen :: resumen_preview
  pagos_iniciales :: "grupo_pago list"
  totalizadores_por_agente :: "((clave_pago \<times> string) \<times> monto \<times> monto) list"

section \<open>What is read before the loop\<close>

text \<open>Code and name of the account of a required code.\<close>

definition getCuentaInfo :: "(string \<rightharpoonup> oid) \<Rightarrow> cuenta_contable list \<Rightarrow> string \<Rightarrow> excepcion + string \<times> string" where
  "getCuentaInfo ids cuentas cod =
     (case ids cod of
        None \<Rightarrow> Inl (ErrorJS ''Cannot read properties of undefined'' [])
      | Some i \<Rightarrow> (case find_id cc_id i cuentas of
            None \<Rightarrow> Inr (''UNKNOWN'', ''Cuenta desconocida'')
          | Some c \<Rightarrow> Inr (o_texto (Some (codigo c)) ''UNKNOWN'', o_texto (Some (cc_nombre c)) ''Cuenta desconocida'')))"

record base_preview =
  bp_ids :: "string \<rightharpoonup> oid"
  bp_cuentas :: "cuenta_contable list"
  bp_iva :: string
  bp_comision :: rat
  bp_locador :: oid
  bp_locatario :: oid
  bp_direccion :: string
  bp_deuda :: "string \<times> string"
  bp_cxp :: "string \<times> string"
  bp_honorarios :: "string \<times> string"

definition parte_con_rol :: "agente_rol \<Rightarrow> parte list \<Rightarrow> oid option" where
  "parte_con_rol r ps = map_option pt_agente_id (find (\<lambda>p. pt_rol p = r) ps)"

definition preparar_preview :: "calculate_dto \<Rightarrow> ('a bd_ct_scheme, base_preview) proc" where
  "preparar_preview dto =
     ebind getSettings (\<lambda>settings.
     ebind loadAccountIds (\<lambda>_.
     ebind (gets (\<lambda>s. coalesce (accountIdsCache s) Map.empty)) (\<lambda>ids.
     ebind (gets plan_cuentas) (\<lambda>cuentas.
     let t = ci_terminos dto in
     case (parte_con_rol LOCADOR (ci_partes dto), parte_con_rol LOCATARIO (ci_partes dto)) of
       (Some locador, Some locatario) \<Rightarrow>
         ebind (gets (\<lambda>s. getPropertyAddress (find_id pp_id (ci_propiedad_id dto) (propiedades s)))) (\<lambda>addr.
         ebind (lift_result (getCuentaInfo ids cuentas ''CXC_ALQ'')) (\<lambda>deuda.
         ebind (lift_result (getCuentaInfo ids cuentas ''CXP_LOC'')) (\<lambda>cxp.
         ebind (lift_result (getCuentaInfo ids cuentas ''ING_HNR'')) (\<lambda>hnr.
         ret \<lparr>bp_ids = ids, bp_cuentas = cuentas,
              bp_iva = o_texto (iva_calculo_base t) (o_texto (Some (iva_calculo_base_default settings)) ''MAS_IVA''),
              bp_comision = coalesce (comision_administracion_porcentaje t)
                (comision_administracion_default settings) / 100,
              bp_locador = locador, bp_locatario = locatario, bp_direccion = addr,
              bp_deuda = deuda, bp_cxp = cxp, bp_honorarios = hnr\<rparr>))))
     | _ \<Rightarrow> raise (BadRequestException
              ''Se requiere un locador y un locatario en las partes del contrato'' [])))))"

section \<open>The rents\<close>

definition fin_proyeccion :: "calculate_dto \<Rightarrow> fecha" where
  "fin_proyeccion dto = (if indice_tipo (ci_terminos dto) = ''FIJO'' then ci_fecha_final dto else ci_ajuste_programado dto)"

definition meses_dto :: "luxon \<Rightarrow> calculate_dto \<Rightarrow> int" where
  "meses_dto lx dto = math_round (lx_meses lx (ci_fecha_final dto) (ci_fecha_inicio dto))"

text \<open>The values of \<^verbatim>\<open>fechaActual\<close> in the loop, in order, after those of \<open>ts\<close>.\<close>

partial_function (option) periodos :: "luxon \<Rightarrow> fecha \<Rightarrow> fecha \<Rightarrow> fecha list \<Rightarrow> fecha list option" where
  [code]: "periodos lx fin t ts = (if t < fin then periodos lx fin (lx_plus lx t 1 0) (ts @ [t]) else Some ts)"

definition linea :: "string \<times> string \<Rightarrow> texto \<Rightarrow> monto \<Rightarrow> monto \<Rightarrow> oid option \<Rightarrow> partida_preview" where
  "linea cta desc d h ag = \<lparr>cuenta_codigo = fst cta, cuenta_nombre = snd cta, pv_descripcion = desc,
     pv_debe = d, pv_haber = h, pv_agente_id = ag\<rparr>"

definition texto_periodo :: "string \<Rightarrow> luxon \<Rightarrow> calculate_dto \<Rightarrow> base_preview \<Rightarrow> nat \<Rightarrow> fecha \<Rightarrow> texto" where
  "texto_periodo prefijo lx dto b n t =
     (prefijo @ '' {} - Periodo {} de {} - {}'',
      [AStr (lx_mm_yyyy lx t), ANum (of_nat n), ANum (of_int (meses_dto lx dto)), AStr (bp_direccion b)])"

definition alquiler_preview :: "luxon \<Rightarrow> calculate_dto \<Rightarrow> base_preview \<Rightarrow> nat \<Rightarrow> fecha \<Rightarrow> asiento_preview" where
  "alquiler_preview lx dto b n t =
     (let montoBase = monto_base_vigente (ci_terminos dto);
          montoHonorarios = montoBase * bp_comision b;
          montoParaLocador = montoBase - montoHonorarios
      in \<lparr>pv_tipo_asiento = ''Alquiler'', pv_fecha_vencimiento = lx_plus lx t 0 10,
          pv_asiento_descripcion = texto_periodo ''Devengamiento alquiler'' lx dto b n t,
          pv_partidas =
            [linea (bp_deuda b) (texto_periodo ''Alquiler'' lx dto b n t) montoBase 0 (Some (bp_locatario b)),
             linea (bp_cxp b) (texto_periodo ''Credito por alquiler'' lx dto b n t) 0 montoParaLocador (Some (bp_locador b)),
             linea (bp_honorarios b) (texto_periodo ''Honorarios por alquiler'' lx dto b n t) 0 montoHonorarios None],
          total_debe = montoBase, total_haber = montoBase,
          imputaciones = [(LOCATARIO, bp_locatario b), (LOCADOR, bp_locador b)]\<rparr>)"

definition alquileres_preview :: "luxon \<Rightarrow> calculate_dto \<Rightarrow> base_preview \<Rightarrow> fecha list \<Rightarrow> asiento_preview list" where
  "alquileres_preview lx dto b ts = map (\<lambda>(n, t). alquiler_preview lx dto b (n + 1) t) (zip [0..<length ts] ts)"

section \<open>Deposit and fees\<close>

definition deposito_preview :: "calculate_dto \<Rightarrow> base_preview \<Rightarrow> excepcion + asiento_preview option" where
  "deposito_preview dto b =
     (let m = o_cero (ci_deposito_monto dto); addr = [AStr (bp_direccion b)] in
      if m > 0 then
        (case getCuentaInfo (bp_ids b) (bp_cuentas b) ''PAS_DEP'' of
           Inl e \<Rightarrow> Inl e
         | Inr pasivo \<Rightarrow>
             (case getCuentaInfo (bp_ids b) (bp_cuentas b) ''ACT_FID'' of
                Inl e \<Rightarrow> Inl e
              | Inr activo_c \<Rightarrow>
                  Inr (Some \<lparr>pv_tipo_asiento = ''Deposito en Garantia'', pv_fecha_vencimiento = ci_fecha_final dto,
                    pv_asiento_descripcion = (''Registro de deposito en garantia - {}'', addr),
                    pv_partidas =
                      [linea activo_c (''Ingreso de deposito en garantia a caja/banco fiduciaria - {}'', addr) m 0 None,
                       linea pasivo (''Deposito en garantia a devolver al locador - {}'', addr) 0 m (Some (bp_locador b))],
                    total_debe = m, total_haber = m, imputaciones = [(LOCATARIO, bp_locatario b)]\<rparr>)))
      else Inr None)"

text \<open>The instalments of one of the two fees; \<open>cuenta\<close> is the account of the debit.\<close>

definition cuota_honorarios ::
  "luxon \<Rightarrow> calculate_dto \<Rightarrow> base_preview \<Rightarrow> tipo_agente \<Rightarrow> monto \<Rightarrow> nat \<Rightarrow> nat \<Rightarrow> asiento_preview" where
  "cuota_honorarios lx dto b tipo m cuotas i =
     (let esLocador = (tipo = LOCADOR_H);
          quien = AStr (agente_minusculas tipo); n = ANum (of_nat (i + 1)); addr = AStr (bp_direccion b);
          agente = (if esLocador then bp_locador b else bp_locatario b)
      in \<lparr>pv_tipo_asiento = (if esLocador then ''Honorarios Locador'' else ''Honorarios Locatario''),
          pv_fecha_vencimiento = lx_plus lx (ci_fecha_inicio dto) (int i) 10,
          pv_asiento_descripcion = (''Honorarios {} - Cuota {}/{} - {}'', [quien, n, ANum (of_nat cuotas), addr]),
          pv_partidas =
            [linea (if esLocador then bp_cxp b else bp_deuda b) (''{} honorarios {} - Cuota {} - {}'',
               [AStr (if esLocador then ''Descuento'' else ''Cargo''), quien, n, addr]) m 0 (Some agente),
             linea (bp_honorarios b) (''Ingreso honorarios {} - Cuota {} - {}'', [quien, n, addr]) 0 m None],
          total_debe = m, total_haber = m,
          imputaciones = [(if esLocador then LOCADOR else LOCATARIO, agente)]\<rparr>)"

definition monto_total_contrato :: "luxon \<Rightarrow> calculate_dto \<Rightarrow> monto" where
  "monto_total_contrato lx dto = of_int (meses_dto lx dto) * monto_base_vigente (ci_terminos dto)"

definition honorarios_preview ::
  "luxon \<Rightarrow> calculate_dto \<Rightarrow> base_preview \<Rightarrow> tipo_agente \<Rightarrow> rat \<Rightarrow> nat \<Rightarrow> asiento_preview list" where
  "honorarios_preview lx dto b tipo porcentaje cuotas =
     (if porcentaje / 100 > 0
      then map (cuota_honorarios lx dto b tipo
             (monto_total_contrato lx dto * (porcentaje / 100) / of_nat cuotas) cuotas) [0..<cuotas]
      else [])"

definition honorario_resumen :: "luxon \<Rightarrow> calculate_dto \<Rightarrow> rat \<Rightarrow> nat \<Rightarrow> asiento_preview list \<Rightarrow> honorario_unico" where
  "honorario_resumen lx dto porcentaje cuotas as =
     \<lparr>hu_porcentaje = porcentaje, hu_cuotas = cuotas, hu_monto_total = (\<Sum>a\<leftarrow>as. total_debe a),
      hu_monto_por_cuota = (if porcentaje > 0
        then entre_cuotas (monto_total_contrato lx dto * (porcentaje / 100)) cuotas else Some 0)\<rparr>"

section \<open>The initial payments\<close>

definition mov_inicial :: "string \<Rightarrow> partida_preview \<Rightarrow> movimiento_inicial" where
  "mov_inicial tipo p = \<lparr>mi_tipo = tipo, mi_cuenta = cuenta_codigo p, mi_debe = pv_debe p, mi_haber = pv_haber p,
     mi_descripcion = pv_descripcion p\<rparr>"

text \<open>The group of the agent and the role, appended when it is not there yet.\<close>

fun addMovimiento :: "clave_pago \<times> string \<Rightarrow> movimiento_inicial \<Rightarrow> grupo_pago list \<Rightarrow> grupo_pago list" where
  "addMovimiento k m [] = [(k, [m])]"
| "addMovimiento k m ((k', ms) # gs) = (if k' = k then (k', ms @ [m]) # gs else (k', ms) # addMovimiento k m gs)"

text \<open>What one line adds: \<open>lt\<close> and \<open>lc\<close> are the types of the movement of the tenant and of the
  landlord, when that block of the code looks at them, and \<open>ho\<close> whether it looks at the fees.\<close>

definition agregar_linea ::
  "base_preview \<Rightarrow> string option \<Rightarrow> string option \<Rightarrow> bool \<Rightarrow> partida_preview \<Rightarrow> grupo_pago list \<Rightarrow> grupo_pago list" where
  "agregar_linea b lt lc ho p gs =
     (let gs1 = (case lt of Some t \<Rightarrow> if pv_agente_id p = Some (bp_locatario b)
                    then addMovimiento (PagoAgente (bp_locatario b), ''LOCATARIO'') (mov_inicial t p) gs else gs
                 | None \<Rightarrow> gs);
          gs2 = (case lc of Some t \<Rightarrow> if pv_agente_id p = Some (bp_locador b)
                    then addMovimiento (PagoAgente (bp_locador b), ''LOCADOR'') (mov_inicial t p) gs1 else gs1
                 | None \<Rightarrow> gs1)
      in if ho \<and> pv_agente_id p = None \<and> cuenta_codigo p = fst (bp_honorarios b)
         then addMovimiento (PagoInmobiliaria, ''INMOBILIARIA'') (mov_inicial ''Honorarios'' p) gs2 else gs2)"

definition agregar_asiento ::
  "base_preview \<Rightarrow> string option \<Rightarrow> string option \<Rightarrow> bool \<Rightarrow> asiento_preview list \<Rightarrow> grupo_pago list \<Rightarrow> grupo_pago list" where
  "agregar_asiento b lt lc ho as gs =
     (case as of [] \<Rightarrow> gs | a # _ \<Rightarrow> fold (agregar_linea b lt lc ho) (pv_partidas a) gs)"

definition pagos_de ::
  "base_preview \<Rightarrow> asiento_preview list \<Rightarrow> asiento_preview option \<Rightarrow> asiento_preview list \<Rightarrow> asiento_preview list \<Rightarrow> grupo_pago list" where
  "pagos_de b alq dep hl ht =
     agregar_asiento b (Some ''Honorarios'') None True ht
    (agregar_asiento b None (Some ''Honorarios'') True hl
    (agregar_asiento b (Some ''Deposito'') None False (case dep of None \<Rightarrow> [] | Some d \<Rightarrow> [d])
    (agregar_asiento b (Some ''Alquiler'') (Some ''Alquiler'') True alq [])))"

definition totalizadores :: "grupo_pago list \<Rightarrow> ((clave_pago \<times> string) \<times> monto \<times> monto) list" where
  "totalizadores gs = map (\<lambda>(k, ms). (k, \<Sum>m\<leftarrow>ms. mi_debe m, \<Sum>m\<leftarrow>ms. mi_haber m)) gs"

section \<open>The answer\<close>

definition responder_preview :: "luxon \<Rightarrow> calculate_dto \<Rightarrow> base_preview \<Rightarrow> fecha list \<Rightarrow> excepcion + preview" where
  "responder_preview lx dto b ts =
     (case deposito_preview dto b of
        Inl e \<Rightarrow> Inl e
      | Inr dep \<Rightarrow>
        let t = ci_terminos dto;
            alq = alquileres_preview lx dto b ts;
            pl = coalesce (honorarios_locador_porcentaje t) 0; cl = coalesce (honorarios_locador_cuotas t) 1;
            pt = coalesce (honorarios_locatario_porcentaje t) 0; ct = coalesce (honorarios_locatario_cuotas t) 1;
            hl = honorarios_preview lx dto b LOCADOR_H pl cl;
            ht = honorarios_preview lx dto b LOCATARIO_H pt ct;
            totalInmo = (\<Sum>a\<leftarrow>alq. monto_base_vigente t * bp_comision b);
            pagos = pagos_de b alq dep hl ht
        in Inr \<lparr>asientos_alquiler = alq, asiento_deposito = dep, asientos_honorarios_locador = hl,
             asientos_honorarios_locatario = ht, pv_iva_calculo_base = bp_iva b,
             honorarios_inmobiliaria =
               \<lparr>mensual_porcentaje = bp_comision b * 100, monto_mensual = monto_base_vigente t * bp_comision b,
                meses_proyectados = length alq, mensual_total = totalInmo,
                hon_locador = honorario_resumen lx dto pl cl hl, hon_locatario = honorario_resumen lx dto pt ct ht,
                notas_iva = (if bp_iva b = ''MAS_IVA''
                  then ''Los montos informados son base imponible, el IVA se adiciona segun corresponda.''
                  else ''Los montos informados incluyen IVA en el precio (IVA incluido).'')\<rparr>,
             pv_resumen =
               \<lparr>total_asientos = length alq + (if dep = None then 0 else 1) + length hl + length ht,
                total_meses_alquiler = length alq, monto_total_alquileres = (\<Sum>a\<leftarrow>alq. monto_base_vigente t),
                monto_deposito = o_cero (ci_deposito_monto dto),
                monto_total_honorarios_locador = (\<Sum>a\<leftarrow>hl. total_debe a),
                monto_total_honorarios_locatario = (\<Sum>a\<leftarrow>ht. total_debe a),
                monto_total_honorarios_inmobiliaria = totalInmo\<rparr>,
             pagos_iniciales = pagos, totalizadores_por_agente = totalizadores pagos\<rparr>)"

definition calculateInitialPayments ::
  "luxon \<Rightarrow> calculate_dto \<Rightarrow> 'a bd_ct_scheme \<Rightarrow> ((excepcion + preview) \<times> 'a bd_ct_scheme) option" where
  "calculateInitialPayments lx dto s =
     (case preparar_preview dto s of
        (Inl e, s') \<Rightarrow> Some (Inl e, s')
      | (Inr b, s') \<Rightarrow>
          (case periodos lx (fin_proyeccion dto) (ci_fecha_inicio dto) [] of
             None \<Rightarrow> None
           | Some ts \<Rightarrow> Some (responder_preview lx dto b ts, s')))"

end
