(* ===== verification/PreviewProperties.thy ===== *)
theory PreviewProperties
  imports ContractPreview ContractExamples
begin

text \<open>
  The preview of a contract: it answers, its entries balance and its summary adds up; and how it
  compares with the entries that the activation of the contract creates.
\<close>

section \<open>The loop over the periods\<close>

lemma periodos_fin:
  assumes step: "\<forall>t. t + d \<le> lx_plus lx t 1 0" and d: "0 < d"
  shows "\<exists>us. periodos lx fin t ts = Some (ts @ us) \<and> (us \<noteq> [] \<longrightarrow> (int (length us) - 1) * d < fin - t)"
proof (induction "nat (fin - t)" arbitrary: t ts rule: less_induct)
  case less
  show ?case
  proof (cases "t < fin")
    case False
    then show ?thesis by (simp add: periodos.simps)
  next
    case True
    let ?t = "lx_plus lx t 1 0"
    have st: "t + d \<le> ?t" using step by blast
    with True d have "nat (fin - ?t) < nat (fin - t)" by simp
    from less.hyps [OF this, of "ts @ [t]"] obtain us where us: "periodos lx fin ?t (ts @ [t]) = Some ((ts @ [t]) @ us)"
      "us \<noteq> [] \<longrightarrow> (int (length us) - 1) * d < fin - ?t" by blast
    have "int (length us) * d < fin - t"
    proof (cases us)
      case (Cons u vs)
      then have "(int (length us) - 1) * d < fin - ?t" using us(2) by simp
      moreover have "int (length us) * d = (int (length us) - 1) * d + d" by (simp add: algebra_simps)
      ultimately show ?thesis using st by linarith
    qed (use True in simp)
    with us(1) True show ?thesis by (subst periodos.simps) (auto intro!: exI [of _ "t # us"])
  qed
qed

section \<open>Balance\<close>

definition cuadrado :: "asiento_preview \<Rightarrow> bool" where
  "cuadrado a \<longleftrightarrow> (\<Sum>p\<leftarrow>pv_partidas a. pv_debe p) = total_debe a \<and>
     (\<Sum>p\<leftarrow>pv_partidas a. pv_haber p) = total_haber a \<and> total_debe a = total_haber a"

lemma cuadrado_alquiler [simp]: "cuadrado (alquiler_preview lx dto b n t)"
  by (simp add: cuadrado_def alquiler_preview_def linea_def Let_def)

lemma cuadrado_cuota [simp]: "cuadrado (cuota_honorarios lx dto b tipo m k i)"
  by (simp add: cuadrado_def cuota_honorarios_def linea_def Let_def)

lemma alquiler_total [simp]: "total_debe (alquiler_preview lx dto b n t) = monto_base_vigente (ci_terminos dto)"
  by (simp add: alquiler_preview_def Let_def)

lemma alquileres_length [simp]: "length (alquileres_preview lx dto b ts) = length ts"
  by (simp add: alquileres_preview_def)

lemma alquileres_cuadran [simp]: "list_all cuadrado (alquileres_preview lx dto b ts)"
  by (auto simp: alquileres_preview_def list_all_iff)

lemma alquileres_total:
  "(\<Sum>a\<leftarrow>alquileres_preview lx dto b ts. f a) = (\<Sum>a\<leftarrow>alquileres_preview lx dto b ts. g a)"
  if "\<And>n t. f (alquiler_preview lx dto b n t) = g (alquiler_preview lx dto b n t)"
  by (rule arg_cong [where f = sum_list]) (auto simp: alquileres_preview_def that)

lemma honorarios_cuadran [simp]: "list_all cuadrado (honorarios_preview lx dto b tipo p k)"
  by (auto simp: honorarios_preview_def list_all_iff)

lemma deposito_cuadra: "deposito_preview dto b = Inr (Some a) \<Longrightarrow> cuadrado a"
  by (auto simp: deposito_preview_def Let_def cuadrado_def linea_def split: sum.splits if_splits)

section \<open>The movements of the initial payments\<close>

definition tipos_de :: "grupo_pago list \<Rightarrow> string set" where
  "tipos_de gs = (\<Union>g \<in> set gs. mi_tipo ` set (snd g))"

lemma tipos_add: "tipos_de (addMovimiento k m gs) = insert (mi_tipo m) (tipos_de gs)"
  by (induction k m gs rule: addMovimiento.induct) (auto simp: tipos_de_def)

lemma tipos_linea:
  "tipos_de (agregar_linea b lt lc ho p gs) \<subseteq> tipos_de gs \<union> set_option lc \<union>
     (if pv_agente_id p = Some (bp_locatario b) then set_option lt else {}) \<union> (if ho then {''Honorarios''} else {})"
  by (auto simp: agregar_linea_def Let_def tipos_add mov_inicial_def split: option.splits if_splits)

definition lineas_primero :: "asiento_preview list \<Rightarrow> partida_preview list" where
  "lineas_primero as = (case as of [] \<Rightarrow> [] | a # _ \<Rightarrow> pv_partidas a)"

lemma agregar_asiento_fold: "agregar_asiento b lt lc ho as gs = fold (agregar_linea b lt lc ho) (lineas_primero as) gs"
  by (simp add: agregar_asiento_def lineas_primero_def split: list.split)

lemma tipos_asiento:
  "tipos_de (agregar_asiento b lt lc ho as gs) \<subseteq> tipos_de gs \<union> set_option lc \<union>
     (if Some (bp_locatario b) \<in> pv_agente_id ` set (lineas_primero as) then set_option lt else {}) \<union>
     (if ho then {''Honorarios''} else {})"
  unfolding agregar_asiento_fold
proof (induction "lineas_primero as" arbitrary: as gs)
  case Nil
  then show ?case by auto
next
  case (Cons p ps)
  have "\<exists>as'. ps = lineas_primero as'"
    by (intro exI [of _ "[\<lparr>pv_tipo_asiento = [], pv_fecha_vencimiento = 0, pv_asiento_descripcion = ([], []),
      pv_partidas = ps, total_debe = 0, total_haber = 0, imputaciones = []\<rparr>]"]) (simp add: lineas_primero_def)
  then obtain as' where as': "ps = lineas_primero as'" by blast
  from Cons.hyps(1) [OF as', of "agregar_linea b lt lc ho p gs"] tipos_linea [of b lt lc ho p gs]
  show ?case unfolding Cons.hyps(2) [symmetric] as' [symmetric] by (auto split: if_splits)
qed

lemma deposito_sin_locatario:
  assumes "deposito_preview dto b = Inr dep" "bp_locador b \<noteq> bp_locatario b"
  shows "Some (bp_locatario b) \<notin> pv_agente_id ` set (lineas_primero (case dep of None \<Rightarrow> [] | Some d \<Rightarrow> [d]))"
  using assms by (auto simp: deposito_preview_def Let_def linea_def lineas_primero_def split: sum.splits if_splits)

lemma pagos_sin_deposito:
  assumes "deposito_preview dto b = Inr dep" "bp_locador b \<noteq> bp_locatario b"
  shows "tipos_de (pagos_de b alq dep hl ht) \<subseteq> {''Alquiler'', ''Honorarios''}"
proof -
  let ?g1 = "agregar_asiento b (Some ''Alquiler'') (Some ''Alquiler'') True alq []"
  let ?g2 = "agregar_asiento b (Some ''Deposito'') None False (case dep of None \<Rightarrow> [] | Some d \<Rightarrow> [d]) ?g1"
  let ?g3 = "agregar_asiento b None (Some ''Honorarios'') True hl ?g2"
  have "tipos_de ?g2 \<subseteq> tipos_de ?g1"
    using tipos_asiento [of b "Some ''Deposito''" None False "case dep of None \<Rightarrow> [] | Some d \<Rightarrow> [d]" ?g1]
      deposito_sin_locatario [OF assms] by simp
  moreover have "tipos_de ?g1 \<subseteq> {''Alquiler'', ''Honorarios''}"
    using tipos_asiento [of b "Some ''Alquiler''" "Some ''Alquiler''" True alq "[]"]
    by (auto simp: tipos_de_def split: if_splits)
  moreover have "tipos_de ?g3 \<subseteq> insert ''Honorarios'' (tipos_de ?g2)"
    using tipos_asiento [of b None "Some ''Honorarios''" True hl ?g2] by (auto split: if_splits)
  moreover have "tipos_de (pagos_de b alq dep hl ht) \<subseteq> insert ''Honorarios'' (tipos_de ?g3)"
    using tipos_asiento [of b "Some ''Honorarios''" None True ht ?g3] unfolding pagos_de_def by (auto split: if_splits)
  ultimately show ?thesis by blast
qed

section \<open>The answer\<close>

lemma preparar_preview_partes:
  assumes "preparar_preview dto s = (Inr b, s')"
  shows "parte_con_rol LOCADOR (ci_partes dto) = Some (bp_locador b)"
    "parte_con_rol LOCATARIO (ci_partes dto) = Some (bp_locatario b)"
proof -
  show "parte_con_rol LOCADOR (ci_partes dto) = Some (bp_locador b)"
    using assms
    by (cases "parte_con_rol LOCADOR (ci_partes dto)"; cases "parte_con_rol LOCATARIO (ci_partes dto)")
       (auto simp: preparar_preview_def ebind_Inr gets_def raise_def Let_def ret_def)
  show "parte_con_rol LOCATARIO (ci_partes dto) = Some (bp_locatario b)"
    using assms
    by (cases "parte_con_rol LOCADOR (ci_partes dto)"; cases "parte_con_rol LOCATARIO (ci_partes dto)")
       (auto simp: preparar_preview_def ebind_Inr gets_def raise_def Let_def ret_def)
qed

lemma responder_preview_campos:
  assumes dep: "deposito_preview dto b = Inr dep" and lo: "bp_locador b \<noteq> bp_locatario b"
  obtains p where "responder_preview lx dto b ts = Inr p" "asientos_alquiler p = alquileres_preview lx dto b ts"
    "list_all cuadrado (asientos_honorarios_locador p)" "list_all cuadrado (asientos_honorarios_locatario p)"
    "asiento_deposito p = dep"
    "monto_total_alquileres (pv_resumen p) = (\<Sum>a\<leftarrow>alquileres_preview lx dto b ts. monto_base_vigente (ci_terminos dto))"
    "mensual_total (honorarios_inmobiliaria p) =
       (\<Sum>a\<leftarrow>alquileres_preview lx dto b ts. monto_base_vigente (ci_terminos dto) * bp_comision b)"
    "monto_total_honorarios_locador (pv_resumen p) = (\<Sum>a\<leftarrow>asientos_honorarios_locador p. total_debe a)"
    "tipos_de (pagos_iniciales p) \<subseteq> {''Alquiler'', ''Honorarios''}"
proof -
  obtain p where p: "responder_preview lx dto b ts = Inr p"
    by (simp add: responder_preview_def dep Let_def)
  show thesis
    by (rule that [OF p]; insert p; auto simp: responder_preview_def dep Let_def dest: pagos_sin_deposito [OF dep lo, THEN subsetD])
qed


definition calcular0 :: calculate_dto where
  "calcular0 = \<lparr>ci_propiedad_id = 30,
     ci_partes = [\<lparr>pt_agente_id = 2, pt_rol = LOCADOR\<rparr>, \<lparr>pt_agente_id = 1, pt_rol = LOCATARIO\<rparr>],
     ci_fecha_inicio = 19723 * dia_ms, ci_fecha_final = 19813 * dia_ms, ci_ajuste_programado = 19783 * dia_ms,
     ci_terminos = terminos0, ci_deposito_monto = Some 500\<rparr>"

lemma periodos0:
  "periodos luxon0 (fin_proyeccion calcular0) (ci_fecha_inicio calcular0) [] = Some [19723 * dia_ms, 19753 * dia_ms]"
  by (simp add: periodos.simps fin_proyeccion_def calcular0_def terminos0_def luxon0_def dia_ms_def)

lemma preparar0: "exito (preparar_preview calcular0) (bd_ct0 [])"
  by code_simp

lemma responder0:
  "(case responder_preview luxon0 calcular0 (valor (preparar_preview calcular0) (bd_ct0 []))
      [19723 * dia_ms, 19753 * dia_ms] of
      Inl e \<Rightarrow> False
    | Inr p \<Rightarrow> monto_total_alquileres (pv_resumen p) = 2000 \<and> mensual_total (honorarios_inmobiliaria p) = 140 \<and>
        monto_total_honorarios_locatario (pv_resumen p) = 150 \<and> length (asientos_alquiler p) = 2)"
  by code_simp


section \<open>The preview and the activation\<close>

definition montos_de :: "partida list \<Rightarrow> (monto \<times> monto) list" where
  "montos_de ps = map (\<lambda>p. (debe p, haber p)) ps"

definition montos_preview :: "asiento_preview \<Rightarrow> (monto \<times> monto) list" where
  "montos_preview a = map (\<lambda>p. (pv_debe p, pv_haber p)) (pv_partidas a)"

text \<open>The entry \<open>d\<close> of the factory is the one announced: type, due date, the amounts of its lines
  and their texts.\<close>

definition como_anunciado :: "asiento_dto \<Rightarrow> asiento_preview \<Rightarrow> bool" where
  "como_anunciado d a \<longleftrightarrow> d_tipo_asiento d = Some (pv_tipo_asiento a) \<and>
     d_fecha_vencimiento d = Some (pv_fecha_vencimiento a) \<and>
     montos_de (coalesce (d_partidas d) []) = montos_preview a \<and>
     map p_descripcion (coalesce (d_partidas d) []) = map pv_descripcion (pv_partidas a)"

lemmas fabrica_simps = Let_def proc_simps addDebit_def addCredit_def build_def negativo_def setState_def
  setAdjustable_def addMetadata_def setDates_def setDescription_def setType_def b_reset_def
  partida_de_linea_def descripcion_linea_def


definition base0 :: base_preview where
  "base0 = valor (preparar_preview calcular0) (bd_ct0 [])"

lemma base0_campos: "bp_comision base0 = 7 / 100 \<and> bp_direccion base0 = ''Belgrano 10''"
  by code_simp


end
