(* ===== verification/FinancialReports.thy ===== *)
theory FinancialReports
  imports AccountingEntry "HOL-Library.Char_ord" "HOL-Library.List_Lexorder" "HOL-Library.Product_Lexorder"
begin

text \<open>
  \<^verbatim>\<open>src/modules/financial-reports\<close>: the four reports computed from the accounting entries, the
  chart of accounts and the financial accounts. Each aggregation of the code is the same pipeline
  (match, unwind the lines, join the account, group by account, sort) with other filters.
\<close>

section \<open>Accounts by type\<close>

text \<open>The sort by \<^verbatim>\<open>tipo_cuenta\<close> is the order of the names of the types.\<close>

fun rango_tipo :: "tipo_cuenta \<Rightarrow> nat" where
  "rango_tipo ACTIVO = 0"
| "rango_tipo EGRESO_CTA = 1"
| "rango_tipo INGRESO_CTA = 2"
| "rango_tipo PASIVO = 3"
| "rango_tipo PATRIMONIO_NETO = 4"

instantiation tipo_cuenta :: linorder
begin

definition less_eq_tipo_cuenta :: "tipo_cuenta \<Rightarrow> tipo_cuenta \<Rightarrow> bool" where
  "less_eq_tipo_cuenta t u \<longleftrightarrow> rango_tipo t \<le> rango_tipo u"

definition less_tipo_cuenta :: "tipo_cuenta \<Rightarrow> tipo_cuenta \<Rightarrow> bool" where
  "less_tipo_cuenta t u \<longleftrightarrow> rango_tipo t < rango_tipo u"

instance
proof
  fix t u v :: tipo_cuenta
  show "t < u \<longleftrightarrow> t \<le> u \<and> \<not> u \<le> t" "t \<le> t" "t \<le> u \<Longrightarrow> u \<le> v \<Longrightarrow> t \<le> v" "t \<le> u \<or> u \<le> t"
    by (auto simp: less_eq_tipo_cuenta_def less_tipo_cuenta_def)
  show "t \<le> u \<Longrightarrow> u \<le> t \<Longrightarrow> t = u"
    by (cases t; cases u) (simp_all add: less_eq_tipo_cuenta_def)
qed

end

section \<open>The pipeline\<close>

text \<open>The bounds of the request that are given and not empty.\<close>

record fr_query =
  fr_desde :: "fecha option"
  fr_hasta :: "fecha option"

text \<open>\<^verbatim>\<open>fecha_asiento\<close> is not a path of the schema of an entry and no service writes it.\<close>

definition fecha_asiento :: "asiento \<Rightarrow> fecha option" where
  "fecha_asiento a = None"

text \<open>\<^verbatim>\<open>matchStage\<close>: a comparison with a missing field does not hold.\<close>

definition en_informe :: "fr_query \<Rightarrow> asiento \<Rightarrow> bool" where
  "en_informe q a \<longleftrightarrow> estado a \<in> {PAGADO, PAGADO_PARCIAL, LIQUIDADO} \<and>
     (case fr_desde q of None \<Rightarrow> True | Some d \<Rightarrow> (case fecha_asiento a of None \<Rightarrow> False | Some f \<Rightarrow> d \<le> f)) \<and>
     (case fr_hasta q of None \<Rightarrow> True | Some h \<Rightarrow> (case fecha_asiento a of None \<Rightarrow> False | Some f \<Rightarrow> f \<le> h))"

type_synonym linea_informe = "asiento \<times> partida \<times> cuenta_contable"

text \<open>\<^verbatim>\<open>$unwind\<close> of the lines, \<^verbatim>\<open>$lookup\<close> of their account and \<^verbatim>\<open>$unwind\<close> of it.\<close>

definition lineas_informe :: "fr_query \<Rightarrow> 'a bd_asi_scheme \<Rightarrow> linea_informe list" where
  "lineas_informe q s =
     concat (map (\<lambda>a. concat (map (\<lambda>p. map (\<lambda>c. (a, p, c))
         (filter (\<lambda>c. cc_id c = cuenta_id p) (plan_cuentas s))) (partidas a)))
       (filter (en_informe q) (asientos s)))"

record grupo_informe =
  gi_tipo :: tipo_cuenta
  gi_codigo :: string
  gi_nombre :: string
  gi_debe :: monto
  gi_haber :: monto

definition clave_linea :: "linea_informe \<Rightarrow> tipo_cuenta \<times> string \<times> string" where
  "clave_linea = (\<lambda>(a, p, c). (tipo_cuenta c, codigo c, cc_nombre c))"

definition debe_linea :: "linea_informe \<Rightarrow> monto" where
  "debe_linea = (\<lambda>(a, p, c). debe p)"

definition haber_linea :: "linea_informe \<Rightarrow> monto" where
  "haber_linea = (\<lambda>(a, p, c). haber p)"

definition agrupar :: "linea_informe list \<Rightarrow> grupo_informe list" where
  "agrupar ls = map (\<lambda>k. let g = filter (\<lambda>l. clave_linea l = k) ls in
       \<lparr>gi_tipo = fst k, gi_codigo = fst (snd k), gi_nombre = snd (snd k),
        gi_debe = (\<Sum>l\<leftarrow>g. debe_linea l), gi_haber = (\<Sum>l\<leftarrow>g. haber_linea l)\<rparr>)
     (remdups (map clave_linea ls))"

definition por_tipo_y_codigo :: "grupo_informe list \<Rightarrow> grupo_informe list" where
  "por_tipo_y_codigo gs = sort_key (\<lambda>g. (gi_tipo g, gi_codigo g)) gs"

definition saldo_grupo :: "grupo_informe \<Rightarrow> monto" where
  "saldo_grupo g = gi_debe g - gi_haber g"

definition codigos_efectivo :: "string list" where
  "codigos_efectivo = [''ACT_CAJ'', ''ACT_BCO'', ''ACT_FID'']"

section \<open>Balance sheet\<close>

record cuenta_balance =
  cb_tipo :: tipo_cuenta
  cb_codigo :: string
  cb_nombre :: string
  cb_saldo :: monto
  es_cuenta_real :: bool

record balance =
  bg_activos :: "cuenta_balance list"
  bg_total_activos :: monto
  efectivo_real :: monto
  otros_activos :: monto
  bg_pasivos :: "cuenta_balance list"
  bg_total_pasivos :: monto
  bg_patrimonio :: "cuenta_balance list"
  bg_total_patrimonio :: monto
  pasivos_mas_patrimonio :: monto
  bg_diferencia :: monto
  bg_balanceado :: bool

definition cuentas_activas :: "'a bd_fin_scheme \<Rightarrow> cuenta_fin list" where
  "cuentas_activas s = filter cf_activa (cuentas_fin s)"

definition activo_efectivo :: "cuenta_fin \<Rightarrow> cuenta_balance" where
  "activo_efectivo cf =
     \<lparr>cb_tipo = ACTIVO,
      cb_codigo = (case cf_tipo cf of CAJA_EFECTIVO \<Rightarrow> ''ACT_CAJ'' | BANCO_CTA_CTE \<Rightarrow> ''ACT_BCO'' | _ \<Rightarrow> ''ACT_FID''),
      cb_nombre = cf_nombre cf @ '' (Real)'', cb_saldo = saldo_inicial cf, es_cuenta_real = True\<rparr>"

definition cuenta_de_grupo :: "grupo_informe \<Rightarrow> cuenta_balance" where
  "cuenta_de_grupo g = \<lparr>cb_tipo = gi_tipo g, cb_codigo = gi_codigo g, cb_nombre = gi_nombre g,
     cb_saldo = saldo_grupo g, es_cuenta_real = False\<rparr>"

definition sin_signo :: "cuenta_balance \<Rightarrow> cuenta_balance" where
  "sin_signo c = c\<lparr>cb_saldo := \<bar>cb_saldo c\<bar>\<rparr>"

definition partidas_balance :: "fr_query \<Rightarrow> 'a bd_asi_scheme \<Rightarrow> grupo_informe list" where
  "partidas_balance q s = por_tipo_y_codigo (agrupar (filter
     (\<lambda>(a, p, c). tipo_cuenta c \<in> {ACTIVO, PASIVO, PATRIMONIO_NETO} \<and> codigo c \<notin> set codigos_efectivo)
     (lineas_informe q s)))"

definition de_tipo :: "tipo_cuenta \<Rightarrow> grupo_informe list \<Rightarrow> grupo_informe list" where
  "de_tipo t gs = filter (\<lambda>g. gi_tipo g = t) gs"

definition getBalanceSheet :: "fr_query \<Rightarrow> ('a bd_asi_scheme, balance) proc" where
  "getBalanceSheet q = gets (\<lambda>s.
     let ps = partidas_balance q s;
         efectivo = map activo_efectivo (cuentas_activas s);
         activos = efectivo @ map cuenta_de_grupo (de_tipo ACTIVO ps);
         pasivos = map cuenta_de_grupo (de_tipo PASIVO ps);
         patrimonio = map cuenta_de_grupo (de_tipo PATRIMONIO_NETO ps);
         totalActivos = (\<Sum>c\<leftarrow>activos. cb_saldo c);
         totalPasivos = (\<Sum>c\<leftarrow>pasivos. \<bar>cb_saldo c\<bar>);
         totalPatrimonio = (\<Sum>c\<leftarrow>patrimonio. \<bar>cb_saldo c\<bar>);
         dif = totalActivos - (totalPasivos + totalPatrimonio)
     in \<lparr>bg_activos = activos, bg_total_activos = totalActivos,
         efectivo_real = (\<Sum>c\<leftarrow>efectivo. cb_saldo c),
         otros_activos = (\<Sum>c\<leftarrow>filter (\<lambda>c. \<not> es_cuenta_real c) activos. cb_saldo c),
         bg_pasivos = map sin_signo pasivos, bg_total_pasivos = totalPasivos,
         bg_patrimonio = map sin_signo patrimonio, bg_total_patrimonio = totalPatrimonio,
         pasivos_mas_patrimonio = totalPasivos + totalPatrimonio,
         bg_diferencia = dif, bg_balanceado = (\<bar>dif\<bar> < 1 / 100)\<rparr>)"

section \<open>Income statement\<close>

text \<open>The lines of an account with its amount, positive on the side of the type.\<close>

definition monto_resultado :: "grupo_informe \<Rightarrow> monto" where
  "monto_resultado g = (if gi_tipo g = INGRESO_CTA then gi_haber g - gi_debe g else gi_debe g - gi_haber g)"

definition partidas_resultado :: "fr_query \<Rightarrow> 'a bd_asi_scheme \<Rightarrow> grupo_informe list" where
  "partidas_resultado q s = sort_key (\<lambda>g. (- int (rango_tipo (gi_tipo g)), gi_codigo g)) (agrupar (filter
     (\<lambda>(a, p, c). tipo_cuenta c \<in> {INGRESO_CTA, EGRESO_CTA}) (lineas_informe q s)))"

record resultados =
  er_ingresos :: "(grupo_informe \<times> monto) list"
  er_total_ingresos :: monto
  er_egresos :: "(grupo_informe \<times> monto) list"
  er_total_egresos :: monto
  resultado_neto :: monto
  tipo_resultado :: string

definition con_monto :: "grupo_informe list \<Rightarrow> (grupo_informe \<times> monto) list" where
  "con_monto gs = map (\<lambda>g. (g, monto_resultado g)) gs"

definition getIncomeStatement :: "fr_query \<Rightarrow> ('a bd_asi_scheme, resultados) proc" where
  "getIncomeStatement q = gets (\<lambda>s.
     let ps = partidas_resultado q s;
         ingresos = con_monto (de_tipo INGRESO_CTA ps);
         egresos = con_monto (de_tipo EGRESO_CTA ps);
         totalIngresos = (\<Sum>x\<leftarrow>ingresos. snd x);
         totalEgresos = (\<Sum>x\<leftarrow>egresos. snd x)
     in \<lparr>er_ingresos = ingresos, er_total_ingresos = totalIngresos, er_egresos = egresos,
         er_total_egresos = totalEgresos, resultado_neto = totalIngresos - totalEgresos,
         tipo_resultado = (if totalIngresos - totalEgresos \<ge> 0 then ''GANANCIA'' else ''PERDIDA'')\<rparr>)"

section \<open>Trial balance\<close>

record sumas_y_saldos =
  ss_cuentas :: "grupo_informe list"
  ss_debe :: monto
  ss_haber :: monto
  saldo_deudor :: monto
  saldo_acreedor :: monto
  ss_balanceado :: bool
  ss_diferencia :: monto

definition getTrialBalance :: "fr_query \<Rightarrow> ('a bd_asi_scheme, sumas_y_saldos) proc" where
  "getTrialBalance q = gets (\<lambda>s.
     let ps = por_tipo_y_codigo (agrupar (lineas_informe q s));
         totalDebe = (\<Sum>g\<leftarrow>ps. gi_debe g);
         totalHaber = (\<Sum>g\<leftarrow>ps. gi_haber g)
     in \<lparr>ss_cuentas = ps, ss_debe = totalDebe, ss_haber = totalHaber,
         saldo_deudor = (\<Sum>g\<leftarrow>ps. if saldo_grupo g > 0 then saldo_grupo g else 0),
         saldo_acreedor = (\<Sum>g\<leftarrow>ps. if saldo_grupo g < 0 then \<bar>saldo_grupo g\<bar> else 0),
         ss_balanceado = (\<bar>totalDebe - totalHaber\<bar> < 1 / 100),
         ss_diferencia = totalDebe - totalHaber\<rparr>)"

section \<open>Cash flow\<close>

text \<open>\<^verbatim>\<open>concepto\<close> is no path of the schema either: the projected field is absent.\<close>

record mov_efectivo =
  me_fecha :: "fecha option"
  me_cuenta_codigo :: string
  me_cuenta_nombre :: string
  me_debe :: monto
  me_haber :: monto
  movimiento :: monto

definition mov_de_linea :: "linea_informe \<Rightarrow> mov_efectivo" where
  "mov_de_linea = (\<lambda>(a, p, c). \<lparr>me_fecha = fecha_asiento a, me_cuenta_codigo = codigo c,
     me_cuenta_nombre = cc_nombre c, me_debe = debe p, me_haber = haber p, movimiento = debe p - haber p\<rparr>)"

text \<open>The sort by a date that no entry has leaves the order of the lines.\<close>

definition movimientos_efectivo :: "fr_query \<Rightarrow> 'a bd_asi_scheme \<Rightarrow> mov_efectivo list" where
  "movimientos_efectivo q s = sort_key (\<lambda>m. (case me_fecha m of None \<Rightarrow> (0::nat, 0) | Some f \<Rightarrow> (1, f)))
     (map mov_de_linea (filter (\<lambda>(a, p, c). codigo c \<in> set codigos_efectivo) (lineas_informe q s)))"

record flujo_caja =
  fc_saldo_inicial :: monto
  fc_saldo_final :: monto
  fc_detalle :: "(string \<times> tipo_cuenta_fin \<times> monto) list"
  fc_ingresos :: "mov_efectivo list"
  fc_total_ingresos :: monto
  fc_egresos :: "mov_efectivo list"
  fc_total_egresos :: monto
  fc_flujo_neto :: monto
  tipo_flujo :: string
  fc_balanceado :: bool

definition getCashFlow :: "fr_query \<Rightarrow> ('a bd_asi_scheme, flujo_caja) proc" where
  "getCashFlow q = gets (\<lambda>s.
     let cuentas = cuentas_activas s;
         saldoActualTotal = (\<Sum>cf\<leftarrow>cuentas. saldo_inicial cf);
         movs = movimientos_efectivo q s;
         ingresos = filter (\<lambda>m. movimiento m > 0) movs;
         egresos = filter (\<lambda>m. movimiento m < 0) movs;
         totalIngresos = (\<Sum>m\<leftarrow>ingresos. movimiento m);
         totalEgresos = (\<Sum>m\<leftarrow>egresos. \<bar>movimiento m\<bar>);
         flujoNeto = totalIngresos - totalEgresos;
         saldoInicialCalculado = saldoActualTotal - flujoNeto
     in \<lparr>fc_saldo_inicial = saldoInicialCalculado, fc_saldo_final = saldoActualTotal,
         fc_detalle = map (\<lambda>cf. (cf_nombre cf, cf_tipo cf, saldo_inicial cf)) cuentas,
         fc_ingresos = ingresos, fc_total_ingresos = totalIngresos,
         fc_egresos = map (\<lambda>m. m\<lparr>movimiento := \<bar>movimiento m\<bar>\<rparr>) egresos, fc_total_egresos = totalEgresos,
         fc_flujo_neto = flujoNeto, tipo_flujo = (if flujoNeto \<ge> 0 then ''POSITIVO'' else ''NEGATIVO''),
         fc_balanceado = (\<bar>saldoInicialCalculado + flujoNeto - saldoActualTotal\<bar> < 1 / 100)\<rparr>)"

end
