(* ===== verification/FinancialReportProperties.thy ===== *)
theory FinancialReportProperties
  imports FinancialReports EntryProperties EntryExamples Sums
begin

text \<open>
  What the reports say of the entries: the totals of every report are sums over the lines of the
  entries it selects, from which the equations between the reports follow.
\<close>

section \<open>Sums over groups\<close>

lemma agrupar_suma:
  "(\<Sum>g\<leftarrow>agrupar ls. gi_debe g) = (\<Sum>l\<leftarrow>ls. debe_linea l)"
  "(\<Sum>g\<leftarrow>agrupar ls. gi_haber g) = (\<Sum>l\<leftarrow>ls. haber_linea l)"
  using suma_por_grupos [of "remdups (map clave_linea ls)" clave_linea ls debe_linea]
    suma_por_grupos [of "remdups (map clave_linea ls)" clave_linea ls haber_linea]
  by (simp_all add: agrupar_def Let_def comp_def)

lemma agrupar_tipo:
  "de_tipo t (agrupar ls) = agrupar (filter (\<lambda>(a, p, c). tipo_cuenta c = t) ls)"
proof -
  have k: "fst (clave_linea l) = t \<longleftrightarrow> (case l of (a, p, c) \<Rightarrow> tipo_cuenta c = t)" for l
    by (simp add: clave_linea_def split: prod.split)
  have "filter (\<lambda>k. fst k = t) (remdups (map clave_linea ls)) =
      remdups (map clave_linea (filter (\<lambda>(a, p, c). tipo_cuenta c = t) ls))"
    by (simp add: remdups_filter [symmetric] filter_map comp_def k)
  moreover have "filter (\<lambda>l. clave_linea l = k') (filter (\<lambda>(a, p, c). tipo_cuenta c = t) ls) =
      filter (\<lambda>l. clave_linea l = k') ls" if "fst k' = t" for k'
    unfolding filter_filter using that k by (intro filter_cong) auto
  ultimately show ?thesis
    by (auto simp: agrupar_def de_tipo_def filter_map comp_def Let_def k split: prod.split
        intro!: map_cong)
qed

lemma saldo_suma: "(\<Sum>g\<leftarrow>agrupar ls. saldo_grupo g) = (\<Sum>l\<leftarrow>ls. debe_linea l - haber_linea l)"
  by (simp add: saldo_grupo_def suma_resta agrupar_suma)

lemma saldo_de_tipo:
  "(\<Sum>g\<leftarrow>de_tipo t (por_tipo_y_codigo (agrupar ls)). saldo_grupo g) =
     (\<Sum>l\<leftarrow>filter (\<lambda>(a, p, c). tipo_cuenta c = t) ls. debe_linea l - haber_linea l)"
  unfolding por_tipo_y_codigo_def de_tipo_def filter_sort suma_sort_key
  unfolding de_tipo_def [symmetric] agrupar_tipo saldo_suma ..

section \<open>The lines of a report\<close>

text \<open>Every line is on an account of the chart, whose ids are unique.\<close>

definition cuentas_en_plan :: "'a bd_asi_scheme \<Rightarrow> bool" where
  "cuentas_en_plan s \<longleftrightarrow> distinct (map cc_id (plan_cuentas s)) \<and>
     list_all (\<lambda>a. list_all (\<lambda>p. cuenta_id p \<in> cc_id ` set (plan_cuentas s)) (partidas a)) (asientos s)"

lemma filtro_unico:
  "distinct (map k xs) \<Longrightarrow> i \<in> k ` set xs \<Longrightarrow> \<exists>x. filter (\<lambda>x. k x = i) xs = [x]"
proof (induction xs)
  case (Cons y ys)
  show ?case
  proof (cases "k y = i")
    case True
    with Cons.prems have "filter (\<lambda>x. k x = i) ys = []" by (auto simp: filter_empty_conv image_iff)
    with True show ?thesis by simp
  qed (use Cons in auto)
qed simp

lemma suma_lineas:
  fixes f :: "asiento \<Rightarrow> partida \<Rightarrow> rat"
  assumes "cuentas_en_plan s"
  shows "(\<Sum>(a, p, c)\<leftarrow>lineas_informe q s. f a p) = (\<Sum>a\<leftarrow>filter (en_informe q) (asientos s). \<Sum>p\<leftarrow>partidas a. f a p)"
proof -
  have "(\<Sum>c\<leftarrow>filter (\<lambda>c. cc_id c = cuenta_id p) (plan_cuentas s). f a p) = f a p"
    if "a \<in> set (asientos s)" "p \<in> set (partidas a)" for a p
    using filtro_unico [of cc_id "plan_cuentas s" "cuenta_id p"] assms that
    by (auto simp: cuentas_en_plan_def list_all_iff)
  then show ?thesis unfolding lineas_informe_def suma_concat map_map comp_def
    by (intro arg_cong [where f = sum_list] map_cong refl) (simp only: set_filter mem_Collect_eq prod.case)
qed

lemma suma_lineas_dh:
  assumes "cuentas_en_plan s"
  shows "(\<Sum>l\<leftarrow>lineas_informe q s. debe_linea l) = (\<Sum>a\<leftarrow>filter (en_informe q) (asientos s). totalDebe (partidas a))"
    and "(\<Sum>l\<leftarrow>lineas_informe q s. haber_linea l) = (\<Sum>a\<leftarrow>filter (en_informe q) (asientos s). totalHaber (partidas a))"
  using suma_lineas [OF assms, of "\<lambda>_. debe" q] suma_lineas [OF assms, of "\<lambda>_. haber" q]
  by (simp_all add: debe_linea_def haber_linea_def totales_defs split_def)

section \<open>The trial balance\<close>

definition cuadran :: "fr_query \<Rightarrow> 'a bd_asi_scheme \<Rightarrow> bool" where
  "cuadran q s \<longleftrightarrow> list_all (\<lambda>a. totalDebe (partidas a) = totalHaber (partidas a)) (filter (en_informe q) (asientos s))"

lemma cuadran_lineas:
  assumes "cuentas_en_plan s" "cuadran q s"
  shows "(\<Sum>l\<leftarrow>lineas_informe q s. debe_linea l) = (\<Sum>l\<leftarrow>lineas_informe q s. haber_linea l)"
  unfolding suma_lineas_dh [OF assms(1)]
  by (rule arg_cong [where f = sum_list], rule map_cong) (use assms(2) in \<open>auto simp: cuadran_def list_all_iff\<close>)

text \<open>The trial balance of balanced entries: its debits and credits are those of the entries it selects,
  and they agree; the debit balances are equal to the credit balances; an account has one line.\<close>

theorem getTrialBalance_balanced:
  assumes run: "getTrialBalance q s = (Inr r, s')" and plan: "cuentas_en_plan s" and bal: "cuadran q s"
  shows "s' = s \<and> ss_debe r = (\<Sum>a\<leftarrow>filter (en_informe q) (asientos s). totalDebe (partidas a)) \<and>
     ss_haber r = ss_debe r \<and> ss_balanceado r \<and> saldo_deudor r = saldo_acreedor r \<and>
     distinct (map (\<lambda>g. (gi_tipo g, gi_codigo g, gi_nombre g)) (ss_cuentas r))"
proof -
  let ?ls = "lineas_informe q s"
  let ?ps = "por_tipo_y_codigo (agrupar ?ls)"
  have d: "(\<Sum>g\<leftarrow>?ps. gi_debe g) = (\<Sum>l\<leftarrow>?ls. debe_linea l)" "(\<Sum>g\<leftarrow>?ps. gi_haber g) = (\<Sum>l\<leftarrow>?ls. haber_linea l)"
    by (simp_all add: por_tipo_y_codigo_def suma_sort_key agrupar_suma)
  have partes: "(\<Sum>g\<leftarrow>gs. if saldo_grupo g > 0 then saldo_grupo g else 0) -
      (\<Sum>g\<leftarrow>gs. if saldo_grupo g < 0 then \<bar>saldo_grupo g\<bar> else 0) = (\<Sum>g\<leftarrow>gs. saldo_grupo g)" for gs
    by (induction gs) auto
  have "(\<Sum>g\<leftarrow>?ps. saldo_grupo g) = 0"
    using cuadran_lineas [OF plan bal] d by (simp add: saldo_grupo_def suma_resta)
  moreover have "distinct (map (\<lambda>g. (gi_tipo g, gi_codigo g, gi_nombre g)) ?ps)"
  proof -
    have "map (\<lambda>g. (gi_tipo g, gi_codigo g, gi_nombre g)) (agrupar ?ls) = remdups (map clave_linea ?ls)"
      by (simp add: agrupar_def Let_def comp_def)
    then have "distinct (map (\<lambda>g. (gi_tipo g, gi_codigo g, gi_nombre g)) (agrupar ?ls))" by simp
    then show ?thesis unfolding por_tipo_y_codigo_def by (simp add: distinct_map_sort_key)
  qed
  moreover have "s' = s" "ss_cuentas r = ?ps" "ss_debe r = (\<Sum>g\<leftarrow>?ps. gi_debe g)" "ss_haber r = (\<Sum>g\<leftarrow>?ps. gi_haber g)"
    "ss_balanceado r \<longleftrightarrow> \<bar>(\<Sum>g\<leftarrow>?ps. gi_debe g) - (\<Sum>g\<leftarrow>?ps. gi_haber g)\<bar> < 1 / 100"
    "saldo_deudor r = (\<Sum>g\<leftarrow>?ps. if saldo_grupo g > 0 then saldo_grupo g else 0)"
    "saldo_acreedor r = (\<Sum>g\<leftarrow>?ps. if saldo_grupo g < 0 then \<bar>saldo_grupo g\<bar> else 0)"
    using run by (auto simp: getTrialBalance_def gets_def Let_def)
  ultimately show ?thesis
    using partes [of ?ps] cuadran_lineas [OF plan bal] suma_lineas_dh [OF plan, of q] unfolding d by simp
qed

section \<open>The balance sheet\<close>

text \<open>What the lines of a predicate add up to, and what the ledger says of the cash accounts.\<close>

definition neto :: "(linea_informe \<Rightarrow> bool) \<Rightarrow> linea_informe list \<Rightarrow> monto" where
  "neto P ls = (\<Sum>l\<leftarrow>filter P ls. debe_linea l - haber_linea l)"

definition es_balance :: "linea_informe \<Rightarrow> bool" where
  "es_balance = (\<lambda>(a, p, c). tipo_cuenta c \<in> {ACTIVO, PASIVO, PATRIMONIO_NETO})"

definition es_efectivo :: "linea_informe \<Rightarrow> bool" where
  "es_efectivo = (\<lambda>(a, p, c). codigo c \<in> set codigos_efectivo)"

definition con_tipo :: "tipo_cuenta \<Rightarrow> linea_informe \<Rightarrow> bool" where
  "con_tipo t = (\<lambda>(a, p, c). tipo_cuenta c = t)"

definition caja_contable :: "fr_query \<Rightarrow> 'a bd_asi_scheme \<Rightarrow> monto" where
  "caja_contable q s = neto (\<lambda>l. es_balance l \<and> es_efectivo l) (lineas_informe q s)"

lemma neto_parte: "neto P ls = neto (\<lambda>l. P l \<and> Q l) ls + neto (\<lambda>l. P l \<and> \<not> Q l) ls"
  by (induction ls) (simp_all add: neto_def)

lemma neto_tipos:
  "neto (\<lambda>_. True) ls = neto (\<lambda>l. es_balance l \<and> es_efectivo l) ls +
     neto (\<lambda>l. con_tipo ACTIVO l \<and> \<not> es_efectivo l) ls + neto (\<lambda>l. con_tipo PASIVO l \<and> \<not> es_efectivo l) ls +
     neto (\<lambda>l. con_tipo PATRIMONIO_NETO l \<and> \<not> es_efectivo l) ls +
     neto (con_tipo INGRESO_CTA) ls + neto (con_tipo EGRESO_CTA) ls"
proof (induction ls)
  case (Cons l ls)
  obtain a p c where l: "l = (a, p, c)" by (cases l)
  show ?case using Cons unfolding neto_def l
    by (cases "tipo_cuenta c") (auto simp: es_balance_def con_tipo_def es_efectivo_def)
qed (simp add: neto_def)

lemma balance_tipo:
  assumes "t \<in> {ACTIVO, PASIVO, PATRIMONIO_NETO}"
  shows "(\<Sum>g\<leftarrow>de_tipo t (partidas_balance q s). saldo_grupo g) =
     neto (\<lambda>l. con_tipo t l \<and> \<not> es_efectivo l) (lineas_informe q s)"
proof -
  have "filter (\<lambda>(a, p, c). tipo_cuenta c = t) (filter (\<lambda>(a, p, c). tipo_cuenta c \<in> {ACTIVO, PASIVO, PATRIMONIO_NETO} \<and>
      codigo c \<notin> set codigos_efectivo) ls) = filter (\<lambda>l. con_tipo t l \<and> \<not> es_efectivo l) ls" for ls
    unfolding filter_filter using assms by (intro filter_cong) (auto simp: con_tipo_def es_efectivo_def)
  then show ?thesis unfolding partidas_balance_def saldo_de_tipo neto_def by simp
qed

lemma resultado_tipo:
  assumes "t \<in> {INGRESO_CTA, EGRESO_CTA}"
  shows "(\<Sum>g\<leftarrow>de_tipo t (partidas_resultado q s). saldo_grupo g) = neto (con_tipo t) (lineas_informe q s)"
proof -
  have "filter (\<lambda>(a, p, c). tipo_cuenta c = t) (filter (\<lambda>(a, p, c). tipo_cuenta c \<in> {INGRESO_CTA, EGRESO_CTA}) ls) =
      filter (con_tipo t) ls" for ls
    unfolding filter_filter using assms by (intro filter_cong) (auto simp: con_tipo_def)
  then show ?thesis unfolding partidas_resultado_def de_tipo_def filter_sort suma_sort_key
    unfolding de_tipo_def [symmetric] agrupar_tipo saldo_suma neto_def by simp
qed

lemma resultado_neto_lineas:
  assumes "getIncomeStatement q s = (Inr r, s')"
  shows "resultado_neto r = - neto (con_tipo INGRESO_CTA) (lineas_informe q s) - neto (con_tipo EGRESO_CTA) (lineas_informe q s)"
proof -
  have i: "(\<Sum>x\<leftarrow>con_monto (de_tipo INGRESO_CTA gs). snd x) = - (\<Sum>g\<leftarrow>de_tipo INGRESO_CTA gs. saldo_grupo g)"
    "(\<Sum>x\<leftarrow>con_monto (de_tipo EGRESO_CTA gs). snd x) = (\<Sum>g\<leftarrow>de_tipo EGRESO_CTA gs. saldo_grupo g)" for gs
    by (induction gs) (auto simp: con_monto_def de_tipo_def monto_resultado_def saldo_grupo_def)
  have "resultado_neto r = (\<Sum>x\<leftarrow>con_monto (de_tipo INGRESO_CTA (partidas_resultado q s)). snd x) -
      (\<Sum>x\<leftarrow>con_monto (de_tipo EGRESO_CTA (partidas_resultado q s)). snd x)"
    using assms by (auto simp: getIncomeStatement_def gets_def Let_def)
  then show ?thesis unfolding i by (simp add: resultado_tipo)
qed


section \<open>What the reports do not see\<close>

lemma lineas_sin:
  assumes "list_all (\<lambda>a. \<not> en_informe q a) (asientos s)"
  shows "lineas_informe q s = []"
  using assms by (auto simp: lineas_informe_def list_all_iff filter_empty_conv)

text \<open>With a date in the request every report is empty: the filter is on a field that no entry has. Then the
  trial balance has no account and is balanced, the result is 0, the cash flow has no movement
  and announces the current cash as the opening balance of the period. The verification of the
  cash flow holds in every report, because the opening balance is computed from it.\<close>

theorem dated_reports_empty:
  assumes d: "fr_desde q \<noteq> None \<or> fr_hasta q \<noteq> None"
    and runs: "getTrialBalance q s = (Inr t, s1)" "getIncomeStatement q s = (Inr r, s2)" "getCashFlow q s = (Inr f, s3)"
      "getCashFlow q' s = (Inr f', s4)"
  shows "ss_cuentas t = [] \<and> ss_balanceado t \<and> resultado_neto r = 0 \<and> fc_ingresos f = [] \<and> fc_egresos f = [] \<and>
     fc_saldo_inicial f = (\<Sum>cf\<leftarrow>cuentas_activas s. saldo_inicial cf) \<and> fc_balanceado f'"
proof -
  have "\<not> en_informe q a" for a
    using d by (auto simp: en_informe_def fecha_asiento_def split: option.splits)
  then have 0: "lineas_informe q s = []" by (intro lineas_sin) (simp add: list_all_iff)
  have "ss_cuentas t = [] \<and> ss_balanceado t"
    using runs(1) by (auto simp: getTrialBalance_def gets_def Let_def 0 agrupar_def por_tipo_y_codigo_def)
  moreover have "resultado_neto r = 0" by (simp add: resultado_neto_lineas [OF runs(2)] 0 neto_def)
  moreover have "fc_ingresos f = []" "fc_egresos f = []" "fc_saldo_inicial f = (\<Sum>cf\<leftarrow>cuentas_activas s. saldo_inicial cf)"
    using runs(3) by (auto simp: getCashFlow_def gets_def Let_def 0 movimientos_efectivo_def)
  moreover have "fc_balanceado f'"
    using runs(4) by (auto simp: getCashFlow_def gets_def Let_def)
  ultimately show ?thesis by simp
qed

lemma lineas_save:
  assumes "asientos s' = save_doc a_id a' (asientos s)" "plan_cuentas s' = plan_cuentas s" "\<not> en_informe q a'"
  shows "lineas_informe q s' = filter (\<lambda>l. a_id (fst l) \<noteq> a_id a') (lineas_informe q s)"
proof -
  let ?L = "\<lambda>a. concat (map (\<lambda>p. map (\<lambda>c. (a, p, c)) (filter (\<lambda>c. cc_id c = cuenta_id p) (plan_cuentas s))) (partidas a))"
  have k: "filter (\<lambda>l. a_id (fst l) \<noteq> a_id a') (?L a) = (if a_id a = a_id a' then [] else ?L a)" for a
    by (auto simp: filter_concat comp_def filter_map filter_empty_conv)
  have "concat (map ?L (filter (en_informe q) (save_doc a_id a' as))) =
      filter (\<lambda>l. a_id (fst l) \<noteq> a_id a') (concat (map ?L (filter (en_informe q) as)))" for as
    using assms(3) by (induction as) (simp_all add: col_simps k)
  then show ?thesis unfolding lineas_informe_def assms(1,2) .
qed

lemma registerPayment_guarda:
  assumes "registerPayment i dto s = (Inr a', s')"
  shows "asientos s' = save_doc a_id a' (asientos s) \<and> plan_cuentas s' = plan_cuentas s \<and> a_id a' = i"
  using assms
  by (auto simp: registerPayment_def proc_simps guardarAsiento_run updateBalance_asientos find_id_key
      con_asientos_def con_fin_def dest!: updateBalance_Inr split: if_splits)

lemma debe_linea_fst: "debe_linea l = debe (fst (snd l))"
  by (simp add: debe_linea_def split_def)

lemma sum_list_cero: "(\<And>x. x \<in> set xs \<Longrightarrow> f x = (0::rat)) \<Longrightarrow> (\<Sum>x\<leftarrow>xs. f x) = 0"
  by (induction xs) auto

lemma totalDebe_si: "(\<Sum>p\<leftarrow>ps. if b then debe p else 0) = (if b then totalDebe ps else 0)"
  by (simp add: totalDebe_def)

lemma suma_de_uno:
  fixes F :: "asiento \<Rightarrow> rat"
  assumes "distinct (map a_id as)" "find_id a_id i as = Some a"
  shows "(\<Sum>x\<leftarrow>filter Q as. if a_id x = i then F x else 0) = (if Q a then F a else 0)"
  using assms
proof (induction as)
  case (Cons y ys)
  have "(\<Sum>x\<leftarrow>filter Q ys. if a_id x = i then F x else 0) = 0" if "a_id y = i"
    using Cons.prems(1) that by (intro sum_list_cero) (auto simp: image_iff)
  with Cons show ?case by (auto simp: col_simps split: if_splits)
qed (simp add: col_simps)

text \<open>Collecting the last of a debt takes the entry out of the reports while its credits are not settled: the
  payment leaves it COBRADO, a state the four reports leave out. Its lines disappear from them, and a
  trial balance that had counted the part payments loses the whole entry.\<close>

theorem collected_leaves_reports:
  assumes pago: "registerPayment i dto s = (Inr a', s')" "estado a' = COBRADO"
    and a: "asiento_de i s = Some a" and ids: "distinct (map a_id (asientos s))" and plan: "cuentas_en_plan s"
    and runs: "getTrialBalance q s = (Inr t, u)" "getTrialBalance q s' = (Inr t', u')"
  shows "lineas_informe q s' = filter (\<lambda>l. a_id (fst l) \<noteq> i) (lineas_informe q s) \<and>
     ss_debe t' = ss_debe t - (if en_informe q a then totalDebe (partidas a) else 0)"
proof -
  note g = registerPayment_guarda [OF pago(1)]
  have "\<not> en_informe q a'" using pago(2) by (simp add: en_informe_def)
  with g have ls: "lineas_informe q s' = filter (\<lambda>l. a_id (fst l) \<noteq> i) (lineas_informe q s)"
    using lineas_save [of s' a' s q] by auto
  have t: "ss_debe t = (\<Sum>l\<leftarrow>lineas_informe q s. debe_linea l)" "ss_debe t' = (\<Sum>l\<leftarrow>lineas_informe q s'. debe_linea l)"
    using runs by (auto simp: getTrialBalance_def gets_def Let_def por_tipo_y_codigo_def suma_sort_key agrupar_suma)
  have "(\<Sum>l\<leftarrow>filter (\<lambda>l. a_id (fst l) = i) (lineas_informe q s). debe_linea l) =
      (if en_informe q a then totalDebe (partidas a) else 0)"
    unfolding sum_list_map_filter' debe_linea_fst using suma_lineas [OF plan, of "\<lambda>a p. if a_id a = i then debe p else 0" q]
    by (simp add: split_def totalDebe_si suma_de_uno [OF ids a])
  then show ?thesis
    using ls t suma_filtro_partes [of debe_linea "\<lambda>l. a_id (fst l) = i" "lineas_informe q s"] by simp
qed

section \<open>Instances\<close>

text \<open>A rent of 1000 (tenant, on an asset account), 900 owed to the landlord (a liability) and 100 of
  fees (income), and a box with 50.\<close>

definition cuenta_inf :: "oid \<Rightarrow> tipo_cuenta \<Rightarrow> string \<Rightarrow> cuenta_contable" where
  "cuenta_inf i t c = \<lparr>cc_id = i, codigo = c, cc_nombre = c, tipo_cuenta = t, cc_descripcion = None,
     cuenta_padre_id = None, es_imputable = True, tasa_iva_aplicable = 0, es_facturable = False\<rparr>"

definition bd_inf :: "estado \<Rightarrow> bd_asi" where
  "bd_inf e = bd0\<lparr>plan_cuentas := [cuenta_inf 1 ACTIVO ''CXC_ALQ'', cuenta_inf 2 PASIVO ''CXP_LOC'', cuenta_inf 3 INGRESO_CTA ''ING_HNR''],
     asientos := [alquiler\<lparr>estado := e,
       partidas := [partida0\<lparr>debe := 1000, p_agente_id := Some 1\<rparr>,
         partida0\<lparr>cuenta_id := 2, haber := 900, p_agente_id := Some 2\<rparr>, partida0\<lparr>cuenta_id := 3, haber := 100\<rparr>]\<rparr>]\<rparr>"

definition sin_fechas :: fr_query where
  "sin_fechas = \<lparr>fr_desde = None, fr_hasta = None\<rparr>"

lemma informe_run: "getTrialBalance q s = (Inr (valor (getTrialBalance q) s), s)"
  "getBalanceSheet q s = (Inr (valor (getBalanceSheet q) s), s)"
  "getIncomeStatement q s = (Inr (valor (getIncomeStatement q) s), s)"
  "getCashFlow q s = (Inr (valor (getCashFlow q) s), s)"
  by (simp_all add: getTrialBalance_def getBalanceSheet_def getIncomeStatement_def getCashFlow_def gets_def valor_def)

lemma bd_inf_ok: "cuentas_en_plan (bd_inf PAGADO) \<and> cuadran sin_fechas (bd_inf PAGADO) \<and>
    cuentas_en_plan (bd_inf PAGADO_PARCIAL) \<and> distinct (map a_id (asientos (bd_inf PAGADO_PARCIAL)))"
  by code_simp

theorem getTrialBalance_balanced_witness:
  "ss_debe (valor (getTrialBalance sin_fechas) (bd_inf PAGADO)) = 1000 \<and>
   ss_haber (valor (getTrialBalance sin_fechas) (bd_inf PAGADO)) = 1000 \<and>
   saldo_deudor (valor (getTrialBalance sin_fechas) (bd_inf PAGADO)) = saldo_acreedor (valor (getTrialBalance sin_fechas) (bd_inf PAGADO))"
proof -
  have "(\<Sum>a\<leftarrow>filter (en_informe sin_fechas) (asientos (bd_inf PAGADO)). totalDebe (partidas a)) = 1000" by code_simp
  with getTrialBalance_balanced [OF informe_run(1), of "bd_inf PAGADO" sin_fechas] bd_inf_ok show ?thesis by simp
qed


theorem dated_reports_empty_witness:
  "ss_cuentas (valor (getTrialBalance \<lparr>fr_desde = Some 0, fr_hasta = None\<rparr>) (bd_inf PAGADO)) = [] \<and>
   fc_saldo_inicial (valor (getCashFlow \<lparr>fr_desde = Some 0, fr_hasta = None\<rparr>) (bd_inf PAGADO)) = 50"
proof -
  have "(\<Sum>cf\<leftarrow>cuentas_activas (bd_inf PAGADO). saldo_inicial cf) = 50" by code_simp
  with dated_reports_empty [OF _ informe_run(1) informe_run(3) informe_run(4) informe_run(4),
    of "\<lparr>fr_desde = Some 0, fr_hasta = None\<rparr>" "bd_inf PAGADO" sin_fechas] show ?thesis by simp
qed

theorem collected_leaves_reports_witness:
  "ss_debe (valor (getTrialBalance sin_fechas) (bd_inf PAGADO_PARCIAL)) = 1000 \<and>
   ss_debe (valor (getTrialBalance sin_fechas) (final (registerPayment 10 (pago0 1000)) (bd_inf PAGADO_PARCIAL))) = 1000 - 1000"
proof -
  let ?s = "bd_inf PAGADO_PARCIAL"
  have e: "exito (registerPayment 10 (pago0 1000)) ?s"
    "estado (valor (registerPayment 10 (pago0 1000)) ?s) = COBRADO" by code_simp+
  have a: "asiento_de 10 ?s = Some (hd (asientos ?s))" by code_simp
  have t: "ss_debe (valor (getTrialBalance sin_fechas) ?s) = 1000" "en_informe sin_fechas (hd (asientos ?s))"
    "totalDebe (partidas (hd (asientos ?s))) = 1000" by code_simp+
  from collected_leaves_reports [OF exito_run [OF e(1)] e(2) a _ _ informe_run(1) informe_run(1), of sin_fechas] bd_inf_ok t
  show ?thesis by simp
qed

end
