(* ===== verification/ContractReports.thy ===== *)
theory ContractReports
  imports Contracts "HOL-Library.Product_Lexorder"
begin

text \<open>
  \<^verbatim>\<open>contract-reports.service.ts\<close>: the dashboard of the contracts, with its eight figures. The
  label of a month (\<^verbatim>\<open>toFormat('LLL yyyy')\<close>) and the title of a property are parameters.
\<close>

section \<open>Counts\<close>

record distribucion_estados =
  n_vigente :: nat
  n_rescindido :: nat
  n_finalizado :: nat
  n_pendiente :: nat

definition contar :: "estado_contrato \<Rightarrow> contrato list \<Rightarrow> nat" where
  "contar e cs = length (filter (\<lambda>c. ct_status c = e) cs)"

definition getStatusDistribution :: "contrato list \<Rightarrow> distribucion_estados" where
  "getStatusDistribution cs = \<lparr>n_vigente = contar C_VIGENTE cs, n_rescindido = contar C_RESCINDIDO cs,
     n_finalizado = contar C_FINALIZADO cs, n_pendiente = contar C_PENDIENTE cs\<rparr>"

definition vigentes :: "contrato list \<Rightarrow> contrato list" where
  "vigentes cs = filter (\<lambda>c. ct_status c = C_VIGENTE) cs"

text \<open>The filter of the contracts that end or are adjusted soon: a missing date is not before any.\<close>

definition vence_pronto :: "fecha \<Rightarrow> contrato \<Rightarrow> bool" where
  "vence_pronto next90Days c \<longleftrightarrow> ct_status c = C_VIGENTE \<and>
     (fecha_final c \<le> next90Days \<or>
      (case ajuste_programado c of None \<Rightarrow> False | Some a \<Rightarrow> a \<le> next90Days))"

definition getDueSoonCount :: "fecha \<Rightarrow> contrato list \<Rightarrow> nat" where
  "getDueSoonCount next90Days cs = length (filter (vence_pronto next90Days) cs)"

definition monto_vigente :: "contrato \<Rightarrow> monto" where
  "monto_vigente c = monto_base_vigente (terminos_financieros c)"

definition getAvgMonthlyValue :: "contrato list \<Rightarrow> monto" where
  "getAvgMonthlyValue cs =
     (if vigentes cs = [] then 0 else (\<Sum>c\<leftarrow>vigentes cs. monto_vigente c) / of_nat (length (vigentes cs)))"

fun rol_nombre :: "agente_rol \<Rightarrow> string" where
  "rol_nombre CLIENTE = ''CLIENTE''"
| "rol_nombre LOCADOR = ''LOCADOR''"
| "rol_nombre LOCATARIO = ''LOCATARIO''"
| "rol_nombre FIADOR = ''FIADOR''"
| "rol_nombre PROVEEDOR = ''PROVEEDOR''"
| "rol_nombre PROVEEDOR_SERVICIO_PUBLICO = ''PROVEEDOR_SERVICIO_PUBLICO''"
| "rol_nombre INMOBILIARIA = ''INMOBILIARIA''"
| "rol_nombre COMPRADOR = ''COMPRADOR''"
| "rol_nombre VENDEDOR = ''VENDEDOR''"

text \<open>The groups by role overwrite the three initial keys or are appended.\<close>

definition getAgentRoleCount :: "contrato list \<Rightarrow> (string \<times> nat) list" where
  "getAgentRoleCount cs =
     (let roles = map pt_rol (concat (map partes (vigentes cs)))
      in fold (\<lambda>r m. AList.update (rol_nombre r) (count_list roles r) m) (remdups roles)
           [(''LOCADOR'', 0), (''LOCATARIO'', 0), (''GARANTE'', 0)])"

text \<open>\<^verbatim>\<open>getRescissionData\<close> and \<^verbatim>\<open>calculateRescissionRate\<close>, to one decimal.\<close>

definition getRescissionData :: "contrato list \<Rightarrow> nat \<times> nat" where
  "getRescissionData cs = (contar C_RESCINDIDO cs, contar C_FINALIZADO cs)"

definition calculateRescissionRate :: "nat \<times> nat \<Rightarrow> rat" where
  "calculateRescissionRate = (\<lambda>(rescindidos, finalizados).
     if rescindidos + finalizados = 0 then 0
     else of_int (math_round (of_nat rescindidos / of_nat (rescindidos + finalizados) * 100 * 10)) / 10)"

section \<open>Maturity\<close>

definition mes_aprox :: int where
  "mes_aprox = 1000 * 60 * 60 * 24 * 30"

definition duracion_aprox :: "contrato \<Rightarrow> rat" where
  "duracion_aprox c = of_int (fecha_final c - fecha_inicio c) / of_int mes_aprox"

text \<open>The bucket of a duration: its index among the boundaries 0, 12, 24, 36, 1000, and 4 for the
  default one, whose id is a text and comes after the numbers.\<close>

definition balde :: "rat \<Rightarrow> nat" where
  "balde d = (if 0 \<le> d \<and> d < 12 then 0 else if 12 \<le> d \<and> d < 24 then 1 else if 24 \<le> d \<and> d < 36 then 2
     else if 36 \<le> d \<and> d < 1000 then 3 else 4)"

definition en_balde :: "contrato list \<Rightarrow> nat \<Rightarrow> nat" where
  "en_balde cs i = length (filter (\<lambda>c. balde (duracion_aprox c) = i) (vigentes cs))"

text \<open>\<^verbatim>\<open>$bucket\<close> returns the buckets that have documents, in order.\<close>

definition baldes :: "contrato list \<Rightarrow> nat list" where
  "baldes cs = filter (\<lambda>n. n > 0) (map (en_balde cs) [0..<5])"

text \<open>The labels are given by position; a fifth bucket would set the key \<^verbatim>\<open>undefined\<close>.\<close>

record madurez =
  m_0_12 :: nat
  m_12_24 :: nat
  m_24_36 :: nat
  m_36_mas :: nat
  m_undefined :: "nat option"

definition nth_o_cero :: "nat list \<Rightarrow> nat \<Rightarrow> nat" where
  "nth_o_cero ns i = (if i < length ns then ns ! i else 0)"

definition getMaturityDistribution :: "contrato list \<Rightarrow> madurez" where
  "getMaturityDistribution cs =
     (let r = baldes cs
      in \<lparr>m_0_12 = nth_o_cero r 0, m_12_24 = nth_o_cero r 1, m_24_36 = nth_o_cero r 2,
          m_36_mas = nth_o_cero r 3, m_undefined = (if 4 < length r then Some (r ! 4) else None)\<rparr>)"

section \<open>Projection\<close>

text \<open>\<^verbatim>\<open>calculateLinearRegression\<close> on the values of the series; slope and intercept.\<close>

definition calculateLinearRegression :: "rat list \<Rightarrow> rat \<times> rat" where
  "calculateLinearRegression ys =
     (let n = length ys in
      if n < 2 then (0, 0)
      else
        let xs = map rat_of_nat [0..<n];
            sumX = (\<Sum>x\<leftarrow>xs. x); sumY = (\<Sum>y\<leftarrow>ys. y);
            sumXY = (\<Sum>(x, y)\<leftarrow>zip xs ys. x * y);
            sumX2 = (\<Sum>x\<leftarrow>xs. x * x);
            slope = (of_nat n * sumXY - sumX * sumY) / (of_nat n * sumX2 - sumX * sumX);
            intercept = (sumY - slope * sumX) / of_nat n
        in (slope, intercept))"

definition ingreso_del_mes :: "contrato list \<Rightarrow> fecha \<Rightarrow> monto" where
  "ingreso_del_mes cs mes = (\<Sum>c\<leftarrow>filter (\<lambda>c. fecha_inicio c \<le> mes \<and> mes \<le> fecha_final c) cs. monto_vigente c)"

definition historico :: "fecha \<Rightarrow> contrato list \<Rightarrow> contrato list" where
  "historico now cs = filter (\<lambda>c. ct_status c \<in> {C_VIGENTE, C_FINALIZADO, C_RESCINDIDO} \<and> fecha_inicio c \<le> now) cs"

text \<open>The loop of the projection: each month is computed from the last value of the series, which
  is the one the loop has just appended.\<close>

definition proyectar :: "rat \<Rightarrow> nat \<Rightarrow> rat list \<Rightarrow> rat list" where
  "proyectar slope i vs = vs @ [of_int (math_round (max 0 (last vs + slope * of_nat i)))]"

definition proyeccion :: "rat list \<Rightarrow> rat list" where
  "proyeccion vs = fold (proyectar (fst (calculateLinearRegression vs))) [1, 2, 3] vs"

definition getBillingProjection ::
  "luxon \<Rightarrow> (fecha \<Rightarrow> string) \<Rightarrow> fecha \<Rightarrow> contrato list \<Rightarrow> (string \<times> rat \<times> bool) list" where
  "getBillingProjection lx etiqueta now cs =
     (let h = historico now cs;
          pasados = map (\<lambda>i. lx_plus lx now (- int i) 0) (rev [0..<12]);
          futuros = map (\<lambda>i. lx_plus lx now (int i) 0) [1, 2, 3];
          vs = proyeccion (map (ingreso_del_mes h) pasados)
      in map (\<lambda>(i, f, v). (etiqueta f, v, i \<ge> length vs - 3))
           (zip [0..<length vs] (zip (pasados @ futuros) vs)))"

section \<open>Upcoming contracts\<close>

datatype accion_contrato = VENCIMIENTO | AJUSTE

record proximo_contrato =
  px_contractId :: oid
  px_propertyName :: string
  px_locatarioName :: string
  px_dueDate :: fecha
  px_daysRemaining :: int
  px_actionType :: accion_contrato
  px_currentAmount :: monto

text \<open>\<^verbatim>\<open>nombre\<close> is not a path of the schema of an agent.\<close>

definition nombre_agente :: "agente \<Rightarrow> string option" where
  "nombre_agente a = None"

definition fecha_proxima :: "contrato \<Rightarrow> fecha \<times> accion_contrato" where
  "fecha_proxima c = (case ajuste_programado c of
       Some a \<Rightarrow> if a < fecha_final c then (a, AJUSTE) else (fecha_final c, VENCIMIENTO)
     | None \<Rightarrow> (fecha_final c, VENCIMIENTO))"

definition fila_proxima ::
  "luxon \<Rightarrow> (propiedad \<Rightarrow> string option) \<Rightarrow> fecha \<Rightarrow> propiedad list \<Rightarrow> agente list \<Rightarrow> contrato \<Rightarrow> proximo_contrato" where
  "fila_proxima lx titulo now ps ags c =
     (let locatario = find (\<lambda>p. pt_rol p = LOCATARIO) (partes c);
          (due, acc) = fecha_proxima c
      in \<lparr>px_contractId = ct_id c,
          px_propertyName = o_texto (case find_id pp_id (propiedad_id c) ps of None \<Rightarrow> None | Some p \<Rightarrow> titulo p) ''Sin titulo'',
          px_locatarioName = o_texto (case locatario of None \<Rightarrow> None
             | Some p \<Rightarrow> (case find_id ag_id (pt_agente_id p) ags of None \<Rightarrow> None | Some a \<Rightarrow> nombre_agente a)) ''Sin locatario'',
          px_dueDate = due, px_daysRemaining = \<lceil>lx_dias lx due now\<rceil>, px_actionType = acc,
          px_currentAmount = monto_vigente c\<rparr>)"

text \<open>The sort puts a missing adjustment date before any other.\<close>

definition clave_proximo :: "contrato \<Rightarrow> fecha \<times> nat \<times> fecha" where
  "clave_proximo c = (fecha_final c, case ajuste_programado c of None \<Rightarrow> (0, 0) | Some a \<Rightarrow> (1, a))"

definition getUpcomingContracts ::
  "luxon \<Rightarrow> (propiedad \<Rightarrow> string option) \<Rightarrow> fecha \<Rightarrow> fecha \<Rightarrow> 'a bd_ct_scheme \<Rightarrow> proximo_contrato list" where
  "getUpcomingContracts lx titulo now next90Days s =
     map (fila_proxima lx titulo now (propiedades s) (agentes s))
       (take 50 (sort_key clave_proximo (filter (vence_pronto next90Days) (contratos s))))"

section \<open>The summary\<close>

record dashboard =
  statusDistribution :: distribucion_estados
  dueSoonCount :: nat
  avgMonthlyValue :: monto
  agentRoleCount :: "(string \<times> nat) list"
  rescissionRate :: rat
  maturityDistribution :: madurez
  billingProjection :: "(string \<times> rat \<times> bool) list"
  upcomingContracts :: "proximo_contrato list"
  generatedAt :: fecha
  totalContracts :: nat
  activeContracts :: nat

definition getDashboardSummary ::
  "luxon \<Rightarrow> (fecha \<Rightarrow> string) \<Rightarrow> (propiedad \<Rightarrow> string option) \<Rightarrow> ('a bd_ct_scheme, dashboard) proc" where
  "getDashboardSummary lx etiqueta titulo = gets (\<lambda>s.
     let now = ahora s; next90Days = lx_plus lx now 0 90; cs = contratos s
     in \<lparr>statusDistribution = getStatusDistribution cs, dueSoonCount = getDueSoonCount next90Days cs,
         avgMonthlyValue = of_int (math_round (getAvgMonthlyValue cs * 100)) / 100,
         agentRoleCount = getAgentRoleCount cs,
         rescissionRate = calculateRescissionRate (getRescissionData cs),
         maturityDistribution = getMaturityDistribution cs,
         billingProjection = getBillingProjection lx etiqueta now cs,
         upcomingContracts = getUpcomingContracts lx titulo now next90Days s,
         generatedAt = now, totalContracts = length cs, activeContracts = contar C_VIGENTE cs\<rparr>)"

end
