(* ===== verification/ContractReportProperties.thy ===== *)
theory ContractReportProperties
  imports ContractReports ContractExamples Sums
begin

text \<open>
  The figures of the dashboard: the regression of the projection is the least-squares line, what
  the projection makes of it, which label a maturity gets, and the list of upcoming contracts.
\<close>

section \<open>Least squares\<close>

definition puntos :: "rat list \<Rightarrow> (rat \<times> rat) list" where
  "puntos ys = zip (map rat_of_nat [0..<length ys]) ys"

text \<open>The squared error of the line with slope \<open>b\<close> and intercept \<open>a\<close>.\<close>

definition error_cuadratico :: "rat \<Rightarrow> rat \<Rightarrow> rat list \<Rightarrow> rat" where
  "error_cuadratico a b ys = (\<Sum>(x, y)\<leftarrow>puntos ys. (y - (a + b * x)) ^ 2)"

lemma suma_fst_puntos:
  "(\<Sum>p\<leftarrow>puntos ys. f (fst p)) = (\<Sum>x\<leftarrow>map rat_of_nat [0..<length ys]. f x)"
  "(\<Sum>p\<leftarrow>puntos ys. g (snd p)) = (\<Sum>y\<leftarrow>ys. g y)"
proof -
  have f: "map fst (puntos ys) = map rat_of_nat [0..<length ys]" and g: "map snd (puntos ys) = ys"
    by (simp_all add: puntos_def)
  show "(\<Sum>p\<leftarrow>puntos ys. f (fst p)) = (\<Sum>x\<leftarrow>map rat_of_nat [0..<length ys]. f x)"
    unfolding f [symmetric] map_map comp_def ..
  have "map g (map snd (puntos ys)) = map g ys" unfolding g ..
  then have "map (\<lambda>p. g (snd p)) (puntos ys) = map g ys" by (simp only: map_map comp_def)
  then show "(\<Sum>p\<leftarrow>puntos ys. g (snd p)) = (\<Sum>y\<leftarrow>ys. g y)" by simp
qed

lemma suma_hasta: "2 * (\<Sum>x\<leftarrow>map rat_of_nat [0..<n]. x) = of_nat n * (of_nat n - 1)"
  by (induction n) (simp_all add: algebra_simps)

lemma suma_cuadrados: "6 * (\<Sum>x\<leftarrow>map rat_of_nat [0..<n]. x * x) = of_nat n * (of_nat n - 1) * (2 * of_nat n - 1)"
  by (induction n) (simp_all add: algebra_simps)

lemma determinante:
  assumes "2 \<le> n"
  shows "of_nat n * (\<Sum>x\<leftarrow>map rat_of_nat [0..<n]. x * x) - (\<Sum>x\<leftarrow>map rat_of_nat [0..<n]. x) * (\<Sum>x\<leftarrow>map rat_of_nat [0..<n]. x) > 0"
proof -
  let ?m = "rat_of_nat n" and ?S = "\<Sum>x\<leftarrow>map rat_of_nat [0..<n]. x" and ?Q = "\<Sum>x\<leftarrow>map rat_of_nat [0..<n]. x * x"
  have "12 * (?m * ?Q - ?S * ?S) = 2 * ?m * (6 * ?Q) - 3 * (2 * ?S) * (2 * ?S)" by (simp add: algebra_simps)
  also have "\<dots> = ?m * ?m * (?m * ?m - 1)" unfolding suma_hasta suma_cuadrados by (simp add: algebra_simps)
  also have "\<dots> > 0"
  proof -
    have "2 \<le> ?m" using assms by (metis of_nat_le_iff of_nat_numeral)
    then have "1 < ?m * ?m" using less_1_mult [of ?m ?m] by simp
    with \<open>2 \<le> ?m\<close> show ?thesis by simp
  qed
  finally show ?thesis by simp
qed

lemma ecuaciones_normales:
  assumes "2 \<le> length ys" and r: "calculateLinearRegression ys = (b, a)"
  shows "(\<Sum>(x, y)\<leftarrow>puntos ys. y - (a + b * x)) = 0" "(\<Sum>(x, y)\<leftarrow>puntos ys. x * (y - (a + b * x))) = 0"
proof -
  let ?n = "rat_of_nat (length ys)" and ?xs = "map rat_of_nat [0..<length ys]"
  let ?X = "\<Sum>x\<leftarrow>?xs. x" and ?Y = "\<Sum>y\<leftarrow>ys. y" and ?XX = "\<Sum>x\<leftarrow>?xs. x * x"
  let ?XY = "\<Sum>(x, y)\<leftarrow>puntos ys. x * y"
  let ?D = "?n * ?XX - ?X * ?X"
  have D: "?D \<noteq> 0" and n: "?n \<noteq> 0" using determinante [OF assms(1)] assms(1) by auto
  have b: "b = (?n * ?XY - ?X * ?Y) / ?D" and a: "a = (?Y - b * ?X) / ?n"
    using r assms(1) by (auto simp: calculateLinearRegression_def Let_def puntos_def)
  have suma: "(\<Sum>(x, y)\<leftarrow>ps. y - (a + b * x)) = (\<Sum>p\<leftarrow>ps. snd p) - (a * of_nat (length ps) + b * (\<Sum>p\<leftarrow>ps. fst p))"
    "(\<Sum>(x, y)\<leftarrow>ps. x * (y - (a + b * x))) = (\<Sum>(x, y)\<leftarrow>ps. x * y) - (a * (\<Sum>p\<leftarrow>ps. fst p) + b * (\<Sum>p\<leftarrow>ps. fst p * fst p))"
    for ps :: "(rat \<times> rat) list"
    by (induction ps) (auto simp: algebra_simps)
  have l: "length (puntos ys) = length ys" by (simp add: puntos_def)
  have an: "a * ?n = ?Y - b * ?X" using a n by simp
  show "(\<Sum>(x, y)\<leftarrow>puntos ys. y - (a + b * x)) = 0"
    unfolding suma l using an suma_fst_puntos [of "\<lambda>x. x" ys] suma_fst_puntos(2) [of "\<lambda>x. x" ys] by simp
  have "?n * (?XY - (a * ?X + b * ?XX)) = ?n * ?XY - (a * ?n) * ?X - b * (?n * ?XX)" by (simp add: algebra_simps)
  also have "\<dots> = (?n * ?XY - ?X * ?Y) - b * ?D" unfolding an by (simp add: algebra_simps)
  also have "\<dots> = 0" using b D by simp
  finally show "(\<Sum>(x, y)\<leftarrow>puntos ys. x * (y - (a + b * x))) = 0"
    unfolding suma using n suma_fst_puntos(1) [of "\<lambda>x. x" ys] suma_fst_puntos(1) [of "\<lambda>x. x * x" ys] by simp
qed

lemma sum_list_cero': "(\<And>p. p \<in> set ps \<Longrightarrow> f p = (0::rat)) \<Longrightarrow> (\<Sum>p\<leftarrow>ps. f p) = 0"
  by (induction ps) auto

lemma suma_cuadrados_cero:
  fixes g :: "'a \<Rightarrow> rat"
  shows "(\<Sum>(x, y)\<leftarrow>ps. (g x) ^ 2) = (0::rat) \<Longrightarrow> (x, y) \<in> set ps \<Longrightarrow> g x = 0"
proof (induction ps)
  case (Cons p ps)
  have "0 \<le> (\<Sum>(x, y)\<leftarrow>qs. (g x) ^ 2)" for qs :: "('a \<times> 'b) list" by (induction qs) auto
  with Cons.prems(1) have "(g (fst p)) ^ 2 = 0" "(\<Sum>(x, y)\<leftarrow>ps. (g x) ^ 2) = 0"
    by (auto simp: split_def add_nonneg_eq_0_iff)
  with Cons show ?case by auto
qed simp

text \<open>C23: The regression is the least-squares line of the series against the index: with two months or
  more, no line has a smaller squared error; with less, it is zero. So a series that grows by the
  same amount every month gets exactly that amount as its slope.\<close>

theorem calculateLinearRegression_least_squares:
  assumes "2 \<le> length ys" and r: "calculateLinearRegression ys = (b, a)"
  shows "error_cuadratico a b ys \<le> error_cuadratico a' b' ys \<and>
     (ys = map (\<lambda>i. a' + b' * rat_of_nat i) [0..<length ys] \<longrightarrow> b = b' \<and> a = a')"
proof -
  have exp: "(\<Sum>(x, y)\<leftarrow>ps. (y - (a' + b' * x)) ^ 2) = (\<Sum>(x, y)\<leftarrow>ps. (y - (a + b * x)) ^ 2) +
      2 * ((a - a') * (\<Sum>(x, y)\<leftarrow>ps. y - (a + b * x)) + (b - b') * (\<Sum>(x, y)\<leftarrow>ps. x * (y - (a + b * x)))) +
      (\<Sum>(x, y)\<leftarrow>ps. ((a - a') + (b - b') * x) ^ 2)" for ps :: "(rat \<times> rat) list"
    by (induction ps) (auto simp: power2_eq_square algebra_simps)
  have e: "error_cuadratico a' b' ys = error_cuadratico a b ys + (\<Sum>(x, y)\<leftarrow>puntos ys. ((a - a') + (b - b') * x) ^ 2)"
    unfolding error_cuadratico_def exp ecuaciones_normales [OF assms] by simp
  have pos: "0 \<le> (\<Sum>(x, y)\<leftarrow>ps. ((a - a') + (b - b') * x) ^ 2)" "0 \<le> (\<Sum>(x, y)\<leftarrow>ps. (y - (a + b * x)) ^ 2)"
    for ps :: "(rat \<times> rat) list" by (induction ps) auto
  have "b = b' \<and> a = a'" if ys: "ys = map (\<lambda>i. a' + b' * rat_of_nat i) [0..<length ys]"
  proof -
    have pt: "(rat_of_nat i, a' + b' * rat_of_nat i) \<in> set (puntos ys)" if "i < length ys" for i
      using that ys nth_mem [of i "puntos ys"] unfolding puntos_def
      by (metis (no_types, lifting) add_0 diff_zero length_map length_upt length_zip min.idem nth_map nth_upt nth_zip)
    have "error_cuadratico a' b' ys = 0"
    proof -
      have "y = a' + b' * x" if "(x, y) \<in> set (puntos ys)" for x y
        using that unfolding puntos_def set_zip by (subst (asm) (2) ys) auto
      then show ?thesis unfolding error_cuadratico_def by (intro sum_list_cero') auto
    qed
    then have "(\<Sum>(x, y)\<leftarrow>puntos ys. ((a - a') + (b - b') * x) ^ 2) = 0"
      using e pos [of "puntos ys"] unfolding error_cuadratico_def by linarith
    then have "(a - a') + (b - b') * x = 0" if "(x, y) \<in> set (puntos ys)" for x y
      using that suma_cuadrados_cero [of "\<lambda>x. (a - a') + (b - b') * x" "puntos ys"] by auto
    from this [OF pt [of 0]] this [OF pt [of 1]] assms(1) show ?thesis by (cases ys; cases "tl ys") auto
  qed
  then show ?thesis using e pos(1) [of "puntos ys"] by simp
qed

theorem calculateLinearRegression_least_squares_witness:
  "calculateLinearRegression [100, 120, 140] = (20, 100) \<and>
   error_cuadratico 100 20 [100, 120, 140] \<le> error_cuadratico 100 21 [100, 120, 140]"
proof -
  obtain b a where r: "calculateLinearRegression [100, 120, 140] = (b, a)" by fastforce
  have "[100, 120, 140] = map (\<lambda>i. 100 + 20 * rat_of_nat i) [0..<length [100, 120, 140 :: rat]]"
    by (simp add: upt_rec)
  with calculateLinearRegression_least_squares [OF _ r, of 100 20] have "b = 20" "a = 100" by simp_all
  with r calculateLinearRegression_least_squares [OF _ r, of 100 21] show ?thesis by simp
qed

section \<open>The projection\<close>

text \<open>The projected months compound: each is computed from the one appended before it, so that a series
  of whole amounts that grows by \<open>b\<close> every month is continued by steps of \<open>b\<close>, \<open>2 b\<close> and \<open>3 b\<close>
  instead of \<open>b\<close> each time. No projected value is negative.\<close>

theorem proyeccion_compounds:
  assumes "2 \<le> length ys" and ys: "ys = map (\<lambda>i. of_int a + of_int b * rat_of_nat i) [0..<length ys]" and b: "0 \<le> b"
    and pos: "0 \<le> last ys"
  shows "proyeccion ys = ys @ [last ys + of_int b, last ys + 3 * of_int b, last ys + 6 * of_int b]"
proof -
  obtain b' a' where r: "calculateLinearRegression ys = (b', a')" by fastforce
  have s: "fst (calculateLinearRegression ys) = of_int b"
    using calculateLinearRegression_least_squares [OF assms(1) r, of "of_int a" "of_int b"] ys r by simp
  have "\<exists>n. last ys = of_int n"
  proof -
    have "last ys = of_int a + of_int b * of_nat (length ys - 1)"
    proof -
      from assms(1) have ne: "ys \<noteq> []" and lt: "length ys - 1 < length ys" by auto
      have "ys ! (length ys - 1) = map (\<lambda>i. of_int a + of_int b * rat_of_nat i) [0..<length ys] ! (length ys - 1)"
        using arg_cong [OF ys, of "\<lambda>zs. zs ! (length ys - 1)"] .
      also have "\<dots> = of_int a + of_int b * rat_of_nat (length ys - 1)" using lt by simp
      finally show ?thesis unfolding last_conv_nth [OF ne] .
    qed
    then have "last ys = of_int (a + b * int (length ys - 1))" by simp
    then show ?thesis by blast
  qed
  then obtain n where n: "last ys = of_int n" ..
  with pos have n0: "0 \<le> n" by simp
  have red: "math_round (max 0 (of_int m)) = m" if "0 \<le> m" for m :: int using that by (simp add: max_def)
  have 1: "proyectar (of_int b) i vs = vs @ [of_int (m + b * int i)]" if "last vs = of_int m" "0 \<le> m" for i vs m
    using red [of "m + b * int i"] that b by (simp add: proyectar_def)
  show ?thesis unfolding proyeccion_def s n using 1 [OF n n0] 1 [of _ "n + b"] 1 [of _ "n + b + b * 2"] n0 b
    by (simp add: algebra_simps)
qed

theorem proyeccion_compounds_witness:
  "proyeccion [100, 120, 140] = [100, 120, 140, 160, 200, 260]"
proof -
  have "[100, 120, 140] = map (\<lambda>i. of_int 100 + of_int 20 * rat_of_nat i) [0..<length [100, 120, 140 :: rat]]"
    by (simp add: upt_rec)
  from proyeccion_compounds [OF _ this] show ?thesis by simp
qed

section \<open>Maturity\<close>

lemma baldes_posicion:
  fixes e0 e1 e2 e3 e4 :: nat
  defines "r \<equiv> filter (\<lambda>n. n > 0) [e0, e1, e2, e3, e4]"
  shows "nth_o_cero r 0 = e0 \<and> nth_o_cero r 1 = e1 \<and> nth_o_cero r 2 = e2 \<and> nth_o_cero r 3 = e3 \<longleftrightarrow>
     (e0 = 0 \<longrightarrow> e1 = 0) \<and> (e1 = 0 \<longrightarrow> e2 = 0) \<and> (e2 = 0 \<longrightarrow> e3 = 0) \<and> (e3 = 0 \<longrightarrow> e4 = 0)"
  unfolding r_def nth_o_cero_def
  by (cases "e0 = 0"; cases "e1 = 0"; cases "e2 = 0"; cases "e3 = 0"; cases "e4 = 0") auto

lemma baldes_lista: "baldes cs = filter (\<lambda>n. n > 0) [en_balde cs 0, en_balde cs 1, en_balde cs 2, en_balde cs 3, en_balde cs 4]"
proof -
  have "[0..<5] = [0, 1, 2, 3, 4 :: nat]" by (simp add: upt_rec)
  then show ?thesis unfolding baldes_def by (simp only: list.map)
qed

text \<open>The label of a maturity is the position of its bucket among those that are not empty: the four figures
  are right exactly when no empty bucket comes before one with contracts. When every active
  contract lasts a year or more, some of them are reported as of less than a year.\<close>

theorem getMaturityDistribution_labels:
  assumes r: "getMaturityDistribution cs = r"
  shows "(m_0_12 r = en_balde cs 0 \<and> m_12_24 r = en_balde cs 1 \<and> m_24_36 r = en_balde cs 2 \<and> m_36_mas r = en_balde cs 3 \<longleftrightarrow>
       (\<forall>i < 4. en_balde cs i = 0 \<longrightarrow> en_balde cs (Suc i) = 0)) \<and>
     (vigentes cs \<noteq> [] \<and> list_all (\<lambda>c. 12 \<le> duracion_aprox c) (vigentes cs) \<longrightarrow> 0 < m_0_12 r \<and> en_balde cs 0 = 0)"
proof -
  have c: "m_0_12 r = nth_o_cero (baldes cs) 0" "m_12_24 r = nth_o_cero (baldes cs) 1"
    "m_24_36 r = nth_o_cero (baldes cs) 2" "m_36_mas r = nth_o_cero (baldes cs) 3"
    using r by (auto simp: getMaturityDistribution_def Let_def)
  have 4: "(\<forall>i < 4. en_balde cs i = 0 \<longrightarrow> en_balde cs (Suc i) = 0) \<longleftrightarrow>
      (en_balde cs 0 = 0 \<longrightarrow> en_balde cs 1 = 0) \<and> (en_balde cs 1 = 0 \<longrightarrow> en_balde cs 2 = 0) \<and>
      (en_balde cs 2 = 0 \<longrightarrow> en_balde cs 3 = 0) \<and> (en_balde cs 3 = 0 \<longrightarrow> en_balde cs 4 = 0)"
    by (auto simp: numeral_eq_Suc All_less_Suc)
  have "0 < m_0_12 r \<and> en_balde cs 0 = 0"
    if v: "vigentes cs \<noteq> []" "list_all (\<lambda>c. 12 \<le> duracion_aprox c) (vigentes cs)"
  proof -
    obtain x where x: "x \<in> set (vigentes cs)" using v(1) by (cases "vigentes cs") auto
    have "balde (duracion_aprox x) < 5" by (simp add: balde_def)
    moreover have "0 < en_balde cs (balde (duracion_aprox x))" using x by (auto simp: en_balde_def filter_empty_conv)
    ultimately have "en_balde cs (balde (duracion_aprox x)) \<in> set (baldes cs)" by (simp add: baldes_def)
    then have "baldes cs \<noteq> []" by auto
    moreover have "0 < n" if "n \<in> set (baldes cs)" for n using that by (simp add: baldes_def)
    ultimately have "0 < nth_o_cero (baldes cs) 0" by (simp add: nth_o_cero_def)
    moreover have "en_balde cs 0 = 0" using v(2) by (auto simp: en_balde_def filter_empty_conv list_all_iff balde_def)
    ultimately show ?thesis using c(1) by simp
  qed
  moreover have "m_0_12 r = en_balde cs 0 \<and> m_12_24 r = en_balde cs 1 \<and> m_24_36 r = en_balde cs 2 \<and>
      m_36_mas r = en_balde cs 3 \<longleftrightarrow> (\<forall>i < 4. en_balde cs i = 0 \<longrightarrow> en_balde cs (Suc i) = 0)"
    unfolding c 4 baldes_lista by (rule baldes_posicion)
  ultimately show ?thesis by blast
qed

definition contrato_largo :: contrato where
  "contrato_largo = contrato0\<lparr>ct_status := C_VIGENTE, fecha_inicio := 0, fecha_final := 30 * mes_aprox\<rparr>"

theorem getMaturityDistribution_labels_witness:
  "m_0_12 (getMaturityDistribution [contrato_largo]) = 1 \<and> en_balde [contrato_largo] 0 = 0 \<and>
   en_balde [contrato_largo] 2 = 1"
proof -
  have h: "vigentes [contrato_largo] \<noteq> []" "list_all (\<lambda>c. 12 \<le> duracion_aprox c) (vigentes [contrato_largo])"
    "en_balde [contrato_largo] 2 = 1" "m_0_12 (getMaturityDistribution [contrato_largo]) = 1"
    by code_simp+
  with getMaturityDistribution_labels [OF refl, of "[contrato_largo]"] show ?thesis by simp
qed

section \<open>Upcoming contracts\<close>

text \<open>The list of upcoming contracts: at most fifty, every one of an active contract that ends or is adjusted
  within the ninety days, with the earlier of both dates and its kind; none of a tenant has a
  name, because the field the code reads is not in the schema of an agent. The list is ordered by the
  end of the contract, not by the date that is due.\<close>

theorem getUpcomingContracts_due:
  assumes x: "x \<in> set (getUpcomingContracts lx titulo now next s)"
  shows "length (getUpcomingContracts lx titulo now next s) \<le> 50 \<and> px_dueDate x \<le> next \<and>
     px_locatarioName x = ''Sin locatario'' \<and>
     (\<exists>c \<in> set (contratos s). px_contractId x = ct_id c \<and> ct_status c = C_VIGENTE \<and>
        (px_dueDate x, px_actionType x) = fecha_proxima c \<and> px_dueDate x \<le> fecha_final c)"
proof -
  from x obtain c where t: "c \<in> set (take 50 (sort_key clave_proximo (filter (vence_pronto next) (contratos s))))"
    and cx: "x = fila_proxima lx titulo now (propiedades s) (agentes s) c"
    by (auto simp: getUpcomingContracts_def)
  from in_set_takeD [OF t] cx have c: "c \<in> set (contratos s)" "vence_pronto next c"
    "x = fila_proxima lx titulo now (propiedades s) (agentes s) c" by simp_all
  have n: "px_locatarioName x = ''Sin locatario''"
    unfolding c(3) by (auto simp: fila_proxima_def Let_def nombre_agente_def o_texto_def split: prod.split option.split)
  have "ct_status c = C_VIGENTE" "(px_dueDate x, px_actionType x) = fecha_proxima c" "px_contractId x = ct_id c"
    "px_dueDate x \<le> next" "px_dueDate x \<le> fecha_final c"
    using c by (auto simp: fila_proxima_def Let_def vence_pronto_def fecha_proxima_def split: prod.splits option.splits if_splits)
  with n c(1) show ?thesis by (auto simp: getUpcomingContracts_def)
qed

definition bd_rep :: bd_ct where
  "bd_rep = bd_ct0 [contrato0\<lparr>ct_status := C_VIGENTE, ajuste_programado := Some (19805 * dia_ms)\<rparr>]"

theorem getUpcomingContracts_due_witness:
  "\<exists>x \<in> set (getUpcomingContracts luxon0 (\<lambda>_. None) (19800 * dia_ms) (19890 * dia_ms) bd_rep).
     px_dueDate x = 19805 * dia_ms \<and> px_locatarioName x = ''Sin locatario''"
proof -
  let ?l = "getUpcomingContracts luxon0 (\<lambda>_. None) (19800 * dia_ms) (19890 * dia_ms) bd_rep"
  have l: "map px_dueDate ?l = [19805 * dia_ms]" by code_simp
  then obtain x where x: "x \<in> set ?l" "px_dueDate x = 19805 * dia_ms" by (cases ?l) auto
  with getUpcomingContracts_due [OF x(1)] show ?thesis by blast
qed

end
