(* ===== verification/DetectedExpenses.thy ===== *)
theory DetectedExpenses
  imports Contracts
begin

text \<open>
  Bills of public services found in the mail: \<^verbatim>\<open>src/modules/service-account-mappings\<close> (which
  accounts the bills of a provider go to), \<^verbatim>\<open>src/modules/detected-expenses\<close> (the bills) and the
  two operations of \<^verbatim>\<open>accounting-entries.service.ts\<close> that turn a bill into a proposal and the
  proposal into an accounting entry.

  The text of an ObjectId and the test \<^verbatim>\<open>Types.ObjectId.isValid\<close> come from the driver, and the
  text of a populated document from the object mapper: they are the arguments \<open>tx\<close>, \<open>od\<close> and
  \<open>td\<close> (\<open>od k\<close> is the id a valid text denotes).
\<close>

section \<open>Mappings from a provider to its accounts\<close>

record mapeo =
  mp_id :: oid
  mp_provider_agent_id :: oid
  mp_provider_cuit :: "string option"
  mp_identificador :: "string option"
  cuenta_por_cobrar_codigo :: string
  cuenta_por_pagar_codigo :: string
  moneda :: "string option"
  enabled :: bool
  prioridad :: rat
  mp_created_by :: "oid option"

text \<open>
  The body of a creation. The request class has the fields up to \<open>cm_created_by\<close>, and the
  validation pipe drops every other field of a request; the last two are the codes the schema
  requires.
\<close>

record cuerpo_mapeo =
  cm_provider_agent_id :: oid
  cm_provider_cuit :: "string option"
  cm_identificador_servicio :: "string option"
  cm_providerCuit :: "string option"
  cm_identificadorServicio :: "string option"
  cm_cuenta_egreso_codigo :: string
  cm_cuenta_a_pagar_codigo :: string
  cm_moneda :: "string option"
  cm_enabled :: "bool option"
  cm_prioridad :: "rat option"
  cm_created_by :: "oid option"
  cm_cuenta_por_cobrar_codigo :: "string option"
  cm_cuenta_por_pagar_codigo :: "string option"

definition validar_pipe :: "cuerpo_mapeo \<Rightarrow> cuerpo_mapeo" where
  "validar_pipe b = b\<lparr>cm_cuenta_por_cobrar_codigo := None, cm_cuenta_por_pagar_codigo := None\<rparr>"

text \<open>\<^verbatim>\<open>if (!a && (b || b === '')) a = b\<close>.\<close>

definition o_alias :: "string option \<Rightarrow> string option \<Rightarrow> string option" where
  "o_alias a b = (if (a = None \<or> a = Some []) \<and> b \<noteq> None then b else a)"

section \<open>Detected expenses\<close>

datatype tipo_gasto = G_FACTURA_DISPONIBLE | G_AVISO_DEUDA | G_AVISO_CORTE

fun tipo_gasto_nombre :: "tipo_gasto \<Rightarrow> string" where
  "tipo_gasto_nombre G_FACTURA_DISPONIBLE = ''FACTURA_DISPONIBLE''"
| "tipo_gasto_nombre G_AVISO_DEUDA = ''AVISO_DEUDA''"
| "tipo_gasto_nombre G_AVISO_CORTE = ''AVISO_CORTE''"

datatype estado_gasto = PENDIENTE_VALIDACION | ASIGNADO | DESCARTADO

text \<open>A proposal is a free-form object: what its reader tests with \<^verbatim>\<open>||\<close> is optional.\<close>

record partida_propuesta =
  pr_descripcion :: "texto option"
  pr_agente_id :: "oid option"
  pr_monto :: "monto option"
  pr_porcentaje :: rat
  suggested_account_code :: string

record propuesta =
  pu_fecha_imputacion :: "fecha option"
  pu_fecha_vencimiento :: "fecha option"
  pu_descripcion :: "texto option"
  pu_tipo_asiento :: "string option"
  pu_monto_original :: "monto option"
  partidas_propuesta :: "partida_propuesta list"
  pu_detected_expense_id :: oid

record gasto =
  ge_id :: oid
  agente_proveedor_id :: oid
  provider_cuit :: "string option"
  fecha_deteccion :: fecha
  tipo_alerta :: tipo_gasto
  ge_identificador :: string
  monto_estimado :: "monto option"
  estado_procesamiento :: estado_gasto
  cuerpo_email :: "string option"
  adjunto_referencia_url :: "string option"
  propuesta_asiento :: "propuesta option"
  asiento_creado_id :: "oid option"
  estado_final :: "string option"

record bd_gas = bd_ct +
  mapeos :: "mapeo list"
  gastos :: "gasto list"

definition con_mapeos :: "(mapeo list \<Rightarrow> mapeo list) \<Rightarrow> 'a bd_gas_scheme \<Rightarrow> 'a bd_gas_scheme" where
  "con_mapeos f s = s\<lparr>mapeos := f (mapeos s)\<rparr>"

definition con_gastos :: "(gasto list \<Rightarrow> gasto list) \<Rightarrow> 'a bd_gas_scheme \<Rightarrow> 'a bd_gas_scheme" where
  "con_gastos f s = s\<lparr>gastos := f (gastos s)\<rparr>"

interpretation maps: coleccion mp_id mapeos con_mapeos
  by unfold_locales (simp add: con_mapeos_def)

interpretation gas: coleccion ge_id gastos con_gastos
  by unfold_locales (simp add: con_gastos_def)

abbreviation gasto_de :: "oid \<Rightarrow> 'a bd_gas_scheme \<Rightarrow> gasto option" where
  "gasto_de i s \<equiv> find_id ge_id i (gastos s)"

section \<open>The service of the mappings\<close>

definition mp_create :: "cuerpo_mapeo \<Rightarrow> ('a bd_gas_scheme, mapeo) proc" where
  "mp_create b =
     ebind nuevo_id (\<lambda>i.
     case (cm_cuenta_por_cobrar_codigo b, cm_cuenta_por_pagar_codigo b) of
       (Some x, Some y) \<Rightarrow>
         if x = [] \<or> y = []
         then raise (ErrorJS ''ServiceAccountMapping validation failed'' [])
         else
           let m = \<lparr>mp_id = i, mp_provider_agent_id = cm_provider_agent_id b,
                    mp_provider_cuit = o_alias (cm_provider_cuit b) (cm_providerCuit b),
                    mp_identificador = o_alias (cm_identificador_servicio b) (cm_identificadorServicio b),
                    cuenta_por_cobrar_codigo = x, cuenta_por_pagar_codigo = y,
                    moneda = cm_moneda b, enabled = coalesce (cm_enabled b) True,
                    prioridad = coalesce (cm_prioridad b) 0, mp_created_by = cm_created_by b\<rparr>
           in ebind (modify (con_mapeos (\<lambda>ms. ms @ [m]))) (\<lambda>_. ret m)
     | _ \<Rightarrow> raise (ErrorJS ''ServiceAccountMapping validation failed'' []))"

text \<open>A row of the list: the mapping, the provider's name and its id (none if the agent is gone).\<close>

record fila_mapeo =
  fm_mapeo :: mapeo
  provider_name :: "string option"
  fm_provider_agent_id :: "oid option"

definition mp_findAll :: "('a bd_gas_scheme, fila_mapeo list) proc" where
  "mp_findAll = gets (\<lambda>s.
     map (\<lambda>d. let provider = find_id ag_id (mp_provider_agent_id d) (agentes s) in
            \<lparr>fm_mapeo = d, provider_name = map_option nombre_razon_social provider,
             fm_provider_agent_id = map_option ag_id provider\<rparr>) (mapeos s))"

definition mp_findOne :: "oid \<Rightarrow> ('a bd_gas_scheme, mapeo option) proc" where
  "mp_findOne i = gets (\<lambda>s. find_id mp_id i (mapeos s))"

record update_mapeo =
  um_provider_cuit :: "string option"
  um_identificador_servicio :: "string option"
  um_providerCuit :: "string option"
  um_identificadorServicio :: "string option"
  um_cuenta_egreso_codigo :: "string option"
  um_cuenta_a_pagar_codigo :: "string option"
  um_moneda :: "string option"
  um_enabled :: "bool option"
  um_prioridad :: "rat option"

text \<open>
  \<^verbatim>\<open>findByIdAndUpdate\<close> sets the fields of the body that the schema has; the two account codes
  of the request are not among them.
\<close>

definition poner :: "'v option \<Rightarrow> 'v option \<Rightarrow> 'v option" where
  "poner nuevo viejo = (case nuevo of None \<Rightarrow> viejo | Some v \<Rightarrow> Some v)"

definition aplicar_mapeo :: "update_mapeo \<Rightarrow> mapeo \<Rightarrow> mapeo" where
  "aplicar_mapeo u m =
     m\<lparr>mp_provider_cuit := poner (o_alias (um_provider_cuit u) (um_providerCuit u)) (mp_provider_cuit m),
       mp_identificador :=
         poner (o_alias (um_identificador_servicio u) (um_identificadorServicio u)) (mp_identificador m),
       moneda := poner (um_moneda u) (moneda m),
       enabled := coalesce (um_enabled u) (enabled m),
       prioridad := coalesce (um_prioridad u) (prioridad m)\<rparr>"

definition mp_no_encontrado :: "oid \<Rightarrow> excepcion" where
  "mp_no_encontrado i = NotFoundException ''Mapping {} not found'' [AId i]"

definition mp_update :: "oid \<Rightarrow> update_mapeo \<Rightarrow> ('a bd_gas_scheme, mapeo) proc" where
  "mp_update i u =
     ebind (obtener mp_id mapeos i (mp_no_encontrado i)) (\<lambda>m.
     ebind (modify (con_mapeos (save_doc mp_id (aplicar_mapeo u m)))) (\<lambda>_. ret (aplicar_mapeo u m)))"

definition mp_remove :: "oid \<Rightarrow> ('a bd_gas_scheme, bool) proc" where
  "mp_remove i =
     ebind (obtener mp_id mapeos i (mp_no_encontrado i)) (\<lambda>_.
     ebind (modify (con_mapeos (delete_one (\<lambda>m. mp_id m = i)))) (\<lambda>_. ret True))"

text \<open>
  The filter \<^verbatim>\<open>buildQuery\<close> makes. A query by agent is made twice, with the same filter, and a
  query by CUIT is followed by one without the service.
\<close>

definition buildQuery :: "(string \<Rightarrow> oid option) \<Rightarrow> string \<Rightarrow> string \<Rightarrow> bool \<Rightarrow> mapeo \<Rightarrow> bool" where
  "buildQuery od clave_p servicio byAgentId m \<longleftrightarrow>
     enabled m \<and>
     (servicio \<noteq> [] \<longrightarrow> mp_identificador m = Some servicio) \<and>
     (if byAgentId then od clave_p = Some (mp_provider_agent_id m)
      else mp_provider_cuit m = Some clave_p)"

definition findByProviderAgentId ::
  "(string \<Rightarrow> oid option) \<Rightarrow> string \<Rightarrow> string \<Rightarrow> ('a bd_gas_scheme, mapeo option) proc" where
  "findByProviderAgentId od agentIdOrCuit servicio =
     (if od agentIdOrCuit \<noteq> None
      then ebind (gets (\<lambda>s. find (buildQuery od agentIdOrCuit servicio True) (mapeos s))) (\<lambda>specific.
           case specific of
             Some m \<Rightarrow> ret (Some m)
           | None \<Rightarrow> gets (\<lambda>s. find (buildQuery od agentIdOrCuit servicio True) (mapeos s)))
      else ebind (gets (\<lambda>s. find (buildQuery od agentIdOrCuit servicio False) (mapeos s))) (\<lambda>specific.
           case specific of
             Some m \<Rightarrow> ret (Some m)
           | None \<Rightarrow> gets (\<lambda>s. find (\<lambda>m. mp_provider_cuit m = Some agentIdOrCuit \<and> enabled m) (mapeos s))))"

section \<open>The service of the expenses\<close>

record create_gasto_dto =
  cg_agente_proveedor_id :: oid
  cg_tipo_alerta :: tipo_gasto
  cg_identificador_servicio :: string
  cg_monto_estimado :: "monto option"
  cg_provider_cuit :: "string option"
  cg_estado_procesamiento :: "estado_gasto option"
  cg_cuerpo_email :: "string option"
  cg_adjunto_referencia_url :: "string option"
  cg_propuesta_asiento :: "propuesta option"
  cg_asiento_creado_id :: "oid option"
  cg_estado_final :: "string option"

definition ge_create :: "create_gasto_dto \<Rightarrow> ('a bd_gas_scheme, gasto) proc" where
  "ge_create dto =
     ebind nuevo_id (\<lambda>i.
     if cg_identificador_servicio dto = []
     then raise (ErrorJS ''DetectedExpense validation failed'' [])
     else
       ebind (gets ahora) (\<lambda>now.
       let g = \<lparr>ge_id = i, agente_proveedor_id = cg_agente_proveedor_id dto,
                provider_cuit = cg_provider_cuit dto, fecha_deteccion = now,
                tipo_alerta = cg_tipo_alerta dto, ge_identificador = cg_identificador_servicio dto,
                monto_estimado = cg_monto_estimado dto,
                estado_procesamiento = coalesce (cg_estado_procesamiento dto) PENDIENTE_VALIDACION,
                cuerpo_email = cg_cuerpo_email dto,
                adjunto_referencia_url = cg_adjunto_referencia_url dto,
                propuesta_asiento = cg_propuesta_asiento dto,
                asiento_creado_id = cg_asiento_creado_id dto, estado_final = cg_estado_final dto\<rparr>
       in ebind (modify (con_gastos (\<lambda>gs. gs @ [g]))) (\<lambda>_. ret g)))"

definition ge_findAll :: "('a bd_gas_scheme, gasto list) proc" where
  "ge_findAll = gets gastos"

definition ge_findOne :: "oid \<Rightarrow> ('a bd_gas_scheme, gasto option) proc" where
  "ge_findOne i = gets (gasto_de i)"

text \<open>\<^verbatim>\<open>findByIdAndUpdate(id, dto)\<close>: nothing happens when the id is unknown.\<close>

definition ge_update :: "oid \<Rightarrow> (gasto \<Rightarrow> gasto) \<Rightarrow> ('a bd_gas_scheme, gasto option) proc" where
  "ge_update i f =
     ebind (modify (con_gastos (update_one (\<lambda>g. ge_id g = i) f))) (\<lambda>_. gets (gasto_de i))"

definition ge_remove :: "oid \<Rightarrow> ('a bd_gas_scheme, gasto option) proc" where
  "ge_remove i =
     ebind (gets (gasto_de i)) (\<lambda>g.
     ebind (modify (con_gastos (delete_one (\<lambda>g. ge_id g = i)))) (\<lambda>_. ret g))"

section \<open>From an expense to a proposal\<close>

record opciones_gasto =
  detectedExpenseIds :: "oid list option"
  dryRun :: bool
  og_limit :: nat

text \<open>
  The share of a property: the percentage of its first service with the number, when that is a
  number other than zero.
\<close>

definition porcentaje_de :: "string \<Rightarrow> propiedad \<Rightarrow> rat option" where
  "porcentaje_de ident p =
     (case find (\<lambda>s. identificador_servicio s = ident) (servicios_impuestos p) of
        None \<Rightarrow> None
      | Some svc \<Rightarrow>
          (case porcentaje_aplicacion svc of
             None \<Rightarrow> None
           | Some v \<Rightarrow> if v = 0 then None else Some v))"

text \<open>
  \<open>shares\<close>: equal parts when the percentages add up to nothing, otherwise each of them over
  their sum, and nothing for a property without one (\<^verbatim>\<open>null / totalPct\<close> is 0).
\<close>

definition shares :: "rat option list \<Rightarrow> rat list" where
  "shares pcts =
     (let totalPct = (\<Sum>p\<leftarrow>pcts. o_cero p)
      in if totalPct = 0 then map (\<lambda>_. 100 / rat_of_nat (length pcts)) pcts
         else map (\<lambda>p. (o_cero p / totalPct) * 100) pcts)"

definition primero :: "'x list \<Rightarrow> 'x option" where
  "primero xs = (case xs of [] \<Rightarrow> None | x # _ \<Rightarrow> Some x)"

definition propuesta_de :: "fecha \<Rightarrow> gasto \<Rightarrow> propiedad list \<Rightarrow> propuesta" where
  "propuesta_de now det properties =
     (let montoTotal = o_cero (monto_estimado det);
          pcts = shares (map (porcentaje_de (ge_identificador det)) properties)
      in \<lparr>pu_fecha_imputacion = Some now,
          pu_fecha_vencimiento = Some (fecha_deteccion det),
          pu_descripcion = Some (''Propuesta para gasto detectado {}'', [AStr (ge_identificador det)]),
          pu_tipo_asiento = Some ''Gasto Servicio Detectado'',
          pu_monto_original = Some montoTotal,
          partidas_propuesta =
            map (\<lambda>(p, pct).
              \<lparr>pr_descripcion = Some (''Gasto detectado {} {} - {}'',
                 [AStr (tipo_gasto_nombre (tipo_alerta det)), AStr (ge_identificador det),
                  AStr (identificador_interno p)]),
               pr_agente_id = primero (propietarios_ids p),
               pr_monto = Some (redondear2 (montoTotal * (pct / 100))),
               pr_porcentaje = pct,
               suggested_account_code = ''EGRESO_SERVICIOS''\<rparr>) (zip properties pcts),
          pu_detected_expense_id = ge_id det\<rparr>)"

datatype detalle_gasto = NO_PROPERTIES oid | PROPOSED oid propuesta

definition procesar_gasto :: "opciones_gasto \<Rightarrow> gasto \<Rightarrow> ('a bd_gas_scheme, detalle_gasto) proc" where
  "procesar_gasto opt det =
     ebind (findByMedidor (ge_identificador det)) (\<lambda>properties.
     if properties = []
     then ebind (if dryRun opt then ret None
                 else ge_update (ge_id det)
                   (\<lambda>g. g\<lparr>estado_procesamiento := DESCARTADO, cuerpo_email := cuerpo_email det\<rparr>)) (\<lambda>_.
          ret (NO_PROPERTIES (ge_id det)))
     else
       ebind (gets ahora) (\<lambda>now.
       let prop = propuesta_de now det properties in
       ebind (if dryRun opt then ret None
              else ge_update (ge_id det)
                (\<lambda>g. g\<lparr>estado_procesamiento := ASIGNADO, propuesta_asiento := Some prop\<rparr>)) (\<lambda>_.
       ret (PROPOSED (ge_id det) prop))))"

text \<open>\<open>.slice(0, limit || pending.length)\<close>: a limit of 0 is no limit.\<close>

definition a_procesar :: "opciones_gasto \<Rightarrow> gasto list \<Rightarrow> gasto list" where
  "a_procesar opt todos_g =
     (let pending = filter (\<lambda>d. estado_procesamiento d = PENDIENTE_VALIDACION) todos_g;
          sel = (case detectedExpenseIds opt of
                   None \<Rightarrow> pending
                 | Some is \<Rightarrow> filter (\<lambda>p. ge_id p \<in> set is) pending)
      in take (if og_limit opt = 0 then length pending else og_limit opt) sel)"

definition processDetectedUtilityInvoices ::
  "opciones_gasto \<Rightarrow> ('a bd_gas_scheme, nat \<times> detalle_gasto list) proc" where
  "processDetectedUtilityInvoices opt =
     ebind ge_findAll (\<lambda>todos_g.
     ebind (for_each (procesar_gasto opt) (a_procesar opt todos_g)) (\<lambda>details.
     ret (length details, details)))"

section \<open>From a proposal to an accounting entry\<close>

definition resolver_mapeo ::
  "(oid \<Rightarrow> string) \<Rightarrow> (string \<Rightarrow> oid option) \<Rightarrow> gasto \<Rightarrow> oid option \<Rightarrow> ('a bd_gas_scheme, mapeo option) proc" where
  "resolver_mapeo tx od det mappingId =
     (case mappingId of
        Some i \<Rightarrow> mp_findOne i
      | None \<Rightarrow>
          ebind (findByProviderAgentId od (tx (agente_proveedor_id det)) (ge_identificador det)) (\<lambda>m.
          case m of
            Some x \<Rightarrow> ret (Some x)
          | None \<Rightarrow>
              if o_texto (provider_cuit det) [] \<noteq> []
              then findByProviderAgentId od (o_texto (provider_cuit det) []) (ge_identificador det)
              else ret None))"

text \<open>
  Whether the agent is the tenant of a property's contract. The contract comes populated: the
  party's agent is a document, none when it is gone, and \<^verbatim>\<open>toString\<close> gives its text \<open>td\<close>.
\<close>

definition es_locatario ::
  "(oid \<Rightarrow> string) \<Rightarrow> (agente \<Rightarrow> string) \<Rightarrow> 'a bd_gas_scheme \<Rightarrow> oid \<Rightarrow> contrato \<Rightarrow> bool" where
  "es_locatario tx td s ag c =
     list_ex (\<lambda>part. pt_rol part = LOCATARIO \<and>
        (case find_id ag_id (pt_agente_id part) (agentes s) of
           None \<Rightarrow> False | Some a \<Rightarrow> td a = tx ag)) (partes c)"

definition hasActiveContract ::
  "(oid \<Rightarrow> string) \<Rightarrow> (agente \<Rightarrow> string) \<Rightarrow> 'a bd_gas_scheme \<Rightarrow> propiedad list \<Rightarrow> oid \<Rightarrow> bool" where
  "hasActiveContract tx td s properties ag =
     list_ex (\<lambda>prop. case contrato_vigente_id prop of
        None \<Rightarrow> False
      | Some i \<Rightarrow> (case contrato_de i s of None \<Rightarrow> False | Some c \<Rightarrow> es_locatario tx td s ag c)) properties"

definition agente_final ::
  "(oid \<Rightarrow> string) \<Rightarrow> (agente \<Rightarrow> string) \<Rightarrow> 'a bd_gas_scheme \<Rightarrow> propiedad list \<Rightarrow> oid option \<Rightarrow> oid option" where
  "agente_final tx td s properties propuesto =
     (case propuesto of
        None \<Rightarrow> None
      | Some ag \<Rightarrow>
          if properties = [] \<or> hasActiveContract tx td s properties ag then Some ag
          else (case find (\<lambda>pp. propietarios_ids pp \<noteq> []) properties of
                  None \<Rightarrow> Some ag
                | Some p \<Rightarrow> primero (propietarios_ids p)))"

definition linea_gasto :: "oid \<Rightarrow> texto \<Rightarrow> monto \<Rightarrow> monto \<Rightarrow> oid option \<Rightarrow> partida" where
  "linea_gasto cta descr d h ag =
     \<lparr>cuenta_id = cta, p_descripcion = descr, debe = d, haber = h, p_agente_id = ag,
      monto_pagado_acumulado = None, monto_liquidado = None, es_iva_incluido = False,
      tasa_iva_aplicada = None, monto_base_imponible = None, monto_iva_calculado = None\<rparr>"

text \<open>\<^verbatim>\<open>a || b\<close> on texts.\<close>

definition o_desc :: "texto option \<Rightarrow> texto option \<Rightarrow> texto option" where
  "o_desc a b = (case a of Some t \<Rightarrow> if fst t = [] then b else Some t | None \<Rightarrow> b)"

definition partida_de_propuesta ::
  "(oid option \<Rightarrow> oid option) \<Rightarrow> oid \<Rightarrow> propuesta \<Rightarrow> partida_propuesta \<Rightarrow> partida" where
  "partida_de_propuesta af cta pu p =
     linea_gasto cta (coalesce (o_desc (pr_descripcion p) (pu_descripcion pu)) ([], []))
       (o_cero (pr_monto p)) 0 (af (pr_agente_id p))"

definition total_propuesta :: "propuesta \<Rightarrow> monto" where
  "total_propuesta pu = (\<Sum>p\<leftarrow>partidas_propuesta pu. o_cero (pr_monto p))"

definition asiento_de_propuesta ::
  "fecha \<Rightarrow> (oid option \<Rightarrow> oid option) \<Rightarrow> gasto \<Rightarrow> propuesta \<Rightarrow> mapeo \<Rightarrow> oid \<Rightarrow> oid \<Rightarrow> asiento_dto" where
  "asiento_de_propuesta now af det pu m cobrar pagar =
     (let monto = o_bien (pu_monto_original pu) (total_propuesta pu)
      in \<lparr>d_contrato_id = None,
          d_fecha_imputacion = Some (coalesce (pu_fecha_imputacion pu) now),
          d_fecha_vencimiento = Some (coalesce (pu_fecha_vencimiento pu) now),
          d_descripcion = o_desc (pu_descripcion pu)
            (Some (''Gasto detectado {}'', [AStr (ge_identificador det)])),
          d_tipo_asiento = Some (o_texto (pu_tipo_asiento pu) ''Gasto Servicio''),
          d_metadata = None, d_estado = None,
          d_monto_original = Some monto, d_monto_actual = Some monto,
          d_partidas = Some (map (partida_de_propuesta af cobrar pu) (partidas_propuesta pu) @
            [linea_gasto pagar (''Pago a proveedor {}'', [AId (mp_provider_agent_id m)])
               0 (redondear2 (total_propuesta pu)) (Some (mp_provider_agent_id m))]),
          d_usuario_creacion_id = None, d_usuario_modificacion_id = None, d_historial = []\<rparr>)"

text \<open>
  A code that is empty is not looked up, and a line that needs its account fails the
  validation of the entry (no line needs the first one when the proposal has no lines).
\<close>

definition asentar_propuesta ::
  "(oid \<Rightarrow> string) \<Rightarrow> (agente \<Rightarrow> string) \<Rightarrow> gasto \<Rightarrow> propuesta \<Rightarrow> mapeo \<Rightarrow> ('a bd_gas_scheme, asiento) proc" where
  "asentar_propuesta tx td det pu m =
     (let requiredCodes =
            filter (\<lambda>c. c \<noteq> []) [cuenta_por_cobrar_codigo m, cuenta_por_pagar_codigo m]
      in if requiredCodes = []
         then raise (BadRequestException ''El mapping no define codigos de cuenta validos'' [])
         else
           ebind (getAccountIdsByCode requiredCodes) (\<lambda>cuentas.
           ebind (if ge_identificador det = [] then ret []
                  else findByMedidor (ge_identificador det)) (\<lambda>properties.
           ebind (gets (\<lambda>s. agente_final tx td s properties)) (\<lambda>af.
           ebind (gets ahora) (\<lambda>now.
           case (if partidas_propuesta pu = [] then Some 0 else cuentas (cuenta_por_cobrar_codigo m),
                 cuentas (cuenta_por_pagar_codigo m)) of
             (Some cobrar, Some pagar) \<Rightarrow> create (asiento_de_propuesta now af det pu m cobrar pagar)
           | _ \<Rightarrow> raise (ErrorJS ''AccountingEntry validation failed'' []))))))"

definition processDetectedExpenseToEntry ::
  "(oid \<Rightarrow> string) \<Rightarrow> (string \<Rightarrow> oid option) \<Rightarrow> (agente \<Rightarrow> string) \<Rightarrow> oid \<Rightarrow> oid option \<Rightarrow>
   ('a bd_gas_scheme, asiento \<times> gasto option) proc" where
  "processDetectedExpenseToEntry tx od td detectedExpenseId mappingId =
     ebind (obtener ge_id gastos detectedExpenseId
              (NotFoundException ''DetectedExpense no encontrado'' [])) (\<lambda>det.
     case propuesta_asiento det of
       None \<Rightarrow> raise (BadRequestException ''No existe una propuesta para este gasto'' [])
     | Some pu \<Rightarrow>
         ebind (resolver_mapeo tx od det mappingId) (\<lambda>mapping.
         case mapping of
           None \<Rightarrow> raise (NotFoundException
             ''No se encontro mapping proveedor->cuentas. Configure uno antes de procesar.'' [])
         | Some m \<Rightarrow>
             ebind (asentar_propuesta tx td det pu m) (\<lambda>asi.
             ebind (ge_update detectedExpenseId
               (\<lambda>g. g\<lparr>estado_procesamiento := ASIGNADO, asiento_creado_id := Some (a_id asi),
                      estado_final := Some ''PROCESADO''\<rparr>)) (\<lambda>_.
             ebind (ge_findOne detectedExpenseId) (\<lambda>upd.
             ret (asi, upd))))))"

end
