(* ===== verification/RegExp.thy ===== *)
theory RegExp
  imports Complex_Main "HOL-Library.Sublist"
begin

text \<open>
  The regular expressions of JavaScript, as far as the services use them: the backtracking matcher of
  the ECMAScript specification, written with continuations as the specification writes it. A
  pattern is matched at a position and passes what is left of the text, with the captures, to a
  continuation; a choice tries its second branch when the continuation of the first fails; a
  repetition takes as much as it can, or as little when it is lazy, and stops when an iteration
  consumes nothing. Texts are strings of Latin-1 characters.
\<close>

section \<open>Patterns\<close>

datatype patron =
    Vacio
  | Clase "char \<Rightarrow> bool"
  | Sec patron patron
  | Alt patron patron
  | Rep bool patron
  | Grupo nat patron
  | NoSigue patron

type_synonym capturas = "(nat \<times> string) list"

text \<open>\<open>Rep True\<close> is the greedy \<^verbatim>\<open>r*\<close> and \<open>Rep False\<close> the lazy \<^verbatim>\<open>r*?\<close>; \<open>NoSigue r\<close> is \<^verbatim>\<open>(?!r)\<close>.\<close>

type_synonym continuacion = "string \<Rightarrow> capturas \<Rightarrow> (string \<times> capturas) option"

function casar :: "patron \<Rightarrow> continuacion \<Rightarrow> continuacion" where
  "casar Vacio k s cs = k s cs"
| "casar (Clase P) k s cs = (case s of [] \<Rightarrow> None | c # s' \<Rightarrow> if P c then k s' cs else None)"
| "casar (Sec a b) k s cs = casar a (casar b k) s cs"
| "casar (Alt a b) k s cs = (case casar a k s cs of Some x \<Rightarrow> Some x | None \<Rightarrow> casar b k s cs)"
| "casar (Rep g r) k s cs =
     (let mas = casar r (\<lambda>s' cs'. if length s' < length s then casar (Rep g r) k s' cs' else None) s cs
      in if g then (case mas of Some x \<Rightarrow> Some x | None \<Rightarrow> k s cs)
         else (case k s cs of Some x \<Rightarrow> Some x | None \<Rightarrow> mas))"
| "casar (Grupo i r) k s cs = casar r (\<lambda>s' cs'. k s' ((i, take (length s - length s') s) # cs')) s cs"
| "casar (NoSigue r) k s cs = (case casar r (\<lambda>s' cs'. Some (s', cs')) s [] of Some _ \<Rightarrow> None | None \<Rightarrow> k s cs)"
  by pat_completeness auto

termination
  by (relation "inv_image (less_than <*lex*> less_than) (\<lambda>(r, k, s, cs). (size r, length s))") auto

text \<open>The first position at which the pattern matches: the text matched and the captures.\<close>

fun buscar :: "patron \<Rightarrow> string \<Rightarrow> (string \<times> capturas) option" where
  "buscar r s = (case casar r (\<lambda>s' cs'. Some (s', cs')) s [] of
       Some (s', cs') \<Rightarrow> Some (take (length s - length s') s, cs')
     | None \<Rightarrow> (case s of [] \<Rightarrow> None | _ # t \<Rightarrow> buscar r t))"

definition grupo :: "nat \<Rightarrow> string \<times> capturas \<Rightarrow> string option" where
  "grupo i m = map_of (snd m) i"

section \<open>Notation of patterns\<close>

fun secuencia :: "patron list \<Rightarrow> patron" where
  "secuencia [] = Vacio"
| "secuencia [r] = r"
| "secuencia (r # rs) = Sec r (secuencia rs)"

fun alternativas :: "patron list \<Rightarrow> patron" where
  "alternativas [] = Clase (\<lambda>_. False)"
| "alternativas [r] = r"
| "alternativas (r # rs) = Alt r (alternativas rs)"

definition opcional :: "patron \<Rightarrow> patron" where
  "opcional r = Alt r Vacio"

text \<open>\<^verbatim>\<open>r{n}\<close>, \<^verbatim>\<open>r{n,}\<close> and \<^verbatim>\<open>r{n,n+m}\<close>.\<close>

definition veces :: "nat \<Rightarrow> patron \<Rightarrow> patron" where
  "veces n r = secuencia (replicate n r)"

definition al_menos :: "nat \<Rightarrow> patron \<Rightarrow> patron" where
  "al_menos n r = Sec (veces n r) (Rep True r)"

fun hasta :: "nat \<Rightarrow> patron \<Rightarrow> patron" where
  "hasta 0 r = Vacio"
| "hasta (Suc n) r = opcional (Sec r (hasta n r))"

definition entre :: "nat \<Rightarrow> nat \<Rightarrow> patron \<Rightarrow> patron" where
  "entre n m r = Sec (veces n r) (hasta (m - n) r)"

text \<open>Characters: \<^verbatim>\<open>toLowerCase\<close> on Latin-1 text, \<^verbatim>\<open>\d\<close>, \<^verbatim>\<open>\s\<close>, and the literals with and without
  the flag \<^verbatim>\<open>i\<close>.\<close>

definition cod :: "char \<Rightarrow> nat" where
  "cod c = of_char c"

definition minuscula :: "char \<Rightarrow> char" where
  "minuscula c = (let n = cod c in
     if 65 \<le> n \<and> n \<le> 90 \<or> 192 \<le> n \<and> n \<le> 222 \<and> n \<noteq> 215 then char_of (n + 32) else c)"

definition minusculas :: "string \<Rightarrow> string" where
  "minusculas s = map minuscula s"

definition digito :: "char \<Rightarrow> bool" where
  "digito c \<longleftrightarrow> 48 \<le> cod c \<and> cod c \<le> 57"

definition blanco :: "char \<Rightarrow> bool" where
  "blanco c \<longleftrightarrow> 9 \<le> cod c \<and> cod c \<le> 13 \<or> cod c = 32 \<or> cod c = 160"

definition letra_i :: "char \<Rightarrow> bool" where
  "letra_i c \<longleftrightarrow> (let n = cod (minuscula c) in 97 \<le> n \<and> n \<le> 122)"

definition en :: "string \<Rightarrow> char \<Rightarrow> bool" where
  "en ds c \<longleftrightarrow> c \<in> set ds"

definition lit :: "string \<Rightarrow> patron" where
  "lit w = secuencia (map (\<lambda>d. Clase (\<lambda>c. c = d)) w)"

definition lit_i :: "string \<Rightarrow> patron" where
  "lit_i w = secuencia (map (\<lambda>d. Clase (\<lambda>c. minuscula c = minuscula d)) w)"

definition todo :: "char \<Rightarrow> bool" where
  "todo c = True"

section \<open>What a match says\<close>

text \<open>The language of a pattern, the lookahead apart.\<close>

inductive genera_texto :: "patron \<Rightarrow> string \<Rightarrow> bool" where
  Vacio: "genera_texto Vacio []"
| Clase: "P c \<Longrightarrow> genera_texto (Clase P) [c]"
| Sec: "genera_texto a u \<Longrightarrow> genera_texto b v \<Longrightarrow> genera_texto (Sec a b) (u @ v)"
| Alt1: "genera_texto a u \<Longrightarrow> genera_texto (Alt a b) u"
| Alt2: "genera_texto b u \<Longrightarrow> genera_texto (Alt a b) u"
| Rep0: "genera_texto (Rep g r) []"
| Rep1: "genera_texto r u \<Longrightarrow> genera_texto (Rep g r) v \<Longrightarrow> genera_texto (Rep g r) (u @ v)"
| Grupo: "genera_texto r u \<Longrightarrow> genera_texto (Grupo i r) u"
| NoSigue: "genera_texto (NoSigue r) []"

inductive_simps genera_texto_simps [simp]:
  "genera_texto Vacio w" "genera_texto (Clase P) w" "genera_texto (Sec a b) w" "genera_texto (Alt a b) w"
  "genera_texto (Grupo i r) w" "genera_texto (NoSigue r) w"

text \<open>The groups of a pattern, and what a list of captures may hold.\<close>

fun grupos :: "patron \<Rightarrow> (nat \<times> patron) set" where
  "grupos Vacio = {}"
| "grupos (Clase P) = {}"
| "grupos (Sec a b) = grupos a \<union> grupos b"
| "grupos (Alt a b) = grupos a \<union> grupos b"
| "grupos (Rep g r) = grupos r"
| "grupos (Grupo i r) = insert (i, r) (grupos r)"
| "grupos (NoSigue r) = {}"

definition capturas_de :: "(nat \<times> patron) set \<Rightarrow> capturas \<Rightarrow> capturas \<Rightarrow> bool" where
  "capturas_de G cs cs' \<longleftrightarrow> (\<forall>(i, w) \<in> set cs'. (i, w) \<in> set cs \<or> (\<exists>r. (i, r) \<in> G \<and> genera_texto r w))"

lemma capturas_refl [simp]: "capturas_de G cs cs"
  by (auto simp: capturas_de_def)

lemma capturas_trans: "capturas_de G cs cs1 \<Longrightarrow> capturas_de H cs1 cs2 \<Longrightarrow> capturas_de (G \<union> H) cs cs2"
  by (fastforce simp: capturas_de_def)

lemma capturas_mono: "capturas_de G cs cs' \<Longrightarrow> G \<subseteq> H \<Longrightarrow> capturas_de H cs cs'"
  by (fastforce simp: capturas_de_def)

lemma capturas_cons:
  "capturas_de G cs cs' \<Longrightarrow> genera_texto r u \<Longrightarrow> capturas_de (insert (i, r) G) cs ((i, u) # cs')"
  by (fastforce simp: capturas_de_def)

text \<open>A match consumes a text of the language and hands the rest to the continuation, with captures
  of the languages of its groups.\<close>

lemma casar_consume:
  "casar r k s cs = Some x \<Longrightarrow>
   \<exists>u s' cs'. s = u @ s' \<and> genera_texto r u \<and> capturas_de (grupos r) cs cs' \<and> k s' cs' = Some x"
proof (induction r k s cs rule: casar.induct)
  case (1 k s cs)
  then show ?case by (intro exI [of _ "[]"] exI [of _ s] exI [of _ cs]) simp
next
  case (2 P k s cs)
  then obtain c s' where s: "s = c # s'" "P c" "k s' cs = Some x" by (cases s) (auto split: if_splits)
  then show ?case by (intro exI [of _ "[c]"] exI [of _ s'] exI [of _ cs]) simp
next
  case (3 a b k s cs)
  from "3.prems" "3.IH"(2) obtain u s1 cs1 where u: "s = u @ s1" "genera_texto a u"
    "capturas_de (grupos a) cs cs1" "casar b k s1 cs1 = Some x" by fastforce
  from "3.IH"(1) [OF u(4)] obtain v s2 cs2 where v: "s1 = v @ s2" "genera_texto b v"
    "capturas_de (grupos b) cs1 cs2" "k s2 cs2 = Some x" by blast
  with u capturas_trans [OF u(3) v(3)] show ?case
    by (intro exI [of _ "u @ v"] exI [of _ s2] exI [of _ cs2]) auto
next
  case (4 a b k s cs)
  then consider "casar a k s cs = Some x" | "casar a k s cs = None" "casar b k s cs = Some x"
    by (auto split: option.splits)
  then show ?case
  proof cases
    case 1
    from "4.IH"(1) [OF 1] show ?thesis by (auto intro: capturas_mono)
  next
    case 2
    from "4.IH"(2) [OF 2] show ?thesis by (auto intro: capturas_mono)
  qed
next
  case (5 g r k s cs)
  let ?k = "\<lambda>s' cs'. if length s' < length s then casar (Rep g r) k s' cs' else None"
  from "5.prems" consider "casar r ?k s cs = Some x" | "k s cs = Some x"
    by (auto simp: Let_def split: if_splits option.splits)
  then show ?case
  proof cases
    case 1
    from "5.IH"(2) [OF 1] obtain u s1 cs1 where u: "s = u @ s1" "genera_texto r u"
      "capturas_de (grupos r) cs cs1" "?k s1 cs1 = Some x" by blast
    then have l: "length s1 < length s" "casar (Rep g r) k s1 cs1 = Some x" by (auto split: if_splits)
    from "5.IH"(1) [OF l] obtain v s2 cs2 where v: "s1 = v @ s2" "genera_texto (Rep g r) v"
      "capturas_de (grupos (Rep g r)) cs1 cs2" "k s2 cs2 = Some x" by blast
    with u capturas_trans [OF u(3) v(3)] show ?thesis
      by (intro exI [of _ "u @ v"] exI [of _ s2] exI [of _ cs2]) (auto intro: genera_texto.Rep1)
  next
    case 2
    then show ?thesis by (intro exI [of _ "[]"] exI [of _ s] exI [of _ cs]) (auto intro: genera_texto.Rep0)
  qed
next
  case (6 i r k s cs)
  from "6.IH" "6.prems" obtain u s1 cs1 where u: "s = u @ s1" "genera_texto r u" "capturas_de (grupos r) cs cs1"
    "k s1 ((i, take (length s - length s1) s) # cs1) = Some x" by fastforce
  with capturas_cons [OF u(3,2), of i] show ?case
    by (intro exI [of _ u] exI [of _ s1] exI [of _ "(i, u) # cs1"]) simp
next
  case (7 r k s cs)
  then show ?case by (intro exI [of _ "[]"] exI [of _ s] exI [of _ cs]) (auto split: option.splits)
qed

lemma buscar_texto:
  assumes "buscar r s = Some m"
  shows "\<exists>a b. s = a @ fst m @ b \<and> genera_texto r (fst m) \<and>
     (\<forall>i w. grupo i m = Some w \<longrightarrow> (\<exists>q. (i, q) \<in> grupos r \<and> genera_texto q w))"
  using assms
proof (induction r s rule: buscar.induct)
  case (1 r s)
  show ?case
  proof (cases "casar r (\<lambda>s' cs'. Some (s', cs')) s []")
    case None
    with "1.prems" obtain c t where s: "s = c # t" "buscar r t = Some m" by (cases s) auto
    from "1.IH" [OF None s] obtain a b where "t = a @ fst m @ b" "genera_texto r (fst m)"
      "\<forall>i w. grupo i m = Some w \<longrightarrow> (\<exists>q. (i, q) \<in> grupos r \<and> genera_texto q w)" by blast
    with s(1) show ?thesis by (intro exI [of _ "c # a"] exI [of _ b]) simp
  next
    case (Some y)
    from casar_consume [OF Some] obtain u s' cs' where u: "s = u @ s'" "genera_texto r u"
      "capturas_de (grupos r) [] cs'" "y = (s', cs')" by auto
    have m: "m = (u, cs')" using "1.prems" Some u by simp
    have "\<exists>q. (i, q) \<in> grupos r \<and> genera_texto q w" if "grupo i m = Some w" for i w
      using u(3) map_of_SomeD [of cs' i w] that by (auto simp: grupo_def m capturas_de_def)
    with u m show ?thesis by (intro exI [of _ "[]"] exI [of _ s']) auto
  qed
qed

text \<open>A capture is a part of the text.\<close>

definition partes_de :: "string \<Rightarrow> capturas \<Rightarrow> capturas \<Rightarrow> bool" where
  "partes_de s cs cs' \<longleftrightarrow> (\<forall>(i, w) \<in> set cs'. (i, w) \<in> set cs \<or> sublist w s)"

lemma partes_refl [simp]: "partes_de s cs cs"
  by (auto simp: partes_de_def)

lemma partes_trans: "partes_de (u @ s) cs cs1 \<Longrightarrow> partes_de s cs1 cs2 \<Longrightarrow> partes_de (u @ s) cs cs2"
  by (fastforce simp: partes_de_def sublist_append)

lemma partes_cons: "partes_de (u @ s) cs cs' \<Longrightarrow> partes_de (u @ s) cs ((i, u) # cs')"
  by (auto simp: partes_de_def)

lemma casar_partes:
  "casar r k s cs = Some x \<Longrightarrow> \<exists>u s' cs'. s = u @ s' \<and> partes_de s cs cs' \<and> k s' cs' = Some x"
proof (induction r k s cs rule: casar.induct)
  case (1 k s cs)
  then show ?case by (intro exI [of _ "[]"] exI [of _ s] exI [of _ cs]) simp
next
  case (2 P k s cs)
  then obtain c s' where s: "s = c # s'" "k s' cs = Some x" by (cases s) (auto split: if_splits)
  then show ?case by (intro exI [of _ "[c]"] exI [of _ s'] exI [of _ cs]) simp
next
  case (3 a b k s cs)
  from "3.prems" "3.IH"(2) obtain u s1 cs1 where u: "s = u @ s1" "partes_de s cs cs1"
    "casar b k s1 cs1 = Some x" by fastforce
  from "3.IH"(1) [OF u(3)] obtain v s2 cs2 where v: "s1 = v @ s2" "partes_de s1 cs1 cs2"
    "k s2 cs2 = Some x" by blast
  have "partes_de s cs cs2" using partes_trans [OF _ v(2), of u cs] u(1,2) by simp
  with u v show ?case by (intro exI [of _ "u @ v"] exI [of _ s2] exI [of _ cs2]) simp
next
  case (4 a b k s cs)
  then consider "casar a k s cs = Some x" | "casar a k s cs = None" "casar b k s cs = Some x"
    by (auto split: option.splits)
  then show ?case using "4.IH" by cases blast+
next
  case (5 g r k s cs)
  let ?k = "\<lambda>s' cs'. if length s' < length s then casar (Rep g r) k s' cs' else None"
  from "5.prems" consider "casar r ?k s cs = Some x" | "k s cs = Some x"
    by (auto simp: Let_def split: if_splits option.splits)
  then show ?case
  proof cases
    case 1
    from "5.IH"(2) [OF 1] obtain u s1 cs1 where u: "s = u @ s1" "partes_de s cs cs1"
      "?k s1 cs1 = Some x" by blast
    then have l: "length s1 < length s" "casar (Rep g r) k s1 cs1 = Some x" by (auto split: if_splits)
    from "5.IH"(1) [OF l] obtain v s2 cs2 where v: "s1 = v @ s2" "partes_de s1 cs1 cs2"
      "k s2 cs2 = Some x" by blast
    have "partes_de s cs cs2" using partes_trans [OF _ v(2), of u cs] u(1,2) by simp
    with u v show ?thesis by (intro exI [of _ "u @ v"] exI [of _ s2] exI [of _ cs2]) simp
  next
    case 2
    then show ?thesis by (intro exI [of _ "[]"] exI [of _ s] exI [of _ cs]) simp
  qed
next
  case (6 i r k s cs)
  from "6.IH" "6.prems" obtain u s1 cs1 where u: "s = u @ s1" "partes_de s cs cs1"
    "k s1 ((i, take (length s - length s1) s) # cs1) = Some x" by fastforce
  with partes_cons [of u s1 cs cs1 i] show ?case
    by (intro exI [of _ u] exI [of _ s1] exI [of _ "(i, u) # cs1"]) simp
next
  case (7 r k s cs)
  then show ?case by (intro exI [of _ "[]"] exI [of _ s] exI [of _ cs]) (auto split: option.splits)
qed

lemma buscar_grupo:
  assumes "buscar r s = Some m" and "grupo i m = Some w"
  shows "sublist w s"
  using assms
proof (induction r s rule: buscar.induct)
  case (1 r s)
  show ?case
  proof (cases "casar r (\<lambda>s' cs'. Some (s', cs')) s []")
    case None
    with "1.prems" obtain c t where s: "s = c # t" "buscar r t = Some m" by (cases s) auto
    from "1.IH" [OF None s "1.prems"(2)] show ?thesis using sublist_append_rightI [of t "[c]"]
      by (auto simp: s(1) sublist_Cons_right)
  next
    case (Some y)
    from casar_partes [OF Some] obtain s' cs' where u: "partes_de s [] cs'" "y = (s', cs')" by auto
    have "snd m = cs'" using "1.prems"(1) Some u(2) by auto
    then show ?thesis using u(1) "1.prems"(2) map_of_SomeD [of cs' i w]
      by (auto simp: grupo_def partes_de_def)
  qed
qed

end
