(* ===== verification/ServiceSync.thy ===== *)
theory ServiceSync
  imports DetectedExpenses Banking RegExp
begin

text \<open>
  \<^verbatim>\<open>src/modules/service-sync\<close>: the mails of the providers of public services
  (\<^verbatim>\<open>service-sync.service.ts\<close>) and their classification into detected expenses
  (\<^verbatim>\<open>classification.service.ts\<close>). \<open>coincide\<close> and \<open>orden\<close> are the regular expression match and the
  sort of the database, \<open>od\<close> the ids that texts denote. Texts are Latin-1.
\<close>

section \<open>Communications\<close>

datatype communication_type =
    FACTURA_DISPONIBLE | VENCIMIENTO_PROXIMO | AVISO_DEUDA | AVISO_CORTE | OTRO

datatype communication_status = UNPROCESSED | PROCESSED | IGNORED | ERROR

record comunicacion =
  sc_id :: oid
  sc_email_id :: string
  proveedor_cuit :: "string option"
  sc_proveedor_id :: "oid option"
  remitente :: "string option"
  asunto :: "string option"
  fecha_email :: "fecha option"
  cuerpo_texto :: "string option"
  cuerpo_html :: "string option"
  sc_tipo_alerta :: communication_type
  sc_identificador :: "string option"
  numero_medidor :: "string option"
  sc_monto_estimado :: "monto option"
  sc_fecha_vencimiento :: "fecha option"
  periodo_label :: "string option"
  propiedades_sugeridas_ids :: "oid list"
  propiedad_confirmada_id :: "oid option"
  gasto_detectado_id :: "oid option"
  sc_estado :: communication_status
  sc_notas :: "string option"
  error_message :: "string option"

record bd_sc = bd_gas +
  comunicaciones :: "comunicacion list"

definition con_comms ::
  "(comunicacion list \<Rightarrow> comunicacion list) \<Rightarrow> 'a bd_sc_scheme \<Rightarrow> 'a bd_sc_scheme" where
  "con_comms f s = s\<lparr>comunicaciones := f (comunicaciones s)\<rparr>"

interpretation comms: coleccion sc_id comunicaciones con_comms
  by unfold_locales (simp add: con_comms_def)

abbreviation com_de :: "oid \<Rightarrow> 'a bd_sc_scheme \<Rightarrow> comunicacion option" where
  "com_de i s \<equiv> find_id sc_id i (comunicaciones s)"

text \<open>
  A payload is a communication without an id; what it need not give is optional, and an empty
  \<open>sc_email_id\<close> is one that is missing.
\<close>

record payload_com =
  pc_tipo_alerta :: "communication_type option"
  pc_estado :: "communication_status option"
  pc_resto :: comunicacion

definition sc_create :: "payload_com \<Rightarrow> ('a bd_sc_scheme, comunicacion option) proc" where
  "sc_create payload =
     (if sc_email_id (pc_resto payload) = []
      then raise (BadRequestException ''email_id es requerido'' [])
      else
        ebind (gets comunicaciones) (\<lambda>cs.
        if sc_email_id (pc_resto payload) \<in> sc_email_id ` set cs then ret None
        else
          ebind nuevo_id (\<lambda>i.
          let c = (pc_resto payload)\<lparr>sc_id := i,
                    sc_estado := coalesce (pc_estado payload) UNPROCESSED,
                    sc_tipo_alerta := coalesce (pc_tipo_alerta payload) OTRO\<rparr>
          in ebind (modify (con_comms (\<lambda>cs. cs @ [c]))) (\<lambda>_. ret (Some c)))))"

record filtros_com =
  fc_proveedor_cuit :: "string option"
  fc_identificador_servicio :: "string option"
  fc_remitente :: "string option"
  fc_asunto :: "string option"
  fc_tipo_alerta :: "communication_type option"
  fc_estado :: "communication_status option"
  fc_desde :: "fecha option"
  fc_hasta :: "fecha option"
  solo_sin_procesar :: bool
  fc_page :: nat
  fc_pageSize :: nat

definition fecha_entre :: "fecha option \<Rightarrow> fecha option \<Rightarrow> fecha option \<Rightarrow> bool" where
  "fecha_entre desde hasta_f x \<longleftrightarrow>
     (desde = None \<and> hasta_f = None) \<or>
     (case x of
        None \<Rightarrow> False
      | Some t \<Rightarrow> (case desde of None \<Rightarrow> True | Some d \<Rightarrow> d \<le> t) \<and>
                 (case hasta_f of None \<Rightarrow> True | Some h \<Rightarrow> t \<le> h))"

definition filtro_com :: "(string \<Rightarrow> string \<Rightarrow> bool) \<Rightarrow> filtros_com \<Rightarrow> comunicacion \<Rightarrow> bool" where
  "filtro_com coincide f c \<longleftrightarrow>
     coincide_con coincide (fc_proveedor_cuit f) (proveedor_cuit c) \<and>
     coincide_con coincide (fc_identificador_servicio f) (sc_identificador c) \<and>
     coincide_con coincide (fc_remitente f) (remitente c) \<and>
     coincide_con coincide (fc_asunto f) (asunto c) \<and>
     (case fc_tipo_alerta f of None \<Rightarrow> True | Some t \<Rightarrow> sc_tipo_alerta c = t) \<and>
     (if solo_sin_procesar f then sc_estado c = UNPROCESSED
      else case fc_estado f of None \<Rightarrow> True | Some e \<Rightarrow> sc_estado c = e) \<and>
     fecha_entre (fc_desde f) (fc_hasta f) (fecha_email c)"

definition sc_findAll ::
  "(string \<Rightarrow> string \<Rightarrow> bool) \<Rightarrow> (comunicacion list \<Rightarrow> comunicacion list) \<Rightarrow> filtros_com \<Rightarrow>
   ('a bd_sc_scheme, comunicacion list \<times> nat \<times> int) proc" where
  "sc_findAll coincide orden f =
     gets (\<lambda>s. let cs = filter (filtro_com coincide f) (comunicaciones s)
        in (pagina (fc_page f) (fc_pageSize f) (orden cs), length cs, total_paginas (length cs) (fc_pageSize f)))"

definition com_no_encontrada :: "string \<Rightarrow> excepcion" where
  "com_no_encontrada id_t = NotFoundException ''Comunicacion {} no encontrada'' [AStr id_t]"

definition sc_findOne :: "(string \<Rightarrow> oid option) \<Rightarrow> string \<Rightarrow> ('a bd_sc_scheme, comunicacion) proc" where
  "sc_findOne od id_t =
     (case od id_t of
        None \<Rightarrow> raise (com_no_encontrada id_t)
      | Some i \<Rightarrow> obtener sc_id comunicaciones i (com_no_encontrada id_t))"

definition guardar_com :: "comunicacion \<Rightarrow> ('a bd_sc_scheme, comunicacion) proc" where
  "guardar_com c = ebind (modify (con_comms (save_doc sc_id c))) (\<lambda>_. ret c)"

definition sc_updateStatus ::
  "(string \<Rightarrow> oid option) \<Rightarrow> string \<Rightarrow> communication_status \<Rightarrow> string option \<Rightarrow>
   ('a bd_sc_scheme, comunicacion) proc" where
  "sc_updateStatus od id_t status notes =
     ebind (sc_findOne od id_t) (\<lambda>doc.
     guardar_com (doc\<lparr>sc_estado := status,
       sc_notas := (if o_texto notes [] = [] then sc_notas doc else notes)\<rparr>))"

text \<open>\<^verbatim>\<open>new Types.ObjectId(t)\<close> throws on a text that is not an id.\<close>

definition nuevo_ObjectId :: "(string \<Rightarrow> oid option) \<Rightarrow> string \<Rightarrow> ('s, oid) proc" where
  "nuevo_ObjectId od t = (case od t of None \<Rightarrow> raise (ErrorJS ''BSONError'' [AStr t]) | Some i \<Rightarrow> ret i)"

definition linkDetectedExpense ::
  "(string \<Rightarrow> oid option) \<Rightarrow> string \<Rightarrow> string \<Rightarrow> string list option \<Rightarrow> ('a bd_sc_scheme, comunicacion) proc" where
  "linkDetectedExpense od id_t gastoId propertyIds =
     ebind (sc_findOne od id_t) (\<lambda>doc.
     ebind (nuevo_ObjectId od gastoId) (\<lambda>g.
     ebind (for_each (nuevo_ObjectId od) (coalesce propertyIds [])) (\<lambda>ps.
     guardar_com (doc\<lparr>gasto_detectado_id := Some g,
       propiedades_sugeridas_ids := (if ps = [] then propiedades_sugeridas_ids doc else ps),
       sc_estado := PROCESSED\<rparr>))))"

record stats_com =
  sm_total :: nat
  sm_pendientes :: nat
  sm_procesadas :: nat
  sm_ignoradas :: nat
  sm_por_tipo :: "(communication_type \<times> nat) list"
  tasa_procesamiento :: rat

definition contar_estado :: "communication_status \<Rightarrow> comunicacion list \<Rightarrow> nat" where
  "contar_estado e cs = length (filter (\<lambda>c. sc_estado c = e) cs)"

definition por_tipo_com :: "comunicacion list \<Rightarrow> (communication_type \<times> nat) list" where
  "por_tipo_com cs =
     filter (\<lambda>(t, n). n > 0)
       (map (\<lambda>t. (t, length (filter (\<lambda>c. sc_tipo_alerta c = t) cs)))
          [FACTURA_DISPONIBLE, VENCIMIENTO_PROXIMO, AVISO_DEUDA, AVISO_CORTE, OTRO])"

definition sc_getStats :: "('a bd_sc_scheme, stats_com) proc" where
  "sc_getStats = gets (\<lambda>s.
     let cs = comunicaciones s; n = length cs; procesadas = contar_estado PROCESSED cs
     in \<lparr>sm_total = n, sm_pendientes = contar_estado UNPROCESSED cs, sm_procesadas = procesadas,
         sm_ignoradas = contar_estado IGNORED cs, sm_por_tipo = por_tipo_com cs,
         tasa_procesamiento =
           (if n > 0 then of_int (math_round (of_nat procesadas / of_nat n * 10000)) / 100 else 0)\<rparr>)"

section \<open>The number of a service in a text\<close>

text \<open>\<^verbatim>\<open>[0-9\/\-\.\s]\<close> and the patterns of \<^verbatim>\<open>accountPatterns\<close>; 186 and 176 are the two degree signs.\<close>

definition de_cuenta :: patron where
  "de_cuenta = Grupo 1 (al_menos 6 (Clase (\<lambda>c. digito c \<or> en ''/-.'' c \<or> blanco c)))"

definition blancos :: patron where
  "blancos = Rep True (Clase blanco)"

definition dos_puntos :: patron where
  "dos_puntos = Rep True (Clase (\<lambda>c. c = CHR '':'' \<or> blanco c))"

definition patron_nro :: patron where
  "patron_nro =
     secuencia [lit_i ''Nro'', opcional (lit ''.''), blancos, lit_i ''Cuenta'', dos_puntos, de_cuenta]"

definition patron_cuenta :: patron where
  "patron_cuenta =
     secuencia [lit_i ''Cuenta'',
       opcional (secuencia [blancos, lit_i ''N'',
         alternativas [lit_i ''o'', lit [char_of (186::nat)], lit [char_of (176::nat)], lit_i ''ro''],
         opcional (lit ''.'')]),
       dos_puntos, de_cuenta]"

definition patron_grado :: patron where
  "patron_grado =
     secuencia [lit_i ''N'', opcional (Clase blanco), lit [char_of (176::nat)], blancos, de_cuenta]"

definition patron_barras :: patron where
  "patron_barras = Grupo 1 (secuencia [al_menos 3 (Clase digito), lit ''/0'',
     al_menos 1 (Clase (\<lambda>c. digito c \<or> c = CHR ''-'')),
     lit ''/'', al_menos 5 (Clase (\<lambda>c. digito c \<or> en ''-/'' c))])"

definition accountPatterns :: "patron list" where
  "accountPatterns = [patron_nro, patron_cuenta, patron_grado, patron_barras]"

definition patron_barra :: patron where
  "patron_barra = secuencia [al_menos 3 (Clase digito), lit ''/'',
     al_menos 3 (Clase (\<lambda>c. digito c \<or> letra_i c \<or> en ''-/'' c))]"

definition solo_digitos :: "string \<Rightarrow> string" where
  "solo_digitos t = filter digito t"

fun primer_patron :: "patron list \<Rightarrow> string \<Rightarrow> string option" where
  "primer_patron [] t = None"
| "primer_patron (p # ps) t =
     (case buscar p t of
        None \<Rightarrow> primer_patron ps t
      | Some m \<Rightarrow>
          let cleaned = solo_digitos (coalesce (grupo 1 m) [])
          in if length cleaned \<ge> 4 then Some cleaned else primer_patron ps t)"

definition extractServiceIdFromText :: "string \<Rightarrow> string option" where
  "extractServiceIdFromText t =
     (if t = [] then None
      else case primer_patron accountPatterns t of
        Some i \<Rightarrow> Some i
      | None \<Rightarrow> map_option (\<lambda>m. solo_digitos (fst m)) (buscar patron_barra t))"

section \<open>Classification\<close>

fun mapTipoAlertaToDetected :: "communication_type \<Rightarrow> tipo_gasto" where
  "mapTipoAlertaToDetected AVISO_CORTE = G_AVISO_CORTE"
| "mapTipoAlertaToDetected AVISO_DEUDA = G_AVISO_DEUDA"
| "mapTipoAlertaToDetected FACTURA_DISPONIBLE = G_FACTURA_DISPONIBLE"
| "mapTipoAlertaToDetected VENCIMIENTO_PROXIMO = G_FACTURA_DISPONIBLE"
| "mapTipoAlertaToDetected OTRO = G_FACTURA_DISPONIBLE"

definition actualizar_com :: "oid \<Rightarrow> (comunicacion \<Rightarrow> comunicacion) \<Rightarrow> ('a bd_sc_scheme, unit) proc" where
  "actualizar_com i f = modify (con_comms (update_one (\<lambda>c. sc_id c = i) f))"

datatype resultado_com = NO_SERVICE_ID | CREADO oid "oid list"

definition resolvedAgentId :: "comunicacion \<Rightarrow> 'a bd_sc_scheme \<Rightarrow> oid option" where
  "resolvedAgentId c s =
     (case sc_proveedor_id c of
        Some i \<Rightarrow> Some i
      | None \<Rightarrow>
          if o_texto (proveedor_cuit c) [] = [] then None
          else map_option ag_id (find (\<lambda>a. Some (identificador_fiscal a) = proveedor_cuit c) (agentes s)))"

text \<open>Without an agent the expense gets a new id that no agent has.\<close>

definition proveedor_o_nuevo :: "oid option \<Rightarrow> ('a bd_sc_scheme, oid) proc" where
  "proveedor_o_nuevo a = (case a of Some i \<Rightarrow> ret i | None \<Rightarrow> nuevo_id)"

definition gasto_de_com :: "comunicacion \<Rightarrow> string \<Rightarrow> oid \<Rightarrow> create_gasto_dto" where
  "gasto_de_com c ident ag =
     \<lparr>cg_agente_proveedor_id = ag, cg_tipo_alerta = mapTipoAlertaToDetected (sc_tipo_alerta c),
      cg_identificador_servicio = ident, cg_monto_estimado = sc_monto_estimado c,
      cg_provider_cuit = (if o_texto (proveedor_cuit c) [] = [] then None else proveedor_cuit c),
      cg_estado_procesamiento = Some PENDIENTE_VALIDACION,
      cg_cuerpo_email = map_option (take 5000) (cuerpo_texto c), cg_adjunto_referencia_url = None,
      cg_propuesta_asiento = None, cg_asiento_creado_id = None, cg_estado_final = None\<rparr>"

definition proponer :: "oid \<Rightarrow> ('a bd_sc_scheme, unit) proc" where
  "proponer i =
     try_catch
       (ebind (processDetectedUtilityInvoices
          \<lparr>detectedExpenseIds = Some [i], dryRun = False, og_limit = 1\<rparr>) (\<lambda>_. ret ()))
       (\<lambda>e. ret ())"

definition processCommunication :: "comunicacion \<Rightarrow> ('a bd_sc_scheme, resultado_com) proc" where
  "processCommunication c =
     (if o_texto (sc_identificador c) [] = []
      then ebind (actualizar_com (sc_id c) (\<lambda>x. x\<lparr>sc_estado := ERROR,
             sc_notas := Some ''No se pudo extraer identificador de servicio''\<rparr>)) (\<lambda>_.
           ret NO_SERVICE_ID)
      else
        let ident = o_texto (sc_identificador c) []; cleanServiceId = solo_digitos ident in
        ebind (findByMedidor cleanServiceId) (\<lambda>props0.
        let propiedadesIds = map pp_id (take 5 props0) in
        ebind (gets (resolvedAgentId c)) (\<lambda>agente.
        ebind (proveedor_o_nuevo agente) (\<lambda>ag.
        ebind (ge_create (gasto_de_com c ident ag)) (\<lambda>expense.
        ebind (actualizar_com (sc_id c) (\<lambda>x. x\<lparr>gasto_detectado_id := Some (ge_id expense),
             propiedades_sugeridas_ids := propiedadesIds, sc_estado := PROCESSED\<rparr>)) (\<lambda>_.
        ebind (proponer (ge_id expense)) (\<lambda>_.
        ret (CREADO (ge_id expense) propiedadesIds))))))))"

record opciones_com =
  communicationId :: "string option"
  communicationIds :: "string list option"
  maxPerRun :: "int option"
  oc_providerCuit :: "string option"
  tryExtractServiceId :: "bool option"

text \<open>The selection by ids; a list that is not empty overrides the single id.\<close>

definition ids_pedidos :: "(string \<Rightarrow> oid option) \<Rightarrow> opciones_com \<Rightarrow> ('s, oid list option) proc" where
  "ids_pedidos od opt =
     ebind (if o_texto (communicationId opt) [] = [] then ret None
            else ebind (nuevo_ObjectId od (o_texto (communicationId opt) [])) (\<lambda>i. ret (Some [i]))) (\<lambda>uno.
     if coalesce (communicationIds opt) [] = [] then ret uno
     else ebind (for_each (nuevo_ObjectId od) (coalesce (communicationIds opt) [])) (\<lambda>is. ret (Some is)))"

definition limite_com :: "int option \<Rightarrow> nat" where
  "limite_com m = nat (min (max (coalesce m 50) 1) 200)"

text \<open>\<^verbatim>\<open>sort('-fecha_email')\<close>: the latest first, those without a date last.\<close>

definition mas_reciente :: "comunicacion list \<Rightarrow> comunicacion list" where
  "mas_reciente cs =
     sort_key (\<lambda>c. - coalesce (fecha_email c) 0) (filter (\<lambda>c. fecha_email c \<noteq> None) cs) @
     filter (\<lambda>c. fecha_email c = None) cs"

definition por_clasificar :: "opciones_com \<Rightarrow> oid list option \<Rightarrow> comunicacion list \<Rightarrow> comunicacion list" where
  "por_clasificar opt ids cs =
     take (limite_com (maxPerRun opt)) (mas_reciente (filter (\<lambda>c.
       sc_estado c = UNPROCESSED \<and>
       (case ids of None \<Rightarrow> True | Some is \<Rightarrow> sc_id c \<in> set is) \<and>
       (o_texto (oc_providerCuit opt) [] = [] \<or> proveedor_cuit c = oc_providerCuit opt)) cs))"

definition texto_buscado :: "comunicacion \<Rightarrow> string" where
  "texto_buscado c = coalesce (cuerpo_texto c) [] @ '' '' @ coalesce (asunto c) []"

text \<open>The number extracted is stored and put into the local document.\<close>

definition completar_id :: "opciones_com \<Rightarrow> comunicacion \<Rightarrow> ('a bd_sc_scheme, comunicacion) proc" where
  "completar_id opt c =
     (if o_texto (sc_identificador c) [] = [] \<and> tryExtractServiceId opt \<noteq> Some False
      then (case extractServiceIdFromText (texto_buscado c) of
              None \<Rightarrow> ret c
            | Some extracted \<Rightarrow>
                if extracted = [] then ret c
                else ebind (actualizar_com (sc_id c) (\<lambda>x. x\<lparr>sc_identificador := Some extracted\<rparr>)) (\<lambda>_.
                     ret (c\<lparr>sc_identificador := Some extracted\<rparr>)))
      else ret c)"

definition clasificar_una :: "opciones_com \<Rightarrow> comunicacion \<Rightarrow> ('a bd_sc_scheme, (oid \<times> resultado_com) option) proc" where
  "clasificar_una opt c =
     try_catch
       (ebind (completar_id opt c) (\<lambda>c'.
        ebind (processCommunication c') (\<lambda>res. ret (Some (sc_id c, res)))))
       (\<lambda>e. ret None)"

definition generateCandidates ::
  "(string \<Rightarrow> oid option) \<Rightarrow> opciones_com \<Rightarrow> ('a bd_sc_scheme, nat \<times> (oid \<times> resultado_com) list) proc" where
  "generateCandidates od opt =
     ebind (ids_pedidos od opt) (\<lambda>ids.
     ebind (gets (\<lambda>s. por_clasificar opt ids (comunicaciones s))) (\<lambda>comms.
     ebind (for_each (clasificar_una opt) comms) (\<lambda>rs.
     let results = map the (filter (\<lambda>r. r \<noteq> None) rs) in ret (length results, results))))"

end
