(* ===== verification/DetectedProperties.thy ===== *)
theory DetectedProperties
  imports DetectedExpenses Sums ContractExamples
begin

text \<open>
  What the processing of the detected expenses does: a batch seen as one update of the
  collection, the amounts of a proposal, the entry that a proposal becomes, and the mappings the
  requests can create and find.
\<close>

section \<open>A batch\<close>

lemma con_gastos_campos [simp]:
  "gastos (con_gastos f s) = f (gastos s)" "mapeos (con_gastos f s) = mapeos s"
  "propiedades (con_gastos f s) = propiedades s" "ahora (con_gastos f s) = ahora s"
  "asientos (con_gastos f s) = asientos s" "agentes (con_gastos f s) = agentes s"
  "contratos (con_gastos f s) = contratos s" "plan_cuentas (con_gastos f s) = plan_cuentas s"
  "prox_id (con_gastos f s) = prox_id s"
  by (simp_all add: con_gastos_def)

lemma con_gastos_comp: "con_gastos f (con_gastos g s) = con_gastos (f \<circ> g) s"
  by (simp add: con_gastos_def)

text \<open>What the processing leaves of an expense, and what it reports of it.\<close>

definition servidas :: "'a bd_gas_scheme \<Rightarrow> gasto \<Rightarrow> propiedad list" where
  "servidas s g =
     filter (\<lambda>p. ge_identificador g \<in> identificador_servicio ` set (servicios_impuestos p)) (propiedades s)"

definition gasto_resuelto :: "'a bd_gas_scheme \<Rightarrow> gasto \<Rightarrow> gasto" where
  "gasto_resuelto s g =
     (if servidas s g = [] then g\<lparr>estado_procesamiento := DESCARTADO\<rparr>
      else g\<lparr>estado_procesamiento := ASIGNADO,
             propuesta_asiento := Some (propuesta_de (ahora s) g (servidas s g))\<rparr>)"

definition detalle_de :: "'a bd_gas_scheme \<Rightarrow> gasto \<Rightarrow> detalle_gasto" where
  "detalle_de s g =
     (if servidas s g = [] then NO_PROPERTIES (ge_id g)
      else PROPOSED (ge_id g) (propuesta_de (ahora s) g (servidas s g)))"

lemma servidas_con [simp]: "servidas (con_gastos f s) g = servidas s g"
  by (simp add: servidas_def)

lemma gasto_resuelto_con [simp]:
  "gasto_resuelto (con_gastos f s) = gasto_resuelto s" "detalle_de (con_gastos f s) = detalle_de s"
  by (rule ext, simp add: gasto_resuelto_def detalle_de_def)+

lemma gasto_resuelto_id [simp]: "ge_id (gasto_resuelto s g) = ge_id g"
  by (simp add: gasto_resuelto_def)

lemma gasto_resuelto_estado: "estado_procesamiento (gasto_resuelto s g) \<noteq> PENDIENTE_VALIDACION"
  by (simp add: gasto_resuelto_def)

lemma update_one_unico:
  assumes "distinct (map k ds)" and "d \<in> set ds" and "\<And>x. x = d \<Longrightarrow> f x = y"
  shows "update_one (\<lambda>x. k x = k d) f ds = map (\<lambda>x. if x = d then y else x) ds"
  using assms(1,2)
proof (induction ds)
  case (Cons z ds)
  show ?case
  proof (cases "z = d")
    case True
    have "x \<noteq> d" if "x \<in> set ds" for x using that True Cons.prems(1) by auto
    then have "map (\<lambda>x. if x = d then y else x) ds = ds" by (intro map_idI) auto
    then show ?thesis using True assms(3) by simp
  next
    case False
    then have "k z \<noteq> k d" using Cons.prems by auto
    then show ?thesis using False Cons by simp
  qed
qed simp

lemma procesar_gasto_run:
  assumes "distinct (map ge_id (gastos s))" and "g \<in> set (gastos s)"
  shows "procesar_gasto opt g s =
     (Inr (detalle_de s g),
      if dryRun opt then s
      else con_gastos (map (\<lambda>x. if x = g then gasto_resuelto s g else x)) s)"
proof -
  have u: "con_gastos (update_one (\<lambda>x. ge_id x = ge_id g) f) s =
      con_gastos (map (\<lambda>x. if x = g then y else x)) s" if "f g = y" for f y
    unfolding con_gastos_def using update_one_unico [OF assms, of f y] that by simp
  show ?thesis
  proof (cases "servidas s g = []")
    case True
    have e: "g\<lparr>estado_procesamiento := DESCARTADO, cuerpo_email := cuerpo_email g\<rparr> = gasto_resuelto s g"
      using True by (cases g) (simp add: gasto_resuelto_def)
    show ?thesis
      using True by (simp add: procesar_gasto_def findByMedidor_def ge_update_def ebind_def gets_def
        ret_def modify_def servidas_def [symmetric] detalle_de_def e
        u [of "\<lambda>x. x\<lparr>estado_procesamiento := DESCARTADO, cuerpo_email := cuerpo_email g\<rparr>"
          "gasto_resuelto s g"])
  next
    case False
    have e: "g\<lparr>estado_procesamiento := ASIGNADO,
        propuesta_asiento := Some (propuesta_de (ahora s) g (servidas s g))\<rparr> = gasto_resuelto s g"
      using False by (simp add: gasto_resuelto_def)
    show ?thesis
      using False by (simp add: procesar_gasto_def findByMedidor_def ge_update_def ebind_def gets_def
        ret_def modify_def servidas_def [symmetric] detalle_de_def Let_def e
        u [of "\<lambda>x. x\<lparr>estado_procesamiento := ASIGNADO, propuesta_asiento :=
          Some (propuesta_de (ahora s) g (servidas s g))\<rparr>" "gasto_resuelto s g"])
  qed
qed

lemma procesar_lote:
  assumes "distinct (map ge_id (gastos s))" and "set gs \<subseteq> set (gastos s)" and "distinct gs"
  shows "for_each (procesar_gasto opt) gs s =
     (Inr (map (detalle_de s) gs),
      if dryRun opt then s
      else con_gastos (map (\<lambda>x. if x \<in> set gs then gasto_resuelto s x else x)) s)"
  using assms
proof (induction gs arbitrary: s)
  case Nil
  have "con_gastos (map (\<lambda>x. x)) s = s" by (simp add: con_gastos_def)
  then show ?case by (simp add: ret_def)
next
  case (Cons g gs)
  define s1 where "s1 = (if dryRun opt then s
      else con_gastos (map (\<lambda>x. if x = g then gasto_resuelto s g else x)) s)"
  have run: "procesar_gasto opt g s = (Inr (detalle_de s g), s1)"
    unfolding s1_def using Cons.prems by (intro procesar_gasto_run) auto
  have d1: "distinct (map ge_id (gastos s1))"
  proof -
    have "map ge_id (gastos s1) = map ge_id (gastos s)" by (auto simp: s1_def)
    then show ?thesis using Cons.prems(1) by simp
  qed
  have sub: "set gs \<subseteq> set (gastos s1)"
  proof
    fix x assume x: "x \<in> set gs"
    then have "x \<noteq> g" using Cons.prems(3) by auto
    then show "x \<in> set (gastos s1)" using x Cons.prems(2) by (auto simp: s1_def image_iff)
  qed
  have eqs: "detalle_de s1 = detalle_de s" "gasto_resuelto s1 = gasto_resuelto s"
    by (simp_all add: s1_def)
  have rest: "for_each (procesar_gasto opt) gs s1 = (Inr (map (detalle_de s) gs),
      if dryRun opt then s1 else con_gastos (map (\<lambda>x. if x \<in> set gs then gasto_resuelto s x else x)) s1)"
    using Cons.IH [OF d1 sub] Cons.prems(3) unfolding eqs by simp
  have fin: "con_gastos (map (\<lambda>x. if x \<in> set gs then gasto_resuelto s x else x))
        (con_gastos (map (\<lambda>x. if x = g then gasto_resuelto s g else x)) s) =
      con_gastos (map (\<lambda>x. if x \<in> set (g # gs) then gasto_resuelto s x else x)) s"
  proof -
    have nin: "gasto_resuelto s g \<notin> set gs"
    proof
      assume i: "gasto_resuelto s g \<in> set gs"
      then have "gasto_resuelto s g \<in> set (gastos s)" and "g \<in> set (gastos s)"
        using Cons.prems(2) by auto
      then have "gasto_resuelto s g = g"
        using Cons.prems(1) by (auto simp: distinct_map inj_on_def)
      then show False using i Cons.prems(3) by simp
    qed
    have "map (\<lambda>x. if x \<in> set gs then gasto_resuelto s x else x)
        (map (\<lambda>x. if x = g then gasto_resuelto s g else x) (gastos s)) =
      map (\<lambda>x. if x \<in> set (g # gs) then gasto_resuelto s x else x) (gastos s)"
      using nin Cons.prems(3) by auto
    then show ?thesis by (simp add: con_gastos_def)
  qed
  show ?case
  proof (cases "dryRun opt")
    case True
    then show ?thesis using run rest by (simp add: ebind_step s1_def ret_def)
  next
    case False
    then have s1: "s1 = con_gastos (map (\<lambda>x. if x = g then gasto_resuelto s g else x)) s"
      by (simp add: s1_def)
    show ?thesis using run rest False fin unfolding s1 by (simp add: ebind_step ret_def)
  qed
qed

lemma lote_run:
  assumes "distinct (map ge_id (gastos s))"
  shows "processDetectedUtilityInvoices opt s =
      (Inr (length (a_procesar opt (gastos s)), map (detalle_de s) (a_procesar opt (gastos s))),
       if dryRun opt then s
       else con_gastos (map (\<lambda>g. if g \<in> set (a_procesar opt (gastos s))
                               then gasto_resuelto s g else g)) s)"
proof -
  have "distinct (gastos s)" using assms by (simp add: distinct_map)
  then have dis: "distinct (a_procesar opt (gastos s))"
    by (auto simp: a_procesar_def Let_def split: option.split)
  have sub: "set (a_procesar opt (gastos s)) \<subseteq> set (gastos s)"
    by (auto simp: a_procesar_def Let_def split: option.splits dest: in_set_takeD)
  show ?thesis
    using procesar_lote [OF assms sub dis, of opt]
    by (simp add: processDetectedUtilityInvoices_def ge_findAll_def ebind_def ret_def gets_def)
qed

text \<open>a batch always succeeds, reports the selected expenses in order and is one pass over
  the collection: a selected expense without properties is discarded, any other selected
  expense is assigned its proposal, every other expense and every other collection stays; a dry
  run reports the same and writes nothing. Without a selection no expense stays pending.
\<close>

theorem processDetectedUtilityInvoices_batch:
  assumes "distinct (map ge_id (gastos s))"
  shows "processDetectedUtilityInvoices opt s =
      (Inr (length (a_procesar opt (gastos s)), map (detalle_de s) (a_procesar opt (gastos s))),
       if dryRun opt then s
       else con_gastos (map (\<lambda>g. if g \<in> set (a_procesar opt (gastos s))
                               then gasto_resuelto s g else g)) s) \<and>
    (detectedExpenseIds opt = None \<and> og_limit opt = 0 \<and> \<not> dryRun opt \<longrightarrow>
      list_all (\<lambda>g. estado_procesamiento g \<noteq> PENDIENTE_VALIDACION)
        (gastos (final (processDetectedUtilityInvoices opt) s)))"
  using lote_run [OF assms, of opt]
  by (auto simp: final_def list_all_iff gasto_resuelto_estado a_procesar_def)

section \<open>The amounts of a proposal\<close>

lemma redondear2_cerca: "\<bar>redondear2 x - x\<bar> \<le> 1 / 200 + epsilon_js"
proof -
  have "\<bar>rat_of_int (math_round ((x + epsilon_js) * 100)) - (x + epsilon_js) * 100\<bar> \<le> 1 / 2"
    by (rule math_round_near)
  then have "\<bar>redondear2 x * 100 - (x + epsilon_js) * 100\<bar> \<le> 1 / 2"
    by (simp add: redondear2_def)
  then have "\<bar>redondear2 x - x - epsilon_js\<bar> \<le> 1 / 200"
    unfolding abs_le_iff by (simp add: algebra_simps)
  moreover have "0 \<le> epsilon_js" by (simp add: epsilon_js_def)
  ultimately show ?thesis by linarith
qed

lemma shares_length [simp]: "length (shares pcts) = length pcts"
  by (simp add: shares_def Let_def)

lemma shares_suma:
  assumes "pcts \<noteq> []"
  shows "sum_list (shares pcts) = 100"
proof (cases "(\<Sum>p\<leftarrow>pcts. o_cero p) = 0")
  case True
  then show ?thesis using assms by (simp add: shares_def map_replicate_const sum_list_replicate)
next
  case False
  have "(\<Sum>p\<leftarrow>pcts. o_cero p / t * 100) = (\<Sum>p\<leftarrow>pcts. o_cero p) / t * 100" for t
    by (induction pcts) (simp_all add: field_simps add_divide_distrib)
  then show ?thesis using False by (simp add: shares_def)
qed

lemma suma_cerca:
  assumes "\<And>x. x \<in> set xs \<Longrightarrow> \<bar>f x - g x\<bar> \<le> (e::rat)"
  shows "\<bar>(\<Sum>x\<leftarrow>xs. f x) - (\<Sum>x\<leftarrow>xs. g x)\<bar> \<le> rat_of_nat (length xs) * e"
  using assms
proof (induction xs)
  case (Cons x xs)
  have "\<bar>f x - g x\<bar> \<le> e" and "\<bar>(\<Sum>x\<leftarrow>xs. f x) - (\<Sum>x\<leftarrow>xs. g x)\<bar> \<le> rat_of_nat (length xs) * e"
    using Cons by auto
  then show ?case by (simp add: algebra_simps)
qed simp

lemma suma_factor: "(\<Sum>x\<leftarrow>xs. c * (h x / 100)) = c * ((\<Sum>x\<leftarrow>xs. h x) / (100::rat))"
  by (induction xs) (simp_all add: field_simps)

text \<open>
  The percentages of a proposal add up to 100 and its amounts to the estimate within half a
  cent a line. The entry keeps the estimate as its amount, so the two can differ.
\<close>

theorem propuesta_de_amounts:
  assumes "ps \<noteq> []" and pu_def: "pu = propuesta_de now g ps"
  shows "length (partidas_propuesta pu) = length ps"
    and "(\<Sum>p\<leftarrow>partidas_propuesta pu. pr_porcentaje p) = 100"
    and "\<bar>total_propuesta pu - o_cero (monto_estimado g)\<bar> \<le>
      rat_of_nat (length ps) * (1 / 200 + epsilon_js)"
proof -
  let ?pcts = "shares (map (porcentaje_de (ge_identificador g)) ps)"
  let ?m = "o_cero (monto_estimado g)"
  let ?z = "zip ps ?pcts"
  have sn: "map snd ?z = ?pcts" by simp
  show "length (partidas_propuesta pu) = length ps" by (simp add: pu_def propuesta_de_def Let_def)
  have "map pr_porcentaje (partidas_propuesta pu) = map snd ?z"
    unfolding pu_def propuesta_de_def Let_def by (simp only: propuesta.simps map_map comp_def case_prod_beta partida_propuesta.simps)
  then show "(\<Sum>p\<leftarrow>partidas_propuesta pu. pr_porcentaje p) = 100"
    using shares_suma [of "map (porcentaje_de (ge_identificador g)) ps"] assms(1) by simp
  have t: "total_propuesta pu = (\<Sum>x\<leftarrow>?z. redondear2 (?m * (snd x / 100)))"
  proof -
    have "map (\<lambda>p. o_cero (pr_monto p)) (partidas_propuesta pu) =
        map (\<lambda>x. redondear2 (?m * (snd x / 100))) ?z"
      unfolding pu_def propuesta_de_def Let_def
      by (simp only: propuesta.simps map_map comp_def case_prod_beta partida_propuesta.simps o_cero_simps)
    then show ?thesis unfolding total_propuesta_def by (rule arg_cong)
  qed
  have "(\<Sum>x\<leftarrow>?z. ?m * (snd x / 100)) = ?m"
    using shares_suma [of "map (porcentaje_de (ge_identificador g)) ps"] assms(1)
    unfolding suma_factor sn by simp
  moreover have "\<bar>(\<Sum>x\<leftarrow>?z. redondear2 (?m * (snd x / 100))) - (\<Sum>x\<leftarrow>?z. ?m * (snd x / 100))\<bar> \<le>
      rat_of_nat (length ?z) * (1 / 200 + epsilon_js)"
    by (rule suma_cerca) (rule redondear2_cerca)
  ultimately show "\<bar>total_propuesta pu - ?m\<bar> \<le> rat_of_nat (length ps) * (1 / 200 + epsilon_js)"
    by (simp add: t)
qed

section \<open>The entry of a proposal\<close>

text \<open>The first owner of the first property that has owners, for a line that has an agent.\<close>

definition dueno_de :: "propiedad list \<Rightarrow> oid option \<Rightarrow> oid option" where
  "dueno_de ps ag =
     (case ag of
        None \<Rightarrow> None
      | Some x \<Rightarrow> (case find (\<lambda>p. propietarios_ids p \<noteq> []) ps of
          None \<Rightarrow> Some x | Some p \<Rightarrow> primero (propietarios_ids p)))"

lemma sin_contrato_activo:
  assumes "\<forall>a x. td a \<noteq> tx x"
  shows "\<not> hasActiveContract tx td s ps ag"
  using assms by (auto simp: hasActiveContract_def es_locatario_def list_ex_iff split: option.splits)

lemma agente_final_dueno:
  "\<forall>a x. td a \<noteq> tx x \<Longrightarrow> agente_final tx td s ps ag = dueno_de ps ag"
  by (auto simp: agente_final_def dueno_de_def sin_contrato_activo split: option.split)

lemma suma_lineas_gasto:
  "(\<Sum>p\<leftarrow>map (\<lambda>p. partida_defaults (partida_de_propuesta af cta pu p)) xs. debe p) =
     (\<Sum>p\<leftarrow>xs. o_cero (pr_monto p))"
  "(\<Sum>p\<leftarrow>map (\<lambda>p. partida_defaults (partida_de_propuesta af cta pu p)) xs. haber p) = 0"
  by (induction xs) (simp_all add: partida_defaults_def partida_de_propuesta_def linea_gasto_def)

lemma asiento_de_propuesta_totales:
  assumes "a = asiento_de_dto i (asiento_de_propuesta now af g pu m cobrar pagar)"
  shows "totalDebe (partidas a) = total_propuesta pu"
    and "totalHaber (partidas a) = redondear2 (total_propuesta pu)"
    and "monto_original a = o_bien (pu_monto_original pu) (total_propuesta pu)"
    and "map p_agente_id (butlast (partidas a)) = map (\<lambda>p. af (pr_agente_id p)) (partidas_propuesta pu)"
  using suma_lineas_gasto [of af cobrar pu "partidas_propuesta pu"] assms
  by (simp_all add: asiento_de_dto_def asiento_de_propuesta_def Let_def totalDebe_def totalHaber_def
      total_propuesta_def comp_def)
    (simp_all add: partida_defaults_def partida_de_propuesta_def linea_gasto_def)

definition gasto_asentado :: "asiento \<Rightarrow> gasto \<Rightarrow> gasto" where
  "gasto_asentado a g =
     g\<lparr>estado_procesamiento := ASIGNADO, asiento_creado_id := Some (a_id a),
       estado_final := Some ''PROCESADO''\<rparr>"

lemma resolver_mapeo_estado: "resolver_mapeo tx od g mid s = (r, s') \<Longrightarrow> s' = s"
  by (auto simp: resolver_mapeo_def mp_findOne_def findByProviderAgentId_def gets_def ret_def
      ebind_def split: option.splits if_splits)

lemma processDetected_Inr:
  assumes "processDetectedExpenseToEntry tx od td i mid s = (Inr (a, upd), s')"
  obtains g pu m s1 where
    "gasto_de i s = Some g" "propuesta_asiento g = Some pu"
    "resolver_mapeo tx od g mid s = (Inr (Some m), s)"
    "asentar_propuesta tx td g pu m s = (Inr a, s1)"
    "s' = con_gastos (update_one (\<lambda>g. ge_id g = i) (gasto_asentado a)) s1"
    "upd = gasto_de i s'"
proof -
  have ga: "(\<lambda>g. g\<lparr>estado_procesamiento := ASIGNADO, asiento_creado_id := Some (a_id x),
      estado_final := Some ''PROCESADO''\<rparr>) = gasto_asentado x" for x
    by (rule ext) (simp add: gasto_asentado_def)
  obtain g pu m t s1 where "gasto_de i s = Some g" and "propuesta_asiento g = Some pu"
    and r: "resolver_mapeo tx od g mid s = (Inr (Some m), t)"
    and "asentar_propuesta tx td g pu m t = (Inr a, s1)"
    and "s' = con_gastos (update_one (\<lambda>g. ge_id g = i) (gasto_asentado a)) s1"
    and "upd = gasto_de i s'"
    using assms unfolding processDetectedExpenseToEntry_def ga
    by (auto simp: proc_simps ge_update_def ge_findOne_def split: option.splits)
  moreover have "t = s" using r by (rule resolver_mapeo_estado)
  ultimately show ?thesis using that by simp
qed

lemma processDetected_step:
  assumes "gasto_de i s = Some g" and "propuesta_asiento g = Some pu"
    and "resolver_mapeo tx od g mid s = (Inr (Some m), s)"
    and "asentar_propuesta tx td g pu m s = (Inr a, s1)"
  shows "processDetectedExpenseToEntry tx od td i mid s =
     (Inr (a, gasto_de i (con_gastos (update_one (\<lambda>g. ge_id g = i) (gasto_asentado a)) s1)),
      con_gastos (update_one (\<lambda>g. ge_id g = i) (gasto_asentado a)) s1)"
proof -
  have ga: "(\<lambda>g. g\<lparr>estado_procesamiento := ASIGNADO, asiento_creado_id := Some (a_id x),
      estado_final := Some ''PROCESADO''\<rparr>) = gasto_asentado x" for x
    by (rule ext) (simp add: gasto_asentado_def)
  show ?thesis
    using assms unfolding processDetectedExpenseToEntry_def ga
    by (simp add: obtener_def ebind_def ge_update_def ge_findOne_def gets_def ret_def modify_def)
qed

lemma resolver_igual:
  assumes "resolver_mapeo tx od g mid s = (Inr m, s)" and "mapeos t = mapeos s"
    and "agente_proveedor_id h = agente_proveedor_id g" and "ge_identificador h = ge_identificador g"
    and "provider_cuit h = provider_cuit g"
  shows "resolver_mapeo tx od h mid t = (Inr m, t)"
  using assms
  by (auto simp: resolver_mapeo_def mp_findOne_def findByProviderAgentId_def gets_def ret_def
      ebind_def split: option.splits if_splits)

lemma agente_final_igual:
  assumes "agentes t = agentes s" and "contratos t = contratos s"
  shows "agente_final tx td t = agente_final tx td s"
proof -
  have l: "es_locatario tx td t = es_locatario tx td s"
    by (intro ext) (simp add: es_locatario_def assms)
  have h: "hasActiveContract tx td t = hasActiveContract tx td s"
    by (intro ext) (unfold hasActiveContract_def l assms, rule refl)
  show ?thesis by (intro ext) (unfold agente_final_def h, rule refl)
qed

lemma codigos_igual:
  "getAccountIdsByCode cs s = (Inr m, s') \<Longrightarrow> plan_cuentas t = plan_cuentas s \<Longrightarrow>
   getAccountIdsByCode cs t = (Inr m, t)"
  by (auto simp: getAccountIdsByCode_def Let_def ret_def raise_def split: if_splits)

lemma asiento_de_propuesta_gasto:
  "ge_identificador h = ge_identificador g \<Longrightarrow>
   asiento_de_propuesta now af h pu m c p = asiento_de_propuesta now af g pu m c p"
  by (simp add: asiento_de_propuesta_def)

definition codigos_mapeo :: "mapeo \<Rightarrow> string list" where
  "codigos_mapeo m =
     filter (\<lambda>c. c \<noteq> []) [cuenta_por_cobrar_codigo m, cuenta_por_pagar_codigo m]"

definition alcanzadas :: "'a bd_gas_scheme \<Rightarrow> gasto \<Rightarrow> propiedad list" where
  "alcanzadas s g = (if ge_identificador g = [] then [] else servidas s g)"

lemma asentar_iff:
  "asentar_propuesta tx td g pu m s = (Inr a, s1) \<longleftrightarrow>
     codigos_mapeo m \<noteq> [] \<and>
     (\<exists>cuentas cobrar pagar.
        getAccountIdsByCode (codigos_mapeo m) s = (Inr cuentas, s) \<and>
        (if partidas_propuesta pu = [] then Some 0 else cuentas (cuenta_por_cobrar_codigo m)) = Some cobrar \<and>
        cuentas (cuenta_por_pagar_codigo m) = Some pagar \<and>
        create (asiento_de_propuesta (ahora s) (agente_final tx td s (alcanzadas s g)) g pu m cobrar pagar) s =
          (Inr a, s1))" (is "?L \<longleftrightarrow> ?R")
proof -
  have props: "(if ge_identificador g = [] then ret [] else findByMedidor (ge_identificador g)) t =
      (Inr (alcanzadas t g), t)" for t :: "'a bd_gas_scheme"
    by (simp add: alcanzadas_def findByMedidor_def servidas_def gets_def ret_def)
  have cods: "getAccountIdsByCode cs s = (fst (getAccountIdsByCode cs s), s)" for cs
    by (simp add: getAccountIdsByCode_state prod_eq_iff)
  show ?thesis
  proof (cases "fst (getAccountIdsByCode (codigos_mapeo m) s)")
    case (Inl e)
    then have "getAccountIdsByCode (codigos_mapeo m) s = (Inl e, s)" using cods by metis
    then show ?thesis
      unfolding asentar_propuesta_def codigos_mapeo_def [symmetric] Let_def
      by (cases "ge_identificador g = []"; simp add: ebind_def raise_def)
  next
    case (Inr cuentas)
    then have c: "getAccountIdsByCode (codigos_mapeo m) s = (Inr cuentas, s)" using cods by metis
    show ?thesis
      unfolding asentar_propuesta_def codigos_mapeo_def [symmetric] Let_def
      by (simp add: ebind_step [where m = "getAccountIdsByCode (codigos_mapeo m)", OF c]
          ebind_step [OF props] c raise_def split: option.split)
  qed
qed

lemma crear_en:
  "create d s = (Inr a, s1) \<Longrightarrow> a = asiento_de_dto (prox_id s) d \<and>
     create d t = (Inr (asiento_de_dto (prox_id t) d),
       con_asientos (\<lambda>as. as @ [asiento_de_dto (prox_id t) d]) (t\<lparr>prox_id := Suc (prox_id t)\<rparr>))"
  by (auto simp: create_def proc_simps ebind_def modify_def ret_def nuevo_id_def split: if_splits)

lemma asentar_igual:
  assumes run: "asentar_propuesta tx td g pu m s = (Inr a, s1)"
    and t: "plan_cuentas t = plan_cuentas s" "propiedades t = propiedades s"
      "agentes t = agentes s" "contratos t = contratos s" "ahora t = ahora s"
    and h: "ge_identificador h = ge_identificador g"
  shows "\<exists>d. a = asiento_de_dto (prox_id s) d \<and>
     asentar_propuesta tx td h pu m t = (Inr (asiento_de_dto (prox_id t) d),
       con_asientos (\<lambda>as. as @ [asiento_de_dto (prox_id t) d]) (t\<lparr>prox_id := Suc (prox_id t)\<rparr>))"
proof -
  have sv: "alcanzadas t h = alcanzadas s g" by (simp add: alcanzadas_def servidas_def t h)
  note eqs = sv agente_final_igual [OF t(3,4)] asiento_de_propuesta_gasto [OF h] t(5)
  from run [unfolded asentar_iff] obtain cuentas cobrar pagar where
    rc: "codigos_mapeo m \<noteq> []"
    and c: "getAccountIdsByCode (codigos_mapeo m) s = (Inr cuentas, s)"
    and cp: "(if partidas_propuesta pu = [] then Some 0 else cuentas (cuenta_por_cobrar_codigo m)) = Some cobrar"
      "cuentas (cuenta_por_pagar_codigo m) = Some pagar"
    and cr: "create (asiento_de_propuesta (ahora s)
          (agente_final tx td s (alcanzadas s g)) g pu m cobrar pagar) s = (Inr a, s1)" by blast
  show ?thesis
    unfolding asentar_iff eqs
    using rc cp codigos_igual [OF c t(1)] crear_en [OF cr, of t] by blast
qed

text \<open>C24: the entry of a proposal debits its lines and credits the provider with their sum rounded,
  while the amount it keeps is the estimate; every line that has an agent goes to the first owner
  of the first property that has one, whoever rents the property, because a populated party is
  never equal to an id; and nothing tells a second call apart from the first: it creates the
  entry again.
\<close>

theorem processDetectedExpenseToEntry_entry:
  assumes ids: "distinct (map ge_id (gastos s))"
    and texto: "\<forall>a x. td a \<noteq> tx x"
    and g: "gasto_de i s = Some g" and pu: "propuesta_asiento g = Some pu"
    and run: "processDetectedExpenseToEntry tx od td i mid s = (Inr (a, upd), s')"
  shows "totalDebe (partidas a) = total_propuesta pu \<and>
    totalHaber (partidas a) = redondear2 (total_propuesta pu) \<and>
    monto_original a = o_bien (pu_monto_original pu) (total_propuesta pu) \<and>
    map p_agente_id (butlast (partidas a)) =
      map (\<lambda>p. dueno_de (alcanzadas s g) (pr_agente_id p)) (partidas_propuesta pu) \<and>
    asientos s' = asientos s @ [a] \<and> upd = Some (gasto_asentado a g) \<and>
    (\<exists>b upd' s''. processDetectedExpenseToEntry tx od td i mid s' = (Inr (b, upd'), s'') \<and>
      partidas b = partidas a \<and> asientos s'' = asientos s @ [a, b])"
proof -
  obtain g' pu' m s1 where "gasto_de i s = Some g'" and "propuesta_asiento g' = Some pu'"
    and "resolver_mapeo tx od g' mid s = (Inr (Some m), s)"
    and "asentar_propuesta tx td g' pu' m s = (Inr a, s1)"
    and s': "s' = con_gastos (update_one (\<lambda>g. ge_id g = i) (gasto_asentado a)) s1"
    and upd: "upd = gasto_de i s'"
    using processDetected_Inr [OF run] by blast
  then have m: "resolver_mapeo tx od g mid s = (Inr (Some m), s)"
    and a: "asentar_propuesta tx td g pu m s = (Inr a, s1)"
    using g pu by auto
  from a obtain cobrar pagar where
    cr: "create (asiento_de_propuesta (ahora s) (agente_final tx td s (alcanzadas s g)) g pu m cobrar pagar) s =
      (Inr a, s1)" unfolding asentar_iff by blast
  note tot = asiento_de_propuesta_totales [OF create_Inr(1) [OF cr]]
  have lineas: "map p_agente_id (butlast (partidas a)) =
      map (\<lambda>p. dueno_de (alcanzadas s g) (pr_agente_id p)) (partidas_propuesta pu)"
    using tot(4) by (simp add: agente_final_dueno [OF texto])
  have s1: "s1 = con_asientos (\<lambda>as. as @ [a]) (s\<lparr>prox_id := Suc (prox_id s)\<rparr>)"
    by (rule create_Inr(4) [OF cr])
  then have as: "asientos s' = asientos s @ [a]" by (simp add: s' con_asientos_def)
  have g1: "gasto_de i s' = Some (gasto_asentado a g)"
    using find_id_update_one [of ge_id "gasto_asentado a" "gastos s" i i] ids g
    by (simp add: s' s1 con_asientos_def gasto_asentado_def)
  then have ud: "upd = Some (gasto_asentado a g)" by (simp add: upd)
  let ?h = "gasto_asentado a g"
  have m1: "resolver_mapeo tx od ?h mid s' = (Inr (Some m), s')"
    by (rule resolver_igual [OF m]) (simp_all add: gasto_asentado_def s' s1 con_asientos_def)
  obtain d where d: "a = asiento_de_dto (prox_id s) d"
    and a1: "asentar_propuesta tx td ?h pu m s' = (Inr (asiento_de_dto (prox_id s') d),
       con_asientos (\<lambda>as. as @ [asiento_de_dto (prox_id s') d]) (s'\<lparr>prox_id := Suc (prox_id s')\<rparr>))"
    using asentar_igual [OF a, of s' ?h]
    by (auto simp: gasto_asentado_def s' s1 con_asientos_def)
  let ?b = "asiento_de_dto (prox_id s') d"
  let ?s = "con_gastos (update_one (\<lambda>g. ge_id g = i) (gasto_asentado ?b))
     (con_asientos (\<lambda>as. as @ [?b]) (s'\<lparr>prox_id := Suc (prox_id s')\<rparr>))"
  have "propuesta_asiento ?h = Some pu" by (simp add: gasto_asentado_def pu)
  from processDetected_step [OF g1 this m1 a1]
  have run2: "processDetectedExpenseToEntry tx od td i mid s' = (Inr (?b, gasto_de i ?s), ?s)" .
  have "partidas ?b = partidas a" by (simp add: d asiento_de_dto_def)
  moreover have "asientos ?s = asientos s @ [a, ?b]" using as by (simp add: con_asientos_def)
  ultimately have "\<exists>b upd' s''. processDetectedExpenseToEntry tx od td i mid s' = (Inr (b, upd'), s'') \<and>
      partidas b = partidas a \<and> asientos s'' = asientos s @ [a, b]"
    using run2 by blast
  with tot(1-3) lineas as ud show ?thesis by blast
qed

section \<open>The mappings\<close>

text \<open>
  No request creates a mapping: the fields of the request are not the two the schema requires.
  A query by agent with a service finds only a mapping of that service, one by CUIT falls back
  to any enabled mapping of the provider.
\<close>

theorem mappings_unreachable:
  shows "fst (mp_create (validar_pipe b) s) = Inl (ErrorJS ''ServiceAccountMapping validation failed'' [])"
    and "mapeos (final (mp_create (validar_pipe b)) s) = mapeos s"
    and "servicio \<noteq> [] \<and> od k \<noteq> None \<and>
      findByProviderAgentId od k servicio s = (Inr (Some m), s') \<Longrightarrow> mp_identificador m = Some servicio"
    and "od k = None \<and> mp_provider_cuit m = Some k \<and> enabled m \<and> m \<in> set (mapeos s) \<Longrightarrow>
      \<exists>m'. findByProviderAgentId od k servicio s = (Inr (Some m'), s) \<and> mp_provider_cuit m' = Some k"
proof -
  show "fst (mp_create (validar_pipe b) s) = Inl (ErrorJS ''ServiceAccountMapping validation failed'' [])"
    and "mapeos (final (mp_create (validar_pipe b)) s) = mapeos s"
    by (simp_all add: mp_create_def validar_pipe_def raise_def final_def)
  assume "servicio \<noteq> [] \<and> od k \<noteq> None \<and> findByProviderAgentId od k servicio s = (Inr (Some m), s')"
  then show "mp_identificador m = Some servicio"
    by (auto simp: findByProviderAgentId_def buildQuery_def gets_def ret_def find_Some_iff
        split: option.splits)
next
  assume h: "od k = None \<and> mp_provider_cuit m = Some k \<and> enabled m \<and> m \<in> set (mapeos s)"
  show "\<exists>m'. findByProviderAgentId od k servicio s = (Inr (Some m'), s) \<and> mp_provider_cuit m' = Some k"
  proof (cases "find (buildQuery od k servicio False) (mapeos s)")
    case (Some m1)
    then have "mp_provider_cuit m1 = Some k" by (auto simp: find_Some_iff buildQuery_def)
    then show ?thesis using h Some by (simp add: findByProviderAgentId_def ret_def)
  next
    case None
    obtain m1 where m1: "find (\<lambda>m. mp_provider_cuit m = Some k \<and> enabled m) (mapeos s) = Some m1"
      using h by (cases "find (\<lambda>m. mp_provider_cuit m = Some k \<and> enabled m) (mapeos s)")
        (auto simp: find_None_iff)
    then have "mp_provider_cuit m1 = Some k" by (auto simp: find_Some_iff)
    then show ?thesis using h None m1 by (simp add: findByProviderAgentId_def gets_def)
  qed
qed

section \<open>Examples\<close>

text \<open>
  Two bills of a gas company, one of a number that two properties share, one of nobody's. The
  text of an id is a digit for each unit, that of a document starts with a brace.
\<close>

definition gasto0 :: "oid \<Rightarrow> string \<Rightarrow> gasto" where
  "gasto0 i n = \<lparr>ge_id = i, agente_proveedor_id = 5, provider_cuit = Some ''30-1'',
     fecha_deteccion = 7, tipo_alerta = G_FACTURA_DISPONIBLE, ge_identificador = n,
     monto_estimado = Some 100, estado_procesamiento = PENDIENTE_VALIDACION, cuerpo_email = None,
     adjunto_referencia_url = None, propuesta_asiento = None, asiento_creado_id = None,
     estado_final = None\<rparr>"

definition con_servicio :: "oid \<Rightarrow> oid \<Rightarrow> propiedad" where
  "con_servicio i d = propiedad0\<lparr>pp_id := i, propietarios_ids := [d], servicios_impuestos :=
     [\<lparr>proveedor_id = 5, identificador_servicio = ''77'', porcentaje_aplicacion = None\<rparr>]\<rparr>"

definition mapeo0 :: mapeo where
  "mapeo0 = \<lparr>mp_id = 80, mp_provider_agent_id = 5, mp_provider_cuit = Some ''30-1'',
     mp_identificador = None, cuenta_por_cobrar_codigo = ''CXC_ALQ'',
     cuenta_por_pagar_codigo = ''CXP_LOC'', moneda = None, enabled = True, prioridad = 0,
     mp_created_by = None\<rparr>"

definition bd_gas0 :: "gasto list \<Rightarrow> bd_gas" where
  "bd_gas0 gs = bd_ct.extend ((bd_ct0 [contrato0])
       \<lparr>propiedades := [con_servicio 30 2, con_servicio 31 1, con_servicio 32 3]\<rparr>)
     (bd_gas.fields [mapeo0] gs)"

definition tx0 :: "oid \<Rightarrow> string" where
  "tx0 i = replicate i CHR ''1''"

definition od0 :: "string \<Rightarrow> oid option" where
  "od0 t = (if t = tx0 (length t) then Some (length t) else None)"

definition td0 :: "agente \<Rightarrow> string" where
  "td0 a = CHR ''{'' # nombre_razon_social a"

definition todo0 :: opciones_gasto where
  "todo0 = \<lparr>detectedExpenseIds = None, dryRun = False, og_limit = 0\<rparr>"

lemma processDetectedUtilityInvoices_batch_witness:
  "fst (processDetectedUtilityInvoices todo0 (bd_gas0 [gasto0 60 ''77'', gasto0 61 ''99''])) =
     Inr (2, [PROPOSED 60 (propuesta_de (19800 * dia_ms) (gasto0 60 ''77'')
                [con_servicio 30 2, con_servicio 31 1, con_servicio 32 3]), NO_PROPERTIES 61]) \<and>
   list_all (\<lambda>g. estado_procesamiento g \<noteq> PENDIENTE_VALIDACION)
     (gastos (final (processDetectedUtilityInvoices todo0) (bd_gas0 [gasto0 60 ''77'', gasto0 61 ''99''])))"
proof -
  let ?s = "bd_gas0 [gasto0 60 ''77'', gasto0 61 ''99'']"
  have d: "distinct (map ge_id (gastos ?s))"
    by (simp add: bd_gas0_def bd_gas.defs bd_ct.defs gasto0_def)
  have gs: "a_procesar todo0 (gastos ?s) = [gasto0 60 ''77'', gasto0 61 ''99'']"
    by (simp add: bd_gas0_def bd_gas.defs bd_ct.defs a_procesar_def todo0_def gasto0_def)
  have sv: "servidas ?s (gasto0 60 ''77'') = [con_servicio 30 2, con_servicio 31 1, con_servicio 32 3]"
    "servidas ?s (gasto0 61 ''99'') = []" and ah: "ahora ?s = 19800 * dia_ms"
    by (simp_all add: bd_gas0_def bd_gas.defs bd_ct.defs servidas_def gasto0_def con_servicio_def
        bd_ct0_def)
  have ids: "ge_id (gasto0 i n) = i" for i n by (simp add: gasto0_def)
  show ?thesis
    using processDetectedUtilityInvoices_batch [OF d, of todo0]
    by (simp add: gs detalle_de_def sv ah ids) (simp add: todo0_def)
qed

definition linea0 :: "oid \<Rightarrow> partida_propuesta" where
  "linea0 d = \<lparr>pr_descripcion = Some (''Gasto'', []), pr_agente_id = Some d,
     pr_monto = Some (3333 / 100), pr_porcentaje = 100 / 3,
     suggested_account_code = ''EGRESO_SERVICIOS''\<rparr>"

definition propuesta0 :: propuesta where
  "propuesta0 = \<lparr>pu_fecha_imputacion = Some 7, pu_fecha_vencimiento = Some 7,
     pu_descripcion = Some (''Propuesta'', []), pu_tipo_asiento = Some ''Gasto Servicio Detectado'',
     pu_monto_original = Some 100, partidas_propuesta = [linea0 2, linea0 1, linea0 3],
     pu_detected_expense_id = 60\<rparr>"

definition gasto_con0 :: gasto where
  "gasto_con0 = (gasto0 60 ''77'')\<lparr>propuesta_asiento := Some propuesta0\<rparr>"

lemma asentar0: "exito (processDetectedExpenseToEntry tx0 od0 td0 60 (Some 80)) (bd_gas0 [gasto_con0])"
  by code_simp

lemma processDetectedExpenseToEntry_entry_witness:
  "\<exists>a upd s'. processDetectedExpenseToEntry tx0 od0 td0 60 (Some 80) (bd_gas0 [gasto_con0]) =
       (Inr (a, upd), s') \<and>
     totalDebe (partidas a) = 9999 / 100 \<and> monto_original a = 100 \<and>
     map p_agente_id (butlast (partidas a)) = [Some 2, Some 2, Some 2] \<and>
     (\<exists>b upd' s''. processDetectedExpenseToEntry tx0 od0 td0 60 (Some 80) s' = (Inr (b, upd'), s'') \<and>
        asientos s'' = [a, b])"
proof -
  let ?s = "bd_gas0 [gasto_con0]"
  obtain a upd s' where run: "processDetectedExpenseToEntry tx0 od0 td0 60 (Some 80) ?s = (Inr (a, upd), s')"
    using exito_run [OF asentar0] by (metis surj_pair)
  have d: "distinct (map ge_id (gastos ?s))" and g: "gasto_de 60 ?s = Some gasto_con0"
    and ne: "asientos ?s = []"
    by (simp_all add: bd_gas0_def bd_gas.defs bd_ct.defs gasto_con0_def gasto0_def col_simps bd_ct0_def)
  have t: "\<forall>a x. td0 a \<noteq> tx0 x"
  proof (intro allI)
    fix a x show "td0 a \<noteq> tx0 x" by (cases x) (simp_all add: td0_def tx0_def)
  qed
  have pu: "propuesta_asiento gasto_con0 = Some propuesta0" by (simp add: gasto_con0_def)
  have al: "alcanzadas ?s gasto_con0 = [con_servicio 30 2, con_servicio 31 1, con_servicio 32 3]"
    by (simp add: alcanzadas_def servidas_def bd_gas0_def bd_gas.defs bd_ct.defs gasto_con0_def
        gasto0_def con_servicio_def)
  note h = processDetectedExpenseToEntry_entry [OF d t g pu run]
  then have th: "totalDebe (partidas a) = total_propuesta propuesta0"
    "monto_original a = o_bien (pu_monto_original propuesta0) (total_propuesta propuesta0)"
    "map p_agente_id (butlast (partidas a)) =
      map (\<lambda>p. dueno_de (alcanzadas ?s gasto_con0) (pr_agente_id p)) (partidas_propuesta propuesta0)"
    by blast+
  have "totalDebe (partidas a) = 9999 / 100" "monto_original a = 100"
    "map p_agente_id (butlast (partidas a)) = [Some 2, Some 2, Some 2]"
    unfolding th al
    by (simp_all add: total_propuesta_def propuesta0_def linea0_def o_bien_def dueno_de_def
        con_servicio_def primero_def)
  then show ?thesis using run h ne by auto
qed

end
