(* ===== verification/ServiceSyncProperties.thy ===== *)
theory ServiceSyncProperties
  imports ServiceSync DetectedProperties
begin

text \<open>
  The number read from a text, the classification of a batch of mails down to the proposals of
  their expenses, and the invariant of the collection along any run of its operations.
\<close>

section \<open>The number of a service\<close>

lemma solo_digitos_todos: "list_all digito (solo_digitos w)"
  by (simp add: solo_digitos_def list_all_iff)

lemma solo_digitos_subseq: "sublist w t \<Longrightarrow> subseq (solo_digitos w) t"
  unfolding solo_digitos_def
  by (meson sublist_imp_subseq subseq_filter_left subseq_order.order_trans)

lemma solo_digitos_append: "solo_digitos (u @ v) = solo_digitos u @ solo_digitos v"
  by (simp add: solo_digitos_def)

lemma primer_patron_Some:
  "primer_patron ps t = Some i \<Longrightarrow> list_all digito i \<and> subseq i t \<and> 4 \<le> length i"
proof (induction ps)
  case (Cons p ps)
  show ?case
  proof (cases "buscar p t")
    case (Some m)
    show ?thesis
    proof (cases "4 \<le> length (solo_digitos (coalesce (grupo 1 m) []))")
      case True
      then have i: "i = solo_digitos (coalesce (grupo 1 m) [])"
        using Cons.prems Some by (simp add: Let_def)
      then obtain w where w: "grupo 1 m = Some w" using True by (cases "grupo 1 m") (auto simp: solo_digitos_def)
      from solo_digitos_subseq [OF buscar_grupo [OF Some w]] show ?thesis
        using True i w solo_digitos_todos by simp
    qed (use Cons Some in \<open>simp add: Let_def\<close>)
  qed (use Cons in simp)
qed simp

lemma genera_digitos: "genera_texto (veces n (Clase digito)) w \<Longrightarrow> length (solo_digitos w) = n"
proof (induction n arbitrary: w)
  case (Suc n)
  then show ?case
    by (cases n) (auto simp: veces_def solo_digitos_def)
qed (simp add: veces_def solo_digitos_def)

lemma genera_barra: "genera_texto patron_barra w \<Longrightarrow> 3 \<le> length (solo_digitos w)"
  unfolding patron_barra_def al_menos_def
  by (auto simp: solo_digitos_append dest!: genera_digitos)

text \<open>the number read from a text is a sequence of at least three digits, which stand in the
  text in this order.
\<close>

theorem extractServiceIdFromText_digits:
  assumes "extractServiceIdFromText t = Some i"
  shows "list_all digito i \<and> 3 \<le> length i \<and> subseq i t"
proof (cases "primer_patron accountPatterns t")
  case (Some j)
  then have "i = j" using assms by (simp add: extractServiceIdFromText_def split: if_splits)
  then show ?thesis using primer_patron_Some [OF Some] by simp
next
  case None
  then obtain m where m: "buscar patron_barra t = Some m" "i = solo_digitos (fst m)"
    using assms by (auto simp: extractServiceIdFromText_def split: if_splits)
  obtain a b where t: "t = a @ fst m @ b" and g: "genera_texto patron_barra (fst m)"
    using buscar_texto [OF m(1)] by blast
  have "sublist (fst m) t" unfolding t by simp
  then show ?thesis using solo_digitos_todos genera_barra [OF g] solo_digitos_subseq m(2) by simp
qed

section \<open>The expense of a mail\<close>

lemma con_comms_campos [simp]:
  "comunicaciones (con_comms f s) = f (comunicaciones s)" "gastos (con_comms f s) = gastos s"
  "propiedades (con_comms f s) = propiedades s" "agentes (con_comms f s) = agentes s"
  "prox_id (con_comms f s) = prox_id s" "ahora (con_comms f s) = ahora s"
  by (simp_all add: con_comms_def)

lemma con_gastos_comms [simp]: "comunicaciones (con_gastos f s) = comunicaciones s"
  by (simp add: con_gastos_def)

definition gas_inv :: "'a bd_gas_scheme \<Rightarrow> bool" where
  "gas_inv s \<longleftrightarrow> distinct (map ge_id (gastos s)) \<and> (\<forall>g \<in> set (gastos s). ge_id g < prox_id s)"

text \<open>The proposal of the last expense.\<close>

lemma proponer_run:
  assumes "distinct (map ge_id (gs @ [g]))" and "gastos s = gs @ [g]"
    and "estado_procesamiento g = PENDIENTE_VALIDACION"
  shows "proponer (ge_id g) s = (Inr (), con_gastos (\<lambda>_. gs @ [gasto_resuelto s g]) s)"
proof -
  let ?opt = "\<lparr>detectedExpenseIds = Some [ge_id g], dryRun = False, og_limit = 1\<rparr>"
  have no: "ge_id x \<noteq> ge_id g" "x \<noteq> g" if "x \<in> set gs" for x
    using assms(1) that by (force simp: image_iff)+
  then have "filter (\<lambda>p. estado_procesamiento p = PENDIENTE_VALIDACION \<and> ge_id p = ge_id g) gs = []"
    by (auto simp: filter_empty_conv)
  then have sel: "a_procesar ?opt (gastos s) = [g]"
    using assms(2,3) by (simp add: a_procesar_def)
  have "map (\<lambda>x. if x = g then gasto_resuelto s x else x) gs = gs"
    using no by (intro map_idI) auto
  then have m: "con_gastos (map (\<lambda>x. if x \<in> set [g] then gasto_resuelto s x else x)) s =
      con_gastos (\<lambda>_. gs @ [gasto_resuelto s g]) s"
    using assms(2) by (simp add: con_gastos_def)
  have d: "distinct (map ge_id (gastos s))" using assms(1,2) by simp
  show ?thesis
    using lote_run [OF d, of ?opt] m unfolding sel
    by (simp add: proponer_def try_catch_def ebind_def ret_def)
qed

text \<open>The local document after the extraction, and the number it is classified with.\<close>

definition con_id :: "opciones_com \<Rightarrow> comunicacion \<Rightarrow> comunicacion" where
  "con_id opt c =
     (if o_texto (sc_identificador c) [] = [] \<and> tryExtractServiceId opt \<noteq> Some False
      then (case extractServiceIdFromText (texto_buscado c) of
              None \<Rightarrow> c
            | Some e \<Rightarrow> if e = [] then c else c\<lparr>sc_identificador := Some e\<rparr>)
      else c)"

definition ident_com :: "opciones_com \<Rightarrow> comunicacion \<Rightarrow> string" where
  "ident_com opt c = o_texto (sc_identificador (con_id opt c)) []"

definition con_numero :: "'a bd_sc_scheme \<Rightarrow> string \<Rightarrow> propiedad list" where
  "con_numero s n = filter (\<lambda>p. n \<in> identificador_servicio ` set (servicios_impuestos p)) (propiedades s)"

definition sugeridas :: "'a bd_sc_scheme \<Rightarrow> string \<Rightarrow> oid list" where
  "sugeridas s n = map pp_id (take 5 (con_numero s (solo_digitos n)))"

definition clasificada :: "'a bd_sc_scheme \<Rightarrow> string \<Rightarrow> comunicacion \<Rightarrow> bool" where
  "clasificada s n c \<longleftrightarrow>
     (if n = [] then sc_estado c = ERROR
      else sc_estado c = PROCESSED \<and> propiedades_sugeridas_ids c = sugeridas s n \<and>
        (\<exists>g ge. gasto_detectado_id c = Some g \<and> gasto_de g s = Some ge \<and> ge_identificador ge = n \<and>
           estado_procesamiento ge = (if con_numero s n = [] then DESCARTADO else ASIGNADO)))"

definition com_inv :: "'a bd_sc_scheme \<Rightarrow> bool" where
  "com_inv s \<longleftrightarrow> distinct (map sc_id (comunicaciones s)) \<and> gas_inv s"

lemma con_id_id [simp]: "sc_id (con_id opt c) = sc_id c"
  by (simp add: con_id_def split: option.split)

lemma con_id_email [simp]: "sc_email_id (con_id opt c) = sc_email_id c"
  by (simp add: con_id_def split: option.split)

lemma con_comms_id: "con_comms (map (\<lambda>x. if x = c then c else x)) s = s"
proof -
  have "(\<lambda>x. if x = c then c else x) = (\<lambda>x. x)" by auto
  then show ?thesis by (simp add: con_comms_def)
qed

lemma actualizar_com_run:
  assumes "distinct (map sc_id (comunicaciones s))" and "c \<in> set (comunicaciones s)" and "f c = c'"
  shows "actualizar_com (sc_id c) f s = (Inr (), con_comms (map (\<lambda>x. if x = c then c' else x)) s)"
  using update_one_unico [OF assms(1,2), of f c'] assms(3)
  by (simp add: actualizar_com_def modify_def con_comms_def)

lemma completar_id_run:
  assumes "distinct (map sc_id (comunicaciones s))" and "c \<in> set (comunicaciones s)"
  shows "completar_id opt c s =
     (Inr (con_id opt c), con_comms (map (\<lambda>x. if x = c then con_id opt c else x)) s)"
proof -
  consider "con_id opt c = c" "completar_id opt c s = ret c s"
    | e where "con_id opt c = c\<lparr>sc_identificador := Some e\<rparr>"
      "completar_id opt c s = ebind (actualizar_com (sc_id c) (\<lambda>x. x\<lparr>sc_identificador := Some e\<rparr>))
          (\<lambda>_. ret (c\<lparr>sc_identificador := Some e\<rparr>)) s"
  proof (cases "o_texto (sc_identificador c) [] = [] \<and> tryExtractServiceId opt \<noteq> Some False")
    case False
    then show ?thesis using that(1) unfolding con_id_def completar_id_def if_not_P [OF False] by simp
  next
    case True
    show ?thesis
    proof (cases "extractServiceIdFromText (texto_buscado c)")
      case None
      then show ?thesis using that(1) unfolding con_id_def completar_id_def if_P [OF True] by simp
    next
      case (Some e)
      show ?thesis
      proof (cases "e = []")
        case True
        then show ?thesis
          by (intro that(1)) (simp_all add: con_id_def completar_id_def Some)
      next
        case False
        then show ?thesis
          by (intro that(2)) (simp_all add: con_id_def completar_id_def Some True)
      qed
    qed
  qed
  then show ?thesis
  proof cases
    case 1
    show ?thesis unfolding 1 con_comms_id by (simp add: ret_def)
  next
    case (2 e)
    have r: "actualizar_com (sc_id c) (\<lambda>x. x\<lparr>sc_identificador := Some e\<rparr>) s =
        (Inr (), con_comms (map (\<lambda>x. if x = c then con_id opt c else x)) s)"
      using assms 2(1) by (intro actualizar_com_run) simp_all
    show ?thesis unfolding 2(2) by (simp add: ebind_def r ret_def 2(1))
  qed
qed

lemma map_reemplazo:
  assumes "distinct (map k xs)" and "c \<in> set xs" and "k c1 = k c"
  shows "map (\<lambda>x. if x = c1 then c2 else x) (map (\<lambda>x. if x = c then c1 else x) xs) =
     map (\<lambda>x. if x = c then c2 else x) xs"
proof -
  have "x = c" if "x \<in> set xs" and "x = c1" for x
    using that assms by (auto simp: distinct_map inj_on_def)
  then show ?thesis by auto
qed

lemma gas_inv_nuevo:
  assumes "gas_inv s" and "gastos t = gastos s @ [g]" and "prox_id s \<le> ge_id g" and "ge_id g < prox_id t"
  shows "gas_inv t" and "gasto_de (ge_id g) t = Some g"
proof -
  have n: "ge_id x \<noteq> ge_id g" and m: "ge_id x < prox_id t" if "x \<in> set (gastos s)" for x
    using assms that by (auto simp: gas_inv_def)
  have nin: "ge_id g \<notin> ge_id ` set (gastos s)" using n by (metis imageE)
  then show "gas_inv t" using assms(1,2,4) m by (auto simp: gas_inv_def)
  have "find_id ge_id (ge_id g) (gastos s) = None"
    using nin by (simp add: find_id_None_iff)
  then show "gasto_de (ge_id g) t = Some g" by (simp add: assms(2) find_id_append col_simps)
qed

text \<open>The processing of one mail.\<close>

definition efecto_com :: "'a bd_sc_scheme \<Rightarrow> comunicacion \<Rightarrow> string \<Rightarrow> 'a bd_sc_scheme \<Rightarrow> bool" where
  "efecto_com s c n s' \<longleftrightarrow>
     (\<exists>c' nuevos. comunicaciones s' = map (\<lambda>x. if x = c then c' else x) (comunicaciones s) \<and>
        sc_id c' = sc_id c \<and> sc_email_id c' = sc_email_id c \<and> clasificada s' n c' \<and>
        gastos s' = gastos s @ nuevos \<and> length nuevos = (if n = [] then 0 else 1)) \<and>
     propiedades s' = propiedades s \<and> prox_id s \<le> prox_id s' \<and> com_inv s'"

lemma proveedor_o_nuevo_run:
  "\<exists>ag p. proveedor_o_nuevo a s = (Inr ag, s\<lparr>prox_id := p\<rparr>) \<and> prox_id s \<le> p"
proof (cases a)
  case (Some i)
  then show ?thesis
    by (intro exI [of _ i] exI [of _ "prox_id s"]) (simp add: proveedor_o_nuevo_def ret_def)
qed (auto simp: proveedor_o_nuevo_def nuevo_id_def)

lemma claves_mapa: "sc_id c' = sc_id c \<Longrightarrow> map sc_id (map (\<lambda>x. if x = c then c' else x) xs) = map sc_id xs"
  by auto

lemma emails_mapa:
  "sc_email_id c' = sc_email_id c \<Longrightarrow>
   map sc_email_id (map (\<lambda>x. if x = c then c' else x) xs) = map sc_email_id xs"
  by auto

lemma processCommunication_run:
  assumes inv: "com_inv s" and c: "c \<in> set (comunicaciones s)"
    and n: "n = o_texto (sc_identificador c) []"
  shows "\<exists>r s'. processCommunication c s = (Inr r, s') \<and> efecto_com s c n s'"
proof (cases "n = []")
  case True
  let ?c = "c\<lparr>sc_estado := ERROR, sc_notas := Some ''No se pudo extraer identificador de servicio''\<rparr>"
  let ?s = "con_comms (map (\<lambda>x. if x = c then ?c else x)) s"
  have d: "distinct (map sc_id (comunicaciones s))" using inv by (simp add: com_inv_def)
  have a: "actualizar_com (sc_id c) (\<lambda>x. x\<lparr>sc_estado := ERROR,
      sc_notas := Some ''No se pudo extraer identificador de servicio''\<rparr>) s = (Inr (), ?s)"
    by (rule actualizar_com_run [OF d c]) simp
  have "processCommunication c s = (Inr NO_SERVICE_ID, ?s)"
    using True n a by (simp add: processCommunication_def ebind_step ret_def)
  moreover have "efecto_com s c n ?s"
    unfolding efecto_com_def using True inv
    by (intro conjI exI [of _ ?c] exI [of _ "[]"])
      (simp_all add: clasificada_def com_inv_def gas_inv_def claves_mapa del: map_map)
  ultimately show ?thesis by blast
next
  case False
  obtain ag p where ag: "proveedor_o_nuevo (resolvedAgentId c s) s = (Inr ag, s\<lparr>prox_id := p\<rparr>)"
    and p: "prox_id s \<le> p" using proveedor_o_nuevo_run by blast
  define g where "g = \<lparr>ge_id = p, agente_proveedor_id = ag,
     provider_cuit = cg_provider_cuit (gasto_de_com c n ag), fecha_deteccion = ahora s,
     tipo_alerta = mapTipoAlertaToDetected (sc_tipo_alerta c), ge_identificador = n,
     monto_estimado = sc_monto_estimado c, estado_procesamiento = PENDIENTE_VALIDACION,
     cuerpo_email = cg_cuerpo_email (gasto_de_com c n ag), adjunto_referencia_url = None,
     propuesta_asiento = None, asiento_creado_id = None, estado_final = None\<rparr>"
  define s1 where "s1 = con_gastos (\<lambda>gs. gs @ [g]) (s\<lparr>prox_id := Suc p\<rparr>)"
  have cr: "ge_create (gasto_de_com c n ag) (s\<lparr>prox_id := p\<rparr>) = (Inr g, s1)"
    using False by (simp add: ge_create_def g_def s1_def gasto_de_com_def ret_def Let_def)
  have g1: "gastos s1 = gastos s @ [g]" and c1: "comunicaciones s1 = comunicaciones s"
    and p1: "prox_id s1 = Suc p" and pr1: "propiedades s1 = propiedades s"
    by (simp_all add: s1_def con_gastos_def)
  have gi: "gas_inv s" and d: "distinct (map sc_id (comunicaciones s))"
    using inv by (simp_all add: com_inv_def)
  have gi1: "gas_inv s1"
    by (rule gas_inv_nuevo(1) [OF gi g1]) (simp_all add: p p1 g_def)
  let ?sug = "map pp_id (take 5 (con_numero s (solo_digitos n)))"
  let ?c = "c\<lparr>gasto_detectado_id := Some p, propiedades_sugeridas_ids := ?sug, sc_estado := PROCESSED\<rparr>"
  define s2 where "s2 = con_comms (map (\<lambda>x. if x = c then ?c else x)) s1"
  have a: "actualizar_com (sc_id c) (\<lambda>x. x\<lparr>gasto_detectado_id := Some (ge_id g),
      propiedades_sugeridas_ids := ?sug, sc_estado := PROCESSED\<rparr>) s1 = (Inr (), s2)"
    unfolding s2_def by (rule actualizar_com_run) (simp_all add: c1 d c g_def)
  let ?g = "gasto_resuelto s2 g"
  define s3 where "s3 = con_gastos (\<lambda>_. gastos s @ [?g]) s2"
  have pr: "proponer (ge_id g) s2 = (Inr (), s3)"
    unfolding s3_def
    by (rule proponer_run) (use gi1 in \<open>simp_all add: gas_inv_def s2_def g1 g_def\<close>)
  have fm: "findByMedidor (solo_digitos n) s = (Inr (con_numero s (solo_digitos n)), s)"
    by (simp add: findByMedidor_def gets_def con_numero_def)
  have run: "processCommunication c s = (Inr (CREADO (ge_id g) ?sug), s3)"
    using False
    by (simp add: processCommunication_def Let_def n [symmetric] ebind_def fm gets_def ag cr a pr ret_def)
  have g3: "gastos s3 = gastos s @ [?g]" and p3: "prox_id s3 = Suc p"
    and c3: "comunicaciones s3 = map (\<lambda>x. if x = c then ?c else x) (comunicaciones s)"
    and pr3: "propiedades s3 = propiedades s"
    by (simp_all add: s3_def s2_def p1 c1 pr1)
  have i3: "gas_inv s3" "gasto_de p s3 = Some ?g"
    using gas_inv_nuevo [OF gi g3] p p3 by (simp_all add: g_def)
  have sv: "servidas s2 g = con_numero s n"
    by (simp add: servidas_def con_numero_def s2_def pr1 g_def)
  have "clasificada s3 n ?c"
    using False i3(2) sv
    by (simp add: clasificada_def sugeridas_def con_numero_def pr3 gasto_resuelto_def g_def)
  then have "efecto_com s c n s3"
    unfolding efecto_com_def using False i3(1) d
    by (intro conjI exI [of _ ?c] exI [of _ "[?g]"])
      (simp_all add: g3 c3 pr3 p3 p le_SucI com_inv_def claves_mapa del: map_map)
  with run show ?thesis by blast
qed

section \<open>A batch of mails\<close>

lemma efecto_mas:
  assumes i: "com_inv s" and c: "c \<in> set (comunicaciones s)" and k: "sc_id c1 = sc_id c"
    and em: "sc_email_id c1 = sc_email_id c" and t: "t = con_comms (map (\<lambda>x. if x = c then c1 else x)) s" and e: "efecto_com t c1 n s'"
  shows "efecto_com s c n s'"
proof -
  from e obtain c' nuevos where
    a: "comunicaciones s' = map (\<lambda>x. if x = c1 then c' else x) (comunicaciones t)" "sc_id c' = sc_id c1"
      "clasificada s' n c'" "sc_email_id c' = sc_email_id c1" "gastos s' = gastos t @ nuevos" "length nuevos = (if n = [] then 0 else 1)"
    and b: "propiedades s' = propiedades t" "com_inv s'" "prox_id t \<le> prox_id s'" unfolding efecto_com_def by blast
  have "comunicaciones s' = map (\<lambda>x. if x = c then c' else x) (comunicaciones s)"
    unfolding a(1) using map_reemplazo [OF _ c k, of c'] i by (simp add: com_inv_def t)
  moreover have "sc_id c' = sc_id c" "sc_email_id c' = sc_email_id c" "gastos s' = gastos s @ nuevos"
    "propiedades s' = propiedades s" "prox_id s \<le> prox_id s'"
    using a(2,4,5) b(1,3) by (simp_all add: t k em)
  ultimately show ?thesis unfolding efecto_com_def using a(3,6) b(2) by blast
qed

lemma clasificar_una_run:
  assumes i: "com_inv s" and c: "c \<in> set (comunicaciones s)"
  shows "\<exists>r s'. clasificar_una opt c s = (Inr (Some (sc_id c, r)), s') \<and> efecto_com s c (ident_com opt c) s'"
proof -
  let ?t = "con_comms (map (\<lambda>x. if x = c then con_id opt c else x)) s"
  have d: "distinct (map sc_id (comunicaciones s))" using i by (simp add: com_inv_def)
  have it: "com_inv ?t"
    using i by (simp add: com_inv_def gas_inv_def claves_mapa del: map_map)
  have ct: "con_id opt c \<in> set (comunicaciones ?t)" using c by auto
  obtain r s' where p: "processCommunication (con_id opt c) ?t = (Inr r, s')"
    and e: "efecto_com ?t (con_id opt c) (ident_com opt c) s'"
    using processCommunication_run [OF it ct ident_com_def] by blast
  have "clasificar_una opt c s = (Inr (Some (sc_id c, r)), s')"
    by (simp add: clasificar_una_def try_catch_def ebind_def completar_id_run [OF d c] p ret_def)
  with efecto_mas [OF i c con_id_id con_id_email refl e] show ?thesis by blast
qed

text \<open>What a mail has become stays so while others are classified.\<close>

lemma clasificada_estable:
  assumes "clasificada s n c" and "gas_inv s" and "gastos s' = gastos s @ nuevos"
    and "propiedades s' = propiedades s"
  shows "clasificada s' n c"
  using assms by (auto simp: clasificada_def sugeridas_def con_numero_def find_id_append)

lemma con_numero_propiedades: "propiedades s' = propiedades s \<Longrightarrow> con_numero s' = con_numero s"
  by (intro ext) (simp add: con_numero_def)

definition lote_hecho :: "opciones_com \<Rightarrow> 'a bd_sc_scheme \<Rightarrow> comunicacion list \<Rightarrow> 'a bd_sc_scheme \<Rightarrow> bool" where
  "lote_hecho opt s cs s' \<longleftrightarrow>
     (\<forall>c \<in> set cs. \<exists>c'. com_de (sc_id c) s' = Some c' \<and> clasificada s' (ident_com opt c) c') \<and>
     (\<forall>x \<in> set (comunicaciones s). x \<notin> set cs \<longrightarrow> com_de (sc_id x) s' = Some x) \<and>
     map sc_id (comunicaciones s') = map sc_id (comunicaciones s) \<and>
     map sc_email_id (comunicaciones s') = map sc_email_id (comunicaciones s) \<and>
     propiedades s' = propiedades s \<and> prox_id s \<le> prox_id s' \<and> com_inv s' \<and>
     (\<exists>nuevos. gastos s' = gastos s @ nuevos \<and>
        length nuevos = length (filter (\<lambda>c. ident_com opt c \<noteq> []) cs))"

lemma com_de_reemplazo:
  assumes "distinct (map sc_id xs)" and "c \<in> set xs" and "sc_id c' = sc_id c" and "x \<in> set xs"
  shows "find_id sc_id (sc_id x) (map (\<lambda>y. if y = c then c' else y) xs) = Some (if x = c then c' else x)"
proof -
  have "distinct (map sc_id (map (\<lambda>y. if y = c then c' else y) xs))"
    using assms(1,3) by (simp add: claves_mapa del: map_map)
  then show ?thesis using assms by (subst find_id_Some_iff) (auto simp: image_iff)
qed

lemma clasificar_lote:
  assumes "com_inv s" and "set cs \<subseteq> set (comunicaciones s)" and "distinct cs"
  shows "\<exists>rs s'. for_each (clasificar_una opt) cs s = (Inr rs, s') \<and>
     map (map_option fst) rs = map (\<lambda>c. Some (sc_id c)) cs \<and> lote_hecho opt s cs s'"
  using assms
proof (induction cs arbitrary: s)
  case Nil
  then have "lote_hecho opt s [] s"
    by (simp add: lote_hecho_def com_inv_def find_id_Some_iff)
  then show ?case by (simp add: ret_def)
next
  case (Cons c cs)
  have cin: "c \<in> set (comunicaciones s)" and d: "distinct (map sc_id (comunicaciones s))"
    and nc: "c \<notin> set cs" using Cons.prems by (auto simp: com_inv_def)
  obtain r s1 where run: "clasificar_una opt c s = (Inr (Some (sc_id c, r)), s1)"
    and e: "efecto_com s c (ident_com opt c) s1" using clasificar_una_run [OF Cons.prems(1) cin] by blast
  then obtain c' n1 where
    m: "comunicaciones s1 = map (\<lambda>x. if x = c then c' else x) (comunicaciones s)" "sc_id c' = sc_id c"
      "sc_email_id c' = sc_email_id c" "prox_id s \<le> prox_id s1"
    and cl: "clasificada s1 (ident_com opt c) c'" and g1: "gastos s1 = gastos s @ n1"
    and l1: "length n1 = (if ident_com opt c = [] then 0 else 1)"
    and p1: "propiedades s1 = propiedades s" and i1: "com_inv s1" unfolding efecto_com_def by blast
  have keep: "x \<in> set (comunicaciones s1)" if "x \<in> set (comunicaciones s)" "x \<noteq> c" for x
    using that by (auto simp: m(1))
  have "set cs \<subseteq> set (comunicaciones s1)" using Cons.prems(2) nc keep by auto
  from Cons.IH [OF i1 this] Cons.prems(3) obtain rs s' where
    rest: "for_each (clasificar_una opt) cs s1 = (Inr rs, s')"
    and ids: "map (map_option fst) rs = map (\<lambda>c. Some (sc_id c)) cs" and h: "lote_hecho opt s1 cs s'" by auto
  from h obtain n2 where g2: "gastos s' = gastos s1 @ n2"
    and l2: "length n2 = length (filter (\<lambda>c. ident_com opt c \<noteq> []) cs)" unfolding lote_hecho_def by blast
  have p2: "propiedades s' = propiedades s1" and i2: "com_inv s'"
    and k2: "map sc_id (comunicaciones s') = map sc_id (comunicaciones s1)"
      "map sc_email_id (comunicaciones s') = map sc_email_id (comunicaciones s1)" "prox_id s1 \<le> prox_id s'"
    and ok: "\<forall>c \<in> set cs. \<exists>c'. com_de (sc_id c) s' = Some c' \<and> clasificada s' (ident_com opt c) c'"
    and same: "\<forall>x \<in> set (comunicaciones s1). x \<notin> set cs \<longrightarrow> com_de (sc_id x) s' = Some x"
    using h unfolding lote_hecho_def by blast+
  have c'in: "c' \<in> set (comunicaciones s1)" using cin by (auto simp: m(1))
  have "c' \<notin> set cs"
  proof
    assume "c' \<in> set cs"
    then have "c' \<in> set (comunicaciones s)" using Cons.prems(2) by auto
    then have "c' = c" using d cin m(2) by (auto simp: distinct_map inj_on_def)
    then show False using \<open>c' \<in> set cs\<close> nc by simp
  qed
  then have "com_de (sc_id c) s' = Some c'" using same c'in m(2) by auto
  moreover have "clasificada s' (ident_com opt c) c'"
    using clasificada_estable [OF cl _ g2 p2] i1 by (simp add: com_inv_def)
  ultimately have "lote_hecho opt s (c # cs) s'"
    unfolding lote_hecho_def using ok same keep i2 p1 p2 k2 m l1 l2 g1 g2
    by (auto simp: claves_mapa emails_mapa simp del: map_map)
  moreover have "for_each (clasificar_una opt) (c # cs) s = (Inr (Some (sc_id c, r) # rs), s')"
    using run rest by (simp add: ebind_def ret_def)
  ultimately show ?case using ids by (intro exI [of _ "Some (sc_id c, r) # rs"] exI [of _ s']) simp
qed

lemma mas_reciente_mset: "set (mas_reciente cs) = set cs" "distinct cs \<Longrightarrow> distinct (mas_reciente cs)"
  by (auto simp: mas_reciente_def)

lemma por_clasificar_sub:
  "set (por_clasificar opt ids cs) \<subseteq> {c \<in> set cs. sc_estado c = UNPROCESSED}"
  "distinct cs \<Longrightarrow> distinct (por_clasificar opt ids cs)" "length (por_clasificar opt ids cs) \<le> 200"
  by (auto simp: por_clasificar_def mas_reciente_mset limite_com_def dest!: in_set_takeD)

lemma results_map:
  "map (map_option fst) rs = map (\<lambda>c. Some (sc_id c)) cs \<Longrightarrow>
   map fst (map the (filter (\<lambda>r. r \<noteq> None) rs)) = map sc_id cs"
  by (induction rs arbitrary: cs) (auto simp: map_eq_Cons_conv)

lemma generateCandidates_run:
  assumes i: "com_inv s" and ids: "ids_pedidos od opt s = (Inr ids, s)"
    and cs: "cs = por_clasificar opt ids (comunicaciones s)"
  shows "\<exists>results s'. generateCandidates od opt s = (Inr (length cs, results), s') \<and>
     map fst results = map sc_id cs \<and> lote_hecho opt s cs s'"
proof -
  have "distinct (comunicaciones s)" using i by (simp add: com_inv_def distinct_map)
  then have sub: "set cs \<subseteq> set (comunicaciones s)" "distinct cs"
    using por_clasificar_sub unfolding cs by auto
  obtain rs s' where run: "for_each (clasificar_una opt) cs s = (Inr rs, s')"
    and r: "map (map_option fst) rs = map (\<lambda>c. Some (sc_id c)) cs" and h: "lote_hecho opt s cs s'"
    using clasificar_lote [OF i sub] by blast
  let ?res = "map the (filter (\<lambda>r. r \<noteq> None) rs)"
  have fst: "map fst ?res = map sc_id cs" by (rule results_map [OF r])
  then have "length ?res = length cs" by (metis length_map)
  then have "generateCandidates od opt s = (Inr (length cs, ?res), s')"
    using run by (simp add: generateCandidates_def ebind_def ids cs [symmetric] gets_def ret_def Let_def)
  with fst h show ?thesis by blast
qed

text \<open>C25: a classification takes at most 200 mails, reports each of them and leaves none as it was:
  a mail without a number ends in error, any other is processed, points at a new expense with its
  number and suggests the first five properties with the digits of the number. The expense is
  looked up with the number as it stands: it is assigned a proposal if a property has exactly that
  number and discarded if none has, even when properties were suggested. Other mails stay.
\<close>

theorem generateCandidates_classifies:
  assumes "com_inv s" and "ids_pedidos od opt s = (Inr ids, s)"
    and "cs = por_clasificar opt ids (comunicaciones s)"
  shows "length cs \<le> 200 \<and>
    (\<exists>results s'. generateCandidates od opt s = (Inr (length cs, results), s') \<and>
      map fst results = map sc_id cs \<and>
      (\<forall>c \<in> set cs. \<exists>c'. com_de (sc_id c) s' = Some c' \<and> sc_estado c' \<noteq> UNPROCESSED \<and>
         (if ident_com opt c = [] then sc_estado c' = ERROR
          else sc_estado c' = PROCESSED \<and>
            propiedades_sugeridas_ids c' = sugeridas s (ident_com opt c) \<and>
            (\<exists>g ge. gasto_detectado_id c' = Some g \<and> gasto_de g s' = Some ge \<and>
               ge_identificador ge = ident_com opt c \<and>
               estado_procesamiento ge =
                 (if con_numero s (ident_com opt c) = [] then DESCARTADO else ASIGNADO)))) \<and>
      (\<forall>x \<in> set (comunicaciones s). x \<in> set cs \<or> com_de (sc_id x) s' = Some x) \<and>
      (\<exists>nuevos. gastos s' = gastos s @ nuevos \<and>
         length nuevos = length (filter (\<lambda>c. ident_com opt c \<noteq> []) cs)))"
proof -
  obtain results s' where r: "generateCandidates od opt s = (Inr (length cs, results), s')"
      "map fst results = map sc_id cs" and h: "lote_hecho opt s cs s'"
    using generateCandidates_run [OF assms] by blast
  have p: "propiedades s' = propiedades s" using h by (simp add: lote_hecho_def)
  have n: "con_numero s' = con_numero s" "sugeridas s' = sugeridas s"
    by (intro ext, simp add: con_numero_def sugeridas_def p)+
  have "length cs \<le> 200" unfolding assms(3) by (rule por_clasificar_sub(3))
  then show ?thesis
    using r h unfolding lote_hecho_def clasificada_def n
    by (intro conjI exI [of _ results] exI [of _ s']) (auto split: if_splits)
qed

section \<open>Any run of operations\<close>

inductive paso_com :: "(string \<Rightarrow> oid option) \<Rightarrow> 'a bd_sc_scheme \<Rightarrow> 'a bd_sc_scheme \<Rightarrow> bool"
  for od :: "string \<Rightarrow> oid option" where
  crear: "sc_create p s = (r, s') \<Longrightarrow> paso_com od s s'"
| estado: "sc_updateStatus od i e n s = (r', s') \<Longrightarrow> paso_com od s s'"
| vincular: "linkDetectedExpense od i g ps s = (r', s') \<Longrightarrow> paso_com od s s'"
| clasificar: "generateCandidates od opt s = (r'', s') \<Longrightarrow> paso_com od s s'"

definition sync_inv :: "'a bd_sc_scheme \<Rightarrow> bool" where
  "sync_inv s \<longleftrightarrow> com_inv s \<and> distinct (map sc_email_id (comunicaciones s)) \<and>
     (\<forall>c \<in> set (comunicaciones s). sc_id c < prox_id s \<and> sc_email_id c \<noteq> [])"

definition crece_com :: "'a bd_sc_scheme \<Rightarrow> 'a bd_sc_scheme \<Rightarrow> bool" where
  "crece_com s s' \<longleftrightarrow> sync_inv s' \<and>
     prefix (map (\<lambda>c. (sc_id c, sc_email_id c)) (comunicaciones s))
       (map (\<lambda>c. (sc_id c, sc_email_id c)) (comunicaciones s'))"

lemma crece_com_refl: "sync_inv s \<Longrightarrow> crece_com s s"
  by (simp add: crece_com_def)

lemma pares_claves:
  assumes "map sc_id ys = map sc_id xs" and "map sc_email_id ys = map sc_email_id xs"
  shows "map (\<lambda>c. (sc_id c, sc_email_id c)) ys = map (\<lambda>c. (sc_id c, sc_email_id c)) xs"
proof -
  have z: "map (\<lambda>c. (sc_id c, sc_email_id c)) zs = zip (map sc_id zs) (map sc_email_id zs)" for zs
    by (induction zs) simp_all
  show ?thesis unfolding z assms ..
qed

text \<open>A step that keeps the keys.\<close>

lemma crece_com_claves:
  assumes "sync_inv s" and "com_inv s'" and "prox_id s \<le> prox_id s'"
    and "map sc_id (comunicaciones s') = map sc_id (comunicaciones s)"
    and "map sc_email_id (comunicaciones s') = map sc_email_id (comunicaciones s)"
  shows "crece_com s s'"
proof -
  have "\<exists>x \<in> set (comunicaciones s). sc_id x = sc_id c \<and> sc_email_id x = sc_email_id c"
    if "c \<in> set (comunicaciones s')" for c
  proof -
    have "(sc_id c, sc_email_id c) \<in> set (map (\<lambda>c. (sc_id c, sc_email_id c)) (comunicaciones s))"
      using that pares_claves [OF assms(4,5)] by (metis (no_types, lifting) image_eqI set_map)
    then show ?thesis by auto
  qed
  then have "\<forall>c \<in> set (comunicaciones s'). sc_id c < prox_id s' \<and> sc_email_id c \<noteq> []"
    using assms(1,3) unfolding sync_inv_def by (metis order_less_le_trans)
  then show ?thesis
    using assms pares_claves [OF assms(4,5)] by (simp add: crece_com_def sync_inv_def)
qed

lemma guardar_com_crece:
  assumes i: "sync_inv s" and c: "com_de i s = Some c" and k: "sc_id d = sc_id c" "sc_email_id d = sc_email_id c"
    and run: "guardar_com d s = (r, s')"
  shows "crece_com s s'"
proof -
  have s': "s' = con_comms (save_doc sc_id d) s" using run by (simp add: guardar_com_def ret_def)
  have dis: "distinct (map sc_id (comunicaciones s))" using i by (simp add: sync_inv_def com_inv_def)
  have "sc_email_id x = sc_email_id d" if "x \<in> set (comunicaciones s)" "sc_id x = sc_id d" for x
    using that dis find_id_in [OF c] k by (auto simp: distinct_map inj_on_def)
  then have "map sc_email_id (comunicaciones s') = map sc_email_id (comunicaciones s)"
    by (auto simp: s' save_doc_def)
  moreover have "com_inv s'"
    using i by (simp add: s' sync_inv_def com_inv_def gas_inv_def)
  ultimately show ?thesis using i by (intro crece_com_claves) (simp_all add: s')
qed

lemma sc_create_nueva:
  assumes "sc_email_id (pc_resto p) \<noteq> []"
    and "sc_email_id (pc_resto p) \<notin> sc_email_id ` set (comunicaciones s)"
  shows "\<exists>c. sc_create p s =
      (Inr (Some c), con_comms (\<lambda>cs. cs @ [c]) (s\<lparr>prox_id := Suc (prox_id s)\<rparr>)) \<and>
     sc_id c = prox_id s \<and> sc_email_id c = sc_email_id (pc_resto p)"
  using assms by (simp add: sc_create_def ret_def Let_def)

lemma sc_create_crece:
  assumes i: "sync_inv s" and run: "sc_create p s = (r, s')"
  shows "crece_com s s'"
proof (cases "s' = s")
  case False
  let ?e = "sc_email_id (pc_resto p)"
  have e: "?e \<noteq> []" "?e \<notin> sc_email_id ` set (comunicaciones s)"
    using run False by (auto simp: sc_create_def raise_def ret_def split: if_splits)
  obtain c where c: "sc_id c = prox_id s" "sc_email_id c = ?e"
    and s': "s' = con_comms (\<lambda>cs. cs @ [c]) (s\<lparr>prox_id := Suc (prox_id s)\<rparr>)"
    using sc_create_nueva [OF e] run by auto
  have n: "prox_id s \<notin> sc_id ` set (comunicaciones s)" using i by (auto simp: sync_inv_def)
  have "comunicaciones s' = comunicaciones s @ [c]" "prox_id s' = Suc (prox_id s)" "gastos s' = gastos s"
    by (simp_all add: s' con_comms_def)
  then show ?thesis
    using i e c n by (auto simp: crece_com_def sync_inv_def com_inv_def gas_inv_def less_SucI)
qed (simp add: crece_com_refl i)

lemma ObjectId_estado: "snd (nuevo_ObjectId od t s) = s"
  by (simp add: nuevo_ObjectId_def raise_def ret_def split: option.split)

lemma ObjectIds_estado: "snd (for_each (nuevo_ObjectId od) ts s) = s"
proof -
  have "preserves (\<lambda>t. t = s) (for_each (nuevo_ObjectId od) ts)"
    by (rule preserves_for_each) (simp add: preserves_def ObjectId_estado)
  then show ?thesis by (simp add: preserves_def)
qed

lemma ids_pedidos_estado: "snd (ids_pedidos od opt s) = s"
proof -
  have "preserves (\<lambda>t. t = s) (ids_pedidos od opt)"
    unfolding ids_pedidos_def
    by (intro preserves_ebind preserves_if preserves_ret)
      (simp_all add: preserves_def ObjectId_estado ObjectIds_estado)
  then show ?thesis by (simp add: preserves_def)
qed

lemma generateCandidates_claves:
  assumes i: "sync_inv s" and run: "generateCandidates od opt s = (r, s')"
  shows "com_inv s' \<and> prox_id s \<le> prox_id s' \<and>
     map sc_id (comunicaciones s') = map sc_id (comunicaciones s) \<and>
     map sc_email_id (comunicaciones s') = map sc_email_id (comunicaciones s)"
proof (cases "fst (ids_pedidos od opt s)")
  case (Inl e)
  then have "s' = s" using run ids_pedidos_estado [of od opt s]
    by (auto simp: generateCandidates_def ebind_def split: prod.splits sum.splits)
  then show ?thesis using i by (simp add: sync_inv_def)
next
  case (Inr ids)
  then have "ids_pedidos od opt s = (Inr ids, s)" using ids_pedidos_estado by (metis prod.collapse)
  from generateCandidates_run [OF _ this refl] i run
  have "lote_hecho opt s (por_clasificar opt ids (comunicaciones s)) s'"
    by (auto simp: sync_inv_def)
  then show ?thesis by (simp add: lote_hecho_def)
qed

lemma sc_findOne_Inr: "sc_findOne od i s = (Inr c, t) \<Longrightarrow> t = s \<and> (\<exists>k. com_de k s = Some c)"
  by (auto simp: sc_findOne_def raise_def proc_simps split: option.splits)

lemma sc_findOne_estado: "sc_findOne od i s = (r, t) \<Longrightarrow> t = s"
  by (auto simp: sc_findOne_def raise_def obtener_def split: option.splits)

lemma paso_com_crece:
  assumes "paso_com od s s'" and i: "sync_inv s"
  shows "crece_com s s'"
  using assms(1)
proof cases
  case (crear p r)
  then show ?thesis using sc_create_crece i by blast
next
  case (estado i' e n r)
  show ?thesis
  proof (cases "fst (sc_findOne od i' s)")
    case (Inl x)
    then have "s' = s" using estado sc_findOne_estado
      by (auto simp: sc_updateStatus_def ebind_def split: prod.splits sum.splits)
    then show ?thesis by (simp add: crece_com_refl i)
  next
    case (Inr c)
    then have f: "sc_findOne od i' s = (Inr c, s)" using sc_findOne_estado by (metis prod.collapse)
    from sc_findOne_Inr [OF this] obtain k where k: "com_de k s = Some c" by blast
    show ?thesis
      by (rule guardar_com_crece [OF i k]) (use estado in \<open>simp_all add: sc_updateStatus_def ebind_def f\<close>)
  qed
next
  case (vincular i' g ps r)
  show ?thesis
  proof (cases "\<exists>c gi pi. sc_findOne od i' s = (Inr c, s) \<and> nuevo_ObjectId od g s = (Inr gi, s) \<and>
      for_each (nuevo_ObjectId od) (coalesce ps []) s = (Inr pi, s)")
    case True
    then obtain c gi pi where f: "sc_findOne od i' s = (Inr c, s)" and g: "nuevo_ObjectId od g s = (Inr gi, s)"
      and p: "for_each (nuevo_ObjectId od) (coalesce ps []) s = (Inr pi, s)" by blast
    from sc_findOne_Inr [OF f] obtain k where k: "com_de k s = Some c" by blast
    let ?d = "c\<lparr>gasto_detectado_id := Some gi,
       propiedades_sugeridas_ids := (if pi = [] then propiedades_sugeridas_ids c else pi),
       sc_estado := PROCESSED\<rparr>"
    have "guardar_com ?d s = (r, s')"
      using vincular by (simp add: linkDetectedExpense_def ebind_def f g p)
    then show ?thesis by (intro guardar_com_crece [OF i k]) simp_all
  next
    case False
    obtain a where a: "sc_findOne od i' s = (a, s)" using sc_findOne_estado by (metis surj_pair)
    obtain b where b: "nuevo_ObjectId od g s = (b, s)" using ObjectId_estado by (metis prod.collapse)
    obtain q where q: "for_each (nuevo_ObjectId od) (coalesce ps []) s = (q, s)"
      using ObjectIds_estado by (metis prod.collapse)
    have "s' = s"
      using vincular False
      by (cases a; cases b; cases q; simp add: linkDetectedExpense_def ebind_def a b q)
    then show ?thesis by (simp add: crece_com_refl i)
  qed
next
  case (clasificar opt r)
  then show ?thesis using generateCandidates_claves [OF i] i by (intro crece_com_claves) blast+
qed

text \<open>along any run of creations, changes of status, links and classifications no two mails
  share an id or a message id, none of them disappears or changes place, and the ids of the expenses
  stay distinct.\<close>

theorem communications_unique:
  assumes "sync_inv s" and "(paso_com od)\<^sup>*\<^sup>* s s'"
  shows "sync_inv s' \<and> prefix (map (\<lambda>c. (sc_id c, sc_email_id c)) (comunicaciones s))
     (map (\<lambda>c. (sc_id c, sc_email_id c)) (comunicaciones s'))"
  using assms(2)
proof (induction rule: rtranclp_induct)
  case base
  show ?case by (simp add: assms(1))
next
  case (step t u)
  then have "crece_com t u" using paso_com_crece by blast
  then show ?case using step.IH prefix_order.order_trans by (auto simp: crece_com_def)
qed

section \<open>Examples\<close>

text \<open>A mail about the number 7-7, while the properties have 77.\<close>

definition com0 :: comunicacion where
  "com0 = \<lparr>sc_id = 70, sc_email_id = ''m1'', proveedor_cuit = Some ''30-1'', sc_proveedor_id = None,
     remitente = None, asunto = None, fecha_email = Some 5, cuerpo_texto = None, cuerpo_html = None,
     sc_tipo_alerta = AVISO_DEUDA, sc_identificador = Some ''7-7'', numero_medidor = None,
     sc_monto_estimado = Some 100, sc_fecha_vencimiento = None, periodo_label = None,
     propiedades_sugeridas_ids = [], propiedad_confirmada_id = None, gasto_detectado_id = None,
     sc_estado = UNPROCESSED, sc_notas = None, error_message = None\<rparr>"

definition bd_sc0 :: bd_sc where
  "bd_sc0 = bd_gas.extend (bd_gas0 []) (bd_sc.fields [com0])"

definition todas0 :: opciones_com where
  "todas0 = \<lparr>communicationId = None, communicationIds = None, maxPerRun = None,
     oc_providerCuit = None, tryExtractServiceId = None\<rparr>"

lemma bd_sc0_campos:
  "comunicaciones bd_sc0 = [com0]" "gastos bd_sc0 = []" "prox_id bd_sc0 = 100"
  "propiedades bd_sc0 = [con_servicio 30 2, con_servicio 31 1, con_servicio 32 3]"
  by (simp_all add: bd_sc0_def bd_gas0_def bd_sc.defs bd_gas.defs bd_ct.defs bd_ct0_def)

lemma sync_inv0: "sync_inv bd_sc0"
  by (simp add: sync_inv_def com_inv_def gas_inv_def bd_sc0_campos com0_def)

lemma extractServiceIdFromText_digits_witness:
  "extractServiceIdFromText ''NroCuenta123456'' = Some ''123456'' \<and> list_all digito ''123456'' \<and>
   subseq ''123456'' ''NroCuenta123456''"
proof -
  have c: "casar patron_nro (\<lambda>s' cs'. Some (s', cs')) ''NroCuenta123456'' [] =
      Some ([], [(1, ''123456'')])" by code_simp
  have d: "solo_digitos ''123456'' = ''123456''" by code_simp
  have "buscar patron_nro ''NroCuenta123456'' = Some (''NroCuenta123456'', [(1, ''123456'')])"
    using c by (subst buscar.simps) simp
  then have e: "extractServiceIdFromText ''NroCuenta123456'' = Some ''123456''"
    by (simp add: extractServiceIdFromText_def accountPatterns_def grupo_def d)
  show ?thesis using extractServiceIdFromText_digits [OF e] e by blast
qed

lemma generateCandidates_classifies_witness:
  "\<exists>s' c' g ge. snd (generateCandidates od0 todas0 bd_sc0) = s' \<and> com_de 70 s' = Some c' \<and>
     sc_estado c' = PROCESSED \<and> propiedades_sugeridas_ids c' = [30, 31, 32] \<and>
     gasto_detectado_id c' = Some g \<and> gasto_de g s' = Some ge \<and> estado_procesamiento ge = DESCARTADO"
proof -
  have inv: "com_inv bd_sc0" using sync_inv0 by (simp add: sync_inv_def)
  have ids: "ids_pedidos od0 todas0 bd_sc0 = (Inr None, bd_sc0)"
    by (simp add: ids_pedidos_def todas0_def o_texto_def ret_def)
  have sel: "[com0] = por_clasificar todas0 None (comunicaciones bd_sc0)"
    by (simp add: bd_sc0_campos por_clasificar_def mas_reciente_def todas0_def com0_def limite_com_def o_texto_def)
  have n: "ident_com todas0 com0 = ''7-7''"
    by (simp add: ident_com_def con_id_def com0_def o_texto_def)
  have cn: "con_numero bd_sc0 ''7-7'' = []"
    by (simp add: con_numero_def bd_sc0_campos con_servicio_def)
  have dg: "solo_digitos ''7-7'' = ''77''" by code_simp
  have sg: "sugeridas bd_sc0 ''7-7'' = [30, 31, 32]"
    by (simp add: sugeridas_def con_numero_def bd_sc0_campos con_servicio_def dg)
  have i: "sc_id com0 = 70" by (simp add: com0_def)
  obtain rs s' where run: "generateCandidates od0 todas0 bd_sc0 = (Inr (length [com0], rs), s')"
    and cs: "\<forall>c \<in> set [com0]. \<exists>c'. com_de (sc_id c) s' = Some c' \<and> sc_estado c' \<noteq> UNPROCESSED \<and>
         (if ident_com todas0 c = [] then sc_estado c' = ERROR
          else sc_estado c' = PROCESSED \<and>
            propiedades_sugeridas_ids c' = sugeridas bd_sc0 (ident_com todas0 c) \<and>
            (\<exists>g ge. gasto_detectado_id c' = Some g \<and> gasto_de g s' = Some ge \<and>
               ge_identificador ge = ident_com todas0 c \<and>
               estado_procesamiento ge =
                 (if con_numero bd_sc0 (ident_com todas0 c) = [] then DESCARTADO else ASIGNADO)))"
    using generateCandidates_classifies [OF inv ids sel] by blast
  from cs have "\<exists>c'. com_de 70 s' = Some c' \<and> sc_estado c' = PROCESSED \<and>
      propiedades_sugeridas_ids c' = [30, 31, 32] \<and>
      (\<exists>g ge. gasto_detectado_id c' = Some g \<and> gasto_de g s' = Some ge \<and>
         estado_procesamiento ge = DESCARTADO)"
    by (auto simp: n cn sg i)
  then show ?thesis using run by auto
qed

lemma communications_unique_witness:
  "\<exists>s'. (paso_com od0)\<^sup>*\<^sup>* bd_sc0 s' \<and> sync_inv s' \<and>
     map (\<lambda>c. (sc_id c, sc_email_id c)) (comunicaciones s') = [(70, ''m1''), (100, ''m2'')]"
proof -
  let ?p = "\<lparr>pc_tipo_alerta = None, pc_estado = None, pc_resto = com0\<lparr>sc_email_id := ''m2''\<rparr>\<rparr>"
  have p: "sc_email_id (pc_resto ?p) = ''m2''" by simp
  have "sc_email_id (pc_resto ?p) \<noteq> []"
    and "sc_email_id (pc_resto ?p) \<notin> sc_email_id ` set (comunicaciones bd_sc0)"
    unfolding p bd_sc0_campos by (simp_all add: com0_def)
  from sc_create_nueva [OF this] obtain c where
    run: "sc_create ?p bd_sc0 =
      (Inr (Some c), con_comms (\<lambda>cs. cs @ [c]) (bd_sc0\<lparr>prox_id := Suc (prox_id bd_sc0)\<rparr>))" (is "_ = (_, ?s)")
    and c: "sc_id c = 100" "sc_email_id c = ''m2''" unfolding p bd_sc0_campos by blast
  have r: "(paso_com od0)\<^sup>*\<^sup>* bd_sc0 ?s" by (rule r_into_rtranclp) (rule paso_com.crear [OF run])
  have k: "sc_id com0 = 70" "sc_email_id com0 = ''m1''" by (simp_all add: com0_def)
  have "comunicaciones (bd_sc0\<lparr>prox_id := n\<rparr>) = [com0]" for n
    using bd_sc0_campos(1) by (cases bd_sc0) simp
  then have "comunicaciones ?s = [com0, c]" by (simp only: con_comms_campos append.simps)
  then have m: "map (\<lambda>c. (sc_id c, sc_email_id c)) (comunicaciones ?s) = [(70, ''m1''), (100, ''m2'')]"
    by (simp only: list.map k c)
  show ?thesis
    by (rule exI [of _ ?s], intro conjI r m) (rule conjunct1 [OF communications_unique [OF sync_inv0 r]])
qed

end
