(* ===== verification/TextParsing.thy ===== *)
theory TextParsing
  imports RegExp Dates
begin

text \<open>
  What the mail parsers use of strings, numbers, dates and web pages: \<^verbatim>\<open>trim\<close>,
  \<^verbatim>\<open>replace\<close>, \<^verbatim>\<open>includes\<close>, \<^verbatim>\<open>parseFloat\<close>, \<^verbatim>\<open>new Date('yyyy-mm-dd')\<close>, and the selections made on
  the tree of a page, which \<^verbatim>\<open>cheerio\<close> builds (the parser of the pages is an argument of the
  definitions that use it). Texts are Latin-1.
\<close>

section \<open>Strings\<close>

definition recortar :: "string \<Rightarrow> string" where
  "recortar t = rev (dropWhile blanco (rev (dropWhile blanco t)))"

definition quitar :: "(char \<Rightarrow> bool) \<Rightarrow> string \<Rightarrow> string" where
  "quitar P t = filter (\<lambda>c. \<not> P c) t"

fun cambiar_primero :: "char \<Rightarrow> char \<Rightarrow> string \<Rightarrow> string" where
  "cambiar_primero a b [] = []"
| "cambiar_primero a b (c # t) = (if c = a then b # t else c # cambiar_primero a b t)"

fun incluye :: "string \<Rightarrow> string \<Rightarrow> bool" where
  "incluye w [] = (w = [])"
| "incluye w (c # t) = (take (length w) (c # t) = w \<or> incluye w t)"

text \<open>\<^verbatim>\<open>toUpperCase\<close> of a Latin-1 letter whose capital is one too.\<close>

definition mayuscula_l1 :: "char \<Rightarrow> char" where
  "mayuscula_l1 c = (let n = cod c in
     if 97 \<le> n \<and> n \<le> 122 \<or> 224 \<le> n \<and> n \<le> 254 \<and> n \<noteq> 247 then char_of (n - 32) else c)"

text \<open>
  \<^verbatim>\<open>normalize('NFD')\<close> and the removal of the combining marks, on a lower-case letter; the
  letters that do not decompose stay.
\<close>

definition sin_acento :: "char \<Rightarrow> char" where
  "sin_acento c = (let n = cod c in
     if 224 \<le> n \<and> n \<le> 229 then CHR ''a''
     else if n = 231 then CHR ''c''
     else if 232 \<le> n \<and> n \<le> 235 then CHR ''e''
     else if 236 \<le> n \<and> n \<le> 239 then CHR ''i''
     else if n = 241 then CHR ''n''
     else if 242 \<le> n \<and> n \<le> 246 then CHR ''o''
     else if 249 \<le> n \<and> n \<le> 252 then CHR ''u''
     else if n = 253 \<or> n = 255 then CHR ''y''
     else c)"

text \<open>What a group of the first match captures.\<close>

definition captura :: "nat \<Rightarrow> patron \<Rightarrow> string \<Rightarrow> string option" where
  "captura i p t = (case buscar p t of None \<Rightarrow> None | Some m \<Rightarrow> grupo i m)"

section \<open>Numbers\<close>

definition valor_cifras :: "string \<Rightarrow> nat" where
  "valor_cifras ds = foldl (\<lambda>n c. 10 * n + (cod c - 48)) 0 ds"

text \<open>\<^verbatim>\<open>parseFloat\<close> on a text of digits, points, commas and signs: \<open>None\<close> is \<^verbatim>\<open>NaN\<close>.\<close>

definition parseFloat_sin_signo :: "string \<Rightarrow> rat option" where
  "parseFloat_sin_signo t =
     (let entera = takeWhile RegExp.digito t; resto = dropWhile RegExp.digito t;
          decimales = (case resto of c # r \<Rightarrow> if c = CHR ''.'' then takeWhile RegExp.digito r else [] | [] \<Rightarrow> [])
      in if entera = [] \<and> decimales = [] then None
         else Some (of_nat (valor_cifras entera) +
           of_nat (valor_cifras decimales) / of_nat (10 ^ length decimales)))"

definition parseFloat :: "string \<Rightarrow> rat option" where
  "parseFloat t0 =
     (let t = dropWhile blanco t0 in
      case t of
        c # r \<Rightarrow> if c = CHR ''-'' then map_option (\<lambda>x. - x) (parseFloat_sin_signo r)
                else parseFloat_sin_signo t
      | [] \<Rightarrow> None)"

section \<open>Dates\<close>

text \<open>\<^verbatim>\<open>new Date('yyyy-mm-dd')\<close>: midnight UTC; the day may pass the end of its month, as it does
  in the engine; \<open>None\<close> is an invalid date.\<close>

definition fecha_iso :: "nat \<Rightarrow> nat \<Rightarrow> nat \<Rightarrow> fecha option" where
  "fecha_iso anio mes dia =
     (if 1 \<le> mes \<and> mes \<le> 12 \<and> 1 \<le> dia \<and> dia \<le> 31
      then Some (dia_de_civil (int anio) (int mes - 1) (int dia) * dia_ms)
      else None)"

section \<open>Pages\<close>

text \<open>A node of a page: an element with its identity, tag and children, or a text.\<close>

datatype nodo = Elem nat string "nodo list" | Txt string

fun texto_nodo :: "nodo \<Rightarrow> string" where
  "texto_nodo (Txt t) = t"
| "texto_nodo (Elem i g ns) = concat (map texto_nodo ns)"

definition texto_pagina :: "nodo list \<Rightarrow> string" where
  "texto_pagina ns = concat (map texto_nodo ns)"

text \<open>\<^verbatim>\<open>find(tag)\<close>: the descendants with the tag, in document order.\<close>

fun con_tag :: "string \<Rightarrow> nodo \<Rightarrow> nodo list" where
  "con_tag g (Txt t) = []"
| "con_tag g (Elem i h ns) = (if h = g then [Elem i h ns] else []) @ concat (map (con_tag g) ns)"

fun hijos :: "nodo \<Rightarrow> nodo list" where
  "hijos (Txt t) = []"
| "hijos (Elem i h ns) = ns"

fun tag_de :: "nodo \<Rightarrow> string" where
  "tag_de (Txt t) = []"
| "tag_de (Elem i h ns) = h"

fun ident_nodo :: "nodo \<Rightarrow> nat" where
  "ident_nodo (Txt t) = 0"
| "ident_nodo (Elem i h ns) = i"

definition buscar_tag :: "string \<Rightarrow> nodo list \<Rightarrow> nodo list" where
  "buscar_tag g ns = concat (map (con_tag g) ns)"

text \<open>\<^verbatim>\<open>find('> tag')\<close>.\<close>

definition hijos_tag :: "string \<Rightarrow> nodo \<Rightarrow> nodo list" where
  "hijos_tag g n = filter (\<lambda>h. tag_de h = g) (hijos n)"

end
