(* ===== verification/MailScan.thy ===== *)
theory MailScan
  imports SystemConfig
begin

text \<open>
  What the two mail scanners share: the counts they return, the loop over the mails, which
  counts an exception and goes on, and \<^verbatim>\<open>try ... finally\<close>. The locale \<open>almacen_correo\<close> is what the
  loop relies on of the service that stores the mails: one document for each key, and failures
  that depend on the data only. Both scanners interpret it.
\<close>

section \<open>The loop\<close>

record conteo =
  procesados :: nat
  nuevos :: nat
  duplicados :: nat
  errores :: nat

definition conteo_cero :: conteo where
  "conteo_cero = \<lparr>procesados = 0, nuevos = 0, duplicados = 0, errores = 0\<rparr>"

datatype desenlace = NUEVO | DUPLICADO | FALLO | NADA

definition contar_uno :: "desenlace \<Rightarrow> conteo \<Rightarrow> conteo" where
  "contar_uno d c =
     \<lparr>procesados = procesados c + 1,
      nuevos = nuevos c + (if d = NUEVO then 1 else 0),
      duplicados = duplicados c + (if d = DUPLICADO then 1 else 0),
      errores = errores c + (if d = FALLO then 1 else 0)\<rparr>"

text \<open>\<open>parse n e\<close> reads the mail \<open>e\<close>, the \<open>n\<close>-th of the scan; a mail that gives nothing is passed over.\<close>

definition procesar_uno ::
  "(nat \<Rightarrow> 'e \<Rightarrow> 'd option) \<Rightarrow> ('d \<Rightarrow> ('s, 'r option) proc) \<Rightarrow> 'e \<Rightarrow> conteo \<Rightarrow> ('s, conteo) proc" where
  "procesar_uno parse guardar e c =
     try_catch
       (case parse (procesados c) e of
          None \<Rightarrow> ret (contar_uno NADA c)
        | Some d \<Rightarrow> ebind (guardar d) (\<lambda>r.
            ret (contar_uno (case r of None \<Rightarrow> DUPLICADO | Some _ \<Rightarrow> NUEVO) c)))
       (\<lambda>_. ret (contar_uno FALLO c))"

definition finalmente :: "('s, 'a) proc \<Rightarrow> ('s, unit) proc \<Rightarrow> ('s, 'a) proc" where
  "finalmente m f =
     try_catch (ebind m (\<lambda>x. ebind f (\<lambda>_. ret x))) (\<lambda>e. ebind f (\<lambda>_. raise e))"

lemma finalmente_run:
  assumes "\<And>t. f t = (Inr (), g t)"
  shows "finalmente m f s = (fst (m s), g (snd (m s)))"
  using assms
  by (cases "m s"; cases "fst (m s)")
    (simp_all add: finalmente_def try_catch_def ebind_def ret_def raise_def)

text \<open>The mails a loop cannot lose: \<open>c'\<close> comes after \<open>n\<close> mails from \<open>c\<close>.\<close>

definition avanza :: "nat \<Rightarrow> conteo \<Rightarrow> conteo \<Rightarrow> bool" where
  "avanza n c c' \<longleftrightarrow> procesados c' = procesados c + n \<and> nuevos c \<le> nuevos c' \<and>
     duplicados c \<le> duplicados c' \<and> errores c \<le> errores c' \<and>
     nuevos c' + duplicados c' + errores c' \<le> nuevos c + duplicados c + errores c + n"

text \<open>The reading of a mail does not depend on its place.\<close>

definition uniforme :: "(nat \<Rightarrow> 'e \<Rightarrow> 'x) \<Rightarrow> 'e list \<Rightarrow> bool" where
  "uniforme parse es \<longleftrightarrow> (\<forall>e \<in> set es. \<forall>n m. parse n e = parse m e)"

section \<open>The store of the mails\<close>

locale almacen_correo =
  fixes claves :: "'s \<Rightarrow> 'k set"
    and clave :: "'d \<Rightarrow> 'k"
    and valido :: "'d \<Rightarrow> bool"
    and guardar :: "'d \<Rightarrow> ('s, 'r option) proc"
    and inv :: "'s \<Rightarrow> bool"
  assumes duplicado: "inv s \<Longrightarrow> valido d \<Longrightarrow> clave d \<in> claves s \<Longrightarrow> guardar d s = (Inr None, s)"
    and nuevo: "inv s \<Longrightarrow> valido d \<Longrightarrow> clave d \<notin> claves s \<Longrightarrow>
      \<exists>r s'. guardar d s = (Inr (Some r), s') \<and> claves s' = insert (clave d) (claves s) \<and> inv s'"
    and invalido: "inv s \<Longrightarrow> \<not> valido d \<Longrightarrow> \<exists>r s'. guardar d s = (r, s') \<and>
      (r = Inr None \<or> (\<exists>e. r = Inl e)) \<and> claves s' = claves s \<and> inv s'"
    and finitas: "inv s \<Longrightarrow> finite (claves s)"
begin

text \<open>One mail.\<close>

lemma procesar_uno_run:
  assumes "inv s"
  shows "\<exists>c' s'. procesar_uno parse guardar e c s = (Inr c', s') \<and> inv s' \<and> avanza 1 c c' \<and>
     claves s \<subseteq> claves s' \<and> card (claves s') + nuevos c = card (claves s) + nuevos c' \<and>
     (\<forall>d. parse (procesados c) e = Some d \<and> valido d \<longrightarrow> clave d \<in> claves s') \<and>
     ((\<forall>d. parse (procesados c) e = Some d \<and> valido d \<longrightarrow> clave d \<in> claves s) \<longrightarrow> claves s' = claves s)"
proof (cases "parse (procesados c) e")
  case None
  then show ?thesis using assms
    by (simp add: procesar_uno_def try_catch_def ret_def contar_uno_def avanza_def)
next
  case (Some d)
  show ?thesis
  proof (cases "valido d")
    case False
    from invalido [OF assms False] obtain r s' where g: "guardar d s = (r, s')"
      and r: "r = Inr None \<or> (\<exists>e. r = Inl e)" and k: "claves s' = claves s" "inv s'" by blast
    from r show ?thesis
      using g k Some False
      by (auto simp: procesar_uno_def try_catch_def ebind_def ret_def contar_uno_def avanza_def)
  next
    case True
    show ?thesis
    proof (cases "clave d \<in> claves s")
      case dup: True
      from duplicado [OF assms True dup] show ?thesis
        using assms Some dup
        by (simp add: procesar_uno_def try_catch_def ebind_def ret_def contar_uno_def avanza_def)
    next
      case False
      from nuevo [OF assms True False] obtain r s' where g: "guardar d s = (Inr (Some r), s')"
        and k: "claves s' = insert (clave d) (claves s)" "inv s'" by blast
      then show ?thesis
        using Some True False finitas [OF assms]
        by (auto simp: procesar_uno_def try_catch_def ebind_def ret_def contar_uno_def avanza_def)
    qed
  qed
qed

text \<open>The loop: it always ends, the new mails are the new keys, and every valid mail has its key.\<close>

lemma procesar_todos:
  assumes "inv s" and "uniforme parse es"
  shows "\<exists>c' s'. fold_each (procesar_uno parse guardar) es c s = (Inr c', s') \<and> inv s' \<and>
     avanza (length es) c c' \<and> claves s \<subseteq> claves s' \<and>
     card (claves s') + nuevos c = card (claves s) + nuevos c' \<and>
     (\<forall>e \<in> set es. \<forall>d n. parse n e = Some d \<and> valido d \<longrightarrow> clave d \<in> claves s') \<and>
     ((\<forall>e \<in> set es. \<forall>d n. parse n e = Some d \<and> valido d \<longrightarrow> clave d \<in> claves s) \<longrightarrow> claves s' = claves s)"
  using assms
proof (induction es arbitrary: s c)
  case Nil
  then show ?case by (simp add: ret_def avanza_def)
next
  case (Cons e es)
  obtain c1 s1 where one: "procesar_uno parse guardar e c s = (Inr c1, s1)" and i1: "inv s1"
    and a1: "avanza 1 c c1" and sub1: "claves s \<subseteq> claves s1"
    and n1: "card (claves s1) + nuevos c = card (claves s) + nuevos c1"
    and k1: "\<forall>d. parse (procesados c) e = Some d \<and> valido d \<longrightarrow> clave d \<in> claves s1"
    and q1: "(\<forall>d. parse (procesados c) e = Some d \<and> valido d \<longrightarrow> clave d \<in> claves s) \<longrightarrow> claves s1 = claves s"
    using procesar_uno_run [OF Cons.prems(1), of parse e c] by blast
  have pes: "uniforme parse es" using Cons.prems(2) by (simp add: uniforme_def)
  obtain c2 s2 where rest: "fold_each (procesar_uno parse guardar) es c1 s1 = (Inr c2, s2)" and i2: "inv s2"
    and a2: "avanza (length es) c1 c2" and sub2: "claves s1 \<subseteq> claves s2"
    and n2: "card (claves s2) + nuevos c1 = card (claves s1) + nuevos c2"
    and k2: "\<forall>e \<in> set es. \<forall>d n. parse n e = Some d \<and> valido d \<longrightarrow> clave d \<in> claves s2"
    and q2: "(\<forall>e \<in> set es. \<forall>d n. parse n e = Some d \<and> valido d \<longrightarrow> clave d \<in> claves s1) \<longrightarrow> claves s2 = claves s1"
    using Cons.IH [OF i1 pes, of c1] by blast
  have pe: "parse n e = parse (procesados c) e" for n
    using Cons.prems(2) unfolding uniforme_def by simp
  have "fold_each (procesar_uno parse guardar) (e # es) c s = (Inr c2, s2)"
    using one rest by (simp add: ebind_step)
  moreover have "avanza (length (e # es)) c c2" using a1 a2 by (simp add: avanza_def)
  moreover have "claves s \<subseteq> claves s2" using sub1 sub2 by blast
  moreover have "card (claves s2) + nuevos c = card (claves s) + nuevos c2" using n1 n2 by simp
  moreover have "clave d \<in> claves s2" if "x \<in> set (e # es)" "parse n x = Some d" "valido d" for x d n
  proof (cases "x = e")
    case True
    then have "parse (procesados c) e = Some d" using that(2) pe [of n] by simp
    then show ?thesis using k1 that(3) sub2 by blast
  next
    case False
    then show ?thesis using k2 that by auto
  qed
  moreover have "(\<forall>x \<in> set (e # es). \<forall>d n. parse n x = Some d \<and> valido d \<longrightarrow> clave d \<in> claves s) \<longrightarrow>
      claves s2 = claves s"
    using q1 q2 by fastforce
  ultimately show ?case using i2 by (intro exI [of _ c2] exI [of _ s2]) blast
qed

text \<open>A second scan of the same mails finds nothing new.\<close>

lemma procesar_dos_veces:
  assumes "inv s" and p: "uniforme parse es"
    and "fold_each (procesar_uno parse guardar) es c s = (Inr c', s')"
    and "inv t" and "claves t = claves s'"
  shows "\<exists>c2 t2. fold_each (procesar_uno parse guardar) es conteo_cero t = (Inr c2, t2) \<and>
     nuevos c2 = 0 \<and> claves t2 = claves t"
proof -
  have k: "\<forall>e \<in> set es. \<forall>d n. parse n e = Some d \<and> valido d \<longrightarrow> clave d \<in> claves t"
    using procesar_todos [where c = c, OF assms(1) p] assms(3,5) by auto
  show ?thesis
    using procesar_todos [where c = conteo_cero, OF assms(4) p] k by (auto simp: conteo_cero_def)
qed

end

end
