(* ===== verification/RedlinkScan.thy ===== *)
theory RedlinkScan
  imports Banking TextParsing MailScan
begin

text \<open>
  \<^verbatim>\<open>src/modules/banking-sync/redlink-scan.service.ts\<close>: the scan of the mails of the bank. The
  connection to the mail server is the argument \<open>imap\<close> (the mails since a date for a
  configuration, or the exception it raises), the parser of pages the argument \<open>cargar\<close> (no tree
  when it throws), and \<open>ref\<close> the text made of the clock and a random number for a mail without a
  message id, for the place of the mail in the scan. \<open>conectar\<close> only opens the connection.
\<close>

section \<open>Labels\<close>

definition norm_char :: "char \<Rightarrow> char" where
  "norm_char c = (let d = sin_acento (minuscula c) in
     if RegExp.digito d \<or> 97 \<le> cod d \<and> cod d \<le> 122 \<or> blanco d then d else CHR '' '')"

text \<open>\<^verbatim>\<open>replace(/\s+/g, ' ')\<close>.\<close>

function colapsar :: "string \<Rightarrow> string" where
  "colapsar [] = []"
| "colapsar (c # t) =
     (if blanco c then CHR '' '' # colapsar (dropWhile blanco t) else c # colapsar t)"
  by pat_completeness auto

termination colapsar
  by (relation "measure length") (simp_all add: le_imp_less_Suc length_dropWhile_le)

definition normalizeLabel :: "string \<Rightarrow> string" where
  "normalizeLabel t = recortar (colapsar (map norm_char t))"

type_synonym etiquetas = "string \<rightharpoonup> string"

text \<open>\<^verbatim>\<open>labelMap[key]\<close> where it is tested: an empty text is as good as none.\<close>

definition etiqueta :: "etiquetas \<Rightarrow> string \<Rightarrow> string option" where
  "etiqueta m k = (case m k of None \<Rightarrow> None | Some v \<Rightarrow> if v = [] then None else Some v)"

definition fila_simple :: "nodo \<Rightarrow> etiquetas \<Rightarrow> etiquetas" where
  "fila_simple tr m =
     (case buscar_tag ''td'' (hijos tr) of
        t0 # t1 # _ \<Rightarrow>
          let rawLabel = recortar (texto_nodo t0); value = recortar (texto_nodo t1)
          in if rawLabel \<noteq> [] \<and> value \<noteq> [] then m(normalizeLabel rawLabel \<mapsto> value) else m
      | _ \<Rightarrow> m)"

text \<open>The first cells of the rows of an inner table that have a text.\<close>

definition columna :: "nodo \<Rightarrow> string list" where
  "columna tabla =
     filter (\<lambda>t. t \<noteq> [])
       (map (\<lambda>tr. case buscar_tag ''td'' (hijos tr) of [] \<Rightarrow> [] | td # _ \<Rightarrow> recortar (texto_nodo td))
          (buscar_tag ''tr'' (hijos tabla)))"

definition emparejar :: "string list \<Rightarrow> string list \<Rightarrow> etiquetas \<Rightarrow> etiquetas" where
  "emparejar labels vals m =
     foldl (\<lambda>m (l, v). if normalizeLabel l \<noteq> [] \<and> v \<noteq> [] then m(normalizeLabel l \<mapsto> v) else m) m
       (zip labels vals)"

text \<open>The second format: a row with two inner tables, each left table once.\<close>

definition fila_doble :: "nodo \<Rightarrow> nat list \<times> etiquetas \<Rightarrow> nat list \<times> etiquetas" where
  "fila_doble row st =
     (case st of (processedTables, m) \<Rightarrow>
        (case hijos_tag ''td'' row of
           c0 # c1 # _ \<Rightarrow>
             (case (buscar_tag ''table'' (hijos c0), buscar_tag ''table'' (hijos c1)) of
                (leftTable # _, rightTable # _) \<Rightarrow>
                  if ident_nodo leftTable \<in> set processedTables then (processedTables, m)
                  else (ident_nodo leftTable # ident_nodo rightTable # processedTables,
                        emparejar (columna leftTable) (columna rightTable) m)
              | _ \<Rightarrow> (processedTables, m))
         | _ \<Rightarrow> (processedTables, m)))"

definition buildLabelMap :: "(string \<Rightarrow> nodo list option) \<Rightarrow> string \<Rightarrow> etiquetas" where
  "buildLabelMap cargar html =
     (if html = [] then Map.empty
      else case cargar html of
        None \<Rightarrow> Map.empty
      | Some pagina_h \<Rightarrow>
          let trs = buscar_tag ''tr'' pagina_h;
              m = foldl (\<lambda>m tr. fila_simple tr m) Map.empty trs
          in snd (foldl (\<lambda>st row. fila_doble row st) ([], m) trs))"

section \<open>The fields\<close>

definition cualquiera :: patron where
  "cualquiera = Rep False (Clase todo)"

definition blancos_r :: patron where
  "blancos_r = Rep True (Clase blanco)"

definition o_acento :: string where "o_acento = [char_of (243::nat)]"
definition e_acento :: string where "e_acento = [char_of (233::nat)]"
definition i_acento :: string where "i_acento = [char_of (237::nat)]"
definition u_acento :: string where "u_acento = [char_of (250::nat)]"

text \<open>\<^verbatim>\<open>[A-Z0-9]\<close> under the flag \<^verbatim>\<open>i\<close>.\<close>

definition alfanum_i :: "char \<Rightarrow> bool" where
  "alfanum_i c \<longleftrightarrow> letra_i c \<or> RegExp.digito c"

text \<open>The first of the labels that has a value.\<close>

fun primera_etiqueta :: "etiquetas \<Rightarrow> string list \<Rightarrow> string option" where
  "primera_etiqueta m [] = None"
| "primera_etiqueta m (k # ks) =
     (case etiqueta m (normalizeLabel k) of Some v \<Rightarrow> Some v | None \<Rightarrow> primera_etiqueta m ks)"

definition variantes_id :: "string list" where
  "variantes_id =
     [''Identificador de Transferencia'',
      ''N'' @ [char_of (186::nat)] @ '' de transacci'' @ o_acento @ ''n'',
      ''N'' @ [char_of (176::nat)] @ '' de transacci'' @ o_acento @ ''n'',
      ''Numero de transacci'' @ o_acento @ ''n'',
      ''N'' @ u_acento @ ''mero de transacci'' @ o_acento @ ''n'']"

definition patron_debin :: patron where
  "patron_debin = secuencia [lit_i ''Identificador del Debin'', cualquiera, Grupo 1 (al_menos 6 (Clase alfanum_i))]"

definition patron_transaccion :: patron where
  "patron_transaccion =
     secuencia [lit_i ''N'', Clase (\<lambda>c. cod c = 186 \<or> cod c = 176), blancos_r, lit_i ''de'', blancos_r,
       lit_i ''transacci'', Clase (\<lambda>c. minuscula c = CHR ''o'' \<or> cod (minuscula c) = 243), lit_i ''n'',
       cualquiera, Grupo 1 (al_menos 4 (Clase RegExp.digito))]"

definition patron_transferencia :: patron where
  "patron_transferencia =
     secuencia [lit_i ''Identificador'', blancos_r, lit_i ''de'', blancos_r, lit_i ''Transferencia'',
       cualquiera, Grupo 1 (al_menos 6 (Clase alfanum_i))]"

definition extractIdentificador :: "string \<Rightarrow> tipo_movimiento \<Rightarrow> etiquetas \<Rightarrow> string" where
  "extractIdentificador html tipo labelMap =
     (case tipo of
        INGRESO \<Rightarrow>
          (case primera_etiqueta labelMap [''Identificador del Debin''] of
             Some v \<Rightarrow> recortar v
           | None \<Rightarrow> recortar (coalesce (captura 1 patron_debin html) []))
      | EGRESO \<Rightarrow>
          (case primera_etiqueta labelMap variantes_id of
             Some v \<Rightarrow> recortar v
           | None \<Rightarrow>
               (case captura 1 patron_transaccion html of
                  Some v \<Rightarrow> recortar v
                | None \<Rightarrow> recortar (coalesce (captura 1 patron_transferencia html) []))))"

definition patron_pesos :: patron where
  "patron_pesos = secuencia [lit ''$'', blancos_r, Grupo 1 (al_menos 1 (Clase (\<lambda>c. RegExp.digito c \<or> en '',.'' c)))]"

definition patron_numero :: patron where
  "patron_numero = Sec (Clase RegExp.digito) (Rep True (Clase (\<lambda>c. RegExp.digito c \<or> en ''.,'' c)))"

text \<open>The reading of an amount: a comma is the decimal mark, and points are thousands only when
  there is a comma.\<close>

definition leer_monto :: "string \<Rightarrow> monto" where
  "leer_monto cleaned =
     coalesce (parseFloat
       (if CHR ''.'' \<in> set cleaned \<and> CHR '','' \<in> set cleaned
        then cambiar_primero CHR '','' CHR ''.'' (quitar (\<lambda>c. c = CHR ''.'') cleaned)
        else if CHR '','' \<in> set cleaned then cambiar_primero CHR '','' CHR ''.'' cleaned
        else cleaned)) 0"

definition extractMonto :: "string \<Rightarrow> etiquetas \<Rightarrow> monto" where
  "extractMonto html labelMap =
     (let raw = (case primera_etiqueta labelMap [''Importe''] of
           Some v \<Rightarrow> v
         | None \<Rightarrow> (case buscar patron_pesos html of None \<Rightarrow> [] | Some m \<Rightarrow> fst m))
      in case buscar patron_numero raw of None \<Rightarrow> 0 | Some m \<Rightarrow> leer_monto (recortar (fst m)))"

definition dos_dig :: patron where
  "dos_dig = veces 2 (Clase RegExp.digito)"

definition cuatro_dig :: patron where
  "cuatro_dig = veces 4 (Clase RegExp.digito)"

definition patron_fecha :: patron where
  "patron_fecha = secuencia [Grupo 1 dos_dig, lit ''/'', Grupo 2 dos_dig, lit ''/'', Grupo 3 cuatro_dig]"

definition patron_el_dia :: patron where
  "patron_el_dia =
     secuencia [lit_i ''el d'', Clase (\<lambda>c. minuscula c = CHR ''i'' \<or> cod (minuscula c) = 237), lit_i ''a'',
       cualquiera, Grupo 1 (secuencia [dos_dig, lit ''/'', dos_dig, lit ''/'', cuatro_dig])]"

text \<open>A date read: \<open>Some None\<close> is a date object that is invalid.\<close>

fun primera_fecha :: "string list \<Rightarrow> fecha option option" where
  "primera_fecha [] = None"
| "primera_fecha (cand # cs) =
     (case buscar patron_fecha cand of
        None \<Rightarrow> primera_fecha cs
      | Some m \<Rightarrow> Some (fecha_iso (valor_cifras (coalesce (grupo 3 m) []))
          (valor_cifras (coalesce (grupo 2 m) [])) (valor_cifras (coalesce (grupo 1 m) []))))"

definition opcion_lista :: "'x option \<Rightarrow> 'x list" where
  "opcion_lista x = (case x of None \<Rightarrow> [] | Some v \<Rightarrow> [v])"

definition extractFecha :: "string \<Rightarrow> etiquetas \<Rightarrow> fecha option option" where
  "extractFecha html labelMap =
     primera_fecha (opcion_lista (primera_etiqueta labelMap [''Fecha'']) @
       opcion_lista (captura 1 patron_el_dia html))"

datatype tipo_cbu = DEBITO | CREDITO

definition keys_cbu :: "tipo_cbu \<Rightarrow> string list" where
  "keys_cbu t =
     (case t of
        DEBITO \<Rightarrow> [''cbu debito'', ''cbu d'' @ e_acento @ ''bito'', ''cbu del pagador'', ''cbu origen'', ''cuenta origen'']
      | CREDITO \<Rightarrow> [''cbu credito'', ''cbu cr'' @ e_acento @ ''dito'', ''cbu del beneficiario'', ''cbu destino'',
          ''cbu/cvu'', ''cbu cvu''])"

definition patron_14_22 :: patron where
  "patron_14_22 = entre 14 22 (Clase RegExp.digito)"

fun cbu_etiqueta :: "etiquetas \<Rightarrow> string list \<Rightarrow> string option" where
  "cbu_etiqueta m [] = None"
| "cbu_etiqueta m (k # ks) =
     (case etiqueta m (normalizeLabel k) of
        None \<Rightarrow> cbu_etiqueta m ks
      | Some v \<Rightarrow> (case buscar patron_14_22 v of None \<Rightarrow> cbu_etiqueta m ks | Some x \<Rightarrow> Some (recortar (fst x))))"

definition e_de :: "char \<Rightarrow> bool" where
  "e_de c \<longleftrightarrow> minuscula c = CHR ''e'' \<or> cod (minuscula c) = 233"

definition patron_cbu :: "tipo_cbu \<Rightarrow> patron" where
  "patron_cbu t =
     secuencia [lit_i ''CBU'', blancos_r,
       Grupo 1 (case t of
          DEBITO \<Rightarrow> alternativas [lit_i ''Origen'', secuencia [lit_i ''del'', blancos_r, lit_i ''Pagador''],
            secuencia [lit_i ''D'', Clase e_de, lit_i ''bito'']]
        | CREDITO \<Rightarrow> alternativas [lit_i ''Destino'', secuencia [lit_i ''del'', blancos_r, lit_i ''Beneficiario''],
            secuencia [lit_i ''Cr'', Clase e_de, lit_i ''dito'']]),
       cualquiera, Grupo 2 (veces 22 (Clase RegExp.digito))]"

definition extractCBU :: "string \<Rightarrow> tipo_cbu \<Rightarrow> etiquetas \<Rightarrow> string" where
  "extractCBU html t labelMap =
     (case cbu_etiqueta labelMap (keys_cbu t) of
        Some v \<Rightarrow> v
      | None \<Rightarrow> recortar (coalesce (captura 2 (patron_cbu t) html) []))"

definition keys_cuit :: "string list" where
  "keys_cuit = [''cuit'', ''cuit del pagador'', ''cuit pagador'', ''cuit/cuil'', ''cuit cuil'', ''cuit/cuil/cdi'',
     ''cuit cuil cdi'', ''cuit del destinatario'', ''cuit destinatario'', ''cuit del beneficiario'']"

definition once_digitos :: patron where
  "once_digitos = veces 11 (Clase RegExp.digito)"

fun cuit_etiqueta :: "etiquetas \<Rightarrow> string list \<Rightarrow> string option" where
  "cuit_etiqueta m [] = None"
| "cuit_etiqueta m (k # ks) =
     (case etiqueta m (normalizeLabel k) of
        None \<Rightarrow> cuit_etiqueta m ks
      | Some v \<Rightarrow>
          (case buscar once_digitos (quitar (\<lambda>c. c = CHR ''-'' \<or> blanco c) v) of
             None \<Rightarrow> cuit_etiqueta m ks
           | Some x \<Rightarrow> Some (fst x)))"

definition patron_cuit :: patron where
  "patron_cuit = secuencia [lit_i ''CUIT'', cualquiera,
     Grupo 1 (Sec (Clase RegExp.digito) (al_menos 9 (Clase (\<lambda>c. RegExp.digito c \<or> c = CHR ''-''))))]"

definition extractCUIT :: "string \<Rightarrow> etiquetas \<Rightarrow> string" where
  "extractCUIT html labelMap =
     (case cuit_etiqueta labelMap keys_cuit of
        Some v \<Rightarrow> v
      | None \<Rightarrow>
          (case captura 1 patron_cuit html of
             None \<Rightarrow> []
           | Some v \<Rightarrow> (case buscar once_digitos (quitar (\<lambda>c. c = CHR ''-'') v) of None \<Rightarrow> [] | Some x \<Rightarrow> fst x)))"

definition keys_nombre :: "tipo_movimiento \<Rightarrow> string list" where
  "keys_nombre t = (case t of
      INGRESO \<Rightarrow> [''nombre del pagador'', ''pagador'']
    | EGRESO \<Rightarrow> [''nombre del beneficiario'', ''beneficiario'', ''nombre del destinatario'', ''destinatario'',
        ''transferiste a''])"

text \<open>\<^verbatim>\<open>[A-Z\u00c1-\u00da0-9\.\-&\s]\<close> under the flag \<^verbatim>\<open>i\<close>.\<close>

definition de_nombre :: "char \<Rightarrow> bool" where
  "de_nombre c \<longleftrightarrow> alfanum_i c \<or> 193 \<le> cod (mayuscula_l1 c) \<and> cod (mayuscula_l1 c) \<le> 218 \<or>
     en ''.-&'' c \<or> blanco c"

definition patron_nombre :: "tipo_movimiento \<Rightarrow> patron" where
  "patron_nombre t = secuencia [lit_i (case t of INGRESO \<Rightarrow> ''Pagador'' | EGRESO \<Rightarrow> ''Beneficiario''), cualquiera,
     Grupo 1 (al_menos 3 (Clase de_nombre))]"

definition extractNombre :: "string \<Rightarrow> tipo_movimiento \<Rightarrow> etiquetas \<Rightarrow> string" where
  "extractNombre html t labelMap =
     (case primera_etiqueta labelMap (keys_nombre t) of
        Some v \<Rightarrow> recortar v
      | None \<Rightarrow> recortar (coalesce (captura 1 (patron_nombre t) html) []))"

definition tres_letras :: patron where
  "tres_letras = veces 3 (Clase letra_i)"

fun concepto_etiqueta :: "etiquetas \<Rightarrow> string list \<Rightarrow> string option" where
  "concepto_etiqueta m [] = None"
| "concepto_etiqueta m (k # ks) =
     (case etiqueta m (normalizeLabel k) of
        None \<Rightarrow> concepto_etiqueta m ks
      | Some v \<Rightarrow> (case buscar tres_letras v of None \<Rightarrow> concepto_etiqueta m ks | Some x \<Rightarrow> Some (map mayuscula_l1 (fst x))))"

definition patron_concepto :: patron where
  "patron_concepto = secuencia [lit_i ''Concepto'', cualquiera, Grupo 1 tres_letras]"

definition extractConcepto :: "string \<Rightarrow> etiquetas \<Rightarrow> string" where
  "extractConcepto html labelMap =
     (case concepto_etiqueta labelMap [''motivo'', ''concepto''] of
        Some v \<Rightarrow> v
      | None \<Rightarrow> recortar (map mayuscula_l1 (coalesce (captura 1 patron_concepto html) [])))"

section \<open>A mail\<close>

record email_imap =
  em_html :: "string option"
  em_text :: "string option"
  em_subject :: "string option"
  em_date :: "fecha option"
  em_messageId :: "string option"

text \<open>A mail read: the movement, and its date apart because it may be missing or invalid.\<close>

record datos_email =
  ed_movimiento :: mov_banco
  ed_fecha :: "fecha option"

definition tipo_de_email :: "string \<Rightarrow> string \<Rightarrow> tipo_movimiento option" where
  "tipo_de_email subject html =
     (if incluye ''debin'' (minusculas subject) \<or> incluye ''Debin recibido'' html then Some INGRESO
      else if incluye ''transferencia'' (minusculas subject) \<or> incluye ''Transferencia realizada'' html
      then Some EGRESO
      else None)"

definition parseEmail :: "(string \<Rightarrow> nodo list option) \<Rightarrow> string \<Rightarrow> email_imap \<Rightarrow> datos_email option" where
  "parseEmail cargar ref email =
     (let html = o_texto (em_html email) (o_texto (em_text email) []);
          subject = o_texto (em_subject email) [];
          labelMap = buildLabelMap cargar html
      in case tipo_de_email subject html of
           None \<Rightarrow> None
         | Some tipo \<Rightarrow>
             let ident = extractIdentificador html tipo labelMap; monto = extractMonto html labelMap
             in if ident = [] \<or> monto = 0 then None
                else Some
                  \<lparr>ed_movimiento =
                     \<lparr>mb_id = 0, identificador_unico = ident, tipo_operacion = tipo, mb_monto = monto,
                      fecha_operacion = 0,
                      cuenta_origen_cbu = (case tipo of INGRESO \<Rightarrow> None | EGRESO \<Rightarrow> Some (extractCBU html DEBITO labelMap)),
                      cuenta_destino_cbu = Some (extractCBU html CREDITO labelMap),
                      mb_identificador_fiscal = Some (extractCUIT html labelMap),
                      nombre_tercero = Some (extractNombre html tipo labelMap),
                      concepto_transaccion = Some (extractConcepto html labelMap),
                      email_id = o_texto (em_messageId email) ref,
                      conciliado_sistema = False, transaccion_id = None, mb_observaciones = None,
                      email_asunto = Some subject, email_fecha = em_date email\<rparr>,
                   ed_fecha = (case extractFecha html labelMap of Some f \<Rightarrow> f | None \<Rightarrow> em_date email)\<rparr>)"

section \<open>The scan\<close>

record bd_red = bd_banco +
  isScanning :: bool

text \<open>\<^verbatim>\<open>create\<close> with a date that is missing or invalid: the check of duplicates comes first, then the
  document fails its validation.\<close>

definition guardar_mov :: "datos_email \<Rightarrow> ('a bd_banco_scheme, mov_banco option) proc" where
  "guardar_mov d =
     (case ed_fecha d of
        Some f \<Rightarrow> bs_create ((ed_movimiento d)\<lparr>fecha_operacion := f\<rparr>)
      | None \<Rightarrow>
          ebind (gets movs_banco) (\<lambda>ms.
          if identificador_unico (ed_movimiento d) \<in> identificador_unico ` set ms then ret None
          else raise (BadRequestException
            ''Error al guardar movimiento bancario: BankMovement validation failed'' [])))"

definition procesar_email ::
  "(string \<Rightarrow> nodo list option) \<Rightarrow> (nat \<Rightarrow> string) \<Rightarrow> email_imap \<Rightarrow> conteo \<Rightarrow> ('a bd_banco_scheme, conteo) proc" where
  "procesar_email cargar ref = procesar_uno (\<lambda>n e. parseEmail cargar (ref n) e) guardar_mov"

definition poner_scan :: "bool \<Rightarrow> ('a bd_red_scheme, unit) proc" where
  "poner_scan b = modify (\<lambda>s. s\<lparr>isScanning := b\<rparr>)"

definition escanear ::
  "(string \<Rightarrow> string option) \<Rightarrow> (system_config \<Rightarrow> fecha \<Rightarrow> excepcion + email_imap list) \<Rightarrow>
   (string \<Rightarrow> nodo list option) \<Rightarrow> (nat \<Rightarrow> string) \<Rightarrow> int \<Rightarrow> ('a bd_red_scheme, conteo) proc" where
  "escanear des imap cargar ref tz =
     ebind (findOneDecrypted des) (\<lambda>config.
     ebind (gets ahora) (\<lambda>now.
     let fechaInicio = setDate tz now (getDate tz now - check_period_days config) in
     ebind (lift_result (imap config fechaInicio)) (\<lambda>emails.
     ebind (fold_each (procesar_email cargar ref) emails conteo_cero) (\<lambda>c.
     ebind updateLastCheckDate (\<lambda>_.
     ret c)))))"

definition rl_scanEmails ::
  "(string \<Rightarrow> string option) \<Rightarrow> (system_config \<Rightarrow> fecha \<Rightarrow> excepcion + email_imap list) \<Rightarrow>
   (string \<Rightarrow> nodo list option) \<Rightarrow> (nat \<Rightarrow> string) \<Rightarrow> int \<Rightarrow> ('a bd_red_scheme, conteo) proc" where
  "rl_scanEmails des imap cargar ref tz =
     ebind (gets isScanning) (\<lambda>b.
     if b then ret conteo_cero
     else ebind (poner_scan True) (\<lambda>_.
          finalmente (escanear des imap cargar ref tz) (poner_scan False)))"

definition rl_testConnection ::
  "(string \<Rightarrow> string option) \<Rightarrow> (system_config \<Rightarrow> excepcion + unit) \<Rightarrow> ('a bd_red_scheme, bool) proc" where
  "rl_testConnection des conectar =
     try_catch
       (ebind (findOneDecrypted des) (\<lambda>config. ebind (lift_result (conectar config)) (\<lambda>_. ret True)))
       (\<lambda>_. ret False)"

end
