(* ===== verification/Amounts.thy ===== *)
theory Amounts
  imports TextParsing
begin

text \<open>
  Amounts as the mails write them: digits, points for the thousands and a comma for the cents, and
  what \<^verbatim>\<open>parseFloat\<close> makes of them. Both mail readers are stated against this notation.
\<close>

definition cifra :: "nat \<Rightarrow> char" where
  "cifra n = char_of (48 + n)"

definition dos_cifras :: "nat \<Rightarrow> string" where
  "dos_cifras n = [cifra (n div 10), cifra (n mod 10)]"

definition tres_cifras :: "nat \<Rightarrow> string" where
  "tres_cifras n = [cifra (n div 100), cifra (n div 10 mod 10), cifra (n mod 10)]"

fun decimal :: "nat \<Rightarrow> string" where
  "decimal n = (if n < 10 then [cifra n] else decimal (n div 10) @ [cifra (n mod 10)])"

declare decimal.simps [simp del]

text \<open>The local way of writing an amount of cents: points every three digits and a comma.\<close>

fun con_puntos :: "nat \<Rightarrow> string" where
  "con_puntos n = (if n < 1000 then decimal n else con_puntos (n div 1000) @ ''.'' @ tres_cifras (n mod 1000))"

declare con_puntos.simps [simp del]

definition formato_es :: "nat \<Rightarrow> string" where
  "formato_es c = con_puntos (c div 100) @ '','' @ dos_cifras (c mod 100)"

lemma cod_cifra: "n < 10 \<Longrightarrow> cod (cifra n) = 48 + n"
  by (simp add: cod_def cifra_def)

lemma digito_cifra [simp]: "n < 10 \<Longrightarrow> RegExp.digito (cifra n)"
  by (simp add: RegExp.digito_def cod_cifra)

lemma valor_cifras_append:
  "valor_cifras (u @ v) = valor_cifras u * 10 ^ length v + valor_cifras v"
proof -
  have "foldl (\<lambda>n c. 10 * n + (cod c - 48)) a v = a * 10 ^ length v + foldl (\<lambda>n c. 10 * n + (cod c - 48)) 0 v" for a
  proof (induction v arbitrary: a rule: rev_induct)
    case (snoc c v)
    show ?case using snoc [of a] by (simp add: algebra_simps)
  qed simp
  from this [of "valor_cifras u"] show ?thesis by (simp add: valor_cifras_def)
qed

lemma valor_cifra [simp]: "n < 10 \<Longrightarrow> valor_cifras [cifra n] = n"
  by (simp add: valor_cifras_def cod_cifra)

lemma valor_dos: "n < 100 \<Longrightarrow> valor_cifras (dos_cifras n) = n"
  using valor_cifras_append [of "[cifra (n div 10)]" "[cifra (n mod 10)]"]
  by (simp add: dos_cifras_def)

lemma valor_tres:
  assumes "n < 1000"
  shows "valor_cifras (tres_cifras n) = n"
proof -
  have h: "n div 100 < 10" using assms by simp
  have "n div 10 div 10 = n div 100" by (simp add: div_mult2_eq [symmetric])
  then have "n div 100 * 100 + (n div 10 mod 10 * 10 + n mod 10) = n"
    using div_mult_mod_eq [of n 10] div_mult_mod_eq [of "n div 10" 10] by linarith
  moreover have "valor_cifras (tres_cifras n) = n div 100 * 100 + (n div 10 mod 10 * 10 + n mod 10)"
    using valor_cifras_append [of "[cifra (n div 100)]" "[cifra (n div 10 mod 10), cifra (n mod 10)]"]
      valor_cifras_append [of "[cifra (n div 10 mod 10)]" "[cifra (n mod 10)]"] valor_cifra [OF h]
      valor_cifra [of "n div 10 mod 10"] valor_cifra [of "n mod 10"]
    unfolding tres_cifras_def by simp
  ultimately show ?thesis by (rule trans [rotated])
qed

lemma decimal_ok: "list_all RegExp.digito (decimal n) \<and> decimal n \<noteq> [] \<and> valor_cifras (decimal n) = n"
proof (induction n rule: decimal.induct)
  case (1 n)
  show ?case
  proof (cases "n < 10")
    case True
    then show ?thesis by (simp add: decimal.simps [of n])
  next
    case False
    have "n div 10 * 10 + n mod 10 = n" by presburger
    then show ?thesis using 1 False
      by (simp add: decimal.simps [of n] valor_cifras_append)
  qed
qed

lemma punto_no_digito [simp]: "\<not> RegExp.digito CHR ''.''" "\<not> RegExp.digito CHR '',''"
  by (simp_all add: RegExp.digito_def cod_def)

lemma quitar_digitos: "list_all RegExp.digito ds \<Longrightarrow> quitar (\<lambda>c. c = CHR ''.'') ds = ds"
  unfolding quitar_def using punto_no_digito by (auto simp: list_all_iff intro!: filter_True)

lemma tres_digitos: "n < 1000 \<Longrightarrow> list_all RegExp.digito (tres_cifras n)"
  by (simp add: tres_cifras_def less_mult_imp_div_less)

lemma con_puntos_ok:
  "list_all RegExp.digito (quitar (\<lambda>c. c = CHR ''.'') (con_puntos n)) \<and>
   quitar (\<lambda>c. c = CHR ''.'') (con_puntos n) \<noteq> [] \<and>
   valor_cifras (quitar (\<lambda>c. c = CHR ''.'') (con_puntos n)) = n"
proof (induction n rule: con_puntos.induct)
  case (1 n)
  show ?case
  proof (cases "n < 1000")
    case True
    then show ?thesis using decimal_ok [of n] by (simp add: con_puntos.simps [of n] quitar_digitos)
  next
    case False
    have q: "quitar (\<lambda>c. c = CHR ''.'') (con_puntos n) =
        quitar (\<lambda>c. c = CHR ''.'') (con_puntos (n div 1000)) @ tres_cifras (n mod 1000)"
      using False quitar_digitos [OF tres_digitos, of "n mod 1000"]
      by (simp add: con_puntos.simps [of n] quitar_def)
    have "length (tres_cifras (n mod 1000)) = 3" by (simp add: tres_cifras_def)
    moreover have "n div 1000 * 1000 + n mod 1000 = n" by presburger
    ultimately show ?thesis
      using 1 False tres_digitos [of "n mod 1000"] valor_tres [of "n mod 1000"]
      by (simp add: q valor_cifras_append)
  qed
qed

lemma takeWhile_digitos:
  "list_all P ds \<Longrightarrow> \<not> P c \<Longrightarrow> takeWhile P (ds @ c # r) = ds \<and> dropWhile P (ds @ c # r) = c # r"
  by (induction ds) auto

lemma parseFloat_decimal:
  assumes "list_all RegExp.digito ds" and "ds \<noteq> []" and "list_all RegExp.digito fs"
  shows "parseFloat (ds @ ''.'' @ fs) =
     Some (of_nat (valor_cifras ds) + of_nat (valor_cifras fs) / of_nat (10 ^ length fs))"
proof -
  obtain d r where ds: "ds = d # r" using assms(2) by (cases ds) auto
  then have "RegExp.digito d" using assms(1) by simp
  then have d: "\<not> blanco d" "d \<noteq> CHR ''-''" by (auto simp: blanco_def RegExp.digito_def cod_def)
  have fs: "takeWhile RegExp.digito fs = fs" using assms(3) by (simp add: list_all_iff takeWhile_eq_all_conv)
  have w: "takeWhile RegExp.digito (ds @ ''.'' @ fs) = ds" "dropWhile RegExp.digito (ds @ ''.'' @ fs) = CHR ''.'' # fs"
    using takeWhile_digitos [OF assms(1), of "CHR ''.''" fs] by simp_all
  have "parseFloat (ds @ ''.'' @ fs) = parseFloat_sin_signo (ds @ ''.'' @ fs)"
    using d by (simp add: parseFloat_def ds)
  then show ?thesis unfolding parseFloat_sin_signo_def w using assms(2) fs by simp
qed

lemma parseFloat_entero:
  assumes "list_all RegExp.digito ds" and "ds \<noteq> []"
  shows "parseFloat ds = Some (of_nat (valor_cifras ds))"
proof -
  obtain d r where ds: "ds = d # r" using assms(2) by (cases ds) auto
  then have "RegExp.digito d" using assms(1) by simp
  then have d: "\<not> blanco d" "d \<noteq> CHR ''-''" by (auto simp: blanco_def RegExp.digito_def cod_def)
  have w: "takeWhile RegExp.digito ds = ds" "dropWhile RegExp.digito ds = []"
    using assms(1) by (simp_all add: list_all_iff takeWhile_eq_all_conv)
  have "parseFloat ds = parseFloat_sin_signo ds" using d by (simp add: parseFloat_def ds)
  then show ?thesis unfolding parseFloat_sin_signo_def w using assms(2) by (simp add: valor_cifras_def)
qed

lemma cambiar_en: "a \<notin> set u \<Longrightarrow> cambiar_primero a b (u @ a # v) = u @ b # v"
  by (induction u) auto

lemma coma_ausente: "CHR '','' \<notin> set (con_puntos n)"
proof (induction n rule: con_puntos.induct)
  case (1 n)
  have "CHR '','' \<notin> set (decimal n)" using decimal_ok [of n] punto_no_digito by (auto simp: list_all_iff)
  moreover have "CHR '','' \<notin> set (tres_cifras (n mod 1000))"
    using tres_digitos [of "n mod 1000"] punto_no_digito by (auto simp: list_all_iff)
  ultimately show ?case using 1 by (simp add: con_puntos.simps [of n])
qed

text \<open>The points go and the comma becomes the point of \<^verbatim>\<open>parseFloat\<close>.\<close>

lemma coma_a_punto:
  assumes "CHR '','' \<notin> set u" and "list_all RegExp.digito fs"
  shows "cambiar_primero CHR '','' CHR ''.'' (quitar (\<lambda>c. c = CHR ''.'') (u @ '','' @ fs)) =
       quitar (\<lambda>c. c = CHR ''.'') u @ ''.'' @ fs"
    and "(if CHR ''.'' \<in> set (u @ '','' @ fs) \<and> CHR '','' \<in> set (u @ '','' @ fs)
        then cambiar_primero CHR '','' CHR ''.'' (quitar (\<lambda>c. c = CHR ''.'') (u @ '','' @ fs))
        else if CHR '','' \<in> set (u @ '','' @ fs) then cambiar_primero CHR '','' CHR ''.'' (u @ '','' @ fs)
        else u @ '','' @ fs) = quitar (\<lambda>c. c = CHR ''.'') u @ ''.'' @ fs"
proof -
  let ?q = "quitar (\<lambda>c. c = CHR ''.'')"
  have f: "?q fs = fs" and nf: "CHR ''.'' \<notin> set fs"
    using quitar_digitos [OF assms(2)] assms(2) punto_no_digito by (auto simp: list_all_iff)
  have q: "?q (u @ '','' @ fs) = ?q u @ CHR '','' # fs" using f by (simp add: quitar_def)
  have nc: "CHR '','' \<notin> set (?q u)" using assms(1) by (auto simp: quitar_def)
  show one: "cambiar_primero CHR '','' CHR ''.'' (?q (u @ '','' @ fs)) = ?q u @ ''.'' @ fs"
    using cambiar_en [OF nc] unfolding q by simp
  show "(if CHR ''.'' \<in> set (u @ '','' @ fs) \<and> CHR '','' \<in> set (u @ '','' @ fs)
        then cambiar_primero CHR '','' CHR ''.'' (?q (u @ '','' @ fs))
        else if CHR '','' \<in> set (u @ '','' @ fs) then cambiar_primero CHR '','' CHR ''.'' (u @ '','' @ fs)
        else u @ '','' @ fs) = ?q u @ ''.'' @ fs"
  proof (cases "CHR ''.'' \<in> set u")
    case True
    then show ?thesis using one by simp
  next
    case False
    then have "?q u = u" unfolding quitar_def by (intro filter_True) auto
    then show ?thesis using False nf cambiar_en [OF assms(1)] by simp
  qed
qed

lemma dos_cifras_digitos: "n < 100 \<Longrightarrow> list_all RegExp.digito (dos_cifras n)"
  by (simp add: dos_cifras_def less_mult_imp_div_less)

text \<open>An amount of cents, once its points are gone and its comma is a point, is read exactly.\<close>

definition formato_limpio :: "nat \<Rightarrow> string" where
  "formato_limpio c = quitar (\<lambda>x. x = CHR ''.'') (con_puntos (c div 100)) @ ''.'' @ dos_cifras (c mod 100)"

lemma formato_normal:
  "cambiar_primero CHR '','' CHR ''.'' (quitar (\<lambda>x. x = CHR ''.'') (formato_es c)) = formato_limpio c"
  "(if CHR ''.'' \<in> set (formato_es c) \<and> CHR '','' \<in> set (formato_es c)
    then cambiar_primero CHR '','' CHR ''.'' (quitar (\<lambda>x. x = CHR ''.'') (formato_es c))
    else if CHR '','' \<in> set (formato_es c) then cambiar_primero CHR '','' CHR ''.'' (formato_es c)
    else formato_es c) = formato_limpio c"
  unfolding formato_es_def formato_limpio_def
  by (rule coma_a_punto [OF coma_ausente dos_cifras_digitos], simp)+

lemma parse_formato: "parseFloat (formato_limpio c) = Some (of_nat c / 100)"
proof -
  have "(of_nat (c div 100) :: rat) * 100 + of_nat (c mod 100) = of_nat (c div 100 * 100 + c mod 100)"
    by (simp only: of_nat_add of_nat_mult of_nat_numeral)
  also have "\<dots> = of_nat c" by simp
  finally have e: "(of_nat (c div 100) :: rat) * 100 + of_nat (c mod 100) = of_nat c" .
  have l: "length (dos_cifras (c mod 100)) = 2" by (simp add: dos_cifras_def)
  show ?thesis
    unfolding formato_limpio_def
    using parseFloat_decimal [of "quitar (\<lambda>x. x = CHR ''.'') (con_puntos (c div 100))" "dos_cifras (c mod 100)"]
      con_puntos_ok [of "c div 100"] dos_cifras_digitos [of "c mod 100"] e
    by (simp add: valor_dos l field_simps)
qed

end
