(* ===== verification/RedlinkProperties.thy ===== *)
theory RedlinkProperties
  imports RedlinkScan Amounts
begin

text \<open>
  The amounts and labels read from a mail of the bank, and what a scan does: its counts, its flag,
  and that a second scan of the same mails adds nothing.
\<close>

section \<open>Amounts\<close>

text \<open>an amount written with points for the thousands and a comma for the cents is read exactly;
  the same number without the comma is not: its points are taken for a decimal mark, and a thousand
  is read as one.\<close>

theorem leer_monto_roundtrip:
  shows "leer_monto (formato_es c) = of_nat c / 100 \<and>
    (a < 1000 \<and> b < 1000 \<and> 0 < a \<longrightarrow>
      leer_monto (con_puntos (1000 * a + b)) = (of_nat a * 1000 + of_nat b) / 1000)"
proof (intro conjI impI)
  show "leer_monto (formato_es c) = of_nat c / 100"
    unfolding leer_monto_def formato_normal(2) parse_formato by simp
next
  assume h: "a < 1000 \<and> b < 1000 \<and> 0 < a"
  then have "\<not> 1000 * a + b < 1000" "(1000 * a + b) div 1000 = a" "(1000 * a + b) mod 1000 = b" by simp_all
  then have p: "con_puntos (1000 * a + b) = decimal a @ ''.'' @ tres_cifras b"
    using h by (subst con_puntos.simps) (simp add: con_puntos.simps [of a])
  have t: "list_all RegExp.digito (tres_cifras b)" "length (tres_cifras b) = 3" "valor_cifras (tres_cifras b) = b"
    using h by (simp_all add: tres_digitos valor_tres) (simp add: tres_cifras_def)
  have n: "CHR '','' \<notin> set (con_puntos (1000 * a + b))" by (rule coma_ausente)
  have "leer_monto (con_puntos (1000 * a + b)) = coalesce (parseFloat (con_puntos (1000 * a + b))) 0"
    using n by (simp add: leer_monto_def)
  then show "leer_monto (con_puntos (1000 * a + b)) = (of_nat a * 1000 + of_nat b) / 1000"
    unfolding p using decimal_ok [of a] parseFloat_decimal [OF _ _ t(1), of "decimal a"] t
    by (simp add: field_simps)
qed

lemma leer_monto_roundtrip_witness:
  "leer_monto ''1.234,56'' = 123456 / 100 \<and> leer_monto ''1.234'' = 1234 / 1000"
proof -
  have "con_puntos 1234 = ''1.234''"
    by (simp add: con_puntos.simps [of 1234] con_puntos.simps [of "Suc 0"] decimal.simps [of "Suc 0"] tres_cifras_def
      cifra_def char_of_def bit_0)
  moreover from this have "formato_es 123456 = ''1.234,56''"
    by (simp add: formato_es_def dos_cifras_def cifra_def char_of_def bit_0)
  ultimately show ?thesis
    using leer_monto_roundtrip [of 123456 1 234] by simp
qed

section \<open>The scan\<close>

definition claves_banco :: "'a bd_banco_scheme \<Rightarrow> string set" where
  "claves_banco s = identificador_unico ` set (movs_banco s)"

definition clave_email :: "datos_email \<Rightarrow> string" where
  "clave_email d = identificador_unico (ed_movimiento d)"

definition email_valido :: "datos_email \<Rightarrow> bool" where
  "email_valido d \<longleftrightarrow> ed_fecha d \<noteq> None \<and> mov_valido (ed_movimiento d)"

definition sin_repetidos :: "'a bd_banco_scheme \<Rightarrow> bool" where
  "sin_repetidos s \<longleftrightarrow> distinct (map identificador_unico (movs_banco s))"

lemma card_claves_banco: "sin_repetidos s \<Longrightarrow> card (claves_banco s) = length (movs_banco s)"
  unfolding sin_repetidos_def claves_banco_def by (metis distinct_card length_map set_map)

lemma guardar_mov_dup:
  "clave_email d \<in> claves_banco s \<Longrightarrow> guardar_mov d s = (Inr None, s)"
  by (auto simp: guardar_mov_def bs_create_def clave_email_def claves_banco_def gets_def ebind_def ret_def
      split: option.splits)

lemma guardar_mov_nuevo:
  assumes "sin_repetidos s" and "email_valido d" and "clave_email d \<notin> claves_banco s"
  shows "\<exists>r s'. guardar_mov d s = (Inr (Some r), s') \<and>
     claves_banco s' = insert (clave_email d) (claves_banco s) \<and> sin_repetidos s'"
  using assms
  by (auto simp: guardar_mov_def bs_create_def clave_email_def claves_banco_def gets_def ebind_def ret_def
      email_valido_def mov_valido_def sin_repetidos_def Let_def modify_def nuevo_id_def con_movs_def)

lemma guardar_mov_invalido:
  assumes "sin_repetidos s" and "\<not> email_valido d"
  shows "\<exists>r s'. guardar_mov d s = (r, s') \<and> (r = Inr None \<or> (\<exists>e. r = Inl e)) \<and>
     claves_banco s' = claves_banco s \<and> sin_repetidos s'"
  using assms
  by (auto simp: guardar_mov_def bs_create_def claves_banco_def gets_def ebind_def ret_def raise_def
      email_valido_def mov_valido_def sin_repetidos_def Let_def nuevo_id_def split: option.splits)

interpretation correo: almacen_correo claves_banco clave_email email_valido guardar_mov sin_repetidos
proof unfold_locales
  show "sin_repetidos s \<Longrightarrow> email_valido d \<Longrightarrow> clave_email d \<in> claves_banco s \<Longrightarrow>
      guardar_mov d s = (Inr None, s)" for s :: "'a bd_banco_scheme" and d
    by (rule guardar_mov_dup)
qed (use guardar_mov_nuevo guardar_mov_invalido in \<open>auto simp: claves_banco_def\<close>)

text \<open>What the loop leaves as it is.\<close>

definition marco_scan :: "system_config list \<Rightarrow> bool \<Rightarrow> fecha \<Rightarrow> 'a bd_red_scheme \<Rightarrow> bool" where
  "marco_scan cfg b t s \<longleftrightarrow> sistema s = cfg \<and> isScanning s = b \<and> ahora s = t"

lemma marco_guardar_mov: "preserves (marco_scan cfg b t) (guardar_mov d)"
  by (auto simp: preserves_def marco_scan_def guardar_mov_def bs_create_def gets_def ebind_def ret_def raise_def
      Let_def modify_def nuevo_id_def con_movs_def split: option.splits)

lemma marco_procesar: "preserves (marco_scan cfg b t) (procesar_email cargar ref e c)"
  unfolding procesar_email_def procesar_uno_def
  by (intro preserves_try) (auto intro!: marco_guardar_mov split: option.split)

lemma marco_bucle: "preserves (marco_scan cfg b t) (fold_each (procesar_email cargar ref) es c)"
  by (rule preserves_fold_each) (rule marco_procesar)

lemma crece_bucle:
  "preserves (\<lambda>s. prefix ms (movs_banco s)) (fold_each (procesar_email cargar ref) es c)"
proof -
  have "preserves (\<lambda>s. prefix ms (movs_banco s)) (guardar_mov d)" for d :: datos_email
    by (auto simp: preserves_def guardar_mov_def bs_create_def gets_def ebind_def ret_def raise_def
        Let_def modify_def nuevo_id_def con_movs_def split: option.splits)
  then have "preserves (\<lambda>s. prefix ms (movs_banco s)) (procesar_email cargar ref e c)" for e c
    unfolding procesar_email_def procesar_uno_def
    by (intro preserves_try) (auto split: option.split)
  then show ?thesis by (rule preserves_fold_each)
qed

text \<open>The reading of a mail with a message id does not depend on the clock.\<close>

lemma parseEmail_ref: "o_texto (em_messageId e) [] \<noteq> [] \<Longrightarrow> parseEmail cargar r e = parseEmail cargar r' e"
  by (simp add: parseEmail_def o_texto_def Let_def split: option.splits)

definition con_message_id :: "email_imap list \<Rightarrow> bool" where
  "con_message_id es \<longleftrightarrow> list_all (\<lambda>e. o_texto (em_messageId e) [] \<noteq> []) es"

lemma uniforme_emails: "con_message_id es \<Longrightarrow> uniforme (\<lambda>n e. parseEmail cargar (ref n) e) es"
  unfolding uniforme_def con_message_id_def list_all_iff by (metis parseEmail_ref)

lemma updateLastCheckDate_run:
  assumes "sistema s = [cfg]" and "config_valida cfg"
  shows "updateLastCheckDate s = (Inr (), con_sistema (save_doc sy_id (cfg\<lparr>fecha_ultima_consulta := Some (ahora s)\<rparr>)) s)"
  using assms by (simp add: updateLastCheckDate_def guardar_config_def config_valida_def proc_simps)

definition tras_scan :: "'a bd_red_scheme \<Rightarrow> 'a bd_red_scheme" where
  "tras_scan s = (con_sistema (map (\<lambda>c. c\<lparr>fecha_ultima_consulta := Some (ahora s)\<rparr>)) s)\<lparr>isScanning := False\<rparr>"

lemma tras_scan_simps [simp]:
  "movs_banco (tras_scan s) = movs_banco s" "isScanning (tras_scan s) = False"
  "sistema (tras_scan s) = map (\<lambda>c. c\<lparr>fecha_ultima_consulta := Some (ahora s)\<rparr>) (sistema s)"
  by (simp_all add: tras_scan_def con_sistema_def)

text \<open>The whole scan around its loop.\<close>

lemma scanEmails_run:
  assumes libre: "\<not> isScanning s" and cfg: "sistema s = [cfg]" "des (password_consulta cfg) = Some pw"
    "config_valida cfg"
    and loop: "fold_each (procesar_email cargar ref) es conteo_cero (s\<lparr>isScanning := True\<rparr>) = (Inr c, s1)"
  shows "rl_scanEmails des (\<lambda>_ _. Inr es) cargar ref tz s = (Inr c, tras_scan s1)"
proof -
  let ?s = "s\<lparr>isScanning := True\<rparr>"
  have "marco_scan [cfg] True (ahora s) ?s" using cfg by (simp add: marco_scan_def)
  from preservesD [OF marco_bucle this loop] have m: "sistema s1 = [cfg]" "ahora s1 = ahora s"
    by (simp_all add: marco_scan_def)
  have d: "findOneDecrypted des ?s = (Inr (cfg\<lparr>password_consulta := pw\<rparr>), ?s)"
    using cfg by (simp add: findOneDecrypted_def primera_config_def decrypt_def ebind_def gets_def ret_def)
  have "escanear des (\<lambda>_ _. Inr es) cargar ref tz ?s =
      (Inr c, con_sistema (save_doc sy_id (cfg\<lparr>fecha_ultima_consulta := Some (ahora s1)\<rparr>)) s1)"
    using d loop updateLastCheckDate_run [OF m(1) cfg(3)]
    by (simp add: escanear_def ebind_def gets_def lift_result_def ret_def Let_def)
  moreover have "con_sistema (save_doc sy_id (cfg\<lparr>fecha_ultima_consulta := Some (ahora s1)\<rparr>)) s1 =
      con_sistema (map (\<lambda>c. c\<lparr>fecha_ultima_consulta := Some (ahora s1)\<rparr>)) s1"
    using m by (simp add: con_sistema_def save_doc_def)
  ultimately show ?thesis
    using libre finalmente_run [where m = "escanear des (\<lambda>_ _. Inr es) cargar ref tz" and f = "poner_scan False" and g = "\<lambda>t. t\<lparr>isScanning := False\<rparr>" and s = ?s]
    by (simp add: rl_scanEmails_def ebind_def gets_def poner_scan_def modify_def tras_scan_def)
qed

text \<open>Every mail that reads as a valid movement has its movement.\<close>

definition guardados :: "(string \<Rightarrow> nodo list option) \<Rightarrow> email_imap list \<Rightarrow> 'a bd_banco_scheme \<Rightarrow> bool" where
  "guardados cargar es s \<longleftrightarrow>
     (\<forall>e \<in> set es. \<forall>d r. parseEmail cargar r e = Some d \<and> email_valido d \<longrightarrow> clave_email d \<in> claves_banco s)"

lemma guardados_iff:
  fixes ref :: "nat \<Rightarrow> string"
  assumes "con_message_id es"
  shows "guardados cargar es s \<longleftrightarrow>
     (\<forall>e \<in> set es. \<forall>d n. parseEmail cargar (ref n) e = Some d \<and> email_valido d \<longrightarrow> clave_email d \<in> claves_banco s)"
proof -
  have "parseEmail cargar r e = parseEmail cargar (ref 0) e" if "e \<in> set es" for e r
    using assms that parseEmail_ref by (auto simp: con_message_id_def list_all_iff)
  then show ?thesis unfolding guardados_def by (metis (no_types))
qed

lemma scan_mails:
  assumes libre: "\<not> isScanning s" and cfg: "sistema s = [cfg]" "des (password_consulta cfg) = Some pw"
    "config_valida cfg" and inv: "sin_repetidos s" and ids: "con_message_id es"
  shows "\<exists>c s'. rl_scanEmails des (\<lambda>_ _. Inr es) cargar ref tz s = (Inr c, s') \<and>
     \<not> isScanning s' \<and> (\<exists>cfg'. sistema s' = [cfg'] \<and> des (password_consulta cfg') = Some pw \<and> config_valida cfg') \<and>
     sin_repetidos s' \<and> avanza (length es) conteo_cero c \<and> prefix (movs_banco s) (movs_banco s') \<and>
     length (movs_banco s') = length (movs_banco s) + nuevos c \<and>
     guardados cargar es s' \<and>
     (guardados cargar es s \<longrightarrow>
        nuevos c = 0 \<and> movs_banco s' = movs_banco s)"
proof -
  let ?s = "s\<lparr>isScanning := True\<rparr>"
  have b: "sin_repetidos ?s" "claves_banco ?s = claves_banco s"
    using inv by (simp_all add: sin_repetidos_def claves_banco_def)
  from correo.procesar_todos [OF b(1) uniforme_emails [OF ids, where cargar = cargar and ref = ref], where c = conteo_cero]
  obtain c s1 where run: "fold_each (procesar_email cargar ref) es conteo_cero ?s = (Inr c, s1)"
    and i1: "sin_repetidos s1" and av: "avanza (length es) conteo_cero c"
    and n: "card (claves_banco s1) + nuevos conteo_cero = card (claves_banco s) + nuevos c"
    and k: "guardados cargar es s1"
    and q: "guardados cargar es s \<longrightarrow> claves_banco s1 = claves_banco s"
    unfolding procesar_email_def b(2) guardados_iff [OF ids, of cargar _ ref] by (elim exE conjE) blast
  have len: "length (movs_banco s1) = length (movs_banco s) + nuevos c"
    using n card_claves_banco [OF i1] card_claves_banco [OF inv] by (simp add: conteo_cero_def)
  have pre: "prefix (movs_banco s) (movs_banco s1)"
    using preservesD [OF crece_bucle, of "movs_banco s" ?s] run by simp
  have "marco_scan [cfg] True (ahora s) ?s" using cfg by (simp add: marco_scan_def)
  from preservesD [OF marco_bucle this run] have m: "sistema s1 = [cfg]" by (simp add: marco_scan_def)
  have cl: "claves_banco (tras_scan s1) = claves_banco s1" "sin_repetidos (tras_scan s1)"
    using i1 by (simp_all add: claves_banco_def sin_repetidos_def)
  have q': "nuevos c = 0 \<and> movs_banco s1 = movs_banco s"
    if "guardados cargar es s"
  proof -
    have "claves_banco s1 = claves_banco s" using q that by blast
    then have "nuevos c = 0" using n by (simp add: conteo_cero_def)
    then show ?thesis using len pre by (auto simp: prefix_def)
  qed
  have k': "guardados cargar es (tras_scan s1)" using k cl by (simp add: guardados_def)
  show ?thesis
    using scanEmails_run [where es = es and des = des and cfg = cfg, OF libre cfg run] cl av len pre q' k' m cfg
    by (intro exI [of _ c] exI [of _ "tras_scan s1"]) (auto simp: config_valida_def)
qed

text \<open>with a configuration and a server that answers, a scan of the bank's mails ends with its
  flag down; every mail is counted, at most once as new, repeated or failed; the movements stored
  before stay, the new ones are as many as counted and all identifiers stay different; every mail that
  reads as a valid movement has its movement; and a second scan of the same mails stores nothing.\<close>

theorem scanEmails_stores_each_once:
  assumes "\<not> isScanning s" and "sistema s = [cfg]" and "des (password_consulta cfg) = Some pw"
    and "config_valida cfg" and "sin_repetidos s" and "con_message_id es"
  shows "\<exists>c s' c2 s2. rl_scanEmails des (\<lambda>_ _. Inr es) cargar ref tz s = (Inr c, s') \<and>
     \<not> isScanning s' \<and> sin_repetidos s' \<and> avanza (length es) conteo_cero c \<and>
     prefix (movs_banco s) (movs_banco s') \<and> length (movs_banco s') = length (movs_banco s) + nuevos c \<and>
     guardados cargar es s' \<and>
     rl_scanEmails des (\<lambda>_ _. Inr es) cargar ref' tz s' = (Inr c2, s2) \<and> nuevos c2 = 0 \<and>
     movs_banco s2 = movs_banco s'"
proof -
  from scan_mails [where des = des and cfg = cfg and cargar = cargar and ref = ref and tz = tz, OF assms] obtain c s' cfg' where
    one: "rl_scanEmails des (\<lambda>_ _. Inr es) cargar ref tz s = (Inr c, s')" "\<not> isScanning s'"
      "sin_repetidos s'" "avanza (length es) conteo_cero c" "prefix (movs_banco s) (movs_banco s')"
      "length (movs_banco s') = length (movs_banco s) + nuevos c"
    and cfg': "sistema s' = [cfg']" "des (password_consulta cfg') = Some pw" "config_valida cfg'"
    and k: "guardados cargar es s'"
    by (elim exE conjE)
  from scan_mails [where des = des and cfg = cfg' and cargar = cargar and ref = ref' and tz = tz, OF one(2) cfg' one(3) assms(6)] k obtain c2 s2 where
    "rl_scanEmails des (\<lambda>_ _. Inr es) cargar ref' tz s' = (Inr c2, s2)" "nuevos c2 = 0"
    "movs_banco s2 = movs_banco s'" by (elim exE conjE) blast
  then show ?thesis using one k
    by (intro exI [of _ c] exI [of _ s'] exI [of _ c2] exI [of _ s2]) blast
qed

text \<open>A mail of the bank with three labels, and the state of a system with a configuration.\<close>

definition pagina0 :: "nodo list" where
  "pagina0 = [Elem 0 ''table''
     [Elem 1 ''tr'' [Elem 2 ''td'' [Txt ''Identificador del Debin''], Elem 3 ''td'' [Txt ''AB1234'']],
      Elem 4 ''tr'' [Elem 5 ''td'' [Txt ''Importe''], Elem 6 ''td'' [Txt ''1.234,50'']],
      Elem 7 ''tr'' [Elem 8 ''td'' [Txt ''Fecha''], Elem 9 ''td'' [Txt ''05/03/2025'']]]]"

definition email0 :: email_imap where
  "email0 = \<lparr>em_html = Some ''x'', em_text = None, em_subject = Some ''Debin'', em_date = None, em_messageId = Some ''m1''\<rparr>"

definition etiquetas0 :: etiquetas where
  "etiquetas0 = buildLabelMap (\<lambda>_. Some pagina0) ''x''"

lemma lectura0_id: "extractIdentificador ''x'' INGRESO etiquetas0 = ''AB1234''" by code_simp

lemma lectura0_monto: "extractMonto ''x'' etiquetas0 = 2469 / 2" by code_simp

lemma lectura0_fecha: "extractFecha ''x'' etiquetas0 = Some (Some 1741132800000)" by code_simp

lemma lectura0_tipo: "tipo_de_email ''Debin'' ''x'' = Some INGRESO" by code_simp

lemma email0_leido:
  "\<exists>d. parseEmail (\<lambda>_. Some pagina0) r email0 = Some d \<and> clave_email d = ''AB1234'' \<and> email_valido d"
  using lectura0_id lectura0_monto lectura0_fecha lectura0_tipo
  by (simp add: parseEmail_def email0_def o_texto_def Let_def etiquetas0_def [symmetric] clave_email_def
      email_valido_def mov_valido_def)

definition config0 :: system_config where
  "config0 = \<lparr>sy_id = 1, email_consulta = ''a'', password_consulta = ''pw'', host_imap = ''h'', port_imap = 993,
     secure = True, check_period_days = 15, fecha_ultima_consulta = None, sy_activo = True\<rparr>"

definition red0 :: "bd_red" where
  "red0 = \<lparr>ahora = 1741219200000, prox_id = 2, sistema = [config0], secuencias = [], plan_cuentas = [], transacciones = [],
     movs_banco = [], candidatos = [], isScanning = False\<rparr>"

lemma scanEmails_stores_each_once_witness:
  "\<exists>c s'. rl_scanEmails Some (\<lambda>_ _. Inr [email0]) (\<lambda>_. Some pagina0) (\<lambda>_. []) (-180) red0 = (Inr c, s') \<and>
     procesados c = 1 \<and> nuevos c = 1 \<and> claves_banco s' = {''AB1234''} \<and>
     (\<exists>c2 s2. rl_scanEmails Some (\<lambda>_ _. Inr [email0]) (\<lambda>_. Some pagina0) (\<lambda>_. []) (-180) s' = (Inr c2, s2) \<and>
        nuevos c2 = 0)"
proof -
  let ?scan = "rl_scanEmails Some (\<lambda>_ _. Inr [email0]) (\<lambda>_. Some pagina0) (\<lambda>_. []) (-180)"
  have "\<not> isScanning red0" "sistema red0 = [config0]" "Some (password_consulta config0) = Some ''pw''"
    "config_valida config0" "sin_repetidos red0" "con_message_id [email0]"
    by (simp_all add: red0_def config0_def config_valida_def sin_repetidos_def con_message_id_def email0_def o_texto_def)
  from scanEmails_stores_each_once [where des = Some and cfg = config0 and pw = "''pw''" and tz = "-180"
      and cargar = "\<lambda>_. Some pagina0" and ref = "\<lambda>_. []" and ref' = "\<lambda>_. []", OF this]
  obtain c s' c2 s2 where run: "?scan red0 = (Inr c, s')" and inv: "sin_repetidos s'"
    and av: "avanza (length [email0]) conteo_cero c"
    and len: "length (movs_banco s') = length (movs_banco red0) + nuevos c"
    and k: "guardados (\<lambda>_. Some pagina0) [email0] s'"
    and two: "?scan s' = (Inr c2, s2)" "nuevos c2 = 0" by (elim exE conjE)
  have in_s': "''AB1234'' \<in> claves_banco s'" using k email0_leido [of "[]"] by (auto simp: guardados_def)
  then have "card (claves_banco s') \<noteq> 0" by (auto simp: claves_banco_def)
  moreover have pr: "card (claves_banco s') \<le> 1" "procesados c = 1" "nuevos c \<le> 1"
    using card_claves_banco [OF inv] len av by (simp_all add: red0_def avanza_def conteo_cero_def)
  ultimately have "card (claves_banco s') = 1" by simp
  then obtain x where "claves_banco s' = {x}" by (rule card_1_singletonE)
  with in_s' have cl: "claves_banco s' = {''AB1234''}" by simp
  then have "length (movs_banco s') = 1" using card_claves_banco [OF inv] by simp
  then have "nuevos c = 1" using len by (simp add: red0_def)
  then show ?thesis using run two cl pr by (intro exI [of _ c] exI [of _ s']) blast
qed

lemma preserves_snd: "preserves P m \<Longrightarrow> P s \<Longrightarrow> P (snd (m s))"
  by (simp add: preserves_def)

text \<open>a scan leaves its flag as it found it, whatever fails inside it; one asked for while another
  runs returns zeros and changes nothing; when there is no configuration, the password cannot be read
  or the server does not answer, the exception reaches the caller and no movement is stored.\<close>

theorem scanEmails_lock:
  "isScanning (snd (rl_scanEmails des imap cargar ref tz s)) = isScanning s \<and>
   (isScanning s \<longrightarrow> rl_scanEmails des imap cargar ref tz s = (Inr conteo_cero, s)) \<and>
   (\<not> isScanning s \<and> (sistema s = [] \<or> (\<exists>c r. sistema s = c # r \<and> des (password_consulta c) = None) \<or>
       (\<forall>c f. \<exists>e. imap c f = Inl e)) \<longrightarrow>
     (\<exists>e s'. rl_scanEmails des imap cargar ref tz s = (Inl e, s') \<and> movs_banco s' = movs_banco s \<and>
        sistema s' = sistema s))"
proof (cases "isScanning s")
  case True
  then show ?thesis by (simp add: rl_scanEmails_def ebind_def gets_def ret_def)
next
  case False
  let ?s = "s\<lparr>isScanning := True\<rparr>"
  let ?m = "escanear des imap cargar ref tz"
  have run: "rl_scanEmails des imap cargar ref tz s = (fst (?m ?s), (snd (?m ?s))\<lparr>isScanning := False\<rparr>)"
    using False finalmente_run [where m = ?m and f = "poner_scan False" and g = "\<lambda>t. t\<lparr>isScanning := False\<rparr>" and s = ?s]
    by (simp add: rl_scanEmails_def ebind_def gets_def poner_scan_def modify_def)
  have "\<exists>e. ?m ?s = (Inl e, ?s)"
    if "sistema s = [] \<or> (\<exists>c r. sistema s = c # r \<and> des (password_consulta c) = None) \<or> (\<forall>c f. \<exists>e. imap c f = Inl e)"
    using that
  proof (elim disjE exE conjE)
    assume h: "\<forall>c f. \<exists>e. imap c f = Inl e"
    show ?thesis
    proof (cases "findOneDecrypted des ?s")
      case (Pair x t)
      have t: "t = ?s" using Pair
        by (auto simp: findOneDecrypted_def primera_config_def decrypt_def ebind_def gets_def ret_def raise_def
            split: list.splits option.splits)
      show ?thesis
      proof (cases x)
        case (Inr c)
        obtain e where "imap c (setDate tz (ahora s) (getDate tz (ahora s) - check_period_days c)) = Inl e" using h by blast
        then show ?thesis using Pair t Inr
          by (simp add: escanear_def ebind_def gets_def lift_result_def Let_def)
      qed (use Pair t in \<open>simp add: escanear_def ebind_def\<close>)
    qed
  qed (simp_all add: escanear_def findOneDecrypted_def primera_config_def decrypt_def ebind_def gets_def ret_def raise_def)
  then show ?thesis using False run by auto
qed

lemma scanEmails_lock_witness:
  "rl_scanEmails Some (\<lambda>_ _. Inr [email0]) (\<lambda>_. Some pagina0) (\<lambda>_. []) (-180) (red0\<lparr>isScanning := True\<rparr>) =
     (Inr conteo_cero, red0\<lparr>isScanning := True\<rparr>) \<and>
   (\<exists>e s'. rl_scanEmails Some (\<lambda>_ _. Inl (ErrorJS ''timeout'' [])) (\<lambda>_. Some pagina0) (\<lambda>_. []) (-180) red0 = (Inl e, s') \<and>
     movs_banco s' = [] \<and> sistema s' = [config0])"
  using scanEmails_lock [of Some "\<lambda>_ _. Inr [email0]" "\<lambda>_. Some pagina0" "\<lambda>_. []" "-180" "red0\<lparr>isScanning := True\<rparr>"]
    scanEmails_lock [of Some "\<lambda>_ _. Inl (ErrorJS ''timeout'' [])" "\<lambda>_. Some pagina0" "\<lambda>_. []" "-180" red0]
  by (simp add: red0_def)

end
