(* ===== verification/CamuzziScan.thy ===== *)
theory CamuzziScan
  imports ServiceSync TextParsing MailScan
begin

text \<open>
  \<^verbatim>\<open>src/modules/service-sync/services/camuzzi-scan.service.ts\<close>: the scan of the mails of the
  providers of services. Arguments: \<open>conectar\<close> and \<open>imap\<close> (the server: the connection, and the mails
  since a date from some senders), \<open>cargar\<close> (the parser of pages), \<open>re_ext\<close> (a regular expression
  stored with a provider: nothing when the text is not one, else what its first group captures in a
  text), \<open>ref\<close> (the reference of a mail without a message id) and \<open>env\<close> (the variables that
  override the configuration).
\<close>

section \<open>The specific reader\<close>

record correo_sync =
  ce_html :: "string option"
  ce_text :: "string option"
  ce_subject :: "string option"
  ce_date :: "fecha option"
  ce_messageId :: "string option"
  ce_from :: "string option"

datatype tipo_mail = MAIL_FACTURA | MAIL_CORTE | MAIL_MORA | MAIL_OTRO

record camuzzi_mail_data =
  cm_tipo :: tipo_mail
  cm_cuenta :: "string option"
  cm_periodo :: "string option"
  cm_monto :: "monto option"
  cm_vencimiento :: "string option"
  cm_direccion :: "string option"
  cm_nombre :: "string option"

definition halla :: "patron \<Rightarrow> string \<Rightarrow> bool" where
  "halla p t \<longleftrightarrow> buscar p t \<noteq> None"

definition tipo_de_asunto :: "string \<Rightarrow> tipo_mail" where
  "tipo_de_asunto subject =
     (if halla (lit_i ''mora'') subject then MAIL_MORA
      else if halla (lit_i ''corte'') subject then MAIL_CORTE
      else if halla (lit_i ''factura'') subject then MAIL_FACTURA
      else MAIL_OTRO)"

definition comillas :: patron where
  "comillas = opcional (Clase (\<lambda>c. cod c = 34 \<or> cod c = 39))"

definition patron_unificada :: patron where
  "patron_unificada = secuencia [lit_i ''cuentaunificadaformat'', comillas, blancos, Clase (en '':=''), blancos,
     comillas, de_cuenta]"

definition patrones_cuenta :: "patron list" where
  "patrones_cuenta = [patron_nro, patron_cuenta, patron_grado, patron_unificada, patron_barras]"

fun primera_captura :: "nat \<Rightarrow> patron list \<Rightarrow> string \<Rightarrow> string option" where
  "primera_captura i [] t = None"
| "primera_captura i (p # ps) t =
     (case captura i p t of
        None \<Rightarrow> primera_captura i ps t
      | Some v \<Rightarrow> if v = [] then primera_captura i ps t else Some v)"

definition leer_cuenta :: "string \<Rightarrow> string option" where
  "leer_cuenta t =
     (case primera_captura 1 patrones_cuenta t of
        None \<Rightarrow> None
      | Some v \<Rightarrow> let rawCuenta = recortar v in if rawCuenta = [] then None else Some (solo_digitos rawCuenta))"

definition digs :: "nat \<Rightarrow> patron" where
  "digs n = veces n (Clase RegExp.digito)"

definition barra :: patron where
  "barra = lit ''/''"

definition patron_periodo :: patron where
  "patron_periodo = Grupo 1 (Alt (secuencia [digs 2, barra, digs 4]) (secuencia [digs 2, barra, digs 2]))"

definition cifras_monto :: patron where
  "cifras_monto = Grupo 1 (al_menos 1 (Clase (\<lambda>c. RegExp.digito c \<or> en ''.,'' c)))"

definition patron_total :: patron where
  "patron_total = secuencia [Alt (lit_i ''importe total'') (lit_i ''total''), dos_puntos, opcional (lit ''$''),
     blancos, cifras_monto]"

definition patron_importe :: patron where
  "patron_importe = secuencia [lit ''$'', blancos, cifras_monto]"

text \<open>The amount of the specific reader: a point without a comma is the decimal mark.\<close>

definition leer_monto_etiqueta :: "string \<Rightarrow> monto option" where
  "leer_monto_etiqueta s0 =
     (let s = recortar s0;
          cleaned =
            (if CHR '','' \<in> set s \<and> CHR ''.'' \<in> set s
             then cambiar_primero CHR '','' CHR ''.'' (quitar (\<lambda>c. c = CHR ''.'') s)
             else if CHR '','' \<in> set s then cambiar_primero CHR '','' CHR ''.'' s
             else s)
      in parseFloat (quitar (\<lambda>c. \<not> (RegExp.digito c \<or> en ''.-'' c)) cleaned))"

definition montoStr :: "string \<Rightarrow> string option" where
  "montoStr t = (case captura 1 patron_total t of Some v \<Rightarrow> Some v | None \<Rightarrow> captura 1 patron_importe t)"

definition fecha_larga :: patron where
  "fecha_larga = secuencia [Grupo 1 (digs 2), barra, Grupo 2 (digs 2), barra, Grupo 3 (digs 4)]"

definition fecha_corta :: patron where
  "fecha_corta = secuencia [Grupo 1 (digs 2), barra, Grupo 2 (digs 2), barra, Grupo 3 (digs 2)]"

definition leer_vencimiento :: "string \<Rightarrow> string option" where
  "leer_vencimiento t =
     (case buscar fecha_larga t of Some m \<Rightarrow> Some (fst m) | None \<Rightarrow> map_option fst (buscar fecha_corta t))"

definition hasta_linea :: patron where
  "hasta_linea = Grupo 1 (al_menos 1 (Clase (\<lambda>c. c \<noteq> CHR ''<'' \<and> cod c \<noteq> 10 \<and> cod c \<noteq> 13)))"

definition patrones_direccion :: "patron list" where
  "patrones_direccion =
     [secuencia [lit_i ''suministro ubicado en'', opcional (lit '':''), blancos, hasta_linea],
      secuencia [lit_i ''suministro ubicado en la calle'', opcional (lit '':''), blancos, hasta_linea],
      secuencia [lit_i ''ubicado en'', opcional (lit '':''), blancos, hasta_linea]]"

text \<open>\<^verbatim>\<open>[A-Za-z\u00c1\u00c9\u00cd\u00d3\u00da\u00d1\s]\<close> under the flag \<^verbatim>\<open>i\<close>.\<close>

definition letra_nombre :: "char \<Rightarrow> bool" where
  "letra_nombre c \<longleftrightarrow> letra_i c \<or> cod (mayuscula_l1 c) \<in> {193, 201, 205, 209, 211, 218} \<or> blanco c"

definition letras_nombre :: "nat \<Rightarrow> patron" where
  "letras_nombre i = Grupo i (al_menos 1 (Clase letra_nombre))"

definition al_menos_un_blanco :: patron where
  "al_menos_un_blanco = al_menos 1 (Clase blanco)"

definition patrones_nombre :: "patron list" where
  "patrones_nombre =
     [secuencia [lit_i ''Hola'', al_menos_un_blanco, letras_nombre 1],
      secuencia [lit_i ''Hola'', opcional (lit '',''), blancos, letras_nombre 1],
      secuencia [lit_i ''PRADA TOLEDO'', al_menos_un_blanco, opcional (letras_nombre 1)],
      secuencia [Grupo 1 (alternativas [lit_i ''Sr.'', lit_i ''Sra.'', lit_i ''Estimado'']), al_menos_un_blanco,
        letras_nombre 2]]"

fun primer_hallazgo :: "patron list \<Rightarrow> string \<Rightarrow> (string \<times> capturas) option" where
  "primer_hallazgo [] t = None"
| "primer_hallazgo (p # ps) t = (case buscar p t of Some m \<Rightarrow> Some m | None \<Rightarrow> primer_hallazgo ps t)"

definition leer_nombre :: "string \<Rightarrow> string option" where
  "leer_nombre t =
     (case primer_hallazgo patrones_nombre t of
        None \<Rightarrow> None
      | Some m \<Rightarrow> let g = o_texto (grupo 2 m) (coalesce (grupo 1 m) []) in if g = [] then None else Some (recortar g))"

text \<open>The text searched; nothing when the page cannot be parsed.\<close>

definition haystack :: "(string \<Rightarrow> nodo list option) \<Rightarrow> correo_sync \<Rightarrow> string option" where
  "haystack cargar mail =
     (if o_texto (ce_html mail) [] = [] then Some (coalesce (ce_subject mail) [] @ '' '' @ coalesce (ce_text mail) [])
      else case cargar (o_texto (ce_html mail) []) of
        None \<Rightarrow> None
      | Some pagina_h \<Rightarrow> Some (coalesce (ce_subject mail) [] @ '' '' @ texto_pagina (buscar_tag ''body'' pagina_h)))"

definition parseCamuzziEmail ::
  "(string \<Rightarrow> nodo list option) \<Rightarrow> correo_sync \<Rightarrow> camuzzi_mail_data option" where
  "parseCamuzziEmail cargar mail =
     map_option (\<lambda>t.
       \<lparr>cm_tipo = tipo_de_asunto (coalesce (ce_subject mail) []), cm_cuenta = leer_cuenta t,
        cm_periodo = captura 1 patron_periodo t,
        cm_monto = (case montoStr t of None \<Rightarrow> None | Some v \<Rightarrow> leer_monto_etiqueta v),
        cm_vencimiento = leer_vencimiento t,
        cm_direccion = map_option (\<lambda>m. recortar (coalesce (grupo 1 m) [])) (primer_hallazgo patrones_direccion t),
        cm_nombre = leer_nombre t\<rparr>) (haystack cargar mail)"

section \<open>A mail\<close>

record datos_com =
  dc_payload :: payload_com
  dc_fecha_invalida :: bool

definition camuzzi_cuit :: string where
  "camuzzi_cuit = ''30657864427''"

definition proveedor_de :: "string \<Rightarrow> agente list \<Rightarrow> agente option" where
  "proveedor_de f providers = find (\<lambda>p. list_ex (\<lambda>d. incluye d f) (dominios_notificacion p)) providers"

definition tipo_de_texto :: "string \<Rightarrow> communication_type" where
  "tipo_de_texto lower =
     (if incluye ''hoy vence tu factura'' lower \<or> incluye ''por vencer'' lower then VENCIMIENTO_PROXIMO
      else if incluye ''te acerca tu factura'' lower \<or> incluye ''nueva factura'' lower then FACTURA_DISPONIBLE
      else if incluye ''deuda'' lower \<or> incluye ''regularizar'' lower then AVISO_DEUDA
      else if incluye (''suspensi'' @ [char_of (243::nat)] @ ''n'') lower \<or> incluye ''corte'' lower then AVISO_CORTE
      else OTRO)"

definition guion :: patron where
  "guion = lit ''-''"

definition patron_servicio :: patron where
  "patron_servicio = Grupo 1 (secuencia [digs 4, barra, digs 1, guion, digs 2, guion, digs 2, guion, digs 7, barra, digs 1])"

text \<open>\<^verbatim>\<open>new RegExp(...)\<close> and the first group of its match; the outer \<open>None\<close> is a \<^verbatim>\<open>SyntaxError\<close>.\<close>

definition servicio_de ::
  "(string \<Rightarrow> (string \<Rightarrow> string option) option) \<Rightarrow> agente option \<Rightarrow> string \<Rightarrow> string option option" where
  "servicio_de re_ext p t =
     (case (case p of None \<Rightarrow> [] | Some a \<Rightarrow> o_texto (servicio_id_regex a) []) of
        [] \<Rightarrow> Some (captura 1 patron_servicio t)
      | r \<Rightarrow> (case re_ext r of None \<Rightarrow> None | Some f \<Rightarrow> Some (f t)))"

text \<open>The amount of the mail: every point is taken for thousands.\<close>

definition leer_monto_correo :: "string \<Rightarrow> monto option" where
  "leer_monto_correo v = parseFloat (cambiar_primero CHR '','' CHR ''.'' (quitar (\<lambda>c. c = CHR ''.'') v))"

definition fecha_corta_sola :: patron where
  "fecha_corta_sola = Sec fecha_corta (NoSigue (Clase RegExp.digito))"

definition num_grupo :: "nat \<Rightarrow> string \<times> capturas \<Rightarrow> nat" where
  "num_grupo i m = valor_cifras (coalesce (grupo i m) [])"

definition fecha_de_larga :: "string \<times> capturas \<Rightarrow> fecha option" where
  "fecha_de_larga m = fecha_iso (num_grupo 3 m) (num_grupo 2 m) (num_grupo 1 m)"

definition fecha_de_corta :: "string \<times> capturas \<Rightarrow> fecha option" where
  "fecha_de_corta m =
     fecha_iso ((if num_grupo 3 m > 50 then 1900 else 2000) + num_grupo 3 m) (num_grupo 2 m) (num_grupo 1 m)"

text \<open>A date in a text: the outer \<open>None\<close> is no date, the inner one a date object that is invalid.\<close>

definition fecha_en :: "string \<Rightarrow> fecha option option" where
  "fecha_en t =
     (case buscar fecha_larga t of
        Some m \<Rightarrow> Some (fecha_de_larga m)
      | None \<Rightarrow> map_option fecha_de_corta (buscar fecha_corta_sola t))"

definition fecha_venc :: "string \<Rightarrow> string option \<Rightarrow> fecha option option" where
  "fecha_venc t v =
     (case fecha_en t of
        Some f \<Rightarrow> Some f
      | None \<Rightarrow> if o_texto v [] = [] then None else fecha_en (recortar (o_texto v [])))"

definition patron_mes_anio :: patron where
  "patron_mes_anio = Grupo 1 (secuencia [digs 2, barra, digs 4])"

definition com_leida ::
  "string \<Rightarrow> string \<Rightarrow> correo_sync \<Rightarrow> string \<Rightarrow> string \<Rightarrow> agente option \<Rightarrow> string option \<Rightarrow> fecha option option \<Rightarrow> comunicacion" where
  "com_leida ref subject email f t p rawIdentificador venc =
     \<lparr>sc_id = 0, sc_email_id = o_texto (ce_messageId email) ref,
      proveedor_cuit = Some (o_texto (map_option identificador_fiscal p) camuzzi_cuit),
      sc_proveedor_id = map_option ag_id p, remitente = Some f, asunto = Some subject,
      fecha_email = ce_date email, cuerpo_texto = ce_text email, cuerpo_html = ce_html email,
      sc_tipo_alerta = OTRO, sc_identificador = map_option solo_digitos rawIdentificador,
      numero_medidor = None,
      sc_monto_estimado = (case captura 1 patron_importe t of None \<Rightarrow> None | Some v \<Rightarrow> leer_monto_correo v),
      sc_fecha_vencimiento = (case venc of Some fv \<Rightarrow> fv | None \<Rightarrow> None),
      periodo_label = captura 1 patron_mes_anio t,
      propiedades_sugeridas_ids = [], propiedad_confirmada_id = None, gasto_detectado_id = None,
      sc_estado = UNPROCESSED, sc_notas = None, error_message = None\<rparr>"

definition sc_parseEmail ::
  "(string \<Rightarrow> nodo list option) \<Rightarrow> (string \<Rightarrow> (string \<Rightarrow> string option) option) \<Rightarrow> agente list \<Rightarrow>
   string \<Rightarrow> correo_sync \<Rightarrow> datos_com option" where
  "sc_parseEmail cargar re_ext providers ref email =
     (let html = o_texto (ce_html email) (o_texto (ce_text email) []);
          subject = o_texto (ce_subject email) [];
          f = o_texto (ce_from email) [];
          t = html @ '' '' @ subject;
          foundProvider = proveedor_de f providers
      in case (cargar html, parseCamuzziEmail cargar (email\<lparr>ce_subject := Some subject\<rparr>),
               servicio_de re_ext foundProvider t) of
           (Some raiz, Some camuzziData, Some servicioMatch) \<Rightarrow>
             let lower = minusculas (subject @ '' '' @ texto_pagina raiz);
                 ident = o_texto servicioMatch (o_texto (cm_cuenta camuzziData) []);
                 venc = fecha_venc t (cm_vencimiento camuzziData);
                 com = com_leida ref subject email f t foundProvider (if ident = [] then None else Some ident) venc
             in Some \<lparr>dc_payload = \<lparr>pc_tipo_alerta = Some (tipo_de_texto lower), pc_estado = Some UNPROCESSED,
                                   pc_resto = com\<rparr>,
                      dc_fecha_invalida = (venc = Some None)\<rparr>
         | _ \<Rightarrow> None)"

section \<open>The scan\<close>

record bd_cam = bd_sc +
  sc_isScanning :: bool

record env_sync =
  ev_email :: "string option"
  ev_pwd :: "string option"
  ev_host :: "string option"
  ev_port :: "nat option"
  ev_secure :: "string option"

definition config_efectiva :: "env_sync \<Rightarrow> system_config \<Rightarrow> system_config" where
  "config_efectiva env config =
     config\<lparr>email_consulta := o_texto (ev_email env) (email_consulta config),
       password_consulta := o_texto (ev_pwd env) (password_consulta config),
       host_imap := o_texto (ev_host env) (host_imap config),
       port_imap := coalesce (ev_port env) (port_imap config),
       secure := (if o_texto (ev_secure env) [] = [] then secure config else ev_secure env = Some ''true'')\<rparr>"

text \<open>The sort is stable and puts the one provider first.\<close>

definition findProviders :: "string option \<Rightarrow> ('a bd_ag_scheme, agente list) proc" where
  "findProviders providerCuit =
     gets (\<lambda>s. let ps = take 20 (filter (\<lambda>a. dominios_notificacion a \<noteq> [] \<and>
                  (o_texto providerCuit [] = [] \<or> Some (identificador_fiscal a) = providerCuit)) (agentes s))
        in filter (\<lambda>a. identificador_fiscal a = camuzzi_cuit) ps @
           filter (\<lambda>a. identificador_fiscal a \<noteq> camuzzi_cuit) ps)"

text \<open>\<^verbatim>\<open>create\<close> with a date that is invalid: the check of duplicates comes first, then the document
  fails its validation.\<close>

definition crear_com :: "datos_com \<Rightarrow> ('a bd_sc_scheme, comunicacion option) proc" where
  "crear_com d =
     (if dc_fecha_invalida d \<and> sc_email_id (pc_resto (dc_payload d)) \<noteq> []
      then ebind (gets comunicaciones) (\<lambda>cs.
           if sc_email_id (pc_resto (dc_payload d)) \<in> sc_email_id ` set cs then ret None
           else ebind nuevo_id (\<lambda>_. raise (ErrorJS ''ServiceCommunication validation failed'' [])))
      else sc_create (dc_payload d))"

record opciones_scan =
  os_providerCuit :: "string option"
  os_autoCandidates :: bool
  os_tryExtractServiceId :: "bool option"

definition opciones_de_una :: "string \<Rightarrow> opciones_scan \<Rightarrow> opciones_com" where
  "opciones_de_una t opt =
     \<lparr>communicationId = Some t, communicationIds = None, maxPerRun = Some 1, oc_providerCuit = None,
      tryExtractServiceId = Some (os_tryExtractServiceId opt \<noteq> Some False)\<rparr>"

definition guardar_correo ::
  "(string \<Rightarrow> oid option) \<Rightarrow> (oid \<Rightarrow> string) \<Rightarrow> opciones_scan \<Rightarrow> datos_com \<Rightarrow> ('a bd_sc_scheme, comunicacion option) proc" where
  "guardar_correo od texto_id opt d =
     ebind (crear_com d) (\<lambda>created.
     case created of
       None \<Rightarrow> ret None
     | Some c \<Rightarrow>
         if os_autoCandidates opt
         then ebind (try_catch (ebind (generateCandidates od (opciones_de_una (texto_id (sc_id c)) opt)) (\<lambda>_. ret ()))
                (\<lambda>_. ret ())) (\<lambda>_. ret (Some c))
         else ret (Some c))"

record servidor =
  sv_conectar :: "system_config \<Rightarrow> excepcion + unit"
  sv_correos :: "fecha \<Rightarrow> string list \<Rightarrow> excepcion + correo_sync list"

record lector =
  lr_cargar :: "string \<Rightarrow> nodo list option"
  lr_re_ext :: "string \<Rightarrow> (string \<Rightarrow> string option) option"
  lr_ref :: "nat \<Rightarrow> string"
  lr_od :: "string \<Rightarrow> oid option"
  lr_texto_id :: "oid \<Rightarrow> string"

definition procesar_correo ::
  "lector \<Rightarrow> opciones_scan \<Rightarrow> agente list \<Rightarrow> correo_sync \<Rightarrow> conteo \<Rightarrow> ('a bd_sc_scheme, conteo) proc" where
  "procesar_correo l opt providers =
     procesar_uno (\<lambda>n e. sc_parseEmail (lr_cargar l) (lr_re_ext l) providers (lr_ref l n) e)
       (guardar_correo (lr_od l) (lr_texto_id l) opt)"

definition sc_poner_scan :: "bool \<Rightarrow> ('a bd_cam_scheme, unit) proc" where
  "sc_poner_scan b = modify (\<lambda>s. s\<lparr>sc_isScanning := b\<rparr>)"

definition sc_escanear ::
  "(string \<Rightarrow> string option) \<Rightarrow> env_sync \<Rightarrow> servidor \<Rightarrow> lector \<Rightarrow> int \<Rightarrow> opciones_scan \<Rightarrow> ('a bd_cam_scheme, conteo) proc" where
  "sc_escanear des env sv l tz opt =
     ebind (findOneDecrypted des) (\<lambda>config.
     ebind (lift_result (sv_conectar sv (config_efectiva env config))) (\<lambda>_.
     ebind (gets ahora) (\<lambda>now.
     let fechaInicio = setDate tz now (getDate tz now - check_period_days config) in
     ebind (findProviders (os_providerCuit opt)) (\<lambda>providers.
     let flattenedFroms = filter (\<lambda>d. d \<noteq> []) (concat (map dominios_notificacion providers)) in
     ebind (lift_result (sv_correos sv fechaInicio flattenedFroms)) (\<lambda>emails.
     ebind (fold_each (procesar_correo l opt providers) emails conteo_cero) (\<lambda>c.
     ebind updateLastCheckDate (\<lambda>_.
     ret c)))))))"

definition sc_scanEmails ::
  "(string \<Rightarrow> string option) \<Rightarrow> env_sync \<Rightarrow> servidor \<Rightarrow> lector \<Rightarrow> int \<Rightarrow> opciones_scan \<Rightarrow> ('a bd_cam_scheme, conteo) proc" where
  "sc_scanEmails des env sv l tz opt =
     ebind (gets sc_isScanning) (\<lambda>b.
     if b then ret conteo_cero
     else ebind (sc_poner_scan True) (\<lambda>_.
          finalmente (sc_escanear des env sv l tz opt) (sc_poner_scan False)))"

definition sc_handleCron ::
  "(string \<Rightarrow> string option) \<Rightarrow> env_sync \<Rightarrow> servidor \<Rightarrow> lector \<Rightarrow> int \<Rightarrow> ('a bd_cam_scheme, unit) proc" where
  "sc_handleCron des env sv l tz =
     ebind (sc_scanEmails des env sv l tz
       \<lparr>os_providerCuit = None, os_autoCandidates = True, os_tryExtractServiceId = Some True\<rparr>) (\<lambda>_. ret ())"

definition sc_testConnection ::
  "(string \<Rightarrow> string option) \<Rightarrow> env_sync \<Rightarrow> servidor \<Rightarrow> ('a bd_cam_scheme, bool) proc" where
  "sc_testConnection des env sv =
     try_catch
       (ebind (findOneDecrypted des) (\<lambda>config.
        ebind (lift_result (sv_conectar sv (config_efectiva env config))) (\<lambda>_. ret True)))
       (\<lambda>_. ret False)"

end
