(* ===== verification/CamuzziProperties.thy ===== *)
theory CamuzziProperties
  imports CamuzziScan ServiceSyncProperties Amounts
begin

text \<open>
  What the scanner of the providers' mails reads: the two readings of an amount, the number of a
  service, and what a scan stores and classifies.
\<close>

section \<open>Amounts\<close>

lemma recortar_sin_blancos: "list_all (\<lambda>c. \<not> blanco c) t \<Longrightarrow> recortar t = t"
proof -
  have d: "dropWhile blanco u = u" if "list_all (\<lambda>c. \<not> blanco c) u" for u
    using that by (cases u) auto
  assume "list_all (\<lambda>c. \<not> blanco c) t"
  then show ?thesis using d [of t] d [of "rev t"] by (simp add: recortar_def)
qed

lemma signos_no_blancos [simp]: "\<not> blanco CHR ''.''" "\<not> blanco CHR '',''"
  by (simp_all add: blanco_def cod_def)

lemma digito_no_blanco: "RegExp.digito c \<Longrightarrow> \<not> blanco c"
  by (auto simp: RegExp.digito_def blanco_def)

lemma con_puntos_chars: "list_all (\<lambda>c. RegExp.digito c \<or> c = CHR ''.'') (con_puntos n)"
proof -
  have "list_all RegExp.digito (quitar (\<lambda>c. c = CHR ''.'') (con_puntos n))" using con_puntos_ok by blast
  then show ?thesis by (auto simp: list_all_iff quitar_def)
qed

lemma formato_limpio_chars: "list_all (\<lambda>c. RegExp.digito c \<or> c = CHR ''.'') (formato_limpio c)"
  using con_puntos_chars [of "c div 100"] dos_cifras_digitos [of "c mod 100"]
  by (auto simp: formato_limpio_def list_all_iff quitar_def)

lemma formato_es_chars: "list_all (\<lambda>c. RegExp.digito c \<or> en ''.,'' c) (formato_es n)"
  using con_puntos_chars [of "n div 100"] dos_cifras_digitos [of "n mod 100"]
  by (auto simp: formato_es_def list_all_iff en_def)

lemma quitar_nada: "list_all (\<lambda>c. \<not> P c) t \<Longrightarrow> quitar P t = t"
  unfolding quitar_def by (auto simp: list_all_iff intro!: filter_True)

lemma formato_es_recortado: "recortar (formato_es c) = formato_es c"
  by (rule recortar_sin_blancos, rule list.pred_mono_strong [OF formato_es_chars])
    (auto simp: digito_no_blanco en_def)

text \<open>both readers of a mail read an amount with points and a comma exactly, and both read one
  without a comma differently: for a text such as 1234.56 the specific reader gives the amount and
  the one whose value is stored gives a hundred times as much.\<close>

theorem amount_readings:
  "leer_monto_correo (formato_es c) = Some (of_nat c / 100) \<and>
   leer_monto_etiqueta (formato_es c) = Some (of_nat c / 100) \<and>
   (b < 100 \<longrightarrow>
      leer_monto_etiqueta (decimal a @ ''.'' @ dos_cifras b) = Some (of_nat a + of_nat b / 100) \<and>
      leer_monto_correo (decimal a @ ''.'' @ dos_cifras b) = Some ((of_nat a + of_nat b / 100) * 100))"
proof (intro conjI impI)
  show "leer_monto_correo (formato_es c) = Some (of_nat c / 100)"
    unfolding leer_monto_correo_def formato_normal(1) parse_formato ..
  have q: "quitar (\<lambda>c. \<not> (RegExp.digito c \<or> en ''.-'' c)) (formato_limpio c) = formato_limpio c"
    by (rule quitar_nada, rule list.pred_mono_strong [OF formato_limpio_chars]) (auto simp: en_def)
  show "leer_monto_etiqueta (formato_es c) = Some (of_nat c / 100)"
    unfolding leer_monto_etiqueta_def formato_es_recortado Let_def
    using formato_normal(2) [of c] q parse_formato [of c] by (simp add: conj_commute)
next
  assume b: "b < 100"
  let ?t = "decimal a @ ''.'' @ dos_cifras b"
  have v: "valor_cifras (dos_cifras b) = b" "length (dos_cifras b) = 2" "list_all RegExp.digito (dos_cifras b)"
    using b by (simp_all add: valor_dos dos_cifras_digitos) (simp add: dos_cifras_def)
  have ch: "list_all (\<lambda>c. RegExp.digito c \<or> c = CHR ''.'') ?t"
    using decimal_ok [of a] v(3) by (auto simp: list_all_iff)
  have "\<not> (RegExp.digito CHR '','' \<or> CHR '','' = CHR ''.'')" by simp
  then have nc: "CHR '','' \<notin> set ?t" using ch unfolding list_all_iff by blast
  have r: "recortar ?t = ?t"
    by (rule recortar_sin_blancos, rule list.pred_mono_strong [OF ch])
      (auto simp: digito_no_blanco)
  have q: "quitar (\<lambda>c. \<not> (RegExp.digito c \<or> en ''.-'' c)) ?t = ?t"
    by (rule quitar_nada, rule list.pred_mono_strong [OF ch]) (auto simp: en_def)
  show "leer_monto_etiqueta ?t = Some (of_nat a + of_nat b / 100)"
    unfolding leer_monto_etiqueta_def r Let_def
    using nc q parseFloat_decimal [of "decimal a" "dos_cifras b"] decimal_ok [of a] v by simp
  have "quitar (\<lambda>c. c = CHR ''.'') ?t = decimal a @ dos_cifras b"
    using quitar_digitos decimal_ok [of a] v(3) by (simp add: quitar_def)
  moreover have "cambiar_primero CHR '','' d u = u" if "CHR '','' \<notin> set u" for d u
    using that by (induction u) auto
  moreover have "parseFloat (decimal a @ dos_cifras b) = Some (of_nat (valor_cifras (decimal a @ dos_cifras b)))"
    using parseFloat_entero [of "decimal a @ dos_cifras b"] decimal_ok [of a] v(3) by simp
  ultimately show "leer_monto_correo ?t = Some ((of_nat a + of_nat b / 100) * 100)"
    using nc decimal_ok [of a] v by (simp add: leer_monto_correo_def valor_cifras_append field_simps)
qed

lemma amount_readings_witness:
  "leer_monto_etiqueta ''12.34'' = Some (1234 / 100) \<and> leer_monto_correo ''12.34'' = Some 1234"
proof -
  have "decimal 12 = ''12''" and "dos_cifras 34 = ''34''"
    by (simp_all add: decimal.simps [of 12] decimal.simps [of "Suc 0"] dos_cifras_def cifra_def char_of_def bit_0)
  then show ?thesis using amount_readings [of 0 34 12] by simp
qed

section \<open>The store of the mails\<close>

definition claves_com :: "'a bd_sc_scheme \<Rightarrow> string set" where
  "claves_com s = sc_email_id ` set (comunicaciones s)"

definition clave_correo :: "datos_com \<Rightarrow> string" where
  "clave_correo d = sc_email_id (pc_resto (dc_payload d))"

definition correo_valido :: "datos_com \<Rightarrow> bool" where
  "correo_valido d \<longleftrightarrow> \<not> dc_fecha_invalida d \<and> clave_correo d \<noteq> []"

text \<open>The text of an id is not empty and denotes it.\<close>

definition ids_textuales :: "(string \<Rightarrow> oid option) \<Rightarrow> (oid \<Rightarrow> string) \<Rightarrow> bool" where
  "ids_textuales od tx \<longleftrightarrow> (\<forall>i. tx i \<noteq> [] \<and> od (tx i) = Some i)"

text \<open>With the automatic classification, the mails still unprocessed are among the old ones \<open>B\<close>.\<close>

definition inv_correo ::
  "(string \<Rightarrow> oid option) \<Rightarrow> (oid \<Rightarrow> string) \<Rightarrow> opciones_scan \<Rightarrow> string set \<Rightarrow> 'a bd_sc_scheme \<Rightarrow> bool" where
  "inv_correo od tx opt B s \<longleftrightarrow> sync_inv s \<and> ids_textuales od tx \<and>
     (os_autoCandidates opt \<longrightarrow> (\<forall>c \<in> set (comunicaciones s). sc_estado c = UNPROCESSED \<longrightarrow> sc_email_id c \<in> B))"

lemma card_claves_com: "sync_inv s \<Longrightarrow> card (claves_com s) = length (comunicaciones s)"
  unfolding sync_inv_def claves_com_def by (metis distinct_card length_map set_map)

lemma crear_com_dup: "clave_correo d \<in> claves_com s \<Longrightarrow> correo_valido d \<Longrightarrow> crear_com d s = (Inr None, s)"
  by (auto simp: crear_com_def sc_create_def clave_correo_def claves_com_def correo_valido_def proc_simps)

lemma crear_com_nueva:
  assumes i: "sync_inv s" and d: "correo_valido d" "clave_correo d \<notin> claves_com s"
  obtains c s1 where "crear_com d s = (Inr (Some c), s1)" "comunicaciones s1 = comunicaciones s @ [c]"
    "sc_email_id c = clave_correo d" "sync_inv s1"
    "sc_id c \<notin> sc_id ` set (comunicaciones s)"
proof -
  let ?p = "dc_payload d"
  let ?c = "(pc_resto ?p)\<lparr>sc_id := prox_id s, sc_estado := coalesce (pc_estado ?p) UNPROCESSED,
      sc_tipo_alerta := coalesce (pc_tipo_alerta ?p) OTRO\<rparr>"
  let ?s = "con_comms (\<lambda>cs. cs @ [?c]) (s\<lparr>prox_id := Suc (prox_id s)\<rparr>)"
  have run: "sc_create ?p s = (Inr (Some ?c), ?s)"
    using d by (simp add: sc_create_def correo_valido_def clave_correo_def claves_com_def proc_simps Let_def)
  show thesis
  proof (rule that)
    show "crear_com d s = (Inr (Some ?c), ?s)" using run d by (simp add: crear_com_def correo_valido_def)
    show "sync_inv ?s" using sc_create_crece [OF i run] by (simp add: crece_com_def)
    show "sc_id ?c \<notin> sc_id ` set (comunicaciones s)" using i by (auto simp: sync_inv_def)
  qed (simp_all add: clave_correo_def con_comms_def)
qed

text \<open>The classification of the one mail just stored.\<close>

lemma clasificar_nueva:
  assumes ids: "ids_textuales od tx" and i: "sync_inv s1" and cs: "comunicaciones s1 = xs @ [c]"
    and c: "sc_id c \<notin> sc_id ` set xs"
  obtains r s2 where "generateCandidates od (opciones_de_una (tx (sc_id c)) opt) s1 = (Inr r, s2)"
    "lote_hecho (opciones_de_una (tx (sc_id c)) opt) s1 (if sc_estado c = UNPROCESSED then [c] else []) s2"
proof -
  let ?o = "opciones_de_una (tx (sc_id c)) opt"
  have p: "ids_pedidos od ?o s1 = (Inr (Some [sc_id c]), s1)"
    using ids by (simp add: ids_textuales_def ids_pedidos_def opciones_de_una_def o_texto_def nuevo_ObjectId_def proc_simps)
  have "filter (\<lambda>x. sc_estado x = UNPROCESSED \<and> sc_id x = sc_id c) xs = []"
    using c by (force simp: filter_empty_conv image_iff)
  then have f: "filter (\<lambda>x. sc_estado x = UNPROCESSED \<and> sc_id x = sc_id c) (xs @ [c]) =
      (if sc_estado c = UNPROCESSED then [c] else [])" by simp
  have o: "oc_providerCuit ?o = None" "o_texto None [] = []" "maxPerRun ?o = Some 1"
    by (simp_all add: opciones_de_una_def o_texto_def)
  have "por_clasificar ?o (Some [sc_id c]) (comunicaciones s1) = (if sc_estado c = UNPROCESSED then [c] else [])"
    unfolding por_clasificar_def cs o using f by (simp add: mas_reciente_def limite_com_def)
  from generateCandidates_run [OF _ p this [symmetric]] i that show thesis
    unfolding sync_inv_def by blast
qed

lemma sin_procesar_lote:
  assumes h: "lote_hecho opt s1 cs s2" and x: "x \<in> set (comunicaciones s2)" "sc_estado x = UNPROCESSED"
  shows "x \<in> set (comunicaciones s1) \<and> x \<notin> set cs"
proof -
  have dis: "distinct (map sc_id (comunicaciones s2))" using h unfolding lote_hecho_def com_inv_def by blast
  have lk: "com_de (sc_id x) s2 = Some x" using find_id_Some_iff [OF dis] x by blast
  have n: "sc_id x \<noteq> sc_id c" if c: "c \<in> set cs" for c
  proof -
    obtain c' where c': "com_de (sc_id c) s2 = Some c'" "clasificada s2 (ident_com opt c) c'"
      using h c unfolding lote_hecho_def by blast
    then have "sc_estado c' \<noteq> UNPROCESSED" by (auto simp: clasificada_def split: if_splits)
    then show ?thesis using lk c'(1) x(2) by auto
  qed
  have "sc_id x \<in> set (map sc_id (comunicaciones s1))"
    using h x(1) unfolding lote_hecho_def by (metis image_eqI set_map)
  then obtain y where y: "y \<in> set (comunicaciones s1)" "sc_id y = sc_id x" by auto
  have "y \<notin> set cs"
  proof
    assume "y \<in> set cs"
    from n [OF this] y(2) show False by simp
  qed
  then have "com_de (sc_id y) s2 = Some y" using h y(1) unfolding lote_hecho_def by blast
  then have yx: "y = x" using lk unfolding y(2) by simp
  show ?thesis using y(1) \<open>y \<notin> set cs\<close> unfolding yx ..
qed

lemma guardar_correo_nuevo:
  assumes i: "inv_correo od tx opt B s" and d: "correo_valido d" "clave_correo d \<notin> claves_com s"
  shows "\<exists>r s'. guardar_correo od tx opt d s = (Inr (Some r), s') \<and>
     claves_com s' = insert (clave_correo d) (claves_com s) \<and> inv_correo od tx opt B s'"
proof -
  have si: "sync_inv s" and ids: "ids_textuales od tx"
    and un: "os_autoCandidates opt \<Longrightarrow> c \<in> set (comunicaciones s) \<Longrightarrow> sc_estado c = UNPROCESSED \<Longrightarrow> sc_email_id c \<in> B" for c
    using i by (simp_all add: inv_correo_def)
  from crear_com_nueva [OF si d] obtain c s1 where run: "crear_com d s = (Inr (Some c), s1)"
    and cs: "comunicaciones s1 = comunicaciones s @ [c]" and c: "sc_email_id c = clave_correo d"
    and s1: "sync_inv s1" and n: "sc_id c \<notin> sc_id ` set (comunicaciones s)" .
  have k1: "claves_com s1 = insert (clave_correo d) (claves_com s)" using c by (simp add: claves_com_def cs)
  show ?thesis
  proof (cases "os_autoCandidates opt")
    case False
    then show ?thesis using run k1 s1 ids by (simp add: guardar_correo_def ebind_def ret_def inv_correo_def)
  next
    case True
    let ?o = "opciones_de_una (tx (sc_id c)) opt"
    obtain r s2 where g: "generateCandidates od ?o s1 = (Inr r, s2)" and h: "lote_hecho ?o s1 (if sc_estado c = UNPROCESSED then [c] else []) s2"
      by (rule clasificar_nueva [OF ids s1 cs n])
    have "crece_com s1 s2" using paso_com_crece [OF paso_com.clasificar [OF g] s1] .
    then have s2: "sync_inv s2" by (simp add: crece_com_def)
    have "map sc_email_id (comunicaciones s2) = map sc_email_id (comunicaciones s1)"
      using h by (simp add: lote_hecho_def)
    then have k2: "claves_com s2 = claves_com s1" unfolding claves_com_def by (metis set_map)
    have "sc_email_id x \<in> B" if "x \<in> set (comunicaciones s2)" "sc_estado x = UNPROCESSED" for x
      using sin_procesar_lote [OF h that] un [OF True] that(2) by (auto simp: cs split: if_splits)
    then show ?thesis
      using run True g k1 k2 s2 ids by (simp add: guardar_correo_def ebind_def try_catch_def ret_def inv_correo_def)
  qed
qed

lemma guardar_correo_invalido:
  assumes i: "inv_correo od tx opt B s" and d: "\<not> correo_valido d"
  shows "\<exists>r s'. guardar_correo od tx opt d s = (r, s') \<and> (r = Inr None \<or> (\<exists>e. r = Inl e)) \<and>
     claves_com s' = claves_com s \<and> inv_correo od tx opt B s'"
proof -
  have m: "inv_correo od tx opt B (s\<lparr>prox_id := Suc (prox_id s)\<rparr>)"
    using i by (auto simp: inv_correo_def sync_inv_def com_inv_def gas_inv_def less_SucI)
  show ?thesis
    using i d m
    by (auto simp: guardar_correo_def crear_com_def sc_create_def correo_valido_def clave_correo_def ebind_def gets_def
        nuevo_id_def raise_def ret_def claves_com_def)
qed

interpretation correo_sc: almacen_correo claves_com clave_correo correo_valido "guardar_correo od tx opt"
  "inv_correo od tx opt B" for od tx opt B
proof unfold_locales
  show "inv_correo od tx opt B s \<Longrightarrow> correo_valido d \<Longrightarrow> clave_correo d \<in> claves_com s \<Longrightarrow>
      guardar_correo od tx opt d s = (Inr None, s)" for s :: "'a bd_sc_scheme" and d
    by (simp add: guardar_correo_def ebind_def ret_def crear_com_dup)
qed (use guardar_correo_nuevo guardar_correo_invalido in \<open>auto simp: claves_com_def\<close>)

section \<open>The scan\<close>

text \<open>What no operation of the loop touches.\<close>

definition ajeno :: "('a bd_sc_scheme \<Rightarrow> bool) \<Rightarrow> bool" where
  "ajeno P \<longleftrightarrow> (\<forall>f g s. P s \<longrightarrow> P (con_comms f s) \<and> P (con_gastos g s)) \<and> (\<forall>n s. P s \<longrightarrow> P (s\<lparr>prox_id := n\<rparr>))"

lemma ajeno_nuevo_id: "ajeno P \<Longrightarrow> preserves P nuevo_id"
  by (simp add: ajeno_def preserves_def nuevo_id_def)

lemma ajeno_comms: "ajeno P \<Longrightarrow> preserves P (modify (con_comms f))"
  by (simp add: ajeno_def preserves_def modify_def)

lemma ajeno_gastos: "ajeno P \<Longrightarrow> preserves P (modify (con_gastos f))"
  by (simp add: ajeno_def preserves_def modify_def)

lemmas ajenos = ajeno_nuevo_id ajeno_comms ajeno_gastos preserves_ebind preserves_if preserves_ret preserves_raise
  preserves_gets preserves_for_each preserves_try

lemma ajeno_proponer: "ajeno P \<Longrightarrow> preserves P (proponer i)"
  unfolding proponer_def processDetectedUtilityInvoices_def procesar_gasto_def ge_update_def ge_findAll_def
    findByMedidor_def Let_def
  by (intro ajenos)

lemma ajeno_generateCandidates: "ajeno P \<Longrightarrow> preserves P (generateCandidates od opt)"
proof -
  assume P: "ajeno P"
  have o: "preserves P (nuevo_ObjectId od t)" for t by (auto simp: nuevo_ObjectId_def split: option.split)
  have n: "preserves P (proveedor_o_nuevo a)" for a
    by (auto simp: proveedor_o_nuevo_def ajeno_nuevo_id [OF P] split: option.split)
  have c: "preserves P (completar_id opt c)" for opt c
    unfolding completar_id_def actualizar_com_def
    by (auto intro!: ajeno_comms [OF P] split: option.split)
  have p: "preserves P (processCommunication c)" for c
    unfolding processCommunication_def actualizar_com_def findByMedidor_def ge_create_def Let_def
    by (intro ajenos n ajeno_proponer P)
  show ?thesis
    unfolding generateCandidates_def clasificar_una_def ids_pedidos_def Let_def
    by (intro ajenos o c p P)
qed

lemma ajeno_procesar: "ajeno P \<Longrightarrow> preserves P (procesar_correo l opt ps e c)"
proof -
  assume P: "ajeno P"
  have g: "preserves P (guardar_correo od tx opt d)" for od tx d
    unfolding guardar_correo_def crear_com_def sc_create_def Let_def
    by (intro ajenos P) (auto split: option.split intro!: ajeno_generateCandidates P)
  show ?thesis
    unfolding procesar_correo_def procesar_uno_def
    by (intro preserves_try) (auto intro!: g split: option.split)
qed

lemma ajeno_bucle: "ajeno P \<Longrightarrow> preserves P (fold_each (procesar_correo l opt ps) es c)"
  by (intro preserves_fold_each ajeno_procesar)

definition marco_cam :: "system_config list \<Rightarrow> agente list \<Rightarrow> bool \<Rightarrow> fecha \<Rightarrow> 'a bd_cam_scheme \<Rightarrow> bool" where
  "marco_cam cfg as b t s \<longleftrightarrow> sistema s = cfg \<and> agentes s = as \<and> sc_isScanning s = b \<and> ahora s = t"

lemma ajeno_marco: "ajeno (marco_cam cfg as b t)"
  by (simp add: ajeno_def marco_cam_def con_comms_def con_gastos_def)

definition con_mensaje :: "correo_sync list \<Rightarrow> bool" where
  "con_mensaje es \<longleftrightarrow> list_all (\<lambda>e. o_texto (ce_messageId e) [] \<noteq> []) es"

definition leer_correo :: "lector \<Rightarrow> agente list \<Rightarrow> nat \<Rightarrow> correo_sync \<Rightarrow> datos_com option" where
  "leer_correo l ps n e = sc_parseEmail (lr_cargar l) (lr_re_ext l) ps (lr_ref l n) e"

text \<open>Every mail that reads as a valid communication is stored.\<close>

definition correos_guardados :: "lector \<Rightarrow> agente list \<Rightarrow> correo_sync list \<Rightarrow> 'a bd_sc_scheme \<Rightarrow> bool" where
  "correos_guardados l ps es s \<longleftrightarrow>
     (\<forall>e \<in> set es. \<forall>d n. leer_correo l ps n e = Some d \<and> correo_valido d \<longrightarrow> clave_correo d \<in> claves_com s)"

lemma parse_ref: "o_texto (ce_messageId e) [] \<noteq> [] \<Longrightarrow> sc_parseEmail ca re ps r e = sc_parseEmail ca re ps r' e"
proof -
  assume "o_texto (ce_messageId e) [] \<noteq> []"
  then have "o_texto (ce_messageId e) r = o_texto (ce_messageId e) r'"
    by (simp add: o_texto_def split: option.splits)
  then have "com_leida r su e f t p i v = com_leida r' su e f t p i v" for su f t p i v
    by (simp add: com_leida_def)
  then show ?thesis unfolding sc_parseEmail_def by (simp only:)
qed

lemma uniforme_correos: "con_mensaje es \<Longrightarrow> uniforme (leer_correo l ps) es"
  unfolding uniforme_def con_mensaje_def leer_correo_def list_all_iff using parse_ref by blast

lemma procesar_correo_alt:
  "procesar_correo l opt ps = procesar_uno (leer_correo l ps) (guardar_correo (lr_od l) (lr_texto_id l) opt)"
  by (simp add: procesar_correo_def leer_correo_def [abs_def])

definition servidor_con :: "correo_sync list \<Rightarrow> servidor" where
  "servidor_con es = \<lparr>sv_conectar = \<lambda>_. Inr (), sv_correos = \<lambda>_ _. Inr es\<rparr>"

definition tras_scan_cam :: "'a bd_cam_scheme \<Rightarrow> 'a bd_cam_scheme" where
  "tras_scan_cam s = (con_sistema (map (\<lambda>c. c\<lparr>fecha_ultima_consulta := Some (ahora s)\<rparr>)) s)\<lparr>sc_isScanning := False\<rparr>"

lemma tras_scan_cam_simps [simp]:
  "comunicaciones (tras_scan_cam s) = comunicaciones s" "sc_isScanning (tras_scan_cam s) = False"
  "sistema (tras_scan_cam s) = map (\<lambda>c. c\<lparr>fecha_ultima_consulta := Some (ahora s)\<rparr>) (sistema s)"
  "gastos (tras_scan_cam s) = gastos s" "prox_id (tras_scan_cam s) = prox_id s" "agentes (tras_scan_cam s) = agentes s"
  by (simp_all add: tras_scan_cam_def con_sistema_def)

definition proveedores :: "string option \<Rightarrow> 'a bd_ag_scheme \<Rightarrow> agente list" where
  "proveedores pc s =
     (let ps = take 20 (filter (\<lambda>a. dominios_notificacion a \<noteq> [] \<and>
        (o_texto pc [] = [] \<or> Some (identificador_fiscal a) = pc)) (agentes s))
      in filter (\<lambda>a. identificador_fiscal a = camuzzi_cuit) ps @ filter (\<lambda>a. identificador_fiscal a \<noteq> camuzzi_cuit) ps)"

lemma sc_scanEmails_run:
  assumes libre: "\<not> sc_isScanning s" and cfg: "sistema s = [cfg]" "des (password_consulta cfg) = Some pw"
    "config_valida cfg"
    and loop: "fold_each (procesar_correo l opt (proveedores (os_providerCuit opt) s)) es conteo_cero
      (s\<lparr>sc_isScanning := True\<rparr>) = (Inr c, s1)"
  shows "sc_scanEmails des env (servidor_con es) l tz opt s = (Inr c, tras_scan_cam s1)"
proof -
  let ?s = "s\<lparr>sc_isScanning := True\<rparr>"
  let ?m = "sc_escanear des env (servidor_con es) l tz opt"
  have "marco_cam [cfg] (agentes s) True (ahora s) ?s" using cfg by (simp add: marco_cam_def)
  from preservesD [OF ajeno_bucle [OF ajeno_marco] this loop] have m: "sistema s1 = [cfg]" "ahora s1 = ahora s"
    by (simp_all add: marco_cam_def)
  have d: "findOneDecrypted des ?s = (Inr (cfg\<lparr>password_consulta := pw\<rparr>), ?s)"
    using cfg by (simp add: findOneDecrypted_def primera_config_def decrypt_def ebind_def gets_def ret_def)
  have f: "findProviders (os_providerCuit opt) ?s = (Inr (proveedores (os_providerCuit opt) s), ?s)"
    by (simp add: findProviders_def gets_def proveedores_def)
  have u: "updateLastCheckDate s1 =
      (Inr (), con_sistema (map (\<lambda>c. c\<lparr>fecha_ultima_consulta := Some (ahora s1)\<rparr>)) s1)"
    using m cfg(3) by (simp add: updateLastCheckDate_def guardar_config_def config_valida_def proc_simps con_sistema_def
        save_doc_def)
  have "?m ?s = (Inr c, con_sistema (map (\<lambda>c. c\<lparr>fecha_ultima_consulta := Some (ahora s1)\<rparr>)) s1)"
    using d f loop u by (simp add: sc_escanear_def ebind_def gets_def lift_result_def ret_def Let_def servidor_con_def)
  then show ?thesis
    using libre finalmente_run [where m = ?m and f = "sc_poner_scan False"
        and g = "\<lambda>t. t\<lparr>sc_isScanning := False\<rparr>" and s = ?s]
    by (simp add: sc_scanEmails_def ebind_def gets_def sc_poner_scan_def modify_def tras_scan_cam_def)
qed

lemma scan_correos:
  assumes libre: "\<not> sc_isScanning s" and cfg: "sistema s = [cfg]" "des (password_consulta cfg) = Some pw"
    "config_valida cfg" and inv: "sync_inv s" and ids: "ids_textuales (lr_od l) (lr_texto_id l)"
    and es: "con_mensaje es" and ps: "ps = proveedores (os_providerCuit opt) s"
  shows "\<exists>c s'. sc_scanEmails des env (servidor_con es) l tz opt s = (Inr c, s') \<and>
     \<not> sc_isScanning s' \<and> (\<exists>cfg'. sistema s' = [cfg'] \<and> des (password_consulta cfg') = Some pw \<and> config_valida cfg') \<and>
     proveedores (os_providerCuit opt) s' = ps \<and> sync_inv s' \<and> avanza (length es) conteo_cero c \<and>
     claves_com s \<subseteq> claves_com s' \<and>
     length (comunicaciones s') = length (comunicaciones s) + nuevos c \<and> correos_guardados l ps es s' \<and>
     (os_autoCandidates opt \<longrightarrow>
        (\<forall>x \<in> set (comunicaciones s'). sc_estado x = UNPROCESSED \<longrightarrow> sc_email_id x \<in> claves_com s)) \<and>
     (correos_guardados l ps es s \<longrightarrow> nuevos c = 0 \<and> claves_com s' = claves_com s)"
proof -
  let ?s = "s\<lparr>sc_isScanning := True\<rparr>"
  let ?I = "inv_correo (lr_od l) (lr_texto_id l) opt (claves_com s)"
  have k0: "claves_com ?s = claves_com s" by (simp add: claves_com_def)
  have I: "?I ?s" using inv ids
    by (auto simp: inv_correo_def sync_inv_def com_inv_def gas_inv_def claves_com_def)
  from correo_sc.procesar_todos [OF I uniforme_correos [OF es, where l = l and ps = ps], where c = conteo_cero]
  obtain c s1 where run: "fold_each (procesar_correo l opt ps) es conteo_cero ?s = (Inr c, s1)"
    and I1: "?I s1" and av: "avanza (length es) conteo_cero c" and sub: "claves_com s \<subseteq> claves_com s1"
    and n: "card (claves_com s1) + nuevos conteo_cero = card (claves_com s) + nuevos c"
    and g: "correos_guardados l ps es s1"
    and q: "correos_guardados l ps es s \<longrightarrow> claves_com s1 = claves_com s"
    unfolding procesar_correo_alt [symmetric] k0 correos_guardados_def by (elim exE conjE) blast
  have "marco_cam [cfg] (agentes s) True (ahora s) ?s" using cfg by (simp add: marco_cam_def)
  from preservesD [OF ajeno_bucle [OF ajeno_marco] this run] have m: "sistema s1 = [cfg]" "agentes s1 = agentes s"
    by (simp_all add: marco_cam_def)
  let ?t = "tras_scan_cam s1"
  have k: "claves_com ?t = claves_com s1" by (simp add: claves_com_def)
  have s1: "sync_inv s1" using I1 by (simp add: inv_correo_def)
  then have t: "sync_inv ?t" by (simp add: sync_inv_def com_inv_def gas_inv_def)
  have len: "length (comunicaciones s1) = length (comunicaciones s) + nuevos c"
    using n card_claves_com [OF s1] card_claves_com [OF inv] by (simp add: conteo_cero_def)
  have q': "nuevos c = 0 \<and> claves_com s1 = claves_com s" if "correos_guardados l ps es s"
    using q that n by (simp add: conteo_cero_def)
  have "sc_scanEmails des env (servidor_con es) l tz opt s = (Inr c, ?t)"
    by (rule sc_scanEmails_run [where des = des and cfg = cfg, OF libre cfg run [unfolded ps]])
  moreover have "proveedores (os_providerCuit opt) ?t = ps" using m by (simp add: ps proveedores_def)
  moreover have "correos_guardados l ps es ?t" using g by (simp add: correos_guardados_def k)
  moreover have "\<forall>x \<in> set (comunicaciones ?t). sc_estado x = UNPROCESSED \<longrightarrow> sc_email_id x \<in> claves_com s"
    if "os_autoCandidates opt" using I1 that by (simp add: inv_correo_def)
  moreover have "\<exists>cfg'. sistema ?t = [cfg'] \<and> des (password_consulta cfg') = Some pw \<and> config_valida cfg'"
    using m cfg by (simp add: config_valida_def)
  ultimately show ?thesis
    using t av sub len q' k by (intro exI [of _ c] exI [of _ ?t]) simp
qed


section \<open>Example\<close>

definition lector0 :: lector where
  "lector0 = \<lparr>lr_cargar = \<lambda>_. Some [], lr_re_ext = \<lambda>_. None, lr_ref = \<lambda>_. [], lr_od = \<lambda>t. Some (length t - 1),
     lr_texto_id = \<lambda>i. replicate (Suc i) CHR ''x''\<rparr>"

definition correo0 :: correo_sync where
  "correo0 = \<lparr>ce_html = None, ce_text = Some ''x'', ce_subject = Some ''y'', ce_date = None,
     ce_messageId = Some ''m9'', ce_from = Some ''z''\<rparr>"

definition config_cam :: system_config where
  "config_cam = \<lparr>sy_id = 1, email_consulta = ''a'', password_consulta = ''pw'', host_imap = ''h'', port_imap = 993,
     secure = True, check_period_days = 15, fecha_ultima_consulta = None, sy_activo = True\<rparr>"

definition cam0 :: bd_cam where
  "cam0 = bd_sc.extend (bd_sc0\<lparr>sistema := [config_cam]\<rparr>) (bd_cam.fields False)"

definition env0 :: env_sync where
  "env0 = \<lparr>ev_email = None, ev_pwd = None, ev_host = None, ev_port = None, ev_secure = None\<rparr>"

definition opciones0 :: opciones_scan where
  "opciones0 = \<lparr>os_providerCuit = None, os_autoCandidates = True, os_tryExtractServiceId = None\<rparr>"

lemma cam0_campos:
  "comunicaciones cam0 = [com0]" "gastos cam0 = []" "prox_id cam0 = 100" "sistema cam0 = [config_cam]"
  "sc_isScanning cam0 = False"
  by (simp_all add: cam0_def bd_sc0_def bd_gas0_def bd_sc.defs bd_cam.defs bd_gas.defs bd_ct.defs bd_ct0_def)

lemma sin_fechas0: "fecha_en ''x y'' = None" "leer_vencimiento ''y x'' = None"
  by code_simp+

lemma correo0_leido:
  assumes "list_all (\<lambda>p. o_texto (servicio_id_regex p) [] = []) ps"
  shows "\<exists>d. leer_correo lector0 ps n correo0 = Some d \<and> clave_correo d = ''m9'' \<and> correo_valido d"
proof -
  have "(case proveedor_de f ps of None \<Rightarrow> [] | Some a \<Rightarrow> o_texto (servicio_id_regex a) []) = []" for f
    using assms by (auto simp: proveedor_de_def list_all_iff find_Some_iff split: option.split)
  then have "servicio_de (lr_re_ext lector0) (proveedor_de f ps) t = Some (captura 1 patron_servicio t)" for f t
    by (simp add: servicio_de_def)
  then show ?thesis
    using sin_fechas0
    by (simp add: leer_correo_def sc_parseEmail_def correo0_def lector0_def o_texto_def Let_def parseCamuzziEmail_def
        haystack_def fecha_venc_def clave_correo_def correo_valido_def com_leida_def)
qed


end
