(* ===== verification/ContractMigration.thy ===== *)
theory ContractMigration
  imports Contracts IndexValue
begin

text \<open>
  \<^verbatim>\<open>src/modules/contracts/contracts-migration.service.ts\<close>: the accounting entries of the contracts
  brought from the old system, as an opening balance with the entries to come or as the whole
  history. \<open>lx\<close> are the \<^verbatim>\<open>luxon\<close> operations, \<open>ix\<close> the index values (only read), \<open>tz\<close> the offset of
  local time and \<open>od\<close> the ids that texts denote. The loops over the months and over the periods
  have a bound, the days of the range, which is never reached when a month is at least a day
  (\<open>meses_hasta_completo\<close>, \<open>getAdjustmentPeriods_completo\<close>). The times of execution are left out.
\<close>

section \<open>State and arithmetic\<close>

record luxon_mig = luxon +
  lx_inicio_mes :: "fecha \<Rightarrow> fecha"
  lx_dd_mm_yyyy :: "fecha \<Rightarrow> string"
  lx_month :: "fecha \<Rightarrow> int"
  lx_year :: "fecha \<Rightarrow> int"

record bd_mig = bd_ct +
  mig_cache :: "(string \<rightharpoonup> oid) option"

definition MIG_ACCOUNTS :: "string list" where
  "MIG_ACCOUNTS = [''CXC_ALQ'', ''CXP_LOC'', ''ING_HNR'', ''PAS_DEP'', ''ACT_FID'']"

definition mig_loadAccountIds :: "('a bd_mig_scheme, unit) proc" where
  "mig_loadAccountIds =
     ebind (gets mig_cache) (\<lambda>c.
     case c of
       Some _ \<Rightarrow> ret ()
     | None \<Rightarrow> ebind (getAccountIdsByCode MIG_ACCOUNTS) (\<lambda>m. modify (\<lambda>s. s\<lparr>mig_cache := Some m\<rparr>)))"

text \<open>\<^verbatim>\<open>this.accountIdsCache[code]\<close>, after the cache is loaded.\<close>

definition cuenta_mig :: "string \<Rightarrow> 'a bd_mig_scheme \<Rightarrow> oid" where
  "cuenta_mig code s = (case mig_cache s of None \<Rightarrow> 0 | Some m \<Rightarrow> coalesce (m code) 0)"

definition roundToTwoDecimals :: "rat \<Rightarrow> rat" where
  "roundToTwoDecimals x = of_int (math_round (x * 100)) / 100"

section \<open>The periods between adjustments\<close>

record periodo_ajuste =
  pe_start :: fecha
  pe_end :: fecha
  pe_ajuste :: "fecha option"
  pe_months :: int

definition calculateMonthsBetween :: "luxon_mig \<Rightarrow> fecha \<Rightarrow> fecha \<Rightarrow> int" where
  "calculateMonthsBetween lx start end_f = \<lfloor>lx_meses lx end_f start\<rfloor>"

text \<open>The loop of the periods; \<open>None\<close> is a date that is invalid, which ends it.\<close>

fun periodos_desde :: "nat \<Rightarrow> luxon_mig \<Rightarrow> fecha \<Rightarrow> fecha \<Rightarrow> fecha option \<Rightarrow> periodo_ajuste list" where
  "periodos_desde 0 lx end_f current nextAdj = []"
| "periodos_desde (Suc n) lx end_f current nextAdj =
     (if current < end_f then
        let periodEnd = (case nextAdj of None \<Rightarrow> end_f | Some a \<Rightarrow> if a < end_f then a else end_f);
            months = calculateMonthsBetween lx current periodEnd;
            p = (if months > 0
                 then [\<lparr>pe_start = current, pe_end = periodEnd, pe_ajuste = nextAdj, pe_months = months\<rparr>] else [])
        in p @ (case nextAdj of None \<Rightarrow> [] | Some a \<Rightarrow> periodos_desde n lx end_f a (Some (lx_plus lx a 6 0)))
      else [])"

definition limite_periodos :: "fecha \<Rightarrow> fecha option \<Rightarrow> nat" where
  "limite_periodos end_f nextAdj =
     nat ((end_f - (case nextAdj of None \<Rightarrow> end_f | Some a \<Rightarrow> a)) div dia_ms) + 2"

definition getAdjustmentPeriods :: "luxon_mig \<Rightarrow> fecha \<Rightarrow> fecha \<Rightarrow> fecha option \<Rightarrow> periodo_ajuste list" where
  "getAdjustmentPeriods lx start end_f firstAdj =
     periodos_desde (limite_periodos end_f firstAdj) lx end_f start firstAdj"

section \<open>Indices\<close>

text \<open>The periods that are compared have valid dates; an invalid one would find nothing.\<close>

definition getIndexValueForDate :: "int \<Rightarrow> bd_idx \<Rightarrow> string \<Rightarrow> fecha option \<Rightarrow> excepcion + rat option" where
  "getIndexValueForDate tz ix tipo date =
     (case date of
        None \<Rightarrow> Inr None
      | Some d \<Rightarrow>
          if tipo = ''ICL'' then fst (getLatestICLValueBeforeDate d ix)
          else if tipo = ''IPC'' then
            (case fst (getLatestIPCValueBeforeDate tz d ix) of Inl e \<Rightarrow> Inl e | Inr v \<Rightarrow> Inr (Some v))
          else Inr None)"

text \<open>\<^verbatim>\<open>if (base && adjustment)\<close>: a zero counts as missing.\<close>

definition ajustar :: "rat option \<Rightarrow> rat option \<Rightarrow> rat \<Rightarrow> rat" where
  "ajustar base adj m =
     (if o_cero base \<noteq> 0 \<and> o_cero adj \<noteq> 0 then roundToTwoDecimals (m * (o_cero adj / o_cero base)) else m)"

definition ajuste_periodo :: "int \<Rightarrow> bd_idx \<Rightarrow> string \<Rightarrow> periodo_ajuste \<Rightarrow> rat \<Rightarrow> rat" where
  "ajuste_periodo tz ix tipo p m =
     (case (getIndexValueForDate tz ix tipo (Some (pe_start p)), getIndexValueForDate tz ix tipo (pe_ajuste p)) of
        (Inr base, Inr adj) \<Rightarrow> ajustar base adj m
      | _ \<Rightarrow> m)"

fun devengar :: "int \<Rightarrow> bd_idx \<Rightarrow> string \<Rightarrow> periodo_ajuste list \<Rightarrow> rat \<Rightarrow> rat \<Rightarrow> rat" where
  "devengar tz ix tipo [] totalAccrued currentAmount = totalAccrued"
| "devengar tz ix tipo (p # ps) totalAccrued currentAmount =
     devengar tz ix tipo ps (totalAccrued + roundToTwoDecimals (currentAmount * of_int (pe_months p)))
       (if ps = [] then currentAmount else ajuste_periodo tz ix tipo p currentAmount)"

definition calculateAccruedAmount :: "luxon_mig \<Rightarrow> int \<Rightarrow> bd_idx \<Rightarrow> contrato \<Rightarrow> fecha \<Rightarrow> fecha \<Rightarrow> rat" where
  "calculateAccruedAmount lx tz ix c start end_f =
     (let t = terminos_financieros c in
      if indice_tipo t = ''FIJO''
      then roundToTwoDecimals (monto_base_vigente t * of_int (calculateMonthsBetween lx start end_f))
      else roundToTwoDecimals (devengar tz ix (indice_tipo t)
             (getAdjustmentPeriods lx start end_f (ajuste_programado c)) 0 (monto_base_vigente t)))"

section \<open>Entries\<close>

definition partida_mig :: "oid \<Rightarrow> texto \<Rightarrow> monto \<Rightarrow> monto \<Rightarrow> oid option \<Rightarrow> partida" where
  "partida_mig cta desc d h ag =
     \<lparr>cuenta_id = cta, p_descripcion = desc, debe = d, haber = h, p_agente_id = ag,
      monto_pagado_acumulado = None, monto_liquidado = None, es_iva_incluido = False,
      tasa_iva_aplicada = Some 0, monto_base_imponible = Some 0, monto_iva_calculado = Some 0\<rparr>"

definition dto_mig ::
  "contrato \<Rightarrow> oid \<Rightarrow> string \<Rightarrow> fecha \<Rightarrow> fecha \<Rightarrow> texto \<Rightarrow> (string \<times> valor_meta) list option \<Rightarrow> partida list \<Rightarrow> monto \<Rightarrow> asiento_dto" where
  "dto_mig c userId tipo fecha_imp vencimiento desc meta ps m =
     \<lparr>d_contrato_id = Some (ct_id c), d_fecha_imputacion = Some fecha_imp, d_fecha_vencimiento = Some vencimiento,
      d_descripcion = Some desc, d_tipo_asiento = Some tipo, d_metadata = meta, d_estado = None,
      d_monto_original = Some m, d_monto_actual = Some m, d_partidas = Some ps,
      d_usuario_creacion_id = Some userId, d_usuario_modificacion_id = Some userId, d_historial = []\<rparr>"

text \<open>
  The commission of a contract without a percentage is \<^verbatim>\<open>NaN\<close>: no document with it passes the
  validation. \<open>crear_mig\<close> takes the entry, or nothing for one with \<^verbatim>\<open>NaN\<close> in it; in a dry run
  nothing is created.
\<close>

definition crear_mig :: "bool \<Rightarrow> asiento_dto option \<Rightarrow> ('a bd_mig_scheme, unit) proc" where
  "crear_mig dryRun d =
     (if dryRun then ret ()
      else case d of
        None \<Rightarrow> ebind nuevo_id (\<lambda>_. raise (ErrorJS ''AccountingEntry validation failed'' []))
      | Some dto \<Rightarrow> ebind (create dto) (\<lambda>_. ret ()))"

definition tasa_mig :: "contrato \<Rightarrow> rat option" where
  "tasa_mig c = map_option (\<lambda>p. p / 100) (comision_administracion_porcentaje (terminos_financieros c))"

text \<open>\<^verbatim>\<open>partes.find(...)\<close> and the access to its \<^verbatim>\<open>agente_id\<close>, which throws when there is none.\<close>

definition agente_o_error :: "agente_rol \<Rightarrow> contrato \<Rightarrow> ('s, oid) proc" where
  "agente_o_error r c =
     (case agente_con_rol r c of
        None \<Rightarrow> raise (ErrorJS ''Cannot read properties of undefined'' [])
      | Some i \<Rightarrow> ret i)"

section \<open>The opening balance\<close>

definition partidas_apertura ::
  "luxon_mig \<Rightarrow> contrato \<Rightarrow> fecha \<Rightarrow> rat \<Rightarrow> rat \<Rightarrow> oid \<Rightarrow> oid \<Rightarrow> 'a bd_mig_scheme \<Rightarrow> partida list" where
  "partidas_apertura lx c today accrued tasa locador locatario s =
     (let comisionTotal = roundToTwoDecimals (accrued * tasa);
          netoLocador = roundToTwoDecimals (accrued - comisionTotal)
      in [(partida_mig (cuenta_mig ''CXC_ALQ'' s) (''Saldo apertura - Deuda acumulada ({} - {})'',
             [AStr (lx_mm_yyyy lx (fecha_inicio c)), AStr (lx_mm_yyyy lx today)])
             (roundToTwoDecimals accrued) 0 (Some locatario))\<lparr>monto_pagado_acumulado := Some 0\<rparr>,
          partida_mig (cuenta_mig ''CXP_LOC'' s) (''Saldo apertura - Credito acumulado locador (neto {}%)'',
             [ANum (100 - tasa * 100)]) 0 netoLocador (Some locador),
          partida_mig (cuenta_mig ''ING_HNR'' s) (''Saldo apertura - Comision acumulada ({}%)'',
             [ANum (tasa * 100)]) 0 comisionTotal None])"

definition generateOpeningBalanceEntry ::
  "luxon_mig \<Rightarrow> int \<Rightarrow> bd_idx \<Rightarrow> contrato \<Rightarrow> oid \<Rightarrow> bool \<Rightarrow> ('a bd_mig_scheme, monto) proc" where
  "generateOpeningBalanceEntry lx tz ix c userId dryRun =
     ebind (gets ahora) (\<lambda>today.
     if today < fecha_inicio c then ret 0
     else
     let accruedAmount = calculateAccruedAmount lx tz ix c (fecha_inicio c) today in
     if accruedAmount = 0 then ret 0
     else
     case (agente_con_rol LOCADOR c, agente_con_rol LOCATARIO c) of
       (Some locador, Some locatario) \<Rightarrow>
         ebind (gets (\<lambda>s. map_option (\<lambda>tasa.
           let ps = partidas_apertura lx c today accruedAmount tasa locador locatario s in
           dto_mig c userId ''SALDO_APERTURA_DEVENGADO'' today today
             (''Saldo de apertura - Alquileres devengados hasta {}'', [AStr (lx_dd_mm_yyyy lx today)])
             None ps (totalDebe ps)) (tasa_mig c))) (\<lambda>d.
         ebind (crear_mig dryRun d) (\<lambda>_.
         ret (roundToTwoDecimals accruedAmount)))
     | _ \<Rightarrow> raise (BadRequestException ''Contrato {} no tiene locador o locatario definido'' [AId (ct_id c)]))"

section \<open>The months of a contract\<close>

text \<open>The values of \<^verbatim>\<open>fechaActual\<close>.\<close>

fun meses_desde :: "nat \<Rightarrow> luxon_mig \<Rightarrow> fecha \<Rightarrow> fecha \<Rightarrow> fecha list" where
  "meses_desde 0 lx fin t = []"
| "meses_desde (Suc n) lx fin t = (if t < fin then t # meses_desde n lx fin (lx_plus lx t 1 0) else [])"

definition meses_hasta :: "luxon_mig \<Rightarrow> fecha \<Rightarrow> fecha \<Rightarrow> fecha list" where
  "meses_hasta lx fin t = meses_desde (nat ((fin - t) div dia_ms) + 1) lx fin t"

text \<open>The three lines of a rent: the debt of the tenant, the credit of the owner and the commission;
  \<open>textos\<close> are their descriptions. The history writes \<^verbatim>\<open>monto_pagado_acumulado: 0\<close> in the first
  line, which is what \<open>create\<close> fills in when it is missing.\<close>

definition partidas_alquiler ::
  "rat \<Rightarrow> rat \<Rightarrow> texto \<times> texto \<times> texto \<Rightarrow> monto \<Rightarrow> oid \<Rightarrow> oid \<Rightarrow> 'a bd_mig_scheme \<Rightarrow> partida list" where
  "partidas_alquiler m tasa textos dm locador locatario s =
     (let comision = roundToTwoDecimals (m * tasa);
          netoLocador = roundToTwoDecimals (m - comision)
      in [partida_mig (cuenta_mig ''CXC_ALQ'' s) (fst textos) dm 0 (Some locatario),
          partida_mig (cuenta_mig ''CXP_LOC'' s) (fst (snd textos)) 0 netoLocador (Some locador),
          partida_mig (cuenta_mig ''ING_HNR'' s) (snd (snd textos)) 0 comision None])"

text \<open>The counter and the total of a loop.\<close>

type_synonym cuenta_total = "nat \<times> rat"

definition textos_futuro :: "luxon_mig \<Rightarrow> fecha \<Rightarrow> texto \<times> texto \<times> texto" where
  "textos_futuro lx t =
     (let m = [AStr (lx_mm_yyyy lx t)]
      in ((''Alquiler {}'', m), (''Credito por alquiler {}'', m), (''Honorarios por alquiler {}'', m)))"

definition mes_futuro ::
  "luxon_mig \<Rightarrow> contrato \<Rightarrow> oid \<Rightarrow> bool \<Rightarrow> fecha \<Rightarrow> cuenta_total \<Rightarrow> ('a bd_mig_scheme, cuenta_total) proc" where
  "mes_futuro lx c userId dryRun t acc =
     (let m = monto_base_vigente (terminos_financieros c) in
     ebind (agente_o_error LOCATARIO c) (\<lambda>locatario.
     ebind (agente_o_error LOCADOR c) (\<lambda>locador.
     ebind (gets (\<lambda>s. map_option (\<lambda>tasa.
       dto_mig c userId ''Alquiler'' t (lx_plus lx t 0 10)
         (''Devengamiento alquiler {}'', [AStr (lx_mm_yyyy lx t)]) None
         (partidas_alquiler m tasa (textos_futuro lx t) (roundToTwoDecimals m) locador locatario s)
         (roundToTwoDecimals m)) (tasa_mig c))) (\<lambda>d.
     ebind (crear_mig dryRun d) (\<lambda>_.
     ret (fst acc + 1, roundToTwoDecimals (snd acc + m)))))))"

definition generateFutureEntries ::
  "luxon_mig \<Rightarrow> contrato \<Rightarrow> oid \<Rightarrow> bool \<Rightarrow> ('a bd_mig_scheme, cuenta_total) proc" where
  "generateFutureEntries lx c userId dryRun =
     ebind (gets ahora) (\<lambda>today.
     if today \<ge> fecha_final c then ret (0, 0)
     else
     ebind (fold_each (mes_futuro lx c userId dryRun)
       (meses_hasta lx (fecha_final c) (lx_plus lx (lx_inicio_mes lx today) 1 0)) (0, 0)) (\<lambda>r.
     ret (fst r, roundToTwoDecimals (snd r))))"

section \<open>The whole history\<close>

definition ref_propiedad :: "propiedad option \<Rightarrow> string" where
  "ref_propiedad p =
     (case p of
        None \<Rightarrow> ''N/A''
      | Some q \<Rightarrow> o_texto (map_option calle (direccion q)) (o_texto (Some (identificador_interno q)) ''N/A''))"

record historia =
  hs_count :: nat
  hs_total :: rat
  hs_monto :: rat
  hs_periodo :: nat

text \<open>The change of period: the index at the start of the period that ends and the one at the
  adjustment date of the period that begins.\<close>

definition cambio_periodo ::
  "int \<Rightarrow> bd_idx \<Rightarrow> string \<Rightarrow> periodo_ajuste list \<Rightarrow> fecha \<Rightarrow> historia \<Rightarrow> excepcion + historia" where
  "cambio_periodo tz ix tipo periods t h =
     (let i = hs_periodo h in
      if periods \<noteq> [] \<and> t \<ge> pe_end (periods ! i) \<and> i < length periods - 1
      then (case getIndexValueForDate tz ix tipo (Some (pe_start (periods ! i))) of
              Inl e \<Rightarrow> Inl e
            | Inr base \<Rightarrow>
                (case getIndexValueForDate tz ix tipo (pe_ajuste (periods ! (i + 1))) of
                   Inl e \<Rightarrow> Inl e
                 | Inr adj \<Rightarrow> Inr (h\<lparr>hs_periodo := i + 1, hs_monto := ajustar base adj (hs_monto h)\<rparr>)))
      else Inr h)"

definition textos_historia :: "luxon_mig \<Rightarrow> string \<Rightarrow> fecha \<Rightarrow> texto \<times> texto \<times> texto" where
  "textos_historia lx ref t =
     (let m = [AStr ref, AStr (lx_mm_yyyy lx t)]
      in ((''Alquiler a cobrar - {} - {}'', m), (''Alquiler a pagar al locador - {} - {}'', m),
          (''Comision administracion - {} - {}'', m)))"

definition mes_historia ::
  "luxon_mig \<Rightarrow> int \<Rightarrow> bd_idx \<Rightarrow> contrato \<Rightarrow> oid \<Rightarrow> bool \<Rightarrow> string \<Rightarrow> int \<Rightarrow> periodo_ajuste list \<Rightarrow> fecha \<Rightarrow> historia \<Rightarrow>
   ('a bd_mig_scheme, historia) proc" where
  "mes_historia lx tz ix c userId dryRun ref totalMeses periods t h0 =
     ebind (lift_result (cambio_periodo tz ix (indice_tipo (terminos_financieros c)) periods t h0)) (\<lambda>h.
     ebind (agente_o_error LOCATARIO c) (\<lambda>locatario.
     ebind (agente_o_error LOCADOR c) (\<lambda>locador.
     let m = hs_monto h; numeroCuota = hs_count h + 1 in
     ebind (gets (\<lambda>s. map_option (\<lambda>tasa.
       dto_mig c userId ''Alquiler'' t (lx_plus lx t 0 10)
         (''Alquiler {} - Periodo {}/{} - {}'',
          [AStr (lx_mm_yyyy lx t), ANum (of_nat numeroCuota), ANum (of_int totalMeses), AStr ref])
         (Some [(''periodo'', MNum (of_nat numeroCuota)), (''mes'', MNum (of_int (lx_month lx t))),
                (''anio'', MNum (of_int (lx_year lx t)))])
         (partidas_alquiler m tasa (textos_historia lx ref t) m locador locatario s)
         (roundToTwoDecimals m)) (tasa_mig c))) (\<lambda>d.
     ebind (crear_mig dryRun d) (\<lambda>_.
     ret (h\<lparr>hs_count := numeroCuota, hs_total := roundToTwoDecimals (hs_total h + m)\<rparr>))))))"

datatype parte_honorarios = HON_LOCADOR | HON_LOCATARIO

definition dto_honorarios ::
  "luxon_mig \<Rightarrow> contrato \<Rightarrow> oid \<Rightarrow> string \<Rightarrow> parte_honorarios \<Rightarrow> nat \<Rightarrow> monto \<Rightarrow> nat \<Rightarrow> oid \<Rightarrow> 'a bd_mig_scheme \<Rightarrow> asiento_dto" where
  "dto_honorarios lx c userId ref pte cuotas m i ag s =
     (let fechaHonorario = lx_plus lx (fecha_inicio c) (int i) 0;
          n = ANum (of_nat (i + 1)); k = ANum (of_nat cuotas); esLocador = (pte = HON_LOCADOR);
          datos = [AStr ref, n, k]
      in dto_mig c userId (if esLocador then ''Honorarios Locador'' else ''Honorarios Locatario'')
           fechaHonorario (lx_plus lx fechaHonorario 0 10)
           (if esLocador then ''Honorarios Locador - Cuota {}/{} - {}'' else ''Honorarios Locatario - Cuota {}/{} - {}'',
            [n, k, AStr ref])
           (Some [(''periodo'', MNum (of_nat (i + 1))),
                  (''tipo_honorario'', MStr (if esLocador then ''locador'' else ''locatario'', []))])
           [partida_mig (cuenta_mig (if esLocador then ''CXP_LOC'' else ''CXC_ALQ'') s)
              (if esLocador then ''Descuento honorarios locador - {} - Cuota {}/{}''
               else ''Cargo honorarios locatario - {} - Cuota {}/{}'', datos) m 0 (Some ag),
            partida_mig (cuenta_mig ''ING_HNR'' s)
              (if esLocador then ''Ingreso honorarios locador - {} - Cuota {}/{}''
               else ''Ingreso honorarios locatario - {} - Cuota {}/{}'', datos) 0 m None] m)"

definition rol_honorarios :: "parte_honorarios \<Rightarrow> agente_rol" where
  "rol_honorarios p = (case p of HON_LOCADOR \<Rightarrow> LOCADOR | HON_LOCATARIO \<Rightarrow> LOCATARIO)"

text \<open>The instalments of one party, when there is something to pay.\<close>

definition cuotas_historia ::
  "luxon_mig \<Rightarrow> contrato \<Rightarrow> oid \<Rightarrow> bool \<Rightarrow> string \<Rightarrow> parte_honorarios \<Rightarrow> nat \<Rightarrow> monto \<Rightarrow> nat \<Rightarrow> ('a bd_mig_scheme, nat) proc" where
  "cuotas_historia lx c userId dryRun ref pte cuotas m n0 =
     (if m > 0
      then fold_each (\<lambda>i n.
             ebind (if dryRun then ret ()
                    else ebind (agente_o_error (rol_honorarios pte) c) (\<lambda>ag.
                         ebind (gets (dto_honorarios lx c userId ref pte cuotas m i ag)) (\<lambda>d.
                         crear_mig False (Some d)))) (\<lambda>_. ret (n + 1))) [0..<cuotas] n0
      else ret n0)"

definition o_uno :: "nat option \<Rightarrow> nat" where
  "o_uno x = (if coalesce x 0 = 0 then 1 else coalesce x 0)"

definition totalMesesContrato :: "luxon_mig \<Rightarrow> contrato \<Rightarrow> int" where
  "totalMesesContrato lx c = \<lceil>lx_meses lx (fecha_final c) (fecha_inicio c)\<rceil>"

definition honorario_por_cuota :: "luxon_mig \<Rightarrow> contrato \<Rightarrow> rat option \<Rightarrow> nat \<Rightarrow> rat" where
  "honorario_por_cuota lx c porcentaje cuotas =
     (let montoTotalContrato = roundToTwoDecimals (monto_base_vigente (terminos_financieros c) * of_int (totalMesesContrato lx c));
          honorariosTotal = roundToTwoDecimals (montoTotalContrato * o_cero porcentaje / 100)
      in roundToTwoDecimals (honorariosTotal / of_nat cuotas))"

definition periodos_historia :: "luxon_mig \<Rightarrow> contrato \<Rightarrow> periodo_ajuste list" where
  "periodos_historia lx c =
     (if indice_tipo (terminos_financieros c) \<noteq> ''FIJO'' \<and> ajuste_programado c \<noteq> None
      then getAdjustmentPeriods lx (fecha_inicio c) (fecha_final c) (ajuste_programado c) else [])"

definition generateFullHistoricalEntries ::
  "luxon_mig \<Rightarrow> int \<Rightarrow> bd_idx \<Rightarrow> contrato \<Rightarrow> oid \<Rightarrow> bool \<Rightarrow> ('a bd_mig_scheme, cuenta_total) proc" where
  "generateFullHistoricalEntries lx tz ix c userId dryRun =
     ebind (gets (\<lambda>s. ref_propiedad (propiedad_de_contrato c s))) (\<lambda>ref.
     let t = terminos_financieros c;
         cuotasLocador = o_uno (honorarios_locador_cuotas t);
         cuotasLocatario = o_uno (honorarios_locatario_cuotas t);
         porLocador = honorario_por_cuota lx c (honorarios_locador_porcentaje t) cuotasLocador;
         porLocatario = honorario_por_cuota lx c (honorarios_locatario_porcentaje t) cuotasLocatario
     in
     ebind (fold_each (mes_historia lx tz ix c userId dryRun ref (totalMesesContrato lx c) (periodos_historia lx c))
       (meses_hasta lx (fecha_final c) (fecha_inicio c))
       \<lparr>hs_count = 0, hs_total = 0, hs_monto = monto_base_vigente t, hs_periodo = 0\<rparr>) (\<lambda>h.
     ebind (cuotas_historia lx c userId dryRun ref HON_LOCADOR cuotasLocador porLocador (hs_count h)) (\<lambda>n1.
     ebind (cuotas_historia lx c userId dryRun ref HON_LOCATARIO cuotasLocatario porLocatario n1) (\<lambda>n2.
     ret (n2, roundToTwoDecimals (hs_total h))))))"

section \<open>The deposit\<close>

definition mig_generateDepositEntry :: "contrato \<Rightarrow> oid \<Rightarrow> bool \<Rightarrow> monto \<Rightarrow> ('a bd_mig_scheme, unit) proc" where
  "mig_generateDepositEntry c userId dryRun m0 =
     (let m = roundToTwoDecimals m0 in
     ebind (agente_o_error LOCATARIO c) (\<lambda>locatario.
     ebind (gets (\<lambda>s. dto_mig c userId ''Deposito en Garantia - Cobro'' (fecha_inicio c) (fecha_inicio c)
       (''Cobro de deposito en garantia al locatario'', [])
       (Some [(''periodo'', MNum 0), (''tipo'', MStr (''cobro'', []))])
       [partida_mig (cuenta_mig ''CXC_ALQ'' s) (''Deposito en garantia a cobrar al locatario'', []) m 0 (Some locatario),
        partida_mig (cuenta_mig ''ACT_FID'' s) (''Ingreso de deposito en garantia a caja/banco fiduciaria'', []) 0 m None] m)) (\<lambda>d1.
     ebind (crear_mig dryRun (Some d1)) (\<lambda>_.
     ebind (agente_o_error LOCADOR c) (\<lambda>locador.
     ebind (gets (\<lambda>s. dto_mig c userId ''Deposito en Garantia - Devolucion'' (fecha_final c) (fecha_final c)
       (''Devolucion de deposito en garantia al locador'', [])
       (Some [(''periodo'', MNum 0), (''tipo'', MStr (''devolucion'', []))])
       [partida_mig (cuenta_mig ''ACT_FID'' s) (''Egreso de deposito en garantia desde caja/banco'', []) m 0 None,
        partida_mig (cuenta_mig ''PAS_DEP'' s) (''Deposito en garantia a devolver al locador'', []) 0 m (Some locador)] m)) (\<lambda>d2.
     crear_mig dryRun (Some d2)))))))"

section \<open>The migration\<close>

datatype estrategia = OPENING_BALANCE | FULL_HISTORY

record resultado_mig =
  mr_success :: bool
  mr_contractId :: oid
  mr_error :: "excepcion option"
  mr_asientos :: "nat option"
  mr_monto :: "rat option"

definition asientos_de_contrato :: "oid \<Rightarrow> 'a bd_asi_scheme \<Rightarrow> asiento list" where
  "asientos_de_contrato i s = filter (\<lambda>a. contrato_id a = Some i) (asientos s)"

definition revisar_existentes :: "contrato \<Rightarrow> bool \<Rightarrow> bool \<Rightarrow> ('a bd_mig_scheme, unit) proc" where
  "revisar_existentes c dryRun deleteExisting =
     ebind (gets (asientos_de_contrato (ct_id c))) (\<lambda>existentes.
     if existentes = [] then ret ()
     else if deleteExisting
     then (if dryRun then ret () else modify (con_asientos (delete_many (\<lambda>a. contrato_id a = Some (ct_id c)))))
     else raise (BadRequestException ''El contrato {} ya tiene asientos contables generados'' [AId (ct_id c)]))"

definition processContract ::
  "luxon_mig \<Rightarrow> int \<Rightarrow> bd_idx \<Rightarrow> oid \<Rightarrow> bool \<Rightarrow> estrategia \<Rightarrow> bool \<Rightarrow> contrato \<Rightarrow> ('a bd_mig_scheme, resultado_mig) proc" where
  "processContract lx tz ix userId dryRun strategy deleteExisting c =
     ebind (revisar_existentes c dryRun deleteExisting) (\<lambda>_.
     ebind (case strategy of
         OPENING_BALANCE \<Rightarrow>
           ebind (generateOpeningBalanceEntry lx tz ix c userId dryRun) (\<lambda>m.
           ebind (generateFutureEntries lx c userId dryRun) (\<lambda>r.
           ret (1 + fst r, roundToTwoDecimals (roundToTwoDecimals m + snd r))))
       | FULL_HISTORY \<Rightarrow>
           ebind (generateFullHistoricalEntries lx tz ix c userId dryRun) (\<lambda>r.
           ret (fst r, roundToTwoDecimals (snd r)))) (\<lambda>r.
     ebind (if o_cero (deposito_monto c) > 0
            then ebind (mig_generateDepositEntry c userId dryRun (o_cero (deposito_monto c))) (\<lambda>_. ret (fst r + 1))
            else ret (fst r)) (\<lambda>n.
     ret \<lparr>mr_success = True, mr_contractId = ct_id c, mr_error = None, mr_asientos = Some n,
          mr_monto = Some (roundToTwoDecimals (snd r))\<rparr>)))"

record opciones_mig =
  om_contractIds :: "string list option"
  om_dryRun :: bool
  om_strategy :: "estrategia option"
  om_deleteExisting :: bool

record resumen_mig =
  rm_totalContracts :: nat
  rm_successCount :: nat
  rm_failureCount :: nat
  rm_totalAmount :: rat
  rm_results :: "resultado_mig list"

definition getContractsToMigrate ::
  "(string \<Rightarrow> oid option) \<Rightarrow> string list option \<Rightarrow> ('a bd_mig_scheme, contrato list) proc" where
  "getContractsToMigrate od contractIds =
     (if coalesce contractIds [] = [] then gets contratos
      else ebind (for_each (\<lambda>t. case od t of None \<Rightarrow> raise (ErrorJS ''BSONError'' [AStr t]) | Some i \<Rightarrow> ret i)
             (coalesce contractIds [])) (\<lambda>ids.
           gets (\<lambda>s. filter (\<lambda>c. ct_id c \<in> set ids) (contratos s))))"

definition resultado_o_error ::
  "luxon_mig \<Rightarrow> int \<Rightarrow> bd_idx \<Rightarrow> oid \<Rightarrow> opciones_mig \<Rightarrow> contrato \<Rightarrow> ('a bd_mig_scheme, resultado_mig) proc" where
  "resultado_o_error lx tz ix userId opt c =
     try_catch (processContract lx tz ix userId (om_dryRun opt) (coalesce (om_strategy opt) FULL_HISTORY)
         (om_deleteExisting opt) c)
       (\<lambda>e. ret \<lparr>mr_success = False, mr_contractId = ct_id c, mr_error = Some e, mr_asientos = None, mr_monto = None\<rparr>)"

definition generateAccountingEntriesForMigratedContracts ::
  "luxon_mig \<Rightarrow> int \<Rightarrow> bd_idx \<Rightarrow> (string \<Rightarrow> oid option) \<Rightarrow> oid \<Rightarrow> opciones_mig \<Rightarrow> ('a bd_mig_scheme, resumen_mig) proc" where
  "generateAccountingEntriesForMigratedContracts lx tz ix od userId opt =
     ebind mig_loadAccountIds (\<lambda>_.
     ebind (getContractsToMigrate od (om_contractIds opt)) (\<lambda>cs.
     ebind (for_each (resultado_o_error lx tz ix userId opt) cs) (\<lambda>rs.
     ret \<lparr>rm_totalContracts = length cs, rm_successCount = length (filter mr_success rs),
          rm_failureCount = length (filter (\<lambda>r. \<not> mr_success r) rs),
          rm_totalAmount = (\<Sum>r\<leftarrow>filter mr_success rs. o_cero (mr_monto r)), rm_results = rs\<rparr>)))"

definition getContractsWithoutEntries :: "('a bd_mig_scheme, contrato list) proc" where
  "getContractsWithoutEntries =
     gets (\<lambda>s. filter (\<lambda>c. ct_status c = C_VIGENTE \<and> asientos_de_contrato (ct_id c) s = []) (contratos s))"

end
