(* ===== verification/MigrationProperties.thy ===== *)
theory MigrationProperties
  imports ContractMigration ContractPreview ContractExamples "HOL-Library.Sublist"
begin

text \<open>
  What the migration of contracts guarantees: a dry run predicts the real one, the entries it writes
  are balanced and belong to the contract, its loops end, and its two strategies adjust the rent
  with different indices.
\<close>

section \<open>The loops end\<close>

definition mes_avanza :: "luxon_mig \<Rightarrow> bool" where
  "mes_avanza lx \<longleftrightarrow> (\<forall>t m. 1 \<le> m \<longrightarrow> t + dia_ms \<le> lx_plus lx t m 0)"

lemma dia_ms_pos: "0 < dia_ms"
  by (simp add: dia_ms_def)

lemma dias_menos: "t + dia_ms \<le> u \<Longrightarrow> (fin - u) div dia_ms \<le> (fin - t) div dia_ms - 1"
proof -
  assume "t + dia_ms \<le> u"
  then have "(fin - u) div dia_ms \<le> (fin - t + - 1 * dia_ms) div dia_ms"
    using dia_ms_pos by (intro zdiv_mono1) auto
  also have "\<dots> = (fin - t) div dia_ms - 1"
    using dia_ms_pos by (subst div_mult_self1) auto
  finally show ?thesis .
qed

text \<open>More steps than the days of the range change nothing: the list is the one of the loop.\<close>

lemma meses_desde_completo:
  assumes "mes_avanza lx" and "(fin - t) div dia_ms < int n"
  shows "periodos (luxon.truncate lx) fin t ts = Some (ts @ meses_desde n lx fin t)"
  using assms(2)
proof (induction n arbitrary: t ts)
  case 0
  then have "fin \<le> t" using pos_imp_zdiv_neg_iff [OF dia_ms_pos, of "fin - t"] by simp
  then show ?case by (simp add: periodos.simps)
next
  case (Suc n)
  show ?case
  proof (cases "t < fin")
    case False
    then show ?thesis by (simp add: periodos.simps)
  next
    case True
    let ?u = "lx_plus lx t 1 0"
    have "t + dia_ms \<le> ?u" using assms(1) by (simp add: mes_avanza_def)
    from dias_menos [OF this, of fin] have "(fin - ?u) div dia_ms < int n" using Suc.prems by simp
    from Suc.IH [OF this, of "ts @ [t]"] True show ?thesis
      by (subst periodos.simps) (simp add: luxon.defs)
  qed
qed

lemma meses_hasta_completo:
  "mes_avanza lx \<Longrightarrow> periodos (luxon.truncate lx) fin t [] = Some (meses_hasta lx fin t)"
  unfolding meses_hasta_def using meses_desde_completo [of lx fin t "nat ((fin - t) div dia_ms) + 1" "[]"] by simp

text \<open>The periods: the bound is not reached either.\<close>

lemma periodos_desde_completo:
  assumes "mes_avanza lx" and "(end_f - a) div dia_ms < int n" and "Suc n \<le> k"
  shows "periodos_desde k lx end_f current (Some a) = periodos_desde (Suc n) lx end_f current (Some a)"
  using assms(2,3)
proof (induction n arbitrary: k a current)
  case 0
  then have a: "end_f \<le> a" using pos_imp_zdiv_neg_iff [OF dia_ms_pos, of "end_f - a"] by simp
  obtain j where k: "k = Suc j" using 0 by (cases k) auto
  have "periodos_desde m lx end_f a b = []" for m b using a by (cases m) auto
  then show ?case by (simp add: k Let_def)
next
  case (Suc n)
  then obtain j where k: "k = Suc j" "Suc n \<le> j" by (cases k) auto
  let ?u = "lx_plus lx a 6 0"
  have "a + dia_ms \<le> ?u" using assms(1) by (simp add: mes_avanza_def)
  from dias_menos [OF this, of end_f] have "(end_f - ?u) div dia_ms < int n" using Suc.prems by simp
  from Suc.IH [OF this k(2)] have "periodos_desde j lx end_f a (Some ?u) = periodos_desde (Suc n) lx end_f a (Some ?u)" .
  then show ?case unfolding k(1) periodos_desde.simps(2) [where n = j] periodos_desde.simps(2) [where n = "Suc n"]
    by (simp only: option.case)
qed

lemma getAdjustmentPeriods_completo:
  assumes "mes_avanza lx" and "limite_periodos end_f nextAdj \<le> k"
  shows "periodos_desde k lx end_f start nextAdj = getAdjustmentPeriods lx start end_f nextAdj"
proof (cases nextAdj)
  case None
  then obtain j where "k = Suc j" using assms(2) by (cases k) (auto simp: limite_periodos_def)
  then show ?thesis using None by (simp add: getAdjustmentPeriods_def limite_periodos_def)
next
  case (Some a)
  let ?n = "nat ((end_f - a) div dia_ms) + 1"
  have l: "limite_periodos end_f nextAdj = Suc ?n" by (simp add: limite_periodos_def Some)
  have n: "(end_f - a) div dia_ms < int ?n" by simp
  have k: "Suc ?n \<le> k" using assms(2) l by simp
  show ?thesis
    unfolding getAdjustmentPeriods_def l unfolding Some by (rule periodos_desde_completo [OF assms(1) n k])
qed

section \<open>A dry run predicts the real one\<close>

text \<open>States that agree on what the generation reads.\<close>

definition igual_mig :: "'a bd_mig_scheme \<Rightarrow> 'a bd_mig_scheme \<Rightarrow> bool" where
  "igual_mig t s \<longleftrightarrow> ahora t = ahora s \<and> mig_cache t = mig_cache s \<and> propiedades t = propiedades s"

lemma con_asientos_mig [simp]:
  "mig_cache (con_asientos f s) = mig_cache s" "propiedades (con_asientos f u) = propiedades u"
  "contratos (con_asientos f v) = contratos v"
  by (simp_all add: con_asientos_def)

definition predice ::
  "('a bd_mig_scheme, 'b) proc \<Rightarrow> ('a bd_mig_scheme, 'b) proc \<Rightarrow> bool" where
  "predice d r \<longleftrightarrow> (\<forall>s t x s'. igual_mig t s \<longrightarrow> r s = (Inr x, s') \<longrightarrow> d t = (Inr x, t) \<and> igual_mig t s')"

lemma prediceD: "predice d r \<Longrightarrow> igual_mig t s \<Longrightarrow> r s = (Inr x, s') \<Longrightarrow> d t = (Inr x, t) \<and> igual_mig t s'"
  unfolding predice_def by blast

lemma predice_ret: "predice (ret x) (ret x)"
  by (simp add: predice_def ret_def)

lemma predice_raise: "predice d (raise e)"
  by (simp add: predice_def raise_def)

lemma predice_lift: "predice (lift_result x) (lift_result x)"
  by (simp add: predice_def lift_result_def)

lemma predice_gets: "(\<And>s t. igual_mig t s \<Longrightarrow> f t = f s) \<Longrightarrow> predice (gets f) (gets f)"
  by (simp add: predice_def gets_def)

lemma predice_ebind:
  assumes "predice d r" and "\<And>x. predice (kd x) (kr x)"
  shows "predice (ebind d kd) (ebind r kr)"
proof (unfold predice_def, intro allI impI)
  fix s t x s' assume i: "igual_mig t s" and run: "ebind r kr s = (Inr x, s')"
  then obtain y u where r: "r s = (Inr y, u)" "kr y u = (Inr x, s')"
    by (auto simp: ebind_def split: prod.splits sum.splits)
  from prediceD [OF assms(1) i r(1)] have d: "d t = (Inr y, t)" "igual_mig t u" by simp_all
  from prediceD [OF assms(2) d(2) r(2)] show "ebind d kd t = (Inr x, t) \<and> igual_mig t s'"
    using d(1) by (simp add: ebind_def)
qed

lemma predice_if: "predice d r \<Longrightarrow> predice d' r' \<Longrightarrow> predice (if b then d else d') (if b then r else r')"
  by simp

lemma predice_fold: "(\<And>x l. predice (d x l) (r x l)) \<Longrightarrow> predice (fold_each d xs l) (fold_each r xs l)"
  by (induction xs arbitrary: l) (auto intro: predice_ret predice_ebind)

lemma predice_crear: "predice (crear_mig True x) (crear_mig False y)"
  by (auto simp: predice_def crear_mig_def create_def igual_mig_def proc_simps split: option.splits if_splits)

lemma predice_agente: "predice (agente_o_error r c) (agente_o_error r c)"
  by (cases "agente_con_rol r c") (simp_all add: agente_o_error_def predice_ret predice_raise)

lemmas predice_intros = predice_ret predice_raise predice_lift predice_ebind predice_if predice_fold predice_crear
  predice_agente

lemma igual_lecturas:
  "igual_mig t s \<Longrightarrow> cuenta_mig code t = cuenta_mig code s" "igual_mig t s \<Longrightarrow> ahora t = ahora s"
  "igual_mig t s \<Longrightarrow> propiedad_de_contrato c t = propiedad_de_contrato c s"
  by (simp_all add: igual_mig_def cuenta_mig_def propiedad_de_contrato_def)

lemma igual_partidas:
  assumes "igual_mig t s"
  shows "partidas_apertura lx c d m k l lo t = partidas_apertura lx c d m k l lo s"
    "partidas_alquiler m k tx dm l lo t = partidas_alquiler m k tx dm l lo s"
    "dto_honorarios lx c u ref p q m i ag t = dto_honorarios lx c u ref p q m i ag s"
  using assms by (simp_all add: partidas_apertura_def partidas_alquiler_def dto_honorarios_def igual_lecturas)

lemma predice_apertura:
  "predice (generateOpeningBalanceEntry lx tz ix c u True) (generateOpeningBalanceEntry lx tz ix c u False)"
  unfolding generateOpeningBalanceEntry_def Let_def
  by (intro predice_intros predice_gets)
    (auto simp: igual_lecturas igual_partidas split: option.split intro!: predice_intros predice_gets)

lemma predice_futuro:
  "predice (generateFutureEntries lx c u True) (generateFutureEntries lx c u False)"
  unfolding generateFutureEntries_def mes_futuro_def Let_def
  by (intro predice_intros predice_gets) (simp_all add: igual_lecturas igual_partidas)

lemma predice_historia:
  "predice (generateFullHistoricalEntries lx tz ix c u True) (generateFullHistoricalEntries lx tz ix c u False)"
proof -
  have h: "predice (cuotas_historia lx c u True ref p q m n) (cuotas_historia lx c u False ref p q m n)" for ref p q m n
  proof -
    have "predice (ret ()) (ebind (agente_o_error (rol_honorarios p) c) (\<lambda>ag.
        ebind (gets (dto_honorarios lx c u ref p q m i ag)) (\<lambda>d. crear_mig False (Some d))))" for i
      by (auto simp: predice_def agente_o_error_def crear_mig_def create_def igual_mig_def proc_simps
          split: option.splits if_splits)
    then show ?thesis unfolding cuotas_historia_def
      by (intro predice_intros) simp
  qed
  show ?thesis
    unfolding generateFullHistoricalEntries_def mes_historia_def Let_def
    by (intro predice_intros predice_gets h) (simp_all add: igual_lecturas igual_partidas)
qed

lemma predice_deposito:
  "predice (mig_generateDepositEntry c u True m) (mig_generateDepositEntry c u False m)"
  unfolding mig_generateDepositEntry_def Let_def
  by (intro predice_intros predice_gets) (simp_all add: igual_lecturas)

section \<open>What is written\<close>

definition dos_decimales :: "rat \<Rightarrow> bool" where
  "dos_decimales x \<longleftrightarrow> roundToTwoDecimals x = x"

lemma dos_decimales_round [simp]: "dos_decimales (roundToTwoDecimals x)"
  by (simp add: dos_decimales_def roundToTwoDecimals_def)

lemma dos_decimales_iff: "dos_decimales x \<longleftrightarrow> (\<exists>n::int. x = of_int n / 100)"
proof
  show "dos_decimales x \<Longrightarrow> \<exists>n::int. x = of_int n / 100" unfolding dos_decimales_def roundToTwoDecimals_def by metis
  show "\<exists>n::int. x = of_int n / 100 \<Longrightarrow> dos_decimales x" by (auto simp: dos_decimales_def roundToTwoDecimals_def)
qed

lemma dos_decimales_resta: "dos_decimales x \<Longrightarrow> dos_decimales y \<Longrightarrow> dos_decimales (x - y)"
  unfolding dos_decimales_iff by (metis diff_divide_distrib of_int_diff)

text \<open>An entry of the contract, balanced when its rent is an amount in cents.\<close>

definition asiento_mig :: "contrato \<Rightarrow> asiento \<Rightarrow> bool" where
  "asiento_mig c a \<longleftrightarrow> contrato_id a = Some (ct_id c) \<and>
     (dos_decimales (monto_base_vigente (terminos_financieros c)) \<longrightarrow>
        balanceado a \<and> monto_original a = totalDebe (partidas a))"

lemma totales_defaults [simp]:
  "totalDebe (map partida_defaults ps) = totalDebe ps" "totalHaber (map partida_defaults ps) = totalHaber ps"
  by (simp_all add: totales_defs partida_defaults_def comp_def)

lemma asiento_mig_dto:
  "asiento_mig c (asiento_de_dto i (dto_mig c u tipo f v desc meta ps m)) \<longleftrightarrow>
     (dos_decimales (monto_base_vigente (terminos_financieros c)) \<longrightarrow> totalDebe ps = totalHaber ps \<and> m = totalDebe ps)"
  by (simp add: asiento_mig_def asiento_de_dto_def dto_mig_def balanceado_def)

lemma totales_alquiler:
  assumes "dos_decimales m"
  shows "totalDebe (partidas_alquiler m tasa tx m lo l s) = m" "totalHaber (partidas_alquiler m tasa tx m lo l s) = m"
proof -
  have "dos_decimales (m - roundToTwoDecimals (m * tasa))" using assms by (simp add: dos_decimales_resta)
  then show "totalDebe (partidas_alquiler m tasa tx m lo l s) = m" "totalHaber (partidas_alquiler m tasa tx m lo l s) = m"
    by (simp_all add: partidas_alquiler_def Let_def totales_defs partida_mig_def dos_decimales_def)
qed

lemma totales_apertura:
  assumes "dos_decimales m"
  shows "totalDebe (partidas_apertura lx c d m tasa lo l s) = m" "totalHaber (partidas_apertura lx c d m tasa lo l s) = m"
proof -
  have "dos_decimales (m - roundToTwoDecimals (m * tasa))" using assms by (simp add: dos_decimales_resta)
  then show "totalDebe (partidas_apertura lx c d m tasa lo l s) = m" "totalHaber (partidas_apertura lx c d m tasa lo l s) = m"
    using assms by (simp_all add: partidas_apertura_def Let_def totales_defs partida_mig_def dos_decimales_def)
qed

text \<open>Procedures that keep a predicate of the state and give a result with a property.\<close>

definition garantiza :: "('s \<Rightarrow> bool) \<Rightarrow> ('s, 'a) proc \<Rightarrow> ('a \<Rightarrow> bool) \<Rightarrow> bool" where
  "garantiza P m L \<longleftrightarrow> (\<forall>s. P s \<longrightarrow> P (snd (m s)) \<and> (\<forall>x. fst (m s) = Inr x \<longrightarrow> L x))"

lemma garantiza_ret: "L x \<Longrightarrow> garantiza P (ret x) L"
  by (simp add: garantiza_def ret_def)

lemma garantiza_raise: "garantiza P (raise e) L"
  by (simp add: garantiza_def raise_def)

lemma garantiza_lift: "(\<And>x. r = Inr x \<Longrightarrow> L x) \<Longrightarrow> garantiza P (lift_result r) L"
  by (simp add: garantiza_def lift_result_def)

lemma garantiza_gets: "(\<And>s. P s \<Longrightarrow> L (f s)) \<Longrightarrow> garantiza P (gets f) L"
  by (simp add: garantiza_def gets_def)

lemma garantiza_ebind:
  "garantiza P m L \<Longrightarrow> (\<And>x. L x \<Longrightarrow> garantiza P (k x) L') \<Longrightarrow> garantiza P (ebind m k) L'"
  unfolding garantiza_def ebind_def by (auto split: prod.splits sum.splits)

lemma garantiza_fold:
  "L l \<Longrightarrow> (\<And>x l. L l \<Longrightarrow> garantiza P (m x l) L) \<Longrightarrow> garantiza P (fold_each m xs l) L"
  by (induction xs arbitrary: l) (auto intro: garantiza_ret garantiza_ebind)

lemma garantiza_agente: "garantiza P (agente_o_error r c) (\<lambda>_. True)"
  by (cases "agente_con_rol r c") (simp_all add: agente_o_error_def garantiza_ret garantiza_raise)

lemma garantiza_mono: "garantiza P m L \<Longrightarrow> (\<And>x. L x \<Longrightarrow> L' x) \<Longrightarrow> garantiza P m L'"
  by (simp add: garantiza_def)

text \<open>Entries \<open>Q\<close> are added after \<open>A\<close>, and nothing else that is read changes.\<close>

definition agrega :: "(asiento \<Rightarrow> bool) \<Rightarrow> asiento list \<Rightarrow> 'a bd_mig_scheme \<Rightarrow> 'a bd_mig_scheme \<Rightarrow> bool" where
  "agrega Q A t s \<longleftrightarrow> (\<exists>ns. asientos s = A @ ns \<and> list_all Q ns) \<and> igual_mig t s \<and> contratos s = contratos t"

definition dto_bueno :: "(asiento \<Rightarrow> bool) \<Rightarrow> asiento_dto option \<Rightarrow> bool" where
  "dto_bueno Q x \<longleftrightarrow> (\<forall>d i. x = Some d \<longrightarrow> Q (asiento_de_dto i d))"

lemma garantiza_crear: "dto_bueno Q x \<Longrightarrow> garantiza (agrega Q A t) (crear_mig b x) (\<lambda>_. True)"
  unfolding garantiza_def
proof (intro allI impI conjI TrueI)
  fix s assume x: "dto_bueno Q x" and s: "agrega Q A t s"
  then obtain ns where ns: "asientos s = A @ ns" "list_all Q ns" and i: "igual_mig t s" "contratos s = contratos t"
    by (auto simp: agrega_def)
  have skip: "agrega Q A t (s\<lparr>prox_id := n\<rparr>)" for n
    using ns i by (simp add: agrega_def igual_mig_def)
  have "agrega Q A t (con_asientos (\<lambda>as. as @ [asiento_de_dto n d]) (s\<lparr>prox_id := m\<rparr>))" if "x = Some d" for n m d
    using ns i x that unfolding agrega_def
    by (intro conjI exI [of _ "ns @ [asiento_de_dto n d]"]) (simp_all add: igual_mig_def dto_bueno_def)
  then show "agrega Q A t (snd (crear_mig b x s))"
    using s skip by (auto simp: crear_mig_def create_def ret_def raise_def ebind_def nuevo_id_def modify_def split: option.split)
qed

abbreviation marco :: "contrato \<Rightarrow> asiento list \<Rightarrow> 'a bd_mig_scheme \<Rightarrow> 'a bd_mig_scheme \<Rightarrow> bool" where
  "marco c A t \<equiv> agrega (asiento_mig c) A t"

lemma dos_decimales_accrued: "dos_decimales (calculateAccruedAmount lx tz ix c a b)"
  by (simp add: calculateAccruedAmount_def Let_def)

lemma garantiza_apertura: "garantiza (marco c A t) (generateOpeningBalanceEntry lx tz ix c u dry) (\<lambda>_. True)"
proof -
  have d: "dto_bueno (asiento_mig c) (map_option (\<lambda>tasa.
      dto_mig c u ''SALDO_APERTURA_DEVENGADO'' today today tx None
        (partidas_apertura lx c today (calculateAccruedAmount lx tz ix c a b) tasa k l s)
        (totalDebe (partidas_apertura lx c today (calculateAccruedAmount lx tz ix c a b) tasa k l s))) y)"
    for today tx a b k l s y
    by (auto simp: dto_bueno_def asiento_mig_dto totales_apertura [OF dos_decimales_accrued])
  show ?thesis
    unfolding generateOpeningBalanceEntry_def Let_def
    by (rule garantiza_ebind [where L = "\<lambda>_. True"], simp add: garantiza_gets)
      (auto split: option.split intro!: garantiza_ret garantiza_raise garantiza_ebind [OF garantiza_gets [where L = "dto_bueno (asiento_mig c)"]]
        garantiza_ebind [OF garantiza_crear] d)
qed

lemma garantiza_con_dto:
  "(\<And>s. dto_bueno Q (f s)) \<Longrightarrow> L r \<Longrightarrow>
   garantiza (agrega Q A t) (ebind (gets f) (\<lambda>d. ebind (crear_mig dry d) (\<lambda>_. ret r))) L"
  by (rule garantiza_ebind [OF garantiza_gets [where L = "dto_bueno Q"]])
    (auto intro!: garantiza_ebind [OF garantiza_crear] garantiza_ret)

lemma garantiza_futuro: "garantiza (marco c A t) (generateFutureEntries lx c u dry) (\<lambda>_. True)"
proof -
  let ?m = "monto_base_vigente (terminos_financieros c)"
  have d: "dto_bueno (asiento_mig c) (map_option (\<lambda>tasa.
      dto_mig c u ''Alquiler'' f v tx None (partidas_alquiler ?m tasa ts (roundToTwoDecimals ?m) k l s)
        (roundToTwoDecimals ?m)) y)" for f v tx ts k l s y
    by (auto simp: dto_bueno_def asiento_mig_dto dos_decimales_def totales_alquiler)
  have m: "garantiza (marco c A t) (mes_futuro lx c u dry x acc) (\<lambda>_. True)" for x acc
    unfolding mes_futuro_def Let_def
    by (intro garantiza_ebind [OF garantiza_agente] garantiza_con_dto d) simp
  show ?thesis
    unfolding generateFutureEntries_def
    by (rule garantiza_ebind [where L = "\<lambda>_. True"], simp add: garantiza_gets)
      (auto intro!: garantiza_ret garantiza_ebind [OF garantiza_fold [where L = "\<lambda>_. True"]] m)
qed

text \<open>The rent of the history stays an amount in cents.\<close>

definition monto_en_centavos :: "contrato \<Rightarrow> historia \<Rightarrow> bool" where
  "monto_en_centavos c h \<longleftrightarrow>
     (dos_decimales (monto_base_vigente (terminos_financieros c)) \<longrightarrow> dos_decimales (hs_monto h))"

lemma cambio_periodo_centavos:
  "cambio_periodo tz ix tipo ps x h = Inr h' \<Longrightarrow> monto_en_centavos c h \<Longrightarrow> monto_en_centavos c h'"
  by (auto simp: cambio_periodo_def monto_en_centavos_def ajustar_def Let_def split: if_splits sum.splits)

lemma garantiza_mes_historia:
  assumes "monto_en_centavos c h"
  shows "garantiza (marco c A t) (mes_historia lx tz ix c u dry ref n ps x h) (monto_en_centavos c)"
proof -
  have d: "dto_bueno (asiento_mig c) (map_option (\<lambda>tasa.
      dto_mig c u ''Alquiler'' f v tx meta (partidas_alquiler (hs_monto g) tasa ts (hs_monto g) k l s)
        (roundToTwoDecimals (hs_monto g))) y)" if "monto_en_centavos c g" for g f v tx ts k l s y meta
    using that by (auto simp: dto_bueno_def asiento_mig_dto monto_en_centavos_def totales_alquiler)
      (simp add: dos_decimales_def)
  show ?thesis
    unfolding mes_historia_def Let_def
  proof (rule garantiza_ebind [OF garantiza_lift])
    show "cambio_periodo tz ix (indice_tipo (terminos_financieros c)) ps x h = Inr g \<Longrightarrow> monto_en_centavos c g" for g
      using cambio_periodo_centavos assms by blast
  qed (intro garantiza_ebind [OF garantiza_agente] garantiza_con_dto d, auto simp: monto_en_centavos_def)
qed

lemma dto_bueno_honorarios: "dto_bueno (asiento_mig c) (Some (dto_honorarios lx c u ref p q m i ag s))"
  by (auto simp: dto_bueno_def dto_honorarios_def Let_def asiento_mig_dto totales_defs partida_mig_def)

lemma garantiza_cuotas:
  "garantiza (marco c A t) (cuotas_historia lx c u dry ref p q m n) (\<lambda>_. True)"
proof -
  have "garantiza (marco c A t) (if dry then ret () else ebind (agente_o_error (rol_honorarios p) c) (\<lambda>ag.
      ebind (gets (dto_honorarios lx c u ref p q m i ag)) (\<lambda>d. crear_mig False (Some d)))) (\<lambda>_. True)" for i
    by (auto intro!: garantiza_ret garantiza_ebind [OF garantiza_agente] garantiza_crear
        garantiza_ebind [OF garantiza_gets [where L = "\<lambda>d. dto_bueno (asiento_mig c) (Some d)"]] dto_bueno_honorarios)
  then show ?thesis
    unfolding cuotas_historia_def
    by (auto intro!: garantiza_ret garantiza_fold garantiza_ebind [where L = "\<lambda>_. True"] split: if_splits)
qed

lemma garantiza_historia:
  "garantiza (marco c A t) (generateFullHistoricalEntries lx tz ix c u dry) (\<lambda>_. True)"
  unfolding generateFullHistoricalEntries_def Let_def
  by (rule garantiza_ebind [where L = "\<lambda>_. True"], simp add: garantiza_gets)
    (intro garantiza_ebind [OF garantiza_fold [where L = "monto_en_centavos c"]] garantiza_ebind [OF garantiza_cuotas]
      garantiza_ret garantiza_mes_historia TrueI, simp_all add: monto_en_centavos_def)

lemma garantiza_deposito: "garantiza (marco c A t) (mig_generateDepositEntry c u dry m) (\<lambda>_. True)"
proof -
  have d: "dto_bueno (asiento_mig c) (Some (dto_mig c u tipo f v tx meta
      [partida_mig k1 x1 m 0 a1, partida_mig k2 x2 0 m a2] m))" for tipo f v tx meta k1 x1 m a1 k2 x2 a2
    by (simp add: dto_bueno_def asiento_mig_dto totales_defs partida_mig_def)
  let ?B = "\<lambda>d. dto_bueno (asiento_mig c) (Some d)"
  show ?thesis
    unfolding mig_generateDepositEntry_def Let_def
    by (intro garantiza_ebind [OF garantiza_agente] garantiza_ebind [OF garantiza_gets [where L = ?B]]
        garantiza_ebind [OF garantiza_crear] garantiza_crear d) assumption+
qed

section \<open>One contract\<close>

text \<open>What follows the check of the entries that exist.\<close>

definition generar_mig ::
  "luxon_mig \<Rightarrow> int \<Rightarrow> bd_idx \<Rightarrow> oid \<Rightarrow> bool \<Rightarrow> estrategia \<Rightarrow> contrato \<Rightarrow> ('a bd_mig_scheme, resultado_mig) proc" where
  "generar_mig lx tz ix u dry st c =
     ebind (case st of
         OPENING_BALANCE \<Rightarrow>
           ebind (generateOpeningBalanceEntry lx tz ix c u dry) (\<lambda>m.
           ebind (generateFutureEntries lx c u dry) (\<lambda>r.
           ret (1 + fst r, roundToTwoDecimals (roundToTwoDecimals m + snd r))))
       | FULL_HISTORY \<Rightarrow>
           ebind (generateFullHistoricalEntries lx tz ix c u dry) (\<lambda>r.
           ret (fst r, roundToTwoDecimals (snd r)))) (\<lambda>r.
     ebind (if o_cero (deposito_monto c) > 0
            then ebind (mig_generateDepositEntry c u dry (o_cero (deposito_monto c))) (\<lambda>_. ret (fst r + 1))
            else ret (fst r)) (\<lambda>n.
     ret \<lparr>mr_success = True, mr_contractId = ct_id c, mr_error = None, mr_asientos = Some n,
          mr_monto = Some (roundToTwoDecimals (snd r))\<rparr>))"

lemma processContract_generar:
  "processContract lx tz ix u dry st del c = ebind (revisar_existentes c dry del) (\<lambda>_. generar_mig lx tz ix u dry st c)"
  by (simp add: processContract_def generar_mig_def)

lemma predice_generar: "predice (generar_mig lx tz ix u True st c) (generar_mig lx tz ix u False st c)"
  unfolding generar_mig_def
  by (cases st) (auto intro!: predice_ebind predice_apertura predice_futuro predice_historia predice_deposito predice_ret)

lemma garantiza_generar:
  "garantiza (marco c A t) (generar_mig lx tz ix u dry st c) (\<lambda>r. mr_success r \<and> mr_contractId r = ct_id c)"
proof -
  have i: "garantiza (marco c A t) (case st of
         OPENING_BALANCE \<Rightarrow>
           ebind (generateOpeningBalanceEntry lx tz ix c u dry) (\<lambda>m.
           ebind (generateFutureEntries lx c u dry) (\<lambda>r.
           ret (1 + fst r, roundToTwoDecimals (roundToTwoDecimals m + snd r))))
       | FULL_HISTORY \<Rightarrow>
           ebind (generateFullHistoricalEntries lx tz ix c u dry) (\<lambda>r.
           ret (fst r, roundToTwoDecimals (snd r)))) (\<lambda>_. True)"
    by (cases st) (auto intro!: garantiza_ebind [OF garantiza_apertura] garantiza_ebind [OF garantiza_futuro]
        garantiza_ebind [OF garantiza_historia] garantiza_ret)
  have d: "garantiza (marco c A t) (if o_cero (deposito_monto c) > 0
            then ebind (mig_generateDepositEntry c u dry (o_cero (deposito_monto c))) (\<lambda>_. ret (n + 1))
            else ret n) (\<lambda>_. True)" for n :: nat
    by (auto intro!: garantiza_ebind [OF garantiza_deposito] garantiza_ret)
  show ?thesis
    unfolding generar_mig_def by (intro garantiza_ebind [OF i] garantiza_ebind [OF d] garantiza_ret) simp
qed

definition otros :: "oid \<Rightarrow> 'a bd_asi_scheme \<Rightarrow> asiento list" where
  "otros i s = delete_many (\<lambda>a. contrato_id a = Some i) (asientos s)"

lemma otros_todos: "asientos_de_contrato i s = [] \<Longrightarrow> otros i s = asientos s"
  by (auto simp: otros_def delete_many_def asientos_de_contrato_def filter_empty_conv intro!: filter_True)

lemma revisar_run:
  "revisar_existentes c dry del s =
     (if asientos_de_contrato (ct_id c) s = [] then (Inr (), s)
      else if \<not> del
      then (Inl (BadRequestException ''El contrato {} ya tiene asientos contables generados'' [AId (ct_id c)]), s)
      else if dry then (Inr (), s)
      else (Inr (), con_asientos (\<lambda>_. otros (ct_id c) s) s))"
  by (simp add: revisar_existentes_def ebind_def gets_def ret_def raise_def modify_def otros_def con_asientos_def)

text \<open>A contract whose entries exist is refused and nothing changes; of any other, the real run
  keeps the entries of the others and adds entries of the contract.\<close>

lemma processContract_real:
  assumes run: "processContract lx tz ix u False st del c s = (r, s')"
    and ok: "asientos_de_contrato (ct_id c) s = [] \<or> del"
  shows "\<exists>ns. asientos s' = otros (ct_id c) s @ ns \<and> list_all (asiento_mig c) ns \<and> igual_mig s s' \<and>
     contratos s' = contratos s \<and> (\<forall>x. r = Inr x \<longrightarrow> mr_success x \<and> mr_contractId x = ct_id c)"
proof -
  let ?s = "con_asientos (\<lambda>_. otros (ct_id c) s) s"
  have "con_asientos (\<lambda>_. asientos s) s = s" by (simp add: con_asientos_def)
  then have "revisar_existentes c False del s = (Inr (), ?s)"
    using ok otros_todos [of "ct_id c" s] by (auto simp: revisar_run)
  then have g: "generar_mig lx tz ix u False st c ?s = (r, s')"
    using run by (simp add: processContract_generar ebind_def)
  have "marco c (otros (ct_id c) s) s ?s" by (simp add: agrega_def igual_mig_def)
  with garantiza_generar [of c "otros (ct_id c) s" s lx tz ix u False st] g
  have "marco c (otros (ct_id c) s) s s'" "\<forall>x. r = Inr x \<longrightarrow> mr_success x \<and> mr_contractId x = ct_id c"
    unfolding garantiza_def by (metis fst_conv snd_conv)+
  then show ?thesis by (auto simp: agrega_def)
qed

lemma processContract_refused:
  assumes "asientos_de_contrato (ct_id c) s \<noteq> []"
  shows "processContract lx tz ix u dry st False c s =
     (Inl (BadRequestException ''El contrato {} ya tiene asientos contables generados'' [AId (ct_id c)]), s)"
  using assms by (simp add: processContract_generar ebind_def revisar_run)

text \<open>In a dry run no step touches the state.\<close>

lemma seco_crear: "preserves P (crear_mig True x)"
  by (simp add: crear_mig_def preserves_ret)

lemma seco_agente: "preserves P (agente_o_error r c)"
  by (auto simp: agente_o_error_def split: option.split)

lemmas seco_intros = seco_crear seco_agente preserves_ebind preserves_if preserves_ret preserves_raise preserves_gets
  preserves_lift preserves_fold_each

lemma seco_apertura: "preserves P (generateOpeningBalanceEntry lx tz ix c u True)"
  unfolding generateOpeningBalanceEntry_def Let_def
  by (intro seco_intros) (auto split: option.split intro!: seco_intros)

lemma seco_futuro: "preserves P (generateFutureEntries lx c u True)"
  unfolding generateFutureEntries_def mes_futuro_def Let_def by (intro seco_intros)

lemma seco_cuotas: "preserves P (cuotas_historia lx c u True ref p q m n)"
  unfolding cuotas_historia_def if_P [OF TrueI] by (intro seco_intros)

lemma seco_historia: "preserves P (generateFullHistoricalEntries lx tz ix c u True)"
  unfolding generateFullHistoricalEntries_def mes_historia_def Let_def by (intro seco_intros seco_cuotas)

lemma seco_deposito: "preserves P (mig_generateDepositEntry c u True m)"
  unfolding mig_generateDepositEntry_def Let_def by (intro seco_intros)

lemma processContract_dry: "snd (processContract lx tz ix u True st del c s) = s"
proof -
  have "preserves (\<lambda>t. t = s) (generar_mig lx tz ix u True st c)"
    unfolding generar_mig_def
    by (cases st) (auto intro!: preserves_ebind seco_apertura seco_futuro seco_historia seco_deposito)
  then have "snd (generar_mig lx tz ix u True st c s) = s" by (simp add: preserves_def)
  then show ?thesis by (auto simp: processContract_generar ebind_def revisar_run split: prod.splits sum.splits)
qed

lemma processContract_predice:
  assumes "igual_mig t s" and "asientos_de_contrato (ct_id c) t = asientos_de_contrato (ct_id c) s"
    and run: "processContract lx tz ix u False st del c s = (Inr x, s')"
  shows "processContract lx tz ix u True st del c t = (Inr x, t)"
proof -
  have ok: "asientos_de_contrato (ct_id c) s = [] \<or> del"
    using run processContract_refused [of c s lx tz ix u False st] by (cases del) auto
  let ?s = "con_asientos (\<lambda>_. otros (ct_id c) s) s"
  have "con_asientos (\<lambda>_. asientos s) s = s" by (simp add: con_asientos_def)
  then have "revisar_existentes c False del s = (Inr (), ?s)"
    using ok otros_todos [of "ct_id c" s] by (auto simp: revisar_run)
  then have g: "generar_mig lx tz ix u False st c ?s = (Inr x, s')"
    using run by (simp add: processContract_generar ebind_def)
  have "igual_mig t ?s" using assms(1) by (simp add: igual_mig_def)
  from prediceD [OF predice_generar this g] have "generar_mig lx tz ix u True st c t = (Inr x, t)" by simp
  moreover have "revisar_existentes c True del t = (Inr (), t)" using ok assms(2) by (auto simp: revisar_run)
  ultimately show ?thesis by (simp add: processContract_generar ebind_def)
qed

section \<open>The batch\<close>

lemma otros_contratos:
  assumes "asientos s' = otros i s @ ns" and "list_all (\<lambda>a. contrato_id a = Some i) ns" and "j \<noteq> i"
  shows "asientos_de_contrato j s' = asientos_de_contrato j s"
proof -
  have "filter (\<lambda>a. contrato_id a = Some j) ns = []"
    using assms(2,3) by (auto simp: filter_empty_conv list_all_iff)
  moreover have "filter (\<lambda>a. contrato_id a = Some j) (otros i s) = asientos_de_contrato j s"
    using assms(3) by (auto simp: otros_def delete_many_def asientos_de_contrato_def intro!: filter_cong)
  ultimately show ?thesis by (simp add: asientos_de_contrato_def assms(1))
qed

lemma resultado_run:
  "resultado_o_error lx tz ix u opt c s =
     (case processContract lx tz ix u (om_dryRun opt) (coalesce (om_strategy opt) FULL_HISTORY) (om_deleteExisting opt) c s of
        (Inr x, s') \<Rightarrow> (Inr x, s')
      | (Inl e, s') \<Rightarrow> (Inr \<lparr>mr_success = False, mr_contractId = ct_id c, mr_error = Some e, mr_asientos = None,
          mr_monto = None\<rparr>, s'))"
  by (auto simp: resultado_o_error_def try_catch_def ret_def split: prod.splits sum.splits)

text \<open>A real run of one contract: what it leaves, refused or not.\<close>

lemma resultado_real:
  assumes "\<not> om_dryRun opt" and run: "resultado_o_error lx tz ix u opt c s = (r, s')"
  shows "\<exists>x. r = Inr x \<and> mr_contractId x = ct_id c \<and> igual_mig s s' \<and> contratos s' = contratos s \<and>
     (\<forall>j. j \<noteq> ct_id c \<longrightarrow> asientos_de_contrato j s' = asientos_de_contrato j s) \<and>
     (if asientos_de_contrato (ct_id c) s \<noteq> [] \<and> \<not> om_deleteExisting opt
      then \<not> mr_success x \<and> s' = s
      else \<exists>ns. asientos s' = otros (ct_id c) s @ ns \<and> list_all (asiento_mig c) ns)"
proof -
  let ?st = "coalesce (om_strategy opt) FULL_HISTORY"
  obtain p t where p: "processContract lx tz ix u False ?st (om_deleteExisting opt) c s = (p, t)" by (meson surj_pair)
  show ?thesis
  proof (cases "asientos_de_contrato (ct_id c) s \<noteq> [] \<and> \<not> om_deleteExisting opt")
    case True
    with processContract_refused [of c s lx tz ix u False ?st] assms show ?thesis
      by (auto simp: resultado_run igual_mig_def)
  next
    case False
    from processContract_real [OF p] False obtain ns where
      a: "asientos t = otros (ct_id c) s @ ns" "list_all (asiento_mig c) ns" "igual_mig s t" "contratos t = contratos s"
      and x: "\<forall>x. p = Inr x \<longrightarrow> mr_success x \<and> mr_contractId x = ct_id c" by auto
    have "s' = t" "\<exists>x. r = Inr x \<and> mr_contractId x = ct_id c"
      using p x assms by (auto simp: resultado_run split: sum.splits)
    moreover have "list_all (\<lambda>a. contrato_id a = Some (ct_id c)) ns"
      using a(2) by (auto simp: list_all_iff asiento_mig_def)
    ultimately show ?thesis
      using a False otros_contratos [OF a(1)] by auto
  qed
qed

lemma processContract_dry_id:
  assumes "processContract lx tz ix u True st del c s = (Inr y, s')"
  shows "mr_contractId y = ct_id c"
proof -
  have m: "marco c (asientos s) s s" by (simp add: agrega_def igual_mig_def)
  from assms have "generar_mig lx tz ix u True st c s = (Inr y, s')"
    by (auto simp: processContract_generar ebind_def revisar_run split: if_splits)
  with garantiza_generar [of c "asientos s" s lx tz ix u True st] m show ?thesis
    unfolding garantiza_def by (metis fst_conv)
qed

lemma resultado_seco:
  assumes "om_dryRun opt"
  shows "\<exists>d. resultado_o_error lx tz ix u opt c t = (Inr d, t) \<and> mr_contractId d = ct_id c"
proof -
  let ?st = "coalesce (om_strategy opt) FULL_HISTORY"
  obtain p where p: "processContract lx tz ix u True ?st (om_deleteExisting opt) c t = (p, t)"
    using processContract_dry [of lx tz ix u ?st "om_deleteExisting opt" c t] by (metis prod.collapse)
  with assms processContract_dry_id [of lx tz ix u ?st "om_deleteExisting opt" c t] show ?thesis
    by (cases p) (auto simp: resultado_run)
qed

text \<open>Contract by contract, the dry run reports what the real run will.\<close>

lemma resultado_predice:
  assumes "\<not> om_dryRun opt" and "igual_mig t s"
    and "asientos_de_contrato (ct_id c) t = asientos_de_contrato (ct_id c) s"
    and run: "resultado_o_error lx tz ix u opt c s = (Inr x, s')" and "mr_success x"
  shows "resultado_o_error lx tz ix u (opt\<lparr>om_dryRun := True\<rparr>) c t = (Inr x, t)"
proof -
  let ?st = "coalesce (om_strategy opt) FULL_HISTORY"
  have "processContract lx tz ix u False ?st (om_deleteExisting opt) c s = (Inr x, s')"
    using assms(1,5) run by (auto simp: resultado_run split: prod.splits sum.splits)
  from processContract_predice [OF assms(2,3) this] show ?thesis by (simp add: resultado_run)
qed

lemma lote_predice:
  assumes "\<not> om_dryRun opt" and "distinct (map ct_id cs)" and "igual_mig t s"
    and "\<forall>c \<in> set cs. asientos_de_contrato (ct_id c) t = asientos_de_contrato (ct_id c) s"
    and "for_each (resultado_o_error lx tz ix u opt) cs s = (Inr R, s')"
  shows "\<exists>D. for_each (resultado_o_error lx tz ix u (opt\<lparr>om_dryRun := True\<rparr>)) cs t = (Inr D, t) \<and>
     list_all2 (\<lambda>r d. mr_contractId d = mr_contractId r \<and> (mr_success r \<longrightarrow> d = r)) R D"
  using assms(2-5)
proof (induction cs arbitrary: s R)
  case Nil
  then show ?case by (simp add: ret_def)
next
  case (Cons c cs)
  obtain r u1 where one: "resultado_o_error lx tz ix u opt c s = (r, u1)" by (meson surj_pair)
  from resultado_real [OF assms(1) one] obtain x where x: "r = Inr x" "mr_contractId x = ct_id c" "igual_mig s u1"
    and o: "\<forall>j. j \<noteq> ct_id c \<longrightarrow> asientos_de_contrato j u1 = asientos_de_contrato j s" by blast
  obtain R' where R: "R = x # R'" and rest: "for_each (resultado_o_error lx tz ix u opt) cs u1 = (Inr R', s')"
    using Cons.prems(4) one x(1) by (auto simp: ebind_def ret_def split: prod.splits sum.splits)
  have i: "igual_mig t u1" using Cons.prems(2) x(3) by (simp add: igual_mig_def)
  have "\<forall>d \<in> set cs. asientos_de_contrato (ct_id d) t = asientos_de_contrato (ct_id d) u1"
    using Cons.prems(1,3) o by (auto simp: image_iff)
  from Cons.IH [OF _ i this rest] Cons.prems(1) obtain D where
    D: "for_each (resultado_o_error lx tz ix u (opt\<lparr>om_dryRun := True\<rparr>)) cs t = (Inr D, t)"
    and l: "list_all2 (\<lambda>r d. mr_contractId d = mr_contractId r \<and> (mr_success r \<longrightarrow> d = r)) R' D" by auto
  obtain d where d: "resultado_o_error lx tz ix u (opt\<lparr>om_dryRun := True\<rparr>) c t = (Inr d, t)" "mr_contractId d = ct_id c"
    using resultado_seco [of "opt\<lparr>om_dryRun := True\<rparr>" lx tz ix u c t] by auto
  have e: "d = x" if "mr_success x"
    using resultado_predice [OF assms(1) Cons.prems(2) _ one [unfolded x(1)] that] Cons.prems(3) d(1) by simp
  show ?case using D l d e x(2) R
    by (intro exI [of _ "d # D"]) (simp add: ebind_def ret_def)
qed

text \<open>A real batch that deletes nothing: what it adds belongs to contracts that had no entries.\<close>

lemma lote_agrega:
  assumes "\<not> om_dryRun opt" and "\<not> om_deleteExisting opt" and "distinct (map ct_id cs)"
    and "for_each (resultado_o_error lx tz ix u opt) cs s = (Inr R, s')"
  shows "(\<exists>ns. asientos s' = asientos s @ ns \<and>
      (\<forall>a \<in> set ns. \<exists>c \<in> set cs. asiento_mig c a \<and> asientos_de_contrato (ct_id c) s = [])) \<and>
    contratos s' = contratos s \<and> map mr_contractId R = map ct_id cs \<and>
    (\<forall>x \<in> set R. mr_success x \<longrightarrow> asientos_de_contrato (mr_contractId x) s = [])"
  using assms(3-)
proof (induction cs arbitrary: s R)
  case Nil
  then show ?case by (simp add: ret_def)
next
  case (Cons c cs)
  obtain r u1 where one: "resultado_o_error lx tz ix u opt c s = (r, u1)" by (meson surj_pair)
  from resultado_real [OF assms(1) one] obtain x where x: "r = Inr x" "mr_contractId x = ct_id c" "contratos u1 = contratos s"
    and o: "\<forall>j. j \<noteq> ct_id c \<longrightarrow> asientos_de_contrato j u1 = asientos_de_contrato j s"
    and w: "if asientos_de_contrato (ct_id c) s \<noteq> [] then \<not> mr_success x \<and> u1 = s
      else \<exists>ns. asientos u1 = otros (ct_id c) s @ ns \<and> list_all (asiento_mig c) ns"
    using assms(2) by auto
  obtain R' where R: "R = x # R'" and rest: "for_each (resultado_o_error lx tz ix u opt) cs u1 = (Inr R', s')"
    using Cons.prems(2) one x(1) by (auto simp: ebind_def ret_def split: prod.splits sum.splits)
  obtain n1 where n1: "asientos u1 = asientos s @ n1" "n1 \<noteq> [] \<Longrightarrow> asientos_de_contrato (ct_id c) s = []" "list_all (asiento_mig c) n1"
    "mr_success x \<Longrightarrow> asientos_de_contrato (ct_id c) s = []"
    using w otros_todos [of "ct_id c" s] by (cases "asientos_de_contrato (ct_id c) s = []") auto
  have same: "asientos_de_contrato (ct_id d) u1 = asientos_de_contrato (ct_id d) s" if "d \<in> set cs" for d
    using o that Cons.prems(1) by (auto simp: image_iff)
  have ids: "distinct (map ct_id cs)" using Cons.prems(1) by simp
  note IH = Cons.IH [OF ids rest]
  then obtain n2 where n2: "asientos s' = asientos u1 @ n2"
    and q: "\<forall>a \<in> set n2. \<exists>c \<in> set cs. asiento_mig c a \<and> asientos_de_contrato (ct_id c) u1 = []" by blast
  have "\<forall>a \<in> set (n1 @ n2). \<exists>d \<in> set (c # cs). asiento_mig d a \<and> asientos_de_contrato (ct_id d) s = []"
    using q same n1(2,3) by (fastforce simp: list_all_iff)
  moreover have "asientos s' = asientos s @ (n1 @ n2)" using n1(1) n2 by simp
  moreover have "\<forall>y \<in> set R'. mr_success y \<longrightarrow> asientos_de_contrato (mr_contractId y) s = []"
  proof (intro ballI impI)
    fix y assume y: "y \<in> set R'" "mr_success y"
    have "map mr_contractId R' = map ct_id cs" using IH by blast
    with y(1) have "mr_contractId y \<in> ct_id ` set cs" by (metis image_eqI list.set_map)
    then obtain d where "d \<in> set cs" "mr_contractId y = ct_id d" by blast
    then show "asientos_de_contrato (mr_contractId y) s = []" using IH y same by metis
  qed
  ultimately show ?case using IH R x n1(4) by (intro conjI exI [of _ "n1 @ n2"]) auto
qed

section \<open>The claims\<close>

lemma mig_loadAccountIds_run:
  "mig_loadAccountIds s = (r, t) \<Longrightarrow> \<exists>m. t = s\<lparr>mig_cache := m\<rparr>"
proof -
  assume run: "mig_loadAccountIds s = (r, t)"
  have e: "\<exists>m. v = v\<lparr>mig_cache := m\<rparr>" for v :: "'a bd_mig_scheme"
    by (intro exI [of _ "mig_cache v"]) simp
  from run show "\<exists>m. t = s\<lparr>mig_cache := m\<rparr>"
    by (auto intro: e simp: mig_loadAccountIds_def getAccountIdsByCode_def ebind_def gets_def ret_def raise_def modify_def Let_def
        split: option.splits if_splits prod.splits)
qed

lemma getContractsToMigrate_run:
  assumes "getContractsToMigrate od ids s = (r, t)" and "distinct (map ct_id (contratos s))"
  shows "t = s \<and> (\<forall>cs. r = Inr cs \<longrightarrow> set cs \<subseteq> set (contratos s) \<and> distinct (map ct_id cs))"
proof -
  have f: "snd (for_each (\<lambda>t. case od t of None \<Rightarrow> raise (ErrorJS ''BSONError'' [AStr t]) | Some i \<Rightarrow> ret i) xs s) = s" for xs
    by (induction xs) (auto simp: ebind_def ret_def raise_def split: option.splits prod.splits sum.splits)
  have "distinct (map ct_id (filter P (contratos s)))" for P
    using assms(2) by (simp add: distinct_map_filter)
  with assms f [of "coalesce ids []"] show ?thesis
    by (auto simp: getContractsToMigrate_def gets_def ebind_def split: if_splits prod.splits sum.splits)
qed

lemma generar_run:
  assumes "generateAccountingEntriesForMigratedContracts lx tz ix od u opt s = (Inr R, s')"
    and "distinct (map ct_id (contratos s))"
  obtains m cs where "mig_loadAccountIds s = (Inr (), s\<lparr>mig_cache := m\<rparr>)"
    "getContractsToMigrate od (om_contractIds opt) (s\<lparr>mig_cache := m\<rparr>) = (Inr cs, s\<lparr>mig_cache := m\<rparr>)"
    "set cs \<subseteq> set (contratos s)" "distinct (map ct_id cs)"
    "for_each (resultado_o_error lx tz ix u opt) cs (s\<lparr>mig_cache := m\<rparr>) = (Inr (rm_results R), s')"
    "rm_totalContracts R = length cs"
proof -
  obtain r t where l: "mig_loadAccountIds s = (r, t)" by (meson surj_pair)
  from mig_loadAccountIds_run [OF l] obtain m where t: "t = s\<lparr>mig_cache := m\<rparr>" by blast
  obtain q v where g: "getContractsToMigrate od (om_contractIds opt) t = (q, v)" by (meson surj_pair)
  from getContractsToMigrate_run [OF g] assms(2) t
  have v: "v = t" "\<And>cs. q = Inr cs \<Longrightarrow> set cs \<subseteq> set (contratos s) \<and> distinct (map ct_id cs)" by auto
  from assms(1) l g v(1) t show ?thesis
    by (auto simp: generateAccountingEntriesForMigratedContracts_def ebind_def ret_def
        split: sum.splits prod.splits intro!: that [of m] dest!: v(2))
qed

text \<open>C27: a dry run of the migration predicts the real one: it changes nothing but the cache of the
  accounts, considers the same contracts in the same order and reports, for each contract that the
  real run migrates, exactly the result (the entries and the amount) of the real run. Failures are
  not predicted: a contract may succeed in the dry run and fail in the real one.\<close>

theorem migration_dry_run_predicts:
  assumes "\<not> om_dryRun opt" and "distinct (map ct_id (contratos s))"
    and run: "generateAccountingEntriesForMigratedContracts lx tz ix od u opt s = (Inr R, s')"
  shows "\<exists>D m. generateAccountingEntriesForMigratedContracts lx tz ix od u (opt\<lparr>om_dryRun := True\<rparr>) s =
       (Inr D, s\<lparr>mig_cache := m\<rparr>) \<and> rm_totalContracts D = rm_totalContracts R \<and>
     list_all2 (\<lambda>r d. mr_contractId d = mr_contractId r \<and> (mr_success r \<longrightarrow> d = r)) (rm_results R) (rm_results D)"
proof -
  from generar_run [OF run assms(2)] obtain m cs where
    l: "mig_loadAccountIds s = (Inr (), s\<lparr>mig_cache := m\<rparr>)"
    and g: "getContractsToMigrate od (om_contractIds opt) (s\<lparr>mig_cache := m\<rparr>) = (Inr cs, s\<lparr>mig_cache := m\<rparr>)"
    and d: "distinct (map ct_id cs)"
    and f: "for_each (resultado_o_error lx tz ix u opt) cs (s\<lparr>mig_cache := m\<rparr>) = (Inr (rm_results R), s')"
    and n: "rm_totalContracts R = length cs" by metis
  from lote_predice [OF assms(1) d _ _ f, of "s\<lparr>mig_cache := m\<rparr>"] obtain D where
    D: "for_each (resultado_o_error lx tz ix u (opt\<lparr>om_dryRun := True\<rparr>)) cs (s\<lparr>mig_cache := m\<rparr>) = (Inr D, s\<lparr>mig_cache := m\<rparr>)"
    "list_all2 (\<lambda>r d. mr_contractId d = mr_contractId r \<and> (mr_success r \<longrightarrow> d = r)) (rm_results R) D"
    by (auto simp: igual_mig_def)
  show ?thesis using l g D n
    by (intro exI [of _ "\<lparr>rm_totalContracts = length cs, rm_successCount = length (filter mr_success D),
          rm_failureCount = length (filter (\<lambda>r. \<not> mr_success r) D),
          rm_totalAmount = (\<Sum>r\<leftarrow>filter mr_success D. o_cero (mr_monto r)), rm_results = D\<rparr>"] exI [of _ m])
      (simp add: generateAccountingEntriesForMigratedContracts_def ebind_def ret_def)
qed


section \<open>The indices of the two strategies\<close>

lemma getAdjustmentPeriods_dos:
  assumes "ini < a" "a < fin" "fin \<le> lx_plus lx a 6 0"
    and "0 < calculateMonthsBetween lx ini a" "0 < calculateMonthsBetween lx a fin"
  shows "getAdjustmentPeriods lx ini fin (Some a) =
     [\<lparr>pe_start = ini, pe_end = a, pe_ajuste = Some a, pe_months = calculateMonthsBetween lx ini a\<rparr>,
      \<lparr>pe_start = a, pe_end = fin, pe_ajuste = Some (lx_plus lx a 6 0), pe_months = calculateMonthsBetween lx a fin\<rparr>]"
proof -
  have fin: "periodos_desde n lx fin b c = []" if "fin \<le> b" for n b c
    using that by (cases n) simp_all
  show ?thesis
    using assms by (simp add: getAdjustmentPeriods_def limite_periodos_def numeral_2_eq_2 fin)
qed

text \<open>the two strategies adjust the same rent with different indices. For a contract with one
  adjustment, at \<open>a\<close>, the opening balance multiplies the rent of the second period by the index of
  \<open>a\<close> over the one of the start; the history multiplies it by the index of six months after \<open>a\<close>, the
  date of the next adjustment.\<close>

theorem migration_strategies_disagree:
  assumes "indice_tipo (terminos_financieros c) \<noteq> ''FIJO''" "ajuste_programado c = Some a"
    and "fecha_inicio c < a" "a < fecha_final c" "fecha_final c \<le> lx_plus lx a 6 0"
    and "0 < calculateMonthsBetween lx (fecha_inicio c) a" "0 < calculateMonthsBetween lx a (fecha_final c)"
    and "getIndexValueForDate tz ix (indice_tipo (terminos_financieros c)) (Some (fecha_inicio c)) = Inr (Some v0)"
    and "getIndexValueForDate tz ix (indice_tipo (terminos_financieros c)) (Some a) = Inr (Some v1)"
    and "getIndexValueForDate tz ix (indice_tipo (terminos_financieros c)) (Some (lx_plus lx a 6 0)) = Inr (Some v2)"
    and "v0 \<noteq> 0" "v1 \<noteq> 0" "v2 \<noteq> 0"
    and "h = \<lparr>hs_count = n, hs_total = x, hs_monto = monto_base_vigente (terminos_financieros c), hs_periodo = 0\<rparr>" and "a \<le> t"
  shows "calculateAccruedAmount lx tz ix c (fecha_inicio c) (fecha_final c) = roundToTwoDecimals
       (roundToTwoDecimals (monto_base_vigente (terminos_financieros c) * of_int (calculateMonthsBetween lx (fecha_inicio c) a)) +
        roundToTwoDecimals (roundToTwoDecimals (monto_base_vigente (terminos_financieros c) * (v1 / v0)) *
          of_int (calculateMonthsBetween lx a (fecha_final c)))) \<and>
     cambio_periodo tz ix (indice_tipo (terminos_financieros c)) (periodos_historia lx c) t h =
        Inr (h\<lparr>hs_periodo := 1, hs_monto := roundToTwoDecimals (monto_base_vigente (terminos_financieros c) * (v2 / v0))\<rparr>)"
  using assms
  by (simp add: calculateAccruedAmount_def Let_def getAdjustmentPeriods_dos ajuste_periodo_def ajustar_def o_cero_def
      periodos_historia_def cambio_periodo_def)

section \<open>Examples\<close>

definition luxon_mig0 :: luxon_mig where
  "luxon_mig0 = \<lparr>lx_plus = (\<lambda>t m d. t + (m * 30 + d) * dia_ms),
     lx_meses = (\<lambda>a b. of_int (a - b) / of_int (30 * dia_ms)),
     lx_dias = (\<lambda>a b. of_int (a - b) / of_int dia_ms),
     lx_mm_yyyy = (\<lambda>t. ''MM-YYYY''), lx_inicio_mes = (\<lambda>t. t), lx_dd_mm_yyyy = (\<lambda>t. ''DD-MM-YYYY''),
     lx_month = (\<lambda>t. 1), lx_year = (\<lambda>t. 2024)\<rparr>"

definition icl0 :: "rat \<Rightarrow> int \<Rightarrow> valor_indice" where
  "icl0 v d = \<lparr>iv_formula = ''ICL'', iv_value = Some v, iv_date = Some (d * dia_ms), iv_year = Some 2024, iv_month = Some ''01'', iv_day = 1\<rparr>"

definition ix0 :: bd_idx where
  "ix0 = \<lparr>ahora = 19800 * dia_ms, prox_id = 1, indices = [icl0 100 19723, icl0 110 19783, icl0 150 19963]\<rparr>"

text \<open>A contract with a fixed rent and no deposit, three months old, and one that has an entry.\<close>

definition fijo0 :: contrato where
  "fijo0 = contrato0\<lparr>fecha_inicio := 19710 * dia_ms, fecha_final := 19810 * dia_ms,
     terminos_financieros := terminos0\<lparr>indice_tipo := ''FIJO''\<rparr>, deposito_monto := None\<rparr>"

definition bd_mig0 :: bd_mig where
  "bd_mig0 = bd_ct.extend (bd_ct0 [fijo0, contrato0\<lparr>ct_id := 21\<rparr>]\<lparr>asientos := [alquiler\<lparr>contrato_id := Some 21\<rparr>]\<rparr>)
     (bd_mig.fields (Some [''CXC_ALQ'' \<mapsto> 41, ''CXP_LOC'' \<mapsto> 42, ''ING_HNR'' \<mapsto> 43]))"

definition real0 :: opciones_mig where
  "real0 = \<lparr>om_contractIds = None, om_dryRun = False, om_strategy = Some OPENING_BALANCE, om_deleteExisting = False\<rparr>"

lemma bd_mig0_campos:
  "contratos bd_mig0 = [fijo0, contrato0\<lparr>ct_id := 21\<rparr>]" "asientos bd_mig0 = [alquiler\<lparr>contrato_id := Some 21\<rparr>]"
  "ahora bd_mig0 = 19800 * dia_ms" "prox_id bd_mig0 = 100"
  "mig_cache bd_mig0 = Some [''CXC_ALQ'' \<mapsto> 41, ''CXP_LOC'' \<mapsto> 42, ''ING_HNR'' \<mapsto> 43]"
  by (simp_all add: bd_mig0_def bd_ct0_def bd_ct.defs bd_mig.defs)

lemma fijo0_campos:
  "ct_id fijo0 = 20" "fecha_inicio fijo0 = 19710 * dia_ms" "fecha_final fijo0 = 19810 * dia_ms"
  "monto_base_vigente (terminos_financieros fijo0) = 1000" "indice_tipo (terminos_financieros fijo0) = ''FIJO''"
  "tasa_mig fijo0 = Some (7 / 100)" "deposito_monto fijo0 = None"
  "agente_con_rol LOCADOR fijo0 = Some 2" "agente_con_rol LOCATARIO fijo0 = Some 1"
  by (simp_all add: fijo0_def contrato0_def terminos0_def tasa_mig_def agente_con_rol_def)

lemma fijo0_devengado: "calculateAccruedAmount luxon_mig0 0 ix0 fijo0 (19710 * dia_ms) (19800 * dia_ms) = 3000"
  by (simp add: calculateAccruedAmount_def fijo0_campos calculateMonthsBetween_def luxon_mig0_def dia_ms_def
      roundToTwoDecimals_def math_round_def floor_eq_iff)

definition apertura0 :: asiento_dto where
  "apertura0 = (let ps = partidas_apertura luxon_mig0 fijo0 (19800 * dia_ms) 3000 (7 / 100) 2 1 bd_mig0 in
     dto_mig fijo0 9 ''SALDO_APERTURA_DEVENGADO'' (19800 * dia_ms) (19800 * dia_ms)
             (''Saldo de apertura - Alquileres devengados hasta {}'', [AStr ''DD-MM-YYYY'']) None ps (totalDebe ps))"

abbreviation con_apertura :: "bd_mig" where
  "con_apertura \<equiv> con_asientos (\<lambda>as. as @ [asiento_de_dto 100 apertura0]) (bd_mig0\<lparr>prox_id := 101\<rparr>)"

lemma apertura0_run: "create apertura0 bd_mig0 = (Inr (asiento_de_dto 100 apertura0), con_apertura)"
  by (simp add: create_def sin_partidas_def dto_valido_def apertura0_def dto_mig_def partidas_apertura_def Let_def
      nuevo_id_def proc_simps bd_mig0_campos partida_mig_def)

lemma generar0_apertura:
  "generateOpeningBalanceEntry luxon_mig0 0 ix0 fijo0 9 False bd_mig0 = (Inr 3000, con_apertura)"
proof -
  have l: "lx_dd_mm_yyyy luxon_mig0 (19800 * dia_ms) = ''DD-MM-YYYY''" by (simp add: luxon_mig0_def)
  have d: "\<not> 19800 * dia_ms < 19710 * dia_ms" by (simp add: dia_ms_def)
  have r: "roundToTwoDecimals 3000 = 3000" by (simp add: roundToTwoDecimals_def math_round_def floor_eq_iff)
  show ?thesis
    using apertura0_run
    by (simp add: generateOpeningBalanceEntry_def fijo0_campos fijo0_devengado proc_simps bd_mig0_campos Let_def l r d
        crear_mig_def apertura0_def)
qed

lemma generar0_futuro: "generateFutureEntries luxon_mig0 fijo0 9 b con_apertura = (Inr (0, 0), con_apertura)"
proof -
  have "meses_hasta luxon_mig0 (19810 * dia_ms) (lx_plus luxon_mig0 (lx_inicio_mes luxon_mig0 (19800 * dia_ms)) 1 0) = []"
    by (simp add: meses_hasta_def luxon_mig0_def dia_ms_def)
  moreover have "\<not> 19810 * dia_ms \<le> 19800 * dia_ms" by (simp add: dia_ms_def)
  ultimately show ?thesis
    by (simp add: generateFutureEntries_def proc_simps fijo0_campos bd_mig0_campos roundToTwoDecimals_def math_round_def floor_eq_iff con_asientos_def)
qed

definition resultado0 :: resultado_mig where
  "resultado0 = \<lparr>mr_success = True, mr_contractId = 20, mr_error = None, mr_asientos = Some 1, mr_monto = Some 3000\<rparr>"

lemma generar0_uno:
  "resultado_o_error luxon_mig0 0 ix0 9 real0 fijo0 bd_mig0 = (Inr resultado0, con_apertura)"
proof -
  have r: "roundToTwoDecimals 3000 = 3000" by (simp add: roundToTwoDecimals_def math_round_def floor_eq_iff)
  have "asientos_de_contrato 20 bd_mig0 = []" by (simp add: asientos_de_contrato_def bd_mig0_campos)
  then have "processContract luxon_mig0 0 ix0 9 False OPENING_BALANCE False fijo0 bd_mig0 = (Inr resultado0, con_apertura)"
    by (simp add: processContract_def revisar_run fijo0_campos generar0_apertura generar0_futuro proc_simps r resultado0_def)
  then show ?thesis by (simp add: resultado_run real0_def)
qed

lemma lote0_run:
  "\<exists>R. generateAccountingEntriesForMigratedContracts luxon_mig0 0 ix0 od 9 real0 bd_mig0 = (Inr R, con_apertura) \<and>
     map mr_success (rm_results R) = [True, False]"
proof -
  have "asientos_de_contrato 21 con_apertura \<noteq> []" by (simp add: asientos_de_contrato_def bd_mig0_campos con_asientos_def)
  then have "processContract luxon_mig0 0 ix0 9 False OPENING_BALANCE False (contrato0\<lparr>ct_id := 21\<rparr>) con_apertura =
     (Inl (BadRequestException ''El contrato {} ya tiene asientos contables generados'' [AId 21]), con_apertura)"
    using processContract_refused [of "contrato0\<lparr>ct_id := 21\<rparr>"] by simp
  then have 2: "resultado_o_error luxon_mig0 0 ix0 9 real0 (contrato0\<lparr>ct_id := 21\<rparr>) con_apertura =
     (Inr \<lparr>mr_success = False, mr_contractId = 21,
        mr_error = Some (BadRequestException ''El contrato {} ya tiene asientos contables generados'' [AId 21]),
        mr_asientos = None, mr_monto = None\<rparr>, con_apertura)"
    by (simp add: resultado_run real0_def)
  have "coalesce (om_contractIds real0) [] = []" by (simp add: real0_def)
  then show ?thesis
    by (simp add: generateAccountingEntriesForMigratedContracts_def mig_loadAccountIds_def getContractsToMigrate_def
        proc_simps bd_mig0_campos generar0_uno 2 resultado0_def)
qed

theorem migration_dry_run_predicts_witness:
  "\<exists>D m r. generateAccountingEntriesForMigratedContracts luxon_mig0 0 ix0 (\<lambda>t. None) 9 (real0\<lparr>om_dryRun := True\<rparr>) bd_mig0 =
       (Inr D, bd_mig0\<lparr>mig_cache := m\<rparr>) \<and> hd (rm_results D) = r \<and> mr_success r"
proof -
  obtain R where R: "generateAccountingEntriesForMigratedContracts luxon_mig0 0 ix0 (\<lambda>t. None) 9 real0 bd_mig0 = (Inr R, con_apertura)"
    "map mr_success (rm_results R) = [True, False]" using lote0_run [of "\<lambda>t. None"] by (elim exE conjE) (rule that)
  have "\<not> om_dryRun real0" "distinct (map ct_id (contratos bd_mig0))"
    by (simp_all add: real0_def bd_mig0_campos fijo0_campos)
  from migration_dry_run_predicts [OF this R(1)] obtain D m where
    D: "generateAccountingEntriesForMigratedContracts luxon_mig0 0 ix0 (\<lambda>t. None) 9 (real0\<lparr>om_dryRun := True\<rparr>) bd_mig0 =
       (Inr D, bd_mig0\<lparr>mig_cache := m\<rparr>)"
    and l: "list_all2 (\<lambda>r d. mr_contractId d = mr_contractId r \<and> (mr_success r \<longrightarrow> d = r)) (rm_results R) (rm_results D)" by blast
  have "mr_success (hd (rm_results D))" using l R(2) by (auto simp: map_eq_Cons_conv list_all2_Cons1)
  with D show ?thesis by blast
qed


definition icl_contrato0 :: contrato where
  "icl_contrato0 = contrato0\<lparr>ajuste_programado := Some (19783 * dia_ms)\<rparr>"

lemma icl_valores:
  "getIndexValueForDate 0 ix0 ''ICL'' (Some (19723 * dia_ms)) = Inr (Some 100)"
  "getIndexValueForDate 0 ix0 ''ICL'' (Some (19783 * dia_ms)) = Inr (Some 110)"
  "getIndexValueForDate 0 ix0 ''ICL'' (Some (19963 * dia_ms)) = Inr (Some 150)"
  by (simp_all add: getIndexValueForDate_def getLatestICLValueBeforeDate_def gets_run ultimo_hasta_def mas_recientes_def
      ix0_def icl0_def fecha_indice_def primero_def valor_de_def dia_ms_def)

text \<open>An index that grows by 10% up to the adjustment: the debt of the opening balance adjusts by
  10%, the rent of the history by 50%.\<close>

theorem migration_strategies_disagree_witness:
  "calculateAccruedAmount luxon_mig0 0 ix0 icl_contrato0 (19723 * dia_ms) (19813 * dia_ms) = 3100 \<and>
     cambio_periodo 0 ix0 ''ICL'' (periodos_historia luxon_mig0 icl_contrato0) (19783 * dia_ms)
       \<lparr>hs_count = 2, hs_total = 2000, hs_monto = 1000, hs_periodo = 0\<rparr> =
     Inr \<lparr>hs_count = 2, hs_total = 2000, hs_monto = 1500, hs_periodo = 1\<rparr>"
proof -
  have c: "indice_tipo (terminos_financieros icl_contrato0) = ''ICL''" "ajuste_programado icl_contrato0 = Some (19783 * dia_ms)"
    "fecha_inicio icl_contrato0 = 19723 * dia_ms" "fecha_final icl_contrato0 = 19813 * dia_ms"
    "monto_base_vigente (terminos_financieros icl_contrato0) = 1000"
    by (simp_all add: icl_contrato0_def contrato0_def terminos0_def)
  have p: "lx_plus luxon_mig0 (19783 * dia_ms) 6 0 = 19963 * dia_ms" by (simp add: luxon_mig0_def dia_ms_def)
  have m: "calculateMonthsBetween luxon_mig0 (19723 * dia_ms) (19783 * dia_ms) = 2"
    "calculateMonthsBetween luxon_mig0 (19783 * dia_ms) (19813 * dia_ms) = 1"
    by (simp_all add: calculateMonthsBetween_def luxon_mig0_def dia_ms_def floor_eq_iff)
  have r: "roundToTwoDecimals 2000 = 2000" "roundToTwoDecimals 1100 = 1100" "roundToTwoDecimals 3100 = 3100"
    "roundToTwoDecimals 1500 = 1500"
    by (simp_all add: roundToTwoDecimals_def math_round_def floor_eq_iff)
  have o: "19723 * dia_ms < 19783 * dia_ms" "19783 * dia_ms < 19813 * dia_ms" "19813 * dia_ms \<le> 19963 * dia_ms"
    by (simp_all add: dia_ms_def)
  note claim = migration_strategies_disagree [of icl_contrato0 "19783 * dia_ms" luxon_mig0 0 ix0 100 110 150
        "\<lparr>hs_count = 2, hs_total = 2000, hs_monto = 1000, hs_periodo = 0\<rparr>" 2 2000 "19783 * dia_ms", unfolded c p m icl_valores]
  show ?thesis using claim [OF _ refl o] by (simp add: r)
qed

end
