(* ===== verification/Inventory.thy ===== *)
theory Inventory
  imports Store
begin

text \<open>
  \<^verbatim>\<open>src/modules/shared/inventory/inventory.service.ts\<close>: the catalogue of items, and the inventories of
  the properties with their versions. Ids arrive as texts: \<open>od\<close> is the cast of a text to an id (\<open>None\<close>
  is a \<^verbatim>\<open>CastError\<close>) and \<open>txd\<close> the text of a populated document, which is not the text of its id.
  A string that is required is not empty.
\<close>

section \<open>Documents\<close>

record item_catalogo =
  ic_id :: oid
  ic_categoria :: string
  ic_descripcion_base :: string
  ic_marca :: "string option"
  ic_modelo :: "string option"
  ic_fotos_urls :: "string list"

datatype estado_item = ITEM_NUEVO | ITEM_BUENO | ITEM_REGULAR | ITEM_MALO

record item_version =
  it_nombre :: string
  it_estado :: estado_item
  it_cantidad :: rat
  it_categoria :: "string option"
  it_marca :: "string option"
  it_modelo :: "string option"
  it_descripcion :: "string option"
  it_fotos_urls :: "string list"

datatype estado_version = DRAFT | ACTIVE | ARCHIVED

record version_inv =
  vi_id :: oid
  property_inventory_id :: oid
  version_number :: nat
  vi_description :: texto
  vi_created_at :: fecha
  vi_created_by :: "oid option"
  vi_status :: estado_version
  vi_items :: "item_version list"

record inventario =
  pi_id :: oid
  property_id :: oid
  current_version_id :: "oid option"
  pi_versions :: "oid list"

record bd_inv = mundo +
  catalogo :: "item_catalogo list"
  inventarios :: "inventario list"
  versiones :: "version_inv list"

definition con_catalogo :: "(item_catalogo list \<Rightarrow> item_catalogo list) \<Rightarrow> 'a bd_inv_scheme \<Rightarrow> 'a bd_inv_scheme" where
  "con_catalogo f s = s\<lparr>catalogo := f (catalogo s)\<rparr>"

definition con_inventarios :: "(inventario list \<Rightarrow> inventario list) \<Rightarrow> 'a bd_inv_scheme \<Rightarrow> 'a bd_inv_scheme" where
  "con_inventarios f s = s\<lparr>inventarios := f (inventarios s)\<rparr>"

definition con_versiones :: "(version_inv list \<Rightarrow> version_inv list) \<Rightarrow> 'a bd_inv_scheme \<Rightarrow> 'a bd_inv_scheme" where
  "con_versiones f s = s\<lparr>versiones := f (versiones s)\<rparr>"

interpretation cata: coleccion ic_id catalogo con_catalogo
  by unfold_locales (simp add: con_catalogo_def)

interpretation invs: coleccion pi_id inventarios con_inventarios
  by unfold_locales (simp add: con_inventarios_def)

interpretation vers: coleccion vi_id versiones con_versiones
  by unfold_locales (simp add: con_versiones_def)

section \<open>The catalogue\<close>

record item_dto =
  id_categoria :: "string option"
  id_descripcion_base :: "string option"
  id_marca :: "string option"
  id_modelo :: "string option"
  id_fotos_urls :: "string list option"

definition ic_create :: "item_dto \<Rightarrow> ('a bd_inv_scheme, item_catalogo) proc" where
  "ic_create dto =
     ebind nuevo_id (\<lambda>i.
     let d = \<lparr>ic_id = i, ic_categoria = coalesce (id_categoria dto) [],
              ic_descripcion_base = coalesce (id_descripcion_base dto) [], ic_marca = id_marca dto,
              ic_modelo = id_modelo dto, ic_fotos_urls = coalesce (id_fotos_urls dto) []\<rparr>
     in if ic_categoria d = [] \<or> ic_descripcion_base d = []
        then raise (ErrorJS ''InventoryItem validation failed'' [])
        else ebind (modify (con_catalogo (\<lambda>ds. ds @ [d]))) (\<lambda>_. ret d))"

definition ic_findAll :: "('a bd_inv_scheme, item_catalogo list) proc" where
  "ic_findAll = gets catalogo"

definition ic_findOne :: "(string \<Rightarrow> oid option) \<Rightarrow> string \<Rightarrow> ('a bd_inv_scheme, item_catalogo option) proc" where
  "ic_findOne od t = ebind (cast_id od t) (\<lambda>i. gets (\<lambda>s. find_id ic_id i (catalogo s)))"

text \<open>\<^verbatim>\<open>findByIdAndUpdate\<close> does not validate.\<close>

definition aplicar_item :: "item_dto \<Rightarrow> item_catalogo \<Rightarrow> item_catalogo" where
  "aplicar_item dto d =
     d\<lparr>ic_categoria := coalesce (id_categoria dto) (ic_categoria d),
       ic_descripcion_base := coalesce (id_descripcion_base dto) (ic_descripcion_base d),
       ic_marca := (case id_marca dto of None \<Rightarrow> ic_marca d | Some m \<Rightarrow> Some m),
       ic_modelo := (case id_modelo dto of None \<Rightarrow> ic_modelo d | Some m \<Rightarrow> Some m),
       ic_fotos_urls := coalesce (id_fotos_urls dto) (ic_fotos_urls d)\<rparr>"

definition ic_update ::
  "(string \<Rightarrow> oid option) \<Rightarrow> string \<Rightarrow> item_dto \<Rightarrow> ('a bd_inv_scheme, item_catalogo option) proc" where
  "ic_update od t dto =
     ebind (cast_id od t) (\<lambda>i.
     ebind (modify (con_catalogo (update_one (\<lambda>d. ic_id d = i) (aplicar_item dto)))) (\<lambda>_.
     gets (\<lambda>s. find_id ic_id i (catalogo s))))"

definition ic_remove :: "(string \<Rightarrow> oid option) \<Rightarrow> string \<Rightarrow> ('a bd_inv_scheme, item_catalogo option) proc" where
  "ic_remove od t =
     ebind (cast_id od t) (\<lambda>i.
     ebind (gets (\<lambda>s. find_id ic_id i (catalogo s))) (\<lambda>d.
     ebind (modify (con_catalogo (delete_one (\<lambda>d. ic_id d = i)))) (\<lambda>_. ret d)))"

section \<open>Inventories\<close>

abbreviation inventario_de :: "oid \<Rightarrow> 'a bd_inv_scheme \<Rightarrow> inventario option" where
  "inventario_de p s \<equiv> find (\<lambda>d. property_id d = p) (inventarios s)"

definition inventario_nuevo :: "oid \<Rightarrow> oid \<Rightarrow> inventario" where
  "inventario_nuevo i p = \<lparr>pi_id = i, property_id = p, current_version_id = None, pi_versions = []\<rparr>"

definition createPropertyInventory :: "(string \<Rightarrow> oid option) \<Rightarrow> string \<Rightarrow> ('a bd_inv_scheme, inventario) proc" where
  "createPropertyInventory od t =
     ebind (cast_id od t) (\<lambda>p.
     ebind (gets (inventario_de p)) (\<lambda>existing.
     if existing \<noteq> None then raise (BadRequestException ''Ya existe un inventario para esta propiedad'' [])
     else ebind nuevo_id (\<lambda>i.
          ebind (modify (con_inventarios (\<lambda>ds. ds @ [inventario_nuevo i p]))) (\<lambda>_.
          ret (inventario_nuevo i p)))))"

text \<open>The inventory with its current version and its versions populated: a reference to a document
  that is not there is \<^verbatim>\<open>null\<close>, and is dropped from the list.\<close>

record inventario_poblado =
  po_inventario :: inventario
  po_current :: "version_inv option"
  po_versions :: "version_inv list"

definition poblar :: "inventario \<Rightarrow> 'a bd_inv_scheme \<Rightarrow> inventario_poblado" where
  "poblar d s =
     \<lparr>po_inventario = d,
      po_current = (case current_version_id d of None \<Rightarrow> None | Some i \<Rightarrow> find_id vi_id i (versiones s)),
      po_versions = List.map_filter (\<lambda>i. find_id vi_id i (versiones s)) (pi_versions d)\<rparr>"

definition getPropertyInventory ::
  "(string \<Rightarrow> oid option) \<Rightarrow> string \<Rightarrow> ('a bd_inv_scheme, inventario_poblado) proc" where
  "getPropertyInventory od t =
     ebind (cast_id od t) (\<lambda>p.
     ebind (gets (inventario_de p)) (\<lambda>inventory.
     case inventory of
       None \<Rightarrow> raise (NotFoundException ''No se encontro inventario para esta propiedad'' [])
     | Some d \<Rightarrow> gets (poblar d)))"

definition getOrCreatePropertyInventory ::
  "(string \<Rightarrow> oid option) \<Rightarrow> string \<Rightarrow> ('a bd_inv_scheme, inventario) proc" where
  "getOrCreatePropertyInventory od t =
     ebind (cast_id od t) (\<lambda>p.
     ebind (gets (inventario_de p)) (\<lambda>inventory.
     case inventory of
       Some d \<Rightarrow> ret d
     | None \<Rightarrow>
         ebind nuevo_id (\<lambda>i.
         ebind (modify (con_inventarios (\<lambda>ds. ds @ [inventario_nuevo i p]))) (\<lambda>_.
         ret (inventario_nuevo i p)))))"

section \<open>Versions\<close>

record version_dto =
  vd_description :: "texto option"
  vd_items :: "item_version list option"
  vd_status :: "estado_version option"

definition version_valida :: "version_inv \<Rightarrow> bool" where
  "version_valida v \<longleftrightarrow> fst (vi_description v) \<noteq> [] \<and> (\<forall>it \<in> set (vi_items v). it_nombre it \<noteq> [])"

definition guardar_version :: "version_inv \<Rightarrow> (version_inv list \<Rightarrow> version_inv list) \<Rightarrow> ('a bd_inv_scheme, version_inv) proc" where
  "guardar_version v f =
     (if version_valida v then ebind (modify (con_versiones f)) (\<lambda>_. ret v)
      else raise (ErrorJS ''InventoryVersion validation failed'' []))"

definition autor_version :: "(string \<Rightarrow> oid option) \<Rightarrow> string option \<Rightarrow> ('s, oid option) proc" where
  "autor_version od userId =
     (case userId of
        None \<Rightarrow> ret None
      | Some u \<Rightarrow> if u = [] then ret None
                  else (case od u of None \<Rightarrow> raise (ErrorJS ''BSONError'' [AStr u]) | Some i \<Rightarrow> ret (Some i)))"

definition createVersion ::
  "(string \<Rightarrow> oid option) \<Rightarrow> string \<Rightarrow> version_dto \<Rightarrow> string option \<Rightarrow> ('a bd_inv_scheme, version_inv) proc" where
  "createVersion od t dto userId =
     ebind (getOrCreatePropertyInventory od t) (\<lambda>propertyInventory.
     ebind (gets (\<lambda>s. length (filter (\<lambda>v. property_inventory_id v = pi_id propertyInventory) (versiones s)))) (\<lambda>versionCount.
     ebind (autor_version od userId) (\<lambda>autor.
     ebind (gets ahora) (\<lambda>now.
     ebind nuevo_id (\<lambda>i.
     ebind (let v = \<lparr>vi_id = i, property_inventory_id = pi_id propertyInventory, version_number = versionCount + 1,
                     vi_description = coalesce (vd_description dto) ([], []), vi_created_at = now, vi_created_by = autor,
                     vi_status = coalesce (vd_status dto) ACTIVE, vi_items = coalesce (vd_items dto) []\<rparr>
            in guardar_version v (\<lambda>vs. vs @ [v])) (\<lambda>savedVersion.
     let d = propertyInventory\<lparr>pi_versions := pi_versions propertyInventory @ [vi_id savedVersion]\<rparr>;
         d' = (if current_version_id d = None then d\<lparr>current_version_id := Some (vi_id savedVersion)\<rparr> else d)
     in ebind (modify (con_inventarios (save_doc pi_id d'))) (\<lambda>_. ret savedVersion)))))))"

definition getVersions :: "(string \<Rightarrow> oid option) \<Rightarrow> string \<Rightarrow> ('a bd_inv_scheme, version_inv list) proc" where
  "getVersions od t =
     ebind (getPropertyInventory od t) (\<lambda>pob.
     gets (\<lambda>s. sort_key (\<lambda>v. - int (version_number v))
       (filter (\<lambda>v. property_inventory_id v = pi_id (po_inventario pob)) (versiones s))))"

definition getVersion :: "(string \<Rightarrow> oid option) \<Rightarrow> string \<Rightarrow> string \<Rightarrow> ('a bd_inv_scheme, version_inv) proc" where
  "getVersion od t versionId =
     ebind (getPropertyInventory od t) (\<lambda>pob.
     ebind (cast_id od versionId) (\<lambda>i.
     ebind (gets (\<lambda>s. find (\<lambda>v. vi_id v = i \<and> property_inventory_id v = pi_id (po_inventario pob)) (versiones s))) (\<lambda>version.
     case version of
       None \<Rightarrow> raise (NotFoundException ''Version de inventario no encontrada'' [])
     | Some v \<Rightarrow> ret v)))"

definition aplicar_version :: "version_dto \<Rightarrow> version_inv \<Rightarrow> version_inv" where
  "aplicar_version dto v =
     v\<lparr>vi_description := coalesce (vd_description dto) (vi_description v),
       vi_items := coalesce (vd_items dto) (vi_items v), vi_status := coalesce (vd_status dto) (vi_status v)\<rparr>"

definition updateVersion ::
  "(string \<Rightarrow> oid option) \<Rightarrow> string \<Rightarrow> string \<Rightarrow> version_dto \<Rightarrow> ('a bd_inv_scheme, version_inv) proc" where
  "updateVersion od t versionId dto =
     ebind (getVersion od t versionId) (\<lambda>version.
     if vi_status version = ARCHIVED
     then raise (BadRequestException ''No se pueden editar versiones archivadas'' [])
     else guardar_version (aplicar_version dto version) (save_doc vi_id (aplicar_version dto version)))"

definition setCurrentVersion ::
  "(string \<Rightarrow> oid option) \<Rightarrow> string \<Rightarrow> string \<Rightarrow> ('a bd_inv_scheme, inventario) proc" where
  "setCurrentVersion od t versionId =
     ebind (getPropertyInventory od t) (\<lambda>pob.
     ebind (getVersion od t versionId) (\<lambda>version.
     if vi_status version \<noteq> ACTIVE
     then raise (BadRequestException ''Solo las versiones activas pueden ser la version actual'' [])
     else let d = (po_inventario pob)\<lparr>current_version_id := Some (vi_id version)\<rparr>
          in ebind (modify (con_inventarios (save_doc pi_id d))) (\<lambda>_. ret d)))"

text \<open>The current version and the list are populated here, so their \<^verbatim>\<open>toString()\<close> is \<open>txd\<close>. A list from
  which nothing is removed equals the one that was read and is not written.\<close>

definition quitar_version :: "(version_inv \<Rightarrow> string) \<Rightarrow> string \<Rightarrow> inventario_poblado \<Rightarrow> inventario" where
  "quitar_version txd versionId pob =
     (let quedan = filter (\<lambda>v. txd v \<noteq> versionId) (po_versions pob)
      in if quedan = po_versions pob then po_inventario pob
         else (po_inventario pob)\<lparr>pi_versions := map vi_id quedan\<rparr>)"

definition deleteVersion ::
  "(string \<Rightarrow> oid option) \<Rightarrow> (version_inv \<Rightarrow> string) \<Rightarrow> string \<Rightarrow> string \<Rightarrow> ('a bd_inv_scheme, unit) proc" where
  "deleteVersion od txd t versionId =
     ebind (getPropertyInventory od t) (\<lambda>pob.
     ebind (getVersion od t versionId) (\<lambda>version.
     if (case po_current pob of None \<Rightarrow> False | Some c \<Rightarrow> txd c = versionId)
     then raise (BadRequestException ''No se puede eliminar la version actual'' [])
     else ebind (modify (con_inventarios (save_doc pi_id (quitar_version txd versionId pob)))) (\<lambda>_.
          ebind (cast_id od versionId) (\<lambda>i.
          modify (con_versiones (delete_one (\<lambda>v. vi_id v = i)))))))"

text \<open>\<^verbatim>\<open>{_id, ...item}\<close> of an item, which has no \<^verbatim>\<open>_id\<close>, is the item.\<close>

definition version_origen ::
  "(string \<Rightarrow> oid option) \<Rightarrow> string \<Rightarrow> string option \<Rightarrow> ('a bd_inv_scheme, version_inv option) proc" where
  "version_origen od t versionId =
     (if coalesce versionId [] \<noteq> []
      then ebind (getVersion od t (coalesce versionId [])) (\<lambda>v. ret (Some v))
      else ebind (getVersions od t) (\<lambda>versions.
           ret (case find (\<lambda>v. vi_status v = ACTIVE) versions of
                  Some v \<Rightarrow> Some v
                | None \<Rightarrow> (case versions of [] \<Rightarrow> None | v # _ \<Rightarrow> Some v))))"

definition copyInventoryToProperty ::
  "(string \<Rightarrow> oid option) \<Rightarrow> string \<Rightarrow> string \<Rightarrow> string option \<Rightarrow> string option \<Rightarrow> string option \<Rightarrow>
   ('a bd_inv_scheme, version_inv) proc" where
  "copyInventoryToProperty od source target versionId desc userId =
     ebind (version_origen od source versionId) (\<lambda>sourceVersion.
     case sourceVersion of
       None \<Rightarrow> raise (NotFoundException ''No se encontro inventario para copiar'' [])
     | Some v \<Rightarrow>
         createVersion od target
           \<lparr>vd_description = Some (if coalesce desc [] \<noteq> [] then (coalesce desc [], [])
                                   else (''Copiado de propiedad {}'', [AStr source])),
            vd_items = Some (vi_items v), vd_status = Some DRAFT\<rparr> userId)"

end
