(* ===== verification/InventoryProperties.thy ===== *)
theory InventoryProperties
  imports Inventory "HOL-Library.Sublist"
begin

text \<open>
  The versions of an inventory: what every run of the operations keeps, what the deletion of a
  version does not check, and the numbers it makes repeat.
\<close>

section \<open>The invariant\<close>

definition inventario_ok :: "oid \<Rightarrow> inventario \<Rightarrow> bool" where
  "inventario_ok n d \<longleftrightarrow> distinct (pi_versions d) \<and> (\<forall>i \<in> set (pi_versions d). i < n) \<and>
     (\<forall>i. current_version_id d = Some i \<longrightarrow> i \<in> set (pi_versions d))"

definition inv_ok :: "'a bd_inv_scheme \<Rightarrow> bool" where
  "inv_ok s \<longleftrightarrow> distinct (map pi_id (inventarios s)) \<and> distinct (map property_id (inventarios s)) \<and>
     distinct (map vi_id (versiones s)) \<and>
     (\<forall>d \<in> set (inventarios s). pi_id d < prox_id s \<and> inventario_ok (prox_id s) d) \<and>
     (\<forall>v \<in> set (versiones s). vi_id v < prox_id s \<and>
        (\<exists>d \<in> set (inventarios s). pi_id d = property_inventory_id v \<and> vi_id v \<in> set (pi_versions d)))"

lemma campos_inv [simp]:
  "inventarios (con_inventarios f s) = f (inventarios s)" "versiones (con_inventarios f s) = versiones s"
  "prox_id (con_inventarios f s) = prox_id s" "catalogo (con_inventarios f s) = catalogo s"
  "inventarios (con_versiones g s) = inventarios s" "versiones (con_versiones g s) = g (versiones s)"
  "prox_id (con_versiones g s) = prox_id s" "catalogo (con_versiones g s) = catalogo s"
  "inventarios (con_catalogo h s) = inventarios s" "versiones (con_catalogo h s) = versiones s"
  "prox_id (con_catalogo h s) = prox_id s" "catalogo (con_catalogo h s) = h (catalogo s)"
  "ahora (con_inventarios f s) = ahora s" "ahora (con_versiones g s) = ahora s"
  by (simp_all add: con_inventarios_def con_versiones_def con_catalogo_def)

text \<open>The catalogue and the ids handed out do not matter.\<close>

lemma inv_ok_prox: "inv_ok s \<Longrightarrow> inv_ok (s\<lparr>prox_id := Suc (prox_id s)\<rparr>)"
  by (fastforce simp: inv_ok_def inventario_ok_def)

lemma inv_ok_catalogo: "inv_ok (con_catalogo f s) \<longleftrightarrow> inv_ok s"
  by (simp add: inv_ok_def)

text \<open>Inventories stay, with their ids and properties.\<close>

definition sigue :: "'a bd_inv_scheme \<Rightarrow> 'a bd_inv_scheme \<Rightarrow> bool" where
  "sigue s s' \<longleftrightarrow> inv_ok s' \<and>
     prefix (map (\<lambda>d. (pi_id d, property_id d)) (inventarios s)) (map (\<lambda>d. (pi_id d, property_id d)) (inventarios s'))"

lemma sigue_refl: "inv_ok s \<Longrightarrow> sigue s s"
  by (simp add: sigue_def)

lemma sigue_trans: "sigue s t \<Longrightarrow> sigue t u \<Longrightarrow> sigue s u"
  unfolding sigue_def by (meson prefix_order.trans)

lemma inventario_de_Some:
  "inventario_de p s = Some d \<Longrightarrow> d \<in> set (inventarios s) \<and> property_id d = p"
  by (metis (mono_tags, lifting) find_Some_iff nth_mem)

lemma getPropertyInventory_run:
  "getPropertyInventory od t s = (case od t of None \<Rightarrow> (Inl (ErrorJS ''CastError'' [AStr t]), s)
     | Some p \<Rightarrow> (case inventario_de p s of
         None \<Rightarrow> (Inl (NotFoundException ''No se encontro inventario para esta propiedad'' []), s)
       | Some d \<Rightarrow> (Inr (poblar d s), s)))"
  by (simp add: getPropertyInventory_def ebind_def cast_id_run proc_simps split: option.split)

lemma getVersion_run:
  "getVersion od t w s = (case getPropertyInventory od t s of (Inl e, s') \<Rightarrow> (Inl e, s')
     | (Inr pob, s') \<Rightarrow> (case od w of None \<Rightarrow> (Inl (ErrorJS ''CastError'' [AStr w]), s')
       | Some i \<Rightarrow> (case find (\<lambda>v. vi_id v = i \<and> property_inventory_id v = pi_id (po_inventario pob)) (versiones s') of
           None \<Rightarrow> (Inl (NotFoundException ''Version de inventario no encontrada'' []), s')
         | Some v \<Rightarrow> (Inr v, s'))))"
  by (simp add: getVersion_def ebind_def cast_id_run proc_simps split: option.split sum.split prod.split)

lemma getPropertyInventory_estado: "snd (getPropertyInventory od t s) = s"
  by (simp add: getPropertyInventory_run split: option.split)

lemma getPropertyInventory_Inr:
  "getPropertyInventory od t s = (Inr pob, s') \<Longrightarrow> s' = s \<and>
     (\<exists>p d. od t = Some p \<and> inventario_de p s = Some d \<and> pob = poblar d s)"
  by (auto simp: getPropertyInventory_run split: option.splits)

lemma getVersion_Inr:
  assumes "getVersion od t w s = (Inr v, s')"
  obtains p d where "s' = s" "od t = Some p" "inventario_de p s = Some d" "od w = Some (vi_id v)"
    "v \<in> set (versiones s)" "property_inventory_id v = pi_id d"
proof -
  from assms obtain pob i where g: "getPropertyInventory od t s = (Inr pob, s')" and i: "od w = Some i"
    and f: "find (\<lambda>v. vi_id v = i \<and> property_inventory_id v = pi_id (po_inventario pob)) (versiones s') = Some v"
    by (auto simp: getVersion_run split: prod.splits sum.splits option.splits)
  from f have "v \<in> set (versiones s') \<and> vi_id v = i \<and> property_inventory_id v = pi_id (po_inventario pob)"
    by (metis (mono_tags, lifting) find_Some_iff nth_mem)
  with getPropertyInventory_Inr [OF g] i show ?thesis by (auto simp: poblar_def intro: that)
qed

lemma getVersion_estado: "snd (getVersion od t w s) = s"
  using getPropertyInventory_estado [of od t s]
  by (auto simp: getVersion_run split: prod.split sum.split option.split)

lemma inv_ok_nuevo:
  assumes "inv_ok s" and "inventario_de p s = None"
  shows "sigue s (con_inventarios (\<lambda>ds. ds @ [inventario_nuevo (prox_id s) p]) (s\<lparr>prox_id := Suc (prox_id s)\<rparr>))"
proof -
  have "p \<notin> property_id ` set (inventarios s)" using assms(2) by (auto simp: find_None_iff)
  moreover have "prox_id s \<notin> pi_id ` set (inventarios s)" using assms(1) by (fastforce simp: inv_ok_def)
  ultimately show ?thesis
    using assms(1) by (fastforce simp: sigue_def inv_ok_def inventario_ok_def inventario_nuevo_def)
qed

lemma getOrCreate_sigue:
  assumes "inv_ok s" and "getOrCreatePropertyInventory od t s = (r, s')"
  shows "sigue s s' \<and> versiones s' = versiones s \<and> (\<forall>d. r = Inr d \<longrightarrow> d \<in> set (inventarios s') \<and> od t = Some (property_id d))"
proof (cases "od t")
  case None
  then show ?thesis using assms by (auto simp: getOrCreatePropertyInventory_def ebind_def cast_id_run sigue_refl)
next
  case (Some p)
  show ?thesis
  proof (cases "inventario_de p s")
    case None
    with Some assms inv_ok_nuevo [OF assms(1) None] show ?thesis
      by (auto simp: getOrCreatePropertyInventory_def ebind_def cast_id_run proc_simps inventario_nuevo_def)
  next
    case (Some d)
    with \<open>od t = Some p\<close> assms inventario_de_Some [OF Some] show ?thesis
      by (auto simp: getOrCreatePropertyInventory_def ebind_def cast_id_run proc_simps sigue_refl)
  qed
qed

text \<open>Replacing an inventory by one with the same ids whose list covers the versions.\<close>

lemma inv_ok_save:
  assumes "inv_ok s" and "d \<in> set (inventarios s)" and "pi_id d' = pi_id d" "property_id d' = property_id d"
    and "inventario_ok (prox_id s) d'" and "set (pi_versions d) \<subseteq> set (pi_versions d')"
  shows "sigue s (con_inventarios (save_doc pi_id d') s)"
proof -
  have u: "x = d" if "x \<in> set (inventarios s)" "pi_id x = pi_id d" for x
    using that assms(1,2) unfolding inv_ok_def by (metis (no_types, lifting) distinct_map inj_onD)
  let ?f = "\<lambda>x. if pi_id x = pi_id d' then d' else x"
  have m: "map (\<lambda>x. (pi_id x, property_id x)) (map ?f (inventarios s)) = map (\<lambda>x. (pi_id x, property_id x)) (inventarios s)"
    using u assms(3,4) by auto
  have ids: "map pi_id (map ?f (inventarios s)) = map pi_id (inventarios s)"
    "map property_id (map ?f (inventarios s)) = map property_id (inventarios s)"
    using u assms(3,4) by auto
  have "\<exists>x \<in> set (map ?f (inventarios s)). pi_id x = property_inventory_id v \<and> vi_id v \<in> set (pi_versions x)"
    if v: "v \<in> set (versiones s)" for v
  proof -
    obtain x where x: "x \<in> set (inventarios s)" "pi_id x = property_inventory_id v" "vi_id v \<in> set (pi_versions x)"
      using v assms(1) by (auto simp: inv_ok_def)
    have "?f x \<in> set (map ?f (inventarios s))" using imageI [OF x(1), of ?f] by (simp only: set_map)
    moreover have "pi_id (?f x) = property_inventory_id v \<and> vi_id v \<in> set (pi_versions (?f x))"
      using u [OF x(1)] x assms(3,6) by auto
    ultimately show ?thesis by blast
  qed
  moreover have "pi_id y < prox_id s \<and> inventario_ok (prox_id s) y" if "y \<in> set (map ?f (inventarios s))" for y
    using that assms by (auto simp: inv_ok_def)
  moreover have l: "inventarios (con_inventarios (save_doc pi_id d') s) = map ?f (inventarios s)"
    by (simp add: save_doc_def)
  ultimately show ?thesis
    using assms(1) unfolding sigue_def inv_ok_def l ids m by simp
qed

lemma guardar_version_run:
  "guardar_version v f s = (if version_valida v then (Inr v, con_versiones f s)
     else (Inl (ErrorJS ''InventoryVersion validation failed'' []), s))"
  by (simp add: guardar_version_def proc_simps)

text \<open>A new version, with its id in the list of its inventory.\<close>

lemma inv_ok_version:
  assumes "inv_ok s" and "d \<in> set (inventarios s)" and "property_inventory_id v = pi_id d" and "vi_id v = prox_id s"
    and "d' = (let e = d\<lparr>pi_versions := pi_versions d @ [vi_id v]\<rparr> in
           if current_version_id e = None then e\<lparr>current_version_id := Some (vi_id v)\<rparr> else e)"
  shows "sigue s (con_inventarios (save_doc pi_id d') (con_versiones (\<lambda>vs. vs @ [v]) (s\<lparr>prox_id := Suc (prox_id s)\<rparr>)))"
proof -
  let ?s = "s\<lparr>prox_id := Suc (prox_id s)\<rparr>"
  have dd: "inventario_ok (prox_id s) d" using assms(1,2) by (simp add: inv_ok_def)
  have "pi_id d' = pi_id d" "property_id d' = property_id d" "set (pi_versions d) \<subseteq> set (pi_versions d')"
    "inventario_ok (prox_id ?s) d'" "vi_id v \<in> set (pi_versions d')"
    using dd assms(4,5) by (auto simp: Let_def inventario_ok_def less_Suc_eq)
  then have s1: "sigue ?s (con_inventarios (save_doc pi_id d') ?s)" and in_d: "vi_id v \<in> set (pi_versions d')"
    and k: "pi_id d' = pi_id d"
    using inv_ok_save [OF inv_ok_prox [OF assms(1)], of d d'] assms(2) by simp_all
  have n: "prox_id s \<notin> vi_id ` set (versiones s)" using assms(1) by (fastforce simp: inv_ok_def)
  have "d' \<in> set (save_doc pi_id d' (inventarios s))" using assms(2) k by (auto simp: save_doc_def intro!: image_eqI [of _ _ d])
  with s1 n in_d k assms(3,4) show ?thesis
    unfolding sigue_def inv_ok_def by (auto simp: less_Suc_eq)
qed

lemma createVersion_sigue:
  assumes "inv_ok s" and run: "createVersion od t dto u s = (r, s')"
  shows "sigue s s'"
proof -
  obtain g s1 where g: "getOrCreatePropertyInventory od t s = (g, s1)" by (meson surj_pair)
  note gs = getOrCreate_sigue [OF assms(1) g]
  show ?thesis
  proof (cases g)
    case (Inl e)
    with run g gs show ?thesis by (simp add: createVersion_def ebind_def)
  next
    case (Inr d)
    then have d: "d \<in> set (inventarios s1)" and ok: "inv_ok s1" using gs by (auto simp: sigue_def)
    obtain a s2 where a: "autor_version od u s1 = (a, s2)" by (meson surj_pair)
    then have s2: "s2 = s1" by (auto simp: autor_version_def proc_simps split: option.splits if_splits)
    show ?thesis
    proof (cases a)
      case (Inl e)
      with run g gs Inr a s2 show ?thesis by (simp add: createVersion_def ebind_def gets_def)
    next
      case (Inr au)
      let ?n = "length (filter (\<lambda>v. property_inventory_id v = pi_id d) (versiones s1))"
      let ?v = "\<lparr>vi_id = prox_id s1, property_inventory_id = pi_id d, version_number = ?n + 1,
                     vi_description = coalesce (vd_description dto) ([], []), vi_created_at = ahora s1, vi_created_by = au,
                     vi_status = coalesce (vd_status dto) ACTIVE, vi_items = coalesce (vd_items dto) []\<rparr>"
      let ?d = "let e = d\<lparr>pi_versions := pi_versions d @ [vi_id ?v]\<rparr> in
           if current_version_id e = None then e\<lparr>current_version_id := Some (vi_id ?v)\<rparr> else e"
      have "sigue s1 s'"
      proof (cases "version_valida ?v")
        case True
        then have "s' = con_inventarios (save_doc pi_id ?d) (con_versiones (\<lambda>vs. vs @ [?v]) (s1\<lparr>prox_id := Suc (prox_id s1)\<rparr>))"
          using run g \<open>g = Inr d\<close> a s2 Inr
          by (auto simp: createVersion_def ebind_def gets_def nuevo_id_def guardar_version_run modify_def ret_def Let_def)
        with inv_ok_version [OF ok d, of ?v ?d] show ?thesis by simp
      next
        case False
        then have "s' = s1\<lparr>prox_id := Suc (prox_id s1)\<rparr>"
          using run g \<open>g = Inr d\<close> a s2 Inr
          by (auto simp: createVersion_def ebind_def gets_def nuevo_id_def guardar_version_run modify_def ret_def Let_def)
        with inv_ok_prox [OF ok] show ?thesis by (simp add: sigue_def)
      qed
      with gs show ?thesis by (blast intro: sigue_trans)
    qed
  qed
qed


lemma createPropertyInventory_sigue:
  assumes "inv_ok s" and "createPropertyInventory od t s = (r, s')"
  shows "sigue s s'"
proof (cases "od t")
  case None
  then show ?thesis using assms by (simp add: createPropertyInventory_def ebind_def cast_id_run sigue_refl)
next
  case (Some p)
  show ?thesis
  proof (cases "inventario_de p s")
    case None
    with Some assms inv_ok_nuevo [OF assms(1) None] show ?thesis
      by (simp add: createPropertyInventory_def ebind_def cast_id_run gets_def nuevo_id_def modify_def ret_def)
  next
    case (Some d)
    with \<open>od t = Some p\<close> assms show ?thesis
      by (simp add: createPropertyInventory_def ebind_def cast_id_run gets_def raise_def sigue_refl)
  qed
qed

text \<open>Writing a version that is there, without its ids changing.\<close>

lemma inv_ok_editar:
  assumes "inv_ok s" and "v \<in> set (versiones s)" and "vi_id v' = vi_id v" "property_inventory_id v' = property_inventory_id v"
  shows "sigue s (con_versiones (save_doc vi_id v') s)"
proof -
  have u: "x = v" if "x \<in> set (versiones s)" "vi_id x = vi_id v" for x
    using that assms(1,2) unfolding inv_ok_def by (metis (no_types, lifting) distinct_map inj_onD)
  let ?f = "\<lambda>x. if vi_id x = vi_id v' then v' else x"
  have ids: "map vi_id (map ?f (versiones s)) = map vi_id (versiones s)" by simp
  have l: "versiones (con_versiones (save_doc vi_id v') s) = map ?f (versiones s)" by (simp add: save_doc_def)
  have "vi_id y < prox_id s \<and> (\<exists>d \<in> set (inventarios s). pi_id d = property_inventory_id y \<and> vi_id y \<in> set (pi_versions d))"
    if y: "y \<in> set (map ?f (versiones s))" for y
  proof -
    from y obtain x where x: "x \<in> set (versiones s)" "y = ?f x" by auto
    with u [OF x(1)] assms(3,4) have "vi_id y = vi_id x" "property_inventory_id y = property_inventory_id x" by auto
    with x(1) assms(1) show ?thesis unfolding inv_ok_def by metis
  qed
  then show ?thesis
    using assms(1) unfolding sigue_def inv_ok_def l ids by simp
qed

lemma updateVersion_sigue:
  assumes "inv_ok s" and run: "updateVersion od t w dto s = (r, s')"
  shows "sigue s s'"
proof -
  obtain g s1 where g: "getVersion od t w s = (g, s1)" by (meson surj_pair)
  then have s1: "s1 = s" using getVersion_estado [of od t w s] by simp
  show ?thesis
  proof (cases g)
    case (Inl e)
    with run g s1 assms(1) show ?thesis by (simp add: updateVersion_def ebind_def sigue_refl)
  next
    case (Inr v)
    with g obtain p d where "v \<in> set (versiones s)" by (auto elim: getVersion_Inr)
    from inv_ok_editar [OF assms(1) this, of "aplicar_version dto v"]
    show ?thesis using run g s1 Inr assms(1)
      by (auto simp: updateVersion_def ebind_def guardar_version_run raise_def sigue_refl aplicar_version_def split: if_splits)
  qed
qed

lemma inv_ok_listado:
  assumes "inv_ok s" and "v \<in> set (versiones s)" and "d \<in> set (inventarios s)" and "property_inventory_id v = pi_id d"
  shows "vi_id v \<in> set (pi_versions d)"
proof -
  obtain x where x: "x \<in> set (inventarios s)" "pi_id x = property_inventory_id v" "vi_id v \<in> set (pi_versions x)"
    using assms(1,2) by (auto simp: inv_ok_def)
  have "x = d" using x(1,2) assms(1,3,4) unfolding inv_ok_def by (metis (no_types, lifting) distinct_map inj_onD)
  with x(3) show ?thesis by simp
qed

lemma setCurrentVersion_sigue:
  assumes "inv_ok s" and run: "setCurrentVersion od t w s = (r, s')"
  shows "sigue s s'"
proof -
  obtain g s1 where g: "getPropertyInventory od t s = (g, s1)" by (meson surj_pair)
  obtain h s2 where h: "getVersion od t w s = (h, s2)" by (meson surj_pair)
  have e: "s1 = s" "s2 = s" using g h getPropertyInventory_estado [of od t s] getVersion_estado [of od t w s] by simp_all
  show ?thesis
  proof (cases "\<exists>pob v. g = Inr pob \<and> h = Inr v \<and> vi_status v = ACTIVE")
    case False
    with run g h e assms(1) show ?thesis
      by (auto simp: setCurrentVersion_def ebind_def raise_def Let_def sigue_refl split: sum.splits if_splits)
  next
    case True
    then obtain pob v where gv: "g = Inr pob" "h = Inr v" "vi_status v = ACTIVE" by blast
    from getPropertyInventory_Inr [OF g [unfolded gv(1)]] obtain p d where
      d: "od t = Some p" "inventario_de p s = Some d" "pob = poblar d s" by blast
    from getVersion_Inr [OF h [unfolded gv(2)]] obtain p' d' where
      v: "od t = Some p'" "inventario_de p' s = Some d'" "v \<in> set (versiones s)" "property_inventory_id v = pi_id d'" by metis
    have dd: "d' = d" using d v by simp
    have din: "d \<in> set (inventarios s)" using inventario_de_Some [OF d(2)] by simp
    have "vi_id v \<in> set (pi_versions d)" using inv_ok_listado [OF assms(1) v(3) din] v(4) dd by simp
    moreover have "inventario_ok (prox_id s) d" using assms(1) din by (simp add: inv_ok_def)
    ultimately have "sigue s (con_inventarios (save_doc pi_id (d\<lparr>current_version_id := Some (vi_id v)\<rparr>)) s)"
      using inv_ok_save [OF assms(1) din, of "d\<lparr>current_version_id := Some (vi_id v)\<rparr>"] by (simp add: inventario_ok_def)
    moreover have "s' = con_inventarios (save_doc pi_id (d\<lparr>current_version_id := Some (vi_id v)\<rparr>)) s"
      using run g h e gv d by (simp add: setCurrentVersion_def ebind_def modify_def ret_def Let_def poblar_def)
    ultimately show ?thesis by simp
  qed
qed

section \<open>Deletion\<close>

lemma save_mismo: "distinct (map k ds) \<Longrightarrow> d \<in> set ds \<Longrightarrow> save_doc k d ds = ds"
  unfolding save_doc_def by (rule map_idI) (metis distinct_map inj_onD)

lemma delete_one_id:
  "distinct (map k ds) \<Longrightarrow> delete_one (\<lambda>d. k d = i) ds = filter (\<lambda>d. k d \<noteq> i) ds"
  by (induction ds) (auto simp: image_iff intro!: filter_True [symmetric])

text \<open>The guard of the current version compares the text of a document with the one of an id: it
  never holds, and nothing is taken out of the list.\<close>

lemma deleteVersion_run:
  assumes "inv_ok s" and txd: "\<forall>v. od (txd v) = None" and g: "getVersion od t w s = (Inr v, s1)"
  shows "deleteVersion od txd t w s = (Inr (), con_versiones (filter (\<lambda>x. vi_id x \<noteq> vi_id v)) s)"
proof -
  from getVersion_Inr [OF g] obtain p d where s1: "s1 = s" and p: "od t = Some p" "inventario_de p s = Some d"
    and w: "od w = Some (vi_id v)" by metis
  have gp: "getPropertyInventory od t s = (Inr (poblar d s), s)" using p by (simp add: getPropertyInventory_run)
  have n: "txd x \<noteq> w" for x using txd w by (metis option.distinct(1))
  then have q: "quitar_version txd w (poblar d s) = d" by (simp add: quitar_version_def poblar_def)
  have d: "d \<in> set (inventarios s)" using inventario_de_Some [OF p(2)] by simp
  have "save_doc pi_id d (inventarios s) = inventarios s"
    using save_mismo [OF _ d, of pi_id] assms(1) by (simp add: inv_ok_def)
  then have c: "con_inventarios (save_doc pi_id d) s = s" by (simp add: con_inventarios_def)
  have "distinct (map vi_id (versiones s))" using assms(1) by (simp add: inv_ok_def)
  then have e: "con_versiones (delete_one (\<lambda>x. vi_id x = vi_id v)) s = con_versiones (filter (\<lambda>x. vi_id x \<noteq> vi_id v)) s"
    by (simp add: con_versiones_def delete_one_id)
  show ?thesis
    using g s1 gp n q c e w by (auto simp: deleteVersion_def ebind_def modify_def cast_id_run split: option.split)
qed

lemma deleteVersion_sigue:
  assumes "inv_ok s" and "\<forall>v. od (txd v) = None" and run: "deleteVersion od txd t w s = (r, s')"
  shows "sigue s s'"
proof -
  obtain h s2 where h: "getVersion od t w s = (h, s2)" by (meson surj_pair)
  show ?thesis
  proof (cases h)
    case (Inr v)
    from deleteVersion_run [OF assms(1,2) h [unfolded Inr]] run assms(1) show ?thesis
      by (auto simp: sigue_def inv_ok_def distinct_map_filter)
  next
    case (Inl e)
    have "s2 = s" using h getVersion_estado [of od t w s] by simp
    moreover have "snd (getPropertyInventory od t s) = s" by (rule getPropertyInventory_estado)
    ultimately show ?thesis using run h Inl assms(1)
      by (auto simp: deleteVersion_def ebind_def sigue_refl split: prod.splits sum.splits)
  qed
qed


lemma createVersion_Inr:
  assumes "od t = Some p" and "inventario_de p s = Some d" and run: "createVersion od t dto u s = (Inr y, s')"
  shows "vi_id y = prox_id s \<and> property_inventory_id y = pi_id d \<and>
     version_number y = length (filter (\<lambda>v. property_inventory_id v = pi_id d) (versiones s)) + 1 \<and>
     vi_items y = coalesce (vd_items dto) [] \<and> vi_status y = coalesce (vd_status dto) ACTIVE \<and>
     versiones s' = versiones s @ [y] \<and>
     inventarios s' = save_doc pi_id (let e = d\<lparr>pi_versions := pi_versions d @ [vi_id y]\<rparr> in
           if current_version_id e = None then e\<lparr>current_version_id := Some (vi_id y)\<rparr> else e) (inventarios s)"
proof -
  have g: "getOrCreatePropertyInventory od t s = (Inr d, s)"
    using assms(1,2) by (simp add: getOrCreatePropertyInventory_def ebind_def cast_id_run gets_def ret_def)
  obtain a s2 where a: "autor_version od u s = (a, s2)" by (meson surj_pair)
  then have s2: "s2 = s" by (auto simp: autor_version_def proc_simps split: option.splits if_splits)
  show ?thesis
    using run g a s2
    by (auto simp: createVersion_def ebind_def gets_def nuevo_id_def guardar_version_run modify_def ret_def Let_def
        split: sum.splits if_splits)
qed

lemma version_origen_Inr:
  assumes "version_origen od t w s = (r, s')"
  shows "s' = s \<and> (\<forall>v. r = Inr (Some v) \<longrightarrow> v \<in> set (versiones s))"
proof (cases "coalesce w [] \<noteq> []")
  case True
  obtain h s2 where h: "getVersion od t (coalesce w []) s = (h, s2)" by (meson surj_pair)
  have e: "s2 = s" using h getVersion_estado [of od t "coalesce w []" s] by simp
  show ?thesis
  proof (cases h)
    case (Inl e')
    with True h e assms show ?thesis by (auto simp: version_origen_def ebind_def ret_def)
  next
    case (Inr v)
    from h [unfolded Inr] have "v \<in> set (versiones s)" by (auto elim: getVersion_Inr)
    with True h e assms Inr show ?thesis by (auto simp: version_origen_def ebind_def ret_def)
  qed
next
  case False
  obtain h s2 where h: "getPropertyInventory od t s = (h, s2)" by (meson surj_pair)
  have e: "s2 = s" using h getPropertyInventory_estado [of od t s] by simp
  have f: "find P vs = Some v \<Longrightarrow> v \<in> set vs" for P and vs :: "version_inv list" and v
    by (metis (mono_tags, lifting) find_Some_iff nth_mem)
  have p: "find P vs = None \<Longrightarrow> vs = v # ws \<Longrightarrow> v \<in> set vs" for P and vs ws :: "version_inv list" and v by simp
  obtain k where k: "getVersions od t s = (k, s)" "\<forall>vs. k = Inr vs \<longrightarrow> set vs \<subseteq> set (versiones s)"
    using h e by (cases h) (auto simp: getVersions_def ebind_def gets_def)
  show ?thesis
    using assms False k
    by (cases k) (auto simp: version_origen_def ebind_def ret_def split: option.splits list.splits dest!: f)
qed

lemma copy_sigue:
  assumes "inv_ok s" and run: "copyInventoryToProperty od a b w desc u s = (r, s')"
  shows "sigue s s'"
proof -
  obtain h s2 where h: "version_origen od a w s = (h, s2)" by (meson surj_pair)
  with version_origen_Inr [OF h] have e: "s2 = s" by simp
  have "s' = s \<or> (\<exists>dto q. createVersion od b dto u s = (q, s'))"
    using run h e by (auto simp: copyInventoryToProperty_def ebind_def raise_def split: sum.splits option.splits)
  with assms(1) show ?thesis by (auto intro: sigue_refl createVersion_sigue)
qed

section \<open>Runs\<close>

inductive paso_inv ::
  "(string \<Rightarrow> oid option) \<Rightarrow> (version_inv \<Rightarrow> string) \<Rightarrow> 'a bd_inv_scheme \<Rightarrow> 'a bd_inv_scheme \<Rightarrow> bool"
  for od :: "string \<Rightarrow> oid option" and txd :: "version_inv \<Rightarrow> string" where
  crear_inventario: "createPropertyInventory od t s = (r1, s') \<Longrightarrow> paso_inv od txd s s'"
| crear_version: "createVersion od t dto u s = (r2, s') \<Longrightarrow> paso_inv od txd s s'"
| editar_version: "updateVersion od t w dto s = (r3, s') \<Longrightarrow> paso_inv od txd s s'"
| elegir_version: "setCurrentVersion od t w s = (r4, s') \<Longrightarrow> paso_inv od txd s s'"
| borrar_version: "deleteVersion od txd t w s = (r5, s') \<Longrightarrow> paso_inv od txd s s'"
| copiar: "copyInventoryToProperty od t t' v desc u s = (r6, s') \<Longrightarrow> paso_inv od txd s s'"
| crear_item: "ic_create idto s = (r7, s') \<Longrightarrow> paso_inv od txd s s'"
| editar_item: "ic_update od t idto s = (r8, s') \<Longrightarrow> paso_inv od txd s s'"
| borrar_item: "ic_remove od t s = (r9, s') \<Longrightarrow> paso_inv od txd s s'"

lemma items_sigue:
  "inv_ok s \<Longrightarrow> ic_create idto s = (r7, s') \<Longrightarrow> sigue s s'"
  "inv_ok s \<Longrightarrow> ic_update od t idto s = (r8, s') \<Longrightarrow> sigue s s'"
  "inv_ok s \<Longrightarrow> ic_remove od t s = (r9, s') \<Longrightarrow> sigue s s'"
  using inv_ok_prox [of s]
  by (auto simp: sigue_def inv_ok_catalogo ic_create_def ic_update_def ic_remove_def ebind_def cast_id_run nuevo_id_def
      gets_def modify_def ret_def raise_def Let_def split: if_splits option.splits)

lemma paso_inv_sigue:
  assumes "paso_inv od txd s s'" and "\<forall>v. od (txd v) = None" and "inv_ok s"
  shows "sigue s s'"
  using assms(1)
  by cases (use assms(2,3) in \<open>auto intro: createPropertyInventory_sigue createVersion_sigue updateVersion_sigue
      setCurrentVersion_sigue deleteVersion_sigue copy_sigue items_sigue\<close>)

section \<open>An example\<close>

text \<open>An inventory of three versions, the first one current.\<close>

definition version0 :: "nat \<Rightarrow> version_inv" where
  "version0 n = \<lparr>vi_id = 10 + n, property_inventory_id = 5, version_number = n, vi_description = (''v'', []), vi_created_at = 0,
     vi_created_by = None, vi_status = ACTIVE, vi_items = []\<rparr>"

definition bd_inv0 :: bd_inv where
  "bd_inv0 = \<lparr>ahora = 0, prox_id = 20, catalogo = [],
     inventarios = [\<lparr>pi_id = 5, property_id = 1, current_version_id = Some 11, pi_versions = [11, 12, 13]\<rparr>],
     versiones = [version0 1, version0 2, version0 3]\<rparr>"

definition od_inv0 :: "string \<Rightarrow> oid option" where
  "od_inv0 t = (if t = ''p'' then Some 1 else if t = ''a'' then Some 11 else if t = ''b'' then Some 12 else None)"

definition dto_inv0 :: version_dto where
  "dto_inv0 = \<lparr>vd_description = Some (''nueva'', []), vd_items = None, vd_status = None\<rparr>"

lemma bd_inv0_ok: "inv_ok bd_inv0"
  by (simp add: inv_ok_def bd_inv0_def version0_def inventario_ok_def)

lemma od_inv0_doc: "\<forall>v :: version_inv. od_inv0 ((\<lambda>v. ''{ doc }'') v) = None"
  by (simp add: od_inv0_def)

lemma version0_leida:
  "getVersion od_inv0 ''p'' ''a'' bd_inv0 = (Inr (version0 1), bd_inv0)"
  "getVersion od_inv0 ''p'' ''b'' bd_inv0 = (Inr (version0 2), bd_inv0)"
  by (simp_all add: getVersion_run getPropertyInventory_run od_inv0_def bd_inv0_def version0_def poblar_def)

section \<open>The claims\<close>

text \<open>C29: along any run of the operations on inventories, when the text of a document is not an id: a
  property has at most one inventory, ids are not repeated, every version belongs to an inventory and is
  in its list, a current version is in the list of its inventory, and no inventory disappears or
  changes its property. The list may name versions that were deleted.\<close>

theorem inventory_runs:
  assumes "inv_ok s" and "\<forall>v. od (txd v) = None" and "(paso_inv od txd)\<^sup>*\<^sup>* s s'"
  shows "inv_ok s' \<and>
     prefix (map (\<lambda>d. (pi_id d, property_id d)) (inventarios s)) (map (\<lambda>d. (pi_id d, property_id d)) (inventarios s'))"
proof -
  from assms(3) have "sigue s s'"
  proof induction
    case base
    with assms(1) show ?case by (rule sigue_refl)
  next
    case (step y z)
    then show ?case using paso_inv_sigue [OF _ assms(2)] sigue_trans unfolding sigue_def by blast
  qed
  then show ?thesis by (simp add: sigue_def)
qed

text \<open>C30: any version can be deleted, the current one too. The list and the current version of the inventory
  keep its id: after the deletion of the current version the inventory has none, and the versions
  created later do not become current.\<close>

theorem deleteVersion_current:
  assumes "inv_ok s" and "\<forall>v. od (txd v) = None" and "getVersion od t w s = (Inr v, s)"
    and "od t = Some p" and "inventario_de p s = Some d"
  shows "\<exists>s'. deleteVersion od txd t w s = (Inr (), s') \<and> versiones s' = filter (\<lambda>x. vi_id x \<noteq> vi_id v) (versiones s) \<and>
     inventarios s' = inventarios s \<and> vi_id v \<in> set (pi_versions d) \<and>
     (current_version_id d = Some (vi_id v) \<longrightarrow>
        po_current (poblar d s') = None \<and>
        (\<forall>dto u y s''. createVersion od t dto u s' = (Inr y, s'') \<longrightarrow>
           (\<exists>e. inventario_de p s'' = Some e \<and> current_version_id e = Some (vi_id v) \<and> vi_id y \<noteq> vi_id v)))"
proof -
  let ?s = "con_versiones (filter (\<lambda>x. vi_id x \<noteq> vi_id v)) s"
  note run = deleteVersion_run [OF assms(1-3)]
  from getVersion_Inr [OF assms(3)] obtain p' d' where v: "v \<in> set (versiones s)" "property_inventory_id v = pi_id d'"
    "od t = Some p'" "inventario_de p' s = Some d'" by metis
  then have dd: "d' = d" using assms(4,5) by simp
  have din: "d \<in> set (inventarios s)" "property_id d = p" using inventario_de_Some [OF assms(5)] by simp_all
  have l: "vi_id v \<in> set (pi_versions d)" using inv_ok_listado [OF assms(1) v(1) din(1)] v(2) dd by simp
  have n: "find_id vi_id (vi_id v) (versiones ?s) = None" by (auto simp: find_id_None_iff)
  have c: "\<exists>e. inventario_de p s'' = Some e \<and> current_version_id e = Some (vi_id v) \<and> vi_id y \<noteq> vi_id v"
    if cur: "current_version_id d = Some (vi_id v)" and cr: "createVersion od t dto u ?s = (Inr y, s'')" for dto u y s''
  proof -
    have "inventario_de p ?s = Some d" using assms(5) by simp
    from createVersion_Inr [OF assms(4) this cr] cur have y: "vi_id y = prox_id s"
      and i: "inventarios s'' = save_doc pi_id (d\<lparr>pi_versions := pi_versions d @ [vi_id y]\<rparr>) (inventarios s)" by simp_all
    let ?d = "d\<lparr>pi_versions := pi_versions d @ [vi_id y]\<rparr>"
    have u: "x = d" if "x \<in> set (inventarios s)" "pi_id x = pi_id d" for x
      using that assms(1) din unfolding inv_ok_def by (metis (no_types, lifting) distinct_map inj_onD)
    have "find (\<lambda>d. property_id d = p) (save_doc pi_id ?d xs) = Some ?d"
      if "find (\<lambda>d. property_id d = p) xs = Some d" "set xs \<subseteq> set (inventarios s)" for xs
      using that din u by (induction xs) (auto simp: save_doc_def split: if_splits)
    from this [OF assms(5)] i have "inventario_de p s'' = Some ?d" by simp
    moreover have "vi_id v < prox_id s" using assms(1) v(1) by (simp add: inv_ok_def)
    ultimately show ?thesis using cur y by auto
  qed
  show ?thesis
    using run l n c by (intro exI [of _ ?s]) (simp add: poblar_def)
qed

text \<open>The numbers of the versions repeat. When a version other than the last one is deleted, the next
  version gets the number of the last one, which is still there.\<close>

theorem version_numbers_repeat:
  assumes "inv_ok s" and "\<forall>v. od (txd v) = None" and "getVersion od t w s = (Inr v, s)"
    and "x \<in> set (versiones s)" "property_inventory_id x = property_inventory_id v" "vi_id x \<noteq> vi_id v"
    and "version_number x = length (filter (\<lambda>y. property_inventory_id y = property_inventory_id v) (versiones s))"
    and "deleteVersion od txd t w s = (r, s')" and "createVersion od t dto u s' = (Inr y, s'')"
  shows "version_number y = version_number x \<and> x \<in> set (versiones s'') \<and> y \<in> set (versiones s'') \<and> vi_id y \<noteq> vi_id x \<and>
     property_inventory_id y = property_inventory_id x"
proof -
  have s': "s' = con_versiones (filter (\<lambda>x. vi_id x \<noteq> vi_id v)) s"
    using deleteVersion_run [OF assms(1-3)] assms(8) by simp
  from getVersion_Inr [OF assms(3)] obtain p d where v: "v \<in> set (versiones s)" "property_inventory_id v = pi_id d"
    "od t = Some p" "inventario_de p s = Some d" by metis
  have "inventario_de p s' = Some d" using v(4) s' by simp
  note y = createVersion_Inr [OF v(3) this assms(9)]
  let ?P = "\<lambda>y. property_inventory_id y = pi_id d"
  have un: "z = v" if "z \<in> set (versiones s)" "vi_id z = vi_id v" for z
    using that v(1) assms(1) unfolding inv_ok_def by (metis (no_types, lifting) distinct_map inj_onD)
  have "length (filter ?P (versiones s)) = length (filter ?P (filter (\<lambda>x. vi_id x \<noteq> vi_id v) (versiones s))) + 1"
  proof -
    have "filter ?P (filter (\<lambda>x. vi_id x \<noteq> vi_id v) (versiones s)) = filter (\<lambda>x. x \<noteq> v) (filter ?P (versiones s))"
      unfolding filter_filter using un by (intro filter_cong) auto
    also have "\<dots> = remove1 v (filter ?P (versiones s))"
      using assms(1) by (subst distinct_remove1_removeAll) (auto simp: inv_ok_def distinct_map removeAll_filter_not_eq intro!: filter_cong)
    finally have e: "filter ?P (filter (\<lambda>x. vi_id x \<noteq> vi_id v) (versiones s)) = remove1 v (filter ?P (versiones s))" .
    have m: "v \<in> set (filter ?P (versiones s))" using v(1,2) by simp
    from length_pos_if_in_set [OF m] show ?thesis unfolding e length_remove1 by (simp only: m if_True)
  qed
  moreover have "vi_id x < prox_id s" using assms(1,4) by (simp add: inv_ok_def)
  ultimately show ?thesis using y s' assms(4-7) v(2) by simp
qed


theorem inventory_runs_witness:
  "\<exists>s' :: bd_inv. (paso_inv od_inv0 (\<lambda>v. ''{ doc }''))\<^sup>*\<^sup>* bd_inv0 s' \<and> inv_ok s' \<and> length (versiones s') = 3 \<and> length (inventarios s') = 1"
proof -
  let ?s = "snd (deleteVersion od_inv0 (\<lambda>v. ''{ doc }'') ''p'' ''b'' bd_inv0)"
  let ?t = "snd (createVersion od_inv0 ''p'' dto_inv0 None ?s)"
  have "paso_inv od_inv0 (\<lambda>v. ''{ doc }'') bd_inv0 ?s" by (rule borrar_version [OF prod.collapse [symmetric]])
  moreover have "paso_inv od_inv0 (\<lambda>v. ''{ doc }'') ?s ?t" by (rule crear_version [OF prod.collapse [symmetric]])
  ultimately have r: "(paso_inv od_inv0 (\<lambda>v. ''{ doc }''))\<^sup>*\<^sup>* bd_inv0 ?t" by (meson converse_rtranclp_into_rtranclp rtranclp.rtrancl_refl)
  have "length (versiones ?t) = 3 \<and> length (inventarios ?t) = 1" by code_simp
  with r inventory_runs [OF bd_inv0_ok od_inv0_doc r] show ?thesis by blast
qed

theorem deleteVersion_current_witness:
  "\<exists>s'. deleteVersion od_inv0 (\<lambda>v. ''{ doc }'') ''p'' ''a'' bd_inv0 = (Inr (), s') \<and> inventarios s' = inventarios bd_inv0 \<and>
     map version_number (versiones s') = [2, 3]"
proof -
  have a: "od_inv0 ''p'' = Some 1" by (simp add: od_inv0_def)
  have b: "inventario_de 1 bd_inv0 = Some (hd (inventarios bd_inv0))" by (simp add: bd_inv0_def)
  from deleteVersion_current [OF bd_inv0_ok od_inv0_doc version0_leida(1) a b] obtain s' where
    s': "deleteVersion od_inv0 (\<lambda>v. ''{ doc }'') ''p'' ''a'' bd_inv0 = (Inr (), s')"
    "versiones s' = filter (\<lambda>x. vi_id x \<noteq> vi_id (version0 1)) (versiones bd_inv0)" "inventarios s' = inventarios bd_inv0"
    by (elim exE conjE) (rule that, assumption+)
  have "map version_number (versiones s') = [2, 3]" unfolding s'(2) by (simp add: bd_inv0_def version0_def)
  with s'(1,3) show ?thesis by (intro exI conjI)
qed

theorem version_numbers_repeat_witness:
  "\<exists>y s''. createVersion od_inv0 ''p'' dto_inv0 None
       (snd (deleteVersion od_inv0 (\<lambda>v. ''{ doc }'') ''p'' ''b'' bd_inv0)) = (Inr y, s'') \<and>
     version_number y = 3 \<and> version0 3 \<in> set (versiones s'') \<and> y \<noteq> version0 3"
proof -
  let ?m = "createVersion od_inv0 ''p'' dto_inv0 None" and ?s = "snd (deleteVersion od_inv0 (\<lambda>v. ''{ doc }'') ''p'' ''b'' bd_inv0)"
  have e: "exito ?m ?s" by code_simp
  have x: "version0 3 \<in> set (versiones bd_inv0)" "property_inventory_id (version0 3) = property_inventory_id (version0 2)"
    "vi_id (version0 3) \<noteq> vi_id (version0 2)"
    "version_number (version0 3) = length (filter (\<lambda>y. property_inventory_id y = property_inventory_id (version0 2)) (versiones bd_inv0))"
    by (simp_all add: bd_inv0_def version0_def)
  from version_numbers_repeat [OF bd_inv0_ok od_inv0_doc version0_leida(2) x prod.collapse [symmetric] exito_run [OF e]]
  have "version_number (valor ?m ?s) = version_number (version0 3) \<and> version0 3 \<in> set (versiones (final ?m ?s)) \<and>
     vi_id (valor ?m ?s) \<noteq> vi_id (version0 3)" by blast
  then show ?thesis using exito_run [OF e] by (intro exI [of _ "valor ?m ?s"] exI [of _ "final ?m ?s"]) (auto simp: version0_def)
qed

end
