(* ===== verification/Users.thy ===== *)
theory Users
  imports Store
begin

text \<open>
  \<^verbatim>\<open>src/modules/user\<close> and \<^verbatim>\<open>src/modules/auth\<close>: the users, their registration and login, the reset of
  a password, and the guards of a request. Parameters: \<open>hsh\<close> is \<^verbatim>\<open>bcrypt.hashSync\<close> with its random salt as an
  argument, \<open>cmp\<close> is \<^verbatim>\<open>bcrypt.compareSync\<close>, \<open>firma\<close> signs a token and \<open>verif\<close> reads it (\<open>None\<close> is a
  token that is refused), \<open>tok\<close> is the identifier \<^verbatim>\<open>uuidv4\<close> gives, \<open>envio\<close> the failure of the
  mail, if any. The fields that no service reads (\<^verbatim>\<open>photo\<close>, \<^verbatim>\<open>pinCode\<close>, \<^verbatim>\<open>avatar\<close>, the tokens of
  other mail providers) are left out.
\<close>

section \<open>Users\<close>

datatype proveedor_correo = GMAIL | OUTLOOK | IMAP

record imap_config =
  im_host :: string
  im_port :: int
  im_user :: string
  im_password :: "string option"
  im_tls :: "bool option"

record config_correo =
  ec_provider :: proveedor_correo
  ec_imapConfig :: "imap_config option"
  ec_sincronizacionActiva :: bool
  ec_ultimaSincronizacion :: "fecha option"

record usuario =
  us_id :: oid
  us_username :: string
  us_email :: string
  us_password :: "string option"
  us_roles :: "string list"
  us_isActive :: bool
  us_resetPasswordToken :: "string option"
  us_resetPasswordExpires :: "fecha option"
  us_party :: "oid option"
  us_emailCorporativo :: "string option"
  us_emailCorporativoConfig :: "config_correo option"
  us_emailSync :: "(int \<times> fecha) option"

record bd_usr = mundo +
  usuarios :: "usuario list"

definition con_usuarios :: "(usuario list \<Rightarrow> usuario list) \<Rightarrow> 'a bd_usr_scheme \<Rightarrow> 'a bd_usr_scheme" where
  "con_usuarios f s = s\<lparr>usuarios := f (usuarios s)\<rparr>"

interpretation usrs: coleccion us_id usuarios con_usuarios
  by unfold_locales (simp add: con_usuarios_def)

section \<open>The user service\<close>

text \<open>The fields of a request; \<open>None\<close> is absent. Only the registration has a party and roles.\<close>

record usuario_dto =
  ud_email :: "string option"
  ud_username :: "string option"
  ud_password :: "string option"
  ud_party :: "oid option"
  ud_roles :: "string list option"

text \<open>\<^verbatim>\<open>save()\<close> of a new user: the required fields, the length of the password, the unique email.\<close>

definition guardar_usuario :: "usuario_dto \<Rightarrow> ('a bd_usr_scheme, usuario) proc" where
  "guardar_usuario dto =
     ebind nuevo_id (\<lambda>i.
     let u = \<lparr>us_id = i, us_username = coalesce (ud_username dto) [], us_email = coalesce (ud_email dto) [],
              us_password = ud_password dto, us_roles = coalesce (ud_roles dto) [''user''], us_isActive = True,
              us_resetPasswordToken = None, us_resetPasswordExpires = None, us_party = ud_party dto,
              us_emailCorporativo = None, us_emailCorporativoConfig = None, us_emailSync = None\<rparr>
     in if us_username u = [] \<or> us_email u = [] \<or> length (coalesce (us_password u) []) < 6
        then raise (ErrorJS ''User validation failed'' [])
        else ebind (gets usuarios) (\<lambda>us.
             if us_email u \<in> us_email ` set us then raise (ErrorJS ''E11000 duplicate key error'' [])
             else ebind (modify (con_usuarios (\<lambda>us. us @ [u]))) (\<lambda>_. ret u)))"

definition us_create :: "usuario_dto \<Rightarrow> ('a bd_usr_scheme, usuario) proc" where
  "us_create dto = guardar_usuario (dto\<lparr>ud_party := None, ud_roles := None\<rparr>)"

definition us_findAll :: "('a bd_usr_scheme, usuario list) proc" where
  "us_findAll = gets usuarios"

definition us_no_encontrado :: "string \<Rightarrow> excepcion" where
  "us_no_encontrado t = NotFoundException ''Usuario con ID {} no encontrado'' [AStr t]"

definition us_findOne :: "(string \<Rightarrow> oid option) \<Rightarrow> string \<Rightarrow> ('a bd_usr_scheme, usuario) proc" where
  "us_findOne od t = ebind (cast_id od t) (\<lambda>i. obtener us_id usuarios i (us_no_encontrado t))"

definition aplicar_usuario :: "usuario_dto \<Rightarrow> usuario \<Rightarrow> usuario" where
  "aplicar_usuario dto u =
     u\<lparr>us_username := coalesce (ud_username dto) (us_username u), us_email := coalesce (ud_email dto) (us_email u),
       us_password := (case ud_password dto of None \<Rightarrow> us_password u | Some p \<Rightarrow> Some p)\<rparr>"

text \<open>\<^verbatim>\<open>findByIdAndUpdate\<close>: no validation, but the index on the email is checked.\<close>

definition us_update :: "(string \<Rightarrow> oid option) \<Rightarrow> string \<Rightarrow> usuario_dto \<Rightarrow> ('a bd_usr_scheme, usuario) proc" where
  "us_update od t dto =
     ebind (cast_id od t) (\<lambda>i.
     ebind (obtener us_id usuarios i (us_no_encontrado t)) (\<lambda>u.
     ebind (gets usuarios) (\<lambda>us.
     if us_email (aplicar_usuario dto u) \<in> us_email ` {x \<in> set us. us_id x \<noteq> i}
     then raise (ErrorJS ''E11000 duplicate key error'' [])
     else ebind (modify (con_usuarios (save_doc us_id (aplicar_usuario dto u)))) (\<lambda>_. ret (aplicar_usuario dto u)))))"

definition us_remove :: "(string \<Rightarrow> oid option) \<Rightarrow> string \<Rightarrow> ('a bd_usr_scheme, usuario) proc" where
  "us_remove od t =
     ebind (cast_id od t) (\<lambda>i.
     ebind (obtener us_id usuarios i (us_no_encontrado t)) (\<lambda>u.
     ebind (modify (con_usuarios (delete_one (\<lambda>x. us_id x = i)))) (\<lambda>_. ret u)))"

section \<open>The mail account of a user\<close>

record config_dto =
  cd_emailCorporativo :: "string option"
  cd_provider :: "proveedor_correo option"
  cd_imapConfig :: "imap_config option"
  cd_sincronizacionActiva :: "bool option"

text \<open>\<^verbatim>\<open>tls\<close> has a default in the schema.\<close>

definition imap_guardado :: "imap_config \<Rightarrow> imap_config" where
  "imap_guardado c = c\<lparr>im_tls := Some (coalesce (im_tls c) True)\<rparr>"

definition aplicar_config :: "config_dto \<Rightarrow> usuario \<Rightarrow> usuario" where
  "aplicar_config dto u =
     (let c = coalesce (us_emailCorporativoConfig u)
                \<lparr>ec_provider = IMAP, ec_imapConfig = None, ec_sincronizacionActiva = False, ec_ultimaSincronizacion = None\<rparr>
      in u\<lparr>us_emailCorporativo := (if coalesce (cd_emailCorporativo dto) [] \<noteq> [] then cd_emailCorporativo dto
                                   else us_emailCorporativo u),
           us_emailCorporativoConfig := Some
             (c\<lparr>ec_provider := coalesce (cd_provider dto) (ec_provider c),
                ec_imapConfig := (case cd_imapConfig dto of None \<Rightarrow> ec_imapConfig c | Some i \<Rightarrow> Some (imap_guardado i)),
                ec_sincronizacionActiva := coalesce (cd_sincronizacionActiva dto) (ec_sincronizacionActiva c)\<rparr>)\<rparr>)"

text \<open>\<^verbatim>\<open>delete userObj.emailCorporativoConfig.imapConfig.password\<close>.\<close>

definition sin_clave_imap :: "usuario \<Rightarrow> usuario" where
  "sin_clave_imap u =
     u\<lparr>us_emailCorporativoConfig :=
         map_option (\<lambda>c. c\<lparr>ec_imapConfig := map_option (\<lambda>i. i\<lparr>im_password := None\<rparr>) (ec_imapConfig c)\<rparr>)
           (us_emailCorporativoConfig u)\<rparr>"

definition updateEmailConfig :: "(string \<Rightarrow> oid option) \<Rightarrow> string \<Rightarrow> config_dto \<Rightarrow> ('a bd_usr_scheme, usuario) proc" where
  "updateEmailConfig od t dto =
     ebind (cast_id od t) (\<lambda>i.
     ebind (obtener us_id usuarios i (us_no_encontrado t)) (\<lambda>u.
     ebind (modify (con_usuarios (save_doc us_id (aplicar_config dto u)))) (\<lambda>_.
     ret (sin_clave_imap (aplicar_config dto u)))))"

definition updateLastSyncedUID :: "(string \<Rightarrow> oid option) \<Rightarrow> string \<Rightarrow> int \<Rightarrow> ('a bd_usr_scheme, unit) proc" where
  "updateLastSyncedUID od t uid =
     ebind (cast_id od t) (\<lambda>i.
     ebind (obtener us_id usuarios i (us_no_encontrado t)) (\<lambda>u.
     ebind (gets ahora) (\<lambda>now.
     modify (con_usuarios (save_doc us_id (u\<lparr>us_emailSync := Some (uid, now)\<rparr>))))))"

record config_publica =
  cp_emailCorporativo :: "string option"
  cp_provider :: "proveedor_correo option"
  cp_sincronizacionActiva :: bool
  cp_ultimaSincronizacion :: "fecha option"
  cp_imapConfig :: "(string \<times> int \<times> string \<times> bool option) option"

definition getEmailConfig :: "(string \<Rightarrow> oid option) \<Rightarrow> string \<Rightarrow> ('a bd_usr_scheme, config_publica) proc" where
  "getEmailConfig od t =
     ebind (cast_id od t) (\<lambda>i.
     ebind (obtener us_id usuarios i (us_no_encontrado t)) (\<lambda>u.
     let c = us_emailCorporativoConfig u in
     ret \<lparr>cp_emailCorporativo = us_emailCorporativo u, cp_provider = map_option ec_provider c,
          cp_sincronizacionActiva = coalesce (map_option ec_sincronizacionActiva c) False,
          cp_ultimaSincronizacion = (case c of None \<Rightarrow> None | Some d \<Rightarrow> ec_ultimaSincronizacion d),
          cp_imapConfig = (case c of None \<Rightarrow> None | Some d \<Rightarrow>
             map_option (\<lambda>m. (im_host m, im_port m, im_user m, im_tls m)) (ec_imapConfig d))\<rparr>))"

section \<open>Login and registration\<close>

record carga =
  cg_id :: oid
  cg_username :: string
  cg_email :: string

definition carga_de :: "usuario \<Rightarrow> carga" where
  "carga_de u = \<lparr>cg_id = us_id u, cg_username = us_username u, cg_email = us_email u\<rparr>"

abbreviation usuario_de_email :: "string \<Rightarrow> 'a bd_usr_scheme \<Rightarrow> usuario option" where
  "usuario_de_email e s \<equiv> find (\<lambda>u. us_email u = e) (usuarios s)"

text \<open>\<^verbatim>\<open>user.password = undefined\<close> on what is returned.\<close>

definition sin_clave :: "usuario \<Rightarrow> usuario" where
  "sin_clave u = u\<lparr>us_password := None\<rparr>"

definition signIn ::
  "(string \<Rightarrow> string \<Rightarrow> bool) \<Rightarrow> (carga \<Rightarrow> string) \<Rightarrow> string \<Rightarrow> string \<Rightarrow> ('a bd_usr_scheme, usuario \<times> string) proc" where
  "signIn cmp firma email pass =
     ebind (gets (usuario_de_email email)) (\<lambda>user.
     case user of
       None \<Rightarrow> raise (UnauthorizedException ''User not found'' [])
     | Some u \<Rightarrow>
         (case us_password u of
            None \<Rightarrow> raise (ErrorJS ''Illegal arguments'' [])
          | Some h \<Rightarrow> if \<not> cmp pass h then raise (UnauthorizedException ''Password is incorrect'' [])
                      else ret (sin_clave u, firma (carga_de u))))"

definition userLogin :: "string \<Rightarrow> ('a bd_usr_scheme, usuario) proc" where
  "userLogin email =
     ebind (gets (usuario_de_email email)) (\<lambda>user.
     case user of
       None \<Rightarrow> raise (ErrorJS ''Cannot set properties of null'' [])
     | Some u \<Rightarrow> ret (sin_clave u))"

definition handleDatabaseError :: "excepcion \<Rightarrow> excepcion" where
  "handleDatabaseError e =
     (if e = ErrorJS ''E11000 duplicate key error'' [] then ConflictException ''Duplicate field error: {}.'' []
      else if e = ErrorJS ''User validation failed'' [] then BadRequestException ''User validation failed'' []
      else InternalServerErrorException ''An unexpected error occurred. Please check the logs.'' [])"

text \<open>The lower case of the user name is written to the request, after its fields were copied.\<close>

definition auth_create ::
  "(string \<Rightarrow> string \<Rightarrow> string) \<Rightarrow> string \<Rightarrow> (carga \<Rightarrow> string) \<Rightarrow> usuario_dto \<Rightarrow> ('a bd_usr_scheme, usuario \<times> string) proc" where
  "auth_create hsh salt firma dto =
     try_catch
       (ebind (guardar_usuario (dto\<lparr>ud_password := Some (hsh salt (coalesce (ud_password dto) []))\<rparr>)) (\<lambda>u.
        ret (sin_clave u, firma (carga_de u))))
       (\<lambda>e. raise (handleDatabaseError e))"

definition checkAuthStatus :: "(carga \<Rightarrow> string) \<Rightarrow> usuario \<Rightarrow> usuario \<times> string" where
  "checkAuthStatus firma u = (u, firma (carga_de u))"

section \<open>The reset of a password\<close>

definition dia_reset :: int where
  "dia_reset = 24 * 60 * 60 * 1000"

definition requestPasswordReset ::
  "string \<Rightarrow> excepcion option \<Rightarrow> string \<Rightarrow> ('a bd_usr_scheme, unit) proc" where
  "requestPasswordReset tok envio email =
     ebind (gets (usuario_de_email email)) (\<lambda>user.
     case user of
       None \<Rightarrow> raise (NotFoundException ''User not found'' [])
     | Some u \<Rightarrow>
         ebind (gets ahora) (\<lambda>now.
         ebind (modify (con_usuarios (save_doc us_id
           (u\<lparr>us_resetPasswordToken := Some tok, us_resetPasswordExpires := Some (now + dia_reset)\<rparr>)))) (\<lambda>_.
         case envio of None \<Rightarrow> ret () | Some e \<Rightarrow> raise e)))"

definition token_vigente :: "string \<Rightarrow> fecha \<Rightarrow> usuario \<Rightarrow> bool" where
  "token_vigente token now u \<longleftrightarrow> us_resetPasswordToken u = Some token \<and>
     (case us_resetPasswordExpires u of None \<Rightarrow> False | Some f \<Rightarrow> now < f)"

definition resetPassword ::
  "(string \<Rightarrow> string \<Rightarrow> string) \<Rightarrow> string \<Rightarrow> string \<Rightarrow> string \<Rightarrow> ('a bd_usr_scheme, string) proc" where
  "resetPassword hsh salt token newPassword =
     ebind (gets ahora) (\<lambda>now.
     ebind (gets (\<lambda>s. find (token_vigente token now) (usuarios s))) (\<lambda>user.
     case user of
       None \<Rightarrow> raise (UnauthorizedException ''Invalid or expired password reset token'' [])
     | Some u \<Rightarrow>
         ebind (modify (con_usuarios (save_doc us_id (u\<lparr>us_password := Some (hsh salt newPassword)\<rparr>)))) (\<lambda>_.
         ret (us_email u))))"

section \<open>The guards\<close>

text \<open>\<^verbatim>\<open>JwtStrategy.validate\<close>, on a token that is read.\<close>

definition validar_token :: "carga \<Rightarrow> ('a bd_usr_scheme, usuario) proc" where
  "validar_token p =
     ebind (gets (\<lambda>s. find_id us_id (cg_id p) (usuarios s))) (\<lambda>user.
     case user of
       None \<Rightarrow> raise (UnauthorizedException ''Token not valid '' [])
     | Some u \<Rightarrow> if us_isActive u then ret (sin_clave u)
                 else raise (UnauthorizedException ''User is not active'' []))"

text \<open>The roles of the handler, or the ones of the class when it has none.\<close>

definition roles_validos :: "string list option \<Rightarrow> string list option \<Rightarrow> string list option" where
  "roles_validos handler clase = (if coalesce handler [] = [] then clase else handler)"

definition canActivate :: "string list option \<Rightarrow> string list option \<Rightarrow> usuario option \<Rightarrow> excepcion + bool" where
  "canActivate handler clase user =
     (let validRoles = coalesce (roles_validos handler clase) [] in
      if validRoles = [] then Inr True
      else case user of
             None \<Rightarrow> Inl (ForbiddenException ''User not found in request'' [])
           | Some u \<Rightarrow> if list_ex (\<lambda>r. r \<in> set validRoles) (us_roles u) then Inr True
                       else Inl (ForbiddenException ''User {} does not have required roles: [{}]''
                              (AStr (us_username u) # map AStr validRoles)))"

text \<open>The decorator \<^verbatim>\<open>@Auth(...)\<close>: the token, then the roles; the user of the request.\<close>

definition acceder ::
  "(string \<Rightarrow> carga option) \<Rightarrow> string list option \<Rightarrow> string list option \<Rightarrow> string \<Rightarrow> ('a bd_usr_scheme, usuario) proc" where
  "acceder verif handler clase token =
     (case verif token of
        None \<Rightarrow> raise (UnauthorizedException ''Unauthorized'' [])
      | Some p \<Rightarrow>
          ebind (validar_token p) (\<lambda>u.
          ebind (lift_result (canActivate handler clase (Some u))) (\<lambda>ok.
          if ok then ret u else raise (ForbiddenException ''Forbidden resource'' []))))"

definition publicApi :: "string option \<Rightarrow> string option \<Rightarrow> excepcion + bool" where
  "publicApi valid apiKey =
     (if coalesce valid [] = [] then Inr False
      else if apiKey \<noteq> valid then Inl (UnauthorizedException ''Invalid API Key'' []) else Inr True)"

end
