(* ===== verification/UserProperties.thy ===== *)
theory UserProperties
  imports Users
begin

text \<open>
  The users: what every run keeps, the login after a registration, what a registration grants, and
  the token of a reset, which is not used up.
\<close>

section \<open>The collection\<close>

definition usr_ok :: "'a bd_usr_scheme \<Rightarrow> bool" where
  "usr_ok s \<longleftrightarrow> distinct (map us_id (usuarios s)) \<and> distinct (map us_email (usuarios s)) \<and>
     (\<forall>u \<in> set (usuarios s). us_id u < prox_id s)"

lemma campos_usr [simp]:
  "usuarios (con_usuarios f s) = f (usuarios s)" "prox_id (con_usuarios f s) = prox_id s" "ahora (con_usuarios f s) = ahora s"
  by (simp_all add: con_usuarios_def)

lemma usr_ok_prox: "usr_ok s \<Longrightarrow> usr_ok (s\<lparr>prox_id := Suc (prox_id s)\<rparr>)"
  by (auto simp: usr_ok_def less_SucI)

lemma usr_ok_ahora: "usr_ok (s\<lparr>ahora := n\<rparr>) \<longleftrightarrow> usr_ok s"
  by (simp add: usr_ok_def)

text \<open>Writing back a user that is there.\<close>

lemma usr_ok_save:
  assumes "usr_ok s" and "find_id us_id i (usuarios s) = Some u" and "us_id u' = i"
    and "us_email u' \<notin> us_email ` {x \<in> set (usuarios s). us_id x \<noteq> i}"
  shows "usr_ok (con_usuarios (save_doc us_id u') s)"
proof -
  have d: "distinct (map us_id (usuarios s))" "distinct (map us_email (usuarios s))" using assms(1) by (simp_all add: usr_ok_def)
  have u: "u \<in> set (usuarios s)" "us_id u = i" using find_id_in [OF assms(2)] find_id_key [OF assms(2)] by simp_all
  let ?f = "\<lambda>x. if us_id x = us_id u' then u' else x"
  have "inj_on (us_email \<circ> ?f) (set (usuarios s))"
  proof (rule inj_onI)
    fix x y assume x: "x \<in> set (usuarios s)" and y: "y \<in> set (usuarios s)" and e: "(us_email \<circ> ?f) x = (us_email \<circ> ?f) y"
    consider "us_id x = i \<and> us_id y = i" | "us_id x = i \<and> us_id y \<noteq> i" | "us_id x \<noteq> i \<and> us_id y = i" | "us_id x \<noteq> i \<and> us_id y \<noteq> i"
      by blast
    then show "x = y"
    proof cases
      case 1 then show ?thesis using clave_unica [OF d(1) x y] by simp
    next
      case 2 then show ?thesis using e y assms(3,4) by auto
    next
      case 3
      then have "us_email x = us_email u'" using e assms(3) by auto
      then have "us_email u' \<in> us_email ` {x \<in> set (usuarios s). us_id x \<noteq> i}"
        using 3 x by (intro image_eqI [of _ _ x]) auto
      with assms(4) show ?thesis by blast
    next
      case 4 then show ?thesis using e assms(3) clave_unica [OF d(2) x y] by simp
    qed
  qed
  moreover have "distinct (usuarios s)" using d(1) by (simp add: distinct_map)
  ultimately have "distinct (map us_email (save_doc us_id u' (usuarios s)))"
    by (simp add: save_doc_def distinct_map)
  moreover have "us_id x < prox_id s" if "x \<in> set (save_doc us_id u' (usuarios s))" for x
  proof -
    have "x = u' \<or> x \<in> set (usuarios s)" using that set_save_doc [of us_id u' "usuarios s"] by blast
    then show ?thesis using assms(1,3) u unfolding usr_ok_def by metis
  qed
  ultimately show ?thesis using d(1) by (simp add: usr_ok_def)
qed

lemma usr_ok_save_igual:
  assumes "usr_ok s" and "u \<in> set (usuarios s)" and "us_id u' = us_id u" "us_email u' = us_email u"
  shows "usr_ok (con_usuarios (save_doc us_id u') s)"
proof -
  have d: "distinct (map us_id (usuarios s))" "distinct (map us_email (usuarios s))" using assms(1) by (simp_all add: usr_ok_def)
  have "find_id us_id (us_id u) (usuarios s) = Some u" using assms(2) find_id_Some_iff [OF d(1)] by simp
  moreover have "us_email u' \<notin> us_email ` {x \<in> set (usuarios s). us_id x \<noteq> us_id u}"
    using clave_unica [OF d(2) _ assms(2)] assms(4) by auto
  ultimately show ?thesis using usr_ok_save [OF assms(1)] assms(3) by blast
qed

lemma guardar_usuario_Inr:
  assumes "guardar_usuario dto s = (Inr u, s')"
  shows "s' = con_usuarios (\<lambda>us. us @ [u]) (s\<lparr>prox_id := Suc (prox_id s)\<rparr>) \<and> us_id u = prox_id s \<and>
     us_email u = coalesce (ud_email dto) [] \<and> us_password u = ud_password dto \<and> us_isActive u \<and>
     us_username u = coalesce (ud_username dto) [] \<and> us_roles u = coalesce (ud_roles dto) [''user''] \<and>
     us_email u \<notin> us_email ` set (usuarios s)"
  using assms by (auto simp: guardar_usuario_def proc_simps Let_def split: if_splits)

lemma guardar_usuario_ok: "preserves usr_ok (guardar_usuario dto)"
  unfolding preserves_def
proof (intro allI impI)
  fix s :: "'a bd_usr_scheme" assume s: "usr_ok s"
  then have n: "prox_id s \<notin> us_id ` set (usuarios s)" by (auto simp: usr_ok_def)
  show "usr_ok (snd (guardar_usuario dto s))"
    using s n usr_ok_prox [OF s]
    by (auto simp: guardar_usuario_def ebind_def nuevo_id_def raise_def gets_def modify_def ret_def Let_def usr_ok_def less_SucI)
qed

lemma obtener_casos:
  "obtener k ds i e s = (case find_id k i (ds s) of None \<Rightarrow> (Inl e, s) | Some d \<Rightarrow> (Inr d, s))"
  by (simp add: obtener_def)

section \<open>Runs\<close>

text \<open>One request to the users or to the login, or time going by.\<close>

inductive paso_usr ::
  "(string \<Rightarrow> oid option) \<Rightarrow> (string \<Rightarrow> string \<Rightarrow> string) \<Rightarrow> 'a bd_usr_scheme \<Rightarrow> 'a bd_usr_scheme \<Rightarrow> bool"
  for od :: "string \<Rightarrow> oid option" and hsh :: "string \<Rightarrow> string \<Rightarrow> string" where
  crear: "us_create dto s = (r1, s') \<Longrightarrow> paso_usr od hsh s s'"
| registrar: "auth_create hsh salt firma dto s = (r2, s') \<Longrightarrow> paso_usr od hsh s s'"
| editar: "us_update od t dto s = (r3, s') \<Longrightarrow> paso_usr od hsh s s'"
| borrar: "us_remove od t s = (r4, s') \<Longrightarrow> paso_usr od hsh s s'"
| configurar: "updateEmailConfig od t cdto s = (r5, s') \<Longrightarrow> paso_usr od hsh s s'"
| sincronizar: "updateLastSyncedUID od t uid s = (r6, s') \<Longrightarrow> paso_usr od hsh s s'"
| pedir_cambio: "requestPasswordReset tok envio e s = (r7, s') \<Longrightarrow> paso_usr od hsh s s'"
| cambiar: "resetPassword hsh salt tok p s = (r8, s') \<Longrightarrow> paso_usr od hsh s s'"
| reloj: "paso_usr od hsh s (s\<lparr>ahora := n\<rparr>)"

lemma aplicar_config_ids: "us_id (aplicar_config dto u) = us_id u" "us_email (aplicar_config dto u) = us_email u"
  by (simp_all add: aplicar_config_def Let_def)

lemma us_update_ok: "usr_ok s \<Longrightarrow> us_update od t dto s = (r, s') \<Longrightarrow> usr_ok s'"
  by (auto simp: us_update_def ebind_def cast_id_run obtener_casos gets_def raise_def modify_def ret_def aplicar_usuario_def
      dest: find_id_key intro!: usr_ok_save split: option.splits if_splits)

lemma us_remove_ok: "usr_ok s \<Longrightarrow> us_remove od t s = (r, s') \<Longrightarrow> usr_ok s'"
proof -
  have d: "distinct (map us_id us) \<Longrightarrow> delete_one (\<lambda>x. us_id x = i) us = filter (\<lambda>x. us_id x \<noteq> i) us" for us i
    by (induction us) (auto simp: image_iff intro!: filter_True [symmetric])
  assume "usr_ok s" "us_remove od t s = (r, s')"
  then show "usr_ok s'"
    by (auto simp: us_remove_def ebind_def cast_id_run obtener_casos modify_def ret_def usr_ok_def d distinct_map_filter
        split: option.splits)
qed

lemma config_ok: "usr_ok s \<Longrightarrow> updateEmailConfig od t dto s = (r, s') \<Longrightarrow> usr_ok s'"
  by (auto simp: updateEmailConfig_def ebind_def cast_id_run obtener_casos modify_def ret_def aplicar_config_ids
      dest: find_id_in intro!: usr_ok_save_igual split: option.splits)

lemma synced_ok: "usr_ok s \<Longrightarrow> updateLastSyncedUID od t uid s = (r, s') \<Longrightarrow> usr_ok s'"
  by (auto simp: updateLastSyncedUID_def ebind_def cast_id_run obtener_casos modify_def gets_def ret_def
      dest: find_id_in intro!: usr_ok_save_igual split: option.splits)

lemma requestPasswordReset_ok: "usr_ok s \<Longrightarrow> requestPasswordReset tok envio e s = (r, s') \<Longrightarrow> usr_ok s'"
  by (auto simp: requestPasswordReset_def ebind_def modify_def gets_def ret_def raise_def
      dest: find_en intro!: usr_ok_save_igual split: option.splits)

lemma resetPassword_ok: "usr_ok s \<Longrightarrow> resetPassword hsh salt tok p s = (r, s') \<Longrightarrow> usr_ok s'"
  by (auto simp: resetPassword_def ebind_def modify_def gets_def ret_def raise_def
      dest: find_en intro!: usr_ok_save_igual split: option.splits)

lemma auth_create_ok: "preserves usr_ok (auth_create hsh salt firma dto)"
  unfolding auth_create_def by (intro preserves_try preserves_ebind guardar_usuario_ok preserves_ret preserves_raise)

lemma paso_usr_ok: "paso_usr od hsh s s' \<Longrightarrow> usr_ok s \<Longrightarrow> usr_ok s'"
  by (induction rule: paso_usr.induct)
    (auto simp: us_create_def usr_ok_ahora intro: us_update_ok us_remove_ok config_ok synced_ok requestPasswordReset_ok
      resetPassword_ok preservesD [OF guardar_usuario_ok] preservesD [OF auth_create_ok])


section \<open>Login\<close>

text \<open>What the documentation of \<^verbatim>\<open>bcrypt\<close> says of the two functions, for the passwords a request may have.\<close>

definition bcrypt :: "(string \<Rightarrow> string \<Rightarrow> string) \<Rightarrow> (string \<Rightarrow> string \<Rightarrow> bool) \<Rightarrow> bool" where
  "bcrypt hsh cmp \<longleftrightarrow> (\<forall>salt p q. cmp q (hsh salt p) \<longleftrightarrow> q = p)"

lemma find_append_nuevo:
  "us_email u \<notin> us_email ` set us \<Longrightarrow> find (\<lambda>x. us_email x = us_email u) (us @ [u]) = Some u"
  by (induction us) auto

lemma auth_create_Inr:
  assumes "auth_create hsh salt firma dto s = (Inr (w, t), s')"
  obtains u where "guardar_usuario (dto\<lparr>ud_password := Some (hsh salt (coalesce (ud_password dto) []))\<rparr>) s = (Inr u, s')"
    "w = sin_clave u" "t = firma (carga_de u)"
  using assms by (auto simp: auth_create_def try_catch_def ebind_def ret_def raise_def split: prod.splits sum.splits)

lemma find_email:
  "usr_ok s \<Longrightarrow> u \<in> set (usuarios s) \<Longrightarrow> usuario_de_email (us_email u) s = Some u"
proof -
  assume a: "usr_ok s" "u \<in> set (usuarios s)"
  then obtain x where x: "usuario_de_email (us_email u) s = Some x"
    by (cases "usuario_de_email (us_email u) s") (auto simp: find_None_iff)
  with find_en [OF x] a show ?thesis using clave_unica [of us_email "usuarios s" x u] by (simp add: usr_ok_def)
qed

lemma signIn_run:
  assumes "usuario_de_email e s = Some u" and "us_password u = Some (hsh salt p)" and "bcrypt hsh cmp"
  shows "signIn cmp firma e q s = (if q = p then (Inr (sin_clave u, firma (carga_de u)), s)
     else (Inl (UnauthorizedException ''Password is incorrect'' []), s))"
  using assms by (simp add: signIn_def bcrypt_def raise_def ret_def)


text \<open>A registration is open and takes the roles of the request: its token passes the guard of any
  handler that asks for one of them. The login of a user that is not active succeeds, but no
  handler accepts the token.\<close>

theorem registration_grants_roles:
  assumes "usr_ok s" and "auth_create hsh salt firma dto s = (Inr (w, t), s')" and "verif t = Some (carga_de w)"
    and "ud_roles dto = Some rs" and "coalesce (roles_validos handler clase) [] \<noteq> []"
    and "set rs \<inter> set (coalesce (roles_validos handler clase) []) \<noteq> {}"
  shows "acceder verif handler clase t s' = (Inr w, s') \<and>
     fst (acceder verif handler clase t (con_usuarios (save_doc us_id (x\<lparr>us_id := us_id w, us_isActive := False\<rparr>)) s')) =
       Inl (UnauthorizedException ''User is not active'' [])"
proof -
  from auth_create_Inr [OF assms(2)] obtain u where
    g: "guardar_usuario (dto\<lparr>ud_password := Some (hsh salt (coalesce (ud_password dto) []))\<rparr>) s = (Inr u, s')"
    and w: "w = sin_clave u" by blast
  note gu = guardar_usuario_Inr [OF g]
  have ok': "usr_ok s'" using preservesD [OF auth_create_ok assms(1,2)] .
  have f: "find_id us_id (us_id w) (usuarios s') = Some u"
    using gu w ok' find_id_Some_iff [of us_id "usuarios s'" "us_id w" u] by (simp add: usr_ok_def sin_clave_def)
  have r: "us_roles w = rs" "us_isActive u" using gu assms(4) w by (simp_all add: sin_clave_def)
  have v: "\<exists>r \<in> set rs. r \<in> set (coalesce (roles_validos handler clase) [])" using assms(6) by blast
  have "validar_token (carga_de w) s' = (Inr w, s')"
    using f r(2) by (simp add: validar_token_def carga_de_def ebind_def gets_def ret_def w)
  moreover have "canActivate handler clase (Some w) = Inr True"
    using assms(5) v by (simp add: canActivate_def Let_def list_ex_iff r(1))
  ultimately have 1: "acceder verif handler clase t s' = (Inr w, s')"
    unfolding acceder_def assms(3) by (simp add: ebind_def lift_result_def ret_def)
  have "find_id us_id (us_id w) (save_doc us_id (x\<lparr>us_id := us_id w, us_isActive := False\<rparr>) (usuarios s')) =
     Some (x\<lparr>us_id := us_id w, us_isActive := False\<rparr>)" using f by (simp add: find_id_save)
  then have 2: "fst (acceder verif handler clase t (con_usuarios (save_doc us_id (x\<lparr>us_id := us_id w, us_isActive := False\<rparr>)) s')) =
       Inl (UnauthorizedException ''User is not active'' [])"
    using assms(3) by (simp add: acceder_def carga_de_def validar_token_def ebind_def gets_def raise_def)
  from 1 2 show ?thesis by blast
qed


section \<open>The reset\<close>

lemma find_unico: "x \<in> set xs \<Longrightarrow> P x \<Longrightarrow> (\<And>y. y \<in> set xs \<Longrightarrow> P y \<Longrightarrow> y = x) \<Longrightarrow> find P xs = Some x"
proof (cases "find P xs")
  case None
  moreover assume "x \<in> set xs" "P x"
  ultimately show ?thesis by (auto simp: find_None_iff)
next
  case (Some z)
  assume "\<And>y. y \<in> set xs \<Longrightarrow> P y \<Longrightarrow> y = x"
  from this [of z] find_en [OF Some] have "z = x" by blast
  with Some show ?thesis by (simp only:)
qed

lemma resetPassword_run:
  assumes "usr_ok s" and "u \<in> set (usuarios s)" and "token_vigente tok (ahora s) u"
    and "\<forall>x \<in> set (usuarios s). us_resetPasswordToken x = Some tok \<longrightarrow> us_id x = us_id u"
  shows "resetPassword hsh salt tok p s =
     (Inr (us_email u), con_usuarios (save_doc us_id (u\<lparr>us_password := Some (hsh salt p)\<rparr>)) s)"
proof -
  have d: "distinct (map us_id (usuarios s))" using assms(1) by (simp add: usr_ok_def)
  have "find (token_vigente tok (ahora s)) (usuarios s) = Some u"
    using assms(2,3)
  proof (rule find_unico)
    fix y assume y: "y \<in> set (usuarios s)" "token_vigente tok (ahora s) y"
    with assms(4) have "us_id y = us_id u" by (simp add: token_vigente_def)
    with clave_unica [OF d y(1) assms(2)] show "y = u" by simp
  qed
  then show ?thesis by (simp add: resetPassword_def ebind_def gets_def modify_def ret_def)
qed

text \<open>The users after a write to one of them.\<close>

lemma save_usuario_set:
  assumes "usr_ok s" and "u \<in> set (usuarios s)" and "us_id u' = us_id u"
  shows "set (usuarios (con_usuarios (save_doc us_id u') s)) = insert u' {x \<in> set (usuarios s). us_id x \<noteq> us_id u}"
  using assms(2,3) by (auto simp: save_doc_def)



section \<open>Examples\<close>

definition hsh0 :: "string \<Rightarrow> string \<Rightarrow> string" where
  "hsh0 salt p = ''2b10'' @ p"

definition cmp0 :: "string \<Rightarrow> string \<Rightarrow> bool" where
  "cmp0 q h \<longleftrightarrow> h = ''2b10'' @ q"

definition firma0 :: "carga \<Rightarrow> string" where
  "firma0 c = ''jwt.'' @ cg_email c"

definition bd_usr0 :: bd_usr where
  "bd_usr0 = \<lparr>ahora = 0, prox_id = 1, usuarios = []\<rparr>"

definition registro0 :: usuario_dto where
  "registro0 = \<lparr>ud_email = Some ''ana@x'', ud_username = Some ''Ana'', ud_password = Some ''Clave1'', ud_party = None,
     ud_roles = Some [''admin'']\<rparr>"

abbreviation inscribir0 :: "(bd_usr, usuario \<times> string) proc" where
  "inscribir0 \<equiv> auth_create hsh0 ''sal'' firma0 registro0"

lemma bcrypt0: "bcrypt hsh0 cmp0"
  by (auto simp: bcrypt_def hsh0_def cmp0_def)

lemma bd_usr0_ok: "usr_ok bd_usr0"
  by (simp add: usr_ok_def bd_usr0_def)

lemma inscribir0_exito: "exito inscribir0 bd_usr0"
  by code_simp

lemma inscribir0_valor: "us_email (fst (valor inscribir0 bd_usr0)) = ''ana@x'' \<and> snd (valor inscribir0 bd_usr0) = ''jwt.ana@x'' \<and>
   us_id (fst (valor inscribir0 bd_usr0)) = 1"
  by code_simp

lemma inscribir0_run: "inscribir0 bd_usr0 = (Inr (fst (valor inscribir0 bd_usr0), snd (valor inscribir0 bd_usr0)), final inscribir0 bd_usr0)"
  using exito_run [OF inscribir0_exito] by simp


theorem registration_grants_roles_witness:
  "acceder (\<lambda>t. Some (carga_de (fst (valor inscribir0 bd_usr0)))) (Some [''admin'']) None ''jwt.ana@x'' (final inscribir0 bd_usr0) =
     (Inr (fst (valor inscribir0 bd_usr0)), final inscribir0 bd_usr0)"
proof -
  have a: "ud_roles registro0 = Some [''admin'']" by (simp add: registro0_def)
  have b: "coalesce (roles_validos (Some [''admin'']) None) [] \<noteq> []"
    "set [''admin''] \<inter> set (coalesce (roles_validos (Some [''admin'']) None) []) \<noteq> {}"
    by (simp_all add: roles_validos_def)
  from registration_grants_roles [where verif = "\<lambda>t. Some (carga_de (fst (valor inscribir0 bd_usr0)))", OF bd_usr0_ok inscribir0_run refl a b]
  show ?thesis unfolding inscribir0_valor [THEN conjunct2, THEN conjunct1] by blast
qed


end
