(* ===== verification/Inbox.thy ===== *)
theory Inbox
  imports Users MailScan
begin

text \<open>
  \<^verbatim>\<open>src/modules/inbox/inbox.service.ts\<close>, the messages of the web form and of the mail, and
  \<^verbatim>\<open>src/modules/email-sync/email-sync.service.ts\<close>, which brings the mails of the users. Parameters:
  \<open>od\<close> is the id that a text denotes, \<open>casa\<close> the match of a search of the database, \<open>md5\<close> and \<open>fiso\<close> the
  digest and the text of a date, \<open>buzon\<close> the mail server (the mails since a date, or the failure),
  \<open>envio\<close> the failure of an answer. The handlers of the mails of a connection run one after the other
  here; in the code the connection may close before the last ones have counted.
\<close>

section \<open>Messages\<close>

datatype fuente = F_EMAIL | F_WHATSAPP | F_FORMULARIO | F_INTERNO

datatype estado_mensaje = M_NUEVO | M_LEIDO | M_ARCHIVADO

record mensaje =
  ms_id :: oid
  ms_subject :: string
  ms_sender_name :: string
  ms_sender_email :: string
  ms_source :: fuente
  ms_status :: estado_mensaje
  ms_content :: string
  ms_contentPlainText :: "string option"
  ms_timestamp :: fecha
  ms_assignedTo :: "oid option"
  ms_relatedAgent :: "oid option"
  ms_relatedProperty :: "oid option"
  ms_tags :: "string list"
  ms_messageId :: "string option"
  ms_inReplyTo :: "string option"
  ms_references :: "string list"

record bd_inbox = bd_usr +
  mensajes :: "mensaje list"

definition con_mensajes :: "(mensaje list \<Rightarrow> mensaje list) \<Rightarrow> 'a bd_inbox_scheme \<Rightarrow> 'a bd_inbox_scheme" where
  "con_mensajes f s = s\<lparr>mensajes := f (mensajes s)\<rparr>"

interpretation msgs: coleccion ms_id mensajes con_mensajes
  by unfold_locales (simp add: con_mensajes_def)

record mensaje_dto =
  md_subject :: string
  md_sender_name :: string
  md_sender_email :: string
  md_source :: fuente
  md_content :: string
  md_contentPlainText :: "string option"
  md_tags :: "string list option"
  md_messageId :: "string option"
  md_inReplyTo :: "string option"
  md_references :: "string list"
  md_timestamp :: "fecha option"

section \<open>The inbox\<close>

text \<open>\<^verbatim>\<open>save()\<close>: the required strings, and the unique sparse index on the message id.\<close>

definition mensaje_valido :: "mensaje \<Rightarrow> bool" where
  "mensaje_valido m \<longleftrightarrow> ms_subject m \<noteq> [] \<and> ms_sender_name m \<noteq> [] \<and> ms_sender_email m \<noteq> [] \<and> ms_content m \<noteq> []"

definition ids_mensaje :: "'a bd_inbox_scheme \<Rightarrow> string set" where
  "ids_mensaje s = set (List.map_filter ms_messageId (mensajes s))"

definition mensaje_de :: "oid \<Rightarrow> fecha \<Rightarrow> oid option \<Rightarrow> mensaje_dto \<Rightarrow> mensaje" where
  "mensaje_de i now prop dto =
     \<lparr>ms_id = i, ms_subject = md_subject dto, ms_sender_name = md_sender_name dto, ms_sender_email = md_sender_email dto,
      ms_source = md_source dto, ms_status = M_NUEVO, ms_content = md_content dto,
      ms_contentPlainText = md_contentPlainText dto, ms_timestamp = coalesce (md_timestamp dto) now,
      ms_assignedTo = None, ms_relatedAgent = None, ms_relatedProperty = prop, ms_tags = coalesce (md_tags dto) [],
      ms_messageId = md_messageId dto, ms_inReplyTo = md_inReplyTo dto, ms_references = md_references dto\<rparr>"

definition guardar_mensaje :: "oid option \<Rightarrow> mensaje_dto \<Rightarrow> ('a bd_inbox_scheme, mensaje) proc" where
  "guardar_mensaje prop dto =
     ebind nuevo_id (\<lambda>i.
     ebind (gets ahora) (\<lambda>now.
     let m = mensaje_de i now prop dto in
     if \<not> mensaje_valido m then raise (ErrorJS ''Message validation failed'' [])
     else ebind (gets ids_mensaje) (\<lambda>ids.
          if (case ms_messageId m of None \<Rightarrow> False | Some k \<Rightarrow> k \<in> ids)
          then raise (ErrorJS ''E11000 duplicate key error'' [])
          else ebind (modify (con_mensajes (\<lambda>ms. ms @ [m]))) (\<lambda>_. ret m))))"

definition createMessage :: "mensaje_dto \<Rightarrow> ('a bd_inbox_scheme, mensaje) proc" where
  "createMessage dto = guardar_mensaje None dto"

record formulario =
  fo_name :: string
  fo_email :: string
  fo_phone :: "string option"
  fo_message :: string

definition salto :: string where
  "salto = CHR 0x0A # ''      ''"

definition contenido_formulario :: "formulario \<Rightarrow> string" where
  "contenido_formulario f =
     salto @ ''<p><strong>Nombre:</strong> '' @ fo_name f @ ''</p>'' @
     salto @ (if coalesce (fo_phone f) [] \<noteq> []
              then ''<p><strong>Tel'' @ [CHR 0xE9] @ ''fono:</strong> '' @ coalesce (fo_phone f) [] @ ''</p>'' else []) @
     salto @ ''<p><strong>Email:</strong> '' @ fo_email f @ ''</p>'' @
     salto @ ''<hr>'' @ salto @ ''<p>'' @ fo_message f @ ''</p>'' @ CHR 0x0A # ''    ''"

definition createMessageFromForm ::
  "(string \<Rightarrow> oid option) \<Rightarrow> formulario \<Rightarrow> string option \<Rightarrow> ('a bd_inbox_scheme, mensaje) proc" where
  "createMessageFromForm od f propertyId =
     (let p = coalesce propertyId []; hay = p \<noteq> [] in
      guardar_mensaje (if hay then od p else None)
        \<lparr>md_subject = (if hay then ''Consulta sobre propiedad '' @ p else ''Nueva consulta desde el sitio web''),
         md_sender_name = fo_name f, md_sender_email = fo_email f, md_source = F_FORMULARIO,
         md_content = contenido_formulario f, md_contentPlainText = Some (fo_message f),
         md_tags = Some (if hay then [''propiedad:'' @ p] else []), md_messageId = None, md_inReplyTo = None,
         md_references = [], md_timestamp = None\<rparr>)"

record consulta_mensajes =
  cm_page :: "nat option"
  cm_pageSize :: "nat option"
  cm_search :: "string option"
  cm_source :: "fuente option"
  cm_status :: "estado_mensaje option"
  cm_assignedTo :: "string option"
  cm_tag :: "string option"

definition filtro_mensajes :: "(string \<Rightarrow> oid option) \<Rightarrow> (string \<Rightarrow> string \<Rightarrow> bool) \<Rightarrow> consulta_mensajes \<Rightarrow> mensaje \<Rightarrow> bool" where
  "filtro_mensajes od casa q m \<longleftrightarrow>
     (case cm_source q of None \<Rightarrow> True | Some f \<Rightarrow> ms_source m = f) \<and>
     (case cm_status q of None \<Rightarrow> True | Some e \<Rightarrow> ms_status m = e) \<and>
     (case od (coalesce (cm_assignedTo q) []) of
        None \<Rightarrow> True
      | Some i \<Rightarrow> coalesce (cm_assignedTo q) [] = [] \<or> ms_assignedTo m = Some i) \<and>
     (coalesce (cm_tag q) [] = [] \<or> coalesce (cm_tag q) [] \<in> set (ms_tags m)) \<and>
     (let t = coalesce (cm_search q) [] in
      t = [] \<or> casa t (ms_subject m) \<or> casa t (ms_content m) \<or>
      (case ms_contentPlainText m of None \<Rightarrow> False | Some c \<Rightarrow> casa t c) \<or>
      casa t (ms_sender_name m) \<or> casa t (ms_sender_email m))"

record pagina_mensajes =
  pm_data :: "mensaje list"
  pm_total :: nat
  pm_page :: nat
  pm_pageSize :: nat
  pm_totalPages :: int

text \<open>\<^verbatim>\<open>skip((page - 1) * pageSize)\<close>; the request has a page from 1.\<close>

definition ms_findAll ::
  "(string \<Rightarrow> oid option) \<Rightarrow> (string \<Rightarrow> string \<Rightarrow> bool) \<Rightarrow> consulta_mensajes \<Rightarrow> ('a bd_inbox_scheme, pagina_mensajes) proc" where
  "ms_findAll od casa q =
     (let page = coalesce (cm_page q) 1; tam = coalesce (cm_pageSize q) 20 in
      gets (\<lambda>s. let ms = filter (filtro_mensajes od casa q) (mensajes s)
                in \<lparr>pm_data = pagina (page - 1) tam (sort_key (\<lambda>m. - ms_timestamp m) ms), pm_total = length ms,
                    pm_page = page, pm_pageSize = tam, pm_totalPages = total_paginas (length ms) tam\<rparr>))"

definition ms_no_encontrado :: "string \<Rightarrow> excepcion" where
  "ms_no_encontrado t = NotFoundException ''Mensaje con ID {} no encontrado'' [AStr t]"

definition ms_findById :: "(string \<Rightarrow> oid option) \<Rightarrow> string \<Rightarrow> ('a bd_inbox_scheme, mensaje) proc" where
  "ms_findById od t =
     (case od t of
        None \<Rightarrow> raise (NotFoundException ''ID de mensaje invalido'' [])
      | Some i \<Rightarrow>
          ebind (obtener ms_id mensajes i (ms_no_encontrado t)) (\<lambda>m.
          if ms_status m = M_NUEVO
          then ebind (modify (con_mensajes (save_doc ms_id (m\<lparr>ms_status := M_LEIDO\<rparr>)))) (\<lambda>_. ret (m\<lparr>ms_status := M_LEIDO\<rparr>))
          else ret m))"

definition findByMessageId :: "string \<Rightarrow> ('a bd_inbox_scheme, mensaje option) proc" where
  "findByMessageId k = gets (\<lambda>s. find (\<lambda>m. ms_messageId m = Some k) (mensajes s))"

definition ms_updateStatus ::
  "(string \<Rightarrow> oid option) \<Rightarrow> string \<Rightarrow> estado_mensaje \<Rightarrow> ('a bd_inbox_scheme, mensaje) proc" where
  "ms_updateStatus od t e =
     ebind (cast_id od t) (\<lambda>i.
     ebind (obtener ms_id mensajes i (ms_no_encontrado t)) (\<lambda>m.
     ebind (modify (con_mensajes (save_doc ms_id (m\<lparr>ms_status := e\<rparr>)))) (\<lambda>_. ret (m\<lparr>ms_status := e\<rparr>))))"

definition ids_lote :: "(string \<Rightarrow> oid option) \<Rightarrow> string list \<Rightarrow> ('s, oid list) proc" where
  "ids_lote od ts = for_each (\<lambda>t. case od t of None \<Rightarrow> raise (ErrorJS ''BSONError'' [AStr t]) | Some i \<Rightarrow> ret i) ts"

text \<open>The timestamps of the schema make every document matched a modified one.\<close>

definition updateMessagesBatchStatus ::
  "(string \<Rightarrow> oid option) \<Rightarrow> string list \<Rightarrow> estado_mensaje \<Rightarrow> ('a bd_inbox_scheme, nat) proc" where
  "updateMessagesBatchStatus od ts e =
     ebind (ids_lote od ts) (\<lambda>ids.
     ebind (gets (\<lambda>s. length (filter (\<lambda>m. ms_id m \<in> set ids) (mensajes s)))) (\<lambda>n.
     ebind (modify (con_mensajes (update_many (\<lambda>m. ms_id m \<in> set ids) (\<lambda>m. m\<lparr>ms_status := e\<rparr>)))) (\<lambda>_. ret n)))"

definition deleteMessagesBatch :: "(string \<Rightarrow> oid option) \<Rightarrow> string list \<Rightarrow> ('a bd_inbox_scheme, nat) proc" where
  "deleteMessagesBatch od ts =
     ebind (ids_lote od ts) (\<lambda>ids.
     ebind (gets (\<lambda>s. length (filter (\<lambda>m. ms_id m \<in> set ids) (mensajes s)))) (\<lambda>n.
     ebind (modify (con_mensajes (delete_many (\<lambda>m. ms_id m \<in> set ids)))) (\<lambda>_. ret n)))"

definition assignTo :: "(string \<Rightarrow> oid option) \<Rightarrow> string \<Rightarrow> string \<Rightarrow> ('a bd_inbox_scheme, mensaje) proc" where
  "assignTo od t userId =
     (case od userId of
        None \<Rightarrow> raise (NotFoundException ''ID de usuario invalido'' [])
      | Some u \<Rightarrow>
          ebind (cast_id od t) (\<lambda>i.
          ebind (obtener ms_id mensajes i (ms_no_encontrado t)) (\<lambda>m.
          ebind (modify (con_mensajes (save_doc ms_id (m\<lparr>ms_assignedTo := Some u\<rparr>)))) (\<lambda>_.
          ret (m\<lparr>ms_assignedTo := Some u\<rparr>)))))"

definition con_tags :: "string list \<Rightarrow> mensaje \<Rightarrow> mensaje" where
  "con_tags tags m = m\<lparr>ms_tags := ms_tags m @ filter (\<lambda>t. t \<notin> set (ms_tags m)) tags\<rparr>"

definition addTags :: "(string \<Rightarrow> oid option) \<Rightarrow> string \<Rightarrow> string list \<Rightarrow> ('a bd_inbox_scheme, mensaje) proc" where
  "addTags od t tags =
     ebind (cast_id od t) (\<lambda>i.
     ebind (obtener ms_id mensajes i (ms_no_encontrado t)) (\<lambda>m.
     ebind (modify (con_mensajes (save_doc ms_id (con_tags tags m)))) (\<lambda>_. ret (con_tags tags m))))"

definition archiveMessage :: "(string \<Rightarrow> oid option) \<Rightarrow> string \<Rightarrow> ('a bd_inbox_scheme, mensaje) proc" where
  "archiveMessage od t = ms_updateStatus od t M_ARCHIVADO"

text \<open>The mail that is sent: to whom, its subject and its text.\<close>

definition sendReply ::
  "(string \<Rightarrow> oid option) \<Rightarrow> excepcion option \<Rightarrow> string \<Rightarrow> string option \<Rightarrow> string \<Rightarrow>
   ('a bd_inbox_scheme, string \<times> string \<times> string) proc" where
  "sendReply od envio t subject content =
     ebind (cast_id od t) (\<lambda>i.
     ebind (obtener ms_id mensajes i (ms_no_encontrado t)) (\<lambda>m.
     case envio of
       Some e \<Rightarrow> raise e
     | None \<Rightarrow> ret (ms_sender_email m, o_texto subject (''Re: '' @ ms_subject m), content)))"

record estadisticas_mensajes =
  st_total :: nat
  st_nuevo :: nat
  st_leido :: nat
  st_archivado :: nat
  st_porFuente :: "(fuente \<times> nat) list"

definition getStats :: "('a bd_inbox_scheme, estadisticas_mensajes) proc" where
  "getStats = gets (\<lambda>s. let n = (\<lambda>P. length (filter P (mensajes s))) in
     \<lparr>st_total = length (mensajes s), st_nuevo = n (\<lambda>m. ms_status m = M_NUEVO),
      st_leido = n (\<lambda>m. ms_status m = M_LEIDO), st_archivado = n (\<lambda>m. ms_status m = M_ARCHIVADO),
      st_porFuente = map (\<lambda>f. (f, n (\<lambda>m. ms_source m = f))) (remdups (map ms_source (mensajes s)))\<rparr>)"

section \<open>The synchronization of the mail\<close>

text \<open>A mail as \<^verbatim>\<open>simpleParser\<close> gives it; \<open>em_from\<close> is the name and the address of its first sender.\<close>

record correo_recibido =
  em_subject :: "string option"
  em_from :: "(string option \<times> string option) option"
  em_html :: "string option"
  em_textAsHtml :: "string option"
  em_text :: "string option"
  em_messageId :: "string option"
  em_date :: "fecha option"
  em_inReplyTo :: "string option"
  em_references :: "string list"

definition asunto_de :: "correo_recibido \<Rightarrow> string" where
  "asunto_de e = o_texto (em_subject e) ''Sin asunto''"

definition direccion_de :: "correo_recibido \<Rightarrow> string" where
  "direccion_de e = o_texto (case em_from e of None \<Rightarrow> None | Some f \<Rightarrow> snd f) []"

definition uniqueId :: "(string \<Rightarrow> string) \<Rightarrow> (fecha \<Rightarrow> string) \<Rightarrow> fecha \<Rightarrow> correo_recibido \<Rightarrow> string" where
  "uniqueId md5 fiso now e =
     (let k = coalesce (em_messageId e) [] in
      if k = [] \<or> k = ''NULL''
      then md5 (asunto_de e @ ''|'' @ direccion_de e @ ''|'' @ fiso (coalesce (em_date e) now)) else k)"

definition datos_correo :: "(string \<Rightarrow> string) \<Rightarrow> (fecha \<Rightarrow> string) \<Rightarrow> fecha \<Rightarrow> correo_recibido \<Rightarrow> mensaje_dto" where
  "datos_correo md5 fiso now e =
     \<lparr>md_subject = asunto_de e,
      md_sender_name = o_texto (case em_from e of None \<Rightarrow> None | Some f \<Rightarrow> fst f) (o_texto (Some (direccion_de e)) ''Desconocido''),
      md_sender_email = direccion_de e, md_source = F_EMAIL,
      md_content = o_texto (em_html e) (o_texto (em_textAsHtml e) (o_texto (em_text e) [])),
      md_contentPlainText = Some (o_texto (em_text e) []), md_tags = None,
      md_messageId = Some (uniqueId md5 fiso now e), md_inReplyTo = em_inReplyTo e, md_references = em_references e,
      md_timestamp = Some (coalesce (em_date e) now)\<rparr>"

text \<open>\<open>None\<close> is a duplicate, found before or reported by the index.\<close>

definition guardar_correo_in :: "mensaje_dto \<Rightarrow> ('a bd_inbox_scheme, mensaje option) proc" where
  "guardar_correo_in dto =
     ebind (findByMessageId (coalesce (md_messageId dto) [])) (\<lambda>existing.
     case existing of
       Some _ \<Rightarrow> ret None
     | None \<Rightarrow> try_catch (ebind (createMessage dto) (\<lambda>m. ret (Some m)))
         (\<lambda>e. if e = ErrorJS ''E11000 duplicate key error'' [] then ret None else raise e))"

definition parseEmailToMessage ::
  "(string \<Rightarrow> string) \<Rightarrow> (fecha \<Rightarrow> string) \<Rightarrow> correo_recibido \<Rightarrow> ('a bd_inbox_scheme, unit) proc" where
  "parseEmailToMessage md5 fiso e =
     ebind (gets ahora) (\<lambda>now. ebind (guardar_correo_in (datos_correo md5 fiso now e)) (\<lambda>_. ret ()))"

record conteo_sync =
  sn_nuevos :: nat
  sn_errores :: nat

definition sync_uno ::
  "(string \<Rightarrow> string) \<Rightarrow> (fecha \<Rightarrow> string) \<Rightarrow> correo_recibido \<Rightarrow> conteo_sync \<Rightarrow> ('a bd_inbox_scheme, conteo_sync) proc" where
  "sync_uno md5 fiso e c =
     try_catch (ebind (parseEmailToMessage md5 fiso e) (\<lambda>_. ret (c\<lparr>sn_nuevos := sn_nuevos c + 1\<rparr>)))
       (\<lambda>_. ret (c\<lparr>sn_errores := sn_errores c + 1\<rparr>))"

text \<open>The date of the search: thirty days back the first time, one hour before the last one later.\<close>

definition fecha_busqueda :: "fecha \<Rightarrow> usuario \<Rightarrow> fecha" where
  "fecha_busqueda now u =
     (case us_emailSync u of None \<Rightarrow> now - 30 * 86400000 | Some (_, f) \<Rightarrow> f - 3600000)"

definition syncImap ::
  "(string \<Rightarrow> oid option) \<Rightarrow> (oid \<Rightarrow> string) \<Rightarrow> (string \<Rightarrow> string) \<Rightarrow> (fecha \<Rightarrow> string) \<Rightarrow>
   (imap_config \<Rightarrow> fecha \<Rightarrow> excepcion + correo_recibido list) \<Rightarrow> imap_config \<Rightarrow> usuario \<Rightarrow> ('a bd_inbox_scheme, conteo_sync) proc" where
  "syncImap od tx md5 fiso buzon cfg u =
     ebind (gets ahora) (\<lambda>now.
     ebind (lift_result (buzon cfg (fecha_busqueda now u))) (\<lambda>results.
     if results = [] then ret \<lparr>sn_nuevos = 0, sn_errores = 0\<rparr>
     else ebind (fold_each (sync_uno md5 fiso) results \<lparr>sn_nuevos = 0, sn_errores = 0\<rparr>) (\<lambda>c.
          ebind (try_catch (updateLastSyncedUID od (tx (us_id u)) 0) (\<lambda>_. ret ())) (\<lambda>_. ret c))))"

record resultado_sync =
  rs_success :: bool
  rs_nuevos :: nat
  rs_errores :: nat

definition con_ultima :: "fecha \<Rightarrow> usuario \<Rightarrow> usuario" where
  "con_ultima now u =
     u\<lparr>us_emailCorporativoConfig := map_option (\<lambda>c. c\<lparr>ec_ultimaSincronizacion := Some now\<rparr>) (us_emailCorporativoConfig u)\<rparr>"

definition marcar_sync :: "oid \<Rightarrow> ('a bd_inbox_scheme, unit) proc" where
  "marcar_sync i = ebind (gets ahora) (\<lambda>now. modify (con_usuarios (update_one (\<lambda>x. us_id x = i) (con_ultima now))))"

definition syncUserEmail ::
  "(string \<Rightarrow> oid option) \<Rightarrow> (oid \<Rightarrow> string) \<Rightarrow> (string \<Rightarrow> string) \<Rightarrow> (fecha \<Rightarrow> string) \<Rightarrow>
   (imap_config \<Rightarrow> fecha \<Rightarrow> excepcion + correo_recibido list) \<Rightarrow> string \<Rightarrow> ('a bd_inbox_scheme, resultado_sync) proc" where
  "syncUserEmail od tx md5 fiso buzon userId =
     ebind (cast_id od userId) (\<lambda>i.
     ebind (gets (\<lambda>s. find_id us_id i (usuarios s))) (\<lambda>user.
     case (user, case user of None \<Rightarrow> None | Some u \<Rightarrow> us_emailCorporativoConfig u) of
       (Some u, Some config) \<Rightarrow>
         if \<not> ec_sincronizacionActiva config
         then raise (ErrorJS ''Sincronizacion no activa para este usuario'' [])
         else try_catch
           (case (ec_provider config, ec_imapConfig config) of
              (IMAP, Some cfg) \<Rightarrow>
                ebind (syncImap od tx md5 fiso buzon cfg u) (\<lambda>c.
                ebind (marcar_sync i) (\<lambda>_.
                ret \<lparr>rs_success = True, rs_nuevos = sn_nuevos c, rs_errores = sn_errores c\<rparr>))
            | (IMAP, None) \<Rightarrow>
                ebind (marcar_sync i) (\<lambda>_. ret \<lparr>rs_success = True, rs_nuevos = 0, rs_errores = 0\<rparr>)
            | _ \<Rightarrow> ret \<lparr>rs_success = False, rs_nuevos = 0, rs_errores = 1\<rparr>)
           (\<lambda>_. ret \<lparr>rs_success = False, rs_nuevos = 0, rs_errores = 1\<rparr>)
     | _ \<Rightarrow> raise (ErrorJS ''Usuario no encontrado o sin configuracion de email'' [])))"

definition syncAllActiveUsers ::
  "(string \<Rightarrow> oid option) \<Rightarrow> (oid \<Rightarrow> string) \<Rightarrow> (string \<Rightarrow> string) \<Rightarrow> (fecha \<Rightarrow> string) \<Rightarrow>
   (imap_config \<Rightarrow> fecha \<Rightarrow> excepcion + correo_recibido list) \<Rightarrow> ('a bd_inbox_scheme, unit) proc" where
  "syncAllActiveUsers od tx md5 fiso buzon =
     ebind (gets (\<lambda>s. filter (\<lambda>u. case us_emailCorporativoConfig u of None \<Rightarrow> False | Some c \<Rightarrow> ec_sincronizacionActiva c)
       (usuarios s))) (\<lambda>us.
     ebind (for_each (\<lambda>u. try_catch (ebind (syncUserEmail od tx md5 fiso buzon (tx (us_id u))) (\<lambda>_. ret ())) (\<lambda>_. ret ())) us) (\<lambda>_.
     ret ()))"

end
