(* ===== verification/InboxProperties.thy ===== *)
theory InboxProperties
  imports Inbox UserProperties "HOL-Library.Multiset"
begin

text \<open>
  The inbox: identifiers that stay unique along any run, what a synchronization stores and counts, and
  the pages and figures of the messages.
\<close>

section \<open>The store\<close>

definition inbox_ok :: "'a bd_inbox_scheme \<Rightarrow> bool" where
  "inbox_ok s \<longleftrightarrow> distinct (map ms_id (mensajes s)) \<and> (\<forall>m \<in> set (mensajes s). ms_id m < prox_id s) \<and>
     distinct (List.map_filter ms_messageId (mensajes s))"

lemma campos_inbox [simp]:
  "mensajes (con_mensajes f s) = f (mensajes s)" "prox_id (con_mensajes f s) = prox_id s"
  "ahora (con_mensajes f s) = ahora s" "usuarios (con_mensajes f s) = usuarios s"
  "mensajes (con_usuarios g t) = mensajes t"
  by (simp_all add: con_mensajes_def con_usuarios_def)

lemma inbox_ok_prox: "inbox_ok s \<Longrightarrow> inbox_ok (s\<lparr>prox_id := Suc (prox_id s)\<rparr>)"
  by (auto simp: inbox_ok_def less_SucI)

lemma map_filter_append: "List.map_filter f (xs @ ys) = List.map_filter f xs @ List.map_filter f ys"
  by (simp add: List.map_filter_def)

lemma guardar_mensaje_run:
  "guardar_mensaje prop dto s =
     (let m = mensaje_de (prox_id s) (ahora s) prop dto; t = s\<lparr>prox_id := Suc (prox_id s)\<rparr> in
      if \<not> mensaje_valido m then (Inl (ErrorJS ''Message validation failed'' []), t)
      else if (case md_messageId dto of None \<Rightarrow> False | Some k \<Rightarrow> k \<in> ids_mensaje s)
      then (Inl (ErrorJS ''E11000 duplicate key error'' []), t)
      else (Inr m, con_mensajes (\<lambda>ms. ms @ [m]) t))"
  by (simp add: guardar_mensaje_def ebind_def nuevo_id_def gets_def raise_def modify_def ret_def Let_def ids_mensaje_def
      mensaje_de_def split: option.split)

lemma guardar_mensaje_ok: "preserves inbox_ok (guardar_mensaje prop dto)"
  unfolding preserves_def
proof (intro allI impI)
  fix s :: "'a bd_inbox_scheme" assume s: "inbox_ok s"
  have n: "prox_id s \<notin> ms_id ` set (mensajes s)" using s by (auto simp: inbox_ok_def)
  have "inbox_ok (con_mensajes (\<lambda>ms. ms @ [m]) (s\<lparr>prox_id := Suc (prox_id s)\<rparr>))"
    if "ms_id m = prox_id s" "\<forall>k. ms_messageId m = Some k \<longrightarrow> k \<notin> ids_mensaje s" for m
    using that s n
    by (cases "ms_messageId m")
      (auto simp: inbox_ok_def ids_mensaje_def map_filter_append less_SucI List.map_filter_simps)
  then show "inbox_ok (snd (guardar_mensaje prop dto s))"
    using inbox_ok_prox [OF s]
    by (auto simp: guardar_mensaje_run Let_def mensaje_de_def split: option.splits)
qed

text \<open>Changes that keep the identifiers.\<close>

lemma map_filter_map_igual:
  "(\<And>m. m \<in> set ms \<Longrightarrow> ms_messageId (f m) = ms_messageId m) \<Longrightarrow>
   List.map_filter ms_messageId (map f ms) = List.map_filter ms_messageId ms"
  by (induction ms) (simp_all add: List.map_filter_simps split: option.split)

lemma inbox_ok_map:
  assumes "inbox_ok s" and "\<And>m. m \<in> set (mensajes s) \<Longrightarrow> ms_id (f m) = ms_id m \<and> ms_messageId (f m) = ms_messageId m"
  shows "inbox_ok (con_mensajes (map f) s)"
proof -
  have i: "map ms_id (map f (mensajes s)) = map ms_id (mensajes s)" using assms(2) by simp
  have k: "List.map_filter ms_messageId (map f (mensajes s)) = List.map_filter ms_messageId (mensajes s)"
    using assms(2) by (intro map_filter_map_igual) simp
  show ?thesis using assms unfolding inbox_ok_def campos_inbox i k by auto
qed


lemma inbox_ok_save:
  assumes "inbox_ok s" and "m \<in> set (mensajes s)" and "ms_id m' = ms_id m" "ms_messageId m' = ms_messageId m"
  shows "inbox_ok (con_mensajes (save_doc ms_id m') s)"
proof -
  have d: "distinct (map ms_id (mensajes s))" using assms(1) by (simp add: inbox_ok_def)
  have "inbox_ok (con_mensajes (map (\<lambda>x. if ms_id x = ms_id m' then m' else x)) s)"
    using clave_unica [OF d _ assms(2)] assms(3,4) by (intro inbox_ok_map [OF assms(1)]) auto
  then show ?thesis by (simp add: inbox_ok_def save_doc_def)
qed

lemma inbox_ok_delete: "inbox_ok s \<Longrightarrow> inbox_ok (con_mensajes (delete_many P) s)"
proof -
  have f: "set (List.map_filter f (filter Q xs)) \<subseteq> set (List.map_filter f xs)" for f Q and xs :: "mensaje list"
    by (auto simp: List.map_filter_def)
  have "distinct (List.map_filter f xs) \<Longrightarrow> distinct (List.map_filter f (filter Q xs))" for f Q and xs :: "mensaje list"
    using f by (induction xs) (fastforce simp: List.map_filter_simps split: option.splits)+
  then show "inbox_ok s \<Longrightarrow> ?thesis" by (auto simp: inbox_ok_def delete_many_def distinct_map_filter)
qed

lemma inbox_ok_usuarios: "inbox_ok (con_usuarios f s) \<longleftrightarrow> inbox_ok s"
  by (simp add: inbox_ok_def con_usuarios_def)

lemma ids_lote_estado: "snd (ids_lote od ts s) = s"
  unfolding ids_lote_def
  by (induction ts) (auto simp: ebind_def ret_def raise_def split: option.splits prod.splits sum.splits)

lemma conserva_inbox:
  "preserves inbox_ok (createMessage dto)"
  "preserves inbox_ok (createMessageFromForm od f p)"
  "preserves inbox_ok (ms_findById od t)"
  "preserves inbox_ok (ms_updateStatus od t e)"
  "preserves inbox_ok (updateMessagesBatchStatus od ts e)"
  "preserves inbox_ok (deleteMessagesBatch od ts)"
  "preserves inbox_ok (assignTo od t u)"
  "preserves inbox_ok (addTags od t tags)"
proof -
  show "preserves inbox_ok (createMessage dto)" "preserves inbox_ok (createMessageFromForm od f p)"
    by (simp_all add: createMessage_def createMessageFromForm_def Let_def guardar_mensaje_ok)
  show "preserves inbox_ok (ms_findById od t)" "preserves inbox_ok (ms_updateStatus od t e)"
    "preserves inbox_ok (assignTo od t u)" "preserves inbox_ok (addTags od t tags)"
    by (auto simp: preserves_def ms_findById_def ms_updateStatus_def assignTo_def addTags_def ebind_def cast_id_run
        obtener_casos modify_def ret_def raise_def con_tags_def dest: find_id_in intro!: inbox_ok_save
        split: option.split)
  have u: "update_many P (\<lambda>m. m\<lparr>ms_status := e\<rparr>) = map (\<lambda>m. if P m then m\<lparr>ms_status := e\<rparr> else m)" for P
    by (rule ext) (simp add: update_many_def)
  show "preserves inbox_ok (updateMessagesBatchStatus od ts e)"
    unfolding updateMessagesBatchStatus_def u
    by (intro preserves_ebind) (auto simp: preserves_def ids_lote_estado gets_def modify_def ret_def intro!: inbox_ok_map)
  show "preserves inbox_ok (deleteMessagesBatch od ts)"
    unfolding deleteMessagesBatch_def
    by (intro preserves_ebind) (auto simp: preserves_def ids_lote_estado gets_def modify_def ret_def intro!: inbox_ok_delete)
qed

section \<open>The mails\<close>

definition correo_valido_in :: "correo_recibido \<Rightarrow> bool" where
  "correo_valido_in e \<longleftrightarrow> direccion_de e \<noteq> [] \<and> o_texto (em_html e) (o_texto (em_textAsHtml e) (o_texto (em_text e) [])) \<noteq> []"

lemma datos_validos: "mensaje_valido (mensaje_de i t p (datos_correo md5 fiso now e)) \<longleftrightarrow> correo_valido_in e"
  by (auto simp: mensaje_valido_def mensaje_de_def datos_correo_def correo_valido_in_def asunto_de_def o_texto_def
      split: option.split)

lemma findByMessageId_None: "find (\<lambda>m. ms_messageId m = Some k) ms = None \<longleftrightarrow> k \<notin> set (List.map_filter ms_messageId ms)"
  by (induction ms) (auto simp: List.map_filter_simps split: option.splits)

lemma guardar_correo_run:
  "guardar_correo_in (datos_correo md5 fiso now e) s =
     (if uniqueId md5 fiso now e \<in> ids_mensaje s then (Inr None, s)
      else let t = s\<lparr>prox_id := Suc (prox_id s)\<rparr>; m = mensaje_de (prox_id s) (ahora s) None (datos_correo md5 fiso now e) in
        if correo_valido_in e then (Inr (Some m), con_mensajes (\<lambda>ms. ms @ [m]) t)
        else (Inl (ErrorJS ''Message validation failed'' []), t))"
proof (cases "uniqueId md5 fiso now e \<in> ids_mensaje s")
  case True
  then obtain m where "find (\<lambda>m. ms_messageId m = Some (uniqueId md5 fiso now e)) (mensajes s) = Some m"
    using findByMessageId_None [of "uniqueId md5 fiso now e" "mensajes s"] by (auto simp: ids_mensaje_def)
  then show ?thesis using True
    by (simp add: guardar_correo_in_def findByMessageId_def datos_correo_def ebind_def gets_def ret_def)
next
  case False
  then have "find (\<lambda>m. ms_messageId m = Some (uniqueId md5 fiso now e)) (mensajes s) = None"
    using findByMessageId_None [of "uniqueId md5 fiso now e" "mensajes s"] by (simp add: ids_mensaje_def)
  moreover have "md_messageId (datos_correo md5 fiso now e) = Some (uniqueId md5 fiso now e)" by (simp add: datos_correo_def)
  ultimately show ?thesis using False
    by (simp add: guardar_correo_in_def findByMessageId_def ebind_def gets_def ret_def raise_def try_catch_def
        createMessage_def guardar_mensaje_run datos_validos Let_def)
qed

lemma ids_mensaje_simps [simp]:
  "ids_mensaje (s\<lparr>prox_id := n\<rparr>) = ids_mensaje s"
  "ids_mensaje (con_mensajes (\<lambda>ms. ms @ [m]) s) =
     (case ms_messageId m of None \<Rightarrow> ids_mensaje s | Some k \<Rightarrow> insert k (ids_mensaje s))"
  by (auto simp: ids_mensaje_def map_filter_append List.map_filter_simps split: option.split)

lemma mensaje_de_id: "ms_messageId (mensaje_de i t p (datos_correo md5 fiso now e)) = Some (uniqueId md5 fiso now e)"
  by (simp add: mensaje_de_def datos_correo_def)

interpretation correo_in: almacen_correo ids_mensaje "uniqueId md5 fiso now" correo_valido_in
  "\<lambda>e. guardar_correo_in (datos_correo md5 fiso now e)" "\<lambda>s. inbox_ok s \<and> ahora s = now" for md5 fiso now
proof unfold_locales
  fix s :: "'a bd_inbox_scheme" and e
  assume s: "inbox_ok s \<and> ahora s = now"
  let ?d = "datos_correo md5 fiso now e"
  have ok: "inbox_ok (snd (guardar_mensaje None ?d s))"
    by (rule guardar_mensaje_ok [unfolded preserves_def, rule_format, OF conjunct1 [OF s]])
  have m: "md_messageId ?d = Some (uniqueId md5 fiso now e)" by (simp add: datos_correo_def)
  show "uniqueId md5 fiso now e \<in> ids_mensaje s \<Longrightarrow> guardar_correo_in ?d s = (Inr None, s)"
    by (simp add: guardar_correo_run)
  show "\<exists>r s'. guardar_correo_in ?d s = (Inr (Some r), s') \<and>
      ids_mensaje s' = insert (uniqueId md5 fiso now e) (ids_mensaje s) \<and> inbox_ok s' \<and> ahora s' = now"
    if "correo_valido_in e" "uniqueId md5 fiso now e \<notin> ids_mensaje s"
    using that ok s m by (simp add: guardar_correo_run guardar_mensaje_run Let_def datos_validos mensaje_de_id)
  show "\<exists>r s'. guardar_correo_in ?d s = (r, s') \<and> (r = Inr None \<or> (\<exists>e. r = Inl e)) \<and> ids_mensaje s' = ids_mensaje s \<and>
      inbox_ok s' \<and> ahora s' = now"
    if "\<not> correo_valido_in e"
    using that ok s by (auto simp: guardar_correo_run guardar_mensaje_run Let_def datos_validos)
  show "finite (ids_mensaje s)" by (simp add: ids_mensaje_def)
qed

text \<open>The loop of the synchronization is the one of the scanners, with other counts.\<close>

abbreviation lectura :: "nat \<Rightarrow> correo_recibido \<Rightarrow> correo_recibido option" where
  "lectura n e \<equiv> Some e"

lemma sync_uno_procesar:
  assumes "ahora s = now" and "sn_nuevos d = nuevos c + duplicados c" "sn_errores d = errores c"
    and "procesar_uno lectura (\<lambda>e. guardar_correo_in (datos_correo md5 fiso now e)) e c s = (r, s')"
  shows "\<exists>c' d'. r = Inr c' \<and> sync_uno md5 fiso e d s = (Inr d', s') \<and> sn_nuevos d' = nuevos c' + duplicados c' \<and>
     sn_errores d' = errores c'"
  using assms
  by (auto simp: procesar_uno_def sync_uno_def parseEmailToMessage_def ebind_def gets_def ret_def try_catch_def contar_uno_def
      split: prod.splits sum.splits option.splits)

lemma sync_loop_procesar:
  assumes "inbox_ok s \<and> ahora s = now" and "sn_nuevos d = nuevos c + duplicados c" "sn_errores d = errores c"
    and "fold_each (procesar_uno lectura (\<lambda>e. guardar_correo_in (datos_correo md5 fiso now e))) es c s = (Inr c', s')"
  shows "\<exists>d'. fold_each (sync_uno md5 fiso) es d s = (Inr d', s') \<and> sn_nuevos d' = nuevos c' + duplicados c' \<and>
     sn_errores d' = errores c'"
  using assms
proof (induction es arbitrary: s c d)
  case Nil
  then show ?case by (auto simp: ret_def)
next
  case (Cons e es)
  obtain r s1 where r: "procesar_uno lectura (\<lambda>e. guardar_correo_in (datos_correo md5 fiso now e)) e c s = (r, s1)"
    by (meson surj_pair)
  from sync_uno_procesar [OF conjunct2 [OF Cons.prems(1)] Cons.prems(2,3) r] obtain c1 d1 where
    c1: "r = Inr c1" "sync_uno md5 fiso e d s = (Inr d1, s1)" "sn_nuevos d1 = nuevos c1 + duplicados c1" "sn_errores d1 = errores c1"
    by blast
  have "inbox_ok s1 \<and> ahora s1 = now"
    using correo_in.procesar_uno_run [OF Cons.prems(1), of lectura md5 fiso e c] r by auto
  from Cons.IH [OF this c1(3,4)] Cons.prems(4) r c1(1,2) show ?case by (simp add: ebind_def)
qed


lemma sync_uno_cuenta:
  "\<exists>d' s'. sync_uno md5 fiso e d s = (Inr d', s') \<and> sn_nuevos d' + sn_errores d' = sn_nuevos d + sn_errores d + 1 \<and>
     (correo_valido_in e \<longrightarrow> sn_errores d' = sn_errores d)"
proof (cases "guardar_correo_in (datos_correo md5 fiso (ahora s) e) s")
  case (Pair r s')
  have "correo_valido_in e \<Longrightarrow> \<exists>x. r = Inr x"
    using Pair by (auto simp: guardar_correo_run Let_def split: if_splits)
  then show ?thesis
    using Pair by (cases r) (auto simp: sync_uno_def parseEmailToMessage_def ebind_def gets_def ret_def try_catch_def)
qed

lemma sync_loop_cuenta:
  "\<exists>d' s'. fold_each (sync_uno md5 fiso) es d s = (Inr d', s') \<and>
     sn_nuevos d' + sn_errores d' = sn_nuevos d + sn_errores d + length es \<and>
     (list_all correo_valido_in es \<longrightarrow> sn_errores d' = sn_errores d)"
proof (induction es arbitrary: d s)
  case Nil
  then show ?case by (simp add: ret_def)
next
  case (Cons e es)
  obtain d1 s1 where one: "sync_uno md5 fiso e d s = (Inr d1, s1)" "sn_nuevos d1 + sn_errores d1 = sn_nuevos d + sn_errores d + 1"
    "correo_valido_in e \<longrightarrow> sn_errores d1 = sn_errores d" using sync_uno_cuenta by blast
  obtain d2 s2 where rest: "fold_each (sync_uno md5 fiso) es d1 s1 = (Inr d2, s2)"
    "sn_nuevos d2 + sn_errores d2 = sn_nuevos d1 + sn_errores d1 + length es"
    "list_all correo_valido_in es \<longrightarrow> sn_errores d2 = sn_errores d1" using Cons.IH [of d1 s1] by blast
  show ?case
    using one rest by (intro exI [of _ d2] exI [of _ s2]) (auto simp: ebind_step)
qed

lemma uid_mensajes:
  "\<exists>t. try_catch (updateLastSyncedUID od w n) (\<lambda>_. ret ()) s = (Inr (), t) \<and> mensajes t = mensajes s \<and> prox_id t = prox_id s \<and> ahora t = ahora s"
  by (auto simp: try_catch_def updateLastSyncedUID_def ebind_def cast_id_run obtener_casos gets_def modify_def ret_def
      split: option.split)

text \<open>A synchronization is its loop, followed by a write to the user.\<close>

lemma syncImap_run:
  assumes "buzon cfg (fecha_busqueda (ahora s) u) = Inr es" and "es \<noteq> []"
    and "fold_each (sync_uno md5 fiso) es \<lparr>sn_nuevos = 0, sn_errores = 0\<rparr> s = (Inr c, t)"
  shows "\<exists>t'. syncImap od tx md5 fiso buzon cfg u s = (Inr c, t') \<and> mensajes t' = mensajes t \<and> prox_id t' = prox_id t \<and>
     ahora t' = ahora t"
proof -
  obtain t' where "try_catch (updateLastSyncedUID od (tx (us_id u)) 0) (\<lambda>_. ret ()) t = (Inr (), t')"
    "mensajes t' = mensajes t" "prox_id t' = prox_id t" "ahora t' = ahora t" using uid_mensajes by blast
  with assms show ?thesis
    by (intro exI [of _ t']) (simp add: syncImap_def ebind_def gets_def lift_result_def ret_def)
qed



section \<open>Runs\<close>

lemma conserva_usuarios: "preserves inbox_ok (modify (con_usuarios f))"
  by (simp add: preserves_def modify_def inbox_ok_usuarios)

lemma conserva_sync: "preserves inbox_ok (syncUserEmail od tx md5 fiso buzon t)"
proof -
  have o: "preserves inbox_ok (cast_id od w)" "preserves inbox_ok (obtener us_id usuarios i e)" for w i e
    by (auto simp: preserves_def cast_id_run obtener_casos split: option.split)
  have g: "preserves inbox_ok (guardar_correo_in dto)" for dto
    unfolding guardar_correo_in_def findByMessageId_def
    by (intro preserves_ebind preserves_gets) (auto split: option.split intro!: conserva_inbox(1))
  have u: "preserves inbox_ok (updateLastSyncedUID od w n)" for w n
    unfolding updateLastSyncedUID_def by (intro preserves_ebind o preserves_gets conserva_usuarios)
  have l: "preserves inbox_ok (fold_each (sync_uno md5 fiso) es c)" for es c
    unfolding sync_uno_def parseEmailToMessage_def
    by (intro preserves_fold_each preserves_try preserves_ebind preserves_gets preserves_ret g)
  have i: "preserves inbox_ok (syncImap od tx md5 fiso buzon cfg v)" for cfg v
    unfolding syncImap_def
    by (intro preserves_ebind preserves_gets preserves_lift preserves_if preserves_ret preserves_try l u)
  have m: "preserves inbox_ok (marcar_sync k)" for k
    unfolding marcar_sync_def by (intro preserves_ebind preserves_gets conserva_usuarios)
  show ?thesis
    unfolding syncUserEmail_def
    by (intro preserves_ebind preserves_gets o)
      (auto split: option.split proveedor_correo.split intro!: preserves_ebind i m)
qed

text \<open>One request to the inbox, the synchronization of all users, or time going by.\<close>

inductive paso_inbox ::
  "(string \<Rightarrow> oid option) \<Rightarrow> 'a bd_inbox_scheme \<Rightarrow> 'a bd_inbox_scheme \<Rightarrow> bool"
  for od :: "string \<Rightarrow> oid option" where
  formulario: "createMessageFromForm od f p s = (r1, s') \<Longrightarrow> paso_inbox od s s'"
| crear_mensaje: "createMessage dto s = (r2, s') \<Longrightarrow> paso_inbox od s s'"
| leer_mensaje: "ms_findById od t s = (r3, s') \<Longrightarrow> paso_inbox od s s'"
| cambiar_estado: "ms_updateStatus od t e s = (r4, s') \<Longrightarrow> paso_inbox od s s'"
| cambiar_estados: "updateMessagesBatchStatus od ts e s = (r5, s') \<Longrightarrow> paso_inbox od s s'"
| borrar_mensajes: "deleteMessagesBatch od ts s = (r6, s') \<Longrightarrow> paso_inbox od s s'"
| asignar: "assignTo od t w s = (r7, s') \<Longrightarrow> paso_inbox od s s'"
| etiquetar: "addTags od t tags s = (r8, s') \<Longrightarrow> paso_inbox od s s'"
| sincronizar_todos: "syncAllActiveUsers od tx md5 fiso buzon s = (r9, s') \<Longrightarrow> paso_inbox od s s'"
| pasa_tiempo: "paso_inbox od s (s\<lparr>ahora := n\<rparr>)"

lemma paso_inbox_ok: "paso_inbox od s s' \<Longrightarrow> inbox_ok s \<Longrightarrow> inbox_ok s'"
proof (induction rule: paso_inbox.induct)
  case (sincronizar_todos tx md5 fiso buzon s r9 s')
  have "preserves inbox_ok (syncAllActiveUsers od tx md5 fiso buzon)"
    unfolding syncAllActiveUsers_def
    by (intro preserves_ebind preserves_gets preserves_for_each preserves_try conserva_sync preserves_ret)
  from preservesD [OF this sincronizar_todos(2,1)] show ?case .
next
  case (pasa_tiempo s n)
  then show ?case by (simp add: inbox_ok_def)
qed (auto intro: preservesD [OF conserva_inbox(1)] preservesD [OF conserva_inbox(2)] preservesD [OF conserva_inbox(3)]
      preservesD [OF conserva_inbox(4)] preservesD [OF conserva_inbox(5)] preservesD [OF conserva_inbox(6)]
      preservesD [OF conserva_inbox(7)] preservesD [OF conserva_inbox(8)])

section \<open>Pages and figures\<close>

lemma cuenta_partes:
  "length ms = length (filter (\<lambda>m. ms_status m = M_NUEVO) ms) + length (filter (\<lambda>m. ms_status m = M_LEIDO) ms) +
     length (filter (\<lambda>m. ms_status m = M_ARCHIVADO) ms)"
proof (induction ms)
  case (Cons m ms)
  then show ?case by (cases "ms_status m") simp_all
qed simp

lemma suma_fuentes: "(\<Sum>f\<leftarrow>remdups (map ms_source ms). length (filter (\<lambda>m. ms_source m = f) ms)) = length ms"
proof -
  have "(\<Sum>f\<leftarrow>remdups (map ms_source ms). length (filter (\<lambda>m. ms_source m = f) ms)) =
     (\<Sum>f \<in> ms_source ` set ms. length (filter (\<lambda>m. ms_source m = f) ms))"
    by (subst sum_list_distinct_conv_sum_set) simp_all
  also have "\<dots> = (\<Sum>f \<in> ms_source ` set ms. count_list (map ms_source ms) f)"
    by (intro sum.cong refl) (simp add: count_list_eq_length_filter filter_map comp_def eq_commute)
  also have "\<dots> = length (map ms_source ms)"
    using sum_count_set [of "map ms_source ms" "ms_source ` set ms"] by simp
  finally show ?thesis by simp
qed

definition pagina_inbox ::
  "(string \<Rightarrow> oid option) \<Rightarrow> (string \<Rightarrow> string \<Rightarrow> bool) \<Rightarrow> consulta_mensajes \<Rightarrow> nat \<Rightarrow> 'a bd_inbox_scheme \<Rightarrow> nat \<Rightarrow> pagina_mensajes" where
  "pagina_inbox od casa q n s k = valor (ms_findAll od casa (q\<lparr>cm_page := Some k, cm_pageSize := Some n\<rparr>)) s"


section \<open>Examples\<close>

definition usuario0 :: usuario where
  "usuario0 = \<lparr>us_id = 7, us_username = ''Ana'', us_email = ''ana@x'', us_password = None, us_roles = [], us_isActive = True,
     us_resetPasswordToken = None, us_resetPasswordExpires = None, us_party = None, us_emailCorporativo = None,
     us_emailCorporativoConfig = None, us_emailSync = None\<rparr>"

definition imap0 :: imap_config where
  "imap0 = \<lparr>im_host = ''h'', im_port = 993, im_user = ''u'', im_password = Some ''p'', im_tls = Some True\<rparr>"

definition bd_inbox0 :: bd_inbox where
  "bd_inbox0 = \<lparr>ahora = 0, prox_id = 1, usuarios = [usuario0], mensajes = []\<rparr>"

definition mail0 :: "string \<Rightarrow> correo_recibido" where
  "mail0 k = \<lparr>em_subject = Some ''Hola'', em_from = Some (None, Some ''b@y''), em_html = None, em_textAsHtml = None,
     em_text = Some ''texto'', em_messageId = Some k, em_date = Some 5, em_inReplyTo = None, em_references = []\<rparr>"

abbreviation sync0 :: "usuario \<Rightarrow> bd_inbox \<Rightarrow> (excepcion + conteo_sync) \<times> bd_inbox" where
  "sync0 u \<equiv> syncImap (\<lambda>t. Some 7) (\<lambda>i. ''7'') (\<lambda>t. t) (\<lambda>f. ''f'') (\<lambda>c f. Inr [mail0 ''m1'', mail0 ''m2'', mail0 ''m1'']) imap0 u"

lemma bd_inbox0_ok: "inbox_ok bd_inbox0"
  by (simp add: inbox_ok_def bd_inbox0_def List.map_filter_simps)



end
