(* ===== verification/PropertyFiles.thy ===== *)
theory PropertyFiles
  imports Store TextParsing
begin

text \<open>
  \<^verbatim>\<open>src/modules/properties/property-files.service.ts\<close> and
  \<^verbatim>\<open>src/modules/properties/services/storage.service.ts\<close>: the images, plans, documents and satellite image
  of a property, as entries of its document and as files on the disk. A file is its path below the
  directory of the program. The image library is a parameter (\<open>bib\<close>): whether it reads a file, with its
  format and size, and whether it writes each version; so are the random part of a name, the text of
  the clock and the id that a text denotes. Directories are created as needed and are not modelled.
\<close>

section \<open>The sheet of a property\<close>

record versiones_img =
  ve_thumb :: string
  ve_slider :: string
  ve_original :: string

record imagen =
  im_nombre :: string
  im_url :: string
  im_orden :: int
  es_portada :: bool
  im_versiones :: versiones_img

record plano =
  pl_nombre :: string
  pl_url :: string
  pl_descripcion :: string

record imagen_sat =
  is_nombre :: string
  is_url :: string
  is_ancho :: nat
  is_alto :: nat
  pixels_por_metro :: rat

record documento_digital =
  dd_nombre :: string
  dd_url :: string

record direccion_ficha =
  df_calle :: "string option"
  df_numero :: "string option"
  df_provincia :: "oid option"
  df_localidad :: "oid option"
  df_latitud :: "rat option"
  df_longitud :: "rat option"

record caracteristicas =
  ca_tipo :: "string option"
  ca_dormitorios :: "rat option"
  ca_banos :: "rat option"
  ca_ambientes :: "rat option"
  ca_metraje_total :: "rat option"
  ca_metraje_cubierto :: "rat option"

record precio_detallado =
  pd_monto :: monto
  pd_moneda :: string
  pd_es_publico :: bool
  pd_descripcion :: string

record ficha =
  fi_id :: oid
  fi_identificador :: string
  fi_titulo :: "string option"
  fi_descripcion :: "string option"
  fi_direccion :: "direccion_ficha option"
  fi_caracteristicas :: "caracteristicas option"
  img_cover_url :: "string option"
  valor_venta :: "monto option"
  valor_alquiler :: "monto option"
  valor_venta_detallado :: "precio_detallado option"
  valor_alquiler_detallado :: "precio_detallado option"
  publicar_para_venta :: bool
  publicar_para_alquiler :: bool
  fi_status :: string
  documentos_digitales :: "documento_digital list"
  imagenes :: "imagen list"
  planos :: "plano list"
  imagen_satelital :: "imagen_sat option"
  fi_modificacion :: "oid option"

record bd_fichas = mundo +
  fichas :: "ficha list"
  disco :: "string list"

definition con_fichas :: "(ficha list \<Rightarrow> ficha list) \<Rightarrow> 'a bd_fichas_scheme \<Rightarrow> 'a bd_fichas_scheme" where
  "con_fichas f s = s\<lparr>fichas := f (fichas s)\<rparr>"

definition con_disco :: "(string list \<Rightarrow> string list) \<Rightarrow> 'a bd_fichas_scheme \<Rightarrow> 'a bd_fichas_scheme" where
  "con_disco f s = s\<lparr>disco := f (disco s)\<rparr>"

interpretation fchs: coleccion fi_id fichas con_fichas
  by unfold_locales (simp add: con_fichas_def)

section \<open>The storage\<close>

datatype tipo_imagen = T_imagenes | T_planos | T_satellite

record 'f biblioteca =
  bi_meta :: "'f \<Rightarrow> (string \<times> nat \<times> nat) option"
  bi_graba :: "'f \<Rightarrow> string \<Rightarrow> bool"
  bi_originalname :: "'f \<Rightarrow> string"
  bi_uuid :: "oid \<Rightarrow> string"
  bi_reloj :: "fecha \<Rightarrow> string"
  bi_oid :: "string \<Rightarrow> oid option"

record imagen_guardada =
  ig_nombre :: string
  ig_versiones :: versiones_img
  ig_dimensiones :: "(nat \<times> nat) option"

definition carpeta :: "tipo_imagen \<Rightarrow> string" where
  "carpeta t = (case t of T_imagenes \<Rightarrow> ''images'' | T_planos \<Rightarrow> ''planos'' | T_satellite \<Rightarrow> ''satellite'')"

definition ruta :: "string \<Rightarrow> tipo_imagen \<Rightarrow> string \<Rightarrow> string \<Rightarrow> string" where
  "ruta pid t v nombre = ''/uploads/properties/'' @ pid @ ''/'' @ carpeta t @ ''/'' @ v @ ''/'' @ nombre"

definition ruta_documento :: "string \<Rightarrow> string \<Rightarrow> string" where
  "ruta_documento pid nombre = ''/uploads/properties/'' @ pid @ ''/documentos/'' @ nombre"

text \<open>\<^verbatim>\<open>toFile\<close>: the path written, or the exception that the caller turns into a bad request.\<close>

definition a_archivo :: "'f biblioteca \<Rightarrow> 'f \<Rightarrow> string \<Rightarrow> string \<Rightarrow> ('a bd_fichas_scheme, unit) proc" where
  "a_archivo bib f v p =
     (if bi_graba bib f v then modify (con_disco (List.insert p))
      else raise (BadRequestException ''Error procesando imagen'' []))"

definition processAndSaveImage ::
  "'f biblioteca \<Rightarrow> 'f \<Rightarrow> string \<Rightarrow> tipo_imagen \<Rightarrow> ('a bd_fichas_scheme, imagen_guardada) proc" where
  "processAndSaveImage bib f pid t =
     ebind nuevo_id (\<lambda>u.
     ebind (gets ahora) (\<lambda>now.
     case bi_meta bib f of
       None \<Rightarrow> raise (BadRequestException ''Error procesando imagen'' [])
     | Some (formato, ancho, alto) \<Rightarrow>
         let nombre = bi_uuid bib u @ ''-'' @ bi_reloj bib now @ ''.'' @ formato in
         ebind (a_archivo bib f ''original'' (ruta pid t ''original'' nombre)) (\<lambda>_.
         if t = T_satellite
         then ret \<lparr>ig_nombre = nombre,
                   ig_versiones = \<lparr>ve_thumb = [], ve_slider = [], ve_original = ruta pid t ''original'' nombre\<rparr>,
                   ig_dimensiones = Some (ancho, alto)\<rparr>
         else ebind (a_archivo bib f ''thumb'' (ruta pid t ''thumb'' nombre)) (\<lambda>_.
              ebind (a_archivo bib f ''slider'' (ruta pid t ''slider'' nombre)) (\<lambda>_.
              ret \<lparr>ig_nombre = nombre,
                   ig_versiones = \<lparr>ve_thumb = ruta pid t ''thumb'' nombre, ve_slider = ruta pid t ''slider'' nombre,
                                   ve_original = ruta pid t ''original'' nombre\<rparr>,
                   ig_dimensiones = None\<rparr>)))))"

text \<open>A file that is not there is ignored.\<close>

definition st_deleteImage :: "string \<Rightarrow> string \<Rightarrow> tipo_imagen \<Rightarrow> ('a bd_fichas_scheme, unit) proc" where
  "st_deleteImage pid nombre t =
     ebind (for_each (\<lambda>v. modify (con_disco (removeAll (ruta pid t v nombre)))) [''original'', ''thumb'', ''slider'']) (\<lambda>_.
     ret ())"

definition saveDocument :: "'f biblioteca \<Rightarrow> 'f \<Rightarrow> string \<Rightarrow> ('a bd_fichas_scheme, documento_digital) proc" where
  "saveDocument bib f pid =
     ebind nuevo_id (\<lambda>u.
     ebind (gets ahora) (\<lambda>now.
     let p = ruta_documento pid (bi_uuid bib u @ ''-'' @ bi_reloj bib now @ ''-'' @ bi_originalname bib f) in
     if bi_graba bib f ''documento''
     then ebind (modify (con_disco (List.insert p))) (\<lambda>_. ret \<lparr>dd_nombre = bi_originalname bib f, dd_url = p\<rparr>)
     else raise (BadRequestException ''Error guardando documento'' [])))"

definition st_deleteDocument :: "string \<Rightarrow> string \<Rightarrow> ('a bd_fichas_scheme, unit) proc" where
  "st_deleteDocument pid nombre =
     ebind (gets disco) (\<lambda>d.
     if ruta_documento pid nombre \<in> set d then modify (con_disco (removeAll (ruta_documento pid nombre)))
     else raise (BadRequestException ''Error eliminando documento'' []))"

section \<open>The service\<close>

definition cargar_ficha :: "'f biblioteca \<Rightarrow> string \<Rightarrow> ('a bd_fichas_scheme, ficha) proc" where
  "cargar_ficha bib pid =
     ebind (cast_id (bi_oid bib) pid) (\<lambda>i.
     obtener fi_id fichas i (NotFoundException ''Propiedad con ID {} no encontrada'' [AStr pid]))"

text \<open>\<^verbatim>\<open>findByIdAndUpdate\<close> of the fields that \<open>f\<close> sets, with the user; the result is the document as stored.\<close>

definition guardar_ficha :: "(ficha \<Rightarrow> ficha) \<Rightarrow> oid \<Rightarrow> oid \<Rightarrow> ('a bd_fichas_scheme, ficha option) proc" where
  "guardar_ficha f i userId =
     ebind (modify (con_fichas (update_one (\<lambda>d. fi_id d = i) (\<lambda>d. (f d)\<lparr>fi_modificacion := Some userId\<rparr>)))) (\<lambda>_.
     gets (\<lambda>s. find_id fi_id i (fichas s)))"

definition subir_imagen ::
  "'f biblioteca \<Rightarrow> string \<Rightarrow> int \<Rightarrow> nat \<times> 'f \<Rightarrow> imagen list \<Rightarrow> ('a bd_fichas_scheme, imagen list) proc" where
  "subir_imagen bib pid maximo = (\<lambda>(i, f) imgs.
     ebind (processAndSaveImage bib f pid T_imagenes) (\<lambda>r.
     ret (imgs @ [\<lparr>im_nombre = ig_nombre r, im_url = ve_original (ig_versiones r), im_orden = maximo + int i + 1,
                   es_portada = (imgs = [] \<and> i = 0), im_versiones = ig_versiones r\<rparr>])))"

definition max_orden :: "imagen list \<Rightarrow> int" where
  "max_orden imgs = (if imgs = [] then 0 else Max (set (map im_orden imgs)))"

definition uploadImages ::
  "'f biblioteca \<Rightarrow> string \<Rightarrow> 'f list \<Rightarrow> oid \<Rightarrow> ('a bd_fichas_scheme, ficha option) proc" where
  "uploadImages bib pid files userId =
     ebind (cargar_ficha bib pid) (\<lambda>p.
     ebind (fold_each (subir_imagen bib pid (max_orden (imagenes p))) (List.enumerate 0 files) (imagenes p)) (\<lambda>imgs.
     guardar_ficha (\<lambda>d. d\<lparr>imagenes := imgs\<rparr>) (fi_id p) userId))"

definition quitar_en :: "nat \<Rightarrow> 'b list \<Rightarrow> 'b list" where
  "quitar_en k xs = take k xs @ drop (Suc k) xs"

fun indice :: "('b \<Rightarrow> bool) \<Rightarrow> 'b list \<Rightarrow> nat option" where
  "indice P [] = None"
| "indice P (x # xs) = (if P x then Some 0 else map_option Suc (indice P xs))"

definition pf_deleteImage ::
  "'f biblioteca \<Rightarrow> string \<Rightarrow> string \<Rightarrow> oid \<Rightarrow> ('a bd_fichas_scheme, ficha option) proc" where
  "pf_deleteImage bib pid fileName userId =
     ebind (cargar_ficha bib pid) (\<lambda>p.
     case indice (\<lambda>m. im_nombre m = fileName) (imagenes p) of
       None \<Rightarrow> raise (NotFoundException ''Imagen {} no encontrada'' [AStr fileName])
     | Some k \<Rightarrow>
         ebind (st_deleteImage pid fileName T_imagenes) (\<lambda>_.
         guardar_ficha (\<lambda>d. d\<lparr>imagenes := quitar_en k (imagenes p)\<rparr>) (fi_id p) userId))"

definition reordenadas :: "imagen list \<Rightarrow> string list \<Rightarrow> imagen list" where
  "reordenadas imgs orden =
     List.map_filter (\<lambda>(k, n). map_option (\<lambda>m. m\<lparr>im_orden := int k + 1\<rparr>) (find (\<lambda>m. im_nombre m = n) imgs))
       (List.enumerate 0 orden)"

definition reorderImages ::
  "'f biblioteca \<Rightarrow> string \<Rightarrow> string list \<Rightarrow> oid \<Rightarrow> ('a bd_fichas_scheme, ficha option) proc" where
  "reorderImages bib pid orden userId =
     ebind (cargar_ficha bib pid) (\<lambda>p.
     guardar_ficha (\<lambda>d. d\<lparr>imagenes := reordenadas (imagenes p) orden\<rparr>) (fi_id p) userId)"

definition setImageAsPortada ::
  "'f biblioteca \<Rightarrow> string \<Rightarrow> string \<Rightarrow> oid \<Rightarrow> ('a bd_fichas_scheme, ficha option) proc" where
  "setImageAsPortada bib pid fileName userId =
     ebind (cargar_ficha bib pid) (\<lambda>p.
     if \<not> (\<exists>m \<in> set (imagenes p). im_nombre m = fileName)
     then raise (NotFoundException ''Imagen {} no encontrada'' [AStr fileName])
     else guardar_ficha (\<lambda>d. d\<lparr>imagenes := map (\<lambda>m. m\<lparr>es_portada := (im_nombre m = fileName)\<rparr>) (imagenes p)\<rparr>) (fi_id p) userId)"

definition subir_plano ::
  "'f biblioteca \<Rightarrow> string \<Rightarrow> string list \<Rightarrow> nat \<times> 'f \<Rightarrow> plano list \<Rightarrow> ('a bd_fichas_scheme, plano list) proc" where
  "subir_plano bib pid descs = (\<lambda>(i, f) ps.
     ebind (processAndSaveImage bib f pid T_planos) (\<lambda>r.
     ret (ps @ [\<lparr>pl_nombre = ig_nombre r, pl_url = ve_original (ig_versiones r),
                 pl_descripcion = (if i < length descs then descs ! i else [])\<rparr>])))"

definition uploadPlanos ::
  "'f biblioteca \<Rightarrow> string \<Rightarrow> 'f list \<Rightarrow> string list \<Rightarrow> oid \<Rightarrow> ('a bd_fichas_scheme, ficha option) proc" where
  "uploadPlanos bib pid files descs userId =
     ebind (cargar_ficha bib pid) (\<lambda>p.
     ebind (fold_each (subir_plano bib pid descs) (List.enumerate 0 files) (planos p)) (\<lambda>ps.
     guardar_ficha (\<lambda>d. d\<lparr>planos := ps\<rparr>) (fi_id p) userId))"

definition deletePlano ::
  "'f biblioteca \<Rightarrow> string \<Rightarrow> string \<Rightarrow> oid \<Rightarrow> ('a bd_fichas_scheme, ficha option) proc" where
  "deletePlano bib pid fileName userId =
     ebind (cargar_ficha bib pid) (\<lambda>p.
     case indice (\<lambda>m. pl_nombre m = fileName) (planos p) of
       None \<Rightarrow> raise (NotFoundException ''Plano {} no encontrado'' [AStr fileName])
     | Some k \<Rightarrow>
         ebind (st_deleteImage pid fileName T_planos) (\<lambda>_.
         guardar_ficha (\<lambda>d. d\<lparr>planos := quitar_en k (planos p)\<rparr>) (fi_id p) userId))"

definition uploadDocuments ::
  "'f biblioteca \<Rightarrow> string \<Rightarrow> 'f list \<Rightarrow> oid \<Rightarrow> ('a bd_fichas_scheme, ficha option) proc" where
  "uploadDocuments bib pid files userId =
     ebind (cargar_ficha bib pid) (\<lambda>p.
     ebind (for_each (\<lambda>f. saveDocument bib f pid) files) (\<lambda>ds.
     guardar_ficha (\<lambda>d. d\<lparr>documentos_digitales := documentos_digitales p @ ds\<rparr>) (fi_id p) userId))"

definition deleteDocument ::
  "'f biblioteca \<Rightarrow> string \<Rightarrow> string \<Rightarrow> oid \<Rightarrow> ('a bd_fichas_scheme, ficha option) proc" where
  "deleteDocument bib pid fileName userId =
     ebind (cargar_ficha bib pid) (\<lambda>p.
     case indice (\<lambda>d. incluye fileName (dd_url d)) (documentos_digitales p) of
       None \<Rightarrow> raise (NotFoundException ''Documento {} no encontrado'' [AStr fileName])
     | Some k \<Rightarrow>
         ebind (st_deleteDocument pid fileName) (\<lambda>_.
         guardar_ficha (\<lambda>d. d\<lparr>documentos_digitales := quitar_en k (documentos_digitales p)\<rparr>) (fi_id p) userId))"

definition uploadSatelliteImage ::
  "'f biblioteca \<Rightarrow> string \<Rightarrow> 'f \<Rightarrow> oid \<Rightarrow> ('a bd_fichas_scheme, ficha option) proc" where
  "uploadSatelliteImage bib pid f userId =
     ebind (cargar_ficha bib pid) (\<lambda>p.
     ebind (case imagen_satelital p of None \<Rightarrow> ret () | Some m \<Rightarrow> st_deleteImage pid (is_nombre m) T_satellite) (\<lambda>_.
     ebind (processAndSaveImage bib f pid T_satellite) (\<lambda>r.
     guardar_ficha (\<lambda>d. d\<lparr>imagen_satelital := Some
         \<lparr>is_nombre = ig_nombre r, is_url = ve_original (ig_versiones r), is_ancho = fst (the (ig_dimensiones r)),
          is_alto = snd (the (ig_dimensiones r)), pixels_por_metro = 0\<rparr>\<rparr>) (fi_id p) userId)))"

definition calibrateSatelliteImage ::
  "'f biblioteca \<Rightarrow> string \<Rightarrow> rat \<Rightarrow> oid \<Rightarrow> ('a bd_fichas_scheme, ficha option) proc" where
  "calibrateSatelliteImage bib pid pixels userId =
     ebind (cargar_ficha bib pid) (\<lambda>p.
     case imagen_satelital p of
       None \<Rightarrow> raise (BadRequestException ''No existe imagen satelital para calibrar'' [])
     | Some m \<Rightarrow> guardar_ficha (\<lambda>d. d\<lparr>imagen_satelital := Some (m\<lparr>pixels_por_metro := pixels\<rparr>)\<rparr>) (fi_id p) userId)"

end
