(* ===== verification/PropertyFilesProperties.thy ===== *)
theory PropertyFilesProperties
  imports PropertyFiles
begin

text \<open>
  The files of the properties: what every run of the requests keeps between the documents and the
  disk, and the requests that break it.
\<close>

section \<open>Paths\<close>

definition sin_barra :: "string \<Rightarrow> bool" where
  "sin_barra n \<longleftrightarrow> CHR ''/'' \<notin> set n"

lemma ultimo_segmento:
  assumes "a @ CHR ''/'' # n = b @ CHR ''/'' # m" and "sin_barra n" and "sin_barra m"
  shows "n = m"
proof -
  have t: "takeWhile (\<lambda>c. c \<noteq> CHR ''/'') (rev (x @ CHR ''/'' # k)) = rev k" if "sin_barra k" for x k
    using that by (auto simp: sin_barra_def takeWhile_append)
  from t [OF assms(2), of a] t [OF assms(3), of b] assms(1) show ?thesis by simp
qed

lemma ruta_nombre: "ruta p t v n = ruta q t' v' m \<Longrightarrow> sin_barra n \<Longrightarrow> sin_barra m \<Longrightarrow> n = m"
  using ultimo_segmento [of "''/uploads/properties/'' @ p @ ''/'' @ carpeta t @ ''/'' @ v" n
      "''/uploads/properties/'' @ q @ ''/'' @ carpeta t' @ ''/'' @ v'" m]
  by (simp add: ruta_def)

section \<open>The invariant\<close>

text \<open>What is asked of the parameters: no two draws begin the same text (they have one length), and neither
  a draw, a format, the clock nor the text of an id has a slash.\<close>

definition biblioteca_ok :: "'f biblioteca \<Rightarrow> bool" where
  "biblioteca_ok bib \<longleftrightarrow> (\<forall>u v x y. bi_uuid bib u @ x = bi_uuid bib v @ y \<longrightarrow> u = v) \<and> (\<forall>u. sin_barra (bi_uuid bib u)) \<and>
     (\<forall>t. sin_barra (bi_reloj bib t)) \<and> (\<forall>t i. bi_oid bib t = Some i \<longrightarrow> sin_barra t) \<and> (\<forall>f x. bi_meta bib f = Some x \<longrightarrow> sin_barra (fst x))"

text \<open>A name that the program made, of the draws from \<open>k\<close> and before \<open>n\<close>.\<close>

definition nombre_entre :: "'f biblioteca \<Rightarrow> nat \<Rightarrow> nat \<Rightarrow> string \<Rightarrow> bool" where
  "nombre_entre bib k n w \<longleftrightarrow> sin_barra w \<and> (\<exists>u x. k \<le> u \<and> u < n \<and> w = bi_uuid bib u @ x)"

abbreviation nombre_ok :: "'f biblioteca \<Rightarrow> nat \<Rightarrow> string \<Rightarrow> bool" where
  "nombre_ok bib \<equiv> nombre_entre bib 0"

definition nombres :: "ficha \<Rightarrow> string list" where
  "nombres d = map im_nombre (imagenes d) @ map pl_nombre (planos d) @
     (case imagen_satelital d of None \<Rightarrow> [] | Some m \<Rightarrow> [is_nombre m])"

definition de_lista :: "ficha \<Rightarrow> string set" where
  "de_lista d = im_nombre ` set (imagenes d) \<union> pl_nombre ` set (planos d)"

definition imagen_en :: "string list \<Rightarrow> imagen \<Rightarrow> bool" where
  "imagen_en D m \<longleftrightarrow> (\<exists>p. sin_barra p \<and> im_versiones m = \<lparr>ve_thumb = ruta p T_imagenes ''thumb'' (im_nombre m),
        ve_slider = ruta p T_imagenes ''slider'' (im_nombre m), ve_original = ruta p T_imagenes ''original'' (im_nombre m)\<rparr> \<and>
      im_url m = ruta p T_imagenes ''original'' (im_nombre m) \<and>
      {ve_thumb (im_versiones m), ve_slider (im_versiones m), ve_original (im_versiones m)} \<subseteq> set D)"

definition plano_en :: "string list \<Rightarrow> plano \<Rightarrow> bool" where
  "plano_en D m \<longleftrightarrow> (\<exists>p. sin_barra p \<and> pl_url m = ruta p T_planos ''original'' (pl_nombre m) \<and> pl_url m \<in> set D)"

definition ficha_ok :: "'f biblioteca \<Rightarrow> nat \<Rightarrow> string list \<Rightarrow> ficha \<Rightarrow> bool" where
  "ficha_ok bib n D d \<longleftrightarrow> distinct (nombres d) \<and> list_all (nombre_ok bib n) (nombres d) \<and>
     distinct (map im_orden (imagenes d)) \<and> (\<forall>m \<in> set (imagenes d). 1 \<le> im_orden m) \<and>
     length (filter es_portada (imagenes d)) \<le> 1 \<and>
     list_all (imagen_en D) (imagenes d) \<and> list_all (plano_en D) (planos d)"

definition archivos_ok :: "'f biblioteca \<Rightarrow> 'a bd_fichas_scheme \<Rightarrow> bool" where
  "archivos_ok bib s \<longleftrightarrow> distinct (map fi_id (fichas s)) \<and> list_all (ficha_ok bib (prox_id s) (disco s)) (fichas s) \<and>
     (\<forall>d \<in> set (fichas s). \<forall>e \<in> set (fichas s). fi_id d \<noteq> fi_id e \<longrightarrow> set (nombres d) \<inter> set (nombres e) = {})"

lemma campos_fichas [simp]:
  "fichas (con_fichas f s) = f (fichas s)" "disco (con_fichas f s) = disco s" "prox_id (con_fichas f s) = prox_id s"
  "fichas (con_disco g s) = fichas s" "disco (con_disco g s) = g (disco s)" "prox_id (con_disco g s) = prox_id s"
  "ahora (con_fichas f s) = ahora s" "ahora (con_disco g s) = ahora s"
  by (simp_all add: con_fichas_def con_disco_def)

lemma nombre_entre_mono:
  assumes "nombre_entre bib k n w" and "j \<le> k" and "n \<le> m"
  shows "nombre_entre bib j m w"
proof -
  from assms(1) obtain u x where u: "sin_barra w" "k \<le> u" "u < n" "w = bi_uuid bib u @ x"
    by (auto simp: nombre_entre_def)
  with assms(2,3) have "j \<le> u" "u < m" by simp_all
  with u(1,4) show ?thesis unfolding nombre_entre_def by blast
qed

lemma nombre_entre_otro:
  "biblioteca_ok bib \<Longrightarrow> nombre_entre bib j k v \<Longrightarrow> nombre_entre bib k n w \<Longrightarrow> v \<noteq> w"
  unfolding nombre_entre_def biblioteca_ok_def by (metis linorder_not_less)

text \<open>What a step of the storage may do: draw names and change the disk, keeping the files whose names
  are not among \<open>B\<close>.\<close>

definition disco_paso :: "string set \<Rightarrow> 'a bd_fichas_scheme \<Rightarrow> 'a bd_fichas_scheme \<Rightarrow> bool" where
  "disco_paso B s s' \<longleftrightarrow> fichas s' = fichas s \<and> prox_id s \<le> prox_id s' \<and>
     (\<forall>p t v w. ruta p t v w \<in> set (disco s) \<longrightarrow> sin_barra p \<longrightarrow> sin_barra w \<longrightarrow> w \<notin> B \<longrightarrow> ruta p t v w \<in> set (disco s'))"

lemma disco_paso_refl [simp]: "disco_paso B s s"
  by (simp add: disco_paso_def)

lemma disco_paso_trans: "disco_paso B s t \<Longrightarrow> disco_paso B t u \<Longrightarrow> disco_paso B s u"
  by (auto simp: disco_paso_def)

lemma disco_paso_mono: "disco_paso A s t \<Longrightarrow> A \<subseteq> B \<Longrightarrow> disco_paso B s t"
  unfolding disco_paso_def by blast

lemma imagen_en_paso: "disco_paso B s s' \<Longrightarrow> imagen_en (disco s) m \<Longrightarrow> sin_barra (im_nombre m) \<Longrightarrow>
   im_nombre m \<notin> B \<Longrightarrow> imagen_en (disco s') m"
  unfolding imagen_en_def disco_paso_def by fastforce

lemma plano_en_paso: "disco_paso B s s' \<Longrightarrow> plano_en (disco s) m \<Longrightarrow> sin_barra (pl_nombre m) \<Longrightarrow>
   pl_nombre m \<notin> B \<Longrightarrow> plano_en (disco s') m"
  unfolding plano_en_def disco_paso_def by (metis)

lemma ficha_ok_paso:
  assumes "disco_paso B s s'" and "ficha_ok bib (prox_id s) (disco s) d" and "de_lista d \<inter> B = {}"
  shows "ficha_ok bib (prox_id s') (disco s') d"
proof -
  have n: "nombre_ok bib (prox_id s) w" if "w \<in> set (nombres d)" for w
    using that assms(2) by (auto simp: ficha_ok_def list_all_iff)
  have i: "imagen_en (disco s') m" if "m \<in> set (imagenes d)" for m
    using that assms n [of "im_nombre m"]
    by (intro imagen_en_paso [OF assms(1)]) (auto simp: ficha_ok_def list_all_iff nombres_def nombre_entre_def de_lista_def)
  have p: "plano_en (disco s') m" if "m \<in> set (planos d)" for m
    using that assms n [of "pl_nombre m"]
    by (intro plano_en_paso [OF assms(1)]) (auto simp: ficha_ok_def list_all_iff nombres_def nombre_entre_def de_lista_def)
  have "prox_id s \<le> prox_id s'" using assms(1) by (simp add: disco_paso_def)
  then show ?thesis using assms(2) i p by (auto simp: ficha_ok_def list_all_iff intro: nombre_entre_mono)
qed

lemma archivos_ok_paso:
  assumes "disco_paso B s s'" and "archivos_ok bib s" and "\<And>d. d \<in> set (fichas s) \<Longrightarrow> de_lista d \<inter> B = {}"
  shows "archivos_ok bib s'"
proof -
  have fs: "fichas s' = fichas s" using assms(1) by (simp add: disco_paso_def)
  have "ficha_ok bib (prox_id s') (disco s') d" if "d \<in> set (fichas s)" for d
    by (rule ficha_ok_paso [OF assms(1)]) (use assms(2,3) that in \<open>simp_all add: archivos_ok_def list_all_iff\<close>)
  with assms(2) fs show ?thesis by (auto simp: archivos_ok_def list_all_iff)
qed

text \<open>The update of one sheet.\<close>

lemma update_one_clave:
  "distinct (map k ds) \<Longrightarrow> update_one (\<lambda>d. k d = i) f ds = map (\<lambda>d. if k d = i then f d else d) ds"
proof (induction ds)
  case (Cons d ds)
  have "map (\<lambda>e. if k e = k d then f e else e) ds = ds" if "k d \<notin> k ` set ds"
    using that by (intro map_idI) (metis imageI)
  with Cons show ?case by auto
qed simp

lemma archivos_ok_guardar:
  assumes ok: "archivos_ok bib s" and paso: "disco_paso B s s'" and p: "p \<in> set (fichas s)"
    and f: "\<And>d. fi_id (f d) = fi_id d" "ficha_ok bib (prox_id s') (disco s') (f p)"
    and B: "\<And>e w. e \<in> set (fichas s) \<Longrightarrow> fi_id e \<noteq> fi_id p \<Longrightarrow> w \<in> set (nombres e) \<Longrightarrow> w \<notin> B \<and> w \<notin> set (nombres (f p))"
  shows "archivos_ok bib (con_fichas (update_one (\<lambda>d. fi_id d = fi_id p) f) s')"
proof -
  let ?f = "\<lambda>d. if fi_id d = fi_id p then f d else d"
  have dis: "distinct (map fi_id (fichas s))" and fs: "fichas s' = fichas s"
    using ok paso by (simp_all add: archivos_ok_def disco_paso_def)
  have u: "d = p" if "d \<in> set (fichas s)" "fi_id d = fi_id p" for d
    using clave_unica [OF dis that(1) p that(2)] .
  have m: "map fi_id (map ?f (fichas s)) = map fi_id (fichas s)" using f(1) by simp
  have o: "ficha_ok bib (prox_id s') (disco s') (?f d)" if d: "d \<in> set (fichas s)" for d
  proof (cases "fi_id d = fi_id p")
    case True
    with f(2) u [OF d] show ?thesis by simp
  next
    case False
    have "de_lista d \<inter> B = {}" using B [OF d False] by (auto simp: de_lista_def nombres_def)
    with False ficha_ok_paso [OF paso] ok d show ?thesis by (auto simp: archivos_ok_def list_all_iff)
  qed
  have j: "set (nombres (?f d)) \<inter> set (nombres (?f e)) = {}"
    if "d \<in> set (fichas s)" "e \<in> set (fichas s)" "fi_id d \<noteq> fi_id e" for d e
    using that ok B [OF that(1)] B [OF that(2)] u [OF that(1)] u [OF that(2)]
    unfolding archivos_ok_def by (cases "fi_id d = fi_id p"; cases "fi_id e = fi_id p") auto
  have dm: "distinct (map fi_id (map ?f (fichas s)))" by (simp only: m dis)
  have "fi_id (?f d) = fi_id d" for d using f(1) by simp
  then have "\<forall>d \<in> set (map ?f (fichas s)). \<forall>e \<in> set (map ?f (fichas s)).
      fi_id d \<noteq> fi_id e \<longrightarrow> set (nombres d) \<inter> set (nombres e) = {}"
    using j by (simp only: set_map ball_simps) blast
  moreover have "list_all (ficha_ok bib (prox_id s') (disco s')) (map ?f (fichas s))"
    unfolding list_all_iff set_map using o by blast
  ultimately show ?thesis
    unfolding archivos_ok_def campos_fichas fs update_one_clave [OF dis] using dm by (intro conjI)
qed

section \<open>The storage\<close>

lemma disco_paso_nuevo [simp]: "disco_paso B s (s\<lparr>prox_id := Suc (prox_id s)\<rparr>)"
  by (simp add: disco_paso_def)

lemma disco_paso_insert [simp]: "disco_paso B s (con_disco (List.insert x) s)"
  by (simp add: disco_paso_def)

lemma a_archivo_paso: "a_archivo bib f v x s = (r, s') \<Longrightarrow> disco_paso B s s'"
  by (auto simp: a_archivo_def proc_simps split: if_splits)

lemma a_archivo_Inr: "a_archivo bib f v x s = (Inr y, s') \<Longrightarrow> s' = con_disco (List.insert x) s"
  by (auto simp: a_archivo_def proc_simps split: if_splits)

definition avanza :: "string set \<Rightarrow> ('a bd_fichas_scheme, 'b) proc \<Rightarrow> bool" where
  "avanza B m \<longleftrightarrow> (\<forall>s. disco_paso B s (snd (m s)))"

lemma avanzaD: "avanza B m \<Longrightarrow> m s = (r, s') \<Longrightarrow> disco_paso B s s'"
  unfolding avanza_def by (metis snd_conv)

lemma avanza_ebind [intro]:
  assumes "avanza B m" and "\<And>x. avanza B (k x)"
  shows "avanza B (ebind m k)"
  unfolding avanza_def
proof
  fix s
  obtain r s1 where m: "m s = (r, s1)" by (cases "m s")
  then have p: "disco_paso B s s1" using avanzaD [OF assms(1)] by blast
  show "disco_paso B s (snd (ebind m k s))"
  proof (cases r)
    case (Inr x)
    with m have "ebind m k s = k x s1" by (simp add: ebind_def)
    with assms(2) [of x] p show ?thesis by (auto simp: avanza_def intro: disco_paso_trans)
  qed (use m p in \<open>simp add: ebind_def\<close>)
qed

lemma avanza_basico [intro]:
  "avanza B (ret y)" "avanza B (raise e)" "avanza B (gets f)" "avanza B nuevo_id"
  "avanza B (modify (con_disco (List.insert x)))"
  by (simp_all add: avanza_def proc_simps)

lemma avanza_casos [intro]:
  "avanza B m \<Longrightarrow> avanza B n \<Longrightarrow> avanza B (if b then m else n)"
  "avanza B m \<Longrightarrow> (\<And>y. avanza B (k y)) \<Longrightarrow> avanza B (case z of None \<Rightarrow> m | Some y \<Rightarrow> k y)"
  "(\<And>u v. avanza B (h u v)) \<Longrightarrow> avanza B (case w of (u, v) \<Rightarrow> h u v)"
  by (auto split: option.split prod.split)

lemma avanza_for_each [intro]: "(\<And>x. avanza B (m x)) \<Longrightarrow> avanza B (for_each m xs)"
  by (induction xs) auto

lemma avanza_fold_each [intro]: "(\<And>x l. avanza B (m x l)) \<Longrightarrow> avanza B (fold_each m xs l)"
  by (induction xs arbitrary: l) auto

lemma avanza_procesar [intro]: "avanza B (processAndSaveImage bib f pid t)"
  unfolding processAndSaveImage_def a_archivo_def Let_def
  by (intro avanza_ebind avanza_basico avanza_casos)

lemma avanza_documento [intro]: "avanza B (saveDocument bib f pid)"
  unfolding saveDocument_def Let_def by (intro avanza_ebind avanza_basico avanza_casos)

lemma avanza_borrar: "sin_barra n \<Longrightarrow> avanza {n} (st_deleteImage pid n t)"
  by (auto simp: avanza_def st_deleteImage_def ebind_def proc_simps disco_paso_def dest: ruta_nombre)

text \<open>A processed image has a fresh name and its files.\<close>

lemma procesar_Inr:
  assumes "processAndSaveImage bib f pid t s = (Inr r, s')"
  shows "\<exists>fmt. ig_nombre r = bi_uuid bib (prox_id s) @ ''-'' @ bi_reloj bib (ahora s) @ ''.'' @ fmt \<and>
     (\<exists>x. bi_meta bib f = Some (fmt, x)) \<and> prox_id s' = Suc (prox_id s) \<and>
     ruta pid t ''original'' (ig_nombre r) \<in> set (disco s') \<and> ve_original (ig_versiones r) = ruta pid t ''original'' (ig_nombre r) \<and>
     (t \<noteq> T_satellite \<longrightarrow> ig_versiones r = \<lparr>ve_thumb = ruta pid t ''thumb'' (ig_nombre r),
        ve_slider = ruta pid t ''slider'' (ig_nombre r), ve_original = ruta pid t ''original'' (ig_nombre r)\<rparr> \<and>
        {ruta pid t ''thumb'' (ig_nombre r), ruta pid t ''slider'' (ig_nombre r)} \<subseteq> set (disco s'))"
  using assms unfolding processAndSaveImage_def
  by (auto simp: proc_simps Let_def a_archivo_def split: option.splits if_splits)

lemma procesar_nombre:
  assumes "biblioteca_ok bib" and "processAndSaveImage bib f pid t s = (Inr r, s')"
  shows "nombre_entre bib (prox_id s) (prox_id s') (ig_nombre r)"
proof -
  from procesar_Inr [OF assms(2)] obtain fmt x where n:
    "ig_nombre r = bi_uuid bib (prox_id s) @ ''-'' @ bi_reloj bib (ahora s) @ ''.'' @ fmt"
    "bi_meta bib f = Some (fmt, x)" "prox_id s' = Suc (prox_id s)" by auto
  have "sin_barra (bi_uuid bib (prox_id s))" "sin_barra (bi_reloj bib (ahora s))"
    using assms(1) by (simp_all add: biblioteca_ok_def)
  moreover have "sin_barra fmt"
    using assms(1) n(2) unfolding biblioteca_ok_def by (metis fst_conv)
  ultimately show ?thesis
    unfolding nombre_entre_def n(1,3) by (auto simp: sin_barra_def)
qed

section \<open>The images\<close>

definition nuevas_ok :: "'f biblioteca \<Rightarrow> nat \<Rightarrow> 'a bd_fichas_scheme \<Rightarrow> imagen list \<Rightarrow> bool" where
  "nuevas_ok bib k s ms \<longleftrightarrow> distinct (map im_nombre ms) \<and>
     list_all (\<lambda>m. nombre_entre bib k (prox_id s) (im_nombre m) \<and> imagen_en (disco s) m) ms"

lemma nuevas_ok_paso:
  assumes "disco_paso {} s s'" and "nuevas_ok bib k s ms"
  shows "nuevas_ok bib k s' ms"
proof -
  have "nombre_entre bib k (prox_id s') (im_nombre m) \<and> imagen_en (disco s') m" if "m \<in> set ms" for m
  proof -
    from that assms(2) have n: "nombre_entre bib k (prox_id s) (im_nombre m)" and i: "imagen_en (disco s) m"
      by (simp_all add: nuevas_ok_def list_all_iff)
    from n have "sin_barra (im_nombre m)" by (simp add: nombre_entre_def)
    with imagen_en_paso [OF assms(1) i] nombre_entre_mono [OF n] assms(1) show ?thesis by (simp add: disco_paso_def)
  qed
  with assms(2) show ?thesis by (simp add: nuevas_ok_def list_all_iff)
qed

lemma subir_imagen_Inr:
  assumes "biblioteca_ok bib" and "subir_imagen bib pid mx (i, f) imgs s = (Inr imgs', s')" and pid: "sin_barra pid"
  shows "\<exists>m. imgs' = imgs @ [m] \<and> nuevas_ok bib (prox_id s) s' [m] \<and> im_orden m = mx + int i + 1 \<and>
     es_portada m = (imgs = [] \<and> i = 0)"
proof -
  from assms(2) obtain r where r: "processAndSaveImage bib f pid T_imagenes s = (Inr r, s')"
    and i: "imgs' = imgs @ [\<lparr>im_nombre = ig_nombre r, im_url = ve_original (ig_versiones r), im_orden = mx + int i + 1,
                   es_portada = (imgs = [] \<and> i = 0), im_versiones = ig_versiones r\<rparr>]"
    by (auto simp: subir_imagen_def proc_simps)
  from procesar_nombre [OF assms(1) r] procesar_Inr [OF r] show ?thesis
    unfolding i using pid by (auto simp: nuevas_ok_def imagen_en_def)
qed

lemma avanza_subir [intro]: "avanza B (subir_imagen bib pid mx x imgs)"
  unfolding subir_imagen_def by (cases x) (auto intro: avanza_ebind)

lemma subir_imagenes_Inr:
  assumes "biblioteca_ok bib" and pid: "sin_barra pid"
  shows "fold_each (subir_imagen bib pid mx) (List.enumerate k files) imgs s = (Inr imgs', s') \<Longrightarrow>
    \<exists>ms. imgs' = imgs @ ms \<and> nuevas_ok bib (prox_id s) s' ms \<and>
      map im_orden ms = map (\<lambda>j. mx + int j + 1) [k..<k + length files] \<and>
      filter es_portada ms = (if imgs = [] \<and> k = 0 then take 1 ms else [])"
proof (induction files arbitrary: k imgs s)
  case Nil
  then show ?case by (auto simp: ret_run nuevas_ok_def)
next
  case (Cons f files)
  from Cons.prems obtain imgs1 s1 where
    a: "subir_imagen bib pid mx (k, f) imgs s = (Inr imgs1, s1)" and
    b: "fold_each (subir_imagen bib pid mx) (List.enumerate (Suc k) files) imgs1 s1 = (Inr imgs', s')"
    by (auto simp: proc_simps)
  obtain m where m: "imgs1 = imgs @ [m]" "nuevas_ok bib (prox_id s) s1 [m]" "im_orden m = mx + int k + 1"
    "es_portada m = (imgs = [] \<and> k = 0)" using subir_imagen_Inr [OF assms(1) a pid] by blast
  from Cons.IH [OF b] obtain ms where ms: "imgs' = imgs1 @ ms" "nuevas_ok bib (prox_id s1) s' ms"
    "map im_orden ms = map (\<lambda>j. mx + int j + 1) [Suc k..<Suc k + length files]" "filter es_portada ms = []"
    by (auto simp: m(1))
  have p: "disco_paso {} s s1" "disco_paso {} s1 s'"
    using avanzaD [OF avanza_subir a] avanzaD [OF avanza_fold_each [OF avanza_subir] b] by blast+
  have "nuevas_ok bib (prox_id s) s' [m]" using nuevas_ok_paso [OF p(2) m(2)] .
  moreover have "im_nombre m \<notin> im_nombre ` set ms"
    using m(2) ms(2) nombre_entre_otro [OF assms(1), of "prox_id s" "prox_id s1" "im_nombre m" "prox_id s'"]
    by (fastforce simp: nuevas_ok_def list_all_iff)
  moreover have "nombre_entre bib (prox_id s) (prox_id s') w" if "nombre_entre bib (prox_id s1) (prox_id s') w" for w
    using nombre_entre_mono [OF that] p(1) by (simp add: disco_paso_def)
  ultimately have "nuevas_ok bib (prox_id s) s' (m # ms)"
    using ms(2) by (auto simp: nuevas_ok_def list_all_iff)
  moreover have "[k..<k + length (f # files)] = k # [Suc k..<Suc k + length files]"
    by (subst upt_conv_Cons) simp_all
  then have "map im_orden (m # ms) = map (\<lambda>j. mx + int j + 1) [k..<k + length (f # files)]"
    using m(3) ms(3) by simp
  moreover have "filter es_portada (m # ms) = (if imgs = [] \<and> k = 0 then take 1 (m # ms) else [])"
    using m(4) ms(4) by simp
  ultimately show ?case
    using m(1) ms(1) by (intro exI [of _ "m # ms"]) simp
qed

lemma max_orden_cota: "m \<in> set imgs \<Longrightarrow> im_orden m \<le> max_orden imgs"
  by (auto simp: max_orden_def)

lemma max_orden_pos: "\<forall>m \<in> set imgs. 1 \<le> im_orden m \<Longrightarrow> 0 \<le> max_orden imgs"
  by (cases imgs) (auto simp: max_orden_def Max_ge_iff)

text \<open>The images of a sheet: what \<open>ficha_ok\<close> asks of them and of the rest.\<close>

definition resto :: "ficha \<Rightarrow> string list" where
  "resto d = map pl_nombre (planos d) @ (case imagen_satelital d of None \<Rightarrow> [] | Some m \<Rightarrow> [is_nombre m])"

lemma nombres_resto: "nombres d = map im_nombre (imagenes d) @ resto d"
  by (simp add: nombres_def resto_def)

lemma ficha_ok_subir:
  assumes bib: "biblioteca_ok bib" and ok: "ficha_ok bib n D d" and n: "n = prox_id s" and D: "D = disco s"
    and paso: "disco_paso {} s s'" and ms: "nuevas_ok bib (prox_id s) s' ms"
    and o: "map im_orden ms = map (\<lambda>j. max_orden (imagenes d) + int j + 1) [0..<length fs]"
    and pt: "filter es_portada ms = (if imagenes d = [] then take 1 ms else [])"
  shows "ficha_ok bib (prox_id s') (disco s') (d\<lparr>imagenes := imagenes d @ ms\<rparr>)"
proof -
  have d: "ficha_ok bib (prox_id s') (disco s') d"
    using ficha_ok_paso [OF paso, of bib d] ok n D by simp
  have nuevo: "w \<notin> im_nombre ` set ms" if "w \<in> set (nombres d)" for w
    using that ok ms nombre_entre_otro [OF bib, of 0 n w]
    by (auto simp: ficha_ok_def nuevas_ok_def list_all_iff n)
  have os: "distinct (map im_orden (imagenes d @ ms))"
  proof -
    have "set (map im_orden ms) \<subseteq> {max_orden (imagenes d) + 1..}" unfolding o by auto
    moreover have "distinct (map im_orden ms)" unfolding o by (simp add: distinct_map inj_on_def)
    ultimately show ?thesis using d max_orden_cota [of _ "imagenes d"] by (fastforce simp: ficha_ok_def)
  qed
  have m0: "0 \<le> max_orden (imagenes d)" using d by (intro max_orden_pos) (simp add: ficha_ok_def)
  have pos: "1 \<le> im_orden m" if "m \<in> set ms" for m
  proof -
    have "im_orden m \<in> set (map im_orden ms)" using that by simp
    then show ?thesis unfolding o using m0 by auto
  qed
  have "length (filter es_portada (imagenes d @ ms)) \<le> 1"
    using d pt by (cases "imagenes d = []") (auto simp: ficha_ok_def)
  moreover have "distinct (nombres (d\<lparr>imagenes := imagenes d @ ms\<rparr>))"
    using d ms nuevo by (auto simp: ficha_ok_def nuevas_ok_def nombres_def)
  moreover have "list_all (nombre_ok bib (prox_id s')) (nombres (d\<lparr>imagenes := imagenes d @ ms\<rparr>))"
    using d ms by (auto simp: ficha_ok_def nuevas_ok_def nombres_def list_all_iff intro: nombre_entre_mono)
  ultimately show ?thesis
    using d os pos ms by (auto simp: ficha_ok_def nuevas_ok_def list_all_iff)
qed

text \<open>A sheet with some of its images, in any order and with other marks.\<close>

lemma ficha_ok_menos:
  assumes ok: "ficha_ok bib n D d"
    and sub: "\<And>x. x \<in> set ms \<Longrightarrow> \<exists>m \<in> set (imagenes d). im_nombre x = im_nombre m \<and> im_url x = im_url m \<and> im_versiones x = im_versiones m"
    and o: "distinct (map im_nombre ms)" "distinct (map im_orden ms)" "\<And>m. m \<in> set ms \<Longrightarrow> 1 \<le> im_orden m"
      "length (filter es_portada ms) \<le> 1"
  shows "ficha_ok bib n D (d\<lparr>imagenes := ms\<rparr>)" "set (nombres (d\<lparr>imagenes := ms\<rparr>)) \<subseteq> set (nombres d)"
proof -
  have s: "im_nombre ` set ms \<subseteq> im_nombre ` set (imagenes d)" using sub by fastforce
  then show "set (nombres (d\<lparr>imagenes := ms\<rparr>)) \<subseteq> set (nombres d)" by (auto simp: nombres_def)
  have "distinct (nombres (d\<lparr>imagenes := ms\<rparr>))"
    using ok o(1) s by (fastforce simp: ficha_ok_def nombres_def)
  moreover have "list_all (nombre_ok bib n) (nombres (d\<lparr>imagenes := ms\<rparr>))"
    using ok s by (fastforce simp: ficha_ok_def nombres_def list_all_iff)
  moreover have "imagen_en D x" if x: "x \<in> set ms" for x
  proof -
    from sub [OF x] obtain m where "m \<in> set (imagenes d)" "im_nombre x = im_nombre m" "im_url x = im_url m"
      "im_versiones x = im_versiones m" by blast
    with ok show ?thesis by (auto simp: ficha_ok_def list_all_iff imagen_en_def)
  qed
  ultimately show "ficha_ok bib n D (d\<lparr>imagenes := ms\<rparr>)" using ok o by (auto simp: ficha_ok_def list_all_iff)
qed

lemma una_portada:
  "length (filter P xs) \<le> 1 \<Longrightarrow> x \<in> set xs \<Longrightarrow> y \<in> set xs \<Longrightarrow> P x \<Longrightarrow> P y \<Longrightarrow> x = y"
  by (induction xs) (auto simp: filter_empty_conv split: if_splits)

lemma a_lo_sumo_una:
  "distinct xs \<Longrightarrow> (\<And>x y. x \<in> set xs \<Longrightarrow> y \<in> set xs \<Longrightarrow> P x \<Longrightarrow> P y \<Longrightarrow> x = y) \<Longrightarrow> length (filter P xs) \<le> 1"
  by (induction xs) (auto simp: filter_empty_conv)

section \<open>The requests\<close>

lemma ficha_mod [simp]:
  "ficha_ok bib n D (d\<lparr>fi_modificacion := u\<rparr>) = ficha_ok bib n D d" "nombres (d\<lparr>fi_modificacion := u\<rparr>) = nombres d"
  by (simp_all add: ficha_ok_def nombres_def)

lemma cargar_ficha_Inr:
  "cargar_ficha bib pid s = (Inr p, s') \<Longrightarrow> s' = s \<and> p \<in> set (fichas s) \<and> bi_oid bib pid = Some (fi_id p)"
  by (auto simp: cargar_ficha_def proc_simps cast_id_run split: option.splits dest: find_id_in find_id_key)

lemma cargar_ficha_estado: "snd (cargar_ficha bib pid s) = s"
  by (auto simp: cargar_ficha_def ebind_def cast_id_run obtener_def split: option.split)

lemma preserves_cargar:
  fixes k :: "ficha \<Rightarrow> ('a bd_fichas_scheme, 'b) proc"
  assumes "biblioteca_ok bib"
    and "\<And>p s. sin_barra pid \<Longrightarrow> archivos_ok bib s \<Longrightarrow> p \<in> set (fichas s) \<Longrightarrow> archivos_ok bib (snd (k p s))"
  shows "preserves (archivos_ok bib) (ebind (cargar_ficha bib pid) k)"
  unfolding preserves_def
proof (intro allI impI)
  fix s :: "'a bd_fichas_scheme"
  assume ok: "archivos_ok bib s"
  obtain r s' where r: "cargar_ficha bib pid s = (r, s')" by (cases "cargar_ficha bib pid s")
  have s: "s' = s" using cargar_ficha_estado [of bib pid s] r by simp
  show "archivos_ok bib (snd (ebind (cargar_ficha bib pid) k s))"
  proof (cases r)
    case (Inr p)
    from cargar_ficha_Inr [OF r [unfolded Inr]] assms(1) have "p \<in> set (fichas s)" "sin_barra pid"
      unfolding biblioteca_ok_def by blast+
    with assms(2) ok r Inr s show ?thesis by (simp add: ebind_def)
  qed (use r s ok in \<open>simp add: ebind_def\<close>)
qed

lemma guardar_ficha_ok:
  assumes "archivos_ok bib s" and "disco_paso B s s'" and "p \<in> set (fichas s)"
    and "\<And>d. fi_id (f d) = fi_id d" and "ficha_ok bib (prox_id s') (disco s') (f p)"
    and "\<And>e w. e \<in> set (fichas s) \<Longrightarrow> fi_id e \<noteq> fi_id p \<Longrightarrow> w \<in> set (nombres e) \<Longrightarrow> w \<notin> B \<and> w \<notin> set (nombres (f p))"
  shows "archivos_ok bib (snd (guardar_ficha f (fi_id p) u s'))"
proof -
  have "archivos_ok bib (con_fichas (update_one (\<lambda>d. fi_id d = fi_id p) (\<lambda>d. (f d)\<lparr>fi_modificacion := Some u\<rparr>)) s')"
    by (rule archivos_ok_guardar [OF assms(1,2,3)]) (use assms(4-) in simp_all)
  then show ?thesis by (simp add: guardar_ficha_def proc_simps)
qed

lemma archivos_okD:
  assumes "archivos_ok bib s" and "p \<in> set (fichas s)"
  shows "ficha_ok bib (prox_id s) (disco s) p" "w \<in> set (nombres p) \<Longrightarrow> nombre_ok bib (prox_id s) w"
    "e \<in> set (fichas s) \<Longrightarrow> fi_id e \<noteq> fi_id p \<Longrightarrow> w \<in> set (nombres e) \<Longrightarrow> w \<notin> set (nombres p)"
proof -
  show o: "ficha_ok bib (prox_id s) (disco s) p" using assms by (simp add: archivos_ok_def list_all_iff)
  then show "w \<in> set (nombres p) \<Longrightarrow> nombre_ok bib (prox_id s) w" by (simp add: ficha_ok_def list_all_iff)
  show "e \<in> set (fichas s) \<Longrightarrow> fi_id e \<noteq> fi_id p \<Longrightarrow> w \<in> set (nombres e) \<Longrightarrow> w \<notin> set (nombres p)"
    using assms unfolding archivos_ok_def by blast
qed

lemma uploadImages_ok:
  assumes bib: "biblioteca_ok bib"
  shows "preserves (archivos_ok bib) (uploadImages bib pid files u)"
  unfolding uploadImages_def
proof (rule preserves_cargar [OF bib])
  fix p s
  assume pid: "sin_barra pid" and ok: "archivos_ok bib s" and p: "p \<in> set (fichas s)"
  let ?m = "fold_each (subir_imagen bib pid (max_orden (imagenes p))) (List.enumerate 0 files) (imagenes p)"
  obtain r s' where r: "?m s = (r, s')" by (cases "?m s")
  have paso: "disco_paso {} s s'" using avanzaD [OF avanza_fold_each [OF avanza_subir] r] .
  show "archivos_ok bib (snd (ebind ?m (\<lambda>imgs. guardar_ficha (\<lambda>d. d\<lparr>imagenes := imgs\<rparr>) (fi_id p) u) s))"
  proof (cases r)
    case (Inl e)
    with r archivos_ok_paso [OF paso ok] show ?thesis by (simp add: ebind_def)
  next
    case (Inr imgs)
    from subir_imagenes_Inr [OF bib pid r [unfolded Inr]] obtain ms where ms: "imgs = imagenes p @ ms"
      "nuevas_ok bib (prox_id s) s' ms" "map im_orden ms = map (\<lambda>j. max_orden (imagenes p) + int j + 1) [0..<length files]"
      "filter es_portada ms = (if imagenes p = [] then take 1 ms else [])" by auto
    have f: "ficha_ok bib (prox_id s') (disco s') (p\<lparr>imagenes := imgs\<rparr>)"
      unfolding ms(1) by (rule ficha_ok_subir [OF bib archivos_okD(1) [OF ok p] refl refl paso ms(2-4)])
    have "w \<notin> set (nombres (p\<lparr>imagenes := imgs\<rparr>))"
      if e: "e \<in> set (fichas s)" "fi_id e \<noteq> fi_id p" "w \<in> set (nombres e)" for e w
      using archivos_okD(3) [OF ok p e] archivos_okD(2) [OF ok e(1,3)] ms(2)
        nombre_entre_otro [OF bib, of 0 "prox_id s" w "prox_id s'"]
      by (auto simp: ms(1) nombres_resto nuevas_ok_def list_all_iff resto_def)
    then have "archivos_ok bib (snd (guardar_ficha (\<lambda>d. d\<lparr>imagenes := imgs\<rparr>) (fi_id p) u s'))"
      by (intro guardar_ficha_ok [OF ok paso p]) (use f in simp_all)
    with r Inr show ?thesis by (simp add: ebind_def)
  qed
qed

lemma indice_Some: "indice P xs = Some k \<Longrightarrow> k < length xs \<and> P (xs ! k)"
  by (induction xs arbitrary: k) (auto split: if_splits)

lemma quitar_en_set: "set (quitar_en k xs) \<subseteq> set xs"
  by (auto simp: quitar_en_def dest: in_set_takeD in_set_dropD)

lemma quitar_en_partes: "k < length xs \<Longrightarrow> xs = take k xs @ xs ! k # drop (Suc k) xs"
  by (rule id_take_nth_drop)

lemma quitar_en_map: "map f (quitar_en k xs) = quitar_en k (map f xs)"
  by (simp add: quitar_en_def take_map drop_map)

lemma quitar_en_distinct: "distinct xs \<Longrightarrow> distinct (quitar_en k xs)"
proof (cases "k < length xs")
  case True
  assume "distinct xs"
  then have "distinct (take k xs @ xs ! k # drop (Suc k) xs)" using quitar_en_partes [OF True] by simp
  then show ?thesis by (simp add: quitar_en_def)
qed (simp add: quitar_en_def)

lemma quitar_en_fuera: "distinct xs \<Longrightarrow> k < length xs \<Longrightarrow> xs ! k \<notin> set (quitar_en k xs)"
proof -
  assume "distinct xs" and k: "k < length xs"
  then have "distinct (take k xs @ xs ! k # drop (Suc k) xs)" using quitar_en_partes [OF k] by simp
  then show ?thesis by (auto simp: quitar_en_def)
qed

lemma quitar_en_filter: "length (filter P (quitar_en k xs)) \<le> length (filter P xs)"
proof (cases "k < length xs")
  case True
  show ?thesis
    unfolding quitar_en_def by (subst (3) quitar_en_partes [OF True]) simp
qed (simp add: quitar_en_def)

lemma reordenadas_en:
  assumes g: "\<And>n m. g n = Some m \<Longrightarrow> im_nombre m = n"
  shows "x \<in> set (List.map_filter (\<lambda>(k, n). map_option (\<lambda>m. m\<lparr>im_orden := int k + 1\<rparr>) (g n)) (List.enumerate j orden)) \<Longrightarrow>
    (\<exists>n \<in> set orden. \<exists>m. g n = Some m \<and> x = m\<lparr>im_orden := im_orden x\<rparr>) \<and> int j + 1 \<le> im_orden x \<and> im_nombre x \<in> set orden"
  by (induction orden arbitrary: j) (fastforce simp: g split: option.splits)+

lemma reordenadas_distinct:
  assumes g: "\<And>n m. g n = Some m \<Longrightarrow> im_nombre m = n"
  shows "distinct orden \<Longrightarrow>
    distinct (map im_nombre (List.map_filter (\<lambda>(k, n). map_option (\<lambda>m. m\<lparr>im_orden := int k + 1\<rparr>) (g n)) (List.enumerate j orden))) \<and>
    distinct (map im_orden (List.map_filter (\<lambda>(k, n). map_option (\<lambda>m. m\<lparr>im_orden := int k + 1\<rparr>) (g n)) (List.enumerate j orden)))"
proof (induction orden arbitrary: j)
  case Nil
  then show ?case by (simp add: List.map_filter_simps)
next
  case (Cons n ns)
  show ?case
  proof (cases "g n")
    case None
    with Cons show ?thesis by (simp add: List.map_filter_simps)
  next
    case (Some m)
    with Cons g [OF Some] reordenadas_en [OF g, where j = "Suc j" and orden = ns] show ?thesis
      by (force simp: List.map_filter_simps)
  qed
qed

lemma guardar_menos:
  assumes ok: "archivos_ok bib s" and paso: "disco_paso B s s'" and p: "p \<in> set (fichas s)"
    and f: "\<And>d. fi_id (f d) = fi_id d" "ficha_ok bib (prox_id s') (disco s') (f p)"
    and n: "set (nombres (f p)) \<subseteq> set (nombres p)" "B \<subseteq> set (nombres p)"
  shows "archivos_ok bib (snd (guardar_ficha f (fi_id p) u s'))"
proof (rule guardar_ficha_ok [OF ok paso p f])
  fix e w
  assume e: "e \<in> set (fichas s)" "fi_id e \<noteq> fi_id p" "w \<in> set (nombres e)"
  with archivos_okD(3) [OF ok p e] n show "w \<notin> B \<and> w \<notin> set (nombres (f p))" by blast
qed

lemma reorderImages_ok:
  assumes bib: "biblioteca_ok bib" and dis: "distinct orden"
  shows "preserves (archivos_ok bib) (reorderImages bib pid orden u)"
  unfolding reorderImages_def
proof (rule preserves_cargar [OF bib])
  fix p s
  assume pid: "sin_barra pid" and ok: "archivos_ok bib s" and p: "p \<in> set (fichas s)"
  note fo = archivos_okD(1) [OF ok p]
  let ?g = "\<lambda>n. find (\<lambda>m. im_nombre m = n) (imagenes p)"
  let ?ms = "reordenadas (imagenes p) orden"
  have g: "im_nombre m = n" if "?g n = Some m" for n m
    using find_en [OF that] by simp
  have en: "\<exists>m \<in> set (imagenes p). x = m\<lparr>im_orden := im_orden x\<rparr>" "1 \<le> im_orden x" if "x \<in> set ?ms" for x
  proof -
    from reordenadas_en [OF g that [unfolded reordenadas_def]] obtain n m where
      "?g n = Some m" "x = m\<lparr>im_orden := im_orden x\<rparr>" and o: "int 0 + 1 \<le> im_orden x" by blast
    with find_en show "\<exists>m \<in> set (imagenes p). x = m\<lparr>im_orden := im_orden x\<rparr>" by metis
    from o show "1 \<le> im_orden x" by simp
  qed
  have d: "distinct (map im_nombre ?ms)" "distinct (map im_orden ?ms)"
    using reordenadas_distinct [OF g dis, where j = 0] by (simp_all only: reordenadas_def)
  have "x = y" if "x \<in> set ?ms" "y \<in> set ?ms" "es_portada x" "es_portada y" for x y
  proof -
    from en(1) [OF that(1)] en(1) [OF that(2)] obtain m m' where m: "m \<in> set (imagenes p)" "m' \<in> set (imagenes p)"
      "im_nombre x = im_nombre m" "im_nombre y = im_nombre m'" "es_portada x = es_portada m" "es_portada y = es_portada m'"
      by (metis (no_types, lifting) imagen.select_convs(1) imagen.select_convs(4) imagen.surjective imagen.update_convs(3))
    have "m = m'"
      by (rule una_portada [of es_portada "imagenes p"]) (use fo m that in \<open>simp_all add: ficha_ok_def\<close>)
    with m clave_unica [OF d(1) that(1,2)] show ?thesis by simp
  qed
  then have "length (filter es_portada ?ms) \<le> 1" using d(1) by (intro a_lo_sumo_una) (auto simp: distinct_map)
  moreover have "\<exists>m \<in> set (imagenes p). im_nombre x = im_nombre m \<and> im_url x = im_url m \<and> im_versiones x = im_versiones m"
    if "x \<in> set ?ms" for x
    using en(1) [OF that] by (metis imagen.select_convs(1,2,5) imagen.surjective imagen.update_convs(3))
  ultimately have "ficha_ok bib (prox_id s) (disco s) (p\<lparr>imagenes := ?ms\<rparr>)"
    "set (nombres (p\<lparr>imagenes := ?ms\<rparr>)) \<subseteq> set (nombres p)"
    using ficha_ok_menos [OF fo, of ?ms] d en(2) by blast+
  then show "archivos_ok bib (snd (guardar_ficha (\<lambda>d. d\<lparr>imagenes := ?ms\<rparr>) (fi_id p) u s))"
    by (intro guardar_menos [OF ok disco_paso_refl [of "{}"] p]) simp_all
qed

lemma pf_deleteImage_ok:
  assumes bib: "biblioteca_ok bib"
  shows "preserves (archivos_ok bib) (pf_deleteImage bib pid fileName u)"
  unfolding pf_deleteImage_def
proof (rule preserves_cargar [OF bib])
  fix p s
  assume pid: "sin_barra pid" and ok: "archivos_ok bib s" and p: "p \<in> set (fichas s)"
  note fo = archivos_okD(1) [OF ok p]
  let ?k = "\<lambda>k. ebind (st_deleteImage pid fileName T_imagenes) (\<lambda>_.
         guardar_ficha (\<lambda>d. d\<lparr>imagenes := quitar_en k (imagenes p)\<rparr>) (fi_id p) u)"
  show "archivos_ok bib (snd ((case indice (\<lambda>m. im_nombre m = fileName) (imagenes p) of
       None \<Rightarrow> raise (NotFoundException ''Imagen {} no encontrada'' [AStr fileName]) | Some k \<Rightarrow> ?k k) s))"
  proof (cases "indice (\<lambda>m. im_nombre m = fileName) (imagenes p)")
    case None
    with ok show ?thesis by (simp add: raise_run)
  next
    case (Some k)
    from indice_Some [OF Some] have k: "k < length (imagenes p)" "im_nombre (imagenes p ! k) = fileName" by simp_all
    let ?ms = "quitar_en k (imagenes p)"
    obtain s' where s': "st_deleteImage pid fileName T_imagenes s = (Inr (), s')"
      by (auto simp: st_deleteImage_def ebind_def proc_simps)
    have "fileName \<in> set (nombres p)" using k by (auto simp: nombres_def)
    with archivos_okD(2) [OF ok p] have n: "sin_barra fileName" by (simp add: nombre_entre_def)
    have paso: "disco_paso {fileName} s s'" using avanzaD [OF avanza_borrar [OF n] s'] .
    have nd: "distinct (map im_nombre (imagenes p))" and no: "distinct (map im_orden (imagenes p))"
      using fo by (simp_all add: ficha_ok_def nombres_def)
    have sub: "set ?ms \<subseteq> set (imagenes p)" by (rule quitar_en_set)
    have "ficha_ok bib (prox_id s) (disco s) (p\<lparr>imagenes := ?ms\<rparr>)" "set (nombres (p\<lparr>imagenes := ?ms\<rparr>)) \<subseteq> set (nombres p)"
      using ficha_ok_menos [OF fo, of ?ms] sub quitar_en_distinct [OF nd, of k] quitar_en_distinct [OF no, of k] fo
        quitar_en_filter [of es_portada k "imagenes p"]
      by (auto simp: quitar_en_map ficha_ok_def) 
    moreover have "de_lista (p\<lparr>imagenes := ?ms\<rparr>) \<inter> {fileName} = {}"
    proof -
      have "im_nombre (imagenes p ! k) \<notin> im_nombre ` set ?ms"
        using quitar_en_fuera [OF nd, of k] k(1) by (simp add: quitar_en_map [symmetric])
      moreover have "im_nombre (imagenes p ! k) \<notin> pl_nombre ` set (planos p)"
        using fo nth_mem [OF k(1)] by (auto simp: ficha_ok_def nombres_def)
      ultimately show ?thesis using k(2) by (simp add: de_lista_def)
    qed
    ultimately have "archivos_ok bib (snd (guardar_ficha (\<lambda>d. d\<lparr>imagenes := ?ms\<rparr>) (fi_id p) u s'))"
      using \<open>fileName \<in> set (nombres p)\<close> ficha_ok_paso [OF paso]
      by (intro guardar_menos [OF ok paso p]) simp_all
    with Some s' show ?thesis by (simp add: ebind_def)
  qed
qed

lemma setImageAsPortada_ok:
  assumes bib: "biblioteca_ok bib"
  shows "preserves (archivos_ok bib) (setImageAsPortada bib pid fileName u)"
  unfolding setImageAsPortada_def
proof (rule preserves_cargar [OF bib])
  fix p s
  assume pid: "sin_barra pid" and ok: "archivos_ok bib s" and p: "p \<in> set (fichas s)"
  note fo = archivos_okD(1) [OF ok p]
  let ?f = "\<lambda>m. m\<lparr>es_portada := (im_nombre m = fileName)\<rparr>"
  let ?ms = "map ?f (imagenes p)"
  have nd: "distinct (map im_nombre (imagenes p))" using fo by (simp add: ficha_ok_def nombres_def)
  have "length (filter (\<lambda>m. im_nombre m = fileName) (imagenes p)) \<le> 1"
    using nd clave_unica [OF nd] by (intro a_lo_sumo_una) (auto simp: distinct_map)
  then have l: "length (filter es_portada ?ms) \<le> 1" by (simp add: filter_map comp_def)
  have sub: "\<exists>m \<in> set (imagenes p). im_nombre x = im_nombre m \<and> im_url x = im_url m \<and> im_versiones x = im_versiones m"
    if "x \<in> set ?ms" for x
    using that by auto
  have "distinct (map im_nombre ?ms)" "distinct (map im_orden ?ms)" "\<And>m. m \<in> set ?ms \<Longrightarrow> 1 \<le> im_orden m"
    using nd fo by (auto simp: comp_def ficha_ok_def)
  from ficha_ok_menos [OF fo sub this l] have "ficha_ok bib (prox_id s) (disco s) (p\<lparr>imagenes := ?ms\<rparr>)"
    "set (nombres (p\<lparr>imagenes := ?ms\<rparr>)) \<subseteq> set (nombres p)" by simp_all
  then have "archivos_ok bib (snd (guardar_ficha (\<lambda>d. d\<lparr>imagenes := ?ms\<rparr>) (fi_id p) u s))"
    by (intro guardar_menos [OF ok disco_paso_refl [of "{}"] p]) simp_all
  with ok show "archivos_ok bib (snd ((if \<not> (\<exists>m \<in> set (imagenes p). im_nombre m = fileName)
     then raise (NotFoundException ''Imagen {} no encontrada'' [AStr fileName])
     else guardar_ficha (\<lambda>d. d\<lparr>imagenes := ?ms\<rparr>) (fi_id p) u) s))"
    by (simp add: raise_run)
qed

text \<open>The plans.\<close>

definition planos_nuevos :: "'f biblioteca \<Rightarrow> nat \<Rightarrow> 'a bd_fichas_scheme \<Rightarrow> plano list \<Rightarrow> bool" where
  "planos_nuevos bib k s ms \<longleftrightarrow> distinct (map pl_nombre ms) \<and>
     list_all (\<lambda>m. nombre_entre bib k (prox_id s) (pl_nombre m) \<and> plano_en (disco s) m) ms"

lemma avanza_plano [intro]: "avanza B (subir_plano bib pid descs x ps)"
  unfolding subir_plano_def by (cases x) (auto intro: avanza_ebind)

lemma subir_plano_Inr:
  assumes "biblioteca_ok bib" and pid: "sin_barra pid" and "subir_plano bib pid descs (i, f) ps s = (Inr ps', s')"
  shows "\<exists>m. ps' = ps @ [m] \<and> nombre_entre bib (prox_id s) (prox_id s') (pl_nombre m) \<and> plano_en (disco s') m"
proof -
  from assms(3) obtain r where r: "processAndSaveImage bib f pid T_planos s = (Inr r, s')"
    and i: "ps' = ps @ [\<lparr>pl_nombre = ig_nombre r, pl_url = ve_original (ig_versiones r),
        pl_descripcion = (if i < length descs then descs ! i else [])\<rparr>]"
    by (auto simp: subir_plano_def proc_simps)
  from procesar_nombre [OF assms(1) r] procesar_Inr [OF r] pid show ?thesis
    unfolding i by (auto simp: plano_en_def)
qed

lemma subir_planos_Inr:
  assumes "biblioteca_ok bib" and pid: "sin_barra pid"
  shows "fold_each (subir_plano bib pid descs) (List.enumerate k files) ps s = (Inr ps', s') \<Longrightarrow>
    \<exists>ms. ps' = ps @ ms \<and> planos_nuevos bib (prox_id s) s' ms"
proof (induction files arbitrary: k ps s)
  case Nil
  then show ?case by (auto simp: ret_run planos_nuevos_def)
next
  case (Cons f files)
  from Cons.prems obtain ps1 s1 where a: "subir_plano bib pid descs (k, f) ps s = (Inr ps1, s1)" and
    b: "fold_each (subir_plano bib pid descs) (List.enumerate (Suc k) files) ps1 s1 = (Inr ps', s')"
    by (auto simp: proc_simps)
  obtain m where m: "ps1 = ps @ [m]" "nombre_entre bib (prox_id s) (prox_id s1) (pl_nombre m)" "plano_en (disco s1) m"
    using subir_plano_Inr [OF assms a] by blast
  obtain ms where ms: "ps' = ps1 @ ms" "planos_nuevos bib (prox_id s1) s' ms" using Cons.IH [OF b] by blast
  have p: "disco_paso {} s s1" "disco_paso {} s1 s'"
    using avanzaD [OF avanza_plano a] avanzaD [OF avanza_fold_each [OF avanza_plano] b] by blast+
  then have le: "prox_id s \<le> prox_id s1" "prox_id s1 \<le> prox_id s'" by (simp_all add: disco_paso_def)
  have "plano_en (disco s') m"
    using plano_en_paso [OF p(2) m(3)] m(2) by (simp add: nombre_entre_def)
  moreover have "pl_nombre m \<notin> pl_nombre ` set ms"
    using m(2) ms(2) nombre_entre_otro [OF assms(1), of "prox_id s" "prox_id s1" "pl_nombre m" "prox_id s'"]
    by (fastforce simp: planos_nuevos_def list_all_iff)
  moreover have "nombre_entre bib (prox_id s) (prox_id s') w" if "nombre_entre bib (prox_id s1) (prox_id s') w" for w
    using nombre_entre_mono [OF that le(1) order_refl] .
  ultimately have "planos_nuevos bib (prox_id s) s' (m # ms)"
    using m(2) ms(2) nombre_entre_mono [OF m(2) order_refl le(2)] by (auto simp: planos_nuevos_def list_all_iff)
  with m(1) ms(1) show ?case by (intro exI [of _ "m # ms"]) simp
qed

lemma uploadPlanos_ok:
  assumes bib: "biblioteca_ok bib"
  shows "preserves (archivos_ok bib) (uploadPlanos bib pid files descs u)"
  unfolding uploadPlanos_def
proof (rule preserves_cargar [OF bib])
  fix p s
  assume pid: "sin_barra pid" and ok: "archivos_ok bib s" and p: "p \<in> set (fichas s)"
  let ?m = "fold_each (subir_plano bib pid descs) (List.enumerate 0 files) (planos p)"
  obtain r s' where r: "?m s = (r, s')" by (cases "?m s")
  have paso: "disco_paso {} s s'" using avanzaD [OF avanza_fold_each [OF avanza_plano] r] .
  show "archivos_ok bib (snd (ebind ?m (\<lambda>ps. guardar_ficha (\<lambda>d. d\<lparr>planos := ps\<rparr>) (fi_id p) u) s))"
  proof (cases r)
    case (Inl e)
    with r archivos_ok_paso [OF paso ok] show ?thesis by (simp add: ebind_def)
  next
    case (Inr ps)
    from subir_planos_Inr [OF bib pid r [unfolded Inr]] obtain ms where ms: "ps = planos p @ ms"
      "planos_nuevos bib (prox_id s) s' ms" by blast
    have o: "ficha_ok bib (prox_id s') (disco s') p" using ficha_ok_paso [OF paso archivos_okD(1) [OF ok p]] by simp
    have nuevo: "w \<notin> pl_nombre ` set ms" if "nombre_ok bib (prox_id s) w" for w
      using that ms(2) nombre_entre_otro [OF bib that] by (auto simp: planos_nuevos_def list_all_iff)
    have "w \<notin> pl_nombre ` set ms" if "w \<in> set (nombres p)" for w
      using nuevo archivos_okD(2) [OF ok p that] by blast
    then have "distinct (nombres (p\<lparr>planos := ps\<rparr>))"
      using o ms by (auto simp: ficha_ok_def planos_nuevos_def nombres_def)
    moreover have "list_all (nombre_ok bib (prox_id s')) (nombres (p\<lparr>planos := ps\<rparr>))"
      using o ms by (auto simp: ficha_ok_def planos_nuevos_def nombres_def list_all_iff intro: nombre_entre_mono)
    ultimately have f: "ficha_ok bib (prox_id s') (disco s') (p\<lparr>planos := ps\<rparr>)"
      using o ms by (auto simp: ficha_ok_def planos_nuevos_def list_all_iff)
    have "w \<notin> set (nombres (p\<lparr>planos := ps\<rparr>))" if e: "e \<in> set (fichas s)" "fi_id e \<noteq> fi_id p" "w \<in> set (nombres e)" for e w
      using archivos_okD(3) [OF ok p e] nuevo archivos_okD(2) [OF ok e(1,3)] by (auto simp: ms(1) nombres_def)
    then have "archivos_ok bib (snd (guardar_ficha (\<lambda>d. d\<lparr>planos := ps\<rparr>) (fi_id p) u s'))"
      by (intro guardar_ficha_ok [OF ok paso p]) (use f in simp_all)
    with r Inr show ?thesis by (simp add: ebind_def)
  qed
qed

lemma distinct_menos: "distinct (a @ b @ c) \<Longrightarrow> distinct e \<Longrightarrow> set e \<subseteq> set b \<Longrightarrow> distinct (a @ e @ c)"
  by auto

lemma deletePlano_ok:
  assumes bib: "biblioteca_ok bib"
  shows "preserves (archivos_ok bib) (deletePlano bib pid fileName u)"
  unfolding deletePlano_def
proof (rule preserves_cargar [OF bib])
  fix p s
  assume pid: "sin_barra pid" and ok: "archivos_ok bib s" and p: "p \<in> set (fichas s)"
  note fo = archivos_okD(1) [OF ok p]
  let ?k = "\<lambda>k. ebind (st_deleteImage pid fileName T_planos) (\<lambda>_.
         guardar_ficha (\<lambda>d. d\<lparr>planos := quitar_en k (planos p)\<rparr>) (fi_id p) u)"
  show "archivos_ok bib (snd ((case indice (\<lambda>m. pl_nombre m = fileName) (planos p) of
       None \<Rightarrow> raise (NotFoundException ''Plano {} no encontrado'' [AStr fileName]) | Some k \<Rightarrow> ?k k) s))"
  proof (cases "indice (\<lambda>m. pl_nombre m = fileName) (planos p)")
    case None
    with ok show ?thesis by (simp add: raise_run)
  next
    case (Some k)
    from indice_Some [OF Some] have k: "k < length (planos p)" "pl_nombre (planos p ! k) = fileName" by simp_all
    let ?ps = "quitar_en k (planos p)" let ?p = "p\<lparr>planos := quitar_en k (planos p)\<rparr>"
    obtain s' where s': "st_deleteImage pid fileName T_planos s = (Inr (), s')"
      by (auto simp: st_deleteImage_def ebind_def proc_simps)
    have en: "fileName \<in> set (nombres p)" using k by (auto simp: nombres_def)
    with archivos_okD(2) [OF ok p] have n: "sin_barra fileName" by (simp add: nombre_entre_def)
    have paso: "disco_paso {fileName} s s'" using avanzaD [OF avanza_borrar [OF n] s'] .
    have nd: "distinct (map pl_nombre (planos p))" using fo by (simp add: ficha_ok_def nombres_def)
    have sub: "set ?ps \<subseteq> set (planos p)" by (rule quitar_en_set)
    then have sn: "pl_nombre ` set ?ps \<subseteq> pl_nombre ` set (planos p)" by blast
    then have nn: "set (nombres ?p) \<subseteq> set (nombres p)" by (auto simp: nombres_def)
    have "distinct (map pl_nombre ?ps)" using quitar_en_distinct [OF nd, of k] by (simp add: quitar_en_map)
    then have "distinct (map im_nombre (imagenes p) @ map pl_nombre ?ps @
        (case imagen_satelital p of None \<Rightarrow> [] | Some m \<Rightarrow> [is_nombre m]))"
      using fo sn by (subst distinct_menos [where b = "map pl_nombre (planos p)"]) (simp_all add: ficha_ok_def nombres_def)
    then have "distinct (nombres ?p)" by (simp add: nombres_def)
    moreover have "list_all (nombre_ok bib (prox_id s)) (nombres ?p)"
      using fo nn unfolding ficha_ok_def list_all_iff by blast
    ultimately have f: "ficha_ok bib (prox_id s) (disco s) ?p"
      using fo sub by (auto simp: ficha_ok_def list_all_iff)
    have "pl_nombre (planos p ! k) \<notin> pl_nombre ` set ?ps"
      using quitar_en_fuera [OF nd, of k] k(1) by (simp add: quitar_en_map [symmetric])
    moreover have "pl_nombre (planos p ! k) \<notin> im_nombre ` set (imagenes p)"
      using fo nth_mem [OF k(1)] by (auto simp: ficha_ok_def nombres_def)
    ultimately have "de_lista ?p \<inter> {fileName} = {}" using k(2) by (simp add: de_lista_def)
    from ficha_ok_paso [OF paso f this]
    have "archivos_ok bib (snd (guardar_ficha (\<lambda>d. d\<lparr>planos := ?ps\<rparr>) (fi_id p) u s'))"
      using en nn by (intro guardar_menos [OF ok paso p]) simp_all
    with Some s' show ?thesis by (simp add: ebind_def)
  qed
qed

text \<open>Requests that leave images and plans alone.\<close>

lemma ruta_documento_otra: "sin_barra p \<Longrightarrow> sin_barra q \<Longrightarrow> ruta p t v w \<noteq> ruta_documento q n"
proof
  assume p: "sin_barra p" and q: "sin_barra q" and e: "ruta p t v w = ruta_documento q n"
  have tw: "takeWhile (\<lambda>c. c \<noteq> CHR ''/'') (x @ CHR ''/'' # k) = x" if "sin_barra x" for x k
    using that by (auto simp: sin_barra_def takeWhile_append)
  from e have e': "p @ CHR ''/'' # (carpeta t @ ''/'' @ v @ ''/'' @ w) = q @ CHR ''/'' # (''documentos/'' @ n)"
    by (simp add: ruta_def ruta_documento_def)
  then have "p = q" using tw [OF p] tw [OF q] by metis
  with e' show False by (cases t) (simp_all add: carpeta_def)
qed

lemma uploadDocuments_ok:
  assumes bib: "biblioteca_ok bib"
  shows "preserves (archivos_ok bib) (uploadDocuments bib pid files u)"
  unfolding uploadDocuments_def
proof (rule preserves_cargar [OF bib])
  fix p s
  assume pid: "sin_barra pid" and ok: "archivos_ok bib s" and p: "p \<in> set (fichas s)"
  let ?m = "for_each (\<lambda>f. saveDocument bib f pid) files"
  obtain r s' where r: "?m s = (r, s')" by (cases "?m s")
  have paso: "disco_paso {} s s'" using avanzaD [OF avanza_for_each [OF avanza_documento] r] .
  have "archivos_ok bib (snd (guardar_ficha (\<lambda>d. d\<lparr>documentos_digitales := documentos_digitales p @ ds\<rparr>) (fi_id p) u s'))" for ds
    using ficha_ok_paso [OF paso archivos_okD(1) [OF ok p]]
    by (intro guardar_menos [OF ok paso p]) (simp_all add: ficha_ok_def nombres_def)
  with r archivos_ok_paso [OF paso ok] show "archivos_ok bib (snd (ebind ?m
      (\<lambda>ds. guardar_ficha (\<lambda>d. d\<lparr>documentos_digitales := documentos_digitales p @ ds\<rparr>) (fi_id p) u) s))"
    by (cases r) (simp_all add: ebind_def)
qed

lemma deleteDocument_ok:
  assumes bib: "biblioteca_ok bib"
  shows "preserves (archivos_ok bib) (deleteDocument bib pid fileName u)"
  unfolding deleteDocument_def
proof (rule preserves_cargar [OF bib])
  fix p s
  assume pid: "sin_barra pid" and ok: "archivos_ok bib s" and p: "p \<in> set (fichas s)"
  let ?m = "st_deleteDocument pid fileName"
  obtain r s' where r: "?m s = (r, s')" by (cases "?m s")
  have paso: "disco_paso {} s s'"
    using r ruta_documento_otra [OF _ pid] by (auto simp: st_deleteDocument_def proc_simps disco_paso_def split: if_splits)
  have g: "archivos_ok bib (snd (guardar_ficha (\<lambda>d. d\<lparr>documentos_digitales := quitar_en k (documentos_digitales p)\<rparr>) (fi_id p) u s'))" for k
    using ficha_ok_paso [OF paso archivos_okD(1) [OF ok p]]
    by (intro guardar_menos [OF ok paso p]) (simp_all add: ficha_ok_def nombres_def)
  show "archivos_ok bib (snd ((case indice (\<lambda>d. incluye fileName (dd_url d)) (documentos_digitales p) of
       None \<Rightarrow> raise (NotFoundException ''Documento {} no encontrado'' [AStr fileName])
     | Some k \<Rightarrow> ebind ?m (\<lambda>_. guardar_ficha
         (\<lambda>d. d\<lparr>documentos_digitales := quitar_en k (documentos_digitales p)\<rparr>) (fi_id p) u)) s))"
    using ok g r archivos_ok_paso [OF paso ok]
    by (cases r) (simp_all add: ebind_def raise_run split: option.split)
qed

lemma calibrateSatelliteImage_ok:
  assumes bib: "biblioteca_ok bib"
  shows "preserves (archivos_ok bib) (calibrateSatelliteImage bib pid px u)"
  unfolding calibrateSatelliteImage_def
proof (rule preserves_cargar [OF bib])
  fix p s
  assume pid: "sin_barra pid" and ok: "archivos_ok bib s" and p: "p \<in> set (fichas s)"
  have "archivos_ok bib (snd (guardar_ficha (\<lambda>d. d\<lparr>imagen_satelital := Some (m\<lparr>pixels_por_metro := px\<rparr>)\<rparr>) (fi_id p) u s))"
    if "imagen_satelital p = Some m" for m
    using archivos_okD(1) [OF ok p] that
    by (intro guardar_menos [OF ok disco_paso_refl [of "{}"] p]) (simp_all add: ficha_ok_def nombres_def)
  with ok show "archivos_ok bib (snd ((case imagen_satelital p of
       None \<Rightarrow> raise (BadRequestException ''No existe imagen satelital para calibrar'' [])
     | Some m \<Rightarrow> guardar_ficha (\<lambda>d. d\<lparr>imagen_satelital := Some (m\<lparr>pixels_por_metro := px\<rparr>)\<rparr>) (fi_id p) u) s))"
    by (simp add: raise_run split: option.split)
qed

lemma uploadSatelliteImage_ok:
  assumes bib: "biblioteca_ok bib"
  shows "preserves (archivos_ok bib) (uploadSatelliteImage bib pid f u)"
  unfolding uploadSatelliteImage_def
proof (rule preserves_cargar [OF bib])
  fix p s
  assume pid: "sin_barra pid" and ok: "archivos_ok bib s" and p: "p \<in> set (fichas s)"
  note fo = archivos_okD(1) [OF ok p]
  let ?B = "case imagen_satelital p of None \<Rightarrow> {} | Some m \<Rightarrow> {is_nombre m}"
  let ?d = "case imagen_satelital p of None \<Rightarrow> ret () | Some m \<Rightarrow> st_deleteImage pid (is_nombre m) T_satellite"
  let ?set = "\<lambda>r d. d\<lparr>imagen_satelital := Some
         \<lparr>is_nombre = ig_nombre r, is_url = ve_original (ig_versiones r), is_ancho = fst (the (ig_dimensiones r)),
          is_alto = snd (the (ig_dimensiones r)), pixels_por_metro = 0\<rparr>\<rparr>"
  obtain s1 where s1: "?d s = (Inr (), s1)"
    by (cases "imagen_satelital p") (auto simp: st_deleteImage_def ebind_def proc_simps)
  have "sin_barra (is_nombre m)" if "imagen_satelital p = Some m" for m
    using archivos_okD(2) [OF ok p, of "is_nombre m"] that by (simp add: nombres_def nombre_entre_def)
  then have p1: "disco_paso ?B s s1"
    using s1 avanzaD [OF avanza_borrar] by (auto simp: ret_run split: option.splits)
  obtain r s2 where r: "processAndSaveImage bib f pid T_satellite s1 = (r, s2)"
    by (cases "processAndSaveImage bib f pid T_satellite s1")
  have paso: "disco_paso ?B s s2"
    using p1 disco_paso_mono [OF avanzaD [OF avanza_procesar r]] by (blast intro: disco_paso_trans)
  have libre: "de_lista e \<inter> ?B = {}" if e: "e \<in> set (fichas s)" for e
  proof (cases "fi_id e = fi_id p")
    case True
    have "e = p" using clave_unica [OF _ e p True] ok by (simp add: archivos_ok_def)
    with fo show ?thesis by (auto simp: ficha_ok_def de_lista_def nombres_def split: option.splits)
  next
    case False
    have "de_lista e \<subseteq> set (nombres e)" by (auto simp: de_lista_def nombres_def)
    moreover have "?B \<subseteq> set (nombres p)" by (auto simp: nombres_def split: option.splits)
    ultimately show ?thesis using archivos_okD(3) [OF ok p e False] by blast
  qed
  show "archivos_ok bib (snd (ebind ?d (\<lambda>_. ebind (processAndSaveImage bib f pid T_satellite)
      (\<lambda>r. guardar_ficha (?set r) (fi_id p) u)) s))"
  proof (cases r)
    case (Inl e)
    with r s1 archivos_ok_paso [OF paso ok libre] show ?thesis by (simp add: ebind_def)
  next
    case (Inr g)
    have fr: "nombre_entre bib (prox_id s) (prox_id s2) (ig_nombre g)"
      using nombre_entre_mono [OF procesar_nombre [OF bib r [unfolded Inr]]] p1 by (simp add: disco_paso_def)
    have nuevo: "w \<noteq> ig_nombre g" if "nombre_ok bib (prox_id s) w" for w
      using nombre_entre_otro [OF bib that fr] .
    have viejos: "ficha_ok bib (prox_id s2) (disco s2) p" using ficha_ok_paso [OF paso fo libre [OF p]] .
    have "distinct (map im_nombre (imagenes p) @ map pl_nombre (planos p))"
      using viejos by (auto simp: ficha_ok_def nombres_def)
    moreover have "ig_nombre g \<notin> set (map im_nombre (imagenes p) @ map pl_nombre (planos p))"
    proof
      assume "ig_nombre g \<in> set (map im_nombre (imagenes p) @ map pl_nombre (planos p))"
      then have "ig_nombre g \<in> set (nombres p)" by (auto simp: nombres_def)
      from nuevo [OF archivos_okD(2) [OF ok p this]] show False by simp
    qed
    ultimately have "distinct (nombres (?set g p))" by (simp add: nombres_def)
    moreover have "list_all (nombre_ok bib (prox_id s2)) (nombres (?set g p))"
      using viejos nombre_entre_mono [OF fr] by (auto simp: ficha_ok_def nombres_def)
    ultimately have fk: "ficha_ok bib (prox_id s2) (disco s2) (?set g p)" using viejos by (simp add: ficha_ok_def)
    have "w \<notin> ?B \<and> w \<notin> set (nombres (?set g p))"
      if e: "e \<in> set (fichas s)" "fi_id e \<noteq> fi_id p" "w \<in> set (nombres e)" for e w
      using archivos_okD(3) [OF ok p e] nuevo archivos_okD(2) [OF ok e(1,3)]
      by (auto simp: nombres_def split: option.splits)
    then have "archivos_ok bib (snd (guardar_ficha (?set g) (fi_id p) u s2))"
      by (intro guardar_ficha_ok [OF ok paso p]) (use fk in simp_all)
    with r s1 Inr show ?thesis by (simp add: ebind_def)
  qed
qed

section \<open>Runs of requests\<close>

datatype 'f peticion_archivos =
    PA_subir string "'f list" oid
  | PA_borrar string string oid
  | PA_orden string "string list" oid
  | PA_portada string string oid
  | PA_planos string "'f list" "string list" oid
  | PA_borrar_plano string string oid
  | PA_documentos string "'f list" oid
  | PA_borrar_documento string string oid
  | PA_satelite string 'f oid
  | PA_calibrar string rat oid

fun atiende_archivos :: "'f biblioteca \<Rightarrow> 'f peticion_archivos \<Rightarrow> 'a bd_fichas_scheme \<Rightarrow> 'a bd_fichas_scheme" where
  "atiende_archivos bib (PA_subir pid fs u) s = snd (uploadImages bib pid fs u s)"
| "atiende_archivos bib (PA_borrar pid n u) s = snd (pf_deleteImage bib pid n u s)"
| "atiende_archivos bib (PA_orden pid ns u) s = snd (reorderImages bib pid ns u s)"
| "atiende_archivos bib (PA_portada pid n u) s = snd (setImageAsPortada bib pid n u s)"
| "atiende_archivos bib (PA_planos pid fs ds u) s = snd (uploadPlanos bib pid fs ds u s)"
| "atiende_archivos bib (PA_borrar_plano pid n u) s = snd (deletePlano bib pid n u s)"
| "atiende_archivos bib (PA_documentos pid fs u) s = snd (uploadDocuments bib pid fs u s)"
| "atiende_archivos bib (PA_borrar_documento pid n u) s = snd (deleteDocument bib pid n u s)"
| "atiende_archivos bib (PA_satelite pid f u) s = snd (uploadSatelliteImage bib pid f u s)"
| "atiende_archivos bib (PA_calibrar pid px u) s = snd (calibrateSatelliteImage bib pid px u s)"

fun sin_repetir :: "'f peticion_archivos \<Rightarrow> bool" where
  "sin_repetir (PA_orden pid ns u) = distinct ns"
| "sin_repetir _ = True"

lemma atiende_archivos_ok:
  fixes s :: "'a bd_fichas_scheme"
  assumes bib: "biblioteca_ok bib" and q: "sin_repetir q" and ok: "archivos_ok bib s"
  shows "archivos_ok bib (atiende_archivos bib q s)"
proof -
  have p: "preserves (archivos_ok bib) m \<Longrightarrow> archivos_ok bib (snd (m s))" for m :: "('a bd_fichas_scheme, ficha option) proc"
    using ok by (simp add: preserves_def)
  show ?thesis
    using q by (cases q) (auto intro!: p uploadImages_ok [OF bib] pf_deleteImage_ok [OF bib] reorderImages_ok [OF bib]
      setImageAsPortada_ok [OF bib] uploadPlanos_ok [OF bib] deletePlano_ok [OF bib] uploadDocuments_ok [OF bib]
      deleteDocument_ok [OF bib] uploadSatelliteImage_ok [OF bib] calibrateSatelliteImage_ok [OF bib])
qed


section \<open>What breaks\<close>

text \<open>a satellite image that the library cannot read makes the property lose the one it had: the old
  file is deleted first, the request fails, and the document still refers to the file.\<close>

theorem satellite_image_lost:
  assumes "bi_oid bib pid = Some i" and "find_id fi_id i (fichas s) = Some d" and "imagen_satelital d = Some m"
    and "is_url m = ruta pid T_satellite ''original'' (is_nombre m)" and "bi_meta bib f = None"
  shows "\<exists>s'. uploadSatelliteImage bib pid f u s = (Inl (BadRequestException ''Error procesando imagen'' []), s') \<and>
     find_id fi_id i (fichas s') = Some d \<and> is_url m \<notin> set (disco s')"
  using assms
  by (simp add: uploadSatelliteImage_def cargar_ficha_def cast_id_run obtener_def st_deleteImage_def
      processAndSaveImage_def ebind_def proc_simps)

text \<open>The deletion of the cover leaves the images without one, and an order that repeats a name shows the
  image twice.\<close>

lemma cover_lost:
  assumes "indice (\<lambda>m. im_nombre m = n) ms = Some k" and "es_portada (ms ! k)" and "length (filter es_portada ms) \<le> 1"
  shows "filter es_portada (quitar_en k ms) = []"
proof -
  have k: "k < length ms" using indice_Some [OF assms(1)] by simp
  have "length (filter es_portada (take k ms @ ms ! k # drop (Suc k) ms)) \<le> 1"
    using assms(3) quitar_en_partes [OF k] by simp
  with assms(2) show ?thesis by (simp add: quitar_en_def)
qed

section \<open>Witnesses\<close>

definition bib0 :: "bool biblioteca" where
  "bib0 = \<lparr>bi_meta = (\<lambda>b. if b then Some (''png'', 4, 3) else None), bi_graba = (\<lambda>_ _. True), bi_originalname = (\<lambda>_. ''a''),
     bi_uuid = (\<lambda>u. replicate u CHR ''x'' @ ''y''), bi_reloj = (\<lambda>_. ''0''),
     bi_oid = (\<lambda>t. if t = ''p'' then Some 7 else None)\<rparr>"

definition ficha0 :: ficha where
  "ficha0 = \<lparr>fi_id = 7, fi_identificador = ''a'', fi_titulo = None, fi_descripcion = None, fi_direccion = None,
     fi_caracteristicas = None, img_cover_url = None, valor_venta = None, valor_alquiler = None,
     valor_venta_detallado = None, valor_alquiler_detallado = None, publicar_para_venta = True,
     publicar_para_alquiler = False, fi_status = ''DISPONIBLE'', documentos_digitales = [], imagenes = [], planos = [],
     imagen_satelital = None, fi_modificacion = None\<rparr>"

definition bd0 :: bd_fichas where
  "bd0 = \<lparr>ahora = 0, prox_id = 10, fichas = [ficha0], disco = []\<rparr>"

lemma unario: "replicate u CHR ''x'' @ ''y'' @ x = replicate v CHR ''x'' @ ''y'' @ y \<Longrightarrow> u = v"
proof -
  assume e: "replicate u CHR ''x'' @ ''y'' @ x = replicate v CHR ''x'' @ ''y'' @ y"
  have t: "length (takeWhile (\<lambda>c. c = CHR ''x'') (replicate k CHR ''x'' @ ''y'' @ z)) = k" for k z
    by (simp add: takeWhile_append)
  from t [of u x] t [of v y] e show "u = v" by simp
qed

lemma bib0_ok: "biblioteca_ok bib0"
proof -
  have "bi_uuid bib0 u @ x = bi_uuid bib0 v @ y \<Longrightarrow> u = v" for u v x y
    using unario [of u x v y] by (simp add: bib0_def)
  moreover have "sin_barra (bi_uuid bib0 u)" "sin_barra (bi_reloj bib0 t)" for u t
    by (simp_all add: sin_barra_def bib0_def)
  moreover have "bi_oid bib0 t = Some i \<Longrightarrow> sin_barra t" "bi_meta bib0 f = Some x \<Longrightarrow> sin_barra (fst x)" for t i f x
    by (auto simp: sin_barra_def bib0_def split: if_splits)
  ultimately show ?thesis unfolding biblioteca_ok_def by blast
qed


definition sat0 :: imagen_sat where
  "sat0 = \<lparr>is_nombre = ''n'', is_url = ruta ''p'' T_satellite ''original'' ''n'', is_ancho = 1, is_alto = 1, pixels_por_metro = 0\<rparr>"

definition bd1 :: bd_fichas where
  "bd1 = bd0\<lparr>fichas := [ficha0\<lparr>imagen_satelital := Some sat0\<rparr>], disco := [is_url sat0]\<rparr>"

lemma id0: "fi_id ficha0 = 7"
  by (simp add: ficha0_def)

theorem satellite_image_lost_witness:
  "\<exists>s'. uploadSatelliteImage bib0 ''p'' False 1 bd1 = (Inl (BadRequestException ''Error procesando imagen'' []), s') \<and>
     find_id fi_id 7 (fichas s') = Some (ficha0\<lparr>imagen_satelital := Some sat0\<rparr>) \<and> is_url sat0 \<notin> set (disco s')"
proof (rule satellite_image_lost)
  show "bi_oid bib0 ''p'' = Some 7" by (simp add: bib0_def)
  show "find_id fi_id 7 (fichas bd1) = Some (ficha0\<lparr>imagen_satelital := Some sat0\<rparr>)"
    by (simp add: bd1_def col_simps id0)
  show "imagen_satelital (ficha0\<lparr>imagen_satelital := Some sat0\<rparr>) = Some sat0" by simp
  show "is_url sat0 = ruta ''p'' T_satellite ''original'' (is_nombre sat0)" by (simp add: sat0_def)
  show "bi_meta bib0 False = None" by (simp add: bib0_def)
qed

end
