(* ===== verification/Pagination.thy ===== *)
theory Pagination
  imports Store TextParsing
begin

text \<open>
  \<^verbatim>\<open>src/common/pagination/pagination.service.ts\<close>, the search that every list of the program goes
  through: a request becomes a condition of the database, and the answer is a page of the documents that
  meet it. The database is the record \<open>motor\<close>: how an atomic condition is met by a document, the sort,
  the models it has registered, the failures of a population and the texts that are ids; and so is the
  check of a pattern by the regular expressions. Conjunction, disjunction, limit and skip are written
  out. The failure of the cast of a condition by the schema of the collection is in the record too.
  Populated references are not followed.
\<close>

section \<open>Texts\<close>

text \<open>\<^verbatim>\<open>term.replace(/x/gi, r)\<close> for a letter \<^verbatim>\<open>x\<close>.\<close>

definition reemplazar_i :: "char \<Rightarrow> string \<Rightarrow> string \<Rightarrow> string" where
  "reemplazar_i x r t = concat (map (\<lambda>c. if minuscula c = x then r else [c]) t)"

definition accentInsensitive :: "string \<Rightarrow> string" where
  "accentInsensitive t =
     reemplazar_i CHR ''u'' [CHR ''['', CHR ''u'', CHR 0xFA, CHR 0xFC, CHR '']'']
      (reemplazar_i CHR ''o'' [CHR ''['', CHR ''o'', CHR 0xF3, CHR '']'']
      (reemplazar_i CHR ''i'' [CHR ''['', CHR ''i'', CHR 0xED, CHR '']'']
      (reemplazar_i CHR ''e'' [CHR ''['', CHR ''e'', CHR 0xE9, CHR '']'']
      (reemplazar_i CHR ''a'' [CHR ''['', CHR ''a'', CHR 0xE1, CHR '']''] t))))"

text \<open>\<^verbatim>\<open>text.split(',').map(trim)\<close>.\<close>

fun partir :: "char \<Rightarrow> string \<Rightarrow> string list" where
  "partir x [] = [[]]"
| "partir x (c # t) = (if c = x then [] # partir x t
     else (case partir x t of [] \<Rightarrow> [[c]] | w # ws \<Rightarrow> (c # w) # ws))"

definition campos_de :: "string \<Rightarrow> string list" where
  "campos_de t = map recortar (partir CHR '','' t)"

text \<open>\<^verbatim>\<open>Number(text)\<close>: a decimal with sign and exponent, a hexadecimal, octal or binary numeral, \<^verbatim>\<open>Infinity\<close>; the
  empty text is 0 and \<open>None\<close> is \<^verbatim>\<open>NaN\<close>.\<close>

datatype numero_js = Finito rat | Infinito bool

definition digito_base :: "nat \<Rightarrow> char \<Rightarrow> nat option" where
  "digito_base b c = (let n = cod (minuscula c);
      v = (if 48 \<le> n \<and> n \<le> 57 then n - 48 else if 97 \<le> n \<and> n \<le> 122 then n - 87 else b)
    in if v < b then Some v else None)"

definition valor_base :: "nat \<Rightarrow> string \<Rightarrow> rat option" where
  "valor_base b t = (if t = [] \<or> (\<exists>c \<in> set t. digito_base b c = None) then None
     else Some (of_nat (foldl (\<lambda>a c. a * b + the (digito_base b c)) 0 t)))"

definition con_signo :: "string \<Rightarrow> bool \<times> string" where
  "con_signo t = (case t of c # u \<Rightarrow> if c = CHR ''-'' then (True, u) else if c = CHR ''+'' then (False, u) else (False, t)
     | [] \<Rightarrow> (False, []))"

definition exponente :: "string \<Rightarrow> int option" where
  "exponente t = (case t of [] \<Rightarrow> Some 0
     | c # u \<Rightarrow> if minuscula c \<noteq> CHR ''e'' then None
         else let (neg, ds) = con_signo u in
              if ds \<noteq> [] \<and> list_all RegExp.digito ds then Some (if neg then - int (valor_cifras ds) else int (valor_cifras ds)) else None)"

definition decimal_js :: "string \<Rightarrow> numero_js option" where
  "decimal_js t =
     (let (neg, u) = con_signo t; sg = (if neg then -1 else 1) in
      if u = ''Infinity'' then Some (Infinito neg)
      else let ent = takeWhile RegExp.digito u; r = dropWhile RegExp.digito u;
               (frac, q) = (case r of c # v \<Rightarrow> if c = CHR ''.'' then (takeWhile RegExp.digito v, dropWhile RegExp.digito v) else ([], r)
                            | [] \<Rightarrow> ([], []))
           in if ent = [] \<and> frac = [] then None
              else (case exponente q of None \<Rightarrow> None
                | Some e \<Rightarrow> Some (Finito (sg * (of_nat (valor_cifras (ent @ frac)) / 10 ^ length frac) *
                      (if 0 \<le> e then 10 ^ nat e else 1 / 10 ^ nat (- e))))))"

definition a_numero :: "string \<Rightarrow> numero_js option" where
  "a_numero s =
     (case recortar s of
        [] \<Rightarrow> Some (Finito 0)
      | c # d # t \<Rightarrow>
          if c = CHR ''0'' \<and> minuscula d = CHR ''x'' then map_option Finito (valor_base 16 t)
          else if c = CHR ''0'' \<and> minuscula d = CHR ''o'' then map_option Finito (valor_base 8 t)
          else if c = CHR ''0'' \<and> minuscula d = CHR ''b'' then map_option Finito (valor_base 2 t)
          else decimal_js (c # d # t)
      | t \<Rightarrow> decimal_js t)"

section \<open>Conditions\<close>

datatype valor_bd = V_Num numero_js | V_NaN | V_Texto string | V_Id oid | V_Ids "oid list" | V_Nulo | V_Bool bool

datatype comparacion = Igual | Casa | Mayor | Menor | MayorIgual | MenorIgual | En

datatype condicion =
    Campo string comparacion valor_bd
  | Todas "condicion list"
  | Alguna "condicion list"

fun cumple :: "(string \<Rightarrow> comparacion \<Rightarrow> valor_bd \<Rightarrow> 'd \<Rightarrow> bool) \<Rightarrow> condicion \<Rightarrow> 'd \<Rightarrow> bool" where
  "cumple ato (Campo f c v) d = ato f c v d"
| "cumple ato (Todas cs) d = list_all (\<lambda>c. cumple ato c d) cs"
| "cumple ato (Alguna cs) d = list_ex (\<lambda>c. cumple ato c d) cs"

datatype operacion =
    EQUALS | CONTAINS | GREATER_THAN | LESS_THAN | GREATER_THAN_OR_EQUAL | LESS_THAN_OR_EQUAL | OTRA string

record criterio =
  cr_field :: string
  cr_term :: string
  cr_operation :: operacion

record pedido_pagina =
  pp_pageSize :: "nat option"
  pp_page :: "nat option"
  pp_sort :: string
  pp_search :: "criterio list"
  pp_populate :: string

record ('s, 'd) motor =
  mo_patron :: "string \<Rightarrow> bool"
  mo_oid :: "string \<Rightarrow> oid option"
  mo_modelo :: "string \<Rightarrow> ('s \<Rightarrow> string \<Rightarrow> string \<Rightarrow> oid list) option"
  mo_atomo :: "string \<Rightarrow> comparacion \<Rightarrow> valor_bd \<Rightarrow> 'd \<Rightarrow> bool"
  mo_castea :: "condicion \<Rightarrow> excepcion option"
  mo_ordena :: "(string \<times> bool) option \<Rightarrow> 'd list \<Rightarrow> 'd list"
  mo_poblar :: "string \<Rightarrow> string option \<Rightarrow> excepcion option"

text \<open>\<^verbatim>\<open>new RegExp(accentInsensitive(term), 'i')\<close>.\<close>

definition patron_de :: "('s, 'd) motor \<Rightarrow> string \<Rightarrow> ('s, string) proc" where
  "patron_de mo t = (let p = accentInsensitive t in
     if mo_patron mo p then ret p else raise (ErrorJS ''SyntaxError'' [AStr p]))"

definition palabra :: "char \<Rightarrow> bool" where
  "palabra c \<longleftrightarrow> RegExp.digito c \<or> letra_i c \<or> c = CHR ''_''"

text \<open>\<^verbatim>\<open>/(\w+)\[(\w+)\]/\<close>.\<close>

definition campo_poblado :: "string \<Rightarrow> (string \<times> string) option" where
  "campo_poblado f =
     (case buscar (secuencia [Grupo 1 (al_menos 1 (Clase palabra)), lit ''['', Grupo 2 (al_menos 1 (Clase palabra)), lit '']'']) f of
        None \<Rightarrow> None
      | Some m \<Rightarrow> Some (the (grupo 1 m), the (grupo 2 m)))"

text \<open>A search in the documents of another collection; no document found leaves a condition no document meets.\<close>

definition por_modelo ::
  "('s, 'd) motor \<Rightarrow> string \<Rightarrow> string \<Rightarrow> string \<Rightarrow> string \<Rightarrow> ('s, condicion) proc" where
  "por_modelo mo modelo texto campo t =
     (case mo_modelo mo modelo of
        None \<Rightarrow> raise (ErrorJS ''MissingSchemaError'' [AStr modelo])
      | Some buscados \<Rightarrow>
          ebind (patron_de mo t) (\<lambda>p.
          gets (\<lambda>s. let ids = buscados s texto p
                    in if ids = [] then Campo ''_id'' Igual V_Nulo else Campo campo En (V_Ids ids))))"

definition termino :: "('s, 'd) motor \<Rightarrow> string \<Rightarrow> string \<Rightarrow> valor_bd" where
  "termino mo f t =
     (case (if suffix ''_id'' f then mo_oid mo t else None) of
        Some i \<Rightarrow> V_Id i
      | None \<Rightarrow> (case a_numero t of
          Some x \<Rightarrow> if recortar t \<noteq> [] then V_Num x else V_Texto t
        | None \<Rightarrow> V_Texto t))"

definition condicion_simple :: "('s, 'd) motor \<Rightarrow> string \<Rightarrow> operacion \<Rightarrow> string \<Rightarrow> ('s, condicion) proc" where
  "condicion_simple mo f opr t =
     (case opr of
        EQUALS \<Rightarrow> ret (Campo f Igual (termino mo f t))
      | CONTAINS \<Rightarrow> ebind (patron_de mo t) (\<lambda>p. ret (Campo f Casa (V_Texto p)))
      | GREATER_THAN \<Rightarrow> ret (Campo f Mayor (V_Texto t))
      | LESS_THAN \<Rightarrow> ret (Campo f Menor (V_Texto t))
      | GREATER_THAN_OR_EQUAL \<Rightarrow> ret (Campo f MayorIgual (V_Texto t))
      | LESS_THAN_OR_EQUAL \<Rightarrow> ret (Campo f MenorIgual (V_Texto t))
      | OTRA _ \<Rightarrow> (case campo_poblado f of
            Some (a, b) \<Rightarrow> ret (Campo (a @ ''.'' @ b) Igual (V_Texto t))
          | None \<Rightarrow> ret (Campo f Igual (V_Texto t))))"

definition condicion_de :: "('s, 'd) motor \<Rightarrow> criterio \<Rightarrow> ('s, condicion) proc" where
  "condicion_de mo k =
     (let fs = campos_de (cr_field k); t = cr_term k; opr = cr_operation k in
      if 1 < length fs
      then ebind (for_each (\<lambda>f. if opr = CONTAINS then ebind (patron_de mo t) (\<lambda>p. ret (Campo f Casa (V_Texto p)))
                                else ret (Campo f Igual (V_Texto t))) fs) (\<lambda>cs. ret (Alguna cs))
      else let f = hd fs in
           if campo_poblado f = Some (''owners'', ''fullName'') \<and> opr = CONTAINS
           then por_modelo mo ''Party'' ''fullName'' ''owners'' t
           else if f = ''caracteristicas.amenities'' \<and> opr = CONTAINS
           then por_modelo mo ''Amenity'' ''nombre'' ''caracteristicas.amenities'' t
           else condicion_simple mo f opr t)"

text \<open>The filter of the caller, absent when it is empty, and the criteria.\<close>

definition consulta_final :: "condicion option \<Rightarrow> condicion list \<Rightarrow> condicion" where
  "consulta_final filtro cs =
     (case filtro of
        Some b \<Rightarrow> if cs \<noteq> [] then Todas (b # cs) else b
      | None \<Rightarrow> Todas cs)"

section \<open>Pages\<close>

definition fieldToModelMap :: "string \<Rightarrow> string option" where
  "fieldToModelMap f = map_of [(''owners'', ''Party''), (''tenant'', ''Party''), (''province'', ''Province''),
     (''locality'', ''Locality''), (''user'', ''User'')] f"

definition fieldAliasMap :: "string \<Rightarrow> string option" where
  "fieldAliasMap f = map_of [(''propiedad'', ''propiedad_id''), (''agente'', ''agente_id''), (''contrato'', ''contrato_id''),
     (''usuario'', ''usuario_id'')] f"

definition orden_de :: "string \<Rightarrow> (string \<times> bool) option" where
  "orden_de t = (case t of [] \<Rightarrow> None | c # u \<Rightarrow> if c = CHR ''-'' then Some (u, True) else Some (t, False))"

text \<open>The first population that fails.\<close>

definition fallo_poblar :: "('s, 'd) motor \<Rightarrow> string \<Rightarrow> excepcion option" where
  "fallo_poblar mo t =
     (if t = [] then None
      else (case List.map_filter (\<lambda>f. mo_poblar mo (coalesce (fieldAliasMap f) f) (fieldToModelMap f)) (campos_de t) of
          [] \<Rightarrow> None
        | e # _ \<Rightarrow> Some e))"

text \<open>A limit of zero is no limit, and the number of pages is then not finite.\<close>

definition limitar :: "nat \<Rightarrow> 'd list \<Rightarrow> 'd list" where
  "limitar n ds = (if n = 0 then ds else take n ds)"

record 'd pagina_docs =
  pd_totalItems :: nat
  pd_totalPages :: "int option"
  pd_items :: "'d list"

definition paginate ::
  "('s, 'd) motor \<Rightarrow> ('s \<Rightarrow> 'd list) \<Rightarrow> pedido_pagina \<Rightarrow> condicion option \<Rightarrow> ('s, 'd pagina_docs) proc" where
  "paginate mo docs dto filtro =
     (let tam = coalesce (pp_pageSize dto) 10; page = coalesce (pp_page dto) 0 in
      ebind (for_each (condicion_de mo) (pp_search dto)) (\<lambda>cs.
      case fallo_poblar mo (pp_populate dto) of
        Some e \<Rightarrow> raise e
      | None \<Rightarrow>
          (case mo_castea mo (consulta_final filtro cs) of
             Some e \<Rightarrow> raise e
           | None \<Rightarrow> gets (\<lambda>s.
               let ds = filter (cumple (mo_atomo mo) (consulta_final filtro cs)) (docs s)
               in \<lparr>pd_totalItems = length ds, pd_totalPages = (if tam = 0 then None else Some (total_paginas (length ds) tam)),
                   pd_items = limitar tam (drop (page * tam) (mo_ordena mo (orden_de (pp_sort dto)) ds))\<rparr>))))"

end
