(* ===== verification/PublicSite.thy ===== *)
theory PublicSite
  imports Pagination PropertyFiles
begin

text \<open>
  \<^verbatim>\<open>src/modules/properties/public-properties.service.ts\<close>, the search of the public site, on the
  pagination and on the sheets of the properties. The request is a record of texts, as they come in the
  query of the address; the pages are natural numbers.
\<close>

record consulta_publica =
  cp_page :: "nat option"
  cp_pageSize :: "nat option"
  cp_sort :: string
  cp_type :: string
  cp_locality :: string
  cp_operation :: "string option"
  cp_north :: string
  cp_south :: string
  cp_east :: string
  cp_west :: string
  cp_q :: string
  cp_criteria :: "criterio list"

text \<open>The object \<^verbatim>\<open>filter\<close>: its plain fields, and its \<^verbatim>\<open>$or\<close> and \<^verbatim>\<open>$and\<close>.\<close>

record filtro_publico =
  fp_campos :: "condicion list"
  fp_or :: "condicion list option"
  fp_and :: "condicion list option"

definition condicion_filtro :: "filtro_publico \<Rightarrow> condicion" where
  "condicion_filtro f = Todas (fp_campos f @ (case fp_or f of None \<Rightarrow> [] | Some cs \<Rightarrow> [Alguna cs]) @
     (case fp_and f of None \<Rightarrow> [] | Some cs \<Rightarrow> [Todas cs]))"

definition en_venta :: condicion where
  "en_venta = Campo ''publicar_para_venta'' Igual (V_Bool True)"

definition en_alquiler :: condicion where
  "en_alquiler = Campo ''publicar_para_alquiler'' Igual (V_Bool True)"

definition numero_query :: "string \<Rightarrow> valor_bd" where
  "numero_query t = (case a_numero t of None \<Rightarrow> V_NaN | Some x \<Rightarrow> V_Num x)"

definition busqueda_texto :: "string \<Rightarrow> condicion list" where
  "busqueda_texto p = [Campo ''titulo'' Casa (V_Texto p), Campo ''descripcion'' Casa (V_Texto p),
     Campo ''direccion.calle'' Casa (V_Texto p)]"

definition filtro_base :: "('s, 'd) motor \<Rightarrow> consulta_publica \<Rightarrow> ('s, filtro_publico) proc" where
  "filtro_base mo q =
     ebind (if cp_locality q = [] then ret []
            else case mo_oid mo (cp_locality q) of
              None \<Rightarrow> raise (ErrorJS ''BSONError'' [AStr (cp_locality q)])
            | Some i \<Rightarrow> ret [Campo ''direccion.localidad_id'' Igual (V_Id i)]) (\<lambda>loc.
     let tipo = (if cp_type q = [] then [] else [Campo ''caracteristicas.tipo_propiedad'' Igual (V_Texto (cp_type q))]);
         oper = (if cp_operation q = Some ''sale'' then [en_venta]
                 else if cp_operation q = Some ''rent'' then [en_alquiler] else []);
         abierta = cp_operation q \<noteq> Some ''sale'' \<and> cp_operation q \<noteq> Some ''rent'';
         marco = (if cp_north q \<noteq> [] \<and> cp_south q \<noteq> [] \<and> cp_east q \<noteq> [] \<and> cp_west q \<noteq> []
                  then [Campo ''direccion.latitud'' MenorIgual (numero_query (cp_north q)),
                        Campo ''direccion.latitud'' MayorIgual (numero_query (cp_south q)),
                        Campo ''direccion.longitud'' MenorIgual (numero_query (cp_east q)),
                        Campo ''direccion.longitud'' MayorIgual (numero_query (cp_west q))] else [])
     in ret \<lparr>fp_campos = Campo ''status'' Igual (V_Texto ''DISPONIBLE'') # tipo @ loc @ oper @ marco,
             fp_or = (if abierta then Some [en_venta, en_alquiler] else None), fp_and = None\<rparr>)"

text \<open>The free text: joined to the choice of operation when the request has none, in its place otherwise.\<close>

definition filtro_texto :: "('s, 'd) motor \<Rightarrow> consulta_publica \<Rightarrow> filtro_publico \<Rightarrow> ('s, filtro_publico) proc" where
  "filtro_texto mo q f =
     (if cp_q q = [] then ret f
      else if \<not> mo_patron mo (cp_q q) then raise (ErrorJS ''SyntaxError'' [AStr (cp_q q)])
      else if cp_operation q = None
      then ret (f\<lparr>fp_or := None, fp_and := Some [Alguna [en_venta, en_alquiler], Alguna (busqueda_texto (cp_q q))]\<rparr>)
      else ret (f\<lparr>fp_or := Some (busqueda_texto (cp_q q))\<rparr>))"

definition fieldMapping :: "string \<Rightarrow> string" where
  "fieldMapping f = coalesce (map_of [(''locality'', ''direccion.localidad_id''), (''type'', ''caracteristicas.tipo_propiedad''),
     (''address'', ''direccion.calle''), (''specs'', ''caracteristicas.amenities'')] f) f"

record precio_publico =
  pr_amount :: monto
  pr_currency :: string

record propiedad_publica =
  pu_id :: oid
  pu_address :: string
  pu_type :: "string option"
  pu_valueForSale :: "precio_publico option"
  pu_valueForRent :: "precio_publico option"
  pu_imgCover :: "string option"
  pu_img :: "(string \<times> string) list"
  pu_location :: "rat option \<times> rat option"
  pu_detail :: "rat option \<times> rat option \<times> rat option \<times> rat option"
  pu_title :: "string option"
  pu_description :: "string option"
  pu_slug :: string
  pu_available :: bool
  pu_publishForSale :: bool
  pu_publishForRent :: bool

definition precio_mostrado :: "precio_detallado option \<Rightarrow> precio_publico option" where
  "precio_mostrado p = (case p of None \<Rightarrow> None
     | Some d \<Rightarrow> if pd_es_publico d then Some \<lparr>pr_amount = pd_monto d, pr_currency = pd_moneda d\<rparr> else None)"

definition mapToPublicSchema :: "ficha \<Rightarrow> propiedad_publica" where
  "mapToPublicSchema d =
     (let dir = fi_direccion d; car = fi_caracteristicas d in
      \<lparr>pu_id = fi_id d,
       pu_address = recortar (coalesce (Option.bind dir df_calle) [] @ '' '' @ coalesce (Option.bind dir df_numero) []),
       pu_type = Option.bind car ca_tipo,
       pu_valueForSale = precio_mostrado (valor_venta_detallado d),
       pu_valueForRent = precio_mostrado (valor_alquiler_detallado d),
       pu_imgCover = (case img_cover_url d of None \<Rightarrow> None | Some u \<Rightarrow> if u = [] then None else Some u),
       pu_img = map (\<lambda>m. (im_nombre m, im_url m)) (imagenes d),
       pu_location = (Option.bind dir df_latitud, Option.bind dir df_longitud),
       pu_detail = (Option.bind car ca_ambientes, Option.bind car ca_dormitorios, Option.bind car ca_banos,
                    Option.bind car ca_metraje_cubierto),
       pu_title = fi_titulo d, pu_description = fi_descripcion d, pu_slug = fi_identificador d,
       pu_available = (fi_status d = ''DISPONIBLE''), pu_publishForSale = publicar_para_venta d,
       pu_publishForRent = publicar_para_alquiler d\<rparr>)"

record pagina_publica =
  pg_items :: "propiedad_publica list"
  pg_totalItems :: nat
  pg_itemCount :: nat
  pg_itemsPerPage :: nat
  pg_totalPages :: "int option"
  pg_currentPage :: nat

definition findAllPublic ::
  "('a bd_fichas_scheme, ficha) motor \<Rightarrow> consulta_publica \<Rightarrow> ('a bd_fichas_scheme, pagina_publica) proc" where
  "findAllPublic mo q =
     ebind (filtro_base mo q) (\<lambda>f0.
     ebind (filtro_texto mo q f0) (\<lambda>f.
     let page = coalesce (cp_page q) 0; tam = coalesce (cp_pageSize q) 10 in
     ebind (paginate mo fichas
         \<lparr>pp_pageSize = Some tam, pp_page = Some page,
          pp_sort = (if cp_sort q = [] then ''createdAt:desc'' else cp_sort q),
          pp_search = map (\<lambda>k. k\<lparr>cr_field := fieldMapping (cr_field k)\<rparr>) (cp_criteria q), pp_populate = []\<rparr>
         (Some (condicion_filtro f))) (\<lambda>r.
     ret \<lparr>pg_items = map mapToPublicSchema (pd_items r), pg_totalItems = pd_totalItems r,
          pg_itemCount = length (pd_items r), pg_itemsPerPage = (if tam = 0 then 10 else tam),
          pg_totalPages = pd_totalPages r, pg_currentPage = page\<rparr>)))"

end
