(* ===== verification/PublicSiteProperties.thy ===== *)
theory PublicSiteProperties
  imports PublicSite "HOL-Library.Multiset"
begin

text \<open>
  The search: what the pages of a list hold, what the search without accents finds, and what the public
  site shows.
\<close>

section \<open>Pages\<close>

lemma patron_de_run: "patron_de mo t s = (if mo_patron mo (accentInsensitive t) then Inr (accentInsensitive t)
    else Inl (ErrorJS ''SyntaxError'' [AStr (accentInsensitive t)]), s)"
  by (simp add: patron_de_def Let_def proc_simps)

definition quieto :: "('s, 'a) proc \<Rightarrow> bool" where
  "quieto m \<longleftrightarrow> (\<forall>s. snd (m s) = s)"

lemma quietoD: "quieto m \<Longrightarrow> m s = (r, s') \<Longrightarrow> s' = s"
  by (auto simp: quieto_def dest: spec [of _ s])

lemma quieto_simps [simp]: "quieto (ret x)" "quieto (raise e)" "quieto (gets f)" "quieto (patron_de mo t)"
  by (simp_all add: quieto_def proc_simps patron_de_run)

lemma quieto_ebind [intro]: "quieto m \<Longrightarrow> (\<And>x. quieto (k x)) \<Longrightarrow> quieto (ebind m k)"
  by (auto simp: quieto_def ebind_def split: prod.split sum.split) (metis snd_conv)+

lemma quieto_for_each [intro]: "(\<And>x. quieto (m x)) \<Longrightarrow> quieto (for_each m xs)"
  by (induction xs) (auto intro!: quieto_ebind)

lemma quieto_condicion [simp]: "quieto (condicion_de mo k)"
  unfolding condicion_de_def por_modelo_def condicion_simple_def Let_def
  by (auto split: operacion.split option.split intro!: quieto_ebind quieto_for_each)

text \<open>A page of a search, and the pages together.\<close>

definition hallados :: "('s, 'd) motor \<Rightarrow> ('s \<Rightarrow> 'd list) \<Rightarrow> condicion option \<Rightarrow> condicion list \<Rightarrow> 's \<Rightarrow> 'd list" where
  "hallados mo docs filtro cs s = filter (cumple (mo_atomo mo) (consulta_final filtro cs)) (docs s)"

lemma paginate_run:
  assumes "for_each (condicion_de mo) (pp_search dto) s = (Inr cs, s1)"
    and "fallo_poblar mo (pp_populate dto) = None" and "mo_castea mo (consulta_final filtro cs) = None"
  shows "paginate mo docs dto filtro s =
    (let ds = hallados mo docs filtro cs s; n = coalesce (pp_pageSize dto) 10; k = coalesce (pp_page dto) 0
     in (Inr \<lparr>pd_totalItems = length ds, pd_totalPages = (if n = 0 then None else Some (total_paginas (length ds) n)),
              pd_items = limitar n (drop (k * n) (mo_ordena mo (orden_de (pp_sort dto)) ds))\<rparr>, s))"
proof -
  have "s1 = s" using quietoD [OF quieto_for_each assms(1)] by simp
  with assms show ?thesis by (simp add: paginate_def ebind_def Let_def gets_run hallados_def)
qed

lemma paginate_pages:
  assumes "for_each (condicion_de mo) (pp_search dto) s = (Inr cs, s1)" and "0 < n"
    and "fallo_poblar mo (pp_populate dto) = None" and "mo_castea mo (consulta_final filtro cs) = None"
    and "\<And>k ds. mset (mo_ordena mo k ds) = mset ds"
  shows "concat (map (\<lambda>k. pd_items (valor (paginate mo docs (dto\<lparr>pp_pageSize := Some n, pp_page := Some k\<rparr>) filtro) s))
      [0..<nat (total_paginas (length (hallados mo docs filtro cs s)) n)]) =
    mo_ordena mo (orden_de (pp_sort dto)) (hallados mo docs filtro cs s)"
proof -
  let ?ds = "hallados mo docs filtro cs s"
  let ?xs = "mo_ordena mo (orden_de (pp_sort dto)) ?ds"
  have l: "length ?xs = length ?ds" using assms(5) mset_eq_length by blast
  have "pd_items (valor (paginate mo docs (dto\<lparr>pp_pageSize := Some n, pp_page := Some k\<rparr>) filtro) s) = pagina k n ?xs" for k
    using paginate_run [of mo "dto\<lparr>pp_pageSize := Some n, pp_page := Some k\<rparr>" s cs s1 filtro docs] assms(1-4)
    by (simp add: valor_def Let_def limitar_def pagina_def)
  then show ?thesis using concat_paginas [OF assms(2), of ?xs] l by simp
qed

section \<open>The search without accents\<close>

text \<open>The regular expressions that \<open>accentInsensitive\<close> makes of plain texts: letters and classes of letters,
  without regard to case.\<close>

definition iguales_i :: "string \<Rightarrow> char \<Rightarrow> bool" where
  "iguales_i ds c \<longleftrightarrow> minuscula c \<in> minuscula ` set ds"

fun clases :: "string option \<Rightarrow> string \<Rightarrow> (char \<Rightarrow> bool) list option" where
  "clases None [] = Some []"
| "clases (Some ds) [] = None"
| "clases None (c # t) =
     (if c = CHR ''['' then clases (Some []) t
      else if c \<in> set (CHR 0x5C # ''^$.|?*+(){}]'') then None
      else map_option ((#) (iguales_i [c])) (clases None t))"
| "clases (Some ds) (c # t) =
     (if c = CHR '']'' then map_option ((#) (iguales_i ds)) (clases None t)
      else if c \<in> set (CHR 0x5C # ''^-'') then None else clases (Some (ds @ [c])) t)"

definition regexp_i :: "string \<Rightarrow> string \<Rightarrow> bool" where
  "regexp_i p x = (case clases None p of None \<Rightarrow> False | Some cs \<Rightarrow> buscar (secuencia (map Clase cs)) x \<noteq> None)"

lemma prefijo_Cons:
  "(\<exists>w r. c # t = w @ r \<and> list_all2 (\<lambda>P c. P c) (P # Ps) w) \<longleftrightarrow> P c \<and> (\<exists>w r. t = w @ r \<and> list_all2 (\<lambda>P c. P c) Ps w)"
proof
  assume "\<exists>w r. c # t = w @ r \<and> list_all2 (\<lambda>P c. P c) (P # Ps) w"
  then obtain w r z zs where "c # t = w @ r" "w = z # zs" "P z" "list_all2 (\<lambda>P c. P c) Ps zs"
    by (auto simp: list_all2_Cons1)
  then show "P c \<and> (\<exists>w r. t = w @ r \<and> list_all2 (\<lambda>P c. P c) Ps w)" by auto
next
  assume "P c \<and> (\<exists>w r. t = w @ r \<and> list_all2 (\<lambda>P c. P c) Ps w)"
  then obtain w r where "P c" "t = w @ r" "list_all2 (\<lambda>P c. P c) Ps w" by blast
  then show "\<exists>w r. c # t = w @ r \<and> list_all2 (\<lambda>P c. P c) (P # Ps) w"
    by (intro exI [of _ "c # w"] exI [of _ r]) simp
qed

lemma casar_clases:
  "casar (secuencia (map Clase ps)) (\<lambda>s' cs'. Some (s', cs')) x cs \<noteq> None \<longleftrightarrow>
     (\<exists>w r. x = w @ r \<and> list_all2 (\<lambda>P c. P c) ps w)"
proof (induction ps arbitrary: x cs rule: induct_list012)
  case 1
  then show ?case by simp
next
  case (2 P)
  have "P c \<Longrightarrow> \<exists>w r. c # t = w @ r \<and> list_all2 (\<lambda>P c. P c) [P] w" for c t
    by (intro exI [of _ "[c]"] exI [of _ t]) simp
  then show ?case by (cases x) (auto simp: list_all2_Cons1)
next
  case (3 P Q ps)
  show ?case
  proof (cases x)
    case Nil
    then show ?thesis by (auto simp: list_all2_Cons1)
  next
    case (Cons c t)
    have "casar (secuencia (map Clase (P # Q # ps))) (\<lambda>s' cs'. Some (s', cs')) (c # t) cs =
        (if P c then casar (secuencia (map Clase (Q # ps))) (\<lambda>s' cs'. Some (s', cs')) t cs else None)" by simp
    with "3.IH"(2) [of t cs] show ?thesis unfolding Cons prefijo_Cons by simp
  qed
qed

lemma buscar_clases:
  "buscar (secuencia (map Clase ps)) x \<noteq> None \<longleftrightarrow> (\<exists>a w b. x = a @ w @ b \<and> list_all2 (\<lambda>P c. P c) ps w)"
proof (induction x)
  case Nil
  then show ?case using casar_clases [of ps "[]" "[]"] by (auto split: option.split)
next
  case (Cons c t)
  show ?case
  proof (cases "casar (secuencia (map Clase ps)) (\<lambda>s' cs'. Some (s', cs')) (c # t) []")
    case None
    then have "\<nexists>w r. c # t = w @ r \<and> list_all2 (\<lambda>P c. P c) ps w" using casar_clases [of ps "c # t" "[]"] by simp
    then have "(\<exists>a w b. c # t = a @ w @ b \<and> list_all2 (\<lambda>P c. P c) ps w) \<longleftrightarrow>
        (\<exists>a w b. t = a @ w @ b \<and> list_all2 (\<lambda>P c. P c) ps w)"
      by (metis append_Cons append_Nil list.exhaust list.inject)
    with None Cons.IH show ?thesis by simp
  next
    case (Some y)
    then have "\<exists>w r. c # t = w @ r \<and> list_all2 (\<lambda>P c. P c) ps w" using casar_clases [of ps "c # t" "[]"] by simp
    then have "\<exists>a w b. c # t = a @ w @ b \<and> list_all2 (\<lambda>P c. P c) ps w" by (metis append_Nil)
    with Some show ?thesis by (cases y) simp
  qed
qed

lemma regexp_i_clases:
  "clases None p = Some ps \<Longrightarrow> regexp_i p x \<longleftrightarrow> (\<exists>a w b. x = a @ w @ b \<and> list_all2 (\<lambda>P c. P c) ps w)"
  by (simp only: regexp_i_def option.case buscar_clases)

text \<open>The letters that the substitution knows.\<close>

definition variantes :: "char \<Rightarrow> string" where
  "variantes c = (let m = minuscula c in
     if m = CHR ''a'' then [CHR ''a'', CHR 0xE1] else if m = CHR ''e'' then [CHR ''e'', CHR 0xE9]
     else if m = CHR ''i'' then [CHR ''i'', CHR 0xED] else if m = CHR ''o'' then [CHR ''o'', CHR 0xF3]
     else if m = CHR ''u'' then [CHR ''u'', CHR 0xFA, CHR 0xFC] else [c])"

definition vocal :: "char \<Rightarrow> bool" where
  "vocal c \<longleftrightarrow> minuscula c \<in> set ''aeiou''"

lemma accentInsensitive_concat:
  "accentInsensitive t = concat (map (\<lambda>c. if vocal c then CHR ''['' # variantes c @ '']'' else [c]) t)"
proof (induction t)
  case Nil
  then show ?case by (simp add: accentInsensitive_def reemplazar_i_def)
next
  case (Cons c t)
  have "accentInsensitive (c # t) = accentInsensitive [c] @ accentInsensitive t"
    by (simp add: accentInsensitive_def reemplazar_i_def)
  moreover have "accentInsensitive [c] = (if vocal c then CHR ''['' # variantes c @ '']'' else [c])"
    by (cases "minuscula c = CHR ''a''"; cases "minuscula c = CHR ''e''"; cases "minuscula c = CHR ''i''";
        cases "minuscula c = CHR ''o''"; cases "minuscula c = CHR ''u''")
       (simp_all add: accentInsensitive_def reemplazar_i_def vocal_def variantes_def minuscula_def cod_def)
  ultimately show ?case using Cons.IH by simp
qed

lemma clases_variantes:
  "vocal c \<Longrightarrow> clases None (CHR ''['' # variantes c @ CHR '']'' # p) = map_option ((#) (iguales_i (variantes c))) (clases None p)"
  by (auto simp: vocal_def variantes_def)

definition simple :: "char \<Rightarrow> bool" where
  "simple c \<longleftrightarrow> c \<notin> set (CHR 0x5C # ''^$.|?*+(){}[]'')"

lemma clases_termino:
  "\<forall>c \<in> set t. simple c \<Longrightarrow> clases None (accentInsensitive t) = Some (map (\<lambda>c. iguales_i (variantes c)) t)"
proof (induction t)
  case Nil
  then show ?case by (simp add: accentInsensitive_concat)
next
  case (Cons c t)
  then have IH: "clases None (accentInsensitive t) = Some (map (\<lambda>c. iguales_i (variantes c)) t)" by simp
  show ?case
  proof (cases "vocal c")
    case True
    with IH clases_variantes [OF True] show ?thesis by (simp add: accentInsensitive_concat)
  next
    case False
    then have "variantes c = [c]" by (auto simp: vocal_def variantes_def Let_def)
    with False IH Cons.prems show ?thesis by (simp add: accentInsensitive_concat simple_def)
  qed
qed

text \<open>A letter without its accent and its case.\<close>

definition pliegue :: "char \<Rightarrow> char" where
  "pliegue c = (let m = minuscula c in
     if m = CHR 0xE1 then CHR ''a'' else if m = CHR 0xE9 then CHR ''e'' else if m = CHR 0xED then CHR ''i''
     else if m = CHR 0xF3 then CHR ''o'' else if m = CHR 0xFA \<or> m = CHR 0xFC then CHR ''u'' else m)"

definition llana :: "char \<Rightarrow> bool" where
  "llana c \<longleftrightarrow> simple c \<and> minuscula c \<notin> {CHR 0xE1, CHR 0xE9, CHR 0xED, CHR 0xF3, CHR 0xFA, CHR 0xFC}"

lemma minuscula_base:
  "minuscula CHR ''a'' = CHR ''a''" "minuscula CHR ''e'' = CHR ''e''" "minuscula CHR ''i'' = CHR ''i''"
  "minuscula CHR ''o'' = CHR ''o''" "minuscula CHR ''u'' = CHR ''u''" "minuscula CHR 0xE1 = CHR 0xE1"
  "minuscula CHR 0xE9 = CHR 0xE9" "minuscula CHR 0xED = CHR 0xED" "minuscula CHR 0xF3 = CHR 0xF3"
  "minuscula CHR 0xFA = CHR 0xFA" "minuscula CHR 0xFC = CHR 0xFC"
  by (simp_all add: minuscula_def cod_def)

lemma iguales_pliegue: "llana c \<Longrightarrow> iguales_i (variantes c) d \<longleftrightarrow> pliegue c = pliegue d"
  by (auto simp: llana_def iguales_i_def variantes_def pliegue_def Let_def minuscula_base)

lemma list_all2_pliegue:
  "\<forall>c \<in> set t. llana c \<Longrightarrow> list_all2 (\<lambda>P d. P d) (map (\<lambda>c. iguales_i (variantes c)) t) w \<longleftrightarrow> map pliegue t = map pliegue w"
  by (induction t arbitrary: w) (auto simp: list_all2_Cons1 iguales_pliegue Cons_eq_map_conv)

text \<open>C38: a search by a text of letters, digits and blanks without accents finds exactly the texts that
  contain it when accents and capitals are set aside. An accent in the search is not set aside: a text
  that has the plain letter is not found.\<close>

theorem accent_search:
  assumes "\<forall>c \<in> set t. llana c"
  shows "(regexp_i (accentInsensitive t) x \<longleftrightarrow> sublist (map pliegue t) (map pliegue x)) \<and>
    \<not> regexp_i (accentInsensitive (t @ [CHR 0xE9])) (t @ ''e'')"
proof
  have "clases None (accentInsensitive t) = Some (map (\<lambda>c. iguales_i (variantes c)) t)"
    using assms by (intro clases_termino) (simp add: llana_def)
  then have "regexp_i (accentInsensitive t) x \<longleftrightarrow> (\<exists>a w b. x = a @ w @ b \<and> map pliegue t = map pliegue w)"
    using list_all2_pliegue [OF assms] by (simp only: regexp_i_clases)
  also have "\<dots> \<longleftrightarrow> sublist (map pliegue t) (map pliegue x)"
    by (auto simp: sublist_def append_eq_map_conv map_eq_append_conv) (metis map_append)+
  finally show "regexp_i (accentInsensitive t) x \<longleftrightarrow> sublist (map pliegue t) (map pliegue x)" .
  let ?u = "t @ [CHR 0xE9]"
  have "clases None (accentInsensitive ?u) = Some (map (\<lambda>c. iguales_i (variantes c)) ?u)"
    using assms by (intro clases_termino) (auto simp: llana_def simple_def)
  moreover have False if "t @ ''e'' = a @ w @ b" "list_all2 (\<lambda>P d. P d) (map (\<lambda>c. iguales_i (variantes c)) ?u) w" for a w b
  proof -
    have "length w = length t + 1" using list_all2_lengthD [OF that(2)] by simp
    moreover have "length (t @ ''e'') = length (a @ w @ b)" using that(1) by (rule arg_cong)
    ultimately have "a = []" "b = []" by simp_all
    with that have "list_all2 (\<lambda>P d. P d) (map (\<lambda>c. iguales_i (variantes c)) ?u) (t @ ''e'')" by simp
    then have "iguales_i (variantes CHR 0xE9) CHR ''e''" by (simp add: list_all2_append)
    then show False by (simp add: iguales_i_def variantes_def Let_def minuscula_base)
  qed
  ultimately show "\<not> regexp_i (accentInsensitive ?u) (t @ ''e'')"
    using regexp_i_clases by blast
qed

section \<open>The public site\<close>

text \<open>What is asked of the database: equality on the three fields that decide whether a property is shown, and
  a sort that keeps the documents.\<close>

definition motor_fichas :: "('s, ficha) motor \<Rightarrow> bool" where
  "motor_fichas mo \<longleftrightarrow> (\<forall>t d. mo_atomo mo ''status'' Igual (V_Texto t) d \<longleftrightarrow> fi_status d = t) \<and>
     (\<forall>b d. mo_atomo mo ''publicar_para_venta'' Igual (V_Bool b) d \<longleftrightarrow> publicar_para_venta d = b) \<and>
     (\<forall>b d. mo_atomo mo ''publicar_para_alquiler'' Igual (V_Bool b) d \<longleftrightarrow> publicar_para_alquiler d = b) \<and>
     (\<forall>k ds. mset (mo_ordena mo k ds) = mset ds)"

definition publicada :: "string option \<Rightarrow> ficha \<Rightarrow> bool" where
  "publicada opr d \<longleftrightarrow> (if opr = Some ''sale'' then publicar_para_venta d
     else if opr = Some ''rent'' then publicar_para_alquiler d
     else publicar_para_venta d \<or> publicar_para_alquiler d)"

lemma motor_ordena: "motor_fichas mo \<Longrightarrow> set (mo_ordena mo k ds) = set ds"
  unfolding motor_fichas_def by (metis set_mset_mset)

lemma filtro_base_Inr:
  assumes "filtro_base mo q s = (Inr f, s1)"
  shows "s1 = s \<and> fp_and f = None \<and>
     fp_or f = (if cp_operation q \<noteq> Some ''sale'' \<and> cp_operation q \<noteq> Some ''rent'' then Some [en_venta, en_alquiler] else None) \<and>
     Campo ''status'' Igual (V_Texto ''DISPONIBLE'') \<in> set (fp_campos f) \<and>
     (cp_operation q = Some ''sale'' \<longrightarrow> en_venta \<in> set (fp_campos f)) \<and>
     (cp_operation q = Some ''rent'' \<longrightarrow> en_alquiler \<in> set (fp_campos f))"
  using assms by (auto simp: filtro_base_def proc_simps Let_def split: if_splits option.splits)

lemma filtro_texto_Inr:
  "filtro_texto mo q f s = (Inr g, s1) \<Longrightarrow> s1 = s \<and> fp_campos g = fp_campos f \<and>
     (cp_q q = [] \<longrightarrow> g = f) \<and>
     (cp_q q \<noteq> [] \<and> cp_operation q = None \<longrightarrow> fp_and g = Some [Alguna [en_venta, en_alquiler], Alguna (busqueda_texto (cp_q q))])"
  by (auto simp: filtro_texto_def proc_simps split: if_splits)

text \<open>The filter lets through only what is available and, unless the free text takes its place, published.\<close>

lemma filtro_publica:
  assumes "motor_fichas mo" and "filtro_base mo q s = (Inr f0, s1)" and "filtro_texto mo q f0 s1 = (Inr f, s2)"
    and "cumple (mo_atomo mo) (condicion_filtro f) d"
  shows "fi_status d = ''DISPONIBLE''"
    and "cp_q q = [] \<or> cp_operation q \<in> {None, Some ''sale'', Some ''rent''} \<Longrightarrow> publicada (cp_operation q) d"
proof -
  note m = assms(1) [unfolded motor_fichas_def]
  note b = filtro_base_Inr [OF assms(2)] and t = filtro_texto_Inr [OF assms(3)]
  have campos: "cumple (mo_atomo mo) c d" if "c \<in> set (fp_campos f)" for c
    using assms(4) that by (auto simp: condicion_filtro_def list_all_iff)
  from campos [of "Campo ''status'' Igual (V_Texto ''DISPONIBLE'')"] b t m
  show "fi_status d = ''DISPONIBLE''" by simp
  assume q: "cp_q q = [] \<or> cp_operation q \<in> {None, Some ''sale'', Some ''rent''}"
  show "publicada (cp_operation q) d"
  proof (cases "cp_operation q = Some ''sale'' \<or> cp_operation q = Some ''rent''")
    case True
    then show ?thesis
      using campos [of en_venta] campos [of en_alquiler] b t m by (auto simp: publicada_def en_venta_def en_alquiler_def)
  next
    case False
    have "cumple (mo_atomo mo) (Alguna [en_venta, en_alquiler]) d"
    proof (cases "cp_q q = []")
      case True
      with False b t assms(4) show ?thesis by (auto simp: condicion_filtro_def)
    next
      case nonempty: False
      with q False have "cp_operation q = None" by auto
      with nonempty t assms(4) show ?thesis by (auto simp: condicion_filtro_def)
    qed
    with m False show ?thesis by (auto simp: publicada_def en_venta_def en_alquiler_def)
  qed
qed

lemma limitar_set: "set (limitar n (drop k xs)) \<subseteq> set xs"
  by (auto simp: limitar_def dest: in_set_takeD in_set_dropD)

lemma paginate_items:
  assumes "motor_fichas mo" and "paginate mo fichas dto (Some c) s = (Inr r, s')"
  shows "s' = s \<and> (\<forall>d \<in> set (pd_items r). d \<in> set (fichas s) \<and> cumple (mo_atomo mo) c d)"
proof -
  obtain cs s1 where k: "for_each (condicion_de mo) (pp_search dto) s = (Inr cs, s1)"
    and p: "fallo_poblar mo (pp_populate dto) = None" "mo_castea mo (consulta_final (Some c) cs) = None"
    using assms(2) by (auto simp: paginate_def proc_simps Let_def split: option.splits)
  obtain n j where i: "pd_items r = limitar n (drop j (mo_ordena mo (orden_de (pp_sort dto)) (hallados mo fichas (Some c) cs s)))"
    and s': "s' = s"
    using paginate_run [OF k p, of fichas] assms(2) by (auto simp: Let_def)
  have "set (pd_items r) \<subseteq> set (hallados mo fichas (Some c) cs s)"
    unfolding i using limitar_set motor_ordena [OF assms(1)] by metis
  with s' show ?thesis by (auto simp: hallados_def consulta_final_def split: if_splits)
qed

text \<open>C36: whatever is asked, an item of the public listing is a property of the collection that is available,
  and shows a price only where the property makes it public; and it is published for the operation asked,
  when the request has no free text or names an operation of the site or none.\<close>

theorem public_listing:
  assumes "motor_fichas mo" and "findAllPublic mo q s = (Inr r, s')" and "p \<in> set (pg_items r)"
  shows "\<exists>d \<in> set (fichas s). p = mapToPublicSchema d \<and> fi_status d = ''DISPONIBLE'' \<and>
     (pu_valueForSale p \<noteq> None \<longrightarrow> (\<exists>x. valor_venta_detallado d = Some x \<and> pd_es_publico x)) \<and>
     (pu_valueForRent p \<noteq> None \<longrightarrow> (\<exists>x. valor_alquiler_detallado d = Some x \<and> pd_es_publico x)) \<and>
     (cp_q q = [] \<or> cp_operation q \<in> {None, Some ''sale'', Some ''rent''} \<longrightarrow> publicada (cp_operation q) d)"
proof -
  obtain f0 s1 f s2 dto x s3 where f: "filtro_base mo q s = (Inr f0, s1)" "filtro_texto mo q f0 s1 = (Inr f, s2)"
    and x: "paginate mo fichas dto (Some (condicion_filtro f)) s2 = (Inr x, s3)"
    and r: "pg_items r = map mapToPublicSchema (pd_items x)"
    using assms(2) by (auto simp: findAllPublic_def proc_simps Let_def)
  from r assms(3) obtain d where d: "d \<in> set (pd_items x)" "p = mapToPublicSchema d" by auto
  have s: "s1 = s" "s2 = s" using filtro_base_Inr [OF f(1)] filtro_texto_Inr [OF f(2)] by simp_all
  from paginate_items [OF assms(1) x] d(1) s have in_s: "d \<in> set (fichas s)"
    and c: "cumple (mo_atomo mo) (condicion_filtro f) d" by auto
  have "pu_valueForSale p \<noteq> None \<longrightarrow> (\<exists>x. valor_venta_detallado d = Some x \<and> pd_es_publico x)"
    "pu_valueForRent p \<noteq> None \<longrightarrow> (\<exists>x. valor_alquiler_detallado d = Some x \<and> pd_es_publico x)"
    unfolding d(2) by (auto simp: mapToPublicSchema_def Let_def precio_mostrado_def split: option.splits if_splits)
  with in_s d(2) filtro_publica [OF assms(1) f c] show ?thesis by blast
qed

lemma findAllPublic_run:
  assumes "filtro_base mo q s = (Inr f0, s)" and "filtro_texto mo q f0 s = (Inr f, s)"
    and "paginate mo fichas
         \<lparr>pp_pageSize = Some (coalesce (cp_pageSize q) 10), pp_page = Some (coalesce (cp_page q) 0),
          pp_sort = (if cp_sort q = [] then ''createdAt:desc'' else cp_sort q),
          pp_search = map (\<lambda>k. k\<lparr>cr_field := fieldMapping (cr_field k)\<rparr>) (cp_criteria q), pp_populate = []\<rparr>
         (Some (condicion_filtro f)) s = (Inr r, s)"
  shows "\<exists>x. findAllPublic mo q s = (Inr x, s) \<and> pg_items x = map mapToPublicSchema (pd_items r)"
  using assms by (simp add: findAllPublic_def ebind_def Let_def ret_run)

text \<open>C37: a free text with an operation that is not one of the site, the empty one of a form included, takes the
  place of the condition that the property is published: one that is offered neither for sale nor for rent
  is listed when its title matches.\<close>

theorem public_listing_leaks:
  assumes "motor_fichas mo" and "d \<in> set (fichas s)" and "fi_status d = ''DISPONIBLE''"
    and "mo_patron mo (cp_q q)" and "mo_atomo mo ''titulo'' Casa (V_Texto (cp_q q)) d" and "\<And>c. mo_castea mo c = None"
    and "cp_q q \<noteq> []" "cp_operation q = Some opr" "opr \<notin> {''sale'', ''rent''}"
    and "cp_type q = []" "cp_locality q = []" "cp_north q = []" "cp_criteria q = []" "cp_page q = None"
    and "cp_pageSize q = Some n" "length (fichas s) \<le> n"
  shows "\<exists>r. findAllPublic mo q s = (Inr r, s) \<and> mapToPublicSchema d \<in> set (pg_items r)"
proof -
  let ?f = "\<lparr>fp_campos = [Campo ''status'' Igual (V_Texto ''DISPONIBLE'')], fp_or = Some (busqueda_texto (cp_q q)), fp_and = None\<rparr>"
  let ?dto = "\<lparr>pp_pageSize = Some n, pp_page = Some 0, pp_sort = (if cp_sort q = [] then ''createdAt:desc'' else cp_sort q),
          pp_search = [], pp_populate = []\<rparr>"
  have f: "filtro_base mo q s = (Inr (?f\<lparr>fp_or := Some [en_venta, en_alquiler]\<rparr>), s)"
    using assms(8-12) by (auto simp: filtro_base_def proc_simps Let_def)
  have t: "filtro_texto mo q (?f\<lparr>fp_or := Some [en_venta, en_alquiler]\<rparr>) s = (Inr ?f, s)"
    using assms(4,7,8) by (simp add: filtro_texto_def proc_simps)
  have c: "cumple (mo_atomo mo) (condicion_filtro ?f) d"
    using assms(1,3,5) by (simp add: condicion_filtro_def busqueda_texto_def motor_fichas_def)
  let ?ds = "hallados mo fichas (Some (condicion_filtro ?f)) [] s"
  have k: "for_each (condicion_de mo) (pp_search ?dto) s = (Inr [], s)" by (simp add: ret_run)
  have fp: "fallo_poblar mo (pp_populate ?dto) = None" by (simp add: fallo_poblar_def)
  have n: "length (mo_ordena mo o' ?ds) \<le> n" for o'
  proof -
    have "mset (mo_ordena mo o' ?ds) = mset ?ds" using assms(1) by (simp add: motor_fichas_def)
    then have "length (mo_ordena mo o' ?ds) = length ?ds" by (rule mset_eq_length)
    also have "\<dots> \<le> length (fichas s)" by (simp add: hallados_def)
    finally show ?thesis using assms(16) by simp
  qed
  have "d \<in> set ?ds" using c assms(2) by (simp add: hallados_def consulta_final_def)
  then have "d \<in> set (limitar n (mo_ordena mo (orden_de (pp_sort ?dto)) ?ds))"
    using motor_ordena [OF assms(1)] n by (simp add: limitar_def)
  then show ?thesis
    using findAllPublic_run [OF f t] paginate_run [OF k fp assms(6), of fichas] assms(13-15)
    by (fastforce simp: Let_def)
qed

text \<open>without free text, types, places or criteria, the pages of the public listing put one after the other
  are the properties that are available and published for the operation, each once, in the order of the
  sort.\<close>

theorem public_pages:
  assumes "motor_fichas mo" and "\<And>c. mo_castea mo c = None" and "0 < n"
    and "cp_type q = []" "cp_locality q = []" "cp_north q = []" "cp_criteria q = []" "cp_q q = []"
  shows "concat (map (\<lambda>k. pg_items (valor (findAllPublic mo (q\<lparr>cp_page := Some k, cp_pageSize := Some n\<rparr>)) s))
      [0..<nat (total_paginas (length (filter (\<lambda>d. fi_status d = ''DISPONIBLE'' \<and> publicada (cp_operation q) d) (fichas s))) n)]) =
    map mapToPublicSchema (mo_ordena mo (orden_de (if cp_sort q = [] then ''createdAt:desc'' else cp_sort q))
      (filter (\<lambda>d. fi_status d = ''DISPONIBLE'' \<and> publicada (cp_operation q) d) (fichas s)))"
proof -
  let ?P = "\<lambda>d. fi_status d = ''DISPONIBLE'' \<and> publicada (cp_operation q) d"
  let ?sort = "if cp_sort q = [] then ''createdAt:desc'' else cp_sort q"
  let ?dto = "\<lparr>pp_pageSize = None, pp_page = None, pp_sort = ?sort, pp_search = [], pp_populate = []\<rparr>"
  let ?f = "\<lparr>fp_campos = Campo ''status'' Igual (V_Texto ''DISPONIBLE'') #
        (if cp_operation q = Some ''sale'' then [en_venta] else if cp_operation q = Some ''rent'' then [en_alquiler] else []),
      fp_or = (if cp_operation q \<noteq> Some ''sale'' \<and> cp_operation q \<noteq> Some ''rent'' then Some [en_venta, en_alquiler] else None),
      fp_and = None\<rparr>"
  have f: "filtro_base mo (q\<lparr>cp_page := Some k, cp_pageSize := Some n\<rparr>) s = (Inr ?f, s)"
    and t: "filtro_texto mo (q\<lparr>cp_page := Some k, cp_pageSize := Some n\<rparr>) ?f s = (Inr ?f, s)" for k
    using assms(4-8) by (simp_all add: filtro_base_def filtro_texto_def proc_simps Let_def)
  have c: "cumple (mo_atomo mo) (condicion_filtro ?f) = ?P"
    using assms(1) by (auto simp: fun_eq_iff condicion_filtro_def motor_fichas_def publicada_def en_venta_def en_alquiler_def)
  have h: "hallados mo fichas (Some (condicion_filtro ?f)) [] s = filter ?P (fichas s)"
    unfolding hallados_def consulta_final_def by (simp add: c)
  have k0: "for_each (condicion_de mo) (pp_search ?dto) s = (Inr [], s)" by (simp add: ret_run)
  have pg: "pg_items (valor (findAllPublic mo (q\<lparr>cp_page := Some k, cp_pageSize := Some n\<rparr>)) s) =
      map mapToPublicSchema (pd_items (valor (paginate mo fichas (?dto\<lparr>pp_pageSize := Some n, pp_page := Some k\<rparr>)
        (Some (condicion_filtro ?f))) s))" for k
  proof -
    let ?d = "?dto\<lparr>pp_pageSize := Some n, pp_page := Some k\<rparr>"
    have "for_each (condicion_de mo) (pp_search ?d) s = (Inr [], s)" "fallo_poblar mo (pp_populate ?d) = None"
      by (simp_all add: ret_run fallo_poblar_def)
    from paginate_run [OF this assms(2), of fichas] obtain x
      where x: "paginate mo fichas ?d (Some (condicion_filtro ?f)) s = (Inr x, s)" by (auto simp: Let_def)
    have "\<exists>y. findAllPublic mo (q\<lparr>cp_page := Some k, cp_pageSize := Some n\<rparr>) s = (Inr y, s) \<and>
        pg_items y = map mapToPublicSchema (pd_items x)"
      by (rule findAllPublic_run [OF f t]) (use x assms(7) in \<open>simp split del: if_split cong: if_cong\<close>)
    with x show ?thesis by (auto simp: valor_def)
  qed
  have "concat (map (\<lambda>k. pd_items (valor (paginate mo fichas (?dto\<lparr>pp_pageSize := Some n, pp_page := Some k\<rparr>)
        (Some (condicion_filtro ?f))) s)) [0..<nat (total_paginas (length (filter ?P (fichas s))) n)]) =
      mo_ordena mo (orden_de ?sort) (filter ?P (fichas s))"
    using paginate_pages [OF k0 assms(3) _ assms(2), of fichas "Some (condicion_filtro ?f)"] assms(1)
    unfolding h by (simp add: fallo_poblar_def motor_fichas_def split del: if_split)
  then have "map mapToPublicSchema (concat (map (\<lambda>k. pd_items (valor (paginate mo fichas
        (?dto\<lparr>pp_pageSize := Some n, pp_page := Some k\<rparr>) (Some (condicion_filtro ?f))) s))
      [0..<nat (total_paginas (length (filter ?P (fichas s))) n)])) =
      map mapToPublicSchema (mo_ordena mo (orden_de ?sort) (filter ?P (fichas s)))" by (rule arg_cong)
  then show ?thesis unfolding pg map_concat map_map comp_def .
qed

section \<open>Witnesses\<close>

definition motor0 :: "(bd_fichas, ficha) motor" where
  "motor0 = \<lparr>mo_patron = (\<lambda>_. True), mo_oid = (\<lambda>_. None), mo_modelo = (\<lambda>_. None),
     mo_atomo = (\<lambda>f c v d.
        if f = ''status'' then v = V_Texto (fi_status d)
        else if f = ''publicar_para_venta'' then v = V_Bool (publicar_para_venta d)
        else if f = ''publicar_para_alquiler'' then v = V_Bool (publicar_para_alquiler d)
        else c = Casa \<and> v = V_Texto (coalesce (fi_titulo d) [])),
     mo_castea = (\<lambda>_. None), mo_ordena = (\<lambda>_ ds. ds), mo_poblar = (\<lambda>_ _. None)\<rparr>"

lemma motor0_ok: "motor_fichas motor0"
  by (auto simp: motor_fichas_def motor0_def)

definition ficha_pub :: ficha where
  "ficha_pub = \<lparr>fi_id = 7, fi_identificador = ''a'', fi_titulo = Some ''casa'', fi_descripcion = None, fi_direccion = None,
     fi_caracteristicas = None, img_cover_url = None, valor_venta = None, valor_alquiler = None,
     valor_venta_detallado = None, valor_alquiler_detallado = None, publicar_para_venta = False,
     publicar_para_alquiler = False, fi_status = ''DISPONIBLE'', documentos_digitales = [], imagenes = [], planos = [],
     imagen_satelital = None, fi_modificacion = None\<rparr>"

definition bd_pub :: bd_fichas where
  "bd_pub = \<lparr>ahora = 0, prox_id = 10, fichas = [ficha_pub], disco = []\<rparr>"

definition bd_venta :: bd_fichas where
  "bd_venta = \<lparr>ahora = 0, prox_id = 10, fichas = [ficha_pub\<lparr>publicar_para_venta := True\<rparr>], disco = []\<rparr>"

definition pedido_pub :: consulta_publica where
  "pedido_pub = \<lparr>cp_page = None, cp_pageSize = Some 10, cp_sort = [], cp_type = [], cp_locality = [], cp_operation = None,
     cp_north = [], cp_south = [], cp_east = [], cp_west = [], cp_q = [], cp_criteria = []\<rparr>"

theorem accent_search_witness:
  "(regexp_i (accentInsensitive ''Jose'') [CHR ''J'', CHR ''O'', CHR ''S'', CHR 0xC9] \<longleftrightarrow>
      sublist (map pliegue ''Jose'') (map pliegue [CHR ''J'', CHR ''O'', CHR ''S'', CHR 0xC9])) \<and>
    \<not> regexp_i (accentInsensitive (''Jose'' @ [CHR 0xE9])) (''Jose'' @ ''e'')"
  by (rule accent_search) code_simp

definition filtro0 :: filtro_publico where
  "filtro0 = \<lparr>fp_campos = [Campo ''status'' Igual (V_Texto ''DISPONIBLE'')], fp_or = Some [en_venta, en_alquiler], fp_and = None\<rparr>"

lemma filtro0_casa: "cumple (mo_atomo motor0) (condicion_filtro filtro0) d \<longleftrightarrow>
    fi_status d = ''DISPONIBLE'' \<and> (publicar_para_venta d \<or> publicar_para_alquiler d)"
  by (auto simp: motor0_def filtro0_def condicion_filtro_def en_venta_def en_alquiler_def)

lemma listado0: "\<exists>r. findAllPublic motor0 pedido_pub bd_venta = (Inr r, bd_venta) \<and>
    mapToPublicSchema (ficha_pub\<lparr>publicar_para_venta := True\<rparr>) \<in> set (pg_items r)"
proof -
  have f: "filtro_base motor0 pedido_pub bd_venta = (Inr filtro0, bd_venta)"
    by (simp add: filtro_base_def pedido_pub_def filtro0_def Let_def ret_run)
  have t: "filtro_texto motor0 pedido_pub filtro0 bd_venta = (Inr filtro0, bd_venta)"
    by (simp add: filtro_texto_def pedido_pub_def ret_run)
  let ?d = "ficha_pub\<lparr>publicar_para_venta := True\<rparr>"
  have h: "hallados motor0 fichas (Some (condicion_filtro filtro0)) [] bd_venta = [?d]"
    unfolding hallados_def consulta_final_def by (simp add: filtro0_casa bd_venta_def ficha_pub_def)
  let ?dto = "\<lparr>pp_pageSize = Some (coalesce (cp_pageSize pedido_pub) 10), pp_page = Some (coalesce (cp_page pedido_pub) 0),
          pp_sort = (if cp_sort pedido_pub = [] then ''createdAt:desc'' else cp_sort pedido_pub),
          pp_search = map (\<lambda>k. k\<lparr>cr_field := fieldMapping (cr_field k)\<rparr>) (cp_criteria pedido_pub), pp_populate = []\<rparr>"
  have k: "for_each (condicion_de motor0) (pp_search ?dto) bd_venta = (Inr [], bd_venta)"
    by (simp add: pedido_pub_def ret_run)
  have "fallo_poblar motor0 (pp_populate ?dto) = None" "mo_castea motor0 c = None" for c
    by (simp_all add: fallo_poblar_def motor0_def)
  from paginate_run [OF k this, of fichas "Some (condicion_filtro filtro0)"] obtain r
    where r: "paginate motor0 fichas ?dto (Some (condicion_filtro filtro0)) bd_venta = (Inr r, bd_venta)" "pd_items r = [?d]"
    unfolding h by (auto simp: Let_def limitar_def motor0_def pedido_pub_def)
  with findAllPublic_run [OF f t r(1)] show ?thesis by auto
qed

theorem public_listing_witness:
  "\<exists>r p. findAllPublic motor0 pedido_pub bd_venta = (Inr r, bd_venta) \<and> p \<in> set (pg_items r) \<and>
     (\<exists>d \<in> set (fichas bd_venta). p = mapToPublicSchema d \<and> fi_status d = ''DISPONIBLE'')"
proof -
  from listado0 obtain r p where r: "findAllPublic motor0 pedido_pub bd_venta = (Inr r, bd_venta)" "p \<in> set (pg_items r)" by blast
  from public_listing [OF motor0_ok r] r show ?thesis by blast
qed

theorem public_listing_leaks_witness:
  "\<exists>r. findAllPublic motor0 (pedido_pub\<lparr>cp_q := ''casa'', cp_operation := Some []\<rparr>) bd_pub = (Inr r, bd_pub) \<and>
     mapToPublicSchema ficha_pub \<in> set (pg_items r)"
  by (rule public_listing_leaks [OF motor0_ok, where n = 10 and opr = "[]"])
     (simp_all add: motor0_def bd_pub_def ficha_pub_def pedido_pub_def)

theorem public_pages_witness:
  "concat (map (\<lambda>k. pg_items (valor (findAllPublic motor0 (pedido_pub\<lparr>cp_page := Some k, cp_pageSize := Some 1\<rparr>)) bd_venta))
      [0..<nat (total_paginas (length (filter (\<lambda>d. fi_status d = ''DISPONIBLE'' \<and> publicada (cp_operation pedido_pub) d) (fichas bd_venta))) 1)]) =
    map mapToPublicSchema (mo_ordena motor0 (orden_de (if cp_sort pedido_pub = [] then ''createdAt:desc'' else cp_sort pedido_pub))
      (filter (\<lambda>d. fi_status d = ''DISPONIBLE'' \<and> publicada (cp_operation pedido_pub) d) (fichas bd_venta)))"
  by (rule public_pages [OF motor0_ok]) (simp_all add: motor0_def pedido_pub_def)

end
