(* ===== verification/Bot.thy ===== *)
theory Bot
  imports EntryQueries PropertyFiles
begin

text \<open>
  \<^verbatim>\<open>src/modules/bot/bot.service.ts\<close>, what the conversational bot asks of the program, and
  \<^verbatim>\<open>src/modules/tickets/tickets.service.ts\<close>, the complaints it files. A client is the document of an agent
  with its telephones; the statement of account is that of the accounting service, and the properties are
  the sheets of \<open>PropertyFiles\<close>. Parameters: \<open>od\<close>, the id that a text denotes; the names of the places; the
  regular expression of a city. The two operations on identity delegate to the component of the OTP.
\<close>

section \<open>Clients and complaints\<close>

record cliente =
  cl_id :: oid
  cl_razon_social :: string
  cl_fullName :: "string option"
  cl_name :: "string option"
  cl_lastName :: "string option"
  cl_email :: "string option"
  cl_fiscal :: string
  cl_telefonos :: "string list"

datatype categoria_ticket = PLUMBING | ELECTRIC | HEATING | CLEANING | SECURITY | OTHER

datatype urgencia_ticket = LOW | MEDIUM | HIGH | URGENT

datatype estado_ticket = OPEN | IN_PROGRESS | RESOLVED | CLOSED

datatype fuente_ticket = WHATSAPP | WEB | EMAIL | PHONE

record reclamo =
  tk_id :: oid
  tk_clientId :: oid
  tk_clientName :: string
  tk_propertyId :: "oid option"
  tk_category :: categoria_ticket
  tk_description :: string
  tk_urgency :: urgencia_ticket
  tk_status :: estado_ticket
  tk_source :: fuente_ticket
  tk_whatsappJid :: "string option"
  tk_evidenceUrls :: "string list"
  tk_createdAt :: fecha
  tk_resolvedAt :: "fecha option"

record bd_bot = bd_asi +
  clientes :: "cliente list"
  reclamos :: "reclamo list"

definition con_reclamos :: "(reclamo list \<Rightarrow> reclamo list) \<Rightarrow> 'a bd_bot_scheme \<Rightarrow> 'a bd_bot_scheme" where
  "con_reclamos f s = s\<lparr>reclamos := f (reclamos s)\<rparr>"

interpretation rcls: coleccion tk_id reclamos con_reclamos
  by unfold_locales (simp add: con_reclamos_def)

record ticket_dto =
  td_clientId :: string
  td_propertyId :: "string option"
  td_category :: categoria_ticket
  td_description :: string
  td_urgency :: urgencia_ticket
  td_evidenceUrls :: "string list option"
  td_whatsappJid :: "string option"

definition nombre_cliente :: "cliente \<Rightarrow> string" where
  "nombre_cliente c =
     o_texto (Some (cl_razon_social c))
       (o_texto (cl_fullName c) (recortar (o_texto (cl_name c) [] @ '' '' @ o_texto (cl_lastName c) [])))"

definition createTicket ::
  "(string \<Rightarrow> oid option) \<Rightarrow> ticket_dto \<Rightarrow> fuente_ticket \<Rightarrow> ('a bd_bot_scheme, reclamo) proc" where
  "createTicket od dto source =
     ebind (cast_id od (td_clientId dto)) (\<lambda>i.
     ebind (obtener cl_id clientes i (NotFoundException ''Cliente {} no encontrado'' [AStr (td_clientId dto)])) (\<lambda>c.
     ebind nuevo_id (\<lambda>t.
     ebind (gets ahora) (\<lambda>now.
     let r = \<lparr>tk_id = t, tk_clientId = i, tk_clientName = nombre_cliente c, tk_propertyId = Option.bind (td_propertyId dto) od,
              tk_category = td_category dto, tk_description = td_description dto, tk_urgency = td_urgency dto,
              tk_status = OPEN, tk_source = source, tk_whatsappJid = td_whatsappJid dto,
              tk_evidenceUrls = coalesce (td_evidenceUrls dto) [], tk_createdAt = now, tk_resolvedAt = None\<rparr>
     in if tk_clientName r = [] \<or> tk_description r = [] \<or> (td_propertyId dto \<noteq> None \<and> tk_propertyId r = None)
        then raise (ErrorJS ''Ticket validation failed'' [])
        else ebind (modify (con_reclamos (\<lambda>rs. rs @ [r]))) (\<lambda>_. ret r)))))"

definition getClientTickets :: "(string \<Rightarrow> oid option) \<Rightarrow> string \<Rightarrow> ('a bd_bot_scheme, nat \<times> reclamo list) proc" where
  "getClientTickets od t =
     ebind (cast_id od t) (\<lambda>i.
     gets (\<lambda>s. let rs = sort_key (\<lambda>r. - tk_createdAt r) (filter (\<lambda>r. tk_clientId r = i) (reclamos s)) in (length rs, rs)))"

section \<open>The client of a number\<close>

text \<open>\<^verbatim>\<open>jid.replace(/@s\.whatsapp\.net$/, '').replace(/\D/g, '')\<close>, and the same without the prefix 549.\<close>

definition sufijo_jid :: string where
  "sufijo_jid = ''@s.whatsapp.net''"

definition normalizeJid :: "string \<Rightarrow> string \<times> string option" where
  "normalizeJid jid =
     (let base = (if suffix sufijo_jid jid then take (length jid - length sufijo_jid) jid else jid);
          cleaned = filter RegExp.digito base
      in (cleaned, if prefix ''549'' cleaned then Some (drop 3 cleaned) else None))"

record cliente_bot =
  cb_clientId :: oid
  cb_name :: string
  cb_email :: "string option"
  cb_fiscalId :: string

text \<open>A regular expression made of digits finds the numbers that contain them.\<close>

definition findClientByJid :: "string \<Rightarrow> ('a bd_bot_scheme, cliente_bot option) proc" where
  "findClientByJid jid =
     (let (completo, corto) = normalizeJid jid;
          patrones = completo # (case corto of None \<Rightarrow> [] | Some c \<Rightarrow> if c = [] then [] else [c])
      in gets (\<lambda>s.
           map_option (\<lambda>c. \<lparr>cb_clientId = cl_id c, cb_name = cl_razon_social c, cb_email = cl_email c, cb_fiscalId = cl_fiscal c\<rparr>)
             (find (\<lambda>c. list_ex (\<lambda>n. list_ex (\<lambda>p. incluye p n) patrones) (cl_telefonos c)) (clientes s))))"

section \<open>The balance of a client\<close>

text \<open>The object that the statement of account returns, by its keys.\<close>

datatype json = J_Id oid | J_Num monto | J_Cuenta nat | J_Movs "movimiento list" | J_Obj "(string \<times> json) list"

definition objeto_estado :: "estado_cuenta \<Rightarrow> (string \<times> json) list" where
  "objeto_estado e =
     [(''agente_id'', J_Id (ec_agente_id e)),
      (''resumen'', J_Obj
         [(''total_debe'', J_Num (ec_total_debe e)),
          (''total_haber'', J_Num (ec_total_haber e)),
          (''total_pagado_debe'', J_Num (ec_total_pagado_debe e)),
          (''total_recaudado_haber'', J_Num (ec_total_recaudado_haber e)),
          (''saldo_pendiente_debe'', J_Num (ec_saldo_pendiente_debe e)),
          (''saldo_disponible_haber'', J_Num (ec_saldo_disponible_haber e)),
          (''asientos_pendientes'', J_Cuenta (ec_asientos_pendientes e)),
          (''asientos_pagados'', J_Cuenta (ec_asientos_pagados e)),
          (''asientos_pendientes_liquidacion'', J_Cuenta (ec_pendientes_liquidacion e)),
          (''asientos_liquidados'', J_Cuenta (ec_asientos_liquidados e)),
          (''total_movimientos'', J_Cuenta (ec_total_movimientos e))]),
      (''movimientos'', J_Movs (ec_movimientos e))]"

text \<open>\<^verbatim>\<open>object.key || 0\<close> and \<^verbatim>\<open>object.movimientos || []\<close>.\<close>

definition numero_o_cero :: "(string \<times> json) list \<Rightarrow> string \<Rightarrow> monto" where
  "numero_o_cero ob k = (case map_of ob k of Some (J_Num x) \<Rightarrow> x | _ \<Rightarrow> 0)"

definition movimientos_de :: "(string \<times> json) list \<Rightarrow> movimiento list" where
  "movimientos_de ob = (case map_of ob ''movimientos'' of Some (J_Movs ms) \<Rightarrow> ms | _ \<Rightarrow> [])"

record saldo_bot =
  sb_clientId :: string
  sb_name :: string
  sb_totalDebt :: monto
  sb_totalDebe :: monto
  sb_totalHaber :: monto
  sb_pendingMovements :: nat
  sb_recentMovements :: "(fecha \<times> texto \<times> monto option \<times> bool) list"

definition dia_ms :: int where
  "dia_ms = 86400000"

text \<open>The date of today, in UTC, is the cut: its midnight.\<close>

definition filtros_bot :: "fecha \<Rightarrow> filtros_estado_cuenta" where
  "filtros_bot now = \<lparr>ec_fecha_desde = None, ec_fecha_hasta = None, ec_fecha_corte = Some (now div dia_ms * dia_ms),
     ec_incluir_anulados = False, ec_solo_pendientes = Some True\<rparr>"

definition respuesta_saldo :: "string \<Rightarrow> cliente \<Rightarrow> estado_cuenta \<Rightarrow> saldo_bot" where
  "respuesta_saldo clientId c e =
     (let ob = objeto_estado e; ms = movimientos_de ob in
      \<lparr>sb_clientId = clientId, sb_name = cl_razon_social c,
       sb_totalDebt = numero_o_cero ob ''saldo_neto'',
       sb_totalDebe = numero_o_cero ob ''total_debe'',
       sb_totalHaber = numero_o_cero ob ''total_haber'',
       sb_pendingMovements = length ms,
       sb_recentMovements = map (\<lambda>m. (m_fecha_imputacion m, m_descripcion m, m_saldo_pendiente m, m_es_debe m)) (take 5 ms)\<rparr>)"

definition getClientBalance :: "(string \<Rightarrow> oid option) \<Rightarrow> string \<Rightarrow> ('a bd_bot_scheme, saldo_bot) proc" where
  "getClientBalance od clientId =
     ebind (cast_id od clientId) (\<lambda>i.
     ebind (obtener cl_id clientes i (NotFoundException ''Cliente {} no encontrado'' [AStr clientId])) (\<lambda>c.
     ebind (gets ahora) (\<lambda>now.
     ebind (getEstadoCuentaByAgente i (filtros_bot now)) (\<lambda>e.
     ret (respuesta_saldo clientId c e)))))"

section \<open>The published properties\<close>

record filtros_propiedad =
  fb_rent :: bool
  fb_type :: string
  fb_city :: string
  fb_rooms :: "rat option"
  fb_maxPrice :: "monto option"

definition tipo_bot :: "string \<Rightarrow> string" where
  "tipo_bot t = coalesce (map_of [(''apartment'', ''departamento''), (''house'', ''casa''), (''duplex'', ''duplex''),
     (''local'', ''local_comercial''), (''office'', ''oficina'')] t) t"

definition precio_bot :: "bool \<Rightarrow> ficha \<Rightarrow> monto option" where
  "precio_bot rent d = (if rent then valor_alquiler d else valor_venta d)"

definition consulta_bot :: "filtros_propiedad \<Rightarrow> ficha \<Rightarrow> bool" where
  "consulta_bot f d \<longleftrightarrow> fi_status d = ''DISPONIBLE'' \<and>
     (if fb_rent f then publicar_para_alquiler d else publicar_para_venta d) \<and>
     (case precio_bot (fb_rent f) d of None \<Rightarrow> False
      | Some v \<Rightarrow> 0 < v \<and> (o_cero (fb_maxPrice f) = 0 \<or> v \<le> o_cero (fb_maxPrice f))) \<and>
     (fb_type f = [] \<or> Option.bind (fi_caracteristicas d) ca_tipo = Some (tipo_bot (fb_type f))) \<and>
     (o_cero (fb_rooms f) = 0 \<or>
        (case Option.bind (fi_caracteristicas d) ca_ambientes of None \<Rightarrow> False | Some a \<Rightarrow> o_cero (fb_rooms f) \<le> a))"

definition localidad_ficha :: "(oid \<Rightarrow> string option) \<Rightarrow> ficha \<Rightarrow> string" where
  "localidad_ficha loc d = coalesce (Option.bind (Option.bind (fi_direccion d) df_localidad) loc) []"

record propiedad_bot =
  pb_id :: oid
  pb_title :: string
  pb_address :: string
  pb_zone :: string
  pb_type :: string
  pb_rooms :: rat
  pb_price :: "monto option"
  pb_surface :: rat

definition formato_bot :: "(oid \<Rightarrow> string option) \<Rightarrow> (oid \<Rightarrow> string option) \<Rightarrow> bool \<Rightarrow> ficha \<Rightarrow> propiedad_bot" where
  "formato_bot loc prov rent d =
     (let dir = fi_direccion d; car = fi_caracteristicas d;
          address = (case dir of None \<Rightarrow> ''Direcci'' @ [CHR 0xF3] @ ''n no disponible''
            | Some x \<Rightarrow> recortar (o_texto (df_calle x) [] @ '' '' @ o_texto (df_numero x) []))
      in \<lparr>pb_id = fi_id d, pb_title = o_texto (fi_titulo d) address, pb_address = address,
          pb_zone = o_texto (Option.bind (Option.bind dir df_localidad) loc)
            (o_texto (Option.bind (Option.bind dir df_provincia) prov) ''Zona no especificada''),
          pb_type = o_texto (Option.bind car ca_tipo) ''No especificado'',
          pb_rooms = o_cero (Option.bind car ca_ambientes), pb_price = precio_bot rent d,
          pb_surface = o_cero (Option.bind car ca_metraje_total)\<rparr>)"

text \<open>The first fifty that meet the query, of them those of the city, of them the first ten.\<close>

definition searchPublishedProperties ::
  "(string \<Rightarrow> bool) \<Rightarrow> (string \<Rightarrow> string \<Rightarrow> bool) \<Rightarrow> (oid \<Rightarrow> string option) \<Rightarrow> (oid \<Rightarrow> string option) \<Rightarrow>
   filtros_propiedad \<Rightarrow> ('a bd_fichas_scheme, propiedad_bot list) proc" where
  "searchPublishedProperties patron casa loc prov f =
     ebind (gets (\<lambda>s. take 50 (filter (consulta_bot f) (fichas s)))) (\<lambda>ds.
     ebind (if fb_city f = [] then ret ds
            else if \<not> patron (fb_city f) then raise (ErrorJS ''SyntaxError'' [AStr (fb_city f)])
            else ret (filter (\<lambda>d. casa (fb_city f) (localidad_ficha loc d)) ds)) (\<lambda>ds'.
     ret (map (formato_bot loc prov (fb_rent f)) (take 10 ds'))))"

record ciudad_bot =
  cd_city :: string
  cd_rent :: nat
  cd_sale :: nat

definition en_alquiler_bot :: "ficha \<Rightarrow> bool" where
  "en_alquiler_bot d \<longleftrightarrow> publicar_para_alquiler d \<and> (case valor_alquiler d of None \<Rightarrow> False | Some v \<Rightarrow> 0 < v)"

definition en_venta_bot :: "ficha \<Rightarrow> bool" where
  "en_venta_bot d \<longleftrightarrow> publicar_para_venta d \<and> (case valor_venta d of None \<Rightarrow> False | Some v \<Rightarrow> 0 < v)"

text \<open>Match, join, unwind (a property whose place is not found is dropped), group by name and sort.\<close>

definition getAvailableCities ::
  "(oid \<Rightarrow> string option) \<Rightarrow> (string list \<Rightarrow> string list) \<Rightarrow> ('a bd_fichas_scheme, ciudad_bot list) proc" where
  "getAvailableCities loc ordena =
     gets (\<lambda>s.
       let ds = filter (\<lambda>d. fi_status d = ''DISPONIBLE'' \<and> (en_alquiler_bot d \<or> en_venta_bot d)) (fichas s);
           ps = List.map_filter (\<lambda>d. map_option (\<lambda>n. (n, d)) (Option.bind (Option.bind (fi_direccion d) df_localidad) loc)) ds
       in map (\<lambda>n. \<lparr>cd_city = n, cd_rent = length (filter (\<lambda>(m, d). m = n \<and> en_alquiler_bot d) ps),
                    cd_sale = length (filter (\<lambda>(m, d). m = n \<and> en_venta_bot d) ps)\<rparr>)
            (ordena (remdups (map fst ps))))"

end
