(* ===== verification/BotProperties.thy ===== *)
theory BotProperties
  imports Bot EntryExamples
begin

text \<open>
  What the bot answers: balances, the client of a number, published properties and complaints.
\<close>

section \<open>Balances\<close>

lemma getEstadoCuenta_total: "\<exists>e. getEstadoCuentaByAgente i f s = (Inr e, s)"
  by (auto simp: getEstadoCuentaByAgente_def proc_simps Let_def split: prod.split)

text \<open>C39: the bot tells every client a debt of zero: the totals it reads are not keys of the statement of
  account, which has them under \<^verbatim>\<open>resumen\<close>. The count of movements and the list are those of the statement,
  at the midnight of today, the oldest five first.\<close>

theorem bot_debt_always_zero:
  assumes "getClientBalance od t s = (Inr r, s')"
  shows "s' = s \<and> sb_totalDebt r = 0 \<and> sb_totalDebe r = 0 \<and> sb_totalHaber r = 0 \<and>
    (\<exists>i e. od t = Some i \<and> getEstadoCuentaByAgente i (filtros_bot (ahora s)) s = (Inr e, s) \<and>
       sb_pendingMovements r = length (ec_movimientos e) \<and>
       map fst (sb_recentMovements r) = map m_fecha_imputacion (take 5 (ec_movimientos e)))"
proof -
  from assms obtain i c e where i: "od t = Some i" and e: "getEstadoCuentaByAgente i (filtros_bot (ahora s)) s = (Inr e, s')"
    and r: "r = respuesta_saldo t c e"
    by (auto simp: getClientBalance_def proc_simps cast_id_run split: option.splits)
  have s': "s' = s" using e getEstadoCuenta_total [of i "filtros_bot (ahora s)" s] by auto
  have m: "movimientos_de (objeto_estado e) = ec_movimientos e"
    by (simp add: movimientos_de_def objeto_estado_def)
  have z: "numero_o_cero (objeto_estado e) k = 0" if "k \<in> {''saldo_neto'', ''total_debe'', ''total_haber''}" for k
    using that by (auto simp: numero_o_cero_def objeto_estado_def)
  show ?thesis using i e s' z by (auto simp: r respuesta_saldo_def Let_def m comp_def)
qed

section \<open>The client of a number\<close>

text \<open>a sender with no digits in its identifier is taken for a client, the first one that has a telephone,
  and gets its name, address and fiscal number; so is any sender whose digits are part of the number of a
  client.\<close>

theorem bot_client_by_part:
  assumes "c \<in> set (clientes s)" and "n \<in> set (cl_telefonos c)" and "sublist (fst (normalizeJid jid)) n"
  shows "\<exists>b. findClientByJid jid s = (Inr (Some b), s) \<and> (\<exists>d \<in> set (clientes s). cb_clientId b = cl_id d \<and> cl_telefonos d \<noteq> [])"
proof -
  have inc: "incluye w t \<longleftrightarrow> sublist w t" for w t
  proof (induction t)
    case Nil
    then show ?case by simp
  next
    case (Cons a t)
    have "take (length w) (a # t) = w \<longleftrightarrow> prefix w (a # t)"
      by (metis prefix_def append_eq_conv_conj take_is_prefix)
    with Cons show ?case by (simp add: sublist_Cons_right)
  qed
  obtain p q where jid: "normalizeJid jid = (p, q)" by fastforce
  let ?ps = "p # (case q of None \<Rightarrow> [] | Some c \<Rightarrow> if c = [] then [] else [c])"
  let ?P = "\<lambda>c. list_ex (\<lambda>n. list_ex (\<lambda>p. incluye p n) ?ps) (cl_telefonos c)"
  have "?P c" using assms(2,3) jid by (auto simp: list_ex_iff inc)
  with assms(1) obtain d where d: "find ?P (clientes s) = Some d"
    by (metis (no_types, lifting) find_None_iff not_Some_eq)
  from find_en [OF d] have "d \<in> set (clientes s)" "cl_telefonos d \<noteq> []" by (auto simp: list_ex_iff)
  with d jid show ?thesis by (auto simp: findClientByJid_def gets_run)
qed

lemma no_digits: "list_all (\<lambda>c. \<not> RegExp.digito c) jid \<Longrightarrow> sublist (fst (normalizeJid jid)) n"
proof -
  assume "list_all (\<lambda>c. \<not> RegExp.digito c) jid"
  then have "filter RegExp.digito (take k jid) = []" for k
    by (auto simp: filter_empty_conv list_all_iff dest: in_set_takeD)
  from this [of "length jid"] this show ?thesis by (auto simp: normalizeJid_def Let_def)
qed

section \<open>Published properties\<close>

lemma searchPublishedProperties_Inr:
  assumes "searchPublishedProperties patron casa loc prov f s = (Inr r, s')"
  shows "s' = s \<and> length r \<le> 10 \<and>
    (\<forall>p \<in> set r. \<exists>d \<in> set (fichas s). p = formato_bot loc prov (fb_rent f) d \<and> consulta_bot f d \<and>
       (fb_city f = [] \<or> casa (fb_city f) (localidad_ficha loc d)))"
proof -
  let ?ds = "filter (\<lambda>d. fb_city f = [] \<or> casa (fb_city f) (localidad_ficha loc d)) (take 50 (filter (consulta_bot f) (fichas s)))"
  have r: "r = map (formato_bot loc prov (fb_rent f)) (take 10 ?ds)" "s' = s"
    using assms by (auto simp: searchPublishedProperties_def proc_simps split: if_splits)
  have "set (take 10 ?ds) \<subseteq> set ?ds" "set (take 50 (filter (consulta_bot f) (fichas s))) \<subseteq> set (filter (consulta_bot f) (fichas s))"
    by (rule set_take_subset)+
  with r show ?thesis by fastforce
qed

text \<open>A property of the city that is not among the first fifty that meet the rest of the query is not found.\<close>

lemma searchPublishedProperties_misses:
  assumes "filter (consulta_bot f) (fichas s) = xs @ ys" and "length xs = 50"
    and "\<And>d. d \<in> set xs \<Longrightarrow> \<not> casa (fb_city f) (localidad_ficha loc d)" and "fb_city f \<noteq> []" and "patron (fb_city f)"
  shows "searchPublishedProperties patron casa loc prov f s = (Inr [], s)"
proof -
  have "filter (\<lambda>d. casa (fb_city f) (localidad_ficha loc d)) xs = []"
    using assms(3) by (auto simp: filter_empty_conv)
  with assms show ?thesis by (simp add: searchPublishedProperties_def ebind_def proc_simps)
qed

section \<open>Complaints\<close>

text \<open>A complaint that is accepted is read back among those of its client, open, and no other changes.\<close>

lemma createTicket_roundtrip:
  assumes "createTicket od dto source s = (Inr r, s')"
  shows "\<exists>rs. getClientTickets od (td_clientId dto) s' = (Inr (Suc (length (filter (\<lambda>x. tk_clientId x = tk_clientId r) (reclamos s))), rs), s') \<and>
    r \<in> set rs \<and> tk_status r = OPEN \<and> tk_description r = td_description dto \<and> reclamos s' = reclamos s @ [r]"
proof -
  from assms have r: "od (td_clientId dto) = Some (tk_clientId r)" "tk_status r = OPEN" "tk_description r = td_description dto"
    "reclamos s' = reclamos s @ [r]"
    by (auto simp: createTicket_def proc_simps cast_id_run con_reclamos_def nuevo_id_run Let_def split: option.splits if_splits)
  then show ?thesis by (simp add: getClientTickets_def ebind_def cast_id_run gets_run Let_def)
qed

section \<open>Witnesses\<close>

definition cliente0 :: cliente where
  "cliente0 = \<lparr>cl_id = 1, cl_razon_social = ''A'', cl_fullName = None, cl_name = None, cl_lastName = None, cl_email = None,
     cl_fiscal = ''20'', cl_telefonos = [''1112345678'']\<rparr>"

definition bd_charla :: bd_bot where
  "bd_charla = bd_asi.extend (bd0\<lparr>ahora := 172800000\<rparr>) (bd_bot.fields [cliente0] [])"

definition od_charla :: "string \<Rightarrow> oid option" where
  "od_charla t = (if t = ''1'' then Some 1 else None)"

text \<open>The client owes a rent of 1000.\<close>

theorem bot_debt_always_zero_witness:
  "\<exists>r e. getClientBalance od_charla ''1'' bd_charla = (Inr r, bd_charla) \<and>
     getEstadoCuentaByAgente 1 (filtros_bot (ahora bd_charla)) bd_charla = (Inr e, bd_charla) \<and>
     sb_totalDebt r = 0 \<and> ec_saldo_pendiente_debe e = 1000 \<and> sb_pendingMovements r = length (ec_movimientos e)"
proof -
  have "exito (getClientBalance od_charla ''1'') bd_charla" by code_simp
  from exito_run [OF this] obtain r s' where r: "getClientBalance od_charla ''1'' bd_charla = (Inr r, s')" by blast
  have o: "od_charla ''1'' = Some 1" by (simp add: od_charla_def)
  have "ec_saldo_pendiente_debe (valor (getEstadoCuentaByAgente 1 (filtros_bot (ahora bd_charla))) bd_charla) = 1000"
    by code_simp
  with bot_debt_always_zero [OF r] r o show ?thesis by (auto simp: valor_def)
qed

theorem bot_client_by_part_witness:
  "\<exists>b. findClientByJid ''12345@s.whatsapp.net'' bd_charla = (Inr (Some b), bd_charla) \<and>
     (\<exists>d \<in> set (clientes bd_charla). cb_clientId b = cl_id d \<and> cl_telefonos d \<noteq> [])"
proof (rule bot_client_by_part)
  show "cliente0 \<in> set (clientes bd_charla)" by (simp add: bd_charla_def bd_asi.extend_def bd_bot.fields_def)
  show "''1112345678'' \<in> set (cl_telefonos cliente0)" by (simp add: cliente0_def)
  have "fst (normalizeJid ''12345@s.whatsapp.net'') = ''12345''" by code_simp
  moreover have "''1112345678'' = ''11'' @ ''12345'' @ ''678''" by simp
  ultimately show "sublist (fst (normalizeJid ''12345@s.whatsapp.net'')) ''1112345678''"
    unfolding sublist_def by metis
qed

end
