(* ===== verification/Administration.thy ===== *)
theory Administration
  imports Receipts CashBox
begin

text \<open>
  \<^verbatim>\<open>src/modules/system-admin/system-admin.service.ts\<close>: the reset of the operational data and the figures of
  the system, on the models of contracts, entries, transactions, receipts, cash box and financial
  accounts. The directory of the receipts is a list of file names, absent when it does not exist;
  \<open>borra\<close> says which files the system lets delete. Failures of the database, which the code turns into
  a bad request, are not modelled.
\<close>

record bd_adm = bd_rec +
  caja_adm :: "mov_caja list"
  archivos_recibos :: "string list option"

definition con_caja_adm :: "(mov_caja list \<Rightarrow> mov_caja list) \<Rightarrow> 'a bd_adm_scheme \<Rightarrow> 'a bd_adm_scheme" where
  "con_caja_adm f s = s\<lparr>caja_adm := f (caja_adm s)\<rparr>"

record conteos =
  dc_contracts :: nat
  dc_accountingEntries :: nat
  dc_transactions :: nat
  dc_receipts :: nat
  dc_receiptFiles :: nat
  dc_cashBoxMovements :: nat
  dc_financialAccountsReset :: nat

definition conteos0 :: conteos where
  "conteos0 = \<lparr>dc_contracts = 0, dc_accountingEntries = 0, dc_transactions = 0, dc_receipts = 0, dc_receiptFiles = 0,
     dc_cashBoxMovements = 0, dc_financialAccountsReset = 0\<rparr>"

record respuesta_reset =
  rr_success :: bool
  rr_message :: texto
  rr_deletedCounts :: conteos
  rr_timestamp :: fecha
  rr_isDryRun :: bool

definition archivos_borrables :: "'a bd_adm_scheme \<Rightarrow> string list" where
  "archivos_borrables s = (case archivos_recibos s of None \<Rightarrow> [] | Some fs \<Rightarrow> filter (\<lambda>f. f \<noteq> ''.gitkeep'') fs)"

text \<open>\<^verbatim>\<open>unlink\<close> of each file, counted; one that fails is logged and skipped.\<close>

definition borrar_archivo :: "(string \<Rightarrow> bool) \<Rightarrow> string \<Rightarrow> conteos \<Rightarrow> ('a bd_adm_scheme, conteos) proc" where
  "borrar_archivo borra f dc =
     (if borra f
      then ebind (modify (\<lambda>s. s\<lparr>archivos_recibos := map_option (removeAll f) (archivos_recibos s)\<rparr>)) (\<lambda>_.
           ret (dc\<lparr>dc_receiptFiles := dc_receiptFiles dc + 1\<rparr>))
      else ret dc)"

definition poner_en_cero :: "cuenta_fin \<Rightarrow> conteos \<Rightarrow> ('a bd_adm_scheme, conteos) proc" where
  "poner_en_cero c dc =
     ebind (modify (con_fin (update_one (\<lambda>d. cf_id d = cf_id c) (\<lambda>d. d\<lparr>saldo_inicial := 0\<rparr>)))) (\<lambda>_.
     ret (dc\<lparr>dc_financialAccountsReset := dc_financialAccountsReset dc + 1\<rparr>))"

definition suma_conteos :: "conteos \<Rightarrow> nat" where
  "suma_conteos dc = dc_contracts dc + dc_accountingEntries dc + dc_transactions dc + dc_receipts dc + dc_receiptFiles dc +
     dc_cashBoxMovements dc + dc_financialAccountsReset dc"

definition borrar_todo :: "(string \<Rightarrow> bool) \<Rightarrow> string list \<Rightarrow> ('a bd_adm_scheme, conteos) proc" where
  "borrar_todo borra files =
     ebind (gets (\<lambda>s. length (caja_adm s))) (\<lambda>n1.
     ebind (modify (con_caja_adm (delete_many (\<lambda>_. True)))) (\<lambda>_.
     ebind (gets (\<lambda>s. length (transacciones s))) (\<lambda>n2.
     ebind (modify (con_tx (delete_many (\<lambda>_. True)))) (\<lambda>_.
     ebind (gets (\<lambda>s. length (recibos s))) (\<lambda>n3.
     ebind (modify (con_recibos (delete_many (\<lambda>_. True)))) (\<lambda>_.
     ebind (fold_each (borrar_archivo borra) files
       (conteos0\<lparr>dc_cashBoxMovements := n1, dc_transactions := n2, dc_receipts := n3\<rparr>)) (\<lambda>dc.
     ebind (gets (\<lambda>s. length (asientos s))) (\<lambda>n4.
     ebind (modify (con_asientos (delete_many (\<lambda>_. True)))) (\<lambda>_.
     ebind (gets (\<lambda>s. length (contratos s))) (\<lambda>n5.
     ebind (modify (con_contratos (delete_many (\<lambda>_. True)))) (\<lambda>_.
     ebind (gets cuentas_fin) (\<lambda>cs.
     fold_each poner_en_cero cs (dc\<lparr>dc_accountingEntries := n4, dc_contracts := n5\<rparr>)))))))))))))"

definition resetSystem :: "(string \<Rightarrow> bool) \<Rightarrow> bool \<Rightarrow> bool \<Rightarrow> ('a bd_adm_scheme, respuesta_reset) proc" where
  "resetSystem borra confirm dryRun =
     (if \<not> confirm
      then raise (BadRequestException ''Debe confirmar la operacion estableciendo confirm: true'' [])
      else
        ebind (gets archivos_borrables) (\<lambda>files.
        ebind (if dryRun
               then gets (\<lambda>s. \<lparr>dc_contracts = length (contratos s), dc_accountingEntries = length (asientos s),
                      dc_transactions = length (transacciones s), dc_receipts = length (recibos s),
                      dc_receiptFiles = length files, dc_cashBoxMovements = length (caja_adm s),
                      dc_financialAccountsReset = length (cuentas_fin s)\<rparr>)
               else borrar_todo borra files) (\<lambda>dc.
        ebind (gets ahora) (\<lambda>now.
        ret \<lparr>rr_success = True,
             rr_message = (if dryRun then (''Simulacion completada. No se eliminaron datos reales.'', [])
               else (''Sistema reseteado exitosamente. Se eliminaron {} registros en total.'', [ANum (of_nat (suma_conteos dc))])),
             rr_deletedCounts = dc, rr_timestamp = now, rr_isDryRun = dryRun\<rparr>))))"

record estadisticas =
  es_operational :: conteos
  es_agents :: nat
  es_properties :: nat
  es_chartOfAccounts :: nat
  es_timestamp :: fecha

definition getSystemStats :: "('a bd_adm_scheme, estadisticas) proc" where
  "getSystemStats = gets (\<lambda>s.
     \<lparr>es_operational = \<lparr>dc_contracts = length (contratos s), dc_accountingEntries = length (asientos s),
        dc_transactions = length (transacciones s), dc_receipts = length (recibos s), dc_receiptFiles = 0,
        dc_cashBoxMovements = length (caja_adm s), dc_financialAccountsReset = length (cuentas_fin s)\<rparr>,
      es_agents = length (agentes s), es_properties = length (propiedades s),
      es_chartOfAccounts = length (plan_cuentas s), es_timestamp = ahora s\<rparr>)"

end
