(* ===== verification/AdministrationProperties.thy ===== *)
theory AdministrationProperties
  imports Administration ContractExamples
begin

text \<open>
  The reset: what the simulation predicts, what the reset empties, and what it leaves behind.
\<close>

definition reseteado :: "(string \<Rightarrow> bool) \<Rightarrow> 'a bd_adm_scheme \<Rightarrow> 'a bd_adm_scheme" where
  "reseteado borra s = s\<lparr>caja_adm := [], transacciones := [], recibos := [], asientos := [], contratos := [],
     cuentas_fin := map (\<lambda>c. c\<lparr>saldo_inicial := 0\<rparr>) (cuentas_fin s),
     archivos_recibos := map_option (filter (\<lambda>f. f = ''.gitkeep'' \<or> \<not> borra f)) (archivos_recibos s)\<rparr>"

lemma quitar_archivos:
  "fold_each (borrar_archivo borra) fs dc s =
     (Inr (dc\<lparr>dc_receiptFiles := dc_receiptFiles dc + length (filter borra fs)\<rparr>),
      s\<lparr>archivos_recibos := map_option (filter (\<lambda>f. f \<notin> set (filter borra fs))) (archivos_recibos s)\<rparr>)"
proof (induction fs arbitrary: dc s)
  case Nil
  then show ?case by (simp add: ret_run option.map_id0 [unfolded id_def])
next
  case (Cons f fs)
  have "map_option (filter (\<lambda>x. x \<notin> set (filter borra fs))) (map_option (removeAll f) v) =
      map_option (filter (\<lambda>x. x \<noteq> f \<and> x \<notin> set (filter borra fs))) v" for v
    by (cases v) (auto simp: removeAll_filter_not_eq filter_filter conj_commute eq_commute intro: filter_cong)
  with Cons.IH show ?case by (simp add: borrar_archivo_def ebind_def proc_simps)
qed

lemma poner_en_cero_todas:
  assumes "distinct (map cf_id (cuentas_fin s))" and "cuentas_fin s = xs @ cs"
  shows "fold_each poner_en_cero cs dc (s\<lparr>cuentas_fin := map (\<lambda>c. c\<lparr>saldo_inicial := 0\<rparr>) xs @ cs\<rparr>) =
     (Inr (dc\<lparr>dc_financialAccountsReset := dc_financialAccountsReset dc + length cs\<rparr>),
      s\<lparr>cuentas_fin := map (\<lambda>c. c\<lparr>saldo_inicial := 0\<rparr>) (xs @ cs)\<rparr>)"
  using assms
proof (induction cs arbitrary: xs dc)
  case Nil
  then show ?case by (simp add: ret_run)
next
  case (Cons c cs)
  have u: "update_one (\<lambda>d. cf_id d = cf_id c) f (ys @ c # cs) = ys @ f c # cs" if "cf_id c \<notin> cf_id ` set ys" for f ys
    using that by (induction ys) auto
  have "cf_id c \<notin> cf_id ` set (map (\<lambda>c. c\<lparr>saldo_inicial := 0\<rparr>) xs)" using Cons.prems by auto
  from u [OF this] have "poner_en_cero c dc (s\<lparr>cuentas_fin := map (\<lambda>c. c\<lparr>saldo_inicial := 0\<rparr>) xs @ c # cs\<rparr>) =
      (Inr (dc\<lparr>dc_financialAccountsReset := dc_financialAccountsReset dc + 1\<rparr>),
       s\<lparr>cuentas_fin := map (\<lambda>c. c\<lparr>saldo_inicial := 0\<rparr>) (xs @ [c]) @ cs\<rparr>)"
    by (simp add: poner_en_cero_def ebind_def proc_simps con_fin_def)
  moreover have "cuentas_fin s = (xs @ [c]) @ cs" using Cons.prems(2) by simp
  ultimately show ?case using Cons.IH [OF Cons.prems(1), of "xs @ [c]"] by (simp add: ebind_def)
qed

lemma delete_many_todo [simp]: "delete_many (\<lambda>_. True) ds = []"
  by (simp add: delete_many_def)

lemma archivos_restantes:
  "map_option (filter (\<lambda>f. f \<in> set (archivos_borrables s) \<longrightarrow> \<not> borra f)) (archivos_recibos s) =
   map_option (filter (\<lambda>f. f = ''.gitkeep'' \<or> \<not> borra f)) (archivos_recibos s)"
  by (cases "archivos_recibos s") (auto simp: archivos_borrables_def intro: filter_cong)

lemma borrar_todo_run:
  assumes "distinct (map cf_id (cuentas_fin s))"
  shows "borrar_todo borra (archivos_borrables s) s =
    (Inr \<lparr>dc_contracts = length (contratos s), dc_accountingEntries = length (asientos s),
          dc_transactions = length (transacciones s), dc_receipts = length (recibos s),
          dc_receiptFiles = length (filter borra (archivos_borrables s)), dc_cashBoxMovements = length (caja_adm s),
          dc_financialAccountsReset = length (cuentas_fin s)\<rparr>, reseteado borra s)"
proof -
  let ?t = "s\<lparr>caja_adm := [], transacciones := [], recibos := [],
     archivos_recibos := map_option (filter (\<lambda>f. f = ''.gitkeep'' \<or> \<not> borra f)) (archivos_recibos s),
     asientos := [], contratos := []\<rparr>"
  have c: "cuentas_fin ?t = [] @ cuentas_fin s" "distinct (map cf_id (cuentas_fin ?t))" using assms by simp_all
  have "fold_each poner_en_cero (cuentas_fin s) dc ?t =
     (Inr (dc\<lparr>dc_financialAccountsReset := dc_financialAccountsReset dc + length (cuentas_fin s)\<rparr>), reseteado borra s)" for dc
    using poner_en_cero_todas [OF c(2,1), of dc] by (simp add: reseteado_def)
  moreover have "archivos_borrables (s\<lparr>caja_adm := a, transacciones := b, recibos := d\<rparr>) = archivos_borrables s" for a b d
    by (simp add: archivos_borrables_def)
  ultimately show ?thesis
    by (simp add: borrar_todo_def ebind_def proc_simps quitar_archivos archivos_restantes con_caja_adm_def con_tx_def
        con_recibos_def con_asientos_def con_contratos_def conteos0_def)
qed

text \<open>C40: the simulation changes nothing and predicts the counts of the reset, when the files can be deleted; the
  reset empties contracts, entries, transactions, receipts and cash box, sets every balance to zero, not to
  the opening one, keeps the accounts, agents, properties, chart and settings, and a second one finds
  nothing but the accounts.\<close>

theorem reset_dry_run_predicts:
  assumes "distinct (map cf_id (cuentas_fin s))" and "\<And>f. f \<in> set (archivos_borrables s) \<Longrightarrow> borra f"
  shows "\<exists>r r' r''. resetSystem borra True True s = (Inr r, s) \<and>
    resetSystem borra True False s = (Inr r', reseteado borra s) \<and> rr_deletedCounts r' = rr_deletedCounts r \<and>
    resetSystem borra True False (reseteado borra s) = (Inr r'', reseteado borra s) \<and>
    suma_conteos (rr_deletedCounts r'') = length (cuentas_fin s)"
proof -
  have all: "filter borra (archivos_borrables s) = archivos_borrables s" using assms(2) by (simp add: filter_id_conv)
  have d: "distinct (map cf_id (cuentas_fin (reseteado borra s)))" using assms(1) by (simp add: reseteado_def comp_def)
  have vacio: "filter borra (archivos_borrables (reseteado borra s)) = []"
    by (auto simp: archivos_borrables_def reseteado_def filter_empty_conv split: option.split)
  have idem: "reseteado borra (reseteado borra s) = reseteado borra s"
    by (cases "archivos_recibos s") (simp_all add: reseteado_def comp_def)
  show ?thesis
    using borrar_todo_run [OF assms(1), of borra] borrar_todo_run [OF d, of borra]
    by (simp add: resetSystem_def ebind_def proc_simps all vacio idem suma_conteos_def)
       (simp add: reseteado_def)
qed

text \<open>the reset leaves behind what points at the data it deletes: a property keeps its contract in force, which
  is no more, and for that reason cannot be made available again; the fiscal documents and the numbers of
  the receipts stay.\<close>

theorem reset_leaves_references:
  assumes "resetSystem borra True False s = (Inr r, s')" and "distinct (map cf_id (cuentas_fin s))"
    and "distinct (map pp_id (propiedades s))"
    and "p \<in> set (propiedades s)" and "contrato_vigente_id p = Some c" and "up_status dto = Some ''DISPONIBLE''"
  shows "p \<in> set (propiedades s') \<and> find_id ct_id c (contratos s') = None \<and>
    pp_update (pp_id p) dto u s' =
      (Inl (BadRequestException ''El estado de la propiedad debe ser liberado por la finalizacion del contrato.'' []), s') \<and>
    documentos_fiscales s' = documentos_fiscales s \<and> secuencias s' = secuencias s"
proof -
  have s': "s' = reseteado borra s"
    using assms(1) borrar_todo_run [OF assms(2), of borra] by (simp add: resetSystem_def ebind_def proc_simps)
  have "find_id pp_id (pp_id p) (propiedades s) = Some p"
    using find_id_Some_iff [OF assms(3)] assms(4) by simp
  then show ?thesis using assms(4-6) by (simp add: s' reseteado_def col_simps pp_update_def ebind_def obtener_def raise_run)
qed

section \<open>Witnesses\<close>

definition bd_adm0 :: bd_adm where
  "bd_adm0 = bd_rec.extend
     (bd_ct.extend ((bd_ct0 [contrato0])\<lparr>asientos := [alquiler], propiedades := [propiedad0\<lparr>contrato_vigente_id := Some 20\<rparr>]\<rparr>)
        (bd_rec.fields [] []))
     (bd_adm.fields [] (Some [''.gitkeep'', ''r.pdf'']))"

theorem reset_dry_run_predicts_witness:
  "\<exists>r r' r''. resetSystem (\<lambda>_. True) True True bd_adm0 = (Inr r, bd_adm0) \<and>
    resetSystem (\<lambda>_. True) True False bd_adm0 = (Inr r', reseteado (\<lambda>_. True) bd_adm0) \<and>
    rr_deletedCounts r' = rr_deletedCounts r \<and>
    resetSystem (\<lambda>_. True) True False (reseteado (\<lambda>_. True) bd_adm0) = (Inr r'', reseteado (\<lambda>_. True) bd_adm0) \<and>
    suma_conteos (rr_deletedCounts r'') = length (cuentas_fin bd_adm0)"
  by (rule reset_dry_run_predicts) code_simp+

definition libre_dto :: update_property_dto where
  "libre_dto = \<lparr>up_status = Some ''DISPONIBLE'', up_contrato_vigente_id = None, up_resto = (\<lambda>p. p)\<rparr>"

theorem reset_leaves_references_witness:
  "\<exists>r s' (p :: propiedad). resetSystem (\<lambda>_. True) True False bd_adm0 = (Inr r, s') \<and> find_id ct_id 20 (contratos s') = None \<and>
    pp_update (pp_id p) libre_dto 8 s' =
      (Inl (BadRequestException ''El estado de la propiedad debe ser liberado por la finalizacion del contrato.'' []), s')"
proof -
  have d: "distinct (map cf_id (cuentas_fin bd_adm0))" "distinct (map pp_id (propiedades bd_adm0))" by code_simp+
  have "exito (resetSystem (\<lambda>_. True) True False) bd_adm0" by code_simp
  from exito_run [OF this] obtain r s' where r: "resetSystem (\<lambda>_. True) True False bd_adm0 = (Inr r, s')" by blast
  have "map contrato_vigente_id (propiedades bd_adm0) = [Some 20]" by code_simp
  then obtain p where p: "p \<in> set (propiedades bd_adm0)" "contrato_vigente_id p = Some 20"
    by (metis list.set_intros(1) map_eq_Cons_D)
  have "up_status libre_dto = Some ''DISPONIBLE''" by (simp add: libre_dto_def)
  from reset_leaves_references [OF r d p this, where u = 8] r show ?thesis
    by (intro exI [of _ r] exI [of _ s'] exI [of _ p] conjI) simp_all
qed

end
